(* ===== verification/Prelude.thy ===== *)
theory Prelude
  imports Main "HOL-Library.List_Lexorder" "HOL-Library.Char_ord" "HOL-Library.Monad_Syntax"
begin

text \<open>
  What every component shares: messages, results, the string helpers of Rust's standard
  library that the source calls (splitting, prefixes, reading numbers), and the theorem
  collections that carry the component proofs.

  Text is a list of bytes (the UTF-8 encoding), which is what Rust compares and orders
  strings by.
\<close>

section \<open>Collections\<close>

named_theorems frame_simps \<open>what an operation leaves unchanged\<close>
named_theorems inv_intros \<open>an operation keeps an invariant\<close>

section \<open>Messages and results\<close>

text \<open>
  A message that the source builds with \<open>format!\<close> is the template and its arguments,
  left unrendered: \<open>Msg ''{} is unavailable'' [Msg entity []]\<close>. Nothing in the code
  branches on the text of a rendered message, except where the models say so.
  Arrows and check marks are spelled in ASCII inside templates.
\<close>

datatype msg = Msg string "msg list" | MInt int

abbreviation plain :: "string \<Rightarrow> msg" where
  "plain s \<equiv> Msg s []"

type_synonym 'a res = "msg + 'a"

abbreviation Ok :: "'a \<Rightarrow> 'a res" where
  "Ok \<equiv> Inr"

abbreviation Err :: "msg \<Rightarrow> 'a res" where
  "Err \<equiv> Inl"

text \<open>Rust's \<open>?\<close> operator on results.\<close>

definition and_then :: "'a res \<Rightarrow> ('a \<Rightarrow> 'b res) \<Rightarrow> 'b res" where
  "and_then r f = (case r of Inl e \<Rightarrow> Inl e | Inr x \<Rightarrow> f x)"

lemma and_then_simps [simp]:
  "and_then (Inl e) f = Inl e"
  "and_then (Inr x) f = f x"
  by (simp_all add: and_then_def)

lemma and_then_Inr_iff:
  "and_then r f = Inr y \<longleftrightarrow> (\<exists>x. r = Inr x \<and> f x = Inr y)"
  by (cases r) simp_all

definition is_ok :: "'a res \<Rightarrow> bool" where
  "is_ok r = (case r of Inl _ \<Rightarrow> False | Inr _ \<Rightarrow> True)"

lemma is_ok_simps [simp]: "is_ok (Inr x)" "\<not> is_ok (Inl e)"
  by (simp_all add: is_ok_def)

text \<open>A check of each element in turn, stopping at the first error (\<open>try_for_each\<close>).\<close>

fun check_each :: "('a \<Rightarrow> unit res) \<Rightarrow> 'a list \<Rightarrow> unit res" where
  "check_each f [] = Ok ()"
| "check_each f (x # xs) = (case f x of Inl e \<Rightarrow> Inl e | Inr _ \<Rightarrow> check_each f xs)"

lemma check_each_ok: "check_each f xs = Ok () \<longleftrightarrow> (\<forall>x \<in> set xs. f x = Ok ())"
  by (induction xs) (auto split: sum.splits)

lemma check_each_cong [fundef_cong]:
  "xs = ys \<Longrightarrow> (\<And>x. x \<in> set ys \<Longrightarrow> f x = g x) \<Longrightarrow> check_each f xs = check_each g ys"
  by (induction xs arbitrary: ys) (auto split: sum.splits)

definition require :: "bool \<Rightarrow> msg \<Rightarrow> unit res" where
  "require b m = (if b then Ok () else Err m)"

lemma require_ok [simp]: "require b m = Inr u \<longleftrightarrow> b"
  by (simp add: require_def)

lemma require_True [simp]: "require True m = Inr ()"
  by (simp add: require_def)

lemma require_False [simp]: "require False m = Inl m"
  by (simp add: require_def)

section \<open>Options\<close>

text \<open>\<open>Option::is_none_or\<close> and \<open>Option::is_some_and\<close>.\<close>

fun is_none_or :: "'a option \<Rightarrow> ('a \<Rightarrow> bool) \<Rightarrow> bool" where
  "is_none_or None p = True"
| "is_none_or (Some x) p = p x"

fun is_some_and :: "'a option \<Rightarrow> ('a \<Rightarrow> bool) \<Rightarrow> bool" where
  "is_some_and None p = False"
| "is_some_and (Some x) p = p x"

lemma is_some_and_iff: "is_some_and x p \<longleftrightarrow> (\<exists>v. x = Some v \<and> p v)"
  by (cases x) auto

lemma is_none_or_iff: "is_none_or x p \<longleftrightarrow> (\<forall>v. x = Some v \<longrightarrow> p v)"
  by (cases x) auto

definition unwrap_or :: "'a option \<Rightarrow> 'a \<Rightarrow> 'a" where
  "unwrap_or x d = (case x of None \<Rightarrow> d | Some y \<Rightarrow> y)"

lemma unwrap_or_simps [simp]: "unwrap_or None d = d" "unwrap_or (Some y) d = y"
  by (simp_all add: unwrap_or_def)

definition or_else :: "'a option \<Rightarrow> 'a option \<Rightarrow> 'a option" where
  "or_else x y = (case x of None \<Rightarrow> y | Some _ \<Rightarrow> x)"

lemma or_else_simps [simp]: "or_else None y = y" "or_else (Some x) y = Some x"
  by (simp_all add: or_else_def)

text \<open>The first element that a partial function maps to something (\<open>find_map\<close>).\<close>

fun find_map :: "('a \<Rightarrow> 'b option) \<Rightarrow> 'a list \<Rightarrow> 'b option" where
  "find_map f [] = None"
| "find_map f (x # xs) = (case f x of None \<Rightarrow> find_map f xs | Some y \<Rightarrow> Some y)"

lemma find_map_None: "find_map f xs = None \<longleftrightarrow> (\<forall>x \<in> set xs. f x = None)"
  by (induction xs) (auto split: option.splits)

lemma find_map_Some: "find_map f xs = Some y \<Longrightarrow> \<exists>x \<in> set xs. f x = Some y"
  by (induction xs) (auto split: option.splits)

section \<open>Strings\<close>

text \<open>\<open>split(c)\<close>: the pieces between the separators, at least one.\<close>

fun split_on :: "char \<Rightarrow> string \<Rightarrow> string list" where
  "split_on c [] = [[]]"
| "split_on c (x # xs) =
     (if x = c then [] # split_on c xs
      else (case split_on c xs of [] \<Rightarrow> [[x]] | p # ps \<Rightarrow> (x # p) # ps))"

lemma split_on_nonempty [simp]: "split_on c xs \<noteq> []"
  by (induction xs) (auto split: list.splits)

lemma split_on_none: "c \<notin> set xs \<Longrightarrow> split_on c xs = [xs]"
  by (induction xs) auto

lemma split_on_append: "c \<notin> set xs \<Longrightarrow> split_on c (xs @ c # ys) = xs # split_on c ys"
  by (induction xs) auto

lemma split_on_no_sep: "p \<in> set (split_on c xs) \<Longrightarrow> c \<notin> set p"
  by (induction xs arbitrary: p) (auto split: if_splits list.splits)

text \<open>\<open>split_once(c)\<close>: before and after the first separator, if there is one.\<close>

fun split_once :: "char \<Rightarrow> string \<Rightarrow> (string \<times> string) option" where
  "split_once c [] = None"
| "split_once c (x # xs) =
     (if x = c then Some ([], xs)
      else (case split_once c xs of None \<Rightarrow> None | Some (a, b) \<Rightarrow> Some (x # a, b)))"

lemma split_once_None: "split_once c xs = None \<longleftrightarrow> c \<notin> set xs"
  by (induction xs) (auto split: option.splits)

lemma split_once_append: "c \<notin> set a \<Longrightarrow> split_once c (a @ c # b) = Some (a, b)"
  by (induction a) auto

lemma split_once_Some: "split_once c xs = Some (a, b) \<Longrightarrow> xs = a @ c # b \<and> c \<notin> set a"
  by (induction xs arbitrary: a) (auto split: if_splits option.splits)

text \<open>\<open>strip_prefix\<close>.\<close>

fun strip_prefix :: "string \<Rightarrow> string \<Rightarrow> string option" where
  "strip_prefix [] xs = Some xs"
| "strip_prefix (p # ps) [] = None"
| "strip_prefix (p # ps) (x # xs) = (if p = x then strip_prefix ps xs else None)"

lemma strip_prefix_append [simp]: "strip_prefix p (p @ xs) = Some xs"
  by (induction p) auto

lemma strip_prefix_Some: "strip_prefix p xs = Some ys \<longleftrightarrow> xs = p @ ys"
  by (induction p xs rule: strip_prefix.induct) auto

definition starts_with :: "string \<Rightarrow> string \<Rightarrow> bool" where
  "starts_with xs p = (strip_prefix p xs \<noteq> None)"

subsection \<open>Digits and numbers\<close>

definition byte_of :: "char \<Rightarrow> nat" where
  "byte_of c = of_char c"

definition is_digit :: "char \<Rightarrow> bool" where
  "is_digit c \<longleftrightarrow> 48 \<le> byte_of c \<and> byte_of c \<le> 57"

definition is_lower :: "char \<Rightarrow> bool" where
  "is_lower c \<longleftrightarrow> 97 \<le> byte_of c \<and> byte_of c \<le> 122"

definition digit_val :: "char \<Rightarrow> nat" where
  "digit_val c = byte_of c - 48"

definition digits_val :: "string \<Rightarrow> nat" where
  "digits_val ds = foldl (\<lambda>n c. 10 * n + digit_val c) 0 ds"

text \<open>The leading digits of a text, and what follows them.\<close>

definition span_digits :: "string \<Rightarrow> string \<times> string" where
  "span_digits s = (takeWhile is_digit s, dropWhile is_digit s)"

text \<open>\<open>str::parse\<close> at an unsigned type with largest value \<open>mx\<close>: an optional \<open>+\<close>,
  then at least one digit and nothing else, and no overflow.\<close>

definition parse_uint :: "nat \<Rightarrow> string \<Rightarrow> nat option" where
  "parse_uint mx s =
     (let ds = (case s of [] \<Rightarrow> [] | c # cs \<Rightarrow> if c = CHR ''+'' then cs else s)
      in if ds \<noteq> [] \<and> list_all is_digit ds \<and> digits_val ds \<le> mx
         then Some (digits_val ds) else None)"

lemma parse_uint_bound: "parse_uint mx s = Some n \<Longrightarrow> n \<le> mx"
  by (auto simp: parse_uint_def Let_def split: if_splits list.splits)

text \<open>Decimal printing of a natural number.\<close>

definition digit_char :: "nat \<Rightarrow> char" where
  "digit_char d = char_of (48 + d)"

fun show_nat :: "nat \<Rightarrow> string" where
  "show_nat n = (if n < 10 then [digit_char n] else show_nat (n div 10) @ [digit_char (n mod 10)])"

declare show_nat.simps [simp del]

lemma byte_of_digit_char: "d < 10 \<Longrightarrow> byte_of (digit_char d) = 48 + d"
  by (simp add: byte_of_def digit_char_def)

lemma is_digit_digit_char [simp]: "d < 10 \<Longrightarrow> is_digit (digit_char d)"
  by (simp add: is_digit_def byte_of_digit_char)

lemma digit_val_digit_char [simp]: "d < 10 \<Longrightarrow> digit_val (digit_char d) = d"
  by (simp add: digit_val_def byte_of_digit_char)

lemma digits_val_snoc [simp]: "digits_val (ds @ [c]) = 10 * digits_val ds + digit_val c"
  by (simp add: digits_val_def)

lemma digits_val_Nil [simp]: "digits_val [] = 0"
  by (simp add: digits_val_def)

lemma show_nat_nonempty [simp]: "show_nat n \<noteq> []"
  by (subst show_nat.simps) simp

lemma show_nat_digits [simp]: "list_all is_digit (show_nat n)"
proof (induction n rule: show_nat.induct)
  case (1 n)
  show ?case
    by (subst show_nat.simps) (use 1 in auto)
qed

lemma digits_val_show_nat [simp]: "digits_val (show_nat n) = n"
proof (induction n rule: show_nat.induct)
  case (1 n)
  show ?case
  proof (cases "n < 10")
    case True
    then have "show_nat n = [] @ [digit_char n]"
      by (subst show_nat.simps) simp
    with True show ?thesis
      by (metis digits_val_snoc digits_val_Nil digit_val_digit_char mult_0_right add_0)
  next
    case False
    then have "show_nat n = show_nat (n div 10) @ [digit_char (n mod 10)]"
      by (subst show_nat.simps) simp
    with 1 False show ?thesis by simp
  qed
qed

lemma show_nat_in_digits: "c \<in> set (show_nat n) \<Longrightarrow> is_digit c"
  using show_nat_digits[of n] by (simp add: list_all_iff)

lemma not_digit_chars [simp]:
  "\<not> is_digit CHR ''+''" "\<not> is_digit CHR ''-''" "\<not> is_digit CHR '':''"
  "\<not> is_digit CHR ''d''" "\<not> is_digit CHR ''h''" "\<not> is_digit CHR ''m''"
  "\<not> is_digit CHR ''s''" "\<not> is_digit CHR '',''" "\<not> is_digit CHR ''/''"
  "\<not> is_digit CHR ''*''" "\<not> is_digit CHR '' ''" "\<not> is_digit CHR ''_''" "\<not> is_digit CHR ''.''"
  by (simp_all add: is_digit_def byte_of_def)

lemma parse_uint_show_nat: "n \<le> mx \<Longrightarrow> parse_uint mx (show_nat n) = Some n"
proof -
  assume "n \<le> mx"
  obtain c cs where cs: "show_nat n = c # cs"
    using show_nat_nonempty by (meson neq_Nil_conv)
  then have "is_digit c" using show_nat_in_digits[of c n] by simp
  then have "c \<noteq> CHR ''+''" by auto
  with \<open>n \<le> mx\<close> show ?thesis
    using show_nat_digits[of n] digits_val_show_nat[of n]
    by (simp add: parse_uint_def cs Let_def)
qed

lemma span_digits_show_nat:
  "(case rest of [] \<Rightarrow> True | c # _ \<Rightarrow> \<not> is_digit c) \<Longrightarrow>
   span_digits (show_nat n @ rest) = (show_nat n, rest)"
proof -
  assume rest: "case rest of [] \<Rightarrow> True | c # _ \<Rightarrow> \<not> is_digit c"
  have all: "\<forall>c \<in> set (show_nat n). is_digit c"
    using show_nat_in_digits by blast
  with rest show ?thesis
    by (cases rest) (simp_all add: span_digits_def takeWhile_append2 dropWhile_append2)
qed

subsection \<open>Whitespace\<close>

text \<open>
  The bytes of a whitespace character (Unicode \<open>White_Space\<close>, in UTF-8) at the front of a
  text: how many there are, 0 when the text starts with something else.
\<close>

definition ws_len :: "string \<Rightarrow> nat" where
  "ws_len s =
     (case map byte_of (take 3 s) of
        [] \<Rightarrow> 0
      | a # r \<Rightarrow>
          if (9 \<le> a \<and> a \<le> 13) \<or> a = 32 then 1
          else (case r of
              [] \<Rightarrow> 0
            | b # r' \<Rightarrow>
                if a = 194 \<and> (b = 133 \<or> b = 160) then 2
                else (case r' of
                    [] \<Rightarrow> 0
                  | c # _ \<Rightarrow>
                      if (a = 225 \<and> b = 154 \<and> c = 128)
                         \<or> (a = 226 \<and> b = 128 \<and> ((128 \<le> c \<and> c \<le> 138) \<or> c = 168 \<or> c = 169 \<or> c = 175))
                         \<or> (a = 226 \<and> b = 129 \<and> c = 159)
                         \<or> (a = 227 \<and> b = 128 \<and> c = 128)
                      then 3 else 0)))"

text \<open>\<open>split_whitespace\<close>: the non-empty pieces between runs of whitespace. \<open>acc\<close> is the
  piece being read, last byte first.\<close>

function split_ws_from :: "string \<Rightarrow> string \<Rightarrow> string list" where
  "split_ws_from acc s =
     (case s of
        [] \<Rightarrow> (if acc = [] then [] else [rev acc])
      | x # xs \<Rightarrow>
          if ws_len s = 0 then split_ws_from (x # acc) xs
          else (if acc = [] then [] else [rev acc]) @ split_ws_from [] (drop (ws_len s) s))"
  by pat_completeness auto
termination
  by (relation "measure (\<lambda>(acc, s). length s)") auto

declare split_ws_from.simps [simp del]

definition split_whitespace :: "string \<Rightarrow> string list" where
  "split_whitespace s = split_ws_from [] s"

lemma split_ws_from_Nil [simp]: "split_ws_from acc [] = (if acc = [] then [] else [rev acc])"
  by (simp add: split_ws_from.simps)

lemma split_ws_from_space [simp]:
  "split_ws_from acc (CHR '' '' # xs) = (if acc = [] then [] else [rev acc]) @ split_ws_from [] xs"
  by (simp add: split_ws_from.simps [of acc "CHR '' '' # xs"] ws_len_def byte_of_def)

lemma split_ws_from_ascii:
  assumes "32 < byte_of x" "byte_of x < 128"
  shows "split_ws_from acc (x # xs) = split_ws_from (x # acc) xs"
proof -
  have "ws_len (x # xs) = 0"
    using assms by (auto simp: ws_len_def split: list.splits)
  then show ?thesis
    by (simp add: split_ws_from.simps [of acc "x # xs"])
qed

lemma split_ws_from_word:
  "\<forall>c \<in> set w. 32 < byte_of c \<and> byte_of c < 128 \<Longrightarrow>
   split_ws_from acc (w @ s) = split_ws_from (rev w @ acc) s"
  by (induction w arbitrary: acc) (auto simp: split_ws_from_ascii)

section \<open>Lists\<close>

text \<open>\<open>retain\<close>, \<open>contains\<close> and the rest of Rust's list vocabulary is HOL's
  \<open>filter\<close> and \<open>\<in> set\<close>. \<open>Vec::dedup\<close> drops an element equal to the one kept before it.\<close>

fun dedup :: "'a list \<Rightarrow> 'a list" where
  "dedup [] = []"
| "dedup [x] = [x]"
| "dedup (x # y # ys) = (if x = y then dedup (y # ys) else x # dedup (y # ys))"

lemma set_dedup [simp]: "set (dedup xs) = set xs"
  by (induction xs rule: dedup.induct) auto

lemma dedup_Cons_ex: "\<exists>zs. dedup (x # xs) = x # zs"
  by (induction xs arbitrary: x) auto

lemma dedup_nonempty [simp]: "dedup xs = [] \<longleftrightarrow> xs = []"
proof (cases xs)
  case (Cons x ys)
  then show ?thesis using dedup_Cons_ex[of x ys] by auto
qed simp

lemma sort_eq_Nil [simp]: "sort xs = [] \<longleftrightarrow> xs = []"
  by (metis length_0_conv length_sort)

lemma sorted_dedup_strict: "sorted xs \<Longrightarrow> sorted_wrt (<) (dedup xs)"
  for xs :: "'a::linorder list"
proof (induction xs rule: dedup.induct)
  case (3 x y ys)
  then have "\<forall>z \<in> set (dedup (y # ys)). x \<le> z"
    by auto
  show ?case
  proof (cases "x = y")
    case True
    with 3 show ?thesis by simp
  next
    case False
    with 3 have "x < y" by (simp add: order.strict_iff_order)
    with 3 have "\<forall>z \<in> set (dedup (y # ys)). x < z" by auto
    with 3 False show ?thesis by simp
  qed
qed simp_all

end
