(* ===== verification/Durations.thy ===== *)
theory Durations
  imports Prelude
begin

text \<open>
  Compact durations and times of day (\<open>crates/irori-rules/src/rule.rs\<close>): \<open>parse_millis\<close> with
  its saturating 64-bit arithmetic, what \<open>CompactDuration\<close> offers on top of it, and
  \<open>parse_civil\<close>.  A duration is kept as its text, as the source keeps it.
\<close>

section \<open>64-bit saturation\<close>

definition i64_max :: int where
  "i64_max = 9223372036854775807"

definition i64_min :: int where
  "i64_min = - 9223372036854775808"

text \<open>\<open>saturating_add\<close> and \<open>saturating_mul\<close> clamp the exact result.\<close>

definition sat64 :: "int \<Rightarrow> int" where
  "sat64 x = max i64_min (min i64_max x)"

text \<open>\<open>x as i64\<close> for a 64-bit pattern read as an unsigned number.\<close>

definition as_i64 :: "int \<Rightarrow> int" where
  "as_i64 x = (x + 9223372036854775808) mod 18446744073709551616 - 9223372036854775808"

section \<open>Reading a duration\<close>

definition min_duration_ms :: int where
  "min_duration_ms = 1"

definition max_duration_ms :: int where
  "max_duration_ms = 7 * 24 * 60 * 60 * 1000"

text \<open>The unit at the front of a text: its milliseconds, its index in the order
  d, h, m, s, ms, and its length.\<close>

definition unit_at :: "string \<Rightarrow> (int \<times> nat \<times> nat) option" where
  "unit_at after =
     (if starts_with after ''ms'' then Some (1, 4, 2)
      else if starts_with after ''d'' then Some (86400000, 0, 1)
      else if starts_with after ''h'' then Some (3600000, 1, 1)
      else if starts_with after ''m'' then Some (60000, 2, 1)
      else if starts_with after ''s'' then Some (1000, 3, 1)
      else None)"

text \<open>The \<open>while\<close> loop of \<open>parse_millis\<close>: \<open>seen\<close>, \<open>last_index\<close> and \<open>total\<close> are its
  variables, \<open>text\<close> is what the messages quote.\<close>

function scan_units :: "string \<Rightarrow> bool list \<Rightarrow> int \<Rightarrow> int \<Rightarrow> string \<Rightarrow> int res" where
  "scan_units text seen last_index total_ms remaining =
     (if remaining = [] then Ok total_ms
      else
        let (number, after) = span_digits remaining in
        if number = [] then
          Err (Msg ''invalid duration {:?}: compact form, no spaces, units d/h/m/s/ms in that order'' [plain text])
        else if int (digits_val number) > i64_max then
          Err (Msg ''invalid duration {:?}: number too large'' [plain text])
        else (case unit_at after of
            None \<Rightarrow>
              Err (Msg ''invalid duration {:?}: compact form, no spaces, units d/h/m/s/ms in that order'' [plain text])
          | Some (unit_ms, index, consumed) \<Rightarrow>
              if int index \<le> last_index \<or> seen ! index then
                Err (Msg ''invalid duration {:?}: units must appear at most once, in order d, h, m, s, ms'' [plain text])
              else
                scan_units text (seen[index := True]) (int index)
                  (sat64 (total_ms + sat64 (int (digits_val number) * unit_ms)))
                  (drop consumed after)))"
  by pat_completeness auto
termination
proof (relation "measure (\<lambda>(_, _, _, _, remaining). length remaining)", goal_cases)
  case (2 s0 seen last_index total_ms remaining p number after q unit_ms r index consumed)
  then have "remaining = number @ after" "number \<noteq> []"
    by (auto simp: span_digits_def)
  then have "length after < length remaining" by (cases number) auto
  moreover have "length (drop consumed after) \<le> length after" by simp
  ultimately show ?case by simp
qed simp

declare scan_units.simps [simp del]

definition parse_millis :: "string \<Rightarrow> int res" where
  "parse_millis text =
     (let (sign, rest) =
        (case strip_prefix ''-'' text of
           Some rest \<Rightarrow> (- 1, rest)
         | None \<Rightarrow> (case strip_prefix ''+'' text of
             Some rest \<Rightarrow> (1, rest)
           | None \<Rightarrow> (1, text)))
      in if rest = [] then
           Err (Msg ''invalid duration {:?}: needs at least one unit (e.g. 2m, 10m, 500ms)'' [plain text])
         else
           and_then (scan_units text (replicate 5 False) (- 1) 0 rest) (\<lambda>total_ms.
             let signed = sat64 (sign * total_ms);
                 abs_ms = as_i64 \<bar>signed\<bar>
             in if min_duration_ms \<le> abs_ms \<and> abs_ms \<le> max_duration_ms then Ok signed
                else Err (Msg ''duration {:?} must be from 1ms to 7d (got {}ms)'' [plain text, MInt signed])))"

type_synonym compact_duration = string

text \<open>\<open>CompactDuration::millis\<close>, \<open>require_positive\<close> and \<open>require_nonzero\<close>.\<close>

definition dur_millis :: "compact_duration \<Rightarrow> int" where
  "dur_millis d = (case parse_millis d of Inl _ \<Rightarrow> 0 | Inr ms \<Rightarrow> ms)"

definition require_positive :: "compact_duration \<Rightarrow> string \<Rightarrow> unit res" where
  "require_positive d field =
     and_then (parse_millis d) (\<lambda>ms.
       require (0 < ms) (Msg ''{} must be a positive duration (got {:?})'' [plain field, plain d]))"

definition require_nonzero :: "compact_duration \<Rightarrow> string \<Rightarrow> unit res" where
  "require_nonzero d field =
     and_then (parse_millis d) (\<lambda>ms.
       require (ms \<noteq> 0) (Msg ''{} must not be zero (got {:?})'' [plain field, plain d]))"

text \<open>\<open>CompactDuration::try_from\<close> and \<open>deserialize\<close>: the text, when it reads.\<close>

definition duration_of_text :: "string \<Rightarrow> compact_duration res" where
  "duration_of_text text = and_then (parse_millis text) (\<lambda>_. Ok text)"

section \<open>The grammar of durations\<close>

text \<open>What a duration is meant to be: numbers each followed by a unit, the units in the order
  d, h, m, s, ms, and the exact sum of what they stand for.\<close>

definition unit_name :: "nat \<Rightarrow> string" where
  "unit_name i = [''d'', ''h'', ''m'', ''s'', ''ms''] ! i"

definition unit_millis :: "nat \<Rightarrow> int" where
  "unit_millis i = [86400000, 3600000, 60000, 1000, 1] ! i"

type_synonym dur_part = "string \<times> nat"

fun parts_text :: "dur_part list \<Rightarrow> string" where
  "parts_text [] = []"
| "parts_text ((ds, i) # ps) = ds @ unit_name i @ parts_text ps"

fun parts_ok :: "int \<Rightarrow> dur_part list \<Rightarrow> bool" where
  "parts_ok prev [] = True"
| "parts_ok prev ((ds, i) # ps) \<longleftrightarrow>
     ds \<noteq> [] \<and> list_all is_digit ds \<and> prev < int i \<and> i < 5 \<and> parts_ok (int i) ps"

fun parts_millis :: "dur_part list \<Rightarrow> int" where
  "parts_millis [] = 0"
| "parts_millis ((ds, i) # ps) = int (digits_val ds) * unit_millis i + parts_millis ps"

definition parts_fit :: "dur_part list \<Rightarrow> bool" where
  "parts_fit ps = list_all (\<lambda>(ds, i). int (digits_val ds) \<le> i64_max) ps"

lemma unit_index_cases: "i < 5 \<Longrightarrow> (i = 0 \<Longrightarrow> P) \<Longrightarrow> (i = 1 \<Longrightarrow> P) \<Longrightarrow> (i = 2 \<Longrightarrow> P) \<Longrightarrow> (i = 3 \<Longrightarrow> P)
    \<Longrightarrow> (i = 4 \<Longrightarrow> P) \<Longrightarrow> P" for i :: nat
  by linarith

lemma unit_millis_pos: "i < 5 \<Longrightarrow> 1 \<le> unit_millis i"
  by (erule unit_index_cases) (simp_all add: unit_millis_def)

lemma parts_millis_nonneg: "parts_ok prev ps \<Longrightarrow> 0 \<le> parts_millis ps"
proof (induction prev ps rule: parts_ok.induct)
  case (2 prev ds i ps)
  then have "0 \<le> int (digits_val ds) * unit_millis i"
    using unit_millis_pos[of i] by simp
  with 2 show ?case by simp
qed simp

text \<open>No text of parts starts with the \<open>s\<close> that would turn an \<open>m\<close> before it into \<open>ms\<close>.\<close>

lemma parts_text_start:
  "parts_ok prev ps \<Longrightarrow> parts_text ps = [] \<or> is_digit (hd (parts_text ps))"
  by (cases ps rule: parts_text.cases) (auto simp: hd_append list_all_iff)

lemma not_s_start:
  "parts_ok prev ps \<Longrightarrow> \<not> starts_with (CHR ''m'' # parts_text ps) ''ms''"
  using parts_text_start[of prev ps]
  by (cases "parts_text ps") (auto simp: starts_with_def split: if_splits)

lemma unit_at_name:
  "i < 5 \<Longrightarrow> parts_ok prev ps \<Longrightarrow>
   unit_at (unit_name i @ parts_text ps) = Some (unit_millis i, i, length (unit_name i))"
  by (frule not_s_start, erule unit_index_cases)
     (simp_all add: unit_at_def unit_name_def unit_millis_def starts_with_def)

lemma unit_at_Some:
  "unit_at after = Some (u, i, n) \<Longrightarrow>
   i < 5 \<and> u = unit_millis i \<and> n = length (unit_name i) \<and> after = unit_name i @ drop n after"
  by (auto simp: unit_at_def starts_with_def strip_prefix_Some unit_name_def unit_millis_def
      split: if_splits)

lemma unit_name_not_digit:
  "i < 5 \<Longrightarrow> case unit_name i @ s of [] \<Rightarrow> True | c # _ \<Rightarrow> \<not> is_digit c"
  by (erule unit_index_cases) (simp_all add: unit_name_def)

lemma span_digits_append:
  "list_all is_digit ds \<Longrightarrow> (case rest of [] \<Rightarrow> True | c # _ \<Rightarrow> \<not> is_digit c) \<Longrightarrow>
   span_digits (ds @ rest) = (ds, rest)"
  by (cases rest) (simp_all add: span_digits_def list_all_iff takeWhile_append2 dropWhile_append2)

lemma span_digits_split:
  "span_digits s = (ds, rest) \<Longrightarrow> s = ds @ rest \<and> list_all is_digit ds"
  by (auto simp: span_digits_def list_all_iff dest: set_takeWhileD)

definition sat_sum :: "int \<Rightarrow> dur_part list \<Rightarrow> int" where
  "sat_sum t ps = foldl (\<lambda>t (ds, i). sat64 (t + sat64 (int (digits_val ds) * unit_millis i))) t ps"

lemma sat_sum_simps [simp]:
  "sat_sum t [] = t"
  "sat_sum t ((ds, i) # ps) = sat_sum (sat64 (t + sat64 (int (digits_val ds) * unit_millis i))) ps"
  by (simp_all add: sat_sum_def)

text \<open>Saturating at each step is saturating the exact sum once.\<close>

lemma sat_sum_exact:
  "parts_ok prev ps \<Longrightarrow> 0 \<le> t \<Longrightarrow> t \<le> i64_max \<Longrightarrow> sat_sum t ps = min i64_max (t + parts_millis ps)"
proof (induction prev ps arbitrary: t rule: parts_ok.induct)
  case (2 prev ds i ps)
  define x where "x = int (digits_val ds) * unit_millis i"
  have x: "0 \<le> x" using unit_millis_pos[of i] 2 by (simp add: x_def)
  define t' where "t' = sat64 (t + sat64 x)"
  have t': "0 \<le> t'" "t' \<le> i64_max" "t' = min i64_max (t + x)"
    using x 2 by (auto simp: t'_def sat64_def i64_min_def i64_max_def)
  have "sat_sum t' ps = min i64_max (t' + parts_millis ps)"
    by (rule 2(1)) (use 2 t' in auto)
  moreover have "0 \<le> parts_millis ps"
    by (rule parts_millis_nonneg) (use 2 in auto)
  ultimately show ?case
    using t'(3) x by (simp add: t'_def [symmetric] x_def [symmetric])
qed simp

definition seen_below :: "bool list \<Rightarrow> int \<Rightarrow> bool" where
  "seen_below seen prev \<longleftrightarrow> length seen = 5 \<and> (\<forall>i < 5. seen ! i \<longrightarrow> int i \<le> prev)"

lemma seen_below_step: "seen_below seen prev \<Longrightarrow> prev < int i \<Longrightarrow> i < 5 \<Longrightarrow> seen_below (seen[i := True]) (int i)"
  by (auto simp: seen_below_def nth_list_update)

lemma seen_below_start: "seen_below (replicate 5 False) (- 1)"
  by (simp add: seen_below_def)

text \<open>The loop accepts exactly the texts of parts in order.\<close>

lemma scan_units_complete:
  "parts_ok prev ps \<Longrightarrow> seen_below seen prev \<Longrightarrow> parts_fit ps \<Longrightarrow>
   scan_units text seen prev total_ms (parts_text ps) = Ok (sat_sum total_ms ps)"
proof (induction prev ps arbitrary: seen total_ms rule: parts_ok.induct)
  case (1 prev)
  then show ?case by (simp add: scan_units.simps)
next
  case (2 prev ds i ps)
  have i: "prev < int i" "i < 5" "ds \<noteq> []" "list_all is_digit ds" "parts_ok (int i) ps"
    using 2 by simp_all
  then have "\<not> seen ! i" using 2(3) by (auto simp: seen_below_def)
  moreover have "span_digits (parts_text ((ds, i) # ps)) = (ds, unit_name i @ parts_text ps)"
    using i by (simp add: span_digits_append unit_name_not_digit)
  moreover have "int (digits_val ds) \<le> i64_max" "parts_fit ps"
    using 2(4) by (simp_all add: parts_fit_def)
  ultimately show ?case
    using i 2 by (subst scan_units.simps)
      (simp add: unit_at_name seen_below_step)
qed

lemma scan_units_sound:
  "scan_units s0 seen prev total_ms s = Ok t \<Longrightarrow> seen_below seen prev \<Longrightarrow>
   \<exists>ps. s = parts_text ps \<and> parts_ok prev ps \<and> parts_fit ps \<and> t = sat_sum total_ms ps"
proof (induction s0 seen prev total_ms s arbitrary: t rule: scan_units.induct)
  case (1 s0 seen prev total_ms s)
  show ?case
  proof (cases "s = []")
    case True
    with 1(2) have "t = total_ms" by (simp add: scan_units.simps)
    with True show ?thesis by (intro exI[of _ "[]"]) (simp add: parts_fit_def)
  next
    case False
    obtain ds after where sp: "span_digits s = (ds, after)" by (cases "span_digits s")
    from 1(2) False sp have ds: "ds \<noteq> []" "int (digits_val ds) \<le> i64_max"
      by (auto simp: scan_units.simps [of _ _ _ _ s] Let_def split: if_splits)
    with 1(2) False sp obtain u i n where u: "unit_at after = Some (u, i, n)"
      by (auto simp: scan_units.simps [of _ _ _ _ s] Let_def split: if_splits option.splits)
    with 1(2) False sp ds have i: "prev < int i" "\<not> seen ! i"
      and rec: "scan_units s0 (seen[i := True]) (int i)
        (sat64 (total_ms + sat64 (int (digits_val ds) * u))) (drop n after) = Ok t"
      by (auto simp: scan_units.simps [of _ _ _ _ s] Let_def split: if_splits)
    from unit_at_Some[OF u] have ui: "i < 5" "u = unit_millis i" "after = unit_name i @ drop n after"
      by auto
    have "seen_below (seen[i := True]) (int i)"
      using 1(3) i ui by (intro seen_below_step)
    with rec obtain ps where ps: "drop n after = parts_text ps" "parts_ok (int i) ps" "parts_fit ps"
      "t = sat_sum (sat64 (total_ms + sat64 (int (digits_val ds) * u))) ps"
      using 1(1)[OF False sp[symmetric] refl] ds i u by force
    from span_digits_split[OF sp] ui(3) ps(1) have "s = parts_text ((ds, i) # ps)"
      by simp
    with ps ds i ui span_digits_split[OF sp] show ?thesis
      by (intro exI[of _ "(ds, i) # ps"]) (simp add: parts_fit_def)
  qed
qed


lemma scan_units_iff:
  "scan_units text (replicate 5 False) (- 1) 0 s = Ok t \<longleftrightarrow>
   (\<exists>ps. s = parts_text ps \<and> parts_ok (- 1) ps \<and> parts_fit ps \<and> t = min i64_max (parts_millis ps))"
  (is "?l \<longleftrightarrow> ?r")
proof
  assume ?l
  from scan_units_sound[OF this seen_below_start] show ?r
    by (force simp: sat_sum_exact i64_max_def)
next
  assume ?r
  then obtain ps where "s = parts_text ps" "parts_ok (- 1) ps" "parts_fit ps"
    "t = min i64_max (parts_millis ps)" by auto
  with scan_units_complete[OF this(2) seen_below_start this(3), of "text" 0] show ?l
    by (simp add: sat_sum_exact i64_max_def)
qed

lemma parts_fit_small:
  "parts_ok prev ps \<Longrightarrow> parts_millis ps \<le> i64_max \<Longrightarrow> parts_fit ps"
proof (induction prev ps rule: parts_ok.induct)
  case (2 prev ds i ps)
  let ?v = "int (digits_val ds)"
  have "1 \<le> unit_millis i" using unit_millis_pos[of i] 2(2) by simp
  then have "?v * 1 \<le> ?v * unit_millis i" by (intro mult_left_mono) auto
  moreover have "0 \<le> parts_millis ps" by (rule parts_millis_nonneg) (use 2(2) in auto)
  ultimately show ?case using 2 by (simp add: parts_fit_def)
qed (simp add: parts_fit_def)

lemma sign_of_range:
  fixes t :: int
  assumes "0 \<le> t" "t \<le> i64_max" "g = 1 \<or> g = - 1"
  shows "sat64 (g * t) = g * t \<and> as_i64 \<bar>g * t\<bar> = t"
  using assms by (auto simp: sat64_def i64_min_def i64_max_def as_i64_def)

datatype dur_sign = NoSign | PlusSign | MinusSign

fun sign_text :: "dur_sign \<Rightarrow> string" where
  "sign_text NoSign = []"
| "sign_text PlusSign = ''+''"
| "sign_text MinusSign = ''-''"

fun sign_val :: "dur_sign \<Rightarrow> int" where
  "sign_val NoSign = 1"
| "sign_val PlusSign = 1"
| "sign_val MinusSign = - 1"

definition split_sign :: "string \<Rightarrow> dur_sign \<times> string" where
  "split_sign text =
     (case strip_prefix ''-'' text of
        Some rest \<Rightarrow> (MinusSign, rest)
      | None \<Rightarrow> (case strip_prefix ''+'' text of Some rest \<Rightarrow> (PlusSign, rest) | None \<Rightarrow> (NoSign, text)))"

lemma split_sign_text: "split_sign text = (sg, rest) \<Longrightarrow> text = sign_text sg @ rest"
  by (auto simp: split_sign_def strip_prefix_Some split: option.splits)

lemma split_sign_unique:
  "rest \<noteq> [] \<Longrightarrow> is_digit (hd rest) \<Longrightarrow> split_sign (sign_text sg @ rest) = (sg, rest)"
  by (cases sg; cases rest) (auto simp: split_sign_def)

lemma parse_millis_split:
  "split_sign text = (sg, rest) \<Longrightarrow>
   parse_millis text = Ok ms \<longleftrightarrow>
     (rest \<noteq> [] \<and> (\<exists>t. scan_units text (replicate 5 False) (- 1) 0 rest = Ok t
        \<and> 1 \<le> as_i64 \<bar>sat64 (sign_val sg * t)\<bar>
        \<and> as_i64 \<bar>sat64 (sign_val sg * t)\<bar> \<le> 604800000 \<and> ms = sat64 (sign_val sg * t)))"
  by (auto simp: split_sign_def parse_millis_def and_then_Inr_iff Let_def
      min_duration_ms_def max_duration_ms_def split: option.splits if_splits)

lemma sign_val_cases: "sign_val sg = 1 \<or> sign_val sg = - 1"
  by (cases sg) simp_all

text \<open>
  C16. Reading a duration is exact: \<open>parse_millis\<close> answers \<open>ms\<close> for a text just when the text is
  an optional sign and numbers with the units d, h, m, s, ms, each at most once and in that
  order, \<open>ms\<close> is the exact signed sum in unbounded arithmetic, and the sum is from 1 ms to
  7 days. So neither the 64-bit saturation nor the \<open>as i64\<close> cast can show in a result.
\<close>

theorem parse_millis_exact:
  "(parse_millis text = Ok ms) =
   (\<exists>sg ps. text = sign_text sg @ parts_text ps \<and> ps \<noteq> [] \<and> parts_ok (- 1) ps
      \<and> ms = sign_val sg * parts_millis ps \<and> 1 \<le> parts_millis ps \<and> parts_millis ps \<le> 604800000)"
  (is "?l = ?r")
proof
  assume ?l
  obtain sg rest where sp: "split_sign text = (sg, rest)" by (cases "split_sign text")
  with \<open>?l\<close> obtain t where t: "rest \<noteq> []" "scan_units text (replicate 5 False) (- 1) 0 rest = Ok t"
    "1 \<le> as_i64 \<bar>sat64 (sign_val sg * t)\<bar>" "as_i64 \<bar>sat64 (sign_val sg * t)\<bar> \<le> 604800000"
    "ms = sat64 (sign_val sg * t)"
    by (auto simp: parse_millis_split)
  from t(2) obtain ps where ps: "rest = parts_text ps" "parts_ok (- 1) ps"
    "t = min i64_max (parts_millis ps)"
    by (auto simp: scan_units_iff)
  have "0 \<le> parts_millis ps" using ps(2) by (rule parts_millis_nonneg)
  with ps(3) have "0 \<le> t" "t \<le> i64_max" by (auto simp: i64_max_def)
  from sign_of_range[OF this sign_val_cases] t have "ms = sign_val sg * t" "1 \<le> t" "t \<le> 604800000"
    by auto
  with ps(3) have "t = parts_millis ps" by (auto simp: i64_max_def min_def split: if_splits)
  with ps t(1) \<open>ms = sign_val sg * t\<close> \<open>1 \<le> t\<close> \<open>t \<le> 604800000\<close> split_sign_text[OF sp] show ?r
    by (intro exI[of _ sg] exI[of _ ps]) auto
next
  assume ?r
  then obtain sg ps where r: "text = sign_text sg @ parts_text ps" "ps \<noteq> []" "parts_ok (- 1) ps"
    "ms = sign_val sg * parts_millis ps" "1 \<le> parts_millis ps" "parts_millis ps \<le> 604800000"
    by blast
  have ne: "parts_text ps \<noteq> []" using r(2,3) by (cases ps rule: parts_text.cases) auto
  with parts_text_start[OF r(3)] have sp: "split_sign text = (sg, parts_text ps)"
    using r(1) split_sign_unique by simp
  have "scan_units text (replicate 5 False) (- 1) 0 (parts_text ps) = Ok (parts_millis ps)"
    unfolding scan_units_iff
    by (rule exI[of _ ps]) (use r parts_fit_small[OF r(3)] in \<open>auto simp: i64_max_def\<close>)
  with r ne sp sign_of_range[OF _ _ sign_val_cases, of "parts_millis ps" sg] show ?l
    by (auto simp: parse_millis_split i64_max_def)
qed

section \<open>Times of day\<close>

text \<open>\<open>parse_civil\<close>. A time of day is kept as its text too.\<close>

type_synonym civil_time = string

definition civil_piece :: "string \<Rightarrow> string \<Rightarrow> nat \<Rightarrow> string \<Rightarrow> nat res" where
  "civil_piece text piece mx what =
     (if length piece \<noteq> 2 \<or> \<not> list_all is_digit piece then
        Err (Msg ''invalid time {:?}: {} must be two digits'' [plain text, plain what])
      else
        let value = unwrap_or (parse_uint 4294967295 piece) 4294967295
        in if mx < value then Err (Msg ''invalid time {:?}: {} out of range'' [plain text, plain what])
           else Ok value)"

definition parse_civil :: "string \<Rightarrow> unit res" where
  "parse_civil text =
     (let parts = split_on CHR '':'' text
      in if length parts \<noteq> 2 \<and> length parts \<noteq> 3 then
           Err (Msg ''invalid time {:?}: use HH:MM or HH:MM:SS'' [plain text])
         else
           and_then (civil_piece text (parts ! 0) 23 ''hour'') (\<lambda>_.
           and_then (civil_piece text (parts ! 1) 59 ''minute'') (\<lambda>_.
             if length parts = 3 then
               and_then (civil_piece text (parts ! 2) 59 ''second'') (\<lambda>_. Ok ())
             else Ok ())))"

text \<open>Two digits, as a number is written in a time.\<close>

definition two_digits :: "nat \<Rightarrow> string" where
  "two_digits n = [digit_char (n div 10), digit_char (n mod 10)]"

end
