(* ===== verification/CronSpec.thy ===== *)
theory CronSpec
  imports Prelude
begin

text \<open>
  Five-field cron read into the sets it stands for (\<open>crates/irori-rules/src/cron.rs\<close>).
  A \<open>u8\<close> is a natural number here: every value the reader accepts is at most 255 by
  \<open>parse_uint 255\<close>, and no arithmetic is done on it beyond the steps of a range.
\<close>

section \<open>The fields of a cron\<close>

record cron_spec =
  cr_minutes :: "nat list"
  cr_hours :: "nat list"
  cr_days :: "nat list"
  cr_months :: "nat list"
  cr_weekdays :: "nat list"
  cr_days_given :: bool
  cr_weekdays_given :: bool

definition month_names :: "string list" where
  "month_names = [''JAN'', ''FEB'', ''MAR'', ''APR'', ''MAY'', ''JUN'', ''JUL'', ''AUG'', ''SEP'', ''OCT'', ''NOV'', ''DEC'']"

definition day_names :: "string list" where
  "day_names = [''SUN'', ''MON'', ''TUE'', ''WED'', ''THU'', ''FRI'', ''SAT'']"

text \<open>\<open>eq_ignore_ascii_case\<close> and \<open>position\<close>.\<close>

definition ascii_lower :: "char \<Rightarrow> char" where
  "ascii_lower c = (if 65 \<le> byte_of c \<and> byte_of c \<le> 90 then char_of (byte_of c + 32) else c)"

definition eq_ignore_ascii_case :: "string \<Rightarrow> string \<Rightarrow> bool" where
  "eq_ignore_ascii_case a b = (map ascii_lower a = map ascii_lower b)"

fun index_where :: "('a \<Rightarrow> bool) \<Rightarrow> 'a list \<Rightarrow> nat option" where
  "index_where p [] = None"
| "index_where p (x # xs) = (if p x then Some 0 else map_option Suc (index_where p xs))"

lemma index_where_less: "index_where p xs = Some i \<Longrightarrow> i < length xs \<and> p (xs ! i)"
  by (induction xs arbitrary: i) (auto split: if_splits)

text \<open>The closure \<open>number\<close> of \<open>field\<close>.\<close>

definition cron_number :: "string \<Rightarrow> nat \<Rightarrow> nat \<Rightarrow> string list \<Rightarrow> nat \<Rightarrow> string \<Rightarrow> nat res" where
  "cron_number what low high names first_name piece =
     (case index_where (\<lambda>name. eq_ignore_ascii_case name piece) names of
        Some at \<Rightarrow> Ok (first_name + at)
      | None \<Rightarrow>
          (case parse_uint 255 piece of
             None \<Rightarrow> Err (Msg ''cron's {} can't be {:?}'' [plain what, plain piece])
           | Some value \<Rightarrow>
               if value < low \<or> high < value then
                 Err (Msg ''cron's {} goes from {} to {}, not {}''
                       [plain what, MInt (int low), MInt (int high), MInt (int value)])
               else Ok value))"

text \<open>\<open>(from..=to).step_by(step)\<close>.\<close>

definition step_range :: "nat \<Rightarrow> nat \<Rightarrow> nat \<Rightarrow> nat list" where
  "step_range from_v to_v step = filter (\<lambda>v. (v - from_v) mod step = 0) [from_v..<Suc to_v]"

text \<open>One part of a field, between commas: its values, in order.\<close>

definition cron_part :: "string \<Rightarrow> nat \<Rightarrow> nat \<Rightarrow> string list \<Rightarrow> nat \<Rightarrow> string \<Rightarrow> nat list res" where
  "cron_part what low high names first_name part =
     and_then
       (case split_once CHR ''/'' part of
          Some (rng, step) \<Rightarrow>
            (case parse_uint 255 step of
               Some n \<Rightarrow>
                 if 0 < n then Ok (rng, n)
                 else Err (Msg ''cron's {} has a step that isn't a number above 0'' [plain what])
             | None \<Rightarrow> Err (Msg ''cron's {} has a step that isn't a number above 0'' [plain what]))
        | None \<Rightarrow> Ok (part, 1))
       (\<lambda>(rng, step).
          and_then
            (if rng = ''*'' then Ok (low, high)
             else
               (case split_once CHR ''-'' rng of
                  Some (a, b) \<Rightarrow>
                    and_then (cron_number what low high names first_name a) (\<lambda>from_v.
                    and_then (cron_number what low high names first_name b) (\<lambda>to_v.
                      Ok (from_v, to_v)))
                | None \<Rightarrow>
                    and_then (cron_number what low high names first_name rng) (\<lambda>from_v.
                      Ok (from_v, if CHR ''/'' \<in> set part then high else from_v))))
            (\<lambda>(from_v, to_v).
               if to_v < from_v then
                 Err (Msg ''cron's {} has a range that runs backwards: {}'' [plain what, plain rng])
               else Ok (step_range from_v to_v step)))"

fun cron_parts :: "string \<Rightarrow> nat \<Rightarrow> nat \<Rightarrow> string list \<Rightarrow> nat \<Rightarrow> string list \<Rightarrow> nat list res" where
  "cron_parts what low high names first_name [] = Ok []"
| "cron_parts what low high names first_name (part # parts) =
     and_then (cron_part what low high names first_name part) (\<lambda>vs.
     and_then (cron_parts what low high names first_name parts) (\<lambda>ws. Ok (vs @ ws)))"

definition cron_field :: "string \<Rightarrow> string \<Rightarrow> nat \<Rightarrow> nat \<Rightarrow> string list \<Rightarrow> nat \<Rightarrow> nat list res" where
  "cron_field text what low high names first_name =
     and_then (cron_parts what low high names first_name (split_on CHR '','' text)) (\<lambda>vs.
       let values = dedup (sort vs)
       in if values = [] then Err (Msg ''cron's {} is empty'' [plain what]) else Ok values)"

definition cron_parse :: "string \<Rightarrow> cron_spec res" where
  "cron_parse text =
     (case split_whitespace text of
        [minute, hour, day, month, weekday] \<Rightarrow>
          and_then (cron_field weekday ''day of the week'' 0 7 day_names 0) (\<lambda>wds.
          and_then (cron_field minute ''minute'' 0 59 [] 0) (\<lambda>ms.
          and_then (cron_field hour ''hour'' 0 23 [] 0) (\<lambda>hs.
          and_then (cron_field day ''day of the month'' 1 31 [] 0) (\<lambda>ds.
          and_then (cron_field month ''month'' 1 12 month_names 1) (\<lambda>mos.
            Ok \<lparr>cr_minutes = ms, cr_hours = hs, cr_days = ds, cr_months = mos,
                cr_weekdays = dedup (sort (map (\<lambda>d. if d = 7 then 0 else d) wds)),
                cr_days_given = (day \<noteq> ''*''), cr_weekdays_given = (weekday \<noteq> ''*'')\<rparr>)))))
      | _ \<Rightarrow> Err (plain ''cron needs 5 fields: minute hour day-of-month month day-of-week''))"

definition on_day :: "cron_spec \<Rightarrow> nat \<Rightarrow> nat \<Rightarrow> nat \<Rightarrow> bool" where
  "on_day c month day weekday_from_sunday =
     (if month \<notin> set (cr_months c) then False
      else
        let by_date = day \<in> set (cr_days c);
            by_weekday = weekday_from_sunday \<in> set (cr_weekdays c)
        in if cr_days_given c \<and> cr_weekdays_given c then by_date \<or> by_weekday
           else by_date \<and> by_weekday)"

section \<open>What a field holds\<close>

lemma set_step_range:
  "0 < step \<Longrightarrow> set (step_range f t step) = {v. f \<le> v \<and> v \<le> t \<and> step dvd (v - f)}"
  by (auto simp: step_range_def dvd_eq_mod_eq_0)

lemma cron_number_bounds:
  assumes "cron_number what low high names first_name piece = Ok v"
    and "low \<le> first_name" "names \<noteq> [] \<Longrightarrow> first_name + length names \<le> Suc high"
  shows "low \<le> v \<and> v \<le> high"
proof (cases "index_where (\<lambda>name. eq_ignore_ascii_case name piece) names")
  case None
  with assms(1) show ?thesis
    by (auto simp: cron_number_def split: option.splits if_splits)
next
  case (Some i)
  then have "i < length names" by (auto dest: index_where_less)
  with Some assms show ?thesis by (cases names) (auto simp: cron_number_def)
qed

text \<open>The interval and step a part stands for, as the grammar of the module's comment says.\<close>

definition plain_piece :: "string \<Rightarrow> bool" where
  "plain_piece a \<longleftrightarrow> CHR ''/'' \<notin> set a"

definition first_piece :: "string \<Rightarrow> bool" where
  "first_piece a \<longleftrightarrow> CHR ''-'' \<notin> set a \<and> CHR ''/'' \<notin> set a"

definition step_means :: "string \<Rightarrow> nat \<Rightarrow> bool" where
  "step_means s n \<longleftrightarrow> parse_uint 255 s = Some n \<and> 0 < n"

inductive part_means :: "(string \<Rightarrow> nat \<Rightarrow> bool) \<Rightarrow> nat \<Rightarrow> nat \<Rightarrow> string \<Rightarrow> nat \<Rightarrow> nat \<Rightarrow> nat \<Rightarrow> bool"
  for num :: "string \<Rightarrow> nat \<Rightarrow> bool" and low high :: nat where
  every: "part_means num low high ''*'' low high 1"
| single: "num a v \<Longrightarrow> first_piece a \<Longrightarrow> a \<noteq> ''*'' \<Longrightarrow> part_means num low high a v v 1"
| interval: "num a v \<Longrightarrow> num b w \<Longrightarrow> first_piece a \<Longrightarrow> plain_piece b \<Longrightarrow>
    part_means num low high (a @ CHR ''-'' # b) v w 1"
| every_step: "step_means s n \<Longrightarrow> part_means num low high (CHR ''*'' # CHR ''/'' # s) low high n"
| single_step: "num a v \<Longrightarrow> first_piece a \<Longrightarrow> a \<noteq> ''*'' \<Longrightarrow> step_means s n \<Longrightarrow>
    part_means num low high (a @ CHR ''/'' # s) v high n"
| interval_step: "num a v \<Longrightarrow> num b w \<Longrightarrow> first_piece a \<Longrightarrow> plain_piece b \<Longrightarrow> step_means s n \<Longrightarrow>
    part_means num low high (a @ CHR ''-'' # b @ CHR ''/'' # s) v w n"

abbreviation cron_num :: "string \<Rightarrow> nat \<Rightarrow> nat \<Rightarrow> string list \<Rightarrow> nat \<Rightarrow> string \<Rightarrow> nat \<Rightarrow> bool" where
  "cron_num what low high names first_name p v \<equiv> cron_number what low high names first_name p = Ok v"

lemma cron_part_sound:
  assumes "cron_part what low high names first_name part = Ok vs"
  shows "\<exists>f t n. part_means (cron_num what low high names first_name) low high part f t n
    \<and> f \<le> t \<and> 0 < n \<and> vs = step_range f t n"
proof (cases "split_once CHR ''/'' part")
  case None
  then have slash: "CHR ''/'' \<notin> set part" by (simp add: split_once_None)
  let ?num = "cron_num what low high names first_name"
  show ?thesis
  proof (cases "part = ''*''")
    case True
    with assms None show ?thesis
      by (auto simp: cron_part_def split: if_splits intro!: part_means.every exI)
  next
    case star: False
    show ?thesis
    proof (cases "split_once CHR ''-'' part")
      case no_dash: None
      with assms None star slash obtain v where v: "?num part v" "vs = step_range v v 1"
        by (auto simp: cron_part_def and_then_Inr_iff split: if_splits)
      with no_dash slash star part_means.single[of ?num part v low high] show ?thesis
        by (auto simp: split_once_None first_piece_def)
    next
      case dash: (Some q)
      obtain a b where q: "q = (a, b)" by (cases q)
      with dash assms None star obtain v w where v: "?num a v" "?num b w" "v \<le> w" "vs = step_range v w 1"
        by (auto simp: cron_part_def and_then_Inr_iff split: if_splits)
      from dash q have part: "part = a @ CHR ''-'' # b" "CHR ''-'' \<notin> set a"
        by (auto dest: split_once_Some)
      with slash have "first_piece a" "plain_piece b"
        by (auto simp: first_piece_def plain_piece_def)
      from part_means.interval[of ?num, OF v(1,2) this, of low high] v part show ?thesis by auto
    qed
  qed
next
  case (Some p)
  let ?num = "cron_num what low high names first_name"
  obtain rng s where p: "p = (rng, s)" by (cases p)
  from Some p have part: "part = rng @ CHR ''/'' # s" "CHR ''/'' \<notin> set rng"
    by (auto dest: split_once_Some)
  from assms Some p obtain n where n: "parse_uint 255 s = Some n" "0 < n"
    by (auto simp: cron_part_def split: option.splits if_splits)
  then have step: "step_means s n" by (simp add: step_means_def)
  show ?thesis
  proof (cases "rng = ''*''")
    case True
    with assms Some p n have "low \<le> high" "vs = step_range low high n"
      by (auto simp: cron_part_def split: if_splits)
    with True part n part_means.every_step[OF step, of ?num low high] show ?thesis
      by (intro exI[of _ low] exI[of _ high] exI[of _ n]) simp
  next
    case star: False
    show ?thesis
    proof (cases "split_once CHR ''-'' rng")
      case no_dash: None
      with assms Some p n star part obtain v where v: "?num rng v" "v \<le> high" "vs = step_range v high n"
        by (auto simp: cron_part_def and_then_Inr_iff split: if_splits)
      from no_dash part have "first_piece rng"
        by (simp add: first_piece_def split_once_None)
      from part_means.single_step[of ?num, OF v(1) this star step, of low high] v n part show ?thesis
        by auto
    next
      case dash: (Some q)
      obtain a b where q: "q = (a, b)" by (cases q)
      with dash assms Some p n star obtain v w where v: "?num a v" "?num b w" "v \<le> w" "vs = step_range v w n"
        by (auto simp: cron_part_def and_then_Inr_iff split: if_splits)
      from dash q have rng: "rng = a @ CHR ''-'' # b" "CHR ''-'' \<notin> set a"
        by (auto dest: split_once_Some)
      with part have "first_piece a" "plain_piece b"
        by (auto simp: first_piece_def plain_piece_def)
      from part_means.interval_step[of ?num, OF v(1,2) this step, of low high] v n part rng show ?thesis
        by auto
    qed
  qed
qed

lemma cron_part_complete:
  assumes "part_means (cron_num what low high names first_name) low high part f t n" "f \<le> t"
  shows "cron_part what low high names first_name part = Ok (step_range f t n)"
  using assms
proof (cases rule: part_means.cases)
  case every
  then show ?thesis using assms(2) by (simp add: cron_part_def)
next
  case single
  then show ?thesis using assms(2)
    by (simp add: cron_part_def first_piece_def split_once_None [THEN iffD2])
next
  case (interval a b)
  then have "split_once CHR ''/'' part = None" "split_once CHR ''-'' part = Some (a, b)" "part \<noteq> ''*''"
    by (auto simp: split_once_None split_once_append first_piece_def plain_piece_def append_eq_Cons_conv)
  then show ?thesis using assms(2) interval by (simp add: cron_part_def)
next
  case (every_step s)
  then have "split_once CHR ''/'' part = Some (''*'', s)" by simp
  then show ?thesis using assms(2) every_step by (simp add: cron_part_def step_means_def)
next
  case (single_step a s)
  then have "split_once CHR ''/'' part = Some (a, s)" "split_once CHR ''-'' a = None"
    by (auto simp: split_once_None split_once_append first_piece_def)
  then show ?thesis using assms(2) single_step by (simp add: cron_part_def step_means_def)
next
  case (interval_step a b s)
  then have "CHR ''/'' \<notin> set (a @ CHR ''-'' # b)" by (simp add: first_piece_def plain_piece_def)
  from split_once_append[OF this, of s] interval_step
  have "split_once CHR ''/'' part = Some (a @ CHR ''-'' # b, s)" by simp
  moreover have "split_once CHR ''-'' (a @ CHR ''-'' # b) = Some (a, b)"
    using interval_step by (simp add: split_once_append first_piece_def)
  moreover have "a @ CHR ''-'' # b \<noteq> ''*''" by (simp add: append_eq_Cons_conv)
  ultimately show ?thesis using assms(2) interval_step by (simp add: cron_part_def step_means_def)
qed

lemma cron_parts_set:
  "cron_parts what low high names first_name parts = Ok vs \<Longrightarrow>
   (v \<in> set vs) = (\<exists>part \<in> set parts. \<exists>ws. cron_part what low high names first_name part = Ok ws \<and> v \<in> set ws)"
  by (induction parts arbitrary: vs) (auto simp: and_then_Inr_iff)

lemma cron_parts_ok:
  "cron_parts what low high names first_name parts = Ok vs \<Longrightarrow> part \<in> set parts \<Longrightarrow>
   \<exists>ws. cron_part what low high names first_name part = Ok ws"
  by (induction parts arbitrary: vs) (auto simp: and_then_Inr_iff)

lemma cron_field_shape:
  "cron_field text what low high names first_name = Ok vs \<Longrightarrow> sorted_wrt (<) vs \<and> vs \<noteq> []"
  by (auto simp: cron_field_def and_then_Inr_iff Let_def split: if_splits intro: sorted_dedup_strict)

lemma cron_field_mem:
  assumes "cron_field text what low high names first_name = Ok vs"
  shows "(v \<in> set vs) = (\<exists>part \<in> set (split_on CHR '','' text). \<exists>f t n.
    part_means (cron_num what low high names first_name) low high part f t n \<and> f \<le> v \<and> v \<le> t \<and> n dvd (v - f))"
proof -
  let ?part = "cron_part what low high names first_name"
  let ?means = "part_means (cron_num what low high names first_name) low high"
  from assms obtain ws where ws: "cron_parts what low high names first_name (split_on CHR '','' text) = Ok ws"
    and vs: "vs = dedup (sort ws)"
    by (auto simp: cron_field_def and_then_Inr_iff Let_def split: if_splits)
  have "(\<exists>us. ?part part = Ok us \<and> v \<in> set us) = (\<exists>f t n. ?means part f t n \<and> f \<le> v \<and> v \<le> t \<and> n dvd (v - f))"
    for part
  proof
    assume "\<exists>us. ?part part = Ok us \<and> v \<in> set us"
    then obtain us where "?part part = Ok us" "v \<in> set us" by blast
    from cron_part_sound[OF this(1)] obtain f t n
      where m: "?means part f t n" "f \<le> t" "0 < n" "us = step_range f t n" by blast
    with \<open>v \<in> set us\<close> have "f \<le> v" "v \<le> t" "n dvd (v - f)" by (simp_all add: set_step_range)
    with m(1) show "\<exists>f t n. ?means part f t n \<and> f \<le> v \<and> v \<le> t \<and> n dvd (v - f)"
      by blast
  next
    assume "\<exists>f t n. ?means part f t n \<and> f \<le> v \<and> v \<le> t \<and> n dvd (v - f)"
    then obtain f t n where m: "?means part f t n" "f \<le> v" "v \<le> t" "n dvd (v - f)" by blast
    then have "0 < n" by (cases rule: part_means.cases) (auto simp: step_means_def)
    with m cron_part_complete[OF m(1)] show "\<exists>us. ?part part = Ok us \<and> v \<in> set us"
      by (auto simp: set_step_range)
  qed
  with cron_parts_set[OF ws, of v] vs show ?thesis by simp
qed

lemma part_means_bounds:
  assumes "part_means (cron_num what low high names first_name) low high part f t n"
    and "low \<le> first_name" "names \<noteq> [] \<Longrightarrow> first_name + length names \<le> Suc high" "low \<le> high"
  shows "low \<le> f \<and> t \<le> high"
  using assms
  by (cases rule: part_means.cases) (auto dest: cron_number_bounds [OF _ assms(2,3)])

lemma cron_field_bounds:
  assumes "cron_field text what low high names first_name = Ok vs"
    and "low \<le> first_name \<or> names = []" "names \<noteq> [] \<Longrightarrow> first_name + length names \<le> Suc high" "low \<le> high"
  shows "\<forall>v \<in> set vs. low \<le> v \<and> v \<le> high"
proof
  fix v assume "v \<in> set vs"
  with cron_field_mem[OF assms(1)] obtain part f t n
    where m: "part_means (cron_num what low high names first_name) low high part f t n" "f \<le> v" "v \<le> t"
    by blast
  show "low \<le> v \<and> v \<le> high"
  proof (cases "names = []")
    case True
    then have "cron_num what low high names first_name = cron_num what low high [] low"
      by (simp add: cron_number_def fun_eq_iff)
    with m part_means_bounds[of what low high "[]" low part f t n] assms(4) show ?thesis by auto
  next
    case False
    with m part_means_bounds[OF m(1)] assms show ?thesis by auto
  qed
qed


text \<open>A \<open>*\<close> is every value of the field.\<close>

lemma cron_field_star:
  assumes "cron_field ''*'' what low high names first_name = Ok vs"
  shows "(v \<in> set vs) = (low \<le> v \<and> v \<le> high)"
proof -
  have "cron_part what low high names first_name ''*'' =
      (if high < low then Err (Msg ''cron's {} has a range that runs backwards: {}'' [plain what, plain ''*''])
       else Ok (step_range low high 1))"
    by (simp add: cron_part_def)
  with assms show ?thesis
    by (auto simp: cron_field_def and_then_Inr_iff Let_def set_step_range split: if_splits)
qed

lemma cron_parse_Ok:
  assumes "cron_parse text = Ok c"
  shows "\<exists>minute hour day month weekday wds.
    split_whitespace text = [minute, hour, day, month, weekday]
    \<and> cron_field minute ''minute'' 0 59 [] 0 = Ok (cr_minutes c)
    \<and> cron_field hour ''hour'' 0 23 [] 0 = Ok (cr_hours c)
    \<and> cron_field day ''day of the month'' 1 31 [] 0 = Ok (cr_days c)
    \<and> cron_field month ''month'' 1 12 month_names 1 = Ok (cr_months c)
    \<and> cron_field weekday ''day of the week'' 0 7 day_names 0 = Ok wds
    \<and> cr_weekdays c = dedup (sort (map (\<lambda>d. if d = 7 then 0 else d) wds))
    \<and> cr_days_given c = (day \<noteq> ''*'') \<and> cr_weekdays_given c = (weekday \<noteq> ''*'')"
  using assms
  by (auto simp: cron_parse_def and_then_Inr_iff split: list.splits)

definition field_ok :: "nat \<Rightarrow> nat \<Rightarrow> nat list \<Rightarrow> bool" where
  "field_ok low high vs \<longleftrightarrow> vs \<noteq> [] \<and> sorted_wrt (<) vs \<and> (\<forall>v \<in> set vs. low \<le> v \<and> v \<le> high)"

lemma cron_field_ok:
  "cron_field text what low high names first_name = Ok vs \<Longrightarrow> low \<le> first_name \<or> names = [] \<Longrightarrow>
   (names \<noteq> [] \<Longrightarrow> first_name + length names \<le> Suc high) \<Longrightarrow> low \<le> high \<Longrightarrow> field_ok low high vs"
  using cron_field_shape cron_field_bounds unfolding field_ok_def by blast

text \<open>
  A cron that reads holds, in every field, a non-empty strictly ascending list of values
  inside that field's range; the week's days are 0 to 6, a written 7 having become 0.
\<close>

lemma cron_parse_fields:
  assumes "cron_parse text = Ok c"
  shows "field_ok 0 59 (cr_minutes c) \<and> field_ok 0 23 (cr_hours c) \<and> field_ok 1 31 (cr_days c)
    \<and> field_ok 1 12 (cr_months c) \<and> field_ok 0 6 (cr_weekdays c)"
proof -
  from cron_parse_Ok[OF assms] obtain minute hour day month weekday wds where
    f: "cron_field minute ''minute'' 0 59 [] 0 = Ok (cr_minutes c)"
      "cron_field hour ''hour'' 0 23 [] 0 = Ok (cr_hours c)"
      "cron_field day ''day of the month'' 1 31 [] 0 = Ok (cr_days c)"
      "cron_field month ''month'' 1 12 month_names 1 = Ok (cr_months c)"
      "cron_field weekday ''day of the week'' 0 7 day_names 0 = Ok wds"
    and w: "cr_weekdays c = dedup (sort (map (\<lambda>d. if d = 7 then 0 else d) wds))"
    by blast
  have "field_ok 0 7 wds"
    using f(5) by (rule cron_field_ok) (simp_all add: day_names_def)
  then have "\<forall>v \<in> set (cr_weekdays c). v \<le> 6"
    using w by (force simp: field_ok_def)
  moreover have "cr_weekdays c \<noteq> []" "sorted_wrt (<) (cr_weekdays c)"
    using w \<open>field_ok 0 7 wds\<close> by (auto simp: field_ok_def intro: sorted_dedup_strict)
  ultimately show ?thesis
    using f by (auto simp: field_ok_def [of 0 6] month_names_def intro: cron_field_ok)
qed

text \<open>
  C17. A field holds a value just when one of its comma-separated parts means it: \<open>*\<close>, a number,
  a range, or one of those with a step, a number with a step running to the field's end.
\<close>

theorem cron_field_means:
  assumes "cron_field text what low high names first_name = Ok vs"
  shows "(v \<in> set vs) = (\<exists>part \<in> set (split_on CHR '','' text). \<exists>f t n.
    part_means (cron_num what low high names first_name) low high part f t n
      \<and> f \<le> v \<and> v \<le> t \<and> n dvd (v - f))"
  using assms by (rule cron_field_mem)

theorem cron_field_means_witness:
  "(25 \<in> set [5::nat, 25, 45]) = (\<exists>part \<in> set (split_on CHR '','' ''5/20''). \<exists>f t n.
    part_means (cron_num ''minute'' 0 59 [] 0) 0 59 part f t n \<and> f \<le> 25 \<and> 25 \<le> t \<and> n dvd (25 - f))"
proof -
  have "cron_field ''5/20'' ''minute'' 0 59 [] 0 = Ok [5, 25, 45]" by code_simp
  from cron_field_means[OF this, of 25] show ?thesis .
qed

text \<open>
  A day field left as \<open>*\<close> is free, as cron has it: with the day of the week a \<open>*\<close>, a date
  of one of the months is on just when its day of the month is listed, and with the day of the
  month a \<open>*\<close> just when its weekday is; with both given either one is enough.
\<close>

lemma on_day_free_fields:
  assumes "cron_parse text = Ok c" "1 \<le> day" "day \<le> 31" "wd \<le> 6"
  shows "on_day c month day wd =
    (month \<in> set (cr_months c) \<and>
      (if \<not> cr_weekdays_given c then day \<in> set (cr_days c)
       else if \<not> cr_days_given c then wd \<in> set (cr_weekdays c)
       else day \<in> set (cr_days c) \<or> wd \<in> set (cr_weekdays c)))"
proof -
  from cron_parse_Ok[OF assms(1)] obtain d w wds where
    f: "cron_field d ''day of the month'' 1 31 [] 0 = Ok (cr_days c)"
      "cron_field w ''day of the week'' 0 7 day_names 0 = Ok wds"
    and ws: "cr_weekdays c = dedup (sort (map (\<lambda>d. if d = 7 then 0 else d) wds))"
    and given: "cr_days_given c = (d \<noteq> ''*'')" "cr_weekdays_given c = (w \<noteq> ''*'')"
    by blast
  have "wd \<in> set (cr_weekdays c)" if "\<not> cr_weekdays_given c"
  proof -
    from that given have "w = ''*''" by simp
    with f(2) have "cron_field ''*'' ''day of the week'' 0 7 day_names 0 = Ok wds" by simp
    from cron_field_star[OF this, of wd] assms(4) have "wd \<in> set wds" "wd \<noteq> 7" by auto
    then show ?thesis using ws by force
  qed
  moreover have "day \<in> set (cr_days c)" if "\<not> cr_days_given c"
  proof -
    from that given f(1) have "cron_field ''*'' ''day of the month'' 1 31 [] 0 = Ok (cr_days c)" by simp
    from cron_field_star[OF this, of day] assms(2,3) show ?thesis by auto
  qed
  ultimately show ?thesis by (auto simp: on_day_def Let_def)
qed

end
