(* ===== verification/Ids.thy ===== *)
theory Ids
  imports Prelude
begin

text \<open>
  Entity kinds and validated identifiers (\<open>crates/irori-types/src/kind.rs\<close> and \<open>id.rs\<close>).
  An identifier is kept as its text; a value of one of the source's identifier types is a text
  that its check accepts.  \<open>IdError\<close> is its message.
\<close>

section \<open>Entity kinds\<close>

datatype entity_kind =
    K_Light
  | K_Switch
  | K_Sensor
  | K_BinarySensor
  | K_Number
  | K_Select
  | K_Text
  | K_Button
  | K_Event
  | K_Cover
  | K_Lock
  | K_Fan
  | K_Valve
  | K_Siren
  | K_Climate
  | K_WaterHeater
  | K_Humidifier
  | K_MediaPlayer
  | K_Update
  | K_AlarmControlPanel
  | K_Date
  | K_Time
  | K_Datetime
  | K_Vacuum
  | K_LawnMower
  | K_Scene
  | K_DeviceTracker
  | K_Timer
  | K_Schedule
  | K_Camera

definition all_kinds :: "entity_kind list" where
  "all_kinds = [K_Light, K_Switch, K_Sensor, K_BinarySensor, K_Number, K_Select, K_Text, K_Button, K_Event, K_Cover, K_Lock, K_Fan, K_Valve, K_Siren, K_Climate, K_WaterHeater, K_Humidifier, K_MediaPlayer, K_Update, K_AlarmControlPanel, K_Date, K_Time, K_Datetime, K_Vacuum, K_LawnMower, K_Scene, K_DeviceTracker, K_Timer, K_Schedule, K_Camera]"

fun domain :: "entity_kind \<Rightarrow> string" where
  "domain K_Light = ''light''"
| "domain K_Switch = ''switch''"
| "domain K_Sensor = ''sensor''"
| "domain K_BinarySensor = ''binary_sensor''"
| "domain K_Number = ''number''"
| "domain K_Select = ''select''"
| "domain K_Text = ''text''"
| "domain K_Button = ''button''"
| "domain K_Event = ''event''"
| "domain K_Cover = ''cover''"
| "domain K_Lock = ''lock''"
| "domain K_Fan = ''fan''"
| "domain K_Valve = ''valve''"
| "domain K_Siren = ''siren''"
| "domain K_Climate = ''climate''"
| "domain K_WaterHeater = ''water_heater''"
| "domain K_Humidifier = ''humidifier''"
| "domain K_MediaPlayer = ''media_player''"
| "domain K_Update = ''update''"
| "domain K_AlarmControlPanel = ''alarm_control_panel''"
| "domain K_Date = ''date''"
| "domain K_Time = ''time''"
| "domain K_Datetime = ''datetime''"
| "domain K_Vacuum = ''vacuum''"
| "domain K_LawnMower = ''lawn_mower''"
| "domain K_Scene = ''scene''"
| "domain K_DeviceTracker = ''device_tracker''"
| "domain K_Timer = ''timer''"
| "domain K_Schedule = ''schedule''"
| "domain K_Camera = ''camera''"

definition from_domain :: "string \<Rightarrow> entity_kind option" where
  "from_domain d = find (\<lambda>k. domain k = d) all_kinds"

lemma all_kinds_complete [simp]: "k \<in> set all_kinds"
  by (cases k) (simp_all add: all_kinds_def)

lemma distinct_domains: "distinct (map domain all_kinds)"
  by (simp add: all_kinds_def)

lemma domain_inj: "domain k = domain k' \<Longrightarrow> k = k'"
  using distinct_domains all_kinds_complete by (metis distinct_map inj_onD)

lemma from_domain_domain [simp]: "from_domain (domain k) = Some k"
proof -
  have "\<exists>k'. find (\<lambda>k'. domain k' = domain k) all_kinds = Some k' \<and> domain k' = domain k"
    using all_kinds_complete[of k] by (metis (mono_tags, lifting) find_None_iff find_Some_iff option.exhaust)
  then show ?thesis by (auto simp: from_domain_def dest: domain_inj)
qed

lemma from_domain_Some: "from_domain d = Some k \<longleftrightarrow> d = domain k"
proof
  assume "from_domain d = Some k"
  then show "d = domain k" by (auto simp: from_domain_def find_Some_iff)
qed simp

lemma domain_no_dot: "CHR ''.'' \<notin> set (domain k)"
  by (cases k) simp_all

section \<open>Characters of a text\<close>

text \<open>The code points of a text's UTF-8 bytes (\<open>str::chars\<close>).\<close>

fun code_points :: "nat list \<Rightarrow> nat list" where
  "code_points (a # b # c # d # r) =
     (if a < 128 then a # code_points (b # c # d # r)
      else if a < 224 then ((a - 192) * 64 + (b - 128)) # code_points (c # d # r)
      else if a < 240 then ((a - 224) * 4096 + (b - 128) * 64 + (c - 128)) # code_points (d # r)
      else ((a - 240) * 262144 + (b - 128) * 4096 + (c - 128) * 64 + (d - 128)) # code_points r)"
| "code_points [a, b, c] =
     (if a < 128 then a # code_points [b, c]
      else if a < 224 then ((a - 192) * 64 + (b - 128)) # code_points [c]
      else [(a - 224) * 4096 + (b - 128) * 64 + (c - 128)])"
| "code_points [a, b] =
     (if a < 128 then a # code_points [b] else [(a - 192) * 64 + (b - 128)])"
| "code_points [a] = [a]"
| "code_points [] = []"

definition chars_of :: "string \<Rightarrow> nat list" where
  "chars_of s = code_points (map byte_of s)"

definition is_control :: "nat \<Rightarrow> bool" where
  "is_control c \<longleftrightarrow> c < 32 \<or> (127 \<le> c \<and> c \<le> 159)"

text \<open>\<open>char::is_whitespace\<close>, and \<open>is_name_space\<close>, which adds the byte order mark.\<close>

definition is_white :: "nat \<Rightarrow> bool" where
  "is_white c \<longleftrightarrow> (9 \<le> c \<and> c \<le> 13) \<or> c \<in> {32, 133, 160, 5760, 8232, 8233, 8239, 8287, 12288}
     \<or> (8192 \<le> c \<and> c \<le> 8202)"

definition is_name_space :: "nat \<Rightarrow> bool" where
  "is_name_space c \<longleftrightarrow> is_white c \<or> c = 65279"

section \<open>Identifiers\<close>

definition id_err :: "string \<Rightarrow> string \<Rightarrow> string \<Rightarrow> msg" where
  "id_err what value reason = Msg ''invalid {} {:?}: {}'' [plain what, plain value, plain reason]"

definition slug_max_len :: nat where
  "slug_max_len = 64"

fun has_double_underscore :: "string \<Rightarrow> bool" where
  "has_double_underscore (a # b # r) =
     ((a = CHR ''_'' \<and> b = CHR ''_'') \<or> has_double_underscore (b # r))"
| "has_double_underscore _ = False"

definition check_slug :: "string \<Rightarrow> string \<Rightarrow> unit res" where
  "check_slug what value =
     (if value = [] then Err (id_err what value ''must not be empty'')
      else if slug_max_len < length value then Err (id_err what value ''must be at most 64 characters'')
      else if \<not> list_all (\<lambda>b. is_lower b \<or> is_digit b \<or> b = CHR ''_'') value then
        Err (id_err what value ''may only contain lowercase letters a-z, digits, and `_`'')
      else if hd value = CHR ''_'' \<or> last value = CHR ''_'' \<or> has_double_underscore value then
        Err (id_err what value ''`_` must separate words (no leading, trailing, or doubled `_`)'')
      else Ok ())"

text \<open>Entity ids: \<open>check_entity_id\<close>, \<open>EntityId::new\<close>, \<open>kind\<close> and \<open>object_id\<close>. The last two
  panic on a text that is not an entity id, which a value of the type never is.\<close>

definition check_entity_id :: "string \<Rightarrow> unit res" where
  "check_entity_id value =
     (case split_once CHR ''.'' value of
        None \<Rightarrow> Err (id_err ''entity id'' value ''must be `<kind>.<object_id>`, e.g. `light.hallway`'')
      | Some (kind, object_id) \<Rightarrow>
          (case from_domain kind of
             None \<Rightarrow> Err (id_err ''entity id'' value
               ''unknown kind before the `.` (expected one of: light, switch, sensor, binary_sensor)'')
           | Some _ \<Rightarrow> check_slug ''entity id'' object_id))"

definition entity_id_parse :: "string \<Rightarrow> string res" where
  "entity_id_parse value = and_then (check_entity_id value) (\<lambda>_. Ok value)"

definition entity_id_new :: "entity_kind \<Rightarrow> string \<Rightarrow> string res" where
  "entity_id_new kind object_id = entity_id_parse (domain kind @ CHR ''.'' # object_id)"

definition entity_id_kind :: "string \<Rightarrow> entity_kind option" where
  "entity_id_kind value =
     (case split_once CHR ''.'' value of None \<Rightarrow> None | Some (d, _) \<Rightarrow> from_domain d)"

definition entity_id_object :: "string \<Rightarrow> string option" where
  "entity_id_object value = map_option snd (split_once CHR ''.'' value)"

text \<open>Context and run ids: ULIDs.\<close>

definition crockford :: string where
  "crockford = ''0123456789ABCDEFGHJKMNPQRSTVWXYZ''"

definition check_ulid :: "string \<Rightarrow> unit res" where
  "check_ulid value =
     (if length value \<noteq> 26 then Err (id_err ''context id'' value ''must be a 26-character ULID'')
      else if \<not> list_all (\<lambda>b. b \<in> set crockford) value then
        Err (id_err ''context id'' value ''must be an uppercase Crockford base32 ULID (no I, L, O, U)'')
      else if byte_of CHR ''7'' < byte_of (hd value) then
        Err (id_err ''context id'' value ''ULID timestamp overflows (first character must be 0-7)'')
      else Ok ())"

definition check_unique_id :: "string \<Rightarrow> unit res" where
  "check_unique_id value =
     (if value = [] then Err (id_err ''unique id'' value ''must not be empty'')
      else if 255 < length (chars_of value) then
        Err (id_err ''unique id'' value ''must be at most 255 characters'')
      else if list_ex is_control (chars_of value) then
        Err (id_err ''unique id'' value ''must not contain control characters'')
      else Ok ())"

definition check_text :: "string \<Rightarrow> string \<Rightarrow> nat \<Rightarrow> string \<Rightarrow> unit res" where
  "check_text what value mx too_long =
     (let cs = chars_of value in
      if value = [] then Err (id_err what value ''must not be empty'')
      else if mx < length cs then Err (id_err what value too_long)
      else if is_name_space (hd cs) \<or> is_name_space (last cs) then
        Err (id_err what value ''must not start or end with whitespace'')
      else if list_ex is_control cs then
        Err (id_err what value ''must not contain control characters'')
      else Ok ())"

definition check_name :: "string \<Rightarrow> unit res" where
  "check_name value = check_text ''name'' value 100 ''must be at most 100 characters''"

definition check_description :: "string \<Rightarrow> unit res" where
  "check_description value =
     and_then (check_text ''description'' value 500 ''must be at most 500 characters'') (\<lambda>_.
       if list_ex (\<lambda>c. c = 8232 \<or> c = 8233) (chars_of value) then
         Err (id_err ''description'' value ''must be a single line (no line or paragraph separators)'')
       else Ok ())"

section \<open>What the checks accept\<close>

text \<open>A slug in words: non-empty runs of letters and digits joined by single underscores.\<close>

definition slug_word :: "string \<Rightarrow> bool" where
  "slug_word w \<longleftrightarrow> w \<noteq> [] \<and> list_all (\<lambda>c. is_lower c \<or> is_digit c) w"

lemma entity_id_kind_new:
  "entity_id_new kind object_id = Ok e \<Longrightarrow>
   entity_id_kind e = Some kind \<and> entity_id_object e = Some object_id \<and> check_entity_id e = Ok ()"
  using split_once_append[OF domain_no_dot, of kind object_id]
  by (auto simp: entity_id_new_def entity_id_parse_def and_then_Inr_iff entity_id_kind_def entity_id_object_def)

end
