(* ===== verification/Numbers.thy ===== *)
theory Numbers
  imports Complex_Main Prelude
begin

text \<open>
  \<open>f64\<close> as the source uses it: finite values as rationals, the two infinities and not-a-number,
  IEEE comparison, and rounding to the nearest double (ties to even, 53 bits, gradual underflow
  below \<open>2^-1022\<close>).  The sign of a zero is not kept (nothing in the modelled code branches on
  it) and a finite result too large for a double is kept exact rather than infinite.
\<close>

section \<open>Values and comparisons\<close>

datatype f64 = Fin rat | PosInf | NegInf | NaN

fun f64_is_finite :: "f64 \<Rightarrow> bool" where
  "f64_is_finite (Fin _) = True"
| "f64_is_finite _ = False"

fun f64_lt :: "f64 \<Rightarrow> f64 \<Rightarrow> bool" where
  "f64_lt NaN _ = False"
| "f64_lt _ NaN = False"
| "f64_lt (Fin a) (Fin b) = (a < b)"
| "f64_lt NegInf b = (b \<noteq> NegInf)"
| "f64_lt (Fin _) b = (b = PosInf)"
| "f64_lt PosInf _ = False"

fun f64_eq :: "f64 \<Rightarrow> f64 \<Rightarrow> bool" where
  "f64_eq NaN _ = False"
| "f64_eq a b = (a = b)"

definition f64_le :: "f64 \<Rightarrow> f64 \<Rightarrow> bool" where
  "f64_le a b = (f64_lt a b \<or> f64_eq a b)"

lemma f64_le_Fin [simp]: "f64_le (Fin a) (Fin b) = (a \<le> b)"
  by (auto simp: f64_le_def)

lemma f64_le_Fin_range:
  "f64_le (Fin a) x \<and> f64_le x (Fin b) \<longleftrightarrow> (\<exists>v. x = Fin v \<and> a \<le> v \<and> v \<le> b)"
  by (cases x) (auto simp: f64_le_def)

text \<open>\<open>(low..=high).contains(&x)\<close>.\<close>

definition f64_within :: "rat \<Rightarrow> rat \<Rightarrow> f64 \<Rightarrow> bool" where
  "f64_within low high x = (f64_le (Fin low) x \<and> f64_le x (Fin high))"

lemma f64_within_iff: "f64_within low high x = (\<exists>v. x = Fin v \<and> low \<le> v \<and> v \<le> high)"
  by (simp add: f64_within_def f64_le_Fin_range)

text \<open>\<open>f64::min\<close> and \<open>f64::max\<close> pass over a NaN; \<open>clamp\<close> keeps one.\<close>

definition f64_min :: "f64 \<Rightarrow> f64 \<Rightarrow> f64" where
  "f64_min a b = (if a = NaN then b else if b = NaN then a else if f64_lt b a then b else a)"

definition f64_max :: "f64 \<Rightarrow> f64 \<Rightarrow> f64" where
  "f64_max a b = (if a = NaN then b else if b = NaN then a else if f64_lt a b then b else a)"

definition f64_clamp :: "f64 \<Rightarrow> f64 \<Rightarrow> f64 \<Rightarrow> f64" where
  "f64_clamp x low high = (if f64_lt x low then low else if f64_lt high x then high else x)"

section \<open>Rounding\<close>

text \<open>\<open>f64::round\<close>: to a whole number, halves away from zero.\<close>

definition round_half_away :: "rat \<Rightarrow> int" where
  "round_half_away x = (if 0 \<le> x then \<lfloor>x + 1/2\<rfloor> else - \<lfloor>1/2 - x\<rfloor>)"

fun f64_round_whole :: "f64 \<Rightarrow> f64" where
  "f64_round_whole (Fin x) = Fin (of_int (round_half_away x))"
| "f64_round_whole x = x"

text \<open>Rounding a rational to the nearest double.\<close>

fun bit_len :: "nat \<Rightarrow> nat" where
  "bit_len n = (if n = 0 then 0 else Suc (bit_len (n div 2)))"

declare bit_len.simps [simp del]

definition pow2 :: "int \<Rightarrow> rat" where
  "pow2 e = (if 0 \<le> e then 2 ^ nat e else 1 / 2 ^ nat (- e))"

text \<open>The exponent \<open>e\<close> with \<open>2^e \<le> x < 2^(e + 1)\<close>, for a positive \<open>x\<close>.\<close>

definition rat_exponent :: "rat \<Rightarrow> int" where
  "rat_exponent x =
     (let (n, d) = quotient_of x;
          e = int (bit_len (nat n)) - int (bit_len (nat d))
      in if pow2 e \<le> x then e else e - 1)"

definition round_half_even :: "rat \<Rightarrow> int" where
  "round_half_even x =
     (let f = \<lfloor>x\<rfloor>; r = x - of_int f
      in if r < 1/2 then f else if 1/2 < r then f + 1 else if even f then f else f + 1)"

definition f64_nearest :: "rat \<Rightarrow> rat" where
  "f64_nearest x =
     (if x = 0 then 0
      else
        let a = \<bar>x\<bar>;
            u = pow2 (max (rat_exponent a - 52) (- 1074));
            m = of_int (round_half_even (a / u)) * u
        in if 0 \<le> x then m else - m)"

definition f64_epsilon :: rat where
  "f64_epsilon = pow2 (- 52)"

fun f64_sub :: "f64 \<Rightarrow> f64 \<Rightarrow> f64" where
  "f64_sub (Fin a) (Fin b) = Fin (f64_nearest (a - b))"
| "f64_sub NaN _ = NaN"
| "f64_sub _ NaN = NaN"
| "f64_sub PosInf PosInf = NaN"
| "f64_sub NegInf NegInf = NaN"
| "f64_sub PosInf _ = PosInf"
| "f64_sub NegInf _ = NegInf"
| "f64_sub (Fin _) PosInf = NegInf"
| "f64_sub (Fin _) NegInf = PosInf"

fun f64_abs :: "f64 \<Rightarrow> f64" where
  "f64_abs (Fin a) = Fin \<bar>a\<bar>"
| "f64_abs NaN = NaN"
| "f64_abs _ = PosInf"

lemma f64_nearest_0 [simp]: "f64_nearest 0 = 0"
  by (simp add: f64_nearest_def)

lemma f64_sub_same: "f64_sub (Fin a) (Fin a) = Fin 0"
  by simp

lemma pow2_pos [simp]: "0 < pow2 e"
  by (simp add: pow2_def)

lemma round_half_even_int [simp]: "round_half_even (of_int n) = n"
  by (simp add: round_half_even_def)

lemma round_half_away_int [simp]: "round_half_away (of_int n) = n"
proof (cases "0 \<le> n")
  case True
  have "\<lfloor>(of_int n :: rat) + 1/2\<rfloor> = n" by linarith
  with True show ?thesis by (simp add: round_half_away_def)
next
  case False
  have "\<lfloor>1/2 - (of_int n :: rat)\<rfloor> = - n" by linarith
  with False show ?thesis by (simp add: round_half_away_def)
qed

lemma round_half_away_near: "\<bar>of_int (round_half_away x) - x\<bar> \<le> 1/2"
proof (cases "0 \<le> x")
  case True
  have "of_int \<lfloor>x + 1/2\<rfloor> \<le> x + 1/2" "x + 1/2 < of_int \<lfloor>x + 1/2\<rfloor> + 1"
    by linarith+
  with True show ?thesis unfolding round_half_away_def if_P[OF True] by linarith
next
  case False
  have "of_int \<lfloor>1/2 - x\<rfloor> \<le> 1/2 - x" "1/2 - x < of_int \<lfloor>1/2 - x\<rfloor> + 1"
    by linarith+
  with False show ?thesis unfolding round_half_away_def if_not_P[OF False] of_int_minus by linarith
qed

end
