(* ===== verification/OrdMap.thy ===== *)
theory OrdMap
  imports Prelude
begin

text \<open>
  \<open>BTreeMap\<close> and \<open>BTreeSet\<close>: association lists in strictly ascending key order, so that the
  order the source iterates in is the order of the list.  \<open>get_mut\<close> followed by a write in
  place is \<open>omod\<close>.  The locale \<open>ordered_store\<close> states what a client of such a map relies on;
  \<open>om\<close> interprets it on the lists.
\<close>

section \<open>Ordered maps\<close>

type_synonym ('k, 'v) omap = "('k \<times> 'v) list"

definition oget :: "'k \<Rightarrow> ('k, 'v) omap \<Rightarrow> 'v option" where
  "oget k m = map_of m k"

fun oput :: "'k::linorder \<Rightarrow> 'v \<Rightarrow> ('k, 'v) omap \<Rightarrow> ('k, 'v) omap" where
  "oput k v [] = [(k, v)]"
| "oput k v ((k', v') # m) =
     (if k < k' then (k, v) # (k', v') # m
      else if k = k' then (k, v) # m
      else (k', v') # oput k v m)"

definition odel :: "'k \<Rightarrow> ('k, 'v) omap \<Rightarrow> ('k, 'v) omap" where
  "odel k m = filter (\<lambda>p. fst p \<noteq> k) m"

definition omod :: "'k \<Rightarrow> ('v \<Rightarrow> 'v) \<Rightarrow> ('k, 'v) omap \<Rightarrow> ('k, 'v) omap" where
  "omod k f m = map (\<lambda>p. if fst p = k then (k, f (snd p)) else p) m"

definition okeys :: "('k, 'v) omap \<Rightarrow> 'k list" where
  "okeys m = map fst m"

definition ovals :: "('k, 'v) omap \<Rightarrow> 'v list" where
  "ovals m = map snd m"

definition omap_ok :: "('k::linorder, 'v) omap \<Rightarrow> bool" where
  "omap_ok m = sorted_wrt (<) (map fst m)"

text \<open>\<open>collect()\<close> into a map: later entries replace earlier ones of the same key.\<close>

definition ofold :: "('k::linorder \<times> 'v) list \<Rightarrow> ('k, 'v) omap" where
  "ofold ps = fold (\<lambda>(k, v). oput k v) ps []"

subsection \<open>Look-up\<close>

lemma oget_Nil [simp]: "oget k [] = None"
  by (simp add: oget_def)

lemma oget_Cons [simp]: "oget k ((k', v) # m) = (if k' = k then Some v else oget k m)"
  by (simp add: oget_def)

lemma oget_omod [simp]: "oget k (omod k' f m) = (if k = k' then map_option f (oget k m) else oget k m)"
  by (induction m) (auto simp: oget_def omod_def)

lemma oget_odel [simp]: "oget k (odel k' m) = (if k = k' then None else oget k m)"
  by (induction m) (auto simp: oget_def odel_def)

lemma oget_Some_mem: "oget k m = Some v \<Longrightarrow> (k, v) \<in> set m"
  by (simp add: oget_def map_of_SomeD)

lemma oget_None_iff: "oget k m = None \<longleftrightarrow> k \<notin> set (okeys m)"
  by (simp add: oget_def okeys_def map_of_eq_None_iff)

lemma okeys_simps [simp]: "okeys [] = []" "okeys (p # m) = fst p # okeys m"
  by (simp_all add: okeys_def)

lemma omod_Nil [simp]: "omod k f [] = []"
  by (simp add: omod_def)

lemma odel_Nil [simp]: "odel k [] = []"
  by (simp add: odel_def)

lemma okeys_omod [simp]: "okeys (omod k f m) = okeys m"
  by (induction m) (auto simp: okeys_def omod_def)

lemma okeys_odel [simp]: "okeys (odel k m) = filter (\<lambda>x. x \<noteq> k) (okeys m)"
  by (induction m) (auto simp: okeys_def odel_def)

lemma set_okeys_oput [simp]: "set (okeys (oput k v m)) = insert k (set (okeys m))"
  by (induction k v m rule: oput.induct) (auto simp: okeys_def)

lemma length_omod [simp]: "length (omod k f m) = length m"
  by (simp add: omod_def)

lemma omod_id: "(\<And>v. (k, v) \<in> set m \<Longrightarrow> f v = v) \<Longrightarrow> omod k f m = m"
  unfolding omod_def by (rule map_idI) auto

lemma omod_omod: "omod k f (omod k g m) = omod k (\<lambda>v. f (g v)) m"
  by (simp add: omod_def)

lemma mem_omod_iff:
  "(k', v') \<in> set (omod k f m) \<longleftrightarrow>
   (if k' = k then \<exists>v. (k, v) \<in> set m \<and> v' = f v else (k', v') \<in> set m)"
  by (force simp: omod_def)

lemma mem_odel_iff: "p \<in> set (odel k m) \<longleftrightarrow> p \<in> set m \<and> fst p \<noteq> k"
  by (simp add: odel_def)

subsection \<open>The order is kept\<close>

lemma omap_ok_Nil [simp]: "omap_ok []"
  by (simp add: omap_ok_def)

lemma omap_ok_Cons [simp]:
  "omap_ok ((k, v) # m) \<longleftrightarrow> (\<forall>k' \<in> set (okeys m). k < k') \<and> omap_ok m"
  by (simp add: omap_ok_def okeys_def)

lemma omap_ok_omod [simp]: "omap_ok (omod k f m) = omap_ok m"
  using okeys_omod[of k f m] by (simp add: omap_ok_def okeys_def)

lemma omap_ok_odel: "omap_ok m \<Longrightarrow> omap_ok (odel k m)"
  by (induction m) (auto simp: odel_def okeys_def)

lemma omap_ok_oput: "omap_ok m \<Longrightarrow> omap_ok (oput k v m)"
  by (induction k v m rule: oput.induct) (auto dest: less_trans)

lemma omap_ok_ofold: "omap_ok (ofold ps)"
proof -
  have "omap_ok m \<Longrightarrow> omap_ok (fold (\<lambda>(k, v). oput k v) ps m)" for m
    by (induction ps arbitrary: m) (auto intro: omap_ok_oput)
  then show ?thesis by (simp add: ofold_def)
qed

lemma omap_ok_distinct: "omap_ok m \<Longrightarrow> distinct (okeys m)"
  by (simp add: omap_ok_def okeys_def strict_sorted_iff)

lemma oget_oput: "oget k (oput k' v m) = (if k = k' then Some v else oget k m)"
  by (induction k' v m rule: oput.induct) auto

lemma oget_eq_Some: "omap_ok m \<Longrightarrow> oget k m = Some v \<longleftrightarrow> (k, v) \<in> set m"
  using omap_ok_distinct[of m] by (simp add: oget_def okeys_def)

lemma mem_oput: "p \<in> set (oput k v m) \<Longrightarrow> p = (k, v) \<or> p \<in> set m"
  by (induction k v m rule: oput.induct) (auto split: if_splits)

lemma mem_oput_same [simp]: "(k, v) \<in> set (oput k v m)"
  by (induction k v m rule: oput.induct) auto

lemma oput_present: "omap_ok m \<Longrightarrow> k \<in> set (okeys m) \<Longrightarrow> oput k v m = omod k (\<lambda>_. v) m"
proof (induction k v m rule: oput.induct)
  case (2 k v k' v' m)
  have "k \<noteq> fst p" if "p \<in> set m" "k \<le> k'" for p
    using 2(2) that by (force simp: okeys_def)
  then have *: "k \<le> k' \<Longrightarrow> omod k (\<lambda>_. v) m = m"
    by (intro omod_id) force
  show ?case
  proof (cases "k = k'")
    case True
    with * show ?thesis by (simp add: omod_def)
  next
    case False
    moreover from this 2(2,3) have "\<not> k < k'"
      by (auto simp: okeys_def dest: less_trans)
    ultimately show ?thesis
      using 2 by (auto simp: omod_def okeys_def)
  qed
qed (simp add: okeys_def)

subsection \<open>Sums over the values\<close>

definition osum :: "('v \<Rightarrow> nat) \<Rightarrow> ('k, 'v) omap \<Rightarrow> nat" where
  "osum f m = sum_list (map (\<lambda>p. f (snd p)) m)"

lemma osum_simps [simp]: "osum f [] = 0" "osum f (p # m) = f (snd p) + osum f m"
  by (simp_all add: osum_def)

lemma osum_odel_le: "osum f (odel k m) \<le> osum f m"
  by (induction m) (auto simp: odel_def)

lemma osum_omod_le: "(\<And>v. (k, v) \<in> set m \<Longrightarrow> f (g v) \<le> f v) \<Longrightarrow> osum f (omod k g m) \<le> osum f m"
proof (induction m)
  case (Cons p m)
  have "osum f (omod k g m) \<le> osum f m" by (rule Cons.IH) (simp add: Cons.prems)
  moreover have "f (snd (if fst p = k then (k, g (snd p)) else p)) \<le> f (snd p)"
    using Cons.prems by (cases p) auto
  ultimately show ?case by (simp add: omod_def)
qed simp

lemma osum_omod_less:
  assumes "\<And>v. (k, v) \<in> set m \<Longrightarrow> f (g v) \<le> f v" and "oget k m = Some v" and "f (g v) < f v"
  shows "osum f (omod k g m) < osum f m"
  using assms
proof (induction m)
  case (Cons p m)
  obtain k' w where p: "p = (k', w)" by (cases p)
  show ?case
  proof (cases "k' = k")
    case True
    have "osum f (omod k g m) \<le> osum f m" by (rule osum_omod_le) (simp add: Cons.prems)
    with Cons.prems True p show ?thesis by (simp add: omod_def)
  next
    case False
    with Cons p show ?thesis by (simp add: omod_def)
  qed
qed simp

lemma osum_omod_same: "(\<And>v. (k, v) \<in> set m \<Longrightarrow> f (g v) = f v) \<Longrightarrow> osum f (omod k g m) = osum f m"
proof (induction m)
  case (Cons p m)
  have "osum f (omod k g m) = osum f m" by (rule Cons.IH) (simp add: Cons.prems)
  then show ?case using Cons.prems by (cases p) (auto simp: omod_def)
qed simp

section \<open>The interface of an ordered map\<close>

locale ordered_store =
  fixes get :: "'k::linorder \<Rightarrow> 's \<Rightarrow> 'v option"
    and put :: "'k \<Rightarrow> 'v \<Rightarrow> 's \<Rightarrow> 's"
    and del :: "'k \<Rightarrow> 's \<Rightarrow> 's"
    and entries :: "'s \<Rightarrow> ('k \<times> 'v) list"
    and invar :: "'s \<Rightarrow> bool"
  assumes invar_put: "invar s \<Longrightarrow> invar (put k v s)"
    and invar_del: "invar s \<Longrightarrow> invar (del k s)"
    and entries_sorted: "invar s \<Longrightarrow> sorted_wrt (<) (map fst (entries s))"
    and get_entries: "invar s \<Longrightarrow> get k s = map_of (entries s) k"
    and get_put: "invar s \<Longrightarrow> get k (put k' v s) = (if k = k' then Some v else get k s)"
    and get_del: "invar s \<Longrightarrow> get k (del k' s) = (if k = k' then None else get k s)"
begin

lemma distinct_entries: "invar s \<Longrightarrow> distinct (map fst (entries s))"
  using entries_sorted strict_sorted_iff by blast

lemma get_iff: "invar s \<Longrightarrow> get k s = Some v \<longleftrightarrow> (k, v) \<in> set (entries s)"
  by (simp add: get_entries distinct_entries)

text \<open>How many entries a predicate holds for; what inserting and removing do to it.\<close>

definition matching :: "('k \<Rightarrow> 'v \<Rightarrow> bool) \<Rightarrow> 's \<Rightarrow> ('k \<times> 'v) set" where
  "matching P s = {p \<in> set (entries s). P (fst p) (snd p)}"

lemma count_matching:
  "invar s \<Longrightarrow> length (filter (\<lambda>p. P (fst p) (snd p)) (entries s)) = card (matching P s)"
  using distinct_entries[of s]
  by (simp add: matching_def distinct_map flip: distinct_card set_filter)

lemma matching_put: "invar s \<Longrightarrow> matching P (put k v s) \<subseteq> insert (k, v) (matching P s)"
  by (auto simp: matching_def get_iff [symmetric] invar_put get_put split: if_splits)

lemma matching_del: "invar s \<Longrightarrow> matching P (del k s) = {p \<in> matching P s. fst p \<noteq> k}"
  by (auto simp: matching_def get_iff [symmetric] invar_del get_del split: if_splits)

lemma finite_matching: "finite (matching P s)"
  by (simp add: matching_def)

lemma count_put_le:
  assumes "invar s"
  shows "length (filter (\<lambda>p. P (fst p) (snd p)) (entries (put k v s)))
    \<le> Suc (length (filter (\<lambda>p. P (fst p) (snd p)) (entries s)))"
proof -
  have "card (matching P (put k v s)) \<le> card (insert (k, v) (matching P s))"
    by (intro card_mono matching_put assms) (simp add: finite_matching)
  also have "\<dots> \<le> Suc (card (matching P s))"
    by (simp add: card_insert_le_m1 finite_matching card_insert_if)
  finally show ?thesis
    by (simp add: count_matching assms invar_put)
qed

lemma count_put_other:
  assumes "invar s" "\<not> P k v"
  shows "length (filter (\<lambda>p. P (fst p) (snd p)) (entries (put k v s)))
    \<le> length (filter (\<lambda>p. P (fst p) (snd p)) (entries s))"
proof -
  have "matching P (put k v s) \<subseteq> matching P s"
    using matching_put[OF assms(1), of P k v] assms(2) by (auto simp: matching_def)
  then have "card (matching P (put k v s)) \<le> card (matching P s)"
    by (intro card_mono finite_matching)
  then show ?thesis by (simp add: count_matching assms invar_put)
qed

lemma count_del_le:
  assumes "invar s"
  shows "length (filter (\<lambda>p. P (fst p) (snd p)) (entries (del k s)))
    \<le> length (filter (\<lambda>p. P (fst p) (snd p)) (entries s))"
  by (simp add: count_matching assms invar_del matching_del card_mono finite_matching)

lemma count_del_less:
  assumes "invar s" "get k s = Some v" "P k v"
  shows "length (filter (\<lambda>p. P (fst p) (snd p)) (entries (del k s)))
    < length (filter (\<lambda>p. P (fst p) (snd p)) (entries s))"
proof -
  have "(k, v) \<in> matching P s" using assms by (simp add: matching_def get_iff)
  then have "{p \<in> matching P s. fst p \<noteq> k} \<subset> matching P s" by force
  then have "card {p \<in> matching P s. fst p \<noteq> k} < card (matching P s)"
    by (intro psubset_card_mono finite_matching)
  then show ?thesis by (simp add: count_matching assms invar_del matching_del)
qed

end

interpretation om: ordered_store oget oput odel "\<lambda>m. m" omap_ok
proof unfold_locales
  fix s :: "('a::linorder, 'b) omap" and k k' v
  show "omap_ok s \<Longrightarrow> omap_ok (oput k v s)" by (rule omap_ok_oput)
  show "omap_ok s \<Longrightarrow> omap_ok (odel k s)" by (rule omap_ok_odel)
  show "omap_ok s \<Longrightarrow> sorted_wrt (<) (map fst s)" by (simp add: omap_ok_def)
  show "oget k s = map_of s k" by (simp add: oget_def)
  show "omap_ok s \<Longrightarrow> oget k (oput k' v s) = (if k = k' then Some v else oget k s)"
    by (rule oget_oput)
  show "oget k (odel k' s) = (if k = k' then None else oget k s)" by simp
qed

section \<open>Ordered sets\<close>

text \<open>\<open>BTreeSet\<close> of keys: a strictly ascending list.\<close>

definition oset_ins :: "'k::linorder \<Rightarrow> 'k list \<Rightarrow> 'k list" where
  "oset_ins x xs = (if x \<in> set xs then xs else insort x xs)"

lemma set_oset_ins [simp]: "set (oset_ins x xs) = insert x (set xs)"
  by (auto simp: oset_ins_def set_insort_key)

definition oset_of :: "'k::linorder list \<Rightarrow> 'k list" where
  "oset_of xs = fold oset_ins xs []"

lemma set_oset_of [simp]: "set (oset_of xs) = set xs"
proof -
  have "set (fold oset_ins xs ys) = set xs \<union> set ys" for ys
    by (induction xs arbitrary: ys) auto
  then show ?thesis by (simp add: oset_of_def)
qed

end
