(* ===== verification/Json.thy ===== *)
theory Json
  imports Numbers OrdMap
begin

text \<open>
  JSON values as \<open>serde_json\<close> keeps them: an integer and a decimal are different numbers even
  when equal (\<open>45\<close> is not \<open>45.0\<close>), an object is a map in key order, and a decimal is always
  finite.
\<close>

datatype json =
    JNull
  | JBool bool
  | JInt int
  | JFloat rat
  | JStr string
  | JArr "json list"
  | JObj "(string \<times> json) list"

text \<open>\<open>Number::as_f64\<close>: an integer is rounded to the nearest double.\<close>

fun json_as_f64 :: "json \<Rightarrow> f64 option" where
  "json_as_f64 (JInt i) = Some (Fin (f64_nearest (of_int i)))"
| "json_as_f64 (JFloat r) = Some (Fin r)"
| "json_as_f64 _ = None"

text \<open>\<open>as_u64\<close>: an integer from 0 to \<open>2^64 - 1\<close>, never a decimal.\<close>

fun json_as_u64 :: "json \<Rightarrow> nat option" where
  "json_as_u64 (JInt i) = (if 0 \<le> i \<and> i < 18446744073709551616 then Some (nat i) else None)"
| "json_as_u64 _ = None"

text \<open>\<open>json!(x)\<close> of a double: \<open>null\<close> when it is not finite.\<close>

fun json_of_f64 :: "f64 \<Rightarrow> json" where
  "json_of_f64 (Fin r) = JFloat r"
| "json_of_f64 _ = JNull"

end
