(* ===== verification/States.thy ===== *)
theory States
  imports Ids Json
begin

text \<open>
  Live state: the value of each kind of entity, its primary value and its other fields, its own
  rules, and the state that holds a given primary value (\<open>crates/irori-types/src/state.rs\<close>,
  \<open>kinds/mod.rs\<close> and the \<open>State\<close> half of each file under \<open>kinds/\<close>).

  A calendar day is kept as year, month and day, a time of day as its three numbers, and a
  timestamp as nanoseconds since 1970.  Which days exist and how an instant is written belong to
  the date library, so they are arguments: \<open>jt\<close> bundles them.
\<close>

section \<open>Typed values\<close>

datatype typed = TBool bool | TNumber f64 | TText string

datatype value_shape = ShapeNumber | ShapeBool | ShapeText

fun typed_shape :: "typed \<Rightarrow> value_shape" where
  "typed_shape (TBool _) = ShapeBool"
| "typed_shape (TNumber _) = ShapeNumber"
| "typed_shape (TText _) = ShapeText"

fun typed_json :: "typed \<Rightarrow> json" where
  "typed_json (TBool b) = JBool b"
| "typed_json (TNumber n) = json_of_f64 n"
| "typed_json (TText t) = JStr t"

section \<open>Name-only enums\<close>

text \<open>
  How serde writes a variant under \<open>rename_all = "snake_case"\<close>, and \<open>from_ha\<close> and \<open>named\<close>,
  which read and write by those names.  The variants of an enum are listed with their names as
  the source spells them.
\<close>

definition is_upper :: "char \<Rightarrow> bool" where
  "is_upper c \<longleftrightarrow> 65 \<le> byte_of c \<and> byte_of c \<le> 90"

definition lower_char :: "char \<Rightarrow> char" where
  "lower_char c = (if is_upper c then char_of (byte_of c + 32) else c)"

fun snake_tail :: "string \<Rightarrow> string" where
  "snake_tail [] = []"
| "snake_tail (c # cs) = (if is_upper c then CHR ''_'' # lower_char c # snake_tail cs else c # snake_tail cs)"

fun snake_case :: "string \<Rightarrow> string" where
  "snake_case [] = []"
| "snake_case (c # cs) = lower_char c # snake_tail cs"

definition from_ha :: "(string \<times> 'a) list \<Rightarrow> string \<Rightarrow> 'a option" where
  "from_ha variants name = find_map (\<lambda>(v, x). if snake_case v = name then Some x else None) variants"

definition named :: "(string \<times> 'a) list \<Rightarrow> 'a \<Rightarrow> typed option" where
  "named variants x = find_map (\<lambda>(v, y). if y = x then Some (TText (snake_case v)) else None) variants"

datatype color_mode = CM_ColorTemp | CM_Rgb

definition color_mode_variants :: "(string \<times> color_mode) list" where
  "color_mode_variants =
     [(''ColorTemp'', CM_ColorTemp), (''Rgb'', CM_Rgb)]"

datatype open_state = OS_Open | OS_Opening | OS_Closed | OS_Closing

definition open_state_variants :: "(string \<times> open_state) list" where
  "open_state_variants =
     [(''Open'', OS_Open), (''Opening'', OS_Opening), (''Closed'', OS_Closed), (''Closing'', OS_Closing)]"

fun open_state_str :: "open_state \<Rightarrow> string" where
  "open_state_str OS_Open = ''open''"
| "open_state_str OS_Opening = ''opening''"
| "open_state_str OS_Closed = ''closed''"
| "open_state_str OS_Closing = ''closing''"

definition open_state_parse :: "string \<Rightarrow> open_state option" where
  "open_state_parse = from_ha open_state_variants"

datatype fan_direction = FD_Forward | FD_Reverse

definition fan_direction_variants :: "(string \<times> fan_direction) list" where
  "fan_direction_variants =
     [(''Forward'', FD_Forward), (''Reverse'', FD_Reverse)]"

datatype hvac_mode = HM_Off | HM_Heat | HM_Cool | HM_HeatCool | HM_Auto | HM_Dry | HM_FanOnly

definition hvac_mode_variants :: "(string \<times> hvac_mode) list" where
  "hvac_mode_variants =
     [(''Off'', HM_Off), (''Heat'', HM_Heat), (''Cool'', HM_Cool), (''HeatCool'', HM_HeatCool), (''Auto'', HM_Auto), (''Dry'', HM_Dry), (''FanOnly'', HM_FanOnly)]"

fun hvac_mode_str :: "hvac_mode \<Rightarrow> string" where
  "hvac_mode_str HM_Off = ''off''"
| "hvac_mode_str HM_Heat = ''heat''"
| "hvac_mode_str HM_Cool = ''cool''"
| "hvac_mode_str HM_HeatCool = ''heat_cool''"
| "hvac_mode_str HM_Auto = ''auto''"
| "hvac_mode_str HM_Dry = ''dry''"
| "hvac_mode_str HM_FanOnly = ''fan_only''"

definition hvac_mode_parse :: "string \<Rightarrow> hvac_mode option" where
  "hvac_mode_parse = from_ha hvac_mode_variants"

datatype hvac_action = HA_Off | HA_Preheating | HA_Heating | HA_Cooling | HA_Drying | HA_Idle | HA_Fan | HA_Defrosting

definition hvac_action_variants :: "(string \<times> hvac_action) list" where
  "hvac_action_variants =
     [(''Off'', HA_Off), (''Preheating'', HA_Preheating), (''Heating'', HA_Heating), (''Cooling'', HA_Cooling), (''Drying'', HA_Drying), (''Idle'', HA_Idle), (''Fan'', HA_Fan), (''Defrosting'', HA_Defrosting)]"

datatype water_heater_mode = WM_Off | WM_Eco | WM_Electric | WM_Gas | WM_HeatPump | WM_HighDemand | WM_Performance

definition water_heater_mode_variants :: "(string \<times> water_heater_mode) list" where
  "water_heater_mode_variants =
     [(''Off'', WM_Off), (''Eco'', WM_Eco), (''Electric'', WM_Electric), (''Gas'', WM_Gas), (''HeatPump'', WM_HeatPump), (''HighDemand'', WM_HighDemand), (''Performance'', WM_Performance)]"

fun water_heater_mode_str :: "water_heater_mode \<Rightarrow> string" where
  "water_heater_mode_str WM_Off = ''off''"
| "water_heater_mode_str WM_Eco = ''eco''"
| "water_heater_mode_str WM_Electric = ''electric''"
| "water_heater_mode_str WM_Gas = ''gas''"
| "water_heater_mode_str WM_HeatPump = ''heat_pump''"
| "water_heater_mode_str WM_HighDemand = ''high_demand''"
| "water_heater_mode_str WM_Performance = ''performance''"

definition water_heater_mode_parse :: "string \<Rightarrow> water_heater_mode option" where
  "water_heater_mode_parse = from_ha water_heater_mode_variants"

datatype humidifier_action = HU_Off | HU_Humidifying | HU_Drying | HU_Idle

definition humidifier_action_variants :: "(string \<times> humidifier_action) list" where
  "humidifier_action_variants =
     [(''Off'', HU_Off), (''Humidifying'', HU_Humidifying), (''Drying'', HU_Drying), (''Idle'', HU_Idle)]"

datatype playback = PB_Off | PB_Idle | PB_Playing | PB_Paused | PB_Buffering | PB_Standby

definition playback_variants :: "(string \<times> playback) list" where
  "playback_variants =
     [(''Off'', PB_Off), (''Idle'', PB_Idle), (''Playing'', PB_Playing), (''Paused'', PB_Paused), (''Buffering'', PB_Buffering), (''Standby'', PB_Standby)]"

fun playback_str :: "playback \<Rightarrow> string" where
  "playback_str PB_Off = ''off''"
| "playback_str PB_Idle = ''idle''"
| "playback_str PB_Playing = ''playing''"
| "playback_str PB_Paused = ''paused''"
| "playback_str PB_Buffering = ''buffering''"
| "playback_str PB_Standby = ''standby''"

definition playback_parse :: "string \<Rightarrow> playback option" where
  "playback_parse = from_ha playback_variants"

datatype alarm_status = AS_Disarmed | AS_ArmedHome | AS_ArmedAway | AS_ArmedNight | AS_ArmedVacation | AS_ArmedCustomBypass | AS_Pending | AS_Arming | AS_Disarming | AS_Triggered

definition alarm_status_variants :: "(string \<times> alarm_status) list" where
  "alarm_status_variants =
     [(''Disarmed'', AS_Disarmed), (''ArmedHome'', AS_ArmedHome), (''ArmedAway'', AS_ArmedAway), (''ArmedNight'', AS_ArmedNight), (''ArmedVacation'', AS_ArmedVacation), (''ArmedCustomBypass'', AS_ArmedCustomBypass), (''Pending'', AS_Pending), (''Arming'', AS_Arming), (''Disarming'', AS_Disarming), (''Triggered'', AS_Triggered)]"

fun alarm_status_str :: "alarm_status \<Rightarrow> string" where
  "alarm_status_str AS_Disarmed = ''disarmed''"
| "alarm_status_str AS_ArmedHome = ''armed_home''"
| "alarm_status_str AS_ArmedAway = ''armed_away''"
| "alarm_status_str AS_ArmedNight = ''armed_night''"
| "alarm_status_str AS_ArmedVacation = ''armed_vacation''"
| "alarm_status_str AS_ArmedCustomBypass = ''armed_custom_bypass''"
| "alarm_status_str AS_Pending = ''pending''"
| "alarm_status_str AS_Arming = ''arming''"
| "alarm_status_str AS_Disarming = ''disarming''"
| "alarm_status_str AS_Triggered = ''triggered''"

definition alarm_status_parse :: "string \<Rightarrow> alarm_status option" where
  "alarm_status_parse = from_ha alarm_status_variants"

datatype lock_status = LS_Locked | LS_Unlocked | LS_Locking | LS_Unlocking | LS_Jammed | LS_Open | LS_Opening

definition lock_status_variants :: "(string \<times> lock_status) list" where
  "lock_status_variants =
     [(''Locked'', LS_Locked), (''Unlocked'', LS_Unlocked), (''Locking'', LS_Locking), (''Unlocking'', LS_Unlocking), (''Jammed'', LS_Jammed), (''Open'', LS_Open), (''Opening'', LS_Opening)]"

fun lock_status_str :: "lock_status \<Rightarrow> string" where
  "lock_status_str LS_Locked = ''locked''"
| "lock_status_str LS_Unlocked = ''unlocked''"
| "lock_status_str LS_Locking = ''locking''"
| "lock_status_str LS_Unlocking = ''unlocking''"
| "lock_status_str LS_Jammed = ''jammed''"
| "lock_status_str LS_Open = ''open''"
| "lock_status_str LS_Opening = ''opening''"

definition lock_status_parse :: "string \<Rightarrow> lock_status option" where
  "lock_status_parse = from_ha lock_status_variants"

datatype vacuum_activity = VA_Cleaning | VA_Docked | VA_Idle | VA_Paused | VA_Returning | VA_Error

definition vacuum_activity_variants :: "(string \<times> vacuum_activity) list" where
  "vacuum_activity_variants =
     [(''Cleaning'', VA_Cleaning), (''Docked'', VA_Docked), (''Idle'', VA_Idle), (''Paused'', VA_Paused), (''Returning'', VA_Returning), (''Error'', VA_Error)]"

fun vacuum_activity_str :: "vacuum_activity \<Rightarrow> string" where
  "vacuum_activity_str VA_Cleaning = ''cleaning''"
| "vacuum_activity_str VA_Docked = ''docked''"
| "vacuum_activity_str VA_Idle = ''idle''"
| "vacuum_activity_str VA_Paused = ''paused''"
| "vacuum_activity_str VA_Returning = ''returning''"
| "vacuum_activity_str VA_Error = ''error''"

definition vacuum_activity_parse :: "string \<Rightarrow> vacuum_activity option" where
  "vacuum_activity_parse = from_ha vacuum_activity_variants"

datatype mower_activity = MA_Mowing | MA_Docked | MA_Paused | MA_Returning | MA_Error

definition mower_activity_variants :: "(string \<times> mower_activity) list" where
  "mower_activity_variants =
     [(''Mowing'', MA_Mowing), (''Docked'', MA_Docked), (''Paused'', MA_Paused), (''Returning'', MA_Returning), (''Error'', MA_Error)]"

fun mower_activity_str :: "mower_activity \<Rightarrow> string" where
  "mower_activity_str MA_Mowing = ''mowing''"
| "mower_activity_str MA_Docked = ''docked''"
| "mower_activity_str MA_Paused = ''paused''"
| "mower_activity_str MA_Returning = ''returning''"
| "mower_activity_str MA_Error = ''error''"

definition mower_activity_parse :: "string \<Rightarrow> mower_activity option" where
  "mower_activity_parse = from_ha mower_activity_variants"

datatype timer_status = TS_Idle | TS_Active | TS_Paused

definition timer_status_variants :: "(string \<times> timer_status) list" where
  "timer_status_variants =
     [(''Idle'', TS_Idle), (''Active'', TS_Active), (''Paused'', TS_Paused)]"

fun timer_status_str :: "timer_status \<Rightarrow> string" where
  "timer_status_str TS_Idle = ''idle''"
| "timer_status_str TS_Active = ''active''"
| "timer_status_str TS_Paused = ''paused''"

definition timer_status_parse :: "string \<Rightarrow> timer_status option" where
  "timer_status_parse = from_ha timer_status_variants"

datatype camera_status = CS_Off | CS_Idle | CS_Recording | CS_Streaming

definition camera_status_variants :: "(string \<times> camera_status) list" where
  "camera_status_variants =
     [(''Off'', CS_Off), (''Idle'', CS_Idle), (''Recording'', CS_Recording), (''Streaming'', CS_Streaming)]"

fun camera_status_str :: "camera_status \<Rightarrow> string" where
  "camera_status_str CS_Off = ''off''"
| "camera_status_str CS_Idle = ''idle''"
| "camera_status_str CS_Recording = ''recording''"
| "camera_status_str CS_Streaming = ''streaming''"

definition camera_status_parse :: "string \<Rightarrow> camera_status option" where
  "camera_status_parse = from_ha camera_status_variants"

text \<open>Each enum is read back from what its own \<open>as_str\<close> writes: the names spelled out by hand
  are the ones serde derives.\<close>

lemma enum_parse_str [simp]:
  "open_state_parse (open_state_str x1) = Some x1"
  "hvac_mode_parse (hvac_mode_str x2) = Some x2"
  "water_heater_mode_parse (water_heater_mode_str x3) = Some x3"
  "playback_parse (playback_str x4) = Some x4"
  "alarm_status_parse (alarm_status_str x5) = Some x5"
  "lock_status_parse (lock_status_str x6) = Some x6"
  "vacuum_activity_parse (vacuum_activity_str x7) = Some x7"
  "mower_activity_parse (mower_activity_str x8) = Some x8"
  "timer_status_parse (timer_status_str x9) = Some x9"
  "camera_status_parse (camera_status_str x10) = Some x10"
proof -
  show "open_state_parse (open_state_str x) = Some x" for x by (cases x; hypsubst; code_simp)
  show "hvac_mode_parse (hvac_mode_str x) = Some x" for x by (cases x; hypsubst; code_simp)
  show "water_heater_mode_parse (water_heater_mode_str x) = Some x" for x by (cases x; hypsubst; code_simp)
  show "playback_parse (playback_str x) = Some x" for x by (cases x; hypsubst; code_simp)
  show "alarm_status_parse (alarm_status_str x) = Some x" for x by (cases x; hypsubst; code_simp)
  show "lock_status_parse (lock_status_str x) = Some x" for x by (cases x; hypsubst; code_simp)
  show "vacuum_activity_parse (vacuum_activity_str x) = Some x" for x by (cases x; hypsubst; code_simp)
  show "mower_activity_parse (mower_activity_str x) = Some x" for x by (cases x; hypsubst; code_simp)
  show "timer_status_parse (timer_status_str x) = Some x" for x by (cases x; hypsubst; code_simp)
  show "camera_status_parse (camera_status_str x) = Some x" for x by (cases x; hypsubst; code_simp)
qed

section \<open>The states of the kinds\<close>

record date_library =
  day_exists :: "int \<Rightarrow> int \<Rightarrow> int \<Rightarrow> bool"
  instant_text :: "int \<Rightarrow> string"
  instant_parse :: "string \<Rightarrow> int option"

record light_state =
  lt_on :: bool
  lt_brightness :: "nat option"
  lt_color_mode :: "color_mode option"
  lt_color_temp_kelvin :: "nat option"
  lt_rgb :: "(nat \<times> nat \<times> nat) option"

record switch_state = sw_on :: bool

datatype sensor_value = SensorNumber f64 | SensorText string

record sensor_state = se_value :: sensor_value

record binary_sensor_state = bs_on :: bool

record number_state = nu_value :: f64

record select_state = sl_option :: string

record text_state = tx_value :: string

record event_state = ev_type :: string

record opening_state =
  op_state :: open_state
  op_position :: "nat option"

record cover_state =
  cv_state :: open_state
  cv_position :: "nat option"
  cv_tilt :: "nat option"

record lock_state = lk_state :: lock_status

record fan_state =
  fn_on :: bool
  fn_percentage :: "nat option"
  fn_oscillating :: "bool option"
  fn_direction :: "fan_direction option"
  fn_preset_mode :: "string option"

record valve_state =
  vl_state :: open_state
  vl_position :: "nat option"

record siren_state = si_on :: bool

record climate_state =
  cl_hvac_mode :: hvac_mode
  cl_hvac_action :: "hvac_action option"
  cl_current_temperature :: "f64 option"
  cl_target_temperature :: "f64 option"
  cl_target_temp_low :: "f64 option"
  cl_target_temp_high :: "f64 option"
  cl_current_humidity :: "f64 option"
  cl_target_humidity :: "f64 option"
  cl_fan_mode :: "string option"
  cl_swing_mode :: "string option"
  cl_preset_mode :: "string option"

record water_heater_state =
  wh_operation_mode :: water_heater_mode
  wh_current_temperature :: "f64 option"
  wh_target_temperature :: "f64 option"

record humidifier_state =
  hu_on :: bool
  hu_target_humidity :: "f64 option"
  hu_current_humidity :: "f64 option"
  hu_mode :: "string option"
  hu_action :: "humidifier_action option"

record media_player_state =
  mp_state :: playback
  mp_volume :: "nat option"
  mp_muted :: "bool option"
  mp_title :: "string option"
  mp_artist :: "string option"
  mp_album :: "string option"
  mp_app :: "string option"
  mp_content_type :: "string option"
  mp_duration :: "f64 option"
  mp_position :: "f64 option"

record update_state =
  up_available :: bool
  up_installed_version :: "string option"
  up_latest_version :: "string option"
  up_in_progress :: bool
  up_progress :: "f64 option"
  up_title :: "string option"
  up_release_summary :: "string option"
  up_release_url :: "string option"
  up_skipped_version :: "string option"
  up_last_error :: "string option"

record alarm_state = al_state :: alarm_status

record civil_date =
  cd_year :: int
  cd_month :: int
  cd_day :: int

record clock_time =
  ct_hour :: int
  ct_minute :: int
  ct_second :: int

record date_state = da_value :: civil_date

record time_state = ti_value :: clock_time

record datetime_state = dt_value :: int

record vacuum_state =
  va_activity :: vacuum_activity
  va_fan_speed :: "string option"

record lawn_mower_state = lm_activity :: mower_activity

record tracker_state =
  tr_home :: bool
  tr_latitude :: "f64 option"
  tr_longitude :: "f64 option"
  tr_accuracy :: "f64 option"

record timer_state =
  tm_state :: timer_status
  tm_duration :: f64
  tm_finishes_at :: "int option"
  tm_remaining :: "f64 option"

record schedule_state =
  sc_on :: bool
  sc_next_change :: "int option"

record camera_state =
  ca_state :: camera_status
  ca_motion_detection :: "bool option"

datatype state =
    Light light_state
  | Switch switch_state
  | Sensor sensor_state
  | BinarySensor binary_sensor_state
  | Number number_state
  | Select select_state
  | Text text_state
  | Event event_state
  | Cover cover_state
  | Lock lock_state
  | Fan fan_state
  | Valve valve_state
  | Siren siren_state
  | Climate climate_state
  | WaterHeater water_heater_state
  | Humidifier humidifier_state
  | MediaPlayer media_player_state
  | Update update_state
  | AlarmControlPanel alarm_state
  | Date date_state
  | Time time_state
  | Datetime datetime_state
  | Vacuum vacuum_state
  | LawnMower lawn_mower_state
  | DeviceTracker tracker_state
  | Timer timer_state
  | Schedule schedule_state
  | Camera camera_state

fun state_kind :: "state \<Rightarrow> entity_kind" where
  "state_kind (Light _) = K_Light"
| "state_kind (Switch _) = K_Switch"
| "state_kind (Sensor _) = K_Sensor"
| "state_kind (BinarySensor _) = K_BinarySensor"
| "state_kind (Number _) = K_Number"
| "state_kind (Select _) = K_Select"
| "state_kind (Text _) = K_Text"
| "state_kind (Event _) = K_Event"
| "state_kind (Cover _) = K_Cover"
| "state_kind (Lock _) = K_Lock"
| "state_kind (Fan _) = K_Fan"
| "state_kind (Valve _) = K_Valve"
| "state_kind (Siren _) = K_Siren"
| "state_kind (Climate _) = K_Climate"
| "state_kind (WaterHeater _) = K_WaterHeater"
| "state_kind (Humidifier _) = K_Humidifier"
| "state_kind (MediaPlayer _) = K_MediaPlayer"
| "state_kind (Update _) = K_Update"
| "state_kind (AlarmControlPanel _) = K_AlarmControlPanel"
| "state_kind (Date _) = K_Date"
| "state_kind (Time _) = K_Time"
| "state_kind (Datetime _) = K_Datetime"
| "state_kind (Vacuum _) = K_Vacuum"
| "state_kind (LawnMower _) = K_LawnMower"
| "state_kind (DeviceTracker _) = K_DeviceTracker"
| "state_kind (Timer _) = K_Timer"
| "state_kind (Schedule _) = K_Schedule"
| "state_kind (Camera _) = K_Camera"

section \<open>Days and times as text\<close>

text \<open>\<open>{:04}\<close> and \<open>{:02}\<close> of a number that is not negative.\<close>

definition pad :: "nat \<Rightarrow> int \<Rightarrow> string" where
  "pad n i = (let t = show_nat (nat i) in replicate (n - length t) CHR ''0'' @ t)"

definition civil_date_text :: "civil_date \<Rightarrow> string" where
  "civil_date_text d = pad 4 (cd_year d) @ ''-'' @ pad 2 (cd_month d) @ ''-'' @ pad 2 (cd_day d)"

definition clock_time_text :: "clock_time \<Rightarrow> string" where
  "clock_time_text t = pad 2 (ct_hour t) @ '':'' @ pad 2 (ct_minute t) @ '':'' @ pad 2 (ct_second t)"

text \<open>\<open>digits\<close>: the numbers in a text of the given shape, where a \<open>0\<close> of the shape stands for a
  digit and anything else for itself and starts the next number.\<close>

fun digits_from :: "int list \<Rightarrow> int \<Rightarrow> string \<Rightarrow> string \<Rightarrow> int list option" where
  "digits_from done cur [] [] = Some (rev (cur # done))"
| "digits_from done cur (f # fs) (w # ws) =
     (if w = CHR ''0'' then
        (if is_digit f then digits_from done (cur * 10 + int (digit_val f)) fs ws else None)
      else if f = w then digits_from (cur # done) 0 fs ws
      else None)"
| "digits_from done cur _ _ = None"

definition digits_of :: "string \<Rightarrow> string \<Rightarrow> int list option" where
  "digits_of s shape = (if length s \<noteq> length shape then None else digits_from [] 0 s shape)"

definition civil_date_parse :: "date_library \<Rightarrow> string \<Rightarrow> civil_date option" where
  "civil_date_parse jt s =
     (case digits_of s ''0000-00-00'' of
        Some [y, m, d] \<Rightarrow>
          if day_exists jt y m d then Some \<lparr>cd_year = y, cd_month = m, cd_day = d\<rparr> else None
      | _ \<Rightarrow> None)"

text \<open>\<open>jiff::civil::Time::new\<close> takes hours 0 to 23 and minutes and seconds 0 to 59.\<close>

definition clock_time_new :: "int \<Rightarrow> int \<Rightarrow> int \<Rightarrow> clock_time option" where
  "clock_time_new h m s =
     (if 0 \<le> h \<and> h \<le> 23 \<and> 0 \<le> m \<and> m \<le> 59 \<and> 0 \<le> s \<and> s \<le> 59
      then Some \<lparr>ct_hour = h, ct_minute = m, ct_second = s\<rparr> else None)"

definition clock_time_parse :: "string \<Rightarrow> clock_time option" where
  "clock_time_parse t =
     (case digits_of t ''00:00:00'' of
        Some [h, m, s] \<Rightarrow> clock_time_new h m s
      | Some _ \<Rightarrow> None
      | None \<Rightarrow> (case digits_of t ''00:00'' of
            Some [h, m] \<Rightarrow> clock_time_new h m 0
          | _ \<Rightarrow> None))"

section \<open>Primary values and fields\<close>

fun sensor_primary :: "sensor_value \<Rightarrow> typed" where
  "sensor_primary (SensorNumber n) = TNumber n"
| "sensor_primary (SensorText t) = TText t"

fun primary :: "date_library \<Rightarrow> state \<Rightarrow> typed" where
  "primary jt (Light s) = TBool (lt_on s)"
| "primary jt (Switch s) = TBool (sw_on s)"
| "primary jt (BinarySensor s) = TBool (bs_on s)"
| "primary jt (Fan s) = TBool (fn_on s)"
| "primary jt (Siren s) = TBool (si_on s)"
| "primary jt (Humidifier s) = TBool (hu_on s)"
| "primary jt (MediaPlayer s) = TText (playback_str (mp_state s))"
| "primary jt (Update s) = TBool (up_available s)"
| "primary jt (Number s) = TNumber (nu_value s)"
| "primary jt (Select s) = TText (sl_option s)"
| "primary jt (Text s) = TText (tx_value s)"
| "primary jt (Event s) = TText (ev_type s)"
| "primary jt (Cover s) = TText (open_state_str (cv_state s))"
| "primary jt (Valve s) = TText (open_state_str (vl_state s))"
| "primary jt (Lock s) = TText (lock_status_str (lk_state s))"
| "primary jt (Timer s) = TText (timer_status_str (tm_state s))"
| "primary jt (DeviceTracker s) = TBool (tr_home s)"
| "primary jt (Schedule s) = TBool (sc_on s)"
| "primary jt (LawnMower s) = TText (mower_activity_str (lm_activity s))"
| "primary jt (Vacuum s) = TText (vacuum_activity_str (va_activity s))"
| "primary jt (Camera s) = TText (camera_status_str (ca_state s))"
| "primary jt (AlarmControlPanel s) = TText (alarm_status_str (al_state s))"
| "primary jt (Date s) = TText (civil_date_text (da_value s))"
| "primary jt (Time s) = TText (clock_time_text (ti_value s))"
| "primary jt (Datetime s) = TText (instant_text jt (dt_value s))"
| "primary jt (Climate s) = TText (hvac_mode_str (cl_hvac_mode s))"
| "primary jt (WaterHeater s) = TText (water_heater_mode_str (wh_operation_mode s))"
| "primary jt (Sensor s) = sensor_primary (se_value s)"

definition num_field :: "nat option \<Rightarrow> typed option" where
  "num_field x = map_option (\<lambda>n. TNumber (Fin (of_nat n))) x"

text \<open>The \<open>field\<close> function of each kind.\<close>

definition light_field :: "light_state \<Rightarrow> string \<Rightarrow> typed option" where
  "light_field s name =
     (if name = ''brightness'' then num_field (lt_brightness s)
      else if name = ''color_temp_kelvin'' then num_field (lt_color_temp_kelvin s)
      else if name = ''color_mode'' then Option.bind (lt_color_mode s) (named color_mode_variants)
      else None)"

definition fan_field :: "fan_state \<Rightarrow> string \<Rightarrow> typed option" where
  "fan_field s name =
     (if name = ''percentage'' then num_field (fn_percentage s)
      else if name = ''oscillating'' then map_option TBool (fn_oscillating s)
      else if name = ''direction'' then Option.bind (fn_direction s) (named fan_direction_variants)
      else if name = ''preset_mode'' then map_option TText (fn_preset_mode s)
      else None)"

definition cover_field :: "cover_state \<Rightarrow> string \<Rightarrow> typed option" where
  "cover_field s name =
     (if name = ''position'' then num_field (cv_position s)
      else if name = ''tilt'' then num_field (cv_tilt s)
      else None)"

definition valve_field :: "valve_state \<Rightarrow> string \<Rightarrow> typed option" where
  "valve_field s name = (if name = ''position'' then num_field (vl_position s) else None)"

definition climate_field :: "climate_state \<Rightarrow> string \<Rightarrow> typed option" where
  "climate_field s name =
     (if name = ''hvac_action'' then Option.bind (cl_hvac_action s) (named hvac_action_variants)
      else if name = ''current_temperature'' then map_option TNumber (cl_current_temperature s)
      else if name = ''current_humidity'' then map_option TNumber (cl_current_humidity s)
      else if name = ''target_temperature'' then map_option TNumber (cl_target_temperature s)
      else if name = ''target_temp_low'' then map_option TNumber (cl_target_temp_low s)
      else if name = ''target_temp_high'' then map_option TNumber (cl_target_temp_high s)
      else if name = ''target_humidity'' then map_option TNumber (cl_target_humidity s)
      else if name = ''fan_mode'' then map_option TText (cl_fan_mode s)
      else if name = ''swing_mode'' then map_option TText (cl_swing_mode s)
      else if name = ''preset_mode'' then map_option TText (cl_preset_mode s)
      else None)"

definition humidifier_field :: "humidifier_state \<Rightarrow> string \<Rightarrow> typed option" where
  "humidifier_field s name =
     (if name = ''target_humidity'' then map_option TNumber (hu_target_humidity s)
      else if name = ''current_humidity'' then map_option TNumber (hu_current_humidity s)
      else if name = ''action'' then Option.bind (hu_action s) (named humidifier_action_variants)
      else if name = ''mode'' then map_option TText (hu_mode s)
      else None)"

definition water_heater_field :: "water_heater_state \<Rightarrow> string \<Rightarrow> typed option" where
  "water_heater_field s name =
     (if name = ''current_temperature'' then map_option TNumber (wh_current_temperature s)
      else if name = ''target_temperature'' then map_option TNumber (wh_target_temperature s)
      else None)"

definition media_player_field :: "media_player_state \<Rightarrow> string \<Rightarrow> typed option" where
  "media_player_field s name =
     (if name = ''volume'' then num_field (mp_volume s)
      else if name = ''muted'' then map_option TBool (mp_muted s)
      else if name = ''title'' then map_option TText (mp_title s)
      else if name = ''artist'' then map_option TText (mp_artist s)
      else if name = ''album'' then map_option TText (mp_album s)
      else if name = ''app'' then map_option TText (mp_app s)
      else if name = ''content_type'' then map_option TText (mp_content_type s)
      else if name = ''duration'' then map_option TNumber (mp_duration s)
      else if name = ''position'' then map_option TNumber (mp_position s)
      else None)"

definition update_field :: "update_state \<Rightarrow> string \<Rightarrow> typed option" where
  "update_field s name =
     (if name = ''installed_version'' then map_option TText (up_installed_version s)
      else if name = ''latest_version'' then map_option TText (up_latest_version s)
      else if name = ''in_progress'' then Some (TBool (up_in_progress s))
      else if name = ''progress'' then map_option TNumber (up_progress s)
      else None)"

definition timer_field :: "date_library \<Rightarrow> timer_state \<Rightarrow> string \<Rightarrow> typed option" where
  "timer_field jt s name =
     (if name = ''duration'' then Some (TNumber (tm_duration s))
      else if name = ''remaining'' then map_option TNumber (tm_remaining s)
      else if name = ''finishes_at'' then map_option (\<lambda>ts. TText (instant_text jt ts)) (tm_finishes_at s)
      else None)"

definition tracker_field :: "tracker_state \<Rightarrow> string \<Rightarrow> typed option" where
  "tracker_field s name =
     map_option TNumber
       (if name = ''latitude'' then tr_latitude s
        else if name = ''longitude'' then tr_longitude s
        else if name = ''accuracy'' then tr_accuracy s
        else None)"

definition schedule_field :: "date_library \<Rightarrow> schedule_state \<Rightarrow> string \<Rightarrow> typed option" where
  "schedule_field jt s name =
     (if name = ''next_change'' then map_option (\<lambda>ts. TText (instant_text jt ts)) (sc_next_change s)
      else None)"

definition vacuum_field :: "vacuum_state \<Rightarrow> string \<Rightarrow> typed option" where
  "vacuum_field s name = (if name = ''fan_speed'' then map_option TText (va_fan_speed s) else None)"

definition camera_field :: "camera_state \<Rightarrow> string \<Rightarrow> typed option" where
  "camera_field s name =
     (if name = ''motion_detection'' then map_option TBool (ca_motion_detection s) else None)"

fun state_field :: "date_library \<Rightarrow> state \<Rightarrow> string \<Rightarrow> typed option" where
  "state_field jt (Light s) name = light_field s name"
| "state_field jt (Fan s) name = fan_field s name"
| "state_field jt (Cover s) name = cover_field s name"
| "state_field jt (Valve s) name = valve_field s name"
| "state_field jt (Climate s) name = climate_field s name"
| "state_field jt (Humidifier s) name = humidifier_field s name"
| "state_field jt (WaterHeater s) name = water_heater_field s name"
| "state_field jt (MediaPlayer s) name = media_player_field s name"
| "state_field jt (Update s) name = update_field s name"
| "state_field jt (Timer s) name = timer_field jt s name"
| "state_field jt (DeviceTracker s) name = tracker_field s name"
| "state_field jt (Schedule s) name = schedule_field jt s name"
| "state_field jt (Vacuum s) name = vacuum_field s name"
| "state_field jt (Camera s) name = camera_field s name"
| "state_field jt (Switch _) name = None"
| "state_field jt (Sensor _) name = None"
| "state_field jt (BinarySensor _) name = None"
| "state_field jt (Number _) name = None"
| "state_field jt (Select _) name = None"
| "state_field jt (Text _) name = None"
| "state_field jt (Event _) name = None"
| "state_field jt (Lock _) name = None"
| "state_field jt (Siren _) name = None"
| "state_field jt (AlarmControlPanel _) name = None"
| "state_field jt (Date _) name = None"
| "state_field jt (Time _) name = None"
| "state_field jt (Datetime _) name = None"
| "state_field jt (LawnMower _) name = None"

end
