(* ===== verification/StateRules.thy ===== *)
theory StateRules
  imports States
begin

text \<open>
  What a state must satisfy (\<open>State::validate\<close> and \<open>EntityState::validate\<close>), and the state that
  holds a given primary value (\<open>State::with_primary\<close>), which keeps the rest of what was last
  reported.
\<close>

section \<open>The rules of each kind's state\<close>

text \<open>A number inside a message.\<close>

fun f64_msg :: "f64 \<Rightarrow> msg" where
  "f64_msg (Fin r) = (case quotient_of r of (n, d) \<Rightarrow> Msg ''{}/{}'' [MInt n, MInt d])"
| "f64_msg PosInf = plain ''inf''"
| "f64_msg NegInf = plain ''-inf''"
| "f64_msg NaN = plain ''NaN''"

definition nat_msg :: "nat \<Rightarrow> msg" where
  "nat_msg n = MInt (int n)"

text \<open>A check of a value that may be absent.\<close>

definition check_some :: "'a option \<Rightarrow> ('a \<Rightarrow> bool) \<Rightarrow> ('a \<Rightarrow> msg) \<Rightarrow> unit res" where
  "check_some x p m = (case x of None \<Rightarrow> Ok () | Some v \<Rightarrow> require (p v) (m v))"

lemma check_some_ok [simp]: "check_some x p m = Inr u \<longleftrightarrow> is_none_or x p"
  by (cases x) (simp_all add: check_some_def)

definition light_validate :: "light_state \<Rightarrow> unit res" where
  "light_validate s =
     and_then (require (lt_brightness s \<noteq> Some 0)
       (plain ''brightness 0 is invalid; brightness is 1-255 (use `on: false` for off)'')) (\<lambda>_.
       check_some (lt_color_temp_kelvin s) (\<lambda>k. 1000 \<le> k \<and> k \<le> 20000)
         (\<lambda>k. Msg ''color_temp_kelvin {} is out of range; it must be 1000-20000'' [nat_msg k]))"

definition sensor_validate :: "sensor_state \<Rightarrow> unit res" where
  "sensor_validate s =
     (case se_value s of
        SensorNumber n \<Rightarrow> require (f64_is_finite n) (Msg ''sensor value {} is not a finite number'' [f64_msg n])
      | _ \<Rightarrow> Ok ())"

definition number_validate :: "number_state \<Rightarrow> unit res" where
  "number_validate s =
     require (f64_is_finite (nu_value s)) (Msg ''number value {} is not a finite number'' [f64_msg (nu_value s)])"

definition opening_validate :: "opening_state \<Rightarrow> entity_kind \<Rightarrow> unit res" where
  "opening_validate s kind =
     check_some (op_position s) (\<lambda>p. p \<le> 100)
       (\<lambda>p. Msg ''a {}'s position is 0-100, not {}'' [plain (domain kind), nat_msg p])"

definition cover_opening :: "cover_state \<Rightarrow> opening_state" where
  "cover_opening s = \<lparr>op_state = cv_state s, op_position = cv_position s\<rparr>"

definition valve_opening :: "valve_state \<Rightarrow> opening_state" where
  "valve_opening s = \<lparr>op_state = vl_state s, op_position = vl_position s\<rparr>"

definition cover_validate :: "cover_state \<Rightarrow> unit res" where
  "cover_validate s =
     and_then (opening_validate (cover_opening s) K_Cover) (\<lambda>_.
       check_some (cv_tilt s) (\<lambda>t. t \<le> 100) (\<lambda>t. Msg ''a cover's tilt is 0-100, not {}'' [nat_msg t]))"

definition fan_validate :: "fan_state \<Rightarrow> unit res" where
  "fan_validate s =
     check_some (fn_percentage s) (\<lambda>p. p \<le> 100) (\<lambda>p. Msg ''a fan's percentage is 0-100, not {}'' [nat_msg p])"

definition valve_validate :: "valve_state \<Rightarrow> unit res" where
  "valve_validate s = opening_validate (valve_opening s) K_Valve"

definition check_temperature :: "string \<times> f64 option \<Rightarrow> unit res" where
  "check_temperature wv =
     check_some (snd wv) f64_is_finite (\<lambda>v. Msg ''{} {} isn't a temperature'' [plain (fst wv), f64_msg v])"

definition check_humidity :: "string \<times> f64 option \<Rightarrow> unit res" where
  "check_humidity wv =
     check_some (snd wv) (f64_within 0 100) (\<lambda>v. Msg ''{} is 0-100%, not {}'' [plain (fst wv), f64_msg v])"

definition climate_validate :: "climate_state \<Rightarrow> unit res" where
  "climate_validate s =
     and_then (check_each check_temperature
       [(''current_temperature'', cl_current_temperature s), (''target_temperature'', cl_target_temperature s),
        (''target_temp_low'', cl_target_temp_low s), (''target_temp_high'', cl_target_temp_high s)]) (\<lambda>_.
     check_each check_humidity
       [(''current_humidity'', cl_current_humidity s), (''target_humidity'', cl_target_humidity s)])"

definition water_heater_validate :: "water_heater_state \<Rightarrow> unit res" where
  "water_heater_validate s =
     check_each (\<lambda>v. check_some v f64_is_finite (\<lambda>v. Msg ''{} isn't a temperature'' [f64_msg v]))
       [wh_current_temperature s, wh_target_temperature s]"

definition humidifier_validate :: "humidifier_state \<Rightarrow> unit res" where
  "humidifier_validate s =
     check_each check_humidity
       [(''target_humidity'', hu_target_humidity s), (''current_humidity'', hu_current_humidity s)]"

text \<open>\<open>text_field\<close>: not blank (\<open>trim\<close> leaves something) and not too long; \<open>seconds\<close>: finite
  and not negative.\<close>

definition not_blank :: "string \<Rightarrow> bool" where
  "not_blank t = list_ex (\<lambda>c. \<not> is_white c) (chars_of t)"

definition mp_text_field :: "string \<times> string option \<Rightarrow> unit res" where
  "mp_text_field wv =
     check_some (snd wv) (\<lambda>t. not_blank t \<and> length (chars_of t) \<le> 255)
       (\<lambda>_. Msg ''{} must be 1-{} characters and not blank'' [plain (fst wv), MInt 255])"

definition mp_seconds :: "string \<Rightarrow> f64 option \<Rightarrow> unit res" where
  "mp_seconds what x =
     check_some x (\<lambda>v. f64_is_finite v \<and> f64_le (Fin 0) v)
       (\<lambda>v. Msg ''{} is 0 or more seconds, not {}'' [plain what, f64_msg v])"

fun f64_neg :: "f64 \<Rightarrow> f64" where
  "f64_neg (Fin r) = Fin (- r)"
| "f64_neg PosInf = NegInf"
| "f64_neg NegInf = PosInf"
| "f64_neg NaN = NaN"

definition f64_add :: "f64 \<Rightarrow> f64 \<Rightarrow> f64" where
  "f64_add a b = f64_sub a (f64_neg b)"

definition media_player_validate :: "media_player_state \<Rightarrow> unit res" where
  "media_player_validate s =
     and_then (check_some (mp_volume s) (\<lambda>v. v \<le> 100) (\<lambda>v. Msg ''volume is 0-100, not {}'' [nat_msg v])) (\<lambda>_.
     and_then (check_each mp_text_field
       [(''title'', mp_title s), (''artist'', mp_artist s), (''album'', mp_album s), (''app'', mp_app s),
        (''content_type'', mp_content_type s)]) (\<lambda>_.
     and_then (mp_seconds ''duration'' (mp_duration s)) (\<lambda>_.
     and_then (mp_seconds ''position'' (mp_position s)) (\<lambda>_.
       case (mp_position s, mp_duration s) of
         (Some p, Some d) \<Rightarrow>
           if f64_lt (f64_add d (Fin 1)) p then
             Err (Msg ''position {} is more than a second past its duration {}'' [f64_msg p, f64_msg d])
           else Ok ()
       | _ \<Rightarrow> Ok ()))))"

definition is_skipped :: "update_state \<Rightarrow> bool" where
  "is_skipped s = (up_skipped_version s \<noteq> None \<and> up_skipped_version s = up_latest_version s)"

definition update_validate :: "update_state \<Rightarrow> unit res" where
  "update_validate s =
     and_then
       (case up_progress s of
          Some p \<Rightarrow>
            and_then (require (f64_within 0 100 p) (Msg ''progress is 0-100%, not {}'' [f64_msg p])) (\<lambda>_.
              require (up_in_progress s) (plain ''progress is only there while an install is in progress''))
        | None \<Rightarrow> Ok ())
       (\<lambda>_. require (\<not> (up_available s \<and> up_skipped_version s \<noteq> None \<and> is_skipped s))
              (plain ''a skipped version isn't available; clear the skip first''))"

definition longest :: rat where
  "longest = 366 * 24 * 3600"

definition timer_seconds :: "string \<Rightarrow> f64 \<Rightarrow> unit res" where
  "timer_seconds what v =
     require (f64_is_finite v \<and> f64_within 0 longest v)
       (Msg ''a timer's {} is seconds, from nought to a year, not {}'' [plain what, f64_msg v])"

definition timer_validate :: "timer_state \<Rightarrow> unit res" where
  "timer_validate s =
     and_then (timer_seconds ''duration'' (tm_duration s)) (\<lambda>_.
     and_then (case tm_remaining s of Some r \<Rightarrow> timer_seconds ''remaining'' r | None \<Rightarrow> Ok ()) (\<lambda>_.
       let finishes = (tm_finishes_at s \<noteq> None); remains = (tm_remaining s \<noteq> None)
       in (case tm_state s of
             TS_Active \<Rightarrow> require (finishes \<and> \<not> remains)
               (plain ''an active timer says when it finishes (`finishes_at`), and nothing else'')
           | TS_Paused \<Rightarrow> require (remains \<and> \<not> finishes)
               (plain ''a paused timer says how long is left (`remaining`), and nothing else'')
           | TS_Idle \<Rightarrow> require (\<not> finishes \<and> \<not> remains)
               (plain ''an idle timer isn't counting: it has no `finishes_at` and no `remaining`''))))"

definition tracker_within :: "string \<Rightarrow> f64 option \<Rightarrow> rat \<Rightarrow> rat \<Rightarrow> unit res" where
  "tracker_within what x least most =
     check_some x (f64_within least most)
       (\<lambda>v. Msg ''a tracker's {} is {} to {}, not {}''
              [plain what, f64_msg (Fin least), f64_msg (Fin most), f64_msg v])"

definition tracker_validate :: "tracker_state \<Rightarrow> unit res" where
  "tracker_validate s =
     and_then (tracker_within ''latitude'' (tr_latitude s) (- 90) 90) (\<lambda>_.
     and_then (tracker_within ''longitude'' (tr_longitude s) (- 180) 180) (\<lambda>_.
       check_some (tr_accuracy s) (\<lambda>a. f64_is_finite a \<and> \<not> f64_lt a (Fin 0))
         (\<lambda>a. Msg ''a tracker's accuracy is metres, nought or more, not {}'' [f64_msg a])))"

fun state_validate :: "state \<Rightarrow> unit res" where
  "state_validate (Light s) = light_validate s"
| "state_validate (Sensor s) = sensor_validate s"
| "state_validate (Number s) = number_validate s"
| "state_validate (Cover s) = cover_validate s"
| "state_validate (Fan s) = fan_validate s"
| "state_validate (Valve s) = valve_validate s"
| "state_validate (Climate s) = climate_validate s"
| "state_validate (WaterHeater s) = water_heater_validate s"
| "state_validate (Humidifier s) = humidifier_validate s"
| "state_validate (MediaPlayer s) = media_player_validate s"
| "state_validate (Update s) = update_validate s"
| "state_validate (Timer s) = timer_validate s"
| "state_validate (DeviceTracker s) = tracker_validate s"
| "state_validate (Switch _) = Ok ()"
| "state_validate (BinarySensor _) = Ok ()"
| "state_validate (Select _) = Ok ()"
| "state_validate (Text _) = Ok ()"
| "state_validate (Event _) = Ok ()"
| "state_validate (Lock _) = Ok ()"
| "state_validate (Siren _) = Ok ()"
| "state_validate (AlarmControlPanel _) = Ok ()"
| "state_validate (Date _) = Ok ()"
| "state_validate (Time _) = Ok ()"
| "state_validate (Datetime _) = Ok ()"
| "state_validate (Vacuum _) = Ok ()"
| "state_validate (LawnMower _) = Ok ()"
| "state_validate (Schedule _) = Ok ()"
| "state_validate (Camera _) = Ok ()"

section \<open>A state that holds a value\<close>

definition light_with :: "light_state option \<Rightarrow> typed \<Rightarrow> light_state option" where
  "light_with prev v = (case v of TBool on \<Rightarrow> map_option (\<lambda>s. s\<lparr>lt_on := on\<rparr>) prev | _ \<Rightarrow> None)"

definition sensor_with :: "typed \<Rightarrow> sensor_state option" where
  "sensor_with v = (case v of
      TNumber n \<Rightarrow> Some \<lparr>se_value = SensorNumber n\<rparr>
    | TText t \<Rightarrow> Some \<lparr>se_value = SensorText t\<rparr>
    | TBool _ \<Rightarrow> None)"

definition fan_with :: "fan_state option \<Rightarrow> typed \<Rightarrow> fan_state option" where
  "fan_with prev v = (case v of
      TBool on \<Rightarrow> Some (case prev of
          Some s \<Rightarrow> s\<lparr>fn_on := on\<rparr>
        | None \<Rightarrow> \<lparr>fn_on = on, fn_percentage = None, fn_oscillating = None, fn_direction = None, fn_preset_mode = None\<rparr>)
    | _ \<Rightarrow> None)"

definition cover_with :: "cover_state option \<Rightarrow> typed \<Rightarrow> cover_state option" where
  "cover_with prev v = (case v of
      TText t \<Rightarrow> map_option (\<lambda>st. case prev of
          Some s \<Rightarrow> s\<lparr>cv_state := st\<rparr>
        | None \<Rightarrow> \<lparr>cv_state = st, cv_position = None, cv_tilt = None\<rparr>) (open_state_parse t)
    | _ \<Rightarrow> None)"

definition valve_with :: "valve_state option \<Rightarrow> typed \<Rightarrow> valve_state option" where
  "valve_with prev v = (case v of
      TText t \<Rightarrow> map_option (\<lambda>st. \<lparr>vl_state = st, vl_position = Option.bind prev vl_position\<rparr>) (open_state_parse t)
    | _ \<Rightarrow> None)"

definition climate_in_mode :: "hvac_mode \<Rightarrow> climate_state" where
  "climate_in_mode m = \<lparr>cl_hvac_mode = m, cl_hvac_action = None, cl_current_temperature = None,
     cl_target_temperature = None, cl_target_temp_low = None, cl_target_temp_high = None,
     cl_current_humidity = None, cl_target_humidity = None, cl_fan_mode = None, cl_swing_mode = None,
     cl_preset_mode = None\<rparr>"

definition climate_with :: "climate_state option \<Rightarrow> typed \<Rightarrow> climate_state option" where
  "climate_with prev v = (case v of
      TText t \<Rightarrow> map_option (\<lambda>m. case prev of
          Some s \<Rightarrow> s\<lparr>cl_hvac_mode := m\<rparr> | None \<Rightarrow> climate_in_mode m) (hvac_mode_parse t)
    | _ \<Rightarrow> None)"

definition water_heater_with :: "water_heater_state option \<Rightarrow> typed \<Rightarrow> water_heater_state option" where
  "water_heater_with prev v = (case v of
      TText t \<Rightarrow> map_option (\<lambda>m. case prev of
          Some s \<Rightarrow> s\<lparr>wh_operation_mode := m\<rparr>
        | None \<Rightarrow> \<lparr>wh_operation_mode = m, wh_current_temperature = None, wh_target_temperature = None\<rparr>)
          (water_heater_mode_parse t)
    | _ \<Rightarrow> None)"

definition humidifier_with :: "humidifier_state option \<Rightarrow> typed \<Rightarrow> humidifier_state option" where
  "humidifier_with prev v = (case v of
      TBool on \<Rightarrow> Some (case prev of
          Some s \<Rightarrow> s\<lparr>hu_on := on\<rparr>
        | None \<Rightarrow> \<lparr>hu_on = on, hu_target_humidity = None, hu_current_humidity = None, hu_mode = None, hu_action = None\<rparr>)
    | _ \<Rightarrow> None)"

definition media_player_with :: "media_player_state option \<Rightarrow> typed \<Rightarrow> media_player_state option" where
  "media_player_with prev v = (case v of
      TText t \<Rightarrow> map_option (\<lambda>st. case prev of
          Some s \<Rightarrow> s\<lparr>mp_state := st\<rparr>
        | None \<Rightarrow> \<lparr>mp_state = st, mp_volume = None, mp_muted = None, mp_title = None, mp_artist = None,
            mp_album = None, mp_app = None, mp_content_type = None, mp_duration = None, mp_position = None\<rparr>)
          (playback_parse t)
    | _ \<Rightarrow> None)"

definition update_default :: update_state where
  "update_default = \<lparr>up_available = False, up_installed_version = None, up_latest_version = None,
     up_in_progress = False, up_progress = None, up_title = None, up_release_summary = None,
     up_release_url = None, up_skipped_version = None, up_last_error = None\<rparr>"

definition update_with :: "update_state option \<Rightarrow> typed \<Rightarrow> update_state option" where
  "update_with prev v = (case v of
      TBool b \<Rightarrow> Some ((unwrap_or prev update_default)\<lparr>up_available := b\<rparr>)
    | _ \<Rightarrow> None)"

definition timer_idle :: "f64 \<Rightarrow> timer_state" where
  "timer_idle d = \<lparr>tm_state = TS_Idle, tm_duration = d, tm_finishes_at = None, tm_remaining = None\<rparr>"

definition timer_with :: "timer_state option \<Rightarrow> typed \<Rightarrow> timer_state option" where
  "timer_with prev v = (case v of
      TText t \<Rightarrow> (case timer_status_parse t of
          None \<Rightarrow> None
        | Some TS_Idle \<Rightarrow> Some (timer_idle (case prev of None \<Rightarrow> Fin 0 | Some s \<Rightarrow> tm_duration s))
        | Some st \<Rightarrow> (case prev of
              Some s \<Rightarrow> if tm_state s = st then Some s else None
            | None \<Rightarrow> None))
    | _ \<Rightarrow> None)"

definition tracker_with :: "tracker_state option \<Rightarrow> typed \<Rightarrow> tracker_state option" where
  "tracker_with prev v = (case v of
      TBool home \<Rightarrow> Some ((unwrap_or prev
          \<lparr>tr_home = home, tr_latitude = None, tr_longitude = None, tr_accuracy = None\<rparr>)\<lparr>tr_home := home\<rparr>)
    | _ \<Rightarrow> None)"

definition schedule_with :: "schedule_state option \<Rightarrow> typed \<Rightarrow> schedule_state option" where
  "schedule_with prev v = (case v of
      TBool on \<Rightarrow> Some \<lparr>sc_on = on, sc_next_change = Option.bind prev sc_next_change\<rparr>
    | _ \<Rightarrow> None)"

definition vacuum_with :: "vacuum_state option \<Rightarrow> typed \<Rightarrow> vacuum_state option" where
  "vacuum_with prev v = (case v of
      TText t \<Rightarrow> map_option (\<lambda>a. \<lparr>va_activity = a, va_fan_speed = Option.bind prev va_fan_speed\<rparr>) (vacuum_activity_parse t)
    | _ \<Rightarrow> None)"

definition camera_with :: "camera_state option \<Rightarrow> typed \<Rightarrow> camera_state option" where
  "camera_with prev v = (case v of
      TText t \<Rightarrow> map_option (\<lambda>st. \<lparr>ca_state = st, ca_motion_detection = Option.bind prev ca_motion_detection\<rparr>) (camera_status_parse t)
    | _ \<Rightarrow> None)"

text \<open>The kinds whose value is all there is.\<close>

definition bool_with :: "(bool \<Rightarrow> 'a) \<Rightarrow> typed \<Rightarrow> 'a option" where
  "bool_with f v = (case v of TBool b \<Rightarrow> Some (f b) | _ \<Rightarrow> None)"

definition text_with :: "(string \<Rightarrow> 'a option) \<Rightarrow> typed \<Rightarrow> 'a option" where
  "text_with f v = (case v of TText t \<Rightarrow> f t | _ \<Rightarrow> None)"

definition number_with :: "typed \<Rightarrow> number_state option" where
  "number_with v = (case v of TNumber n \<Rightarrow> Some \<lparr>nu_value = n\<rparr> | _ \<Rightarrow> None)"

definition prev_of :: "(state \<Rightarrow> 'a option) \<Rightarrow> state option \<Rightarrow> 'a option" where
  "prev_of f prev = Option.bind prev f"

fun with_primary :: "date_library \<Rightarrow> entity_kind \<Rightarrow> state option \<Rightarrow> typed \<Rightarrow> state option" where
  "with_primary jt K_Light prev v =
     map_option Light (light_with (prev_of (\<lambda>s. case s of Light x \<Rightarrow> Some x | _ \<Rightarrow> None) prev) v)"
| "with_primary jt K_Switch prev v = map_option Switch (bool_with (\<lambda>b. \<lparr>sw_on = b\<rparr>) v)"
| "with_primary jt K_Sensor prev v = map_option Sensor (sensor_with v)"
| "with_primary jt K_BinarySensor prev v = map_option BinarySensor (bool_with (\<lambda>b. \<lparr>bs_on = b\<rparr>) v)"
| "with_primary jt K_Number prev v = map_option Number (number_with v)"
| "with_primary jt K_Select prev v = map_option Select (text_with (\<lambda>t. Some \<lparr>sl_option = t\<rparr>) v)"
| "with_primary jt K_Text prev v = map_option Text (text_with (\<lambda>t. Some \<lparr>tx_value = t\<rparr>) v)"
| "with_primary jt K_Event prev v = map_option Event (text_with (\<lambda>t. Some \<lparr>ev_type = t\<rparr>) v)"
| "with_primary jt K_Lock prev v =
     map_option Lock (text_with (\<lambda>t. map_option (\<lambda>x. \<lparr>lk_state = x\<rparr>) (lock_status_parse t)) v)"
| "with_primary jt K_LawnMower prev v =
     map_option LawnMower (text_with (\<lambda>t. map_option (\<lambda>x. \<lparr>lm_activity = x\<rparr>) (mower_activity_parse t)) v)"
| "with_primary jt K_AlarmControlPanel prev v =
     map_option AlarmControlPanel (text_with (\<lambda>t. map_option (\<lambda>x. \<lparr>al_state = x\<rparr>) (alarm_status_parse t)) v)"
| "with_primary jt K_Date prev v =
     map_option Date (text_with (\<lambda>t. map_option (\<lambda>x. \<lparr>da_value = x\<rparr>) (civil_date_parse jt t)) v)"
| "with_primary jt K_Time prev v =
     map_option Time (text_with (\<lambda>t. map_option (\<lambda>x. \<lparr>ti_value = x\<rparr>) (clock_time_parse t)) v)"
| "with_primary jt K_Datetime prev v =
     map_option Datetime (text_with (\<lambda>t. map_option (\<lambda>x. \<lparr>dt_value = x\<rparr>) (instant_parse jt t)) v)"
| "with_primary jt K_Siren prev v = map_option Siren (bool_with (\<lambda>b. \<lparr>si_on = b\<rparr>) v)"
| "with_primary jt K_Fan prev v =
     map_option Fan (fan_with (prev_of (\<lambda>s. case s of Fan x \<Rightarrow> Some x | _ \<Rightarrow> None) prev) v)"
| "with_primary jt K_Cover prev v =
     map_option Cover (cover_with (prev_of (\<lambda>s. case s of Cover x \<Rightarrow> Some x | _ \<Rightarrow> None) prev) v)"
| "with_primary jt K_Valve prev v =
     map_option Valve (valve_with (prev_of (\<lambda>s. case s of Valve x \<Rightarrow> Some x | _ \<Rightarrow> None) prev) v)"
| "with_primary jt K_Climate prev v =
     map_option Climate (climate_with (prev_of (\<lambda>s. case s of Climate x \<Rightarrow> Some x | _ \<Rightarrow> None) prev) v)"
| "with_primary jt K_WaterHeater prev v =
     map_option WaterHeater (water_heater_with (prev_of (\<lambda>s. case s of WaterHeater x \<Rightarrow> Some x | _ \<Rightarrow> None) prev) v)"
| "with_primary jt K_Humidifier prev v =
     map_option Humidifier (humidifier_with (prev_of (\<lambda>s. case s of Humidifier x \<Rightarrow> Some x | _ \<Rightarrow> None) prev) v)"
| "with_primary jt K_MediaPlayer prev v =
     map_option MediaPlayer (media_player_with (prev_of (\<lambda>s. case s of MediaPlayer x \<Rightarrow> Some x | _ \<Rightarrow> None) prev) v)"
| "with_primary jt K_Update prev v =
     map_option Update (update_with (prev_of (\<lambda>s. case s of Update x \<Rightarrow> Some x | _ \<Rightarrow> None) prev) v)"
| "with_primary jt K_Timer prev v =
     map_option Timer (timer_with (prev_of (\<lambda>s. case s of Timer x \<Rightarrow> Some x | _ \<Rightarrow> None) prev) v)"
| "with_primary jt K_Schedule prev v =
     map_option Schedule (schedule_with (prev_of (\<lambda>s. case s of Schedule x \<Rightarrow> Some x | _ \<Rightarrow> None) prev) v)"
| "with_primary jt K_DeviceTracker prev v =
     map_option DeviceTracker (tracker_with (prev_of (\<lambda>s. case s of DeviceTracker x \<Rightarrow> Some x | _ \<Rightarrow> None) prev) v)"
| "with_primary jt K_Vacuum prev v =
     map_option Vacuum (vacuum_with (prev_of (\<lambda>s. case s of Vacuum x \<Rightarrow> Some x | _ \<Rightarrow> None) prev) v)"
| "with_primary jt K_Camera prev v =
     map_option Camera (camera_with (prev_of (\<lambda>s. case s of Camera x \<Rightarrow> Some x | _ \<Rightarrow> None) prev) v)"
| "with_primary jt K_Button prev v = None"
| "with_primary jt K_Scene prev v = None"

section \<open>Entity states\<close>

datatype availability = Available | Unavailable

text \<open>\<open>Context\<close> and \<open>Origin\<close>: why something happened.\<close>

datatype origin =
    OriginDevice string
  | OriginUser string
  | OriginAutomation string string
  | OriginApi string
  | OriginSystem

record ctx =
  cx_id :: string
  cx_parent :: "string option"
  cx_origin :: origin

record entity_state =
  es_entity :: string
  es_availability :: availability
  es_state :: "state option"
  es_attributes :: "(string, json) omap"
  es_last_changed :: int
  es_last_updated :: int
  es_last_reported :: int
  es_context :: ctx

definition entity_state_validate :: "entity_state \<Rightarrow> unit res" where
  "entity_state_validate e =
     and_then
       (case es_state e of
          None \<Rightarrow> Ok ()
        | Some s \<Rightarrow>
            and_then (require (Some (state_kind s) = entity_id_kind (es_entity e))
              (Msg ''entity `{}` is a {}, but its state is for a {}''
                [plain (es_entity e),
                 plain (case entity_id_kind (es_entity e) of Some k \<Rightarrow> domain k | None \<Rightarrow> []),
                 plain (domain (state_kind s))])) (\<lambda>_.
              case state_validate s of
                Inl m \<Rightarrow> Err (Msg ''entity `{}`: {}'' [plain (es_entity e), m])
              | Inr _ \<Rightarrow> Ok ()))
       (\<lambda>_. require (es_last_changed e \<le> es_last_updated e)
              (Msg ''entity `{}` timestamps must satisfy last_changed <= last_updated'' [plain (es_entity e)]))"

end
