(* ===== verification/Rules.thy ===== *)
theory Rules
  imports Durations CronSpec StateRules
begin

text \<open>
  The parts that rules and flows are written with (\<open>crates/irori-rules/src/rule.rs\<close>): modes,
  triggers, conditions, waits and their own checks.  What serde checks while reading a document
  (a text that must parse) is a definition named after the reader.

  \<open>service_table\<close> stands for the table of standard services: which services take data, what a
  numeric field allows, and whether given data is right for a service.
\<close>

section \<open>Limits\<close>

definition max_conditions :: nat where "max_conditions = 32"
definition max_depth :: nat where "max_depth = 8"
definition max_expr_chars :: nat where "max_expr_chars = 512"
definition max_event_data_keys :: nat where "max_event_data_keys = 16"
definition max_queued :: nat where "max_queued = 32"
definition max_stop_reason :: nat where "max_stop_reason = 200"
definition max_values :: nat where "max_values = 16"

section \<open>Modes\<close>

datatype named_mode = Single | Restart

datatype limited_mode = Queued nat | Parallel nat

datatype mode = Named named_mode | Limited limited_mode

fun mode_validate :: "mode \<Rightarrow> unit res" where
  "mode_validate (Named _) = Ok ()"
| "mode_validate (Limited (Queued mx)) =
     require (\<not> (mx < 1 \<or> max_queued < mx))
       (Msg ''queued/parallel max must be from 1 to {}'' [MInt (int max_queued)])"
| "mode_validate (Limited (Parallel mx)) =
     require (\<not> (mx < 1 \<or> max_queued < mx))
       (Msg ''queued/parallel max must be from 1 to {}'' [MInt (int max_queued)])"

section \<open>Values\<close>

datatype typed_value = VBool bool | VNumber f64 | VText string | VNull

fun typed_value_eq :: "typed_value \<Rightarrow> typed_value \<Rightarrow> bool" where
  "typed_value_eq (VBool a) (VBool b) = (a = b)"
| "typed_value_eq (VNumber a) (VNumber b) = f64_eq a b"
| "typed_value_eq (VText a) (VText b) = (a = b)"
| "typed_value_eq VNull VNull = True"
| "typed_value_eq _ _ = False"

text \<open>\<open>TypedValue::deserialize\<close>.\<close>

definition typed_value_of_json :: "json \<Rightarrow> typed_value res" where
  "typed_value_of_json j =
     (case j of
        JBool b \<Rightarrow> Ok (VBool b)
      | JInt _ \<Rightarrow>
          (case json_as_f64 j of
             Some v \<Rightarrow> if f64_is_finite v then Ok (VNumber v) else Err (plain ''typed values need a finite number'')
           | None \<Rightarrow> Err (plain ''typed values need a finite number''))
      | JFloat _ \<Rightarrow>
          (case json_as_f64 j of
             Some v \<Rightarrow> if f64_is_finite v then Ok (VNumber v) else Err (plain ''typed values need a finite number'')
           | None \<Rightarrow> Err (plain ''typed values need a finite number''))
      | JStr s \<Rightarrow> Ok (VText s)
      | JNull \<Rightarrow> Ok VNull
      | JArr _ \<Rightarrow> Err (plain ''typed values are bool, number, string, or null'')
      | JObj _ \<Rightarrow> Err (plain ''typed values are bool, number, string, or null''))"

fun typed_value_json :: "typed_value \<Rightarrow> json" where
  "typed_value_json (VBool b) = JBool b"
| "typed_value_json (VNumber n) = json_of_f64 n"
| "typed_value_json (VText t) = JStr t"
| "typed_value_json VNull = JNull"

datatype vals = One typed_value | AnyOf "typed_value list"

fun vals_list :: "vals \<Rightarrow> typed_value list" where
  "vals_list (One v) = [v]"
| "vals_list (AnyOf vs) = vs"

fun no_repeats :: "typed_value list \<Rightarrow> typed_value list \<Rightarrow> bool" where
  "no_repeats seen [] = True"
| "no_repeats seen (v # vs) = (\<not> list_ex (\<lambda>s. typed_value_eq s v) seen \<and> no_repeats (seen @ [v]) vs)"

fun vals_validate :: "vals \<Rightarrow> unit res" where
  "vals_validate (One _) = Ok ()"
| "vals_validate (AnyOf vs) =
     (if vs = [] \<or> max_values < length vs then
        Err (Msg ''a list of values has 1 to {} of them'' [MInt (int max_values)])
      else require (no_repeats [] vs) (plain ''a list of values names each one once''))"

fun json_all_typed :: "json list \<Rightarrow> typed_value list res" where
  "json_all_typed [] = Ok []"
| "json_all_typed (j # js) =
     and_then (typed_value_of_json j) (\<lambda>v. and_then (json_all_typed js) (\<lambda>vs. Ok (v # vs)))"

definition vals_of_json :: "json \<Rightarrow> vals res" where
  "vals_of_json j =
     (case j of
        JArr items \<Rightarrow> and_then (json_all_typed items) (\<lambda>vs. Ok (AnyOf vs))
      | other \<Rightarrow> and_then (typed_value_of_json other) (\<lambda>v. Ok (One v)))"

section \<open>Days, events, expressions\<close>

datatype weekday = Mon | Tue | Wed | Thu | Fri | Sat | Sun

fun check_days_from :: "weekday list \<Rightarrow> weekday list \<Rightarrow> unit res" where
  "check_days_from seen [] = Ok ()"
| "check_days_from seen (d # ds) =
     (if d \<in> set seen then Err (plain ''weekday list has a duplicate day'')
      else check_days_from (d # seen) ds)"

definition check_weekdays :: "weekday list \<Rightarrow> unit res" where
  "check_weekdays ds =
     (if ds = [] then Err (plain ''`weekday` needs at least one day'') else check_days_from [] ds)"

datatype sun_event = Sunrise | Sunset | Dawn | Dusk | Noon | Midnight

type_synonym cron_text = string
type_synonym event_name = string
type_synonym expr_string = string

definition cron_of_text :: "string \<Rightarrow> cron_text res" where
  "cron_of_text t =
     (if length (split_whitespace t) \<noteq> 5
      then Err (plain ''cron needs 5 fields: minute hour day-of-month month day-of-week'')
      else Ok t)"

definition parse_event_name :: "string \<Rightarrow> unit res" where
  "parse_event_name t =
     (case split_once CHR ''.'' t of
        None \<Rightarrow> check_slug ''object id'' t
      | Some (left, right) \<Rightarrow>
          if CHR ''.'' \<in> set right then
            Err (Msg ''invalid event name {:?}: at most one dot (`protocol.event`)'' [plain t])
          else and_then (check_slug ''object id'' left) (\<lambda>_. check_slug ''object id'' right))"

datatype event_datum = EvBool bool | EvNumber f64 | EvText string

definition check_event_data :: "(string, event_datum) omap option \<Rightarrow> unit res" where
  "check_event_data d =
     (case d of
        None \<Rightarrow> Ok ()
      | Some m \<Rightarrow> require (length m \<le> max_event_data_keys)
          (Msg ''event data can have at most {} keys'' [MInt (int max_event_data_keys)]))"

text \<open>\<open>ExprString::validate\<close> and \<open>StopReason::validate\<close>, whose lengths count bytes.\<close>

definition expr_validate :: "expr_string \<Rightarrow> unit res" where
  "expr_validate e =
     (if e = [] then Err (plain ''an expression must not be empty'')
      else if max_expr_chars < length e then
        Err (Msg ''an expression can be at most {} characters'' [MInt (int max_expr_chars)])
      else Ok ())"

definition reason_validate :: "string \<Rightarrow> unit res" where
  "reason_validate r =
     (if r = [] then Err (plain ''stop reason must not be empty'')
      else if max_stop_reason < length r then
        Err (Msg ''stop reason can be at most {} characters'' [MInt (int max_stop_reason)])
      else Ok ())"

section \<open>Triggers\<close>

record state_trigger =
  st_entity :: string
  st_field :: "string option"
  st_from :: "vals option"
  st_to :: "vals option"
  st_above :: "f64 option"
  st_below :: "f64 option"
  st_hold :: "compact_duration option"

datatype trigger =
    TrState state_trigger
  | TrTime "civil_time option" "cron_text option" "weekday list option"
  | TrSun sun_event "compact_duration option"
  | TrEvent event_name "(string, event_datum) omap option"
  | TrStartup

definition check_opt :: "'a option \<Rightarrow> ('a \<Rightarrow> unit res) \<Rightarrow> unit res" where
  "check_opt x f = (case x of None \<Rightarrow> Ok () | Some v \<Rightarrow> f v)"

definition the_list :: "'a option \<Rightarrow> 'a list" where
  "the_list x = (case x of None \<Rightarrow> [] | Some v \<Rightarrow> [v])"

definition state_trigger_validate :: "state_trigger \<Rightarrow> unit res" where
  "state_trigger_validate t =
     and_then (check_opt (st_hold t) (\<lambda>h. require_positive h ''for'')) (\<lambda>_.
     and_then (require (\<not> ((st_above t \<noteq> None \<or> st_below t \<noteq> None) \<and> (st_from t \<noteq> None \<or> st_to t \<noteq> None)))
       (plain ''a trigger watches for a level (`above`/`below`) or for values (`from`/`to`), not both'')) (\<lambda>_.
     and_then (check_each (\<lambda>l. require (f64_is_finite l) (plain ''`above` and `below` are finite numbers''))
       (the_list (st_above t) @ the_list (st_below t))) (\<lambda>_.
     and_then
       (case (st_above t, st_below t) of
          (Some a, Some b) \<Rightarrow>
            require (\<not> f64_le b a) (Msg ''nothing is above {} and below {} at once'' [f64_msg a, f64_msg b])
        | _ \<Rightarrow> Ok ()) (\<lambda>_.
     check_each vals_validate (the_list (st_from t) @ the_list (st_to t))))))"

fun trigger_validate :: "trigger \<Rightarrow> unit res" where
  "trigger_validate (TrState t) = state_trigger_validate t"
| "trigger_validate (TrTime at_time cron weekday) =
     (case (at_time, cron) of
        (None, None) \<Rightarrow> Err (plain ''a time trigger needs `at` or `cron`'')
      | (Some _, Some _) \<Rightarrow> Err (plain ''a time trigger takes `at` or `cron`, not both'')
      | (None, Some _) \<Rightarrow>
          (if weekday \<noteq> None then Err (plain ''`weekday` is only for `at`; put days in the cron'')
           else check_opt weekday check_weekdays)
      | (Some _, None) \<Rightarrow> check_opt weekday check_weekdays)"
| "trigger_validate (TrSun _ offset) = check_opt offset (\<lambda>d. require_nonzero d ''offset'')"
| "trigger_validate (TrEvent _ data) = check_event_data data"
| "trigger_validate TrStartup = Ok ()"

section \<open>Conditions\<close>

datatype availability_wanted = WantAvailable | WantUnavailable

record state_check =
  sk_entity :: string
  sk_field :: "string option"
  sk_is :: "typed_value option"
  sk_availability :: "availability_wanted option"

record sun_window =
  sn_after :: "sun_event option"
  sn_before :: "sun_event option"
  sn_offset :: "compact_duration option"
  sn_after_offset :: "compact_duration option"
  sn_before_offset :: "compact_duration option"

datatype condition =
    CState state_check
  | CExpr expr_string
  | CTime "civil_time option" "civil_time option" "weekday list option"
  | CSun sun_window
  | CAll "condition list"
  | CAny "condition list"
  | CNot condition

definition sun_window_validate :: "sun_window \<Rightarrow> unit res" where
  "sun_window_validate w =
     and_then (require (\<not> (sn_after w = None \<and> sn_before w = None))
       (plain ''a sun window needs `after` or `before`'')) (\<lambda>_.
     and_then (require (\<not> (sn_offset w \<noteq> None \<and> (sn_after_offset w \<noteq> None \<or> sn_before_offset w \<noteq> None)))
       (plain ''`offset` moves both ends of a sun window; use it, or `after_offset` and `before_offset`, not both'')) (\<lambda>_.
     and_then
       (check_each (\<lambda>(field, end_given, moved).
          require (\<not> (moved \<noteq> None \<and> \<not> end_given))
            (Msg ''`{}` has nothing to move: the window has no `{}`'' [plain field, plain (take (length field - 7) field)]))
         [(''after_offset'', sn_after w \<noteq> None, sn_after_offset w),
          (''before_offset'', sn_before w \<noteq> None, sn_before_offset w)]) (\<lambda>_.
     check_each (\<lambda>(field, offset). check_opt offset (\<lambda>d. require_nonzero d field))
       [(''offset'', sn_offset w), (''after_offset'', sn_after_offset w), (''before_offset'', sn_before_offset w)])))"

fun condition_validate :: "nat \<Rightarrow> condition \<Rightarrow> unit res" where
  "condition_validate depth c =
     (if max_depth < depth then
        Err (Msg ''conditions and actions can nest at most {} levels'' [MInt (int max_depth)])
      else
        (case c of
           CState s \<Rightarrow> require (\<not> (sk_is s = None \<and> sk_availability s = None))
             (plain ''a state condition needs `is` or `availability` (or both)'')
         | CExpr e \<Rightarrow> expr_validate e
         | CTime aft bef wd \<Rightarrow>
             and_then (require (\<not> (aft = None \<and> bef = None \<and> wd = None))
               (plain ''a time window needs `after`, `before`, or `weekday`'')) (\<lambda>_.
             check_opt wd check_weekdays)
         | CSun w \<Rightarrow> sun_window_validate w
         | CAll cs \<Rightarrow>
             and_then (require (cs \<noteq> []) (plain ''`all`/`any` needs at least one condition'')) (\<lambda>_.
             and_then (require (length cs \<le> max_conditions)
               (Msg ''a combinator can have at most {} conditions'' [MInt (int max_conditions)])) (\<lambda>_.
             check_each (condition_validate (depth + 1)) cs))
         | CAny cs \<Rightarrow>
             and_then (require (cs \<noteq> []) (plain ''`all`/`any` needs at least one condition'')) (\<lambda>_.
             and_then (require (length cs \<le> max_conditions)
               (Msg ''a combinator can have at most {} conditions'' [MInt (int max_conditions)])) (\<lambda>_.
             check_each (condition_validate (depth + 1)) cs))
         | CNot c' \<Rightarrow> condition_validate (depth + 1) c'))"

section \<open>Waits\<close>

datatype wait_until =
    WState state_check "compact_duration option"
  | WExpr expr_string "compact_duration option"

fun wait_until_validate :: "wait_until \<Rightarrow> unit res" where
  "wait_until_validate (WState s hold) =
     and_then (require (\<not> (sk_is s = None \<and> sk_availability s = None))
       (plain ''a wait state matcher needs `is` or `availability` (or both)'')) (\<lambda>_.
     check_opt hold (\<lambda>h. require_positive h ''for''))"
| "wait_until_validate (WExpr e hold) =
     and_then (expr_validate e) (\<lambda>_. check_opt hold (\<lambda>h. require_positive h ''for''))"

fun wait_hold :: "wait_until \<Rightarrow> compact_duration option" where
  "wait_hold (WState _ h) = h"
| "wait_hold (WExpr _ h) = h"

section \<open>Services\<close>

text \<open>A service a rule may name, as it is written: its kind and its action.\<close>

record rule_service =
  rs_kind :: entity_kind
  rs_action :: string

definition rule_service_text :: "rule_service \<Rightarrow> string" where
  "rule_service_text s = domain (rs_kind s) @ ''.'' @ rs_action s"

record number_field =
  nf_min :: "f64 option"
  nf_max :: "f64 option"
  nf_integer :: bool

type_synonym call_data = "(string, json) omap"

record service_table =
  sv_takes_data :: "rule_service \<Rightarrow> bool"
  sv_number_field :: "rule_service \<Rightarrow> string \<Rightarrow> number_field option"
  sv_validate_data :: "rule_service \<Rightarrow> call_data option \<Rightarrow> unit res"

end
