(* ===== verification/Clock.thy ===== *)
theory Clock
  imports Rules
begin

text \<open>
  Telling the time at home (\<open>crates/irori-rules/src/clock.rs\<close>): when a time of day, a cron or a
  sun event next comes round, and whether now is inside a window.

  The calendar, the time zones and the arithmetic of instants are the date library's
  (\<open>jiff\<close>): a \<open>time_library\<close> bundles the functions of it that the code calls, and
  \<open>tl_sun_minutes\<close> stands for the NOAA equations of \<open>sun_minutes\<close>, whose floating-point
  trigonometry is not modelled.  An instant is a number of nanoseconds since 1970.
\<close>

section \<open>The date library\<close>

record date_time =
  dt_date :: civil_date
  dt_hour :: int
  dt_minute :: int
  dt_second :: int

text \<open>\<open>AmbiguousOffset\<close>: one offset, a gap the clocks jumped over, or a fold they went back over.\<close>

datatype ambiguous_offset = Unambiguous int | Gap | Fold int int

record time_library = date_library +
  tl_zone_known :: "string \<Rightarrow> bool"
  tl_civil :: "string \<Rightarrow> int \<Rightarrow> date_time"
  tl_offset :: "string \<Rightarrow> date_time \<Rightarrow> ambiguous_offset"
  tl_to_timestamp :: "int \<Rightarrow> date_time \<Rightarrow> int option"
  tl_tomorrow :: "civil_date \<Rightarrow> civil_date option"
  tl_yesterday :: "civil_date \<Rightarrow> civil_date option"
  tl_weekday :: "civil_date \<Rightarrow> weekday"
  tl_days :: "civil_date \<Rightarrow> int option"
  tl_utc_date :: "int \<Rightarrow> civil_date"
  tl_add_millis :: "int \<Rightarrow> int \<Rightarrow> int option"
  tl_from_millis :: "int \<Rightarrow> int option"
  tl_sun_minutes :: "sun_event \<Rightarrow> civil_date \<Rightarrow> f64 \<Rightarrow> f64 \<Rightarrow> f64 option"

section \<open>Where the home is\<close>

record place =
  pl_name :: string
  pl_coordinates :: "(f64 \<times> f64) option"

definition place_new :: "time_library \<Rightarrow> string \<Rightarrow> (f64 \<times> f64) option \<Rightarrow> place res" where
  "place_new tz zone coordinates =
     (if tl_zone_known tz zone then Ok \<lparr>pl_name = zone, pl_coordinates = coordinates\<rparr>
      else Err (Msg ''{:?} isn't a time zone Irori knows'' [plain zone]))"

definition has_location :: "place \<Rightarrow> bool" where
  "has_location p = (pl_coordinates p \<noteq> None)"

definition civil :: "time_library \<Rightarrow> place \<Rightarrow> int \<Rightarrow> date_time" where
  "civil tz p ts = tl_civil tz (pl_name p) ts"

definition moment :: "time_library \<Rightarrow> place \<Rightarrow> date_time \<Rightarrow> int option" where
  "moment tz p dt =
     (case tl_offset tz (pl_name p) dt of
        Unambiguous offset \<Rightarrow> tl_to_timestamp tz offset dt
      | Gap \<Rightarrow> None
      | Fold before after \<Rightarrow> tl_to_timestamp tz before dt)"

section \<open>Times of day and crons\<close>

definition horizon_days :: nat where
  "horizon_days = 366 * 5"

text \<open>\<open>str::parse::<i8>\<close>.\<close>

definition parse_i8 :: "string \<Rightarrow> int option" where
  "parse_i8 s =
     (case s of
        c # cs \<Rightarrow>
          if c = CHR ''-'' then
            (if cs \<noteq> [] \<and> list_all is_digit cs \<and> digits_val cs \<le> 128 then Some (- int (digits_val cs)) else None)
          else map_option int (parse_uint 127 s)
      | [] \<Rightarrow> None)"

definition time_parts :: "civil_time \<Rightarrow> int \<times> int \<times> int" where
  "time_parts t =
     (let ps = map (\<lambda>p. unwrap_or (parse_i8 p) 0) (split_on CHR '':'' t)
      in (case ps of
            [] \<Rightarrow> (0, 0, 0)
          | [h] \<Rightarrow> (h, 0, 0)
          | [h, m] \<Rightarrow> (h, m, 0)
          | h # m # s # _ \<Rightarrow> (h, m, s)))"

definition on_weekday :: "time_library \<Rightarrow> weekday list option \<Rightarrow> civil_date \<Rightarrow> bool" where
  "on_weekday tz weekdays date = is_none_or weekdays (\<lambda>ds. tl_weekday tz date \<in> set ds)"

definition at_time :: "civil_date \<Rightarrow> int \<Rightarrow> int \<Rightarrow> int \<Rightarrow> date_time" where
  "at_time date h m s = \<lparr>dt_date = date, dt_hour = h, dt_minute = m, dt_second = s\<rparr>"

text \<open>A moment, when it is after the given one.\<close>

definition moment_after :: "time_library \<Rightarrow> place \<Rightarrow> int \<Rightarrow> date_time \<Rightarrow> int option" where
  "moment_after tz p aft dt =
     (case moment tz p dt of Some m \<Rightarrow> if aft < m then Some m else None | None \<Rightarrow> None)"

text \<open>The scan both \<open>next_time\<close> and \<open>next_cron\<close> make: day by day, at most \<open>n\<close> of them, until
  \<open>f\<close> finds a moment on one or the calendar ends.\<close>

fun scan_days :: "time_library \<Rightarrow> (civil_date \<Rightarrow> int option) \<Rightarrow> nat \<Rightarrow> civil_date \<Rightarrow> int option" where
  "scan_days tz f 0 date = None"
| "scan_days tz f (Suc n) date =
     (case f date of
        Some m \<Rightarrow> Some m
      | None \<Rightarrow> (case tl_tomorrow tz date of None \<Rightarrow> None | Some d \<Rightarrow> scan_days tz f n d))"

definition time_on :: "time_library \<Rightarrow> place \<Rightarrow> civil_time \<Rightarrow> weekday list option \<Rightarrow> int \<Rightarrow> civil_date \<Rightarrow> int option" where
  "time_on tz p t weekdays aft date =
     (case time_parts t of (h, m, s) \<Rightarrow>
        if on_weekday tz weekdays date then moment_after tz p aft (at_time date h m s) else None)"

definition next_time :: "time_library \<Rightarrow> place \<Rightarrow> civil_time \<Rightarrow> weekday list option \<Rightarrow> int \<Rightarrow> int option" where
  "next_time tz p t weekdays aft =
     scan_days tz (time_on tz p t weekdays aft) horizon_days (dt_date (civil tz p aft))"

fun sunday_zero :: "weekday \<Rightarrow> nat" where
  "sunday_zero Sun = 0"
| "sunday_zero Mon = 1"
| "sunday_zero Tue = 2"
| "sunday_zero Wed = 3"
| "sunday_zero Thu = 4"
| "sunday_zero Fri = 5"
| "sunday_zero Sat = 6"

definition cron_on :: "time_library \<Rightarrow> place \<Rightarrow> cron_spec \<Rightarrow> int \<Rightarrow> civil_date \<Rightarrow> int option" where
  "cron_on tz p c aft date =
     (if on_day c (nat (cd_month date)) (nat (cd_day date)) (sunday_zero (tl_weekday tz date)) then
        find_map (\<lambda>h. find_map (\<lambda>m. moment_after tz p aft (at_time date (int h) (int m) 0)) (cr_minutes c)) (cr_hours c)
      else None)"

definition next_cron :: "time_library \<Rightarrow> place \<Rightarrow> cron_spec \<Rightarrow> int \<Rightarrow> int option" where
  "next_cron tz p c aft = scan_days tz (cron_on tz p c aft) horizon_days (dt_date (civil tz p aft))"

section \<open>Windows of time\<close>

definition day_seconds :: "int \<times> int \<times> int \<Rightarrow> int" where
  "day_seconds hms = (case hms of (h, m, s) \<Rightarrow> h * 3600 + m * 60 + s)"

definition in_time_window ::
  "time_library \<Rightarrow> place \<Rightarrow> civil_time option \<Rightarrow> civil_time option \<Rightarrow> weekday list option \<Rightarrow> int \<Rightarrow> bool" where
  "in_time_window tz p aft bef weekdays now =
     (let here = civil tz p now in
      if is_some_and weekdays (\<lambda>ds. tl_weekday tz (dt_date here) \<notin> set ds) then False
      else
        let now_s = day_seconds (dt_hour here, dt_minute here, dt_second here)
        in (case (map_option (day_seconds \<circ> time_parts) aft, map_option (day_seconds \<circ> time_parts) bef) of
              (Some a, Some b) \<Rightarrow>
                if a < b then a \<le> now_s \<and> now_s < b
                else if b < a then a \<le> now_s \<or> now_s < b
                else False
            | (Some a, None) \<Rightarrow> a \<le> now_s
            | (None, Some b) \<Rightarrow> now_s < b
            | (None, None) \<Rightarrow> True))"

definition hour_and_minute :: "time_library \<Rightarrow> place \<Rightarrow> int \<Rightarrow> int \<times> int" where
  "hour_and_minute tz p now = (dt_hour (civil tz p now), dt_minute (civil tz p now))"

section \<open>The sun\<close>

text \<open>\<open>as i64\<close> of a double: towards zero, clamped, 0 for a NaN.\<close>

fun f64_as_i64 :: "f64 \<Rightarrow> int" where
  "f64_as_i64 (Fin r) = sat64 (if 0 \<le> r then \<lfloor>r\<rfloor> else - \<lfloor>- r\<rfloor>)"
| "f64_as_i64 PosInf = i64_max"
| "f64_as_i64 NegInf = i64_min"
| "f64_as_i64 NaN = 0"

fun times_60000 :: "f64 \<Rightarrow> f64" where
  "times_60000 (Fin r) = Fin (f64_nearest (r * 60000))"
| "times_60000 x = x"

definition sun_moment :: "time_library \<Rightarrow> sun_event \<Rightarrow> civil_date \<Rightarrow> f64 \<Rightarrow> f64 \<Rightarrow> int option" where
  "sun_moment tz event date lat lon =
     (case tl_sun_minutes tz event date lat lon of
        None \<Rightarrow> None
      | Some mins \<Rightarrow>
          (case tl_days tz date of
             None \<Rightarrow> None
           | Some d \<Rightarrow>
               tl_from_millis tz (d * 86400000 + f64_as_i64 (f64_round_whole (times_60000 mins)))))"

definition shifted :: "time_library \<Rightarrow> int \<Rightarrow> int \<Rightarrow> int" where
  "shifted tz ts offset_ms = unwrap_or (tl_add_millis tz ts offset_ms) ts"

definition sun_on :: "time_library \<Rightarrow> sun_event \<Rightarrow> f64 \<Rightarrow> f64 \<Rightarrow> int \<Rightarrow> int \<Rightarrow> civil_date \<Rightarrow> int option" where
  "sun_on tz event lat lon offset_ms aft date =
     (case sun_moment tz event date lat lon of
        Some m \<Rightarrow> if aft < shifted tz m offset_ms then Some (shifted tz m offset_ms) else None
      | None \<Rightarrow> None)"

definition next_sun :: "time_library \<Rightarrow> place \<Rightarrow> sun_event \<Rightarrow> int \<Rightarrow> int \<Rightarrow> int option" where
  "next_sun tz p event offset_ms aft =
     (case pl_coordinates p of
        None \<Rightarrow> None
      | Some (lat, lon) \<Rightarrow>
          (case tl_yesterday tz (tl_utc_date tz aft) of
             None \<Rightarrow> None
           | Some d1 \<Rightarrow> (case tl_yesterday tz d1 of
                 None \<Rightarrow> None
               | Some d2 \<Rightarrow> scan_days tz (sun_on tz event lat lon offset_ms aft) 370 d2)))"

text \<open>\<open>sun_today\<close>: yesterday, today and tomorrow's solar days are looked at for one that falls on
  the calendar day at home. The library's own errors at the ends of the calendar are \<open>date_end\<close>.\<close>

definition date_end :: msg where
  "date_end = plain ''the calendar ends here''"

fun sun_today_from :: "time_library \<Rightarrow> place \<Rightarrow> sun_event \<Rightarrow> f64 \<Rightarrow> f64 \<Rightarrow> civil_date \<Rightarrow> nat \<Rightarrow> civil_date
    \<Rightarrow> int option res" where
  "sun_today_from tz p event lat lon today 0 date = Ok None"
| "sun_today_from tz p event lat lon today (Suc n) date =
     (case sun_moment tz event date lat lon of
        Some m \<Rightarrow>
          if dt_date (civil tz p m) = today then Ok (Some m)
          else (case tl_tomorrow tz date of
                  None \<Rightarrow> Err date_end
                | Some d \<Rightarrow> sun_today_from tz p event lat lon today n d)
      | None \<Rightarrow> (case tl_tomorrow tz date of
                  None \<Rightarrow> Err date_end
                | Some d \<Rightarrow> sun_today_from tz p event lat lon today n d))"

definition sun_today :: "time_library \<Rightarrow> place \<Rightarrow> sun_event \<Rightarrow> int \<Rightarrow> int option res" where
  "sun_today tz p event now =
     (case pl_coordinates p of
        None \<Rightarrow> Err (plain ''the sun needs the home's location'')
      | Some (lat, lon) \<Rightarrow>
          (let today = dt_date (civil tz p now)
           in (case tl_yesterday tz today of
                 None \<Rightarrow> Err date_end
               | Some d \<Rightarrow> sun_today_from tz p event lat lon today 3 d)))"

fun sun_word :: "sun_event \<Rightarrow> string" where
  "sun_word Sunrise = ''sunrise''"
| "sun_word Sunset = ''sunset''"
| "sun_word Dawn = ''dawn''"
| "sun_word Dusk = ''dusk''"
| "sun_word Noon = ''solar noon''"
| "sun_word Midnight = ''solar midnight''"

definition sun_end :: "time_library \<Rightarrow> place \<Rightarrow> int \<Rightarrow> sun_event \<Rightarrow> int \<Rightarrow> int res" where
  "sun_end tz p now event offset_ms =
     and_then (sun_today tz p event now) (\<lambda>m.
       case m of
         Some ts \<Rightarrow> Ok (shifted tz ts offset_ms)
       | None \<Rightarrow> Err (Msg ''there's no {} at home today'' [plain (sun_word event)]))"

definition in_sun_window ::
  "time_library \<Rightarrow> place \<Rightarrow> sun_event option \<Rightarrow> sun_event option \<Rightarrow> int \<Rightarrow> int \<Rightarrow> int \<Rightarrow> bool res" where
  "in_sun_window tz p aft bef after_offset before_offset now =
     (case (aft, bef) of
        (Some a, Some b) \<Rightarrow>
          and_then (sun_end tz p now a after_offset) (\<lambda>x.
          and_then (sun_end tz p now b before_offset) (\<lambda>y.
            Ok (if x \<le> y then x \<le> now \<and> now < y else x \<le> now \<or> now < y)))
      | (Some a, None) \<Rightarrow> and_then (sun_end tz p now a after_offset) (\<lambda>x. Ok (x \<le> now))
      | (None, Some b) \<Rightarrow> and_then (sun_end tz p now b before_offset) (\<lambda>y. Ok (now < y))
      | (None, None) \<Rightarrow> Ok True)"

section \<open>The scans\<close>

text \<open>The day \<open>n\<close> days on, while the calendar lasts.\<close>

fun days_on :: "time_library \<Rightarrow> nat \<Rightarrow> civil_date \<Rightarrow> civil_date option" where
  "days_on tz 0 date = Some date"
| "days_on tz (Suc n) date = (case tl_tomorrow tz date of None \<Rightarrow> None | Some d \<Rightarrow> days_on tz n d)"

text \<open>A scan answers with the first day of its span that has a moment.\<close>

lemma scan_days_Some:
  "scan_days tz f n date = Some m \<longleftrightarrow>
   (\<exists>k < n. \<exists>d. days_on tz k date = Some d \<and> f d = Some m
      \<and> (\<forall>j < k. \<forall>d'. days_on tz j date = Some d' \<longrightarrow> f d' = None))"
proof (induction n arbitrary: date)
  case (Suc n)
  show ?case
  proof (cases "f date")
    case (Some m')
    have "(\<exists>k < Suc n. \<exists>d. days_on tz k date = Some d \<and> f d = Some m
      \<and> (\<forall>j < k. \<forall>d'. days_on tz j date = Some d' \<longrightarrow> f d' = None)) \<longleftrightarrow> m = m'" (is "?l \<longleftrightarrow> _")
    proof
      assume ?l
      then obtain k d where k: "days_on tz k date = Some d" "f d = Some m"
        "\<forall>j < k. \<forall>d'. days_on tz j date = Some d' \<longrightarrow> f d' = None" by blast
      have "k = 0" using k(3) Some by (cases k) (auto dest: spec[of _ 0])
      with k Some show "m = m'" by simp
    next
      assume "m = m'"
      with Some show ?l by (intro exI[of _ 0]) simp
    qed
    with Some show ?thesis by auto
  next
    case None
    show ?thesis
    proof (cases "tl_tomorrow tz date")
      case no: None
      have "days_on tz k date = Some d \<longleftrightarrow> k = 0 \<and> d = date" for k d
        using no by (cases k) auto
      with None no show ?thesis by auto
    next
      case tom: (Some d1)
      have "(\<exists>k < Suc n. \<exists>d. days_on tz k date = Some d \<and> f d = Some m
          \<and> (\<forall>j < k. \<forall>d'. days_on tz j date = Some d' \<longrightarrow> f d' = None)) \<longleftrightarrow>
        (\<exists>k < n. \<exists>d. days_on tz k d1 = Some d \<and> f d = Some m
          \<and> (\<forall>j < k. \<forall>d'. days_on tz j d1 = Some d' \<longrightarrow> f d' = None))" (is "?l \<longleftrightarrow> ?r")
      proof
        assume ?l
        then obtain k d where k: "k < Suc n" "days_on tz k date = Some d" "f d = Some m"
          "\<forall>j < k. \<forall>d'. days_on tz j date = Some d' \<longrightarrow> f d' = None" by blast
        then obtain k' where k': "k = Suc k'" using None by (cases k) auto
        have "\<forall>j < k'. \<forall>d'. days_on tz j d1 = Some d' \<longrightarrow> f d' = None"
          using k(4) k' tom by (auto dest: spec[of _ "Suc _"])
        with k k' tom show ?r by auto
      next
        assume ?r
        then obtain k d where k: "k < n" "days_on tz k d1 = Some d" "f d = Some m"
          "\<forall>j < k. \<forall>d'. days_on tz j d1 = Some d' \<longrightarrow> f d' = None" by blast
        have "\<forall>j < Suc k. \<forall>d'. days_on tz j date = Some d' \<longrightarrow> f d' = None"
        proof (intro allI impI)
          fix j d' assume "j < Suc k" "days_on tz j date = Some d'"
          with k(4) tom None show "f d' = None" by (cases j) auto
        qed
        with k tom show ?l by (intro exI[of _ "Suc k"]) auto
      qed
      with Suc[of d1] None tom show ?thesis by simp
    qed
  qed
qed simp

lemma moment_after_gt: "moment_after tz p aft dt = Some m \<Longrightarrow> aft < m \<and> moment tz p dt = Some m"
  by (auto simp: moment_after_def split: option.splits if_splits)

lemma next_time_gt: "next_time tz p t wd aft = Some m \<Longrightarrow> aft < m"
  by (cases "time_parts t") (auto simp: next_time_def scan_days_Some time_on_def dest: moment_after_gt split: if_splits)

lemma next_cron_gt: "next_cron tz p c aft = Some m \<Longrightarrow> aft < m"
  by (auto simp: next_cron_def scan_days_Some cron_on_def dest!: find_map_Some moment_after_gt split: if_splits)

lemma next_sun_gt: "next_sun tz p e off aft = Some m \<Longrightarrow> aft < m"
  by (auto simp: next_sun_def scan_days_Some sun_on_def split: option.splits prod.splits if_splits)

end
