(* ===== verification/Eval.thy ===== *)
theory Eval
  imports Clock
begin

text \<open>
  Evaluating expressions, conditions and wait matchers against a snapshot of the home
  (\<open>crates/irori-rules/src/eval.rs\<close> and the rewriting of \<open>expr.rs\<close>), with the reads they leave
  in a trace.

  The expression language itself is a library (\<open>cel\<close>): \<open>cel_library\<close> bundles its compiler and
  its interpreter.  The interpreter is given the functions the code binds (\<open>host_call\<close>) and
  threads the reads they note through its calls.  The evaluator's table of compiled programs
  is a memo of a pure function and is left out.
\<close>

section \<open>Snapshots and reads\<close>

type_synonym states = "(string, entity_state) omap"
type_synonym run_vars = "(string, json) omap"

record snapshot =
  sp_states :: states
  sp_vars :: run_vars
  sp_now :: int

record read =
  rd_entity :: string
  rd_availability :: "availability option"
  rd_field :: "string option"
  rd_value :: json

definition value_of :: "'x date_library_scheme \<Rightarrow> state \<Rightarrow> json" where
  "value_of jt s = typed_json (primary (date_library.truncate jt) s)"

definition read_of :: "'x date_library_scheme \<Rightarrow> state \<Rightarrow> string option \<Rightarrow> json" where
  "read_of jt s field =
     (case field of
        None \<Rightarrow> value_of jt s
      | Some f \<Rightarrow> (case state_field (date_library.truncate jt) s f of None \<Rightarrow> JNull | Some v \<Rightarrow> typed_json v))"

definition read_of_field :: "'x date_library_scheme \<Rightarrow> string \<Rightarrow> string option \<Rightarrow> states \<Rightarrow> read" where
  "read_of_field jt entity field ss =
     \<lparr>rd_entity = entity,
      rd_availability = map_option es_availability (oget entity ss),
      rd_field = field,
      rd_value = (case Option.bind (oget entity ss) es_state of
                    None \<Rightarrow> JNull | Some s \<Rightarrow> read_of jt s field)\<rparr>"

definition read_main :: "'x date_library_scheme \<Rightarrow> string \<Rightarrow> states \<Rightarrow> read" where
  "read_main jt entity ss = read_of_field jt entity None ss"

type_synonym 'a outcome = "'a res \<times> read list"

section \<open>Expressions\<close>

text \<open>The values of the expression language; lists, maps and the rest are \<open>CelOther\<close>.\<close>

datatype cel_value =
    CelBool bool
  | CelInt int
  | CelUInt int
  | CelFloat f64
  | CelString string
  | CelNull
  | CelOther msg

type_synonym host = "string \<Rightarrow> cel_value list \<Rightarrow> read list \<Rightarrow> cel_value res \<times> read list"

record cel_library =
  cel_alphanumeric :: "nat \<Rightarrow> bool"
  cel_compile :: "nat list \<Rightarrow> unit res"
  cel_exec :: "nat list \<Rightarrow> host \<Rightarrow> read list \<Rightarrow> cel_value res \<times> read list"

subsection \<open>Rewriting what an author writes\<close>

definition cp :: "char \<Rightarrow> nat" where
  "cp c = byte_of c"

definition cp_digit :: "nat \<Rightarrow> bool" where
  "cp_digit c \<longleftrightarrow> 48 \<le> c \<and> c \<le> 57"

definition word_char :: "(nat \<Rightarrow> bool) \<Rightarrow> nat \<Rightarrow> bool" where
  "word_char al c \<longleftrightarrow> al c \<or> c = cp CHR ''_''"

definition starts_word :: "(nat \<Rightarrow> bool) \<Rightarrow> nat option \<Rightarrow> bool" where
  "starts_word al prev = is_none_or prev (\<lambda>c. \<not> word_char al c)"

definition next_is :: "nat list \<Rightarrow> (nat \<Rightarrow> bool) \<Rightarrow> bool" where
  "next_is cs p = (case cs of [] \<Rightarrow> False | c # _ \<Rightarrow> p c)"

text \<open>\<open>rename_reserved\<close>: \<open>q\<close> is the quote a string literal was opened with, \<open>prev\<close> the character
  before.\<close>

function rename_from :: "(nat \<Rightarrow> bool) \<Rightarrow> nat option \<Rightarrow> nat option \<Rightarrow> nat list \<Rightarrow> nat list" where
  "rename_from al q prev cs =
     (case cs of
        [] \<Rightarrow> []
      | c # r \<Rightarrow>
          (case q of
             Some qc \<Rightarrow>
               (case r of
                  e # r' \<Rightarrow>
                    if c = 92 then c # e # rename_from al q (Some e) r'
                    else c # rename_from al (if c = qc then None else q) (Some c) r
                | [] \<Rightarrow> [c])
           | None \<Rightarrow>
               if c = 34 \<or> c = 39 then c # rename_from al (Some c) (Some c) r
               else if starts_word al prev \<and> cp_digit c \<and> prev \<noteq> Some (cp CHR ''.'') then
                 (let ds = c # takeWhile cp_digit r;
                      rest = dropWhile cp_digit r;
                      whole = \<not> next_is rest (\<lambda>n. word_char al n \<or> n = cp CHR ''.'')
                  in ds @ (if whole then map cp ''.0'' else []) @ rename_from al None (Some (last ds)) rest)
               else if starts_word al prev \<and> take 3 cs = map cp ''var''
                    \<and> \<not> next_is (drop 3 cs) (word_char al)
                    \<and> next_is (dropWhile is_white (drop 3 cs)) (\<lambda>n. n = cp CHR ''('') then
                 map cp ''irori_var'' @ rename_from al None (Some (cp CHR ''r'')) (drop 3 cs)
               else c # rename_from al None (Some c) r))"
  by pat_completeness auto
termination
  by (relation "measure (\<lambda>(al, q, prev, cs). length cs)")
     (auto simp: le_imp_less_Suc length_dropWhile_le)

declare rename_from.simps [simp del]

definition rename_reserved :: "(nat \<Rightarrow> bool) \<Rightarrow> string \<Rightarrow> nat list" where
  "rename_reserved al source = rename_from al None None (chars_of source)"

subsection \<open>The bound functions\<close>

record evaluator =
  ev_place :: "place option"

text \<open>What an evaluation needs from outside: the date and expression libraries.\<close>

record libraries =
  lib_time :: time_library
  lib_cel :: cel_library

definition to_json :: "cel_value \<Rightarrow> string \<Rightarrow> json res" where
  "to_json v source =
     (case v of
        CelBool b \<Rightarrow> Ok (JBool b)
      | CelInt i \<Rightarrow> Ok (JInt i)
      | CelUInt u \<Rightarrow> Ok (JInt u)
      | CelFloat (Fin r) \<Rightarrow>
          if r = of_int \<lfloor>r\<rfloor> \<and> \<bar>r\<bar> < 9000000000000000 then Ok (JInt \<lfloor>r\<rfloor>) else Ok (JFloat r)
      | CelFloat _ \<Rightarrow> Err (Msg ''`{}` isn't a finite number'' [plain source])
      | CelString s \<Rightarrow> Ok (JStr s)
      | CelNull \<Rightarrow> Ok JNull
      | CelOther m \<Rightarrow> Err (Msg ''`{}` gave {:?}, not a plain value'' [plain source, m]))"

definition from_json :: "json \<Rightarrow> cel_value" where
  "from_json j =
     (case j of
        JBool b \<Rightarrow> CelBool b
      | JInt _ \<Rightarrow> CelFloat (unwrap_or (json_as_f64 j) (Fin 0))
      | JFloat _ \<Rightarrow> CelFloat (unwrap_or (json_as_f64 j) (Fin 0))
      | JStr s \<Rightarrow> CelString s
      | _ \<Rightarrow> CelNull)"

text \<open>\<open>look\<close> and \<open>live\<close>: an entity by its id, noting the read once.\<close>

definition look :: "'x date_library_scheme \<Rightarrow> states \<Rightarrow> string \<Rightarrow> read list \<Rightarrow> entity_state option res \<times> read list" where
  "look jt ss i reads =
     (case check_entity_id i of
        Inl m \<Rightarrow> (Err m, reads)
      | Inr _ \<Rightarrow>
          (Ok (oget i ss),
           if list_ex (\<lambda>r. rd_entity r = i) reads then reads else reads @ [read_main jt i ss]))"

definition live :: "'x date_library_scheme \<Rightarrow> string \<Rightarrow> states \<Rightarrow> string \<Rightarrow> read list \<Rightarrow> state res \<times> read list" where
  "live jt fn ss i reads =
     (case look jt ss i reads of
        (Inl m, reads') \<Rightarrow> (Err m, reads')
      | (Inr None, reads') \<Rightarrow> (Err (Msg ''{}({:?}): no such entity'' [plain fn, plain i]), reads')
      | (Inr (Some e), reads') \<Rightarrow>
          (if es_availability e = Unavailable then
             Err (Msg ''{}({:?}): entity is unavailable'' [plain fn, plain i])
           else (case es_state e of
               Some s \<Rightarrow> Ok s
             | None \<Rightarrow> Err (Msg ''{}({:?}): entity has never reported a value'' [plain fn, plain i])),
           reads'))"

fun shape_word :: "value_shape \<Rightarrow> string" where
  "shape_word ShapeNumber = ''a number -- use num()''"
| "shape_word ShapeBool = ''on/off -- use on()''"
| "shape_word ShapeText = ''text -- use text()''"

fun cel_of_typed :: "typed \<Rightarrow> cel_value" where
  "cel_of_typed (TNumber n) = CelFloat n"
| "cel_of_typed (TBool b) = CelBool b"
| "cel_of_typed (TText t) = CelString t"

definition read_named_field ::
  "'x date_library_scheme \<Rightarrow> string \<Rightarrow> value_shape \<Rightarrow> state \<Rightarrow> string \<Rightarrow> string \<Rightarrow> cel_value res" where
  "read_named_field jt fn shape s i field =
     (case state_field (date_library.truncate jt) s field of
        None \<Rightarrow> Err (Msg ''{}({:?}, {:?}): the entity hasn't said its {}'' [plain fn, plain i, plain field, plain field])
      | Some v \<Rightarrow>
          if typed_shape v \<noteq> shape then
            Err (Msg ''{}({:?}, {:?}): {} is {}''
                  [plain fn, plain i, plain field, plain field, plain (shape_word (typed_shape v))])
          else Ok (cel_of_typed v))"

text \<open>The main value as \<open>num\<close>, \<open>on\<close> or \<open>text\<close> reads it.\<close>

definition read_primary :: "'x date_library_scheme \<Rightarrow> string \<Rightarrow> value_shape \<Rightarrow> state \<Rightarrow> string \<Rightarrow> cel_value res" where
  "read_primary jt fn shape s i =
     (let v = primary (date_library.truncate jt) s
      in if typed_shape v = shape then Ok (cel_of_typed v)
         else Err (Msg ''{}({:?}): entity is {}'' [plain fn, plain i, plain (shape_word (typed_shape v))]))"

definition valued_fn ::
  "'x date_library_scheme \<Rightarrow> states \<Rightarrow> string \<Rightarrow> value_shape \<Rightarrow> cel_value list \<Rightarrow> read list \<Rightarrow> cel_value res \<times> read list" where
  "valued_fn jt ss fn shape args reads =
     (case args of
        [CelString i] \<Rightarrow>
          (case live jt fn ss i reads of (r, reads') \<Rightarrow> (and_then r (\<lambda>s. read_primary jt fn shape s i), reads'))
      | [CelString i, CelString f] \<Rightarrow>
          (case live jt fn ss i reads of (r, reads') \<Rightarrow> (and_then r (\<lambda>s. read_named_field jt fn shape s i f), reads'))
      | _ \<Rightarrow> (Err (Msg ''{}() takes an entity id, and the name of one of its values if not the main one''
               [plain fn]), reads))"

definition brightness_of :: "state \<Rightarrow> string \<Rightarrow> cel_value res" where
  "brightness_of s i =
     (case s of
        Light l \<Rightarrow>
          (case lt_brightness l of
             Some b \<Rightarrow> Ok (CelFloat (Fin (of_nat b)))
           | None \<Rightarrow> Err (Msg ''brightness({:?}): the light hasn't said its brightness'' [plain i]))
      | _ \<Rightarrow> Err (Msg ''brightness({:?}): entity is not a light'' [plain i]))"

definition attr_of :: "'x date_library_scheme \<Rightarrow> states \<Rightarrow> string \<Rightarrow> string \<Rightarrow> read list \<Rightarrow> cel_value res \<times> read list" where
  "attr_of jt ss i key reads =
     (case look jt ss i reads of
        (Inl m, reads') \<Rightarrow> (Err m, reads')
      | (Inr None, reads') \<Rightarrow> (Err (Msg ''attr({:?}): no such entity'' [plain i]), reads')
      | (Inr (Some e), reads') \<Rightarrow>
          (if es_availability e = Unavailable then Err (Msg ''attr({:?}): entity is unavailable'' [plain i])
           else (case oget key (es_attributes e) of
               Some v \<Rightarrow> Ok (from_json v)
             | None \<Rightarrow> Err (Msg ''attr({:?}, {:?}): no such attribute'' [plain i, plain key])),
           reads'))"

text \<open>\<open>numbers\<close>: the arguments of a maths function, integers read as doubles.\<close>

fun cel_numbers :: "string \<Rightarrow> cel_value list \<Rightarrow> f64 list res" where
  "cel_numbers name [] = Ok []"
| "cel_numbers name (CelFloat f # vs) = and_then (cel_numbers name vs) (\<lambda>ns. Ok (f # ns))"
| "cel_numbers name (CelInt i # vs) = and_then (cel_numbers name vs) (\<lambda>ns. Ok (Fin (f64_nearest (of_int i)) # ns))"
| "cel_numbers name (CelUInt i # vs) = and_then (cel_numbers name vs) (\<lambda>ns. Ok (Fin (f64_nearest (of_int i)) # ns))"
| "cel_numbers name (v # vs) = Err (Msg ''{}() takes numbers'' [plain name])"

text \<open>A call whose arguments are not what a bound function takes is refused by the library.\<close>

definition bad_args :: "string \<Rightarrow> cel_value res" where
  "bad_args name = Err (Msg ''{}(): unexpected arguments'' [plain name])"

definition maths_call :: "string \<Rightarrow> cel_value list \<Rightarrow> cel_value res" where
  "maths_call name args =
     (case cel_numbers name args of
        Inl m \<Rightarrow> Err m
      | Inr ns \<Rightarrow>
          (case ns of
             [a] \<Rightarrow> if name = ''round'' then Ok (CelFloat (f64_round_whole a)) else bad_args name
           | [a, b] \<Rightarrow>
               if name = ''min'' then Ok (CelFloat (f64_min a b))
               else if name = ''max'' then Ok (CelFloat (f64_max a b))
               else bad_args name
           | [a, low, high] \<Rightarrow>
               if name = ''clamp'' then
                 (if f64_lt high low then
                    Err (Msg ''clamp(): the low end {} is above the high end {}'' [f64_msg low, f64_msg high])
                  else Ok (CelFloat (f64_clamp a low high)))
               else bad_args name
           | _ \<Rightarrow> bad_args name))"

definition now_seconds :: "int \<Rightarrow> int" where
  "now_seconds now = (if 0 \<le> now then now div 1000000000 else - ((- now) div 1000000000))"

definition host_call :: "time_library \<Rightarrow> place option \<Rightarrow> snapshot \<Rightarrow> host" where
  "host_call jt pl snap name args reads =
     (let ss = sp_states snap in
      if name = ''num'' then valued_fn jt ss name ShapeNumber args reads
      else if name = ''on'' then valued_fn jt ss name ShapeBool args reads
      else if name = ''text'' then valued_fn jt ss name ShapeText args reads
      else if name = ''brightness'' then
        (case args of
           [CelString i] \<Rightarrow>
             (case live jt name ss i reads of (r, reads') \<Rightarrow> (and_then r (\<lambda>s. brightness_of s i), reads'))
         | _ \<Rightarrow> (bad_args name, reads))
      else if name = ''available'' then
        (case args of
           [CelString i] \<Rightarrow>
             (case look jt ss i reads of (r, reads') \<Rightarrow>
                (and_then r (\<lambda>e. Ok (CelBool (is_some_and e (\<lambda>e. es_availability e = Available)))), reads'))
         | _ \<Rightarrow> (bad_args name, reads))
      else if name = ''unknown'' then
        (case args of
           [CelString i] \<Rightarrow>
             (case look jt ss i reads of (r, reads') \<Rightarrow>
                (and_then r (\<lambda>e. Ok (CelBool (is_none_or e (\<lambda>e. es_state e = None)))), reads'))
         | _ \<Rightarrow> (bad_args name, reads))
      else if name = ''attr'' then
        (case args of
           [CelString i, CelString key] \<Rightarrow> attr_of jt ss i key reads
         | _ \<Rightarrow> (bad_args name, reads))
      else if name = ''irori_var'' then
        (case args of
           [CelString v] \<Rightarrow>
             ((case oget v (sp_vars snap) of
                 Some j \<Rightarrow> Ok (from_json j)
               | None \<Rightarrow> Err (Msg ''var({:?}) hasn't been set on this path'' [plain v])), reads)
         | _ \<Rightarrow> (bad_args name, reads))
      else if name = ''now_ts'' then
        (if args = [] then (Ok (CelFloat (Fin (of_int (now_seconds (sp_now snap))))), reads)
         else (bad_args name, reads))
      else if name \<in> {''min'', ''max'', ''round'', ''clamp''} then (maths_call name args, reads)
      else if name \<in> {''hour'', ''minute''} then
        (if args \<noteq> [] then (bad_args name, reads)
         else (case pl of
             Some p \<Rightarrow>
               (case hour_and_minute jt p (sp_now snap) of (h, m) \<Rightarrow>
                  (Ok (CelInt (if name = ''hour'' then h else m)), reads))
           | None \<Rightarrow> (Err (Msg ''{}() needs the home's time zone'' [plain name]), reads)))
      else (Err (Msg ''no such function {}'' [plain name]), reads))"

section \<open>The evaluator\<close>

definition eval_value :: "libraries \<Rightarrow> evaluator \<Rightarrow> expr_string \<Rightarrow> snapshot \<Rightarrow> json outcome" where
  "eval_value lib ev source snap =
     (let program = rename_reserved (cel_alphanumeric (lib_cel lib)) source in
      case cel_compile (lib_cel lib) program of
        Inl m \<Rightarrow> (Err m, [])
      | Inr _ \<Rightarrow>
          (case cel_exec (lib_cel lib) program (host_call (lib_time lib) (ev_place ev) snap) [] of
             (r, reads) \<Rightarrow> (and_then r (\<lambda>v. to_json v source), reads)))"

fun json_is_bool :: "json \<Rightarrow> bool option" where
  "json_is_bool (JBool b) = Some b"
| "json_is_bool _ = None"

definition eval_boolean :: "libraries \<Rightarrow> evaluator \<Rightarrow> expr_string \<Rightarrow> snapshot \<Rightarrow> bool outcome" where
  "eval_boolean lib ev source snap =
     (case eval_value lib ev source snap of (r, reads) \<Rightarrow>
        (and_then r (\<lambda>v. case json_is_bool v of
             Some b \<Rightarrow> Ok b
           | None \<Rightarrow> Err (Msg ''`{}` gave a value, not true or false'' [plain source])),
         reads))"

text \<open>Whether a value from a rule matches a state's plain value.\<close>

definition value_matches :: "typed_value \<Rightarrow> json \<Rightarrow> bool" where
  "value_matches wanted j =
     (case (wanted, j) of
        (VNull, JNull) \<Rightarrow> True
      | (VBool a, JBool b) \<Rightarrow> a = b
      | (VNumber a, _) \<Rightarrow> is_some_and (json_as_f64 j) (\<lambda>b. f64_lt (f64_abs (f64_sub a b)) (Fin f64_epsilon))
      | (VText a, JStr b) \<Rightarrow> a = b
      | _ \<Rightarrow> False)"

definition state_holds :: "time_library \<Rightarrow> state_check \<Rightarrow> snapshot \<Rightarrow> bool outcome" where
  "state_holds jt c snap =
     (let r = read_of_field jt (sk_entity c) (sk_field c) (sp_states snap) in
      case oget (sk_entity c) (sp_states snap) of
        None \<Rightarrow> (Err (Msg ''{} isn't in the home'' [plain (sk_entity c)]), [r])
      | Some e \<Rightarrow>
          (case sk_availability c of
             Some w \<Rightarrow>
               if (es_availability e = Available) \<noteq> (w = WantAvailable) then (Ok False, [r])
               else (case sk_is c of
                   None \<Rightarrow> (Ok True, [r])
                 | Some v \<Rightarrow>
                     if es_availability e = Unavailable then
                       (Err (Msg ''{} is unavailable'' [plain (sk_entity c)]), [r])
                     else (Ok (value_matches v (rd_value r)), [r]))
           | None \<Rightarrow>
               (case sk_is c of
                  None \<Rightarrow> (Ok True, [r])
                | Some v \<Rightarrow>
                    if es_availability e = Unavailable then
                      (Err (Msg ''{} is unavailable'' [plain (sk_entity c)]), [r])
                    else (Ok (value_matches v (rd_value r)), [r]))))"

text \<open>\<open>merge\<close>: reads of entities not read before.\<close>

fun merge_reads :: "read list \<Rightarrow> read list \<Rightarrow> read list" where
  "merge_reads into [] = into"
| "merge_reads into (r # rs) =
     merge_reads (if list_ex (\<lambda>s. rd_entity s = rd_entity r) into then into else into @ [r]) rs"

text \<open>The loop of \<open>all\<close> and \<open>any\<close> over its children's outcomes: \<open>decided\<close>, the first error and
  the merged reads.\<close>

fun combine_from :: "bool \<Rightarrow> bool \<Rightarrow> msg option \<Rightarrow> read list \<Rightarrow> bool outcome list \<Rightarrow> bool \<times> msg option \<times> read list" where
  "combine_from al decided err reads [] = (decided, err, reads)"
| "combine_from al decided err reads ((r, rs) # os) =
     (let reads' = merge_reads reads rs in
      case r of
        Inr holds \<Rightarrow> combine_from al (decided \<or> holds \<noteq> al) err reads' os
      | Inl e \<Rightarrow> combine_from al decided (or_else err (Some e)) reads' os)"

definition combine :: "bool \<Rightarrow> bool outcome list \<Rightarrow> bool outcome" where
  "combine al os =
     (case combine_from al False None [] os of
        (decided, err, reads) \<Rightarrow>
          ((if decided then Ok (\<not> al)
            else (case err of
                Some e \<Rightarrow> if al then Err e else Ok al
              | None \<Rightarrow> Ok al)),
           reads))"

definition no_zone :: msg where
  "no_zone = plain ''time and sun windows need the home's time zone''"

definition window_offset :: "compact_duration option \<Rightarrow> compact_duration option \<Rightarrow> int" where
  "window_offset own both = (case or_else own both of None \<Rightarrow> 0 | Some d \<Rightarrow> dur_millis d)"

fun eval_condition :: "libraries \<Rightarrow> evaluator \<Rightarrow> snapshot \<Rightarrow> condition \<Rightarrow> bool outcome" where
  "eval_condition lib ev snap (CState c) = state_holds (lib_time lib) c snap"
| "eval_condition lib ev snap (CExpr e) = eval_boolean lib ev e snap"
| "eval_condition lib ev snap (CTime aft bef wd) =
     ((case ev_place ev of
         Some p \<Rightarrow> Ok (in_time_window (lib_time lib) p aft bef wd (sp_now snap))
       | None \<Rightarrow> Err no_zone), [])"
| "eval_condition lib ev snap (CSun w) =
     ((case ev_place ev of
         Some p \<Rightarrow>
           in_sun_window (lib_time lib) p (sn_after w) (sn_before w)
             (window_offset (sn_after_offset w) (sn_offset w))
             (window_offset (sn_before_offset w) (sn_offset w)) (sp_now snap)
       | None \<Rightarrow> Err no_zone), [])"
| "eval_condition lib ev snap (CAll cs) = combine True (map (eval_condition lib ev snap) cs)"
| "eval_condition lib ev snap (CAny cs) = combine False (map (eval_condition lib ev snap) cs)"
| "eval_condition lib ev snap (CNot c) =
     (case eval_condition lib ev snap c of (r, reads) \<Rightarrow> (and_then r (\<lambda>b. Ok (\<not> b)), reads))"

fun eval_wait :: "libraries \<Rightarrow> evaluator \<Rightarrow> snapshot \<Rightarrow> wait_until \<Rightarrow> bool outcome" where
  "eval_wait lib ev snap (WState c _) = state_holds (lib_time lib) c snap"
| "eval_wait lib ev snap (WExpr e _) = eval_boolean lib ev e snap"

end
