(* ===== verification/Flow.thy ===== *)
theory Flow
  imports Eval "HOL-Library.Product_Lexorder"
begin

text \<open>
  The flow engine's documents (\<open>crates/irori-flow-types/src/lib.rs\<close>): nodes joined by wires,
  the ports they leave by, how a call's settings are worked out, and the checks the types make
  on their own.
\<close>

section \<open>Ports and wires\<close>

datatype port = Out | Yes | No | Error | Matched | Timeout | Case nat | Else

fun port_key :: "port \<Rightarrow> nat \<times> nat" where
  "port_key Out = (0, 0)"
| "port_key Yes = (1, 0)"
| "port_key No = (2, 0)"
| "port_key Error = (3, 0)"
| "port_key Matched = (4, 0)"
| "port_key Timeout = (5, 0)"
| "port_key (Case n) = (6, n)"
| "port_key Else = (7, 0)"

lemma port_key_inj: "port_key p = port_key q \<longleftrightarrow> p = q"
  by (cases p; cases q) simp_all

instantiation port :: linorder
begin

definition less_eq_port :: "port \<Rightarrow> port \<Rightarrow> bool" where
  "less_eq_port p q = (port_key p \<le> port_key q)"

definition less_port :: "port \<Rightarrow> port \<Rightarrow> bool" where
  "less_port p q = (port_key p < port_key q)"

instance
proof
  fix x y z :: port
  show "(x < y) = (x \<le> y \<and> \<not> y \<le> x)" by (simp add: less_port_def less_eq_port_def less_le_not_le)
  show "x \<le> x" by (simp add: less_eq_port_def)
  show "x \<le> y \<Longrightarrow> y \<le> z \<Longrightarrow> x \<le> z" by (simp add: less_eq_port_def)
  show "x \<le> y \<Longrightarrow> y \<le> x \<Longrightarrow> x = y" by (simp add: less_eq_port_def port_key_inj [symmetric])
  show "x \<le> y \<or> y \<le> x" by (simp add: less_eq_port_def linear)
qed

end

datatype port_ref = PortRef (pr_node: string) (pr_port: port)

fun port_ref_key :: "port_ref \<Rightarrow> string \<times> port" where
  "port_ref_key (PortRef n p) = (n, p)"

lemma port_ref_key_inj: "port_ref_key p = port_ref_key q \<longleftrightarrow> p = q"
  by (cases p; cases q) simp

instantiation port_ref :: linorder
begin

definition less_eq_port_ref :: "port_ref \<Rightarrow> port_ref \<Rightarrow> bool" where
  "less_eq_port_ref p q = (port_ref_key p \<le> port_ref_key q)"

definition less_port_ref :: "port_ref \<Rightarrow> port_ref \<Rightarrow> bool" where
  "less_port_ref p q = (port_ref_key p < port_ref_key q)"

instance
proof
  fix x y z :: port_ref
  show "(x < y) = (x \<le> y \<and> \<not> y \<le> x)" by (simp add: less_port_ref_def less_eq_port_ref_def less_le_not_le)
  show "x \<le> x" by (simp add: less_eq_port_ref_def)
  show "x \<le> y \<Longrightarrow> y \<le> z \<Longrightarrow> x \<le> z" by (simp add: less_eq_port_ref_def)
  show "x \<le> y \<Longrightarrow> y \<le> x \<Longrightarrow> x = y" by (simp add: less_eq_port_ref_def port_ref_key_inj [symmetric])
  show "x \<le> y \<or> y \<le> x" by (simp add: less_eq_port_ref_def linear)
qed

end

datatype wire = Wire (w_from: port_ref) (w_to: string)

fun wire_key :: "wire \<Rightarrow> port_ref \<times> string" where
  "wire_key (Wire f t) = (f, t)"

lemma wire_key_inj: "wire_key p = wire_key q \<longleftrightarrow> p = q"
  by (cases p; cases q) simp

instantiation wire :: linorder
begin

definition less_eq_wire :: "wire \<Rightarrow> wire \<Rightarrow> bool" where
  "less_eq_wire p q = (wire_key p \<le> wire_key q)"

definition less_wire :: "wire \<Rightarrow> wire \<Rightarrow> bool" where
  "less_wire p q = (wire_key p < wire_key q)"

instance
proof
  fix x y z :: wire
  show "(x < y) = (x \<le> y \<and> \<not> y \<le> x)" by (simp add: less_wire_def less_eq_wire_def less_le_not_le)
  show "x \<le> x" by (simp add: less_eq_wire_def)
  show "x \<le> y \<Longrightarrow> y \<le> z \<Longrightarrow> x \<le> z" by (simp add: less_eq_wire_def)
  show "x \<le> y \<Longrightarrow> y \<le> x \<Longrightarrow> x = y" by (simp add: less_eq_wire_def wire_key_inj [symmetric])
  show "x \<le> y \<or> y \<le> x" by (simp add: less_eq_wire_def linear)
qed

end

section \<open>Ports and wires as text\<close>

fun port_text :: "port \<Rightarrow> string" where
  "port_text Out = ''out''"
| "port_text Yes = ''yes''"
| "port_text No = ''no''"
| "port_text Error = ''error''"
| "port_text Matched = ''matched''"
| "port_text Timeout = ''timeout''"
| "port_text (Case n) = ''case_'' @ show_nat n"
| "port_text Else = ''else''"

definition port_parse :: "string \<Rightarrow> port res" where
  "port_parse t =
     (if t = ''out'' then Ok Out
      else if t = ''yes'' then Ok Yes
      else if t = ''no'' then Ok No
      else if t = ''error'' then Ok Error
      else if t = ''matched'' then Ok Matched
      else if t = ''timeout'' then Ok Timeout
      else if t = ''else'' then Ok Else
      else (case Option.bind (strip_prefix ''case_'' t) (parse_uint 255) of
          Some n \<Rightarrow> if 1 \<le> n then Ok (Case n) else Err (Msg ''`{}` isn't a port'' [plain t])
        | None \<Rightarrow> Err (Msg ''`{}` isn't a port'' [plain t])))"

definition port_ref_text :: "port_ref \<Rightarrow> string" where
  "port_ref_text p = (if pr_port p = Out then pr_node p else pr_node p @ '':'' @ port_text (pr_port p))"

definition node_id_parse :: "string \<Rightarrow> string res" where
  "node_id_parse t = and_then (check_slug ''object id'' t) (\<lambda>_. Ok t)"

definition port_ref_parse :: "string \<Rightarrow> port_ref res" where
  "port_ref_parse t =
     and_then
       (case split_once CHR '':'' t of
          Some (node, port) \<Rightarrow> and_then (port_parse port) (\<lambda>p. Ok (node, p))
        | None \<Rightarrow> Ok (t, Out))
       (\<lambda>(node, p). and_then (node_id_parse node) (\<lambda>n. Ok (PortRef n p)))"

definition wire_text :: "wire \<Rightarrow> string \<times> string" where
  "wire_text w = (port_ref_text (w_from w), w_to w)"

definition wire_parse :: "string \<times> string \<Rightarrow> wire res" where
  "wire_parse ft =
     and_then (port_ref_parse (fst ft)) (\<lambda>f. and_then (node_id_parse (snd ft)) (\<lambda>t. Ok (Wire f t)))"

section \<open>Nodes and flows\<close>

datatype amount = Worked expr_string | Fixed json

type_synonym flow_call_data = "(string, amount) omap"

datatype join_mode = JoinAll | JoinFirst

datatype node =
    NTrigger trigger
  | NGate condition
  | NSwitch "condition list"
  | NCall rule_service string "flow_call_data option"
  | NSet string expr_string
  | NDelay compact_duration
  | NWait wait_until compact_duration
  | NJoin join_mode "compact_duration option"
  | NStop "string option"

record flow =
  fl_id :: string
  fl_name :: string
  fl_description :: "string option"
  fl_owner :: "string option"
  fl_enabled :: bool
  fl_mode :: mode
  fl_nodes :: "(string, node) omap"
  fl_wires :: "wire list"
  fl_layout :: "(string, f64 \<times> f64) omap"
  fl_groups :: "(string, string) omap"

definition max_nodes :: nat where "max_nodes = 128"
definition max_wires :: nat where "max_wires = 512"
definition max_cases :: nat where "max_cases = 16"

definition wires_from :: "flow \<Rightarrow> string \<Rightarrow> port \<Rightarrow> wire list" where
  "wires_from f node p = filter (\<lambda>w. pr_node (w_from w) = node \<and> pr_port (w_from w) = p) (fl_wires f)"

definition wires_into :: "flow \<Rightarrow> string \<Rightarrow> wire list" where
  "wires_into f node = filter (\<lambda>w. w_to w = node) (fl_wires f)"

text \<open>The output ports of a node; a case number that does not fit a \<open>u8\<close> is left out.\<close>

fun node_ports :: "node \<Rightarrow> port list" where
  "node_ports (NTrigger _) = [Out]"
| "node_ports (NSet _ _) = [Out]"
| "node_ports (NDelay _) = [Out]"
| "node_ports (NGate _) = [Yes, No]"
| "node_ports (NSwitch cases) = map Case (filter (\<lambda>n. n \<le> 255) [1..<Suc (length cases)]) @ [Else]"
| "node_ports (NCall _ _ _) = [Out, Error]"
| "node_ports (NWait _ _) = [Matched, Timeout]"
| "node_ports (NJoin JoinAll _) = [Out, Timeout]"
| "node_ports (NJoin JoinFirst _) = [Out]"
| "node_ports (NStop _) = []"

fun is_trigger :: "node \<Rightarrow> bool" where
  "is_trigger (NTrigger _) = True"
| "is_trigger _ = False"

definition is_exclusive :: "node \<Rightarrow> bool" where
  "is_exclusive n = (\<not> is_trigger n)"

subsection \<open>A call's settings\<close>

definition data_exprs :: "flow_call_data \<Rightarrow> (string \<times> expr_string) list" where
  "data_exprs d = concat (map (\<lambda>(f, a). case a of Worked e \<Rightarrow> [(f, e)] | Fixed _ \<Rightarrow> []) d)"

text \<open>\<open>number\<close>: whole when it is, so that a field that takes whole numbers reads it.\<close>

fun number_json :: "f64 \<Rightarrow> json" where
  "number_json (Fin r) = (if r = of_int \<lfloor>r\<rfloor> \<and> \<bar>r\<bar> < 1000000000000000 then JInt \<lfloor>r\<rfloor> else JFloat r)"
| "number_json _ = JNull"

definition bring_in :: "f64 \<Rightarrow> number_field option \<Rightarrow> f64" where
  "bring_in value field =
     (case field of
        None \<Rightarrow> value
      | Some f \<Rightarrow>
          let v = (if nf_integer f then f64_round_whole value else value);
              v = (case nf_min f of None \<Rightarrow> v | Some mn \<Rightarrow> f64_max v mn)
          in (case nf_max f of None \<Rightarrow> v | Some mx \<Rightarrow> f64_min v mx))"

fun f64_mul :: "f64 \<Rightarrow> rat \<Rightarrow> f64" where
  "f64_mul (Fin a) b = Fin (f64_nearest (a * b))"
| "f64_mul PosInf b = (if b = 0 then NaN else if b < 0 then NegInf else PosInf)"
| "f64_mul NegInf b = (if b = 0 then NaN else if b < 0 then PosInf else NegInf)"
| "f64_mul NaN b = NaN"

definition stand_in :: "number_field option \<Rightarrow> rat \<Rightarrow> json" where
  "stand_in field along =
     (let (mn, mx) = (case field of None \<Rightarrow> (None, None) | Some f \<Rightarrow> (nf_min f, nf_max f));
          plus_two = (\<lambda>e. f64_add e (Fin (f64_nearest (along * 2))));
          value = (case (mn, mx) of
              (Some a, Some b) \<Rightarrow>
                if f64_lt a b then f64_add a (f64_mul (f64_sub b a) along) else plus_two a
            | (Some a, None) \<Rightarrow> plus_two a
            | (None, Some b) \<Rightarrow> plus_two b
            | (None, None) \<Rightarrow> plus_two (Fin 1))
      in number_json (bring_in value field))"

definition data_shape :: "service_table \<Rightarrow> rule_service \<Rightarrow> flow_call_data \<Rightarrow> rat \<Rightarrow> call_data" where
  "data_shape sv service d along =
     map (\<lambda>(f, a). (f, case a of Fixed v \<Rightarrow> v | Worked _ \<Rightarrow> stand_in (sv_number_field sv service f) along)) d"

definition data_shapes :: "service_table \<Rightarrow> rule_service \<Rightarrow> flow_call_data \<Rightarrow> call_data list" where
  "data_shapes sv service d = map (data_shape sv service d) [0, 1/2, 1]"

text \<open>\<open>resolve\<close>: \<open>eval\<close> works an expression out to a number, noting reads; the notes say what each
  came to. \<open>kept == value\<close> is IEEE equality.\<close>

fun resolve_from :: "service_table \<Rightarrow> rule_service \<Rightarrow> (expr_string \<Rightarrow> f64 outcome) \<Rightarrow> flow_call_data
    \<Rightarrow> (call_data \<times> msg list) outcome" where
  "resolve_from sv service ev [] = (Ok ([], []), [])"
| "resolve_from sv service ev ((field, a) # d) =
     (case a of
        Fixed v \<Rightarrow>
          (case resolve_from sv service ev d of (r, reads) \<Rightarrow>
             (and_then r (\<lambda>(cd, notes). Ok ((field, v) # cd, notes)), reads))
      | Worked e \<Rightarrow>
          (case ev e of
             (Inl m, reads) \<Rightarrow> (Err (Msg ''{}: {}'' [plain field, m]), reads)
           | (Inr value, reads) \<Rightarrow>
               if \<not> f64_is_finite value then (Err (Msg ''{}: `{}` isn't a number'' [plain field, plain e]), reads)
               else
                 let kept = bring_in value (sv_number_field sv service field);
                     note = (if f64_eq kept value then Msg ''{} {}'' [plain field, f64_msg kept]
                             else Msg ''{} {} -> {}'' [plain field, f64_msg value, f64_msg kept])
                 in (case resolve_from sv service ev d of (r, reads') \<Rightarrow>
                       (and_then r (\<lambda>(cd, notes). Ok ((field, number_json kept) # cd, note # notes)),
                        reads @ reads'))))"

subsection \<open>The types' own checks\<close>

fun node_validate :: "service_table \<Rightarrow> node \<Rightarrow> unit res" where
  "node_validate sv (NTrigger t) = trigger_validate t"
| "node_validate sv (NGate c) = condition_validate 0 c"
| "node_validate sv (NSwitch cases) =
     (if cases = [] \<or> max_cases < length cases then
        Err (Msg ''a switch has 1 to {} cases'' [MInt (int max_cases)])
      else check_each (condition_validate 0) cases)"
| "node_validate sv (NCall service entity data) =
     and_then (require (\<not> (data \<noteq> None \<and> \<not> sv_takes_data sv service))
       (Msg ''{} does not take data'' [plain (rule_service_text service)])) (\<lambda>_.
     and_then
       (check_each (\<lambda>(field, e).
          and_then
            (case expr_validate e of Inl m \<Rightarrow> Err (Msg ''{}: {}'' [plain field, m]) | Inr u \<Rightarrow> Ok u)
            (\<lambda>_. require (sv_number_field sv service field \<noteq> None)
                   (Msg ''{} can't be worked out: {} has no number called that''
                     [plain field, plain (rule_service_text service)])))
         (case data of None \<Rightarrow> [] | Some d \<Rightarrow> data_exprs d)) (\<lambda>_.
     (case data of
        Some d \<Rightarrow> sv_validate_data sv service (Some (data_shape sv service d (1/2)))
      | None \<Rightarrow> sv_validate_data sv service None)))"
| "node_validate sv (NSet _ e) = expr_validate e"
| "node_validate sv (NDelay h) = require_positive h ''for''"
| "node_validate sv (NWait u t) =
     and_then (wait_until_validate u) (\<lambda>_. require_positive t ''timeout'')"
| "node_validate sv (NJoin m t) =
     and_then (check_opt t (\<lambda>d. require_positive d ''timeout'')) (\<lambda>_.
     require (\<not> (m = JoinAll \<and> t = None)) (plain ''a join that waits for all needs a timeout''))"
| "node_validate sv (NStop r) = check_opt r reason_validate"

definition flow_validate :: "service_table \<Rightarrow> flow \<Rightarrow> unit res" where
  "flow_validate sv f =
     and_then (require (fl_nodes f \<noteq> []) (plain ''a flow needs at least one node'')) (\<lambda>_.
     and_then (require (length (fl_nodes f) \<le> max_nodes)
       (Msg ''a flow has at most {} nodes'' [MInt (int max_nodes)])) (\<lambda>_.
     and_then (require (length (fl_wires f) \<le> max_wires)
       (Msg ''a flow has at most {} wires'' [MInt (int max_wires)])) (\<lambda>_.
     and_then (mode_validate (fl_mode f)) (\<lambda>_.
     and_then
       (check_each (\<lambda>(i, n). case node_validate sv n of
            Inl m \<Rightarrow> Err (Msg ''nodes/{}: {}'' [plain i, m]) | Inr u \<Rightarrow> Ok u) (fl_nodes f)) (\<lambda>_.
     check_each (\<lambda>(i, x, y). require (f64_is_finite x \<and> f64_is_finite y)
       (Msg ''layout/{}: positions must be finite numbers'' [plain i])) (fl_layout f))))))"

section \<open>Round trips\<close>

lemma port_parse_text [simp]:
  "(\<And>n. p = Case n \<Longrightarrow> 1 \<le> n \<and> n \<le> 255) \<Longrightarrow> port_parse (port_text p) = Ok p"
proof (cases p)
  case (Case n)
  assume "\<And>n. p = Case n \<Longrightarrow> 1 \<le> n \<and> n \<le> 255"
  with Case have n: "1 \<le> n" "n \<le> 255" by simp_all
  have "strip_prefix ''case_'' (''case_'' @ show_nat n) = Some (show_nat n)"
    by (rule strip_prefix_append)
  then show ?thesis
    using n Case parse_uint_show_nat[of n 255] by (simp add: port_parse_def)
qed (simp_all add: port_parse_def)

lemma slug_no_colon: "check_slug what s = Ok () \<Longrightarrow> CHR '':'' \<notin> set s"
proof
  assume "check_slug what s = Ok ()" "CHR '':'' \<in> set s"
  then have "is_lower CHR '':'' \<or> is_digit CHR '':''"
    by (auto simp: check_slug_def list_all_iff split: if_splits)
  then show False by (simp add: is_lower_def byte_of_def)
qed

end
