(* ===== verification/Trace.thy ===== *)
theory Trace
  imports Flow
begin

text \<open>
  What a run leaves behind (\<open>crates/irori-flow-types/src/trace.rs\<close>), the words it is told in
  (\<open>words\<close>, \<open>describe\<close> and the notes of \<open>engine.rs\<close>), and what the page is told of a run
  (\<open>api.rs\<close>).  Notes are messages: templates with their arguments.
\<close>

section \<open>Records\<close>

datatype test_kind = Live | Dry

datatype abort_reason = AbDisabled | AbChanged | AbRemoved | AbCancelled | AbShutdown

datatype run_outcome =
    Completed
  | ErrorAt string msg
  | Stopped string "string option"
  | Superseded
  | Aborted abort_reason

record ending =
  en_node :: string
  en_port :: "port option"

record call_detail =
  cd_service :: string
  cd_entity :: string
  cd_data :: "json option"
  cd_result :: "unit res option"
  cd_simulated :: bool

record run_step =
  rs_seq :: nat
  rs_node :: string
  rs_token :: nat
  rs_via :: "wire option"
  rs_at :: int
  rs_finished_at :: "int option"
  rs_port :: "port option"
  rs_reads :: "read list"
  rs_note :: "msg option"
  rs_call :: "call_detail option"

record run_record =
  rr_run_id :: string
  rr_flow_id :: string
  rr_version :: string
  rr_trigger :: string
  rr_cause :: "string option"
  rr_test :: "test_kind option"
  rr_started_by :: "string option"
  rr_started_at :: int
  rr_finished_at :: "int option"
  rr_outcome :: "run_outcome option"
  rr_ended_at :: "ending list"
  rr_steps :: "run_step list"
  rr_assumptions :: "msg list"

datatype near_miss_kind = Dropped | HoldReset | NmUnavailable | SameValue

record near_miss =
  nm_at :: int
  nm_flow_id :: string
  nm_version :: string
  nm_node :: string
  nm_kind :: near_miss_kind
  nm_message :: msg
  nm_reads :: "read list"

section \<open>Problems\<close>

datatype severity = Warning | SevError

record problem =
  pb_severity :: severity
  pb_node :: "string option"
  pb_wire :: "nat option"
  pb_field :: "string option"
  pb_message :: msg

definition is_error :: "problem \<Rightarrow> bool" where
  "is_error p = (pb_severity p = SevError)"

datatype armed_state = Armed | Disabled | Unarmed msg

section \<open>Words\<close>

fun json_msg :: "json \<Rightarrow> msg" where
  "json_msg JNull = plain ''null''"
| "json_msg (JBool b) = plain (if b then ''true'' else ''false'')"
| "json_msg (JInt i) = MInt i"
| "json_msg (JFloat r) = f64_msg (Fin r)"
| "json_msg (JStr s) = Msg ''{:?}'' [plain s]"
| "json_msg (JArr js) = Msg ''[{}]'' (map json_msg js)"
| "json_msg (JObj kvs) = Msg ''{{}}'' (map (\<lambda>(k, v). Msg ''{:?}:{}'' [plain k, json_msg v]) kvs)"

fun words :: "json \<Rightarrow> msg" where
  "words (JBool b) = plain (if b then ''on'' else ''off'')"
| "words JNull = plain ''unknown''"
| "words (JStr t) = Msg ''\"{}\"'' [plain t]"
| "words (JInt i) = (case json_as_f64 (JInt i) of Some n \<Rightarrow> f64_msg n | None \<Rightarrow> MInt i)"
| "words (JFloat r) = f64_msg (Fin r)"
| "words (JArr js) = json_msg (JArr js)"
| "words (JObj kvs) = json_msg (JObj kvs)"

fun typed_words :: "typed_value \<Rightarrow> msg" where
  "typed_words (VBool b) = plain (if b then ''on'' else ''off'')"
| "typed_words (VNumber n) = f64_msg n"
| "typed_words (VText t) = Msg ''\"{}\"'' [plain t]"
| "typed_words VNull = plain ''unknown''"

definition yes_no :: "bool \<Rightarrow> msg" where
  "yes_no b = plain (if b then ''yes'' else ''no'')"

text \<open>\<open>join(sep)\<close>.\<close>

definition join_msgs :: "string \<Rightarrow> msg list \<Rightarrow> msg" where
  "join_msgs sep ms = Msg sep ms"

fun weekday_word :: "weekday \<Rightarrow> string" where
  "weekday_word Mon = ''mon''"
| "weekday_word Tue = ''tue''"
| "weekday_word Wed = ''wed''"
| "weekday_word Thu = ''thu''"
| "weekday_word Fri = ''fri''"
| "weekday_word Sat = ''sat''"
| "weekday_word Sun = ''sun''"

fun availability_word :: "availability_wanted \<Rightarrow> string" where
  "availability_word WantAvailable = ''available''"
| "availability_word WantUnavailable = ''unavailable''"

definition describe_state :: "state_check \<Rightarrow> msg" where
  "describe_state c =
     (case (sk_is c, sk_availability c) of
        (Some v, _) \<Rightarrow>
          (case sk_field c of
             Some f \<Rightarrow> Msg ''{}'s {} is {}'' [plain (sk_entity c), plain f, typed_words v]
           | None \<Rightarrow> Msg ''{} is {}'' [plain (sk_entity c), typed_words v])
      | (None, Some a) \<Rightarrow> Msg ''{} is {}'' [plain (sk_entity c), plain (availability_word a)]
      | (None, None) \<Rightarrow> plain (sk_entity c))"

definition describe_time :: "civil_time option \<Rightarrow> civil_time option \<Rightarrow> weekday list option \<Rightarrow> msg" where
  "describe_time aft bef wd =
     (let hrs = (case (aft, bef) of
          (Some a, Some b) \<Rightarrow> Msg ''between {} and {}'' [plain a, plain b]
        | (Some a, None) \<Rightarrow> Msg ''after {}'' [plain a]
        | (None, Some b) \<Rightarrow> Msg ''before {}'' [plain b]
        | (None, None) \<Rightarrow> plain ''any time'')
      in (case wd of
            Some ds \<Rightarrow> Msg ''{} on {}'' [hrs, join_msgs '', '' (map (\<lambda>d. plain (weekday_word d)) ds)]
          | None \<Rightarrow> hrs))"

definition describe_sun :: "sun_window \<Rightarrow> msg" where
  "describe_sun w =
     (let end_of = (\<lambda>e own. case or_else own (sn_offset w) of
            Some moved \<Rightarrow> Msg ''{} {}'' [plain (sun_word e), plain moved]
          | None \<Rightarrow> plain (sun_word e))
      in (case (sn_after w, sn_before w) of
            (Some a, Some b) \<Rightarrow>
              Msg ''between {} and {}'' [end_of a (sn_after_offset w), end_of b (sn_before_offset w)]
          | (Some a, None) \<Rightarrow> Msg ''after {}'' [end_of a (sn_after_offset w)]
          | (None, Some b) \<Rightarrow> Msg ''before {}'' [end_of b (sn_before_offset w)]
          | (None, None) \<Rightarrow> plain ''any time''))"

fun describe :: "condition \<Rightarrow> msg" where
  "describe (CState c) = describe_state c"
| "describe (CExpr e) = plain e"
| "describe (CTime aft bef wd) = describe_time aft bef wd"
| "describe (CSun w) = describe_sun w"
| "describe (CAll cs) = join_msgs '' and '' (map describe cs)"
| "describe (CAny cs) = join_msgs '' or '' (map describe cs)"
| "describe (CNot c) = Msg ''not ({})'' [describe c]"

fun describe_wait :: "wait_until \<Rightarrow> msg" where
  "describe_wait (WState c hold) =
     (let who = (case sk_field c of
            Some f \<Rightarrow> Msg ''{}'s {}'' [plain (sk_entity c), plain f] | None \<Rightarrow> plain (sk_entity c));
          what = (case sk_is c of Some v \<Rightarrow> typed_words v | None \<Rightarrow> plain ''available'')
      in (case hold of
            Some h \<Rightarrow> Msg ''{} is {} for {}'' [who, what, plain h]
          | None \<Rightarrow> Msg ''{} is {}'' [who, what]))"
| "describe_wait (WExpr e hold) =
     (case hold of Some h \<Rightarrow> Msg ''{} for {}'' [plain e, plain h] | None \<Rightarrow> plain e)"

text \<open>\<open>clock::wall\<close> and \<open>clock_note\<close>.\<close>

definition wall :: "time_library \<Rightarrow> place \<Rightarrow> int \<Rightarrow> msg" where
  "wall tz p ts = plain (pad 2 (dt_hour (civil tz p ts)) @ '':'' @ pad 2 (dt_minute (civil tz p ts)))"

fun day_word :: "weekday \<Rightarrow> string" where
  "day_word Mon = ''Monday''"
| "day_word Tue = ''Tuesday''"
| "day_word Wed = ''Wednesday''"
| "day_word Thu = ''Thursday''"
| "day_word Fri = ''Friday''"
| "day_word Sat = ''Saturday''"
| "day_word Sun = ''Sunday''"

definition clock_note :: "time_library \<Rightarrow> place \<Rightarrow> trigger \<Rightarrow> int \<Rightarrow> msg" where
  "clock_note tz p t now =
     (case t of
        TrSun event offset \<Rightarrow>
          (case offset of
             Some d \<Rightarrow>
               if dur_millis d < 0 then
                 Msg ''{} before {} ({})'' [plain (dropWhile (\<lambda>c. c = CHR ''-'') d), plain (sun_word event), wall tz p now]
               else if 0 < dur_millis d then
                 Msg ''{} after {} ({})'' [plain (dropWhile (\<lambda>c. c = CHR ''+'') d), plain (sun_word event), wall tz p now]
               else Msg ''{} ({})'' [plain (sun_word event), wall tz p now]
           | None \<Rightarrow> Msg ''{} ({})'' [plain (sun_word event), wall tz p now])
      | _ \<Rightarrow> Msg ''it's {} on {}''
               [wall tz p now, plain (day_word (tl_weekday tz (dt_date (civil tz p now))))])"

section \<open>A run as the page is told it\<close>

record run_summary =
  su_run_id :: string
  su_version :: string
  su_trigger :: string
  su_started_at :: int
  su_finished_at :: "int option"
  su_outcome :: string
  su_summary :: msg
  su_test :: "test_kind option"

fun abort_word :: "abort_reason \<Rightarrow> string" where
  "abort_word AbDisabled = ''disabled''"
| "abort_word AbChanged = ''changed''"
| "abort_word AbRemoved = ''removed''"
| "abort_word AbCancelled = ''cancelled''"
| "abort_word AbShutdown = ''shutdown''"

fun outcome_word :: "run_outcome option \<Rightarrow> string" where
  "outcome_word None = ''running''"
| "outcome_word (Some Completed) = ''completed''"
| "outcome_word (Some (ErrorAt _ _)) = ''error''"
| "outcome_word (Some (Stopped _ _)) = ''stopped''"
| "outcome_word (Some Superseded) = ''superseded''"
| "outcome_word (Some (Aborted _)) = ''aborted''"

definition run_summary_of :: "run_record \<Rightarrow> run_summary" where
  "run_summary_of r =
     (let ends = map (\<lambda>e. case en_port e of
            Some p \<Rightarrow> Msg ''{} -> {}'' [plain (en_node e), plain (port_text p)]
          | None \<Rightarrow> plain (en_node e)) (rr_ended_at r);
          ended = (if ends = [] then plain [] else Msg ''ended at {}'' [join_msgs '', '' ends]);
          text = (case rr_outcome r of
              Some (ErrorAt n m) \<Rightarrow> Msg ''failed at {}: {}'' [plain n, m]
            | Some (Stopped n _) \<Rightarrow> Msg ''stopped at {}'' [plain n]
            | Some Superseded \<Rightarrow> plain ''started over by a new firing''
            | Some (Aborted a) \<Rightarrow> Msg ''aborted: {}'' [plain (abort_word a)]
            | Some Completed \<Rightarrow> ended
            | None \<Rightarrow> ended)
      in \<lparr>su_run_id = rr_run_id r, su_version = rr_version r, su_trigger = rr_trigger r,
          su_started_at = rr_started_at r, su_finished_at = rr_finished_at r,
          su_outcome = outcome_word (rr_outcome r), su_summary = text, su_test = rr_test r\<rparr>)"

end
