(* ===== verification/Capabilities.thy ===== *)
theory Capabilities
  imports StateRules
begin

text \<open>
  What an entity can do and say, by kind (\<open>Capabilities\<close> of \<open>crates/irori-types/src/registry.rs\<close>
  and the kinds' files): the limits its device reports, the shape of its main value, the texts
  that value can be, its other values (\<open>fields\<close>) and whether a reported state is one it can be
  in (\<open>fits\<close>).  Device classes, units and the like, which nothing here branches on, are texts.
\<close>

section \<open>Capabilities, by kind\<close>

record color_temp_range =
  ctr_min :: nat
  ctr_max :: nat

record light_caps =
  lc_brightness :: bool
  lc_color_temp :: "color_temp_range option"
  lc_rgb :: bool

datatype sensor_value_type = SensorIsNumber | SensorIsText

record sensor_caps =
  sc_value_type :: sensor_value_type
  sc_device_class :: "string option"
  sc_unit :: "string option"
  sc_state_class :: "string option"
  sc_options :: "string list"

record number_caps =
  nc_min :: f64
  nc_max :: f64
  nc_step :: f64
  nc_unit :: "string option"
  nc_device_class :: "string option"
  nc_mode :: string

record text_caps =
  tc_min_length :: nat
  tc_max_length :: nat
  tc_pattern :: "string option"
  tc_password :: bool

record event_caps =
  ec_event_types :: "string list"
  ec_device_class :: "string option"

record cover_caps =
  cc_device_class :: "string option"
  cc_position :: bool
  cc_tilt :: bool
  cc_stop :: bool

record valve_caps =
  vc_device_class :: "string option"
  vc_position :: bool
  vc_stop :: bool

record opening_abilities =
  oa_position :: bool
  oa_stop :: bool

record lock_caps =
  kc_open :: bool
  kc_requires_code :: bool
  kc_code_format :: "string option"

record fan_caps =
  fc_speed_count :: nat
  fc_oscillate :: bool
  fc_direction :: bool
  fc_preset_modes :: "string list"

record siren_caps =
  rc_tones :: "string list"
  rc_volume :: bool
  rc_duration :: bool

record humidity_range =
  hr_min :: f64
  hr_max :: f64

record climate_caps =
  mc_hvac_modes :: "hvac_mode list"
  mc_min_temp :: f64
  mc_max_temp :: f64
  mc_temp_step :: f64
  mc_target_temperature :: bool
  mc_target_temperature_range :: bool
  mc_target_humidity :: "humidity_range option"
  mc_fan_modes :: "string list"
  mc_swing_modes :: "string list"
  mc_preset_modes :: "string list"

record water_heater_caps =
  wc_operation_modes :: "water_heater_mode list"
  wc_min_temp :: f64
  wc_max_temp :: f64
  wc_temp_step :: f64
  wc_target_temperature :: bool
  wc_on_off :: bool

record humidifier_caps =
  hc_device_class :: "string option"
  hc_humidity :: humidity_range
  hc_modes :: "string list"

record media_player_caps =
  pc_device_class :: "string option"
  pc_volume :: bool
  pc_mute :: bool
  pc_seek :: bool
  pc_play_media :: bool
  pc_queue :: bool
  pc_turn_on :: bool
  pc_turn_off :: bool

record update_caps =
  uc_device_class :: "string option"
  uc_install :: bool
  uc_check :: bool

datatype arm_mode = ArmHome | ArmAway | ArmNight | ArmVacation | ArmCustomBypass

datatype code_format = CodeNumber | CodeText

record alarm_caps =
  ac_arm_modes :: "arm_mode list"
  ac_trigger :: bool
  ac_code_format :: "code_format option"
  ac_code_arm_required :: bool
  ac_code_disarm_required :: bool

record vacuum_caps =
  uv_start :: bool
  uv_pause :: bool
  uv_stop :: bool
  uv_return_home :: bool
  uv_locate :: bool
  uv_clean_spot :: bool
  uv_fan_speeds :: "string list"

record lawn_mower_caps =
  lw_start_mowing :: bool
  lw_pause :: bool
  lw_dock :: bool

datatype tracker_source = Gps | Router | Bluetooth | BluetoothLe

record camera_caps =
  ka_on_off :: bool
  ka_motion_detection :: bool

text \<open>A select's options; a switch's, a binary sensor's and a button's class; the kinds with
  nothing to say carry no argument.\<close>

datatype capabilities =
    C_Light light_caps
  | C_Switch "string option"
  | C_Sensor sensor_caps
  | C_BinarySensor "string option"
  | C_Number number_caps
  | C_Select "string list"
  | C_Text text_caps
  | C_Button "string option"
  | C_Event event_caps
  | C_Cover cover_caps
  | C_Lock lock_caps
  | C_Fan fan_caps
  | C_Valve valve_caps
  | C_Siren siren_caps
  | C_Climate climate_caps
  | C_WaterHeater water_heater_caps
  | C_Humidifier humidifier_caps
  | C_MediaPlayer media_player_caps
  | C_Update update_caps
  | C_AlarmControlPanel alarm_caps
  | C_Date
  | C_Time
  | C_Datetime
  | C_Vacuum vacuum_caps
  | C_LawnMower lawn_mower_caps
  | C_Scene
  | C_DeviceTracker "tracker_source option"
  | C_Timer
  | C_Schedule
  | C_Camera camera_caps

fun caps_kind :: "capabilities \<Rightarrow> entity_kind" where
  "caps_kind (C_Light _) = K_Light"
| "caps_kind (C_Switch _) = K_Switch"
| "caps_kind (C_Sensor _) = K_Sensor"
| "caps_kind (C_BinarySensor _) = K_BinarySensor"
| "caps_kind (C_Number _) = K_Number"
| "caps_kind (C_Select _) = K_Select"
| "caps_kind (C_Text _) = K_Text"
| "caps_kind (C_Button _) = K_Button"
| "caps_kind (C_Event _) = K_Event"
| "caps_kind (C_Cover _) = K_Cover"
| "caps_kind (C_Lock _) = K_Lock"
| "caps_kind (C_Fan _) = K_Fan"
| "caps_kind (C_Valve _) = K_Valve"
| "caps_kind (C_Siren _) = K_Siren"
| "caps_kind (C_Climate _) = K_Climate"
| "caps_kind (C_WaterHeater _) = K_WaterHeater"
| "caps_kind (C_Humidifier _) = K_Humidifier"
| "caps_kind (C_MediaPlayer _) = K_MediaPlayer"
| "caps_kind (C_Update _) = K_Update"
| "caps_kind (C_AlarmControlPanel _) = K_AlarmControlPanel"
| "caps_kind C_Date = K_Date"
| "caps_kind C_Time = K_Time"
| "caps_kind C_Datetime = K_Datetime"
| "caps_kind (C_Vacuum _) = K_Vacuum"
| "caps_kind (C_LawnMower _) = K_LawnMower"
| "caps_kind C_Scene = K_Scene"
| "caps_kind (C_DeviceTracker _) = K_DeviceTracker"
| "caps_kind C_Timer = K_Timer"
| "caps_kind C_Schedule = K_Schedule"
| "caps_kind (C_Camera _) = K_Camera"

text \<open>\<open>EntityKind::counts_every_report\<close> and \<open>commands_need_owner\<close>.\<close>

definition counts_every_report :: "entity_kind \<Rightarrow> bool" where
  "counts_every_report k = (k = K_Event)"

definition commands_need_owner :: "entity_kind \<Rightarrow> bool" where
  "commands_need_owner k = (k = K_Update)"

section \<open>The main value\<close>

fun primary_shape :: "capabilities \<Rightarrow> value_shape option" where
  "primary_shape (C_Light _) = Some ShapeBool"
| "primary_shape (C_Switch _) = Some ShapeBool"
| "primary_shape (C_BinarySensor _) = Some ShapeBool"
| "primary_shape (C_Fan _) = Some ShapeBool"
| "primary_shape (C_Siren _) = Some ShapeBool"
| "primary_shape (C_Humidifier _) = Some ShapeBool"
| "primary_shape (C_Update _) = Some ShapeBool"
| "primary_shape (C_DeviceTracker _) = Some ShapeBool"
| "primary_shape C_Schedule = Some ShapeBool"
| "primary_shape (C_Number _) = Some ShapeNumber"
| "primary_shape (C_Sensor s) =
     Some (case sc_value_type s of SensorIsNumber \<Rightarrow> ShapeNumber | SensorIsText \<Rightarrow> ShapeText)"
| "primary_shape (C_Button _) = None"
| "primary_shape C_Scene = None"
| "primary_shape _ = Some ShapeText"

definition open_states :: "string list" where
  "open_states = map open_state_str [OS_Open, OS_Opening, OS_Closed, OS_Closing]"

definition lock_states :: "string list" where
  "lock_states = map lock_status_str
     [LS_Locked, LS_Unlocked, LS_Locking, LS_Unlocking, LS_Jammed, LS_Open, LS_Opening]"

definition climate_modes :: "string list" where
  "climate_modes = map hvac_mode_str
     [HM_Off, HM_Heat, HM_Cool, HM_HeatCool, HM_Auto, HM_Dry, HM_FanOnly]"

definition operation_modes :: "string list" where
  "operation_modes = map water_heater_mode_str
     [WM_Off, WM_Eco, WM_Electric, WM_Gas, WM_HeatPump, WM_HighDemand, WM_Performance]"

definition playback_states :: "string list" where
  "playback_states = map playback_str
     [PB_Off, PB_Idle, PB_Playing, PB_Paused, PB_Buffering, PB_Standby]"

definition alarm_states :: "string list" where
  "alarm_states = map alarm_status_str
     [AS_Disarmed, AS_ArmedHome, AS_ArmedAway, AS_ArmedNight, AS_ArmedVacation,
      AS_ArmedCustomBypass, AS_Pending, AS_Arming, AS_Disarming, AS_Triggered]"

definition timer_statuses :: "string list" where
  "timer_statuses = map timer_status_str [TS_Idle, TS_Active, TS_Paused]"

definition mower_activities :: "string list" where
  "mower_activities = map mower_activity_str [MA_Mowing, MA_Docked, MA_Paused, MA_Returning, MA_Error]"

definition vacuum_activities :: "string list" where
  "vacuum_activities = map vacuum_activity_str
     [VA_Cleaning, VA_Docked, VA_Idle, VA_Paused, VA_Returning, VA_Error]"

definition camera_states :: "string list" where
  "camera_states = map camera_status_str [CS_Off, CS_Idle, CS_Recording, CS_Streaming]"

text \<open>Every text the main value can be, when that is a fixed list.\<close>

fun text_options :: "capabilities \<Rightarrow> string list option" where
  "text_options (C_Sensor s) = (if sc_options s \<noteq> [] then Some (sc_options s) else None)"
| "text_options (C_Select os) = Some os"
| "text_options (C_Event ev) = Some (ec_event_types ev)"
| "text_options (C_Cover _) = Some open_states"
| "text_options (C_Valve _) = Some open_states"
| "text_options (C_Lock _) = Some lock_states"
| "text_options (C_Climate _) = Some climate_modes"
| "text_options (C_WaterHeater _) = Some operation_modes"
| "text_options (C_MediaPlayer _) = Some playback_states"
| "text_options (C_AlarmControlPanel _) = Some alarm_states"
| "text_options C_Timer = Some timer_statuses"
| "text_options (C_LawnMower _) = Some mower_activities"
| "text_options (C_Vacuum _) = Some vacuum_activities"
| "text_options (C_Camera _) = Some camera_states"
| "text_options _ = None"

section \<open>The other values\<close>

record field =
  fd_name :: string
  fd_shape :: value_shape

definition number_named :: "string \<Rightarrow> field" where
  "number_named n = \<lparr>fd_name = n, fd_shape = ShapeNumber\<rparr>"

definition bool_named :: "string \<Rightarrow> field" where
  "bool_named n = \<lparr>fd_name = n, fd_shape = ShapeBool\<rparr>"

definition text_named :: "string \<Rightarrow> field" where
  "text_named n = \<lparr>fd_name = n, fd_shape = ShapeText\<rparr>"

text \<open>A field pushed only when the entity can have it.\<close>

definition only_if :: "bool \<Rightarrow> 'a list \<Rightarrow> 'a list" where
  "only_if b xs = (if b then xs else [])"

definition light_fields :: "light_caps \<Rightarrow> field list" where
  "light_fields c =
     only_if (lc_brightness c) [number_named ''brightness'']
     @ only_if (lc_color_temp c \<noteq> None) [number_named ''color_temp_kelvin'']
     @ only_if (lc_color_temp c \<noteq> None \<or> lc_rgb c) [text_named ''color_mode'']"

definition fan_fields :: "fan_caps \<Rightarrow> field list" where
  "fan_fields c =
     only_if (0 < fc_speed_count c) [number_named ''percentage'']
     @ only_if (fc_oscillate c) [bool_named ''oscillating'']
     @ only_if (fc_direction c) [text_named ''direction'']
     @ only_if (fc_preset_modes c \<noteq> []) [text_named ''preset_mode'']"

definition cover_fields :: "cover_caps \<Rightarrow> field list" where
  "cover_fields c =
     only_if (cc_position c) [number_named ''position''] @ only_if (cc_tilt c) [number_named ''tilt'']"

definition valve_fields :: "valve_caps \<Rightarrow> field list" where
  "valve_fields c = only_if (vc_position c) [number_named ''position'']"

definition climate_fields :: "climate_caps \<Rightarrow> field list" where
  "climate_fields c =
     [text_named ''hvac_action'', number_named ''current_temperature'', number_named ''current_humidity'']
     @ only_if (mc_target_temperature c) [number_named ''target_temperature'']
     @ only_if (mc_target_temperature_range c)
         [number_named ''target_temp_low'', number_named ''target_temp_high'']
     @ only_if (mc_target_humidity c \<noteq> None) [number_named ''target_humidity'']
     @ only_if (mc_fan_modes c \<noteq> []) [text_named ''fan_mode'']
     @ only_if (mc_swing_modes c \<noteq> []) [text_named ''swing_mode'']
     @ only_if (mc_preset_modes c \<noteq> []) [text_named ''preset_mode'']"

definition humidifier_fields :: "humidifier_caps \<Rightarrow> field list" where
  "humidifier_fields c =
     [number_named ''target_humidity'', number_named ''current_humidity'', text_named ''action'']
     @ only_if (hc_modes c \<noteq> []) [text_named ''mode'']"

definition water_heater_fields :: "water_heater_caps \<Rightarrow> field list" where
  "water_heater_fields c =
     number_named ''current_temperature''
     # only_if (wc_target_temperature c) [number_named ''target_temperature'']"

definition media_player_fields :: "media_player_caps \<Rightarrow> field list" where
  "media_player_fields c =
     only_if (pc_volume c) [number_named ''volume''] @ only_if (pc_mute c) [bool_named ''muted'']
     @ [text_named ''title'', text_named ''artist'', text_named ''album'', text_named ''app'',
        text_named ''content_type'', number_named ''duration'', number_named ''position'']"

definition update_fields :: "field list" where
  "update_fields =
     [text_named ''installed_version'', text_named ''latest_version'', bool_named ''in_progress'',
      number_named ''progress'']"

definition timer_fields :: "field list" where
  "timer_fields = [number_named ''duration'', number_named ''remaining'', text_named ''finishes_at'']"

definition tracker_fields :: "tracker_source option \<Rightarrow> field list" where
  "tracker_fields src =
     (case src of
        Some Router \<Rightarrow> [] | Some Bluetooth \<Rightarrow> [] | Some BluetoothLe \<Rightarrow> []
      | _ \<Rightarrow> [number_named ''latitude'', number_named ''longitude'', number_named ''accuracy''])"

definition schedule_fields :: "field list" where
  "schedule_fields = [text_named ''next_change'']"

definition vacuum_fields :: "vacuum_caps \<Rightarrow> field list" where
  "vacuum_fields c = only_if (uv_fan_speeds c \<noteq> []) [text_named ''fan_speed'']"

definition camera_fields :: "camera_caps \<Rightarrow> field list" where
  "camera_fields c = only_if (ka_motion_detection c) [bool_named ''motion_detection'']"

fun caps_fields :: "capabilities \<Rightarrow> field list" where
  "caps_fields (C_Light c) = light_fields c"
| "caps_fields (C_Fan c) = fan_fields c"
| "caps_fields (C_Cover c) = cover_fields c"
| "caps_fields (C_Valve c) = valve_fields c"
| "caps_fields (C_Climate c) = climate_fields c"
| "caps_fields (C_Humidifier c) = humidifier_fields c"
| "caps_fields (C_WaterHeater c) = water_heater_fields c"
| "caps_fields (C_MediaPlayer c) = media_player_fields c"
| "caps_fields (C_Update _) = update_fields"
| "caps_fields C_Timer = timer_fields"
| "caps_fields (C_DeviceTracker s) = tracker_fields s"
| "caps_fields C_Schedule = schedule_fields"
| "caps_fields (C_Vacuum c) = vacuum_fields c"
| "caps_fields (C_Camera c) = camera_fields c"
| "caps_fields _ = []"

definition field_shape :: "capabilities \<Rightarrow> string \<Rightarrow> value_shape option" where
  "field_shape caps name = map_option fd_shape (find (\<lambda>f. fd_name f = name) (caps_fields caps))"

section \<open>Whether a reported state fits\<close>

text \<open>\<open>join(", ")\<close>, and \<open>map_err\<close> with \<open>format!("it {what}")\<close>.\<close>

fun joined :: "string list \<Rightarrow> string" where
  "joined [] = []"
| "joined [x] = x"
| "joined (x # y # xs) = x @ '', '' @ joined (y # xs)"

definition it_says :: "unit res \<Rightarrow> unit res" where
  "it_says r = (case r of Inl m \<Rightarrow> Err (Msg ''it {}'' [m]) | Inr u \<Rightarrow> Ok u)"

lemma it_says_ok [simp]: "it_says r = Inr u \<longleftrightarrow> r = Inr u"
  by (cases r) (simp_all add: it_says_def)

text \<open>What \<open>light.turn_on\<close> takes, and whether a light can do it.\<close>

record light_turn_on =
  lo_brightness :: "nat option"
  lo_color_temp_kelvin :: "nat option"
  lo_rgb :: "(nat \<times> nat \<times> nat) option"

definition light_supports :: "light_caps \<Rightarrow> light_turn_on \<Rightarrow> unit res" where
  "light_supports c d =
     and_then (require (\<not> (lo_brightness d \<noteq> None \<and> \<not> lc_brightness c)) (plain ''isn't dimmable'')) (\<lambda>_.
     and_then
       (case lo_color_temp_kelvin d of
          None \<Rightarrow> Ok ()
        | Some k \<Rightarrow>
            (case lc_color_temp c of
               None \<Rightarrow> Err (plain ''doesn't support color temperature'')
             | Some r \<Rightarrow>
                 require (ctr_min r \<le> k \<and> k \<le> ctr_max r)
                   (Msg ''supports color temperatures from {} to {} K, not {} K''
                     [nat_msg (ctr_min r), nat_msg (ctr_max r), nat_msg k]))) (\<lambda>_.
     require (\<not> (lo_rgb d \<noteq> None \<and> \<not> lc_rgb c)) (plain ''doesn't support RGB color'')))"

definition light_fits :: "light_caps \<Rightarrow> light_state \<Rightarrow> unit res" where
  "light_fits c s =
     and_then
       (case lt_color_mode s of
          Some CM_ColorTemp \<Rightarrow>
            require (lc_color_temp c \<noteq> None)
              (plain ''it's in color_temp mode, but doesn't support color temperature'')
        | Some CM_Rgb \<Rightarrow>
            require (lc_rgb c) (plain ''it's in rgb mode, but doesn't support RGB color'')
        | None \<Rightarrow> Ok ()) (\<lambda>_.
     it_says (light_supports c
       \<lparr>lo_brightness = lt_brightness s, lo_color_temp_kelvin = lt_color_temp_kelvin s, lo_rgb = lt_rgb s\<rparr>))"

definition sensor_fits :: "sensor_caps \<Rightarrow> sensor_state \<Rightarrow> unit res" where
  "sensor_fits c s =
     (case (sc_value_type c, se_value s) of
        (SensorIsNumber, SensorText t) \<Rightarrow>
          Err (Msg ''it reports numbers, but the value is text {:?}'' [plain t])
      | (SensorIsText, SensorNumber n) \<Rightarrow>
          Err (Msg ''it reports text, but the value is the number {}'' [f64_msg n])
      | (SensorIsText, SensorText t) \<Rightarrow>
          require (\<not> (sc_options c \<noteq> [] \<and> t \<notin> set (sc_options c)))
            (Msg ''{:?} isn't one of its options ({})'' [plain t, plain (joined (sc_options c))])
      | _ \<Rightarrow> Ok ())"

definition number_takes :: "number_caps \<Rightarrow> f64 \<Rightarrow> unit res" where
  "number_takes c v =
     (if \<not> f64_is_finite v then Err (Msg ''{} isn't a number it can have'' [f64_msg v])
      else require (\<not> (f64_lt v (nc_min c) \<or> f64_lt (nc_max c) v))
             (Msg ''goes from {} to {}, not {}'' [f64_msg (nc_min c), f64_msg (nc_max c), f64_msg v]))"

definition select_has :: "string list \<Rightarrow> string \<Rightarrow> unit res" where
  "select_has os t = require (t \<in> set os) (Msg ''is one of {}, not {:?}'' [plain (joined os), plain t])"

definition text_takes :: "text_caps \<Rightarrow> string \<Rightarrow> unit res" where
  "text_takes c t =
     (let n = length (chars_of t)
      in require (tc_min_length c \<le> n \<and> n \<le> tc_max_length c)
           (Msg ''takes {} to {} characters, not {}''
             [nat_msg (tc_min_length c), nat_msg (tc_max_length c), nat_msg n]))"

definition event_fits :: "event_caps \<Rightarrow> event_state \<Rightarrow> unit res" where
  "event_fits c s =
     require (ev_type s \<in> set (ec_event_types c))
       (Msg ''it reports {}, not {:?}'' [plain (joined (ec_event_types c)), plain (ev_type s)])"

definition opening_fits :: "opening_abilities \<Rightarrow> opening_state \<Rightarrow> unit res" where
  "opening_fits a s =
     require (\<not> (op_position s \<noteq> None \<and> \<not> oa_position a))
       (plain ''it reports a position, but said it can't go part of the way'')"

definition cover_abilities :: "cover_caps \<Rightarrow> opening_abilities" where
  "cover_abilities c = \<lparr>oa_position = cc_position c, oa_stop = cc_stop c\<rparr>"

definition valve_abilities :: "valve_caps \<Rightarrow> opening_abilities" where
  "valve_abilities c = \<lparr>oa_position = vc_position c, oa_stop = vc_stop c\<rparr>"

definition cover_fits :: "cover_caps \<Rightarrow> cover_state \<Rightarrow> unit res" where
  "cover_fits c s =
     and_then (opening_fits (cover_abilities c) (cover_opening s)) (\<lambda>_.
     require (\<not> (cv_tilt s \<noteq> None \<and> \<not> cc_tilt c))
       (plain ''it reports a tilt, but said it has nothing to tilt''))"

definition valve_fits :: "valve_caps \<Rightarrow> valve_state \<Rightarrow> unit res" where
  "valve_fits c s = opening_fits (valve_abilities c) (valve_opening s)"

definition fan_supports_preset :: "fan_caps \<Rightarrow> string \<Rightarrow> unit res" where
  "fan_supports_preset c mode =
     (if mode \<in> set (fc_preset_modes c) then Ok ()
      else if fc_preset_modes c = [] then Err (plain ''has no preset modes'')
      else Err (Msg ''has the modes {}, not {:?}'' [plain (joined (fc_preset_modes c)), plain mode]))"

definition fan_fits :: "fan_caps \<Rightarrow> fan_state \<Rightarrow> unit res" where
  "fan_fits c s =
     and_then (require (\<not> (fn_percentage s \<noteq> None \<and> fc_speed_count c = 0))
       (plain ''it reports a speed, but said it has none'')) (\<lambda>_.
     (case fn_preset_mode s of None \<Rightarrow> Ok () | Some m \<Rightarrow> it_says (fan_supports_preset c m)))"

text \<open>\<open>one_of\<close>, and the modes a thermostat has.\<close>

definition one_of :: "string list \<Rightarrow> string \<Rightarrow> string \<Rightarrow> unit res" where
  "one_of os t what =
     (if t \<in> set os then Ok ()
      else if os = [] then Err (Msg ''has no {}'' [plain what])
      else Err (Msg ''has the {} {}, not {:?}'' [plain what, plain (joined os), plain t]))"

definition climate_supports_mode :: "climate_caps \<Rightarrow> hvac_mode \<Rightarrow> unit res" where
  "climate_supports_mode c m =
     require (m \<in> set (mc_hvac_modes c))
       (Msg ''has the modes {}, not {:?}''
         [plain (joined (map hvac_mode_str (mc_hvac_modes c))), plain (hvac_mode_str m)])"

definition climate_fits :: "climate_caps \<Rightarrow> climate_state \<Rightarrow> unit res" where
  "climate_fits c s =
     and_then (it_says (climate_supports_mode c (cl_hvac_mode s))) (\<lambda>_.
     check_each (\<lambda>(mode, os, what). case mode of None \<Rightarrow> Ok () | Some m \<Rightarrow> it_says (one_of os m what))
       [(cl_fan_mode s, mc_fan_modes c, ''fan modes''),
        (cl_swing_mode s, mc_swing_modes c, ''swing modes''),
        (cl_preset_mode s, mc_preset_modes c, ''presets'')])"

definition water_heater_supports_mode :: "water_heater_caps \<Rightarrow> water_heater_mode \<Rightarrow> unit res" where
  "water_heater_supports_mode c m =
     require (m \<in> set (wc_operation_modes c))
       (Msg ''has the modes {}, not {:?}''
         [plain (joined (map water_heater_mode_str (wc_operation_modes c))), plain (water_heater_mode_str m)])"

definition water_heater_fits :: "water_heater_caps \<Rightarrow> water_heater_state \<Rightarrow> unit res" where
  "water_heater_fits c s =
     (if wc_on_off c \<and> wh_operation_mode s = WM_Off then Ok ()
      else it_says (water_heater_supports_mode c (wh_operation_mode s)))"

definition humidifier_supports_mode :: "humidifier_caps \<Rightarrow> string \<Rightarrow> unit res" where
  "humidifier_supports_mode c m =
     (if m \<in> set (hc_modes c) then Ok ()
      else if hc_modes c = [] then Err (plain ''has no modes'')
      else Err (Msg ''has the modes {}, not {:?}'' [plain (joined (hc_modes c)), plain m]))"

definition humidifier_fits :: "humidifier_caps \<Rightarrow> humidifier_state \<Rightarrow> unit res" where
  "humidifier_fits c s =
     (case hu_mode s of None \<Rightarrow> Ok () | Some m \<Rightarrow> it_says (humidifier_supports_mode c m))"

definition media_player_fits :: "media_player_caps \<Rightarrow> media_player_state \<Rightarrow> unit res" where
  "media_player_fits c s =
     and_then (require (\<not> (mp_volume s \<noteq> None \<and> \<not> pc_volume c))
       (plain ''it reports a volume, but can't be set'')) (\<lambda>_.
     and_then (require (\<not> (mp_muted s \<noteq> None \<and> \<not> pc_mute c))
       (plain ''it says whether it's muted, but can't be muted'')) (\<lambda>_.
     require (\<not> (mp_position s \<noteq> None \<and> \<not> pc_seek c))
       (plain ''it reports a position, but can't seek'')))"

definition vacuum_fits :: "vacuum_caps \<Rightarrow> vacuum_state \<Rightarrow> unit res" where
  "vacuum_fits c s =
     (case va_fan_speed s of
        None \<Rightarrow> Ok ()
      | Some sp \<Rightarrow>
          if sp \<in> set (uv_fan_speeds c) then Ok ()
          else if uv_fan_speeds c = [] then Err (plain ''it has no fan speeds to be at'')
          else Err (Msg ''its fan speed is one of {}, not {:?}'' [plain (joined (uv_fan_speeds c)), plain sp]))"

definition camera_fits :: "camera_caps \<Rightarrow> camera_state \<Rightarrow> unit res" where
  "camera_fits c s =
     and_then (require (\<not> (ca_motion_detection s \<noteq> None \<and> \<not> ka_motion_detection c))
       (plain ''it doesn't watch for motion'')) (\<lambda>_.
     require (\<not> (ca_state s = CS_Off \<and> \<not> ka_on_off c)) (plain ''it can't be off''))"

definition fits :: "capabilities \<Rightarrow> state \<Rightarrow> unit res" where
  "fits caps st =
     (if caps_kind caps \<noteq> state_kind st then
        Err (Msg ''it's a {}, but the report is for a {}''
              [plain (domain (caps_kind caps)), plain (domain (state_kind st))])
      else
        (case (caps, st) of
           (C_Light c, Light s) \<Rightarrow> light_fits c s
         | (C_Sensor c, Sensor s) \<Rightarrow> sensor_fits c s
         | (C_Number c, Number s) \<Rightarrow> it_says (number_takes c (nu_value s))
         | (C_Select os, Select s) \<Rightarrow> it_says (select_has os (sl_option s))
         | (C_Text c, Text s) \<Rightarrow> it_says (text_takes c (tx_value s))
         | (C_Event c, Event s) \<Rightarrow> event_fits c s
         | (C_Cover c, Cover s) \<Rightarrow> cover_fits c s
         | (C_Fan c, Fan s) \<Rightarrow> fan_fits c s
         | (C_Valve c, Valve s) \<Rightarrow> valve_fits c s
         | (C_Climate c, Climate s) \<Rightarrow> climate_fits c s
         | (C_Humidifier c, Humidifier s) \<Rightarrow> humidifier_fits c s
         | (C_WaterHeater c, WaterHeater s) \<Rightarrow> water_heater_fits c s
         | (C_MediaPlayer c, MediaPlayer s) \<Rightarrow> media_player_fits c s
         | (C_Vacuum c, Vacuum s) \<Rightarrow> vacuum_fits c s
         | (C_Camera c, Camera s) \<Rightarrow> camera_fits c s
         | _ \<Rightarrow> Ok ()))"

section \<open>What an entity reports has the shape it says\<close>

lemma fits_kind: "fits caps st = Ok () \<Longrightarrow> caps_kind caps = state_kind st"
  by (simp add: fits_def split: if_splits)

text \<open>A state of the kind its capabilities are for.\<close>

inductive same_kind :: "capabilities \<Rightarrow> state \<Rightarrow> bool" where
  "same_kind (C_Light c1) (Light s1)"
| "same_kind (C_Switch c2) (Switch s2)"
| "same_kind (C_Sensor c3) (Sensor s3)"
| "same_kind (C_BinarySensor c4) (BinarySensor s4)"
| "same_kind (C_Number c5) (Number s5)"
| "same_kind (C_Select c6) (Select s6)"
| "same_kind (C_Text c7) (Text s7)"
| "same_kind (C_Event c8) (Event s8)"
| "same_kind (C_Cover c9) (Cover s9)"
| "same_kind (C_Lock c10) (Lock s10)"
| "same_kind (C_Fan c11) (Fan s11)"
| "same_kind (C_Valve c12) (Valve s12)"
| "same_kind (C_Siren c13) (Siren s13)"
| "same_kind (C_Climate c14) (Climate s14)"
| "same_kind (C_WaterHeater c15) (WaterHeater s15)"
| "same_kind (C_Humidifier c16) (Humidifier s16)"
| "same_kind (C_MediaPlayer c17) (MediaPlayer s17)"
| "same_kind (C_Update c18) (Update s18)"
| "same_kind (C_AlarmControlPanel c19) (AlarmControlPanel s19)"
| "same_kind C_Date (Date s20)"
| "same_kind C_Time (Time s21)"
| "same_kind C_Datetime (Datetime s22)"
| "same_kind (C_Vacuum c23) (Vacuum s23)"
| "same_kind (C_LawnMower c24) (LawnMower s24)"
| "same_kind (C_DeviceTracker c25) (DeviceTracker s25)"
| "same_kind C_Timer (Timer s26)"
| "same_kind C_Schedule (Schedule s27)"
| "same_kind (C_Camera c28) (Camera s28)"

lemma same_kind_iff: "same_kind caps st \<longleftrightarrow> caps_kind caps = state_kind st"
proof
  show "same_kind caps st \<Longrightarrow> caps_kind caps = state_kind st"
    by (induction rule: same_kind.induct) simp_all
  show "caps_kind caps = state_kind st \<Longrightarrow> same_kind caps st"
    by (cases caps; cases st; simp add: same_kind.intros)
qed

lemma named_shape: "named vs x = Some v \<Longrightarrow> typed_shape v = ShapeText"
  by (induction vs) (auto simp: named_def split: if_splits)

lemma named_bind_shape: "Option.bind x (named vs) = Some v \<Longrightarrow> typed_shape v = ShapeText"
  by (cases x) (auto dest: named_shape)

lemma num_field_shape: "num_field x = Some v \<Longrightarrow> typed_shape v = ShapeNumber"
  by (auto simp: num_field_def)

lemmas field_defs =
  light_field_def fan_field_def cover_field_def valve_field_def climate_field_def
  humidifier_field_def water_heater_field_def media_player_field_def update_field_def
  timer_field_def tracker_field_def schedule_field_def vacuum_field_def camera_field_def

lemmas fields_defs =
  light_fields_def fan_fields_def cover_fields_def valve_fields_def climate_fields_def
  humidifier_fields_def water_heater_fields_def media_player_fields_def update_fields_def
  timer_fields_def tracker_fields_def schedule_fields_def vacuum_fields_def camera_fields_def
  number_named_def bool_named_def text_named_def only_if_def

lemma field_shape_in: "field_shape caps name = Some sh \<Longrightarrow> \<lparr>fd_name = name, fd_shape = sh\<rparr> \<in> set (caps_fields caps)"
  by (auto simp: field_shape_def find_Some_iff) (metis field.surjective nth_mem unit.exhaust)

lemma reported_field_shape:
  assumes "caps_kind caps = state_kind st" and "field_shape caps name = Some sh"
    and "state_field jt st name = Some v"
  shows "typed_shape v = sh"
proof -
  have "same_kind caps st" using assms(1) by (simp add: same_kind_iff)
  then show ?thesis
    using field_shape_in [OF assms(2)] assms(3)
    by (cases rule: same_kind.cases)
       (auto simp: field_defs fields_defs named_bind_shape num_field_shape
             split: if_splits option.splits tracker_source.splits)
qed

lemma reported_primary_shape:
  assumes "fits caps st = Ok ()"
  shows "primary_shape caps = Some (typed_shape (primary jt st))"
proof -
  have "same_kind caps st" using fits_kind [OF assms] by (simp add: same_kind_iff)
  then show ?thesis
    using assms
    by (cases rule: same_kind.cases)
       (auto simp: fits_def sensor_fits_def split: sensor_value_type.splits sensor_value.splits)
qed

lemma option_tables:
  "open_state_str x1 \<in> set open_states"
  "hvac_mode_str x2 \<in> set climate_modes"
  "water_heater_mode_str x3 \<in> set operation_modes"
  "playback_str x4 \<in> set playback_states"
  "alarm_status_str x5 \<in> set alarm_states"
  "lock_status_str x6 \<in> set lock_states"
  "vacuum_activity_str x7 \<in> set vacuum_activities"
  "mower_activity_str x8 \<in> set mower_activities"
  "timer_status_str x9 \<in> set timer_statuses"
  "camera_status_str x10 \<in> set camera_states"
proof -
  show "open_state_str x \<in> set open_states" for x by (cases x) (simp_all add: open_states_def)
  show "hvac_mode_str x \<in> set climate_modes" for x by (cases x) (simp_all add: climate_modes_def)
  show "water_heater_mode_str x \<in> set operation_modes" for x
    by (cases x) (simp_all add: operation_modes_def)
  show "playback_str x \<in> set playback_states" for x by (cases x) (simp_all add: playback_states_def)
  show "alarm_status_str x \<in> set alarm_states" for x by (cases x) (simp_all add: alarm_states_def)
  show "lock_status_str x \<in> set lock_states" for x by (cases x) (simp_all add: lock_states_def)
  show "vacuum_activity_str x \<in> set vacuum_activities" for x
    by (cases x) (simp_all add: vacuum_activities_def)
  show "mower_activity_str x \<in> set mower_activities" for x
    by (cases x) (simp_all add: mower_activities_def)
  show "timer_status_str x \<in> set timer_statuses" for x by (cases x) (simp_all add: timer_statuses_def)
  show "camera_status_str x \<in> set camera_states" for x by (cases x) (simp_all add: camera_states_def)
qed

lemma reported_text_is_an_option:
  assumes "fits caps st = Ok ()" and "primary jt st = TText t" and "text_options caps = Some os"
  shows "t \<in> set os"
proof -
  have "same_kind caps st" using fits_kind [OF assms(1)] by (simp add: same_kind_iff)
  then show ?thesis
    using assms
    by (cases rule: same_kind.cases)
       (auto simp: fits_def sensor_fits_def select_has_def event_fits_def option_tables
             split: sensor_value_type.splits sensor_value.splits if_splits)
qed

text \<open>C19. Capabilities are a type for what an entity reports: when a state fits its entity's
  capabilities, its value has the shape they promise, every field they name has the shape they give
  it, and a text that has a list of options is one of them.\<close>

theorem reported_state_has_the_promised_shape:
  assumes "fits caps st = Ok ()"
  shows "primary_shape caps = Some (typed_shape (primary jt st))
       \<and> (\<forall>name sh v. field_shape caps name = Some sh \<longrightarrow> state_field jt st name = Some v \<longrightarrow> typed_shape v = sh)
       \<and> (\<forall>t os. primary jt st = TText t \<longrightarrow> text_options caps = Some os \<longrightarrow> t \<in> set os)"
  using reported_primary_shape [OF assms] reported_field_shape [OF fits_kind [OF assms]]
    reported_text_is_an_option [OF assms]
  by blast

text \<open>A calendar for the examples that name no date.\<close>

definition no_dates :: date_library where
  "no_dates = \<lparr>day_exists = (\<lambda>_ _ _. False), instant_text = (\<lambda>_. []), instant_parse = (\<lambda>_. None)\<rparr>"

lemma reported_state_has_the_promised_shape_witness:
  "primary_shape (C_Select [''eco'', ''fast'']) =
     Some (typed_shape (primary no_dates (Select \<lparr>sl_option = ''eco''\<rparr>)))
   \<and> ''eco'' \<in> set [''eco'', ''fast'']"
  using reported_state_has_the_promised_shape
      [of "C_Select [''eco'', ''fast'']" "Select \<lparr>sl_option = ''eco''\<rparr>" no_dates]
  by (simp add: fits_def select_has_def)

end
