(* ===== verification/Services.thy ===== *)
theory Services
  imports Capabilities Json
begin

text \<open>
  What can be asked of an entity (\<open>Service\<close> and \<open>ServiceName\<close> of
  \<open>crates/irori-types/src/protocol.rs\<close>, with each kind's own part): the services with their
  data, how data is read and checked, whether an entity supports what is asked, what value it
  then asks for, and what a \<open>toggle\<close> comes to.

  A service's name is its kind and its action.  A data struct with one field is that field.
  What serde says of data it cannot read is one fixed text.
\<close>

section \<open>Services and their data\<close>

record fan_turn_on =
  fo_percentage :: "nat option"
  fo_preset_mode :: "string option"

record siren_turn_on =
  so_tone :: "string option"
  so_volume_level :: "f64 option"
  so_duration :: "nat option"

record climate_set_temperature =
  cs_temperature :: "f64 option"
  cs_target_temp_low :: "f64 option"
  cs_target_temp_high :: "f64 option"
  cs_hvac_mode :: "hvac_mode option"

record water_heater_set_temperature =
  ws_temperature :: f64
  ws_operation_mode :: "water_heater_mode option"

record play_media =
  pm_content_type :: string
  pm_content_id :: string
  pm_title :: "string option"
  pm_artist :: "string option"
  pm_album :: "string option"
  pm_image_url :: "string option"

datatype light_service = LightTurnOn light_turn_on | LightTurnOff

datatype switch_service = SwitchTurnOn | SwitchTurnOff

datatype number_service =
    NumberSetValue f64
  | NumberIncrement "f64 option"
  | NumberDecrement "f64 option"

datatype cover_service =
    CoverOpen | CoverClose | CoverStop | CoverSetPosition nat | CoverSetTilt nat

datatype lock_service =
    LockLock "string option" | LockUnlock "string option" | LockOpen "string option"

datatype fan_service =
    FanTurnOn fan_turn_on
  | FanTurnOff
  | FanSetPercentage nat
  | FanOscillate bool
  | FanSetDirection fan_direction
  | FanSetPresetMode string

datatype valve_service = ValveOpen | ValveClose | ValveStop | ValveSetPosition nat

datatype siren_service = SirenTurnOn siren_turn_on | SirenTurnOff

datatype climate_service =
    ClimateSetHvacMode hvac_mode
  | ClimateSetTemperature climate_set_temperature
  | ClimateSetHumidity f64
  | ClimateSetFanMode string
  | ClimateSetSwingMode string
  | ClimateSetPresetMode string
  | ClimateTurnOn
  | ClimateTurnOff

datatype water_heater_service =
    WaterHeaterSetTemperature water_heater_set_temperature
  | WaterHeaterSetOperationMode water_heater_mode
  | WaterHeaterTurnOn
  | WaterHeaterTurnOff

datatype humidifier_service =
    HumidifierTurnOn | HumidifierTurnOff | HumidifierSetHumidity f64 | HumidifierSetMode string

datatype media_player_service =
    MediaPlayerTurnOn
  | MediaPlayerTurnOff
  | MediaPlayerVolumeSet nat
  | MediaPlayerVolumeMute bool
  | MediaPlayerPlay
  | MediaPlayerPause
  | MediaPlayerPlayPause
  | MediaPlayerStop
  | MediaPlayerSeek f64
  | MediaPlayerNextTrack
  | MediaPlayerPreviousTrack
  | MediaPlayerPlayMedia play_media

datatype update_service = UpdateInstall | UpdateCheck | UpdateSkip | UpdateClearSkipped

datatype alarm_service =
    AlarmArm arm_mode "string option"
  | AlarmDisarm "string option"
  | AlarmTrigger "string option"

datatype vacuum_service =
    VacuumStart | VacuumPause | VacuumStop | VacuumReturnToBase | VacuumLocate | VacuumCleanSpot
  | VacuumSetFanSpeed string

datatype mower_service = LawnMowerStartMowing | LawnMowerPause | LawnMowerDock

datatype camera_service =
    CameraTurnOn | CameraTurnOff | CameraEnableMotionDetection | CameraDisableMotionDetection

datatype timer_service =
    TimerStart "f64 option" | TimerPause | TimerCancel | TimerFinish | TimerChange f64

text \<open>The services of one kind follow each other in the source's \<open>Service\<close>; here they are grouped
  by it. \<open>AlarmArm\<close> is the five arming services, by the mode they arm.\<close>

datatype service =
    SvLight light_service
  | SvSwitch switch_service
  | SvNumber number_service
  | SelectSelectOption string
  | TextSetValue string
  | ButtonPress
  | SvCover cover_service
  | SvLock lock_service
  | SvFan fan_service
  | SvValve valve_service
  | SvSiren siren_service
  | SvClimate climate_service
  | SvWaterHeater water_heater_service
  | SvHumidifier humidifier_service
  | SvMediaPlayer media_player_service
  | SvUpdate update_service
  | SvAlarm alarm_service
  | DateSetValue civil_date
  | TimeSetValue clock_time
  | DatetimeSetValue int
  | SvVacuum vacuum_service
  | SvLawnMower mower_service
  | SceneTurnOn
  | SvCamera camera_service
  | SvTimer timer_service

fun service_kind :: "service \<Rightarrow> entity_kind" where
  "service_kind (SvLight _) = K_Light"
| "service_kind (SvSwitch _) = K_Switch"
| "service_kind (SvNumber _) = K_Number"
| "service_kind (SelectSelectOption _) = K_Select"
| "service_kind (TextSetValue _) = K_Text"
| "service_kind ButtonPress = K_Button"
| "service_kind (SvCover _) = K_Cover"
| "service_kind (SvLock _) = K_Lock"
| "service_kind (SvFan _) = K_Fan"
| "service_kind (SvValve _) = K_Valve"
| "service_kind (SvSiren _) = K_Siren"
| "service_kind (SvClimate _) = K_Climate"
| "service_kind (SvWaterHeater _) = K_WaterHeater"
| "service_kind (SvHumidifier _) = K_Humidifier"
| "service_kind (SvMediaPlayer _) = K_MediaPlayer"
| "service_kind (SvUpdate _) = K_Update"
| "service_kind (SvAlarm _) = K_AlarmControlPanel"
| "service_kind (DateSetValue _) = K_Date"
| "service_kind (TimeSetValue _) = K_Time"
| "service_kind (DatetimeSetValue _) = K_Datetime"
| "service_kind (SvVacuum _) = K_Vacuum"
| "service_kind (SvLawnMower _) = K_LawnMower"
| "service_kind SceneTurnOn = K_Scene"
| "service_kind (SvCamera _) = K_Camera"
| "service_kind (SvTimer _) = K_Timer"

fun arm_action :: "arm_mode \<Rightarrow> string" where
  "arm_action ArmHome = ''alarm_arm_home''"
| "arm_action ArmAway = ''alarm_arm_away''"
| "arm_action ArmNight = ''alarm_arm_night''"
| "arm_action ArmVacation = ''alarm_arm_vacation''"
| "arm_action ArmCustomBypass = ''alarm_arm_custom_bypass''"

fun service_action :: "service \<Rightarrow> string" where
  "service_action (SvLight s) = (case s of LightTurnOn _ \<Rightarrow> ''turn_on'' | LightTurnOff \<Rightarrow> ''turn_off'')"
| "service_action (SvSwitch s) = (case s of SwitchTurnOn \<Rightarrow> ''turn_on'' | SwitchTurnOff \<Rightarrow> ''turn_off'')"
| "service_action (SvNumber s) =
     (case s of NumberSetValue _ \<Rightarrow> ''set_value'' | NumberIncrement _ \<Rightarrow> ''increment''
              | NumberDecrement _ \<Rightarrow> ''decrement'')"
| "service_action (SelectSelectOption _) = ''select_option''"
| "service_action (TextSetValue _) = ''set_value''"
| "service_action ButtonPress = ''press''"
| "service_action (SvCover s) =
     (case s of CoverOpen \<Rightarrow> ''open'' | CoverClose \<Rightarrow> ''close'' | CoverStop \<Rightarrow> ''stop''
              | CoverSetPosition _ \<Rightarrow> ''set_position'' | CoverSetTilt _ \<Rightarrow> ''set_tilt'')"
| "service_action (SvLock s) =
     (case s of LockLock _ \<Rightarrow> ''lock'' | LockUnlock _ \<Rightarrow> ''unlock'' | LockOpen _ \<Rightarrow> ''open'')"
| "service_action (SvFan s) =
     (case s of FanTurnOn _ \<Rightarrow> ''turn_on'' | FanTurnOff \<Rightarrow> ''turn_off''
              | FanSetPercentage _ \<Rightarrow> ''set_percentage'' | FanOscillate _ \<Rightarrow> ''oscillate''
              | FanSetDirection _ \<Rightarrow> ''set_direction'' | FanSetPresetMode _ \<Rightarrow> ''set_preset_mode'')"
| "service_action (SvValve s) =
     (case s of ValveOpen \<Rightarrow> ''open'' | ValveClose \<Rightarrow> ''close'' | ValveStop \<Rightarrow> ''stop''
              | ValveSetPosition _ \<Rightarrow> ''set_position'')"
| "service_action (SvSiren s) = (case s of SirenTurnOn _ \<Rightarrow> ''turn_on'' | SirenTurnOff \<Rightarrow> ''turn_off'')"
| "service_action (SvClimate s) =
     (case s of ClimateSetHvacMode _ \<Rightarrow> ''set_hvac_mode'' | ClimateSetTemperature _ \<Rightarrow> ''set_temperature''
              | ClimateSetHumidity _ \<Rightarrow> ''set_humidity'' | ClimateSetFanMode _ \<Rightarrow> ''set_fan_mode''
              | ClimateSetSwingMode _ \<Rightarrow> ''set_swing_mode''
              | ClimateSetPresetMode _ \<Rightarrow> ''set_preset_mode''
              | ClimateTurnOn \<Rightarrow> ''turn_on'' | ClimateTurnOff \<Rightarrow> ''turn_off'')"
| "service_action (SvWaterHeater s) =
     (case s of WaterHeaterSetTemperature _ \<Rightarrow> ''set_temperature''
              | WaterHeaterSetOperationMode _ \<Rightarrow> ''set_operation_mode''
              | WaterHeaterTurnOn \<Rightarrow> ''turn_on'' | WaterHeaterTurnOff \<Rightarrow> ''turn_off'')"
| "service_action (SvHumidifier s) =
     (case s of HumidifierTurnOn \<Rightarrow> ''turn_on'' | HumidifierTurnOff \<Rightarrow> ''turn_off''
              | HumidifierSetHumidity _ \<Rightarrow> ''set_humidity'' | HumidifierSetMode _ \<Rightarrow> ''set_mode'')"
| "service_action (SvMediaPlayer s) =
     (case s of MediaPlayerTurnOn \<Rightarrow> ''turn_on'' | MediaPlayerTurnOff \<Rightarrow> ''turn_off''
              | MediaPlayerVolumeSet _ \<Rightarrow> ''volume_set'' | MediaPlayerVolumeMute _ \<Rightarrow> ''volume_mute''
              | MediaPlayerPlay \<Rightarrow> ''media_play'' | MediaPlayerPause \<Rightarrow> ''media_pause''
              | MediaPlayerPlayPause \<Rightarrow> ''media_play_pause'' | MediaPlayerStop \<Rightarrow> ''media_stop''
              | MediaPlayerSeek _ \<Rightarrow> ''media_seek'' | MediaPlayerNextTrack \<Rightarrow> ''media_next_track''
              | MediaPlayerPreviousTrack \<Rightarrow> ''media_previous_track''
              | MediaPlayerPlayMedia _ \<Rightarrow> ''play_media'')"
| "service_action (SvUpdate s) =
     (case s of UpdateInstall \<Rightarrow> ''install'' | UpdateCheck \<Rightarrow> ''check'' | UpdateSkip \<Rightarrow> ''skip''
              | UpdateClearSkipped \<Rightarrow> ''clear_skipped'')"
| "service_action (SvAlarm s) =
     (case s of AlarmArm m _ \<Rightarrow> arm_action m | AlarmDisarm _ \<Rightarrow> ''alarm_disarm''
              | AlarmTrigger _ \<Rightarrow> ''alarm_trigger'')"
| "service_action (DateSetValue _) = ''set_value''"
| "service_action (TimeSetValue _) = ''set_value''"
| "service_action (DatetimeSetValue _) = ''set_value''"
| "service_action (SvVacuum s) =
     (case s of VacuumStart \<Rightarrow> ''start'' | VacuumPause \<Rightarrow> ''pause'' | VacuumStop \<Rightarrow> ''stop''
              | VacuumReturnToBase \<Rightarrow> ''return_to_base'' | VacuumLocate \<Rightarrow> ''locate''
              | VacuumCleanSpot \<Rightarrow> ''clean_spot'' | VacuumSetFanSpeed _ \<Rightarrow> ''set_fan_speed'')"
| "service_action (SvLawnMower s) =
     (case s of LawnMowerStartMowing \<Rightarrow> ''start_mowing'' | LawnMowerPause \<Rightarrow> ''pause''
              | LawnMowerDock \<Rightarrow> ''dock'')"
| "service_action SceneTurnOn = ''turn_on''"
| "service_action (SvCamera s) =
     (case s of CameraTurnOn \<Rightarrow> ''turn_on'' | CameraTurnOff \<Rightarrow> ''turn_off''
              | CameraEnableMotionDetection \<Rightarrow> ''enable_motion_detection''
              | CameraDisableMotionDetection \<Rightarrow> ''disable_motion_detection'')"
| "service_action (SvTimer s) =
     (case s of TimerStart _ \<Rightarrow> ''start'' | TimerPause \<Rightarrow> ''pause'' | TimerCancel \<Rightarrow> ''cancel''
              | TimerFinish \<Rightarrow> ''finish'' | TimerChange _ \<Rightarrow> ''change'')"

definition name_text :: "entity_kind \<Rightarrow> string \<Rightarrow> string" where
  "name_text k action = domain k @ ''.'' @ action"

text \<open>\<open>EntityKind::services\<close>: the actions of a kind, in the order of \<open>ServiceName::ALL\<close>.\<close>

fun kind_actions :: "entity_kind \<Rightarrow> string list" where
  "kind_actions K_Light = [''turn_on'', ''turn_off'']"
| "kind_actions K_Switch = [''turn_on'', ''turn_off'']"
| "kind_actions K_Number = [''set_value'', ''increment'', ''decrement'']"
| "kind_actions K_Select = [''select_option'']"
| "kind_actions K_Text = [''set_value'']"
| "kind_actions K_Button = [''press'']"
| "kind_actions K_Cover = [''open'', ''close'', ''stop'', ''set_position'', ''set_tilt'']"
| "kind_actions K_Lock = [''lock'', ''unlock'', ''open'']"
| "kind_actions K_Fan =
     [''turn_on'', ''turn_off'', ''set_percentage'', ''oscillate'', ''set_direction'', ''set_preset_mode'']"
| "kind_actions K_Valve = [''open'', ''close'', ''stop'', ''set_position'']"
| "kind_actions K_Siren = [''turn_on'', ''turn_off'']"
| "kind_actions K_Climate =
     [''set_hvac_mode'', ''set_temperature'', ''set_humidity'', ''set_fan_mode'', ''set_swing_mode'',
      ''set_preset_mode'', ''turn_on'', ''turn_off'']"
| "kind_actions K_WaterHeater = [''set_temperature'', ''set_operation_mode'', ''turn_on'', ''turn_off'']"
| "kind_actions K_Humidifier = [''turn_on'', ''turn_off'', ''set_humidity'', ''set_mode'']"
| "kind_actions K_MediaPlayer =
     [''turn_on'', ''turn_off'', ''volume_set'', ''volume_mute'', ''media_play'', ''media_pause'',
      ''media_play_pause'', ''media_stop'', ''media_seek'', ''media_next_track'',
      ''media_previous_track'', ''play_media'']"
| "kind_actions K_Update = [''install'', ''check'', ''skip'', ''clear_skipped'']"
| "kind_actions K_AlarmControlPanel =
     [''alarm_arm_home'', ''alarm_arm_away'', ''alarm_arm_night'', ''alarm_arm_vacation'',
      ''alarm_arm_custom_bypass'', ''alarm_disarm'', ''alarm_trigger'']"
| "kind_actions K_Date = [''set_value'']"
| "kind_actions K_Time = [''set_value'']"
| "kind_actions K_Datetime = [''set_value'']"
| "kind_actions K_Vacuum =
     [''start'', ''pause'', ''stop'', ''return_to_base'', ''locate'', ''clean_spot'', ''set_fan_speed'']"
| "kind_actions K_LawnMower = [''start_mowing'', ''pause'', ''dock'']"
| "kind_actions K_Scene = [''turn_on'']"
| "kind_actions K_Camera =
     [''turn_on'', ''turn_off'', ''enable_motion_detection'', ''disable_motion_detection'']"
| "kind_actions K_Timer = [''start'', ''pause'', ''cancel'', ''finish'', ''change'']"
| "kind_actions _ = []"

definition has_services :: "entity_kind \<Rightarrow> bool" where
  "has_services k = (kind_actions k \<noteq> [])"

section \<open>What a service asks for\<close>

fun arm_status :: "arm_mode \<Rightarrow> alarm_status" where
  "arm_status ArmHome = AS_ArmedHome"
| "arm_status ArmAway = AS_ArmedAway"
| "arm_status ArmNight = AS_ArmedNight"
| "arm_status ArmVacation = AS_ArmedVacation"
| "arm_status ArmCustomBypass = AS_ArmedCustomBypass"

text \<open>What covers and valves share (\<open>OpeningCommand\<close>).\<close>

datatype opening_command = OpOpen | OpClose | OpStop | OpSetPosition nat

definition open_state_at :: "nat \<Rightarrow> open_state" where
  "open_state_at p = (if p = 0 then OS_Closed else OS_Open)"

fun opening_of :: "service \<Rightarrow> opening_command option" where
  "opening_of (SvCover CoverOpen) = Some OpOpen"
| "opening_of (SvCover CoverClose) = Some OpClose"
| "opening_of (SvCover CoverStop) = Some OpStop"
| "opening_of (SvCover (CoverSetPosition p)) = Some (OpSetPosition p)"
| "opening_of (SvValve ValveOpen) = Some OpOpen"
| "opening_of (SvValve ValveClose) = Some OpClose"
| "opening_of (SvValve ValveStop) = Some OpStop"
| "opening_of (SvValve (ValveSetPosition p)) = Some (OpSetPosition p)"
| "opening_of _ = None"

fun opening_asks :: "opening_command \<Rightarrow> typed option" where
  "opening_asks OpOpen = Some (TText (open_state_str OS_Open))"
| "opening_asks OpClose = Some (TText (open_state_str OS_Closed))"
| "opening_asks (OpSetPosition p) = Some (TText (open_state_str (open_state_at p)))"
| "opening_asks OpStop = None"

fun asks_for :: "date_library \<Rightarrow> service \<Rightarrow> typed option" where
  "asks_for jt (SvLight (LightTurnOn _)) = Some (TBool True)"
| "asks_for jt (SvLight LightTurnOff) = Some (TBool False)"
| "asks_for jt (SvSwitch SwitchTurnOn) = Some (TBool True)"
| "asks_for jt (SvSwitch SwitchTurnOff) = Some (TBool False)"
| "asks_for jt (SvNumber (NumberSetValue v)) = Some (TNumber v)"
| "asks_for jt (SvNumber _) = None"
| "asks_for jt (SelectSelectOption t) = Some (TText t)"
| "asks_for jt (TextSetValue t) = Some (TText t)"
| "asks_for jt ButtonPress = None"
| "asks_for jt (SvCover s) = Option.bind (opening_of (SvCover s)) opening_asks"
| "asks_for jt (SvValve s) = Option.bind (opening_of (SvValve s)) opening_asks"
| "asks_for jt (SvLock s) =
     Some (TText (lock_status_str
       (case s of LockLock _ \<Rightarrow> LS_Locked | LockUnlock _ \<Rightarrow> LS_Unlocked | LockOpen _ \<Rightarrow> LS_Open)))"
| "asks_for jt (SvFan s) =
     (case s of FanTurnOn _ \<Rightarrow> Some (TBool True) | FanTurnOff \<Rightarrow> Some (TBool False)
              | FanSetPercentage p \<Rightarrow> Some (TBool (0 < p)) | _ \<Rightarrow> None)"
| "asks_for jt (SvSiren (SirenTurnOn _)) = Some (TBool True)"
| "asks_for jt (SvSiren SirenTurnOff) = Some (TBool False)"
| "asks_for jt (SvClimate s) =
     map_option (\<lambda>m. TText (hvac_mode_str m))
       (case s of ClimateSetHvacMode m \<Rightarrow> Some m | ClimateSetTemperature d \<Rightarrow> cs_hvac_mode d
                | ClimateTurnOff \<Rightarrow> Some HM_Off | _ \<Rightarrow> None)"
| "asks_for jt (SvWaterHeater s) =
     map_option (\<lambda>m. TText (water_heater_mode_str m))
       (case s of WaterHeaterSetOperationMode m \<Rightarrow> Some m
                | WaterHeaterSetTemperature d \<Rightarrow> ws_operation_mode d
                | WaterHeaterTurnOff \<Rightarrow> Some WM_Off | WaterHeaterTurnOn \<Rightarrow> None)"
| "asks_for jt (SvHumidifier s) =
     (case s of HumidifierTurnOn \<Rightarrow> Some (TBool True) | HumidifierTurnOff \<Rightarrow> Some (TBool False)
              | _ \<Rightarrow> None)"
| "asks_for jt (SvMediaPlayer s) =
     map_option (\<lambda>p. TText (playback_str p))
       (case s of MediaPlayerTurnOn \<Rightarrow> Some PB_Idle | MediaPlayerStop \<Rightarrow> Some PB_Idle
                | MediaPlayerTurnOff \<Rightarrow> Some PB_Off | MediaPlayerPlay \<Rightarrow> Some PB_Playing
                | MediaPlayerPause \<Rightarrow> Some PB_Paused | _ \<Rightarrow> None)"
| "asks_for jt (SvUpdate _) = None"
| "asks_for jt (SvAlarm s) =
     Some (TText (alarm_status_str
       (case s of AlarmArm m _ \<Rightarrow> arm_status m | AlarmDisarm _ \<Rightarrow> AS_Disarmed
                | AlarmTrigger _ \<Rightarrow> AS_Triggered)))"
| "asks_for jt (DateSetValue d) = Some (TText (civil_date_text d))"
| "asks_for jt (TimeSetValue c) = Some (TText (clock_time_text c))"
| "asks_for jt (DatetimeSetValue i) = Some (TText (instant_text jt i))"
| "asks_for jt (SvVacuum s) =
     map_option (\<lambda>a. TText (vacuum_activity_str a))
       (case s of VacuumStart \<Rightarrow> Some VA_Cleaning | VacuumCleanSpot \<Rightarrow> Some VA_Cleaning
                | VacuumPause \<Rightarrow> Some VA_Paused | VacuumStop \<Rightarrow> Some VA_Idle
                | VacuumReturnToBase \<Rightarrow> Some VA_Returning | _ \<Rightarrow> None)"
| "asks_for jt (SvLawnMower s) =
     Some (TText (mower_activity_str
       (case s of LawnMowerStartMowing \<Rightarrow> MA_Mowing | LawnMowerPause \<Rightarrow> MA_Paused
                | LawnMowerDock \<Rightarrow> MA_Returning)))"
| "asks_for jt SceneTurnOn = None"
| "asks_for jt (SvCamera s) =
     (case s of CameraTurnOff \<Rightarrow> Some (TText (camera_status_str CS_Off)) | _ \<Rightarrow> None)"
| "asks_for jt (SvTimer s) =
     map_option (\<lambda>st. TText (timer_status_str st))
       (case s of TimerStart _ \<Rightarrow> Some TS_Active | TimerPause \<Rightarrow> Some TS_Paused
                | TimerCancel \<Rightarrow> Some TS_Idle | TimerFinish \<Rightarrow> Some TS_Idle | TimerChange _ \<Rightarrow> None)"

section \<open>Toggles\<close>

definition on_off_toggle :: "typed option \<Rightarrow> string" where
  "on_off_toggle cur = (if cur = Some (TBool True) then ''turn_off'' else ''turn_on'')"

text \<open>The action a \<open>toggle\<close> resolves to, from the value the entity has.\<close>

definition toggle :: "entity_kind \<Rightarrow> typed option \<Rightarrow> string option" where
  "toggle k cur =
     (if k \<in> set [K_Light, K_Switch, K_Fan, K_Siren, K_Humidifier] then Some (on_off_toggle cur)
      else if k = K_Climate then
        Some (case cur of
            Some (TText t) \<Rightarrow> if hvac_mode_parse t \<noteq> Some HM_Off then ''turn_off'' else ''turn_on''
          | _ \<Rightarrow> ''turn_on'')
      else if k = K_WaterHeater then
        Some (case cur of
            Some (TText t) \<Rightarrow> if water_heater_mode_parse t \<noteq> Some WM_Off then ''turn_off'' else ''turn_on''
          | _ \<Rightarrow> ''turn_on'')
      else if k = K_Lock then
        Some (case cur of
            Some (TText t) \<Rightarrow>
              if lock_status_parse t \<in> {Some LS_Locked, Some LS_Locking} then ''unlock'' else ''lock''
          | _ \<Rightarrow> ''lock'')
      else if k = K_Camera then
        Some (case cur of
            Some (TText t) \<Rightarrow> if t \<noteq> camera_status_str CS_Off then ''turn_off'' else ''turn_on''
          | _ \<Rightarrow> ''turn_on'')
      else if k = K_Cover \<or> k = K_Valve then
        Some (case cur of
            Some (TText t) \<Rightarrow>
              if open_state_parse t \<in> {Some OS_Open, Some OS_Opening} then ''close'' else ''open''
          | _ \<Rightarrow> ''open'')
      else None)"

section \<open>Whether an entity can do it\<close>

definition number_supports :: "number_caps \<Rightarrow> number_service \<Rightarrow> unit res" where
  "number_supports c s = (case s of NumberSetValue v \<Rightarrow> number_takes c v | _ \<Rightarrow> Ok ())"

definition opening_supports :: "opening_abilities \<Rightarrow> opening_command \<Rightarrow> unit res" where
  "opening_supports a cmd =
     (case cmd of
        OpStop \<Rightarrow> require (oa_stop a) (plain ''can't be stopped while it moves'')
      | OpSetPosition p \<Rightarrow>
          and_then (require (oa_position a) (plain ''can only open and close, not go part of the way'')) (\<lambda>_.
          require (p \<le> 100) (Msg ''takes a position from 0 to 100, not {}'' [nat_msg p]))
      | _ \<Rightarrow> Ok ())"

definition cover_supports :: "cover_caps \<Rightarrow> cover_service \<Rightarrow> unit res" where
  "cover_supports c s =
     (case s of
        CoverSetTilt t \<Rightarrow>
          and_then (require (cc_tilt c) (plain ''has nothing to tilt'')) (\<lambda>_.
          require (t \<le> 100) (Msg ''takes a tilt from 0 to 100, not {}'' [nat_msg t]))
      | _ \<Rightarrow> (case opening_of (SvCover s) of
            Some cmd \<Rightarrow> opening_supports (cover_abilities c) cmd | None \<Rightarrow> Ok ()))"

definition valve_supports :: "valve_caps \<Rightarrow> valve_service \<Rightarrow> unit res" where
  "valve_supports c s =
     (case opening_of (SvValve s) of
        Some cmd \<Rightarrow> opening_supports (valve_abilities c) cmd | None \<Rightarrow> Ok ())"

definition siren_supports :: "siren_caps \<Rightarrow> siren_service \<Rightarrow> unit res" where
  "siren_supports c s =
     (case s of
        SirenTurnOn d \<Rightarrow>
          and_then
            (case so_tone d of
               None \<Rightarrow> Ok ()
             | Some t \<Rightarrow>
                 if t \<in> set (rc_tones c) then Ok ()
                 else if rc_tones c = [] then Err (plain ''has no tones to choose from'')
                 else Err (Msg ''has the tones {}, not {:?}'' [plain (joined (rc_tones c)), plain t])) (\<lambda>_.
          and_then (require (\<not> (so_volume_level d \<noteq> None \<and> \<not> rc_volume c)) (plain ''can't be told how loud'')) (\<lambda>_.
          require (\<not> (so_duration d \<noteq> None \<and> \<not> rc_duration c)) (plain ''can't be told for how long'')))
      | SirenTurnOff \<Rightarrow> Ok ())"

definition lock_supports :: "lock_caps \<Rightarrow> lock_service \<Rightarrow> unit res" where
  "lock_supports c s =
     (let (code, opening) = (case s of LockLock d \<Rightarrow> (d, False) | LockUnlock d \<Rightarrow> (d, False) | LockOpen d \<Rightarrow> (d, True))
      in and_then (require (\<not> (opening \<and> \<not> kc_open c)) (plain ''can lock and unlock, but not open the door'')) (\<lambda>_.
         require (\<not> (kc_requires_code c \<and> is_none_or code (\<lambda>t. t = []))) (plain ''needs a code'')))"

definition fan_supports_percentage :: "fan_caps \<Rightarrow> nat \<Rightarrow> unit res" where
  "fan_supports_percentage c p =
     and_then (require (fc_speed_count c \<noteq> 0) (plain ''has no speeds to set'')) (\<lambda>_.
     require (p \<le> 100) (Msg ''takes a speed from 0 to 100%, not {}%'' [nat_msg p]))"

definition fan_supports :: "fan_caps \<Rightarrow> fan_service \<Rightarrow> unit res" where
  "fan_supports c s =
     (case s of
        FanTurnOn d \<Rightarrow>
          and_then (case fo_percentage d of None \<Rightarrow> Ok () | Some p \<Rightarrow> fan_supports_percentage c p) (\<lambda>_.
          (case fo_preset_mode d of None \<Rightarrow> Ok () | Some m \<Rightarrow> fan_supports_preset c m))
      | FanSetPercentage p \<Rightarrow> fan_supports_percentage c p
      | FanOscillate _ \<Rightarrow> require (fc_oscillate c) (plain ''doesn't swing'')
      | FanSetDirection _ \<Rightarrow> require (fc_direction c) (plain ''only turns one way'')
      | FanSetPresetMode m \<Rightarrow> fan_supports_preset c m
      | FanTurnOff \<Rightarrow> Ok ())"

text \<open>\<open>mode_to_turn_on\<close>: the mode it was in last, if that was not off and it still has it, or its
  first mode that is not off.\<close>

definition mode_to_turn_on :: "'m list \<Rightarrow> 'm \<Rightarrow> 'm option \<Rightarrow> 'm option" where
  "mode_to_turn_on modes off last_mode =
     (case last_mode of
        Some m \<Rightarrow> if m \<noteq> off \<and> m \<in> set modes then Some m else find (\<lambda>m. m \<noteq> off) modes
      | None \<Rightarrow> find (\<lambda>m. m \<noteq> off) modes)"

text \<open>\<open>(low..=high).contains(&x)\<close> with ends that are doubles themselves.\<close>

definition f64_between :: "f64 \<Rightarrow> f64 \<Rightarrow> f64 \<Rightarrow> bool" where
  "f64_between low high x = (f64_le low x \<and> f64_le x high)"

definition takes_temperature :: "climate_caps \<Rightarrow> f64 \<Rightarrow> unit res" where
  "takes_temperature c v =
     require (f64_between (mc_min_temp c) (mc_max_temp c) v)
       (Msg ''takes a temperature from {} to {} C, not {} C''
         [f64_msg (mc_min_temp c), f64_msg (mc_max_temp c), f64_msg v])"

definition climate_supports_temperature :: "climate_caps \<Rightarrow> climate_set_temperature \<Rightarrow> unit res" where
  "climate_supports_temperature c d =
     and_then (case cs_hvac_mode d of None \<Rightarrow> Ok () | Some m \<Rightarrow> climate_supports_mode c m) (\<lambda>_.
     and_then
       (case cs_temperature d of
          None \<Rightarrow> Ok ()
        | Some v \<Rightarrow>
            if \<not> mc_target_temperature c then
              Err (plain (if mc_target_temperature_range c
                then ''takes a range, `target_temp_low` and `target_temp_high`, not one temperature''
                else ''has no target temperature''))
            else takes_temperature c v) (\<lambda>_.
     (case (cs_target_temp_low d, cs_target_temp_high d) of
        (Some low, Some high) \<Rightarrow>
          if \<not> mc_target_temperature_range c then
            Err (plain (if mc_target_temperature c then ''takes one `temperature`, not a range''
              else ''has no target temperature''))
          else and_then (takes_temperature c low) (\<lambda>_. takes_temperature c high)
      | _ \<Rightarrow> Ok ())))"

definition humidity_takes :: "humidity_range \<Rightarrow> f64 \<Rightarrow> unit res" where
  "humidity_takes r h =
     require (f64_between (hr_min r) (hr_max r) h)
       (Msg ''takes a humidity from {}% to {}%, not {}%'' [f64_msg (hr_min r), f64_msg (hr_max r), f64_msg h])"

definition climate_supports :: "climate_caps \<Rightarrow> climate_service \<Rightarrow> unit res" where
  "climate_supports c s =
     (case s of
        ClimateSetHvacMode m \<Rightarrow> climate_supports_mode c m
      | ClimateSetTemperature d \<Rightarrow> climate_supports_temperature c d
      | ClimateSetHumidity h \<Rightarrow>
          (case mc_target_humidity c of
             Some r \<Rightarrow> humidity_takes r h | None \<Rightarrow> Err (plain ''has no target humidity''))
      | ClimateSetFanMode m \<Rightarrow> one_of (mc_fan_modes c) m ''fan modes''
      | ClimateSetSwingMode m \<Rightarrow> one_of (mc_swing_modes c) m ''swing modes''
      | ClimateSetPresetMode m \<Rightarrow> one_of (mc_preset_modes c) m ''presets''
      | ClimateTurnOn \<Rightarrow>
          require (mode_to_turn_on (mc_hvac_modes c) HM_Off None \<noteq> None) (plain ''has no mode to turn on to'')
      | ClimateTurnOff \<Rightarrow>
          (case climate_supports_mode c HM_Off of
             Inl _ \<Rightarrow> Err (plain ''can't be turned off'') | Inr _ \<Rightarrow> Ok ()))"

definition water_heater_supports :: "water_heater_caps \<Rightarrow> water_heater_service \<Rightarrow> unit res" where
  "water_heater_supports c s =
     (case s of
        WaterHeaterSetTemperature d \<Rightarrow>
          and_then (require (wc_target_temperature c) (plain ''has no target temperature'')) (\<lambda>_.
          and_then (case ws_operation_mode d of None \<Rightarrow> Ok () | Some m \<Rightarrow> water_heater_supports_mode c m) (\<lambda>_.
          require (f64_between (wc_min_temp c) (wc_max_temp c) (ws_temperature d))
            (Msg ''takes a temperature from {} to {} C, not {} C''
              [f64_msg (wc_min_temp c), f64_msg (wc_max_temp c), f64_msg (ws_temperature d)])))
      | WaterHeaterSetOperationMode m \<Rightarrow> water_heater_supports_mode c m
      | WaterHeaterTurnOn \<Rightarrow>
          require (wc_on_off c \<or> mode_to_turn_on (wc_operation_modes c) WM_Off None \<noteq> None)
            (plain ''has no mode to turn on to'')
      | WaterHeaterTurnOff \<Rightarrow>
          if wc_on_off c then Ok ()
          else (case water_heater_supports_mode c WM_Off of
                  Inl _ \<Rightarrow> Err (plain ''can't be turned off'') | Inr _ \<Rightarrow> Ok ()))"

definition humidifier_supports :: "humidifier_caps \<Rightarrow> humidifier_service \<Rightarrow> unit res" where
  "humidifier_supports c s =
     (case s of
        HumidifierSetHumidity h \<Rightarrow> humidity_takes (hc_humidity c) h
      | HumidifierSetMode m \<Rightarrow> humidifier_supports_mode c m
      | _ \<Rightarrow> Ok ())"

definition media_player_supports :: "media_player_caps \<Rightarrow> media_player_service \<Rightarrow> unit res" where
  "media_player_supports c s =
     (case s of
        MediaPlayerTurnOn \<Rightarrow> require (pc_turn_on c) (plain ''can't be turned on'')
      | MediaPlayerTurnOff \<Rightarrow> require (pc_turn_off c) (plain ''can't be turned off'')
      | MediaPlayerVolumeSet _ \<Rightarrow> require (pc_volume c) (plain ''can't set its volume'')
      | MediaPlayerVolumeMute _ \<Rightarrow> require (pc_mute c) (plain ''can't be muted'')
      | MediaPlayerSeek _ \<Rightarrow> require (pc_seek c) (plain ''can't seek'')
      | MediaPlayerNextTrack \<Rightarrow> require (pc_queue c) (plain ''has no queue'')
      | MediaPlayerPreviousTrack \<Rightarrow> require (pc_queue c) (plain ''has no queue'')
      | MediaPlayerPlayMedia _ \<Rightarrow> require (pc_play_media c) (plain ''can't play media'')
      | _ \<Rightarrow> Ok ())"

definition update_supports :: "update_caps \<Rightarrow> update_service \<Rightarrow> unit res" where
  "update_supports c s =
     (case s of
        UpdateInstall \<Rightarrow> require (uc_install c) (plain ''says when there's an update, but can't be told to install it'')
      | UpdateCheck \<Rightarrow> require (uc_check c) (plain ''can't be told to look for updates'')
      | _ \<Rightarrow> Ok ())"

definition mower_supports :: "lawn_mower_caps \<Rightarrow> mower_service \<Rightarrow> unit res" where
  "mower_supports c s =
     (let (can, what) = (case s of
          LawnMowerStartMowing \<Rightarrow> (lw_start_mowing c, ''be started from here'')
        | LawnMowerPause \<Rightarrow> (lw_pause c, ''be paused'')
        | LawnMowerDock \<Rightarrow> (lw_dock c, ''be sent back to its dock''))
      in require can (Msg ''can't {}'' [plain what]))"

definition vacuum_supports :: "vacuum_caps \<Rightarrow> vacuum_service \<Rightarrow> unit res" where
  "vacuum_supports c s =
     (case s of
        VacuumSetFanSpeed sp \<Rightarrow>
          if sp \<in> set (uv_fan_speeds c) then Ok ()
          else if uv_fan_speeds c = [] then Err (plain ''has no fan speeds to choose from'')
          else Err (Msg ''has the fan speeds {}, not {:?}'' [plain (joined (uv_fan_speeds c)), plain sp])
      | VacuumStart \<Rightarrow> require (uv_start c) (Msg ''can't {}'' [plain ''be started from here''])
      | VacuumPause \<Rightarrow> require (uv_pause c) (Msg ''can't {}'' [plain ''be paused''])
      | VacuumStop \<Rightarrow> require (uv_stop c) (Msg ''can't {}'' [plain ''be stopped''])
      | VacuumReturnToBase \<Rightarrow> require (uv_return_home c) (Msg ''can't {}'' [plain ''be sent back to its dock''])
      | VacuumLocate \<Rightarrow> require (uv_locate c) (Msg ''can't {}'' [plain ''be made to say where it is''])
      | VacuumCleanSpot \<Rightarrow> require (uv_clean_spot c) (Msg ''can't {}'' [plain ''clean a spot'']))"

definition camera_supports :: "camera_caps \<Rightarrow> camera_service \<Rightarrow> unit res" where
  "camera_supports c s =
     (let (can, what) =
          (if s = CameraTurnOn \<or> s = CameraTurnOff then (ka_on_off c, ''be turned on and off'')
           else (ka_motion_detection c, ''watch for motion''))
      in require can (Msg ''can't {}'' [plain what]))"

fun arm_words :: "arm_mode \<Rightarrow> string" where
  "arm_words ArmHome = ''home''"
| "arm_words ArmAway = ''away''"
| "arm_words ArmNight = ''night''"
| "arm_words ArmVacation = ''vacation''"
| "arm_words ArmCustomBypass = ''custom bypass''"

definition alarm_supports :: "alarm_caps \<Rightarrow> alarm_service \<Rightarrow> unit res" where
  "alarm_supports c s =
     (let code = (case s of AlarmArm _ d \<Rightarrow> d | AlarmDisarm d \<Rightarrow> d | AlarmTrigger d \<Rightarrow> d);
          needs_code = (ac_code_format c \<noteq> None
            \<and> (case s of AlarmArm _ _ \<Rightarrow> ac_code_arm_required c
                       | AlarmDisarm _ \<Rightarrow> ac_code_disarm_required c
                       | AlarmTrigger _ \<Rightarrow> False));
          given = (case code of Some t \<Rightarrow> if t = [] then None else Some t | None \<Rightarrow> None)
      in and_then
           (case s of
              AlarmArm m _ \<Rightarrow>
                if m \<in> set (ac_arm_modes c) then Ok ()
                else if ac_arm_modes c = [] then Err (plain ''can't be armed from here'')
                else Err (Msg ''can't be armed {}; it arms {}''
                       [plain (arm_words m), plain (joined (map arm_words (ac_arm_modes c)))])
            | AlarmTrigger _ \<Rightarrow> require (ac_trigger c) (plain ''can't be set off from here'')
            | AlarmDisarm _ \<Rightarrow> Ok ()) (\<lambda>_.
         (case given of
            None \<Rightarrow> require (\<not> needs_code) (plain ''needs its code'')
          | Some t \<Rightarrow> require (\<not> (ac_code_format c = Some CodeNumber \<and> \<not> list_all is_digit t))
                        (plain ''takes a code of digits''))))"

definition supports :: "capabilities \<Rightarrow> service \<Rightarrow> unit res" where
  "supports caps s =
     (if service_kind s \<noteq> caps_kind caps then
        Err (Msg ''is a {}; `{}` is for a {}''
              [plain (domain (caps_kind caps)), plain (name_text (service_kind s) (service_action s)),
               plain (domain (service_kind s))])
      else
        (case (caps, s) of
           (C_Light c, SvLight (LightTurnOn d)) \<Rightarrow> light_supports c d
         | (C_Number c, SvNumber n) \<Rightarrow> number_supports c n
         | (C_Select os, SelectSelectOption t) \<Rightarrow> select_has os t
         | (C_Text c, TextSetValue t) \<Rightarrow> text_takes c t
         | (C_Cover c, SvCover d) \<Rightarrow> cover_supports c d
         | (C_Valve c, SvValve d) \<Rightarrow> valve_supports c d
         | (C_Siren c, SvSiren d) \<Rightarrow> siren_supports c d
         | (C_Lock c, SvLock d) \<Rightarrow> lock_supports c d
         | (C_Fan c, SvFan d) \<Rightarrow> fan_supports c d
         | (C_Climate c, SvClimate d) \<Rightarrow> climate_supports c d
         | (C_WaterHeater c, SvWaterHeater d) \<Rightarrow> water_heater_supports c d
         | (C_Humidifier c, SvHumidifier d) \<Rightarrow> humidifier_supports c d
         | (C_MediaPlayer c, SvMediaPlayer d) \<Rightarrow> media_player_supports c d
         | (C_Update c, SvUpdate d) \<Rightarrow> update_supports c d
         | (C_LawnMower c, SvLawnMower d) \<Rightarrow> mower_supports c d
         | (C_Vacuum c, SvVacuum d) \<Rightarrow> vacuum_supports c d
         | (C_Camera c, SvCamera d) \<Rightarrow> camera_supports c d
         | (C_AlarmControlPanel c, SvAlarm d) \<Rightarrow> alarm_supports c d
         | _ \<Rightarrow> Ok ()))"

end
