(* ===== verification/ServiceData.thy ===== *)
theory ServiceData
  imports Services
begin

text \<open>
  A service's data as JSON: reading it (\<open>Service::from_data\<close>, with what serde's derived readers
  accept of each field), writing it (\<open>Service::data\<close>) and its own checks (\<open>Service::validate\<close>).
\<close>

section \<open>Reading fields\<close>

type_synonym obj = "(string, json) omap"

text \<open>\<open>deny_unknown_fields\<close>.\<close>

definition only_fields :: "string list \<Rightarrow> obj \<Rightarrow> 'a option \<Rightarrow> 'a option" where
  "only_fields names d r = (if list_all (\<lambda>(k, _). k \<in> set names) d then r else None)"

definition read_uint :: "nat \<Rightarrow> json \<Rightarrow> nat option" where
  "read_uint mx j = (case j of JInt i \<Rightarrow> if 0 \<le> i \<and> i \<le> int mx then Some (nat i) else None | _ \<Rightarrow> None)"

definition read_bool :: "json \<Rightarrow> bool option" where
  "read_bool j = (case j of JBool b \<Rightarrow> Some b | _ \<Rightarrow> None)"

definition read_string :: "json \<Rightarrow> string option" where
  "read_string j = (case j of JStr s \<Rightarrow> Some s | _ \<Rightarrow> None)"

definition read_enum :: "(string \<times> 'a) list \<Rightarrow> json \<Rightarrow> 'a option" where
  "read_enum vs j = (case j of JStr s \<Rightarrow> from_ha vs s | _ \<Rightarrow> None)"

text \<open>A field that must be there, and one that may be left out or \<open>null\<close>.\<close>

definition needed :: "(json \<Rightarrow> 'a option) \<Rightarrow> string \<Rightarrow> obj \<Rightarrow> 'a option" where
  "needed rd name d = Option.bind (oget name d) rd"

definition optional :: "(json \<Rightarrow> 'a option) \<Rightarrow> string \<Rightarrow> obj \<Rightarrow> 'a option option" where
  "optional rd name d =
     (case oget name d of
        None \<Rightarrow> Some None
      | Some JNull \<Rightarrow> Some None
      | Some j \<Rightarrow> map_option Some (rd j))"

text \<open>\<open>num::whole\<close>: a whole number in any spelling, from \<open>low\<close> to \<open>high\<close>.\<close>

definition whole :: "int \<Rightarrow> int \<Rightarrow> json \<Rightarrow> int option" where
  "whole low high j =
     (case (case j of JInt i \<Rightarrow> Some i | JFloat r \<Rightarrow> if r = of_int \<lfloor>r\<rfloor> then Some \<lfloor>r\<rfloor> else None | _ \<Rightarrow> None) of
        Some i \<Rightarrow> if low \<le> i \<and> i \<le> high then Some i else None
      | None \<Rightarrow> None)"

definition whole_nat :: "int \<Rightarrow> int \<Rightarrow> json \<Rightarrow> nat option" where
  "whole_nat low high j = map_option nat (whole low high j)"

definition read_rgb :: "json \<Rightarrow> (nat \<times> nat \<times> nat) option" where
  "read_rgb j =
     (case j of
        JArr [r, g, b] \<Rightarrow>
          Option.bind (whole_nat 0 255 r) (\<lambda>r'. Option.bind (whole_nat 0 255 g) (\<lambda>g'.
            map_option (\<lambda>b'. (r', g', b')) (whole_nat 0 255 b)))
      | _ \<Rightarrow> None)"

section \<open>The checks of a service's data\<close>

definition light_turn_on_validate :: "light_turn_on \<Rightarrow> unit res" where
  "light_turn_on_validate d =
     and_then (require (lo_brightness d \<noteq> Some 0)
       (plain ''brightness 0 is invalid; brightness is 1-255 (use `light.turn_off` to turn a light off)'')) (\<lambda>_.
     and_then (check_some (lo_color_temp_kelvin d) (\<lambda>k. 1000 \<le> k \<and> k \<le> 20000)
       (\<lambda>k. Msg ''color_temp_kelvin {} is out of range; it must be from 1000 to 20000'' [nat_msg k])) (\<lambda>_.
     require (\<not> (lo_color_temp_kelvin d \<noteq> None \<and> lo_rgb d \<noteq> None))
       (plain ''set `color_temp_kelvin` or `rgb`, not both'')))"

definition number_step_validate :: "f64 option \<Rightarrow> unit res" where
  "number_step_validate by_how =
     check_some by_how (\<lambda>v. \<not> (\<not> f64_is_finite v \<or> f64_le v (Fin 0)))
       (\<lambda>v. Msg ''`by` is how much to add or take away, a number above zero, not {}'' [f64_msg v])"

definition siren_turn_on_validate :: "siren_turn_on \<Rightarrow> unit res" where
  "siren_turn_on_validate d =
     and_then (check_some (so_volume_level d) (f64_within 0 1)
       (\<lambda>v. Msg ''volume_level {} is out of range; it must be from 0.0 to 1.0'' [f64_msg v])) (\<lambda>_.
     check_some (so_duration d) (\<lambda>s. 1 \<le> s \<and> s \<le> 86400)
       (\<lambda>s. Msg ''duration {} is out of range; it must be from 1 to 86400 seconds'' [nat_msg s]))"

definition set_temperature_validate :: "climate_set_temperature \<Rightarrow> unit res" where
  "set_temperature_validate d =
     and_then
       (case (cs_temperature d, cs_target_temp_low d, cs_target_temp_high d) of
          (Some _, None, None) \<Rightarrow> Ok ()
        | (None, Some low, Some high) \<Rightarrow>
            require (f64_le low high)
              (Msg ''target_temp_low {} is above target_temp_high {}'' [f64_msg low, f64_msg high])
        | _ \<Rightarrow> Err (plain ''set_temperature takes `temperature`, or both `target_temp_low` and `target_temp_high`'')) (\<lambda>_.
     check_each (\<lambda>x. check_some x f64_is_finite (\<lambda>v. Msg ''{} isn't a temperature'' [f64_msg v]))
       [cs_temperature d, cs_target_temp_low d, cs_target_temp_high d])"

definition set_humidity_validate :: "f64 \<Rightarrow> unit res" where
  "set_humidity_validate h = require (f64_within 0 100 h) (Msg ''humidity is 0-100%, not {}'' [f64_msg h])"

definition long_text_field :: "string \<Rightarrow> string \<Rightarrow> nat \<Rightarrow> unit res" where
  "long_text_field what t mx =
     require (not_blank t \<and> length (chars_of t) \<le> mx)
       (Msg ''{} must be 1-{} characters and not blank'' [plain what, nat_msg mx])"

definition url_max :: nat where "url_max = 2048"
definition text_max :: nat where "text_max = 255"

definition play_media_validate :: "play_media \<Rightarrow> unit res" where
  "play_media_validate d =
     and_then (long_text_field ''content_type'' (pm_content_type d) text_max) (\<lambda>_.
     and_then (long_text_field ''content_id'' (pm_content_id d) url_max) (\<lambda>_.
     and_then (check_each (\<lambda>(what, t). case t of None \<Rightarrow> Ok () | Some t \<Rightarrow> long_text_field what t text_max)
       [(''title'', pm_title d), (''artist'', pm_artist d), (''album'', pm_album d)]) (\<lambda>_.
     (case pm_image_url d of None \<Rightarrow> Ok () | Some u \<Rightarrow> long_text_field ''image_url'' u url_max))))"

definition timer_start_validate :: "f64 option \<Rightarrow> unit res" where
  "timer_start_validate d =
     check_some d (\<lambda>v. f64_is_finite v \<and> f64_lt (Fin 0) v \<and> f64_le v (Fin longest))
       (\<lambda>v. Msg ''`duration` is seconds to run for, above nought and at most a year, not {}'' [f64_msg v])"

definition timer_change_validate :: "f64 \<Rightarrow> unit res" where
  "timer_change_validate v =
     require (f64_is_finite v \<and> \<not> f64_eq v (Fin 0) \<and> f64_le (f64_abs v) (Fin longest))
       (Msg ''`by` is seconds to add or take away, not nought and at most a year, not {}'' [f64_msg v])"

fun service_validate :: "service \<Rightarrow> unit res" where
  "service_validate (SvLight (LightTurnOn d)) = light_turn_on_validate d"
| "service_validate (SvNumber (NumberSetValue v)) =
     require (f64_is_finite v) (Msg ''value {} is not a finite number'' [f64_msg v])"
| "service_validate (SvNumber (NumberIncrement d)) = number_step_validate d"
| "service_validate (SvNumber (NumberDecrement d)) = number_step_validate d"
| "service_validate (SvTimer (TimerStart d)) = timer_start_validate d"
| "service_validate (SvTimer (TimerChange v)) = timer_change_validate v"
| "service_validate (SvSiren (SirenTurnOn d)) = siren_turn_on_validate d"
| "service_validate (SvClimate (ClimateSetTemperature d)) = set_temperature_validate d"
| "service_validate (SvClimate (ClimateSetHumidity h)) = set_humidity_validate h"
| "service_validate (SvHumidifier (HumidifierSetHumidity h)) = set_humidity_validate h"
| "service_validate (SvMediaPlayer (MediaPlayerVolumeSet v)) =
     require (v \<le> 100) (Msg ''volume is 0-100, not {}'' [nat_msg v])"
| "service_validate (SvMediaPlayer (MediaPlayerSeek p)) = mp_seconds ''position'' (Some p)"
| "service_validate (SvMediaPlayer (MediaPlayerPlayMedia d)) = play_media_validate d"
| "service_validate _ = Ok ()"

section \<open>Which services take data\<close>

datatype data_need = NoData | OptionalData | RequiredData

definition data_of :: "entity_kind \<Rightarrow> string \<Rightarrow> data_need" where
  "data_of k a =
     (if k = K_Light then (if a = ''turn_on'' then OptionalData else NoData)
      else if k = K_Number then (if a = ''increment'' \<or> a = ''decrement'' then OptionalData else RequiredData)
      else if k = K_Select \<or> k = K_Text \<or> k = K_Date \<or> k = K_Time \<or> k = K_Datetime then RequiredData
      else if k = K_Cover then (if a = ''set_tilt'' \<or> a = ''set_position'' then RequiredData else NoData)
      else if k = K_Valve then (if a = ''set_position'' then RequiredData else NoData)
      else if k = K_Lock \<or> k = K_AlarmControlPanel then OptionalData
      else if k = K_Timer then
        (if a = ''start'' then OptionalData else if a = ''change'' then RequiredData else NoData)
      else if k = K_Vacuum then (if a = ''set_fan_speed'' then RequiredData else NoData)
      else if k = K_Fan then
        (if a = ''turn_on'' then OptionalData else if a = ''turn_off'' then NoData else RequiredData)
      else if k = K_Siren then (if a = ''turn_on'' then OptionalData else NoData)
      else if k = K_Climate then (if a = ''turn_on'' \<or> a = ''turn_off'' then NoData else RequiredData)
      else if k = K_WaterHeater then
        (if a = ''set_temperature'' \<or> a = ''set_operation_mode'' then RequiredData else NoData)
      else if k = K_Humidifier then
        (if a = ''set_humidity'' \<or> a = ''set_mode'' then RequiredData else NoData)
      else if k = K_MediaPlayer then
        (if a \<in> set [''volume_set'', ''volume_mute'', ''media_seek'', ''play_media''] then RequiredData else NoData)
      else NoData)"

definition takes_data :: "entity_kind \<Rightarrow> string \<Rightarrow> bool" where
  "takes_data k a = (data_of k a \<noteq> NoData)"

definition requires_data :: "entity_kind \<Rightarrow> string \<Rightarrow> bool" where
  "requires_data k a = (data_of k a = RequiredData)"

section \<open>Reading a service's data\<close>

definition read_light_turn_on :: "obj \<Rightarrow> light_turn_on option" where
  "read_light_turn_on d =
     only_fields [''brightness'', ''color_temp_kelvin'', ''rgb''] d
       (Option.bind (optional (whole_nat 1 255) ''brightness'' d) (\<lambda>b.
        Option.bind (optional (whole_nat 1000 20000) ''color_temp_kelvin'' d) (\<lambda>k.
        Option.bind (optional read_rgb ''rgb'' d) (\<lambda>c.
          let data = \<lparr>lo_brightness = b, lo_color_temp_kelvin = k, lo_rgb = c\<rparr>
          in if is_ok (light_turn_on_validate data) then Some data else None))))"

definition read_code :: "obj \<Rightarrow> string option option" where
  "read_code d = only_fields [''code''] d (optional read_string ''code'' d)"

definition read_one :: "(json \<Rightarrow> 'a option) \<Rightarrow> string \<Rightarrow> obj \<Rightarrow> 'a option" where
  "read_one rd name d = only_fields [name] d (needed rd name d)"

definition read_fan_turn_on :: "obj \<Rightarrow> fan_turn_on option" where
  "read_fan_turn_on d =
     only_fields [''percentage'', ''preset_mode''] d
       (Option.bind (optional (read_uint 255) ''percentage'' d) (\<lambda>p.
        map_option (\<lambda>m. \<lparr>fo_percentage = p, fo_preset_mode = m\<rparr>) (optional read_string ''preset_mode'' d)))"

definition read_siren_turn_on :: "obj \<Rightarrow> siren_turn_on option" where
  "read_siren_turn_on d =
     only_fields [''tone'', ''volume_level'', ''duration''] d
       (Option.bind (optional read_string ''tone'' d) (\<lambda>t.
        Option.bind (optional json_as_f64 ''volume_level'' d) (\<lambda>v.
        map_option (\<lambda>s. \<lparr>so_tone = t, so_volume_level = v, so_duration = s\<rparr>)
          (optional (read_uint 4294967295) ''duration'' d))))"

definition read_set_temperature :: "obj \<Rightarrow> climate_set_temperature option" where
  "read_set_temperature d =
     only_fields [''temperature'', ''target_temp_low'', ''target_temp_high'', ''hvac_mode''] d
       (Option.bind (optional json_as_f64 ''temperature'' d) (\<lambda>t.
        Option.bind (optional json_as_f64 ''target_temp_low'' d) (\<lambda>l.
        Option.bind (optional json_as_f64 ''target_temp_high'' d) (\<lambda>h.
        map_option (\<lambda>m. \<lparr>cs_temperature = t, cs_target_temp_low = l, cs_target_temp_high = h, cs_hvac_mode = m\<rparr>)
          (optional (read_enum hvac_mode_variants) ''hvac_mode'' d)))))"

definition read_heater_temperature :: "obj \<Rightarrow> water_heater_set_temperature option" where
  "read_heater_temperature d =
     only_fields [''temperature'', ''operation_mode''] d
       (Option.bind (needed json_as_f64 ''temperature'' d) (\<lambda>t.
        map_option (\<lambda>m. \<lparr>ws_temperature = t, ws_operation_mode = m\<rparr>)
          (optional (read_enum water_heater_mode_variants) ''operation_mode'' d)))"

definition read_play_media :: "obj \<Rightarrow> play_media option" where
  "read_play_media d =
     only_fields [''content_type'', ''content_id'', ''title'', ''artist'', ''album'', ''image_url''] d
       (Option.bind (needed read_string ''content_type'' d) (\<lambda>t.
        Option.bind (needed read_string ''content_id'' d) (\<lambda>i.
        Option.bind (optional read_string ''title'' d) (\<lambda>ti.
        Option.bind (optional read_string ''artist'' d) (\<lambda>ar.
        Option.bind (optional read_string ''album'' d) (\<lambda>al.
        map_option (\<lambda>u. \<lparr>pm_content_type = t, pm_content_id = i, pm_title = ti, pm_artist = ar,
                         pm_album = al, pm_image_url = u\<rparr>)
          (optional read_string ''image_url'' d)))))))"

definition read_date :: "date_library \<Rightarrow> json \<Rightarrow> civil_date option" where
  "read_date jt j = Option.bind (read_string j) (civil_date_parse jt)"

definition read_clock :: "json \<Rightarrow> clock_time option" where
  "read_clock j = Option.bind (read_string j) clock_time_parse"

definition read_instant :: "date_library \<Rightarrow> json \<Rightarrow> int option" where
  "read_instant jt j = Option.bind (read_string j) (instant_parse jt)"

text \<open>\<open>arm_modes_all\<close> is \<open>ArmMode::ALL\<close>.\<close>

definition arm_modes_all :: "arm_mode list" where
  "arm_modes_all = [ArmHome, ArmAway, ArmNight, ArmVacation, ArmCustomBypass]"

text \<open>The kinds' \<open>service\<close> functions: the outer \<open>None\<close> is \<open>not_mine\<close> (no such service), the inner
  one data that cannot be read.  A service without data ignores what it is given (there is
  none: \<open>from_data\<close> refuses it).\<close>

definition read_service :: "date_library \<Rightarrow> entity_kind \<Rightarrow> string \<Rightarrow> obj \<Rightarrow> service option option" where
  "read_service jt k a d =
     (if k = K_Light then map_of
        [(''turn_on'', map_option (\<lambda>x. SvLight (LightTurnOn x)) (read_light_turn_on d)),
         (''turn_off'', Some (SvLight LightTurnOff))] a
      else if k = K_Switch then map_of
        [(''turn_on'', Some (SvSwitch SwitchTurnOn)), (''turn_off'', Some (SvSwitch SwitchTurnOff))] a
      else if k = K_Number then map_of
        [(''set_value'', map_option (\<lambda>v. SvNumber (NumberSetValue v)) (read_one json_as_f64 ''value'' d)),
         (''increment'', map_option (\<lambda>v. SvNumber (NumberIncrement v))
            (only_fields [''by''] d (optional json_as_f64 ''by'' d))),
         (''decrement'', map_option (\<lambda>v. SvNumber (NumberDecrement v))
            (only_fields [''by''] d (optional json_as_f64 ''by'' d)))] a
      else if k = K_Select then map_of
        [(''select_option'', map_option SelectSelectOption (read_one read_string ''option'' d))] a
      else if k = K_Text then map_of
        [(''set_value'', map_option TextSetValue (read_one read_string ''value'' d))] a
      else if k = K_Button then map_of [(''press'', Some ButtonPress)] a
      else if k = K_Scene then map_of [(''turn_on'', Some SceneTurnOn)] a
      else if k = K_Cover then map_of
        [(''open'', Some (SvCover CoverOpen)), (''close'', Some (SvCover CoverClose)),
         (''stop'', Some (SvCover CoverStop)),
         (''set_position'', map_option (\<lambda>p. SvCover (CoverSetPosition p)) (read_one (read_uint 255) ''position'' d)),
         (''set_tilt'', map_option (\<lambda>p. SvCover (CoverSetTilt p)) (read_one (read_uint 255) ''tilt'' d))] a
      else if k = K_Valve then map_of
        [(''open'', Some (SvValve ValveOpen)), (''close'', Some (SvValve ValveClose)),
         (''stop'', Some (SvValve ValveStop)),
         (''set_position'', map_option (\<lambda>p. SvValve (ValveSetPosition p)) (read_one (read_uint 255) ''position'' d))] a
      else if k = K_Lock then map_of
        [(''lock'', map_option (\<lambda>c. SvLock (LockLock c)) (read_code d)),
         (''unlock'', map_option (\<lambda>c. SvLock (LockUnlock c)) (read_code d)),
         (''open'', map_option (\<lambda>c. SvLock (LockOpen c)) (read_code d))] a
      else if k = K_Timer then map_of
        [(''start'', map_option (\<lambda>x. SvTimer (TimerStart x))
            (only_fields [''duration''] d (optional json_as_f64 ''duration'' d))),
         (''pause'', Some (SvTimer TimerPause)), (''cancel'', Some (SvTimer TimerCancel)),
         (''finish'', Some (SvTimer TimerFinish)),
         (''change'', map_option (\<lambda>x. SvTimer (TimerChange x)) (read_one json_as_f64 ''by'' d))] a
      else if k = K_LawnMower then map_of
        [(''start_mowing'', Some (SvLawnMower LawnMowerStartMowing)),
         (''pause'', Some (SvLawnMower LawnMowerPause)), (''dock'', Some (SvLawnMower LawnMowerDock))] a
      else if k = K_Vacuum then map_of
        [(''start'', Some (SvVacuum VacuumStart)), (''pause'', Some (SvVacuum VacuumPause)),
         (''stop'', Some (SvVacuum VacuumStop)), (''return_to_base'', Some (SvVacuum VacuumReturnToBase)),
         (''locate'', Some (SvVacuum VacuumLocate)), (''clean_spot'', Some (SvVacuum VacuumCleanSpot)),
         (''set_fan_speed'', map_option (\<lambda>x. SvVacuum (VacuumSetFanSpeed x))
            (read_one read_string ''fan_speed'' d))] a
      else if k = K_Camera then map_of
        [(''turn_on'', Some (SvCamera CameraTurnOn)), (''turn_off'', Some (SvCamera CameraTurnOff)),
         (''enable_motion_detection'', Some (SvCamera CameraEnableMotionDetection)),
         (''disable_motion_detection'', Some (SvCamera CameraDisableMotionDetection))] a
      else if k = K_AlarmControlPanel then map_of
        (map (\<lambda>m. (arm_action m, map_option (\<lambda>c. SvAlarm (AlarmArm m c)) (read_code d))) arm_modes_all
         @ [(''alarm_disarm'', map_option (\<lambda>c. SvAlarm (AlarmDisarm c)) (read_code d)),
            (''alarm_trigger'', map_option (\<lambda>c. SvAlarm (AlarmTrigger c)) (read_code d))]) a
      else if k = K_Date then map_of
        [(''set_value'', map_option DateSetValue (read_one (read_date jt) ''date'' d))] a
      else if k = K_Time then map_of
        [(''set_value'', map_option TimeSetValue (read_one read_clock ''time'' d))] a
      else if k = K_Datetime then map_of
        [(''set_value'', map_option DatetimeSetValue (read_one (read_instant jt) ''datetime'' d))] a
      else if k = K_Fan then map_of
        [(''turn_on'', map_option (\<lambda>x. SvFan (FanTurnOn x)) (read_fan_turn_on d)),
         (''turn_off'', Some (SvFan FanTurnOff)),
         (''set_percentage'', map_option (\<lambda>x. SvFan (FanSetPercentage x))
            (read_one (read_uint 255) ''percentage'' d)),
         (''oscillate'', map_option (\<lambda>x. SvFan (FanOscillate x)) (read_one read_bool ''oscillating'' d)),
         (''set_direction'', map_option (\<lambda>x. SvFan (FanSetDirection x))
            (read_one (read_enum fan_direction_variants) ''direction'' d)),
         (''set_preset_mode'', map_option (\<lambda>x. SvFan (FanSetPresetMode x))
            (read_one read_string ''preset_mode'' d))] a
      else if k = K_Siren then map_of
        [(''turn_on'', map_option (\<lambda>x. SvSiren (SirenTurnOn x)) (read_siren_turn_on d)),
         (''turn_off'', Some (SvSiren SirenTurnOff))] a
      else if k = K_Climate then map_of
        [(''set_hvac_mode'', map_option (\<lambda>x. SvClimate (ClimateSetHvacMode x))
            (read_one (read_enum hvac_mode_variants) ''hvac_mode'' d)),
         (''set_temperature'', map_option (\<lambda>x. SvClimate (ClimateSetTemperature x)) (read_set_temperature d)),
         (''set_humidity'', map_option (\<lambda>x. SvClimate (ClimateSetHumidity x)) (read_one json_as_f64 ''humidity'' d)),
         (''set_fan_mode'', map_option (\<lambda>x. SvClimate (ClimateSetFanMode x)) (read_one read_string ''fan_mode'' d)),
         (''set_swing_mode'', map_option (\<lambda>x. SvClimate (ClimateSetSwingMode x))
            (read_one read_string ''swing_mode'' d)),
         (''set_preset_mode'', map_option (\<lambda>x. SvClimate (ClimateSetPresetMode x))
            (read_one read_string ''preset_mode'' d)),
         (''turn_on'', Some (SvClimate ClimateTurnOn)), (''turn_off'', Some (SvClimate ClimateTurnOff))] a
      else if k = K_WaterHeater then map_of
        [(''set_temperature'', map_option (\<lambda>x. SvWaterHeater (WaterHeaterSetTemperature x)) (read_heater_temperature d)),
         (''set_operation_mode'', map_option (\<lambda>x. SvWaterHeater (WaterHeaterSetOperationMode x))
            (read_one (read_enum water_heater_mode_variants) ''operation_mode'' d)),
         (''turn_on'', Some (SvWaterHeater WaterHeaterTurnOn)),
         (''turn_off'', Some (SvWaterHeater WaterHeaterTurnOff))] a
      else if k = K_Humidifier then map_of
        [(''turn_on'', Some (SvHumidifier HumidifierTurnOn)), (''turn_off'', Some (SvHumidifier HumidifierTurnOff)),
         (''set_humidity'', map_option (\<lambda>x. SvHumidifier (HumidifierSetHumidity x))
            (read_one json_as_f64 ''humidity'' d)),
         (''set_mode'', map_option (\<lambda>x. SvHumidifier (HumidifierSetMode x)) (read_one read_string ''mode'' d))] a
      else if k = K_MediaPlayer then map_of
        [(''turn_on'', Some (SvMediaPlayer MediaPlayerTurnOn)), (''turn_off'', Some (SvMediaPlayer MediaPlayerTurnOff)),
         (''volume_set'', map_option (\<lambda>x. SvMediaPlayer (MediaPlayerVolumeSet x))
            (read_one (read_uint 255) ''volume'' d)),
         (''volume_mute'', map_option (\<lambda>x. SvMediaPlayer (MediaPlayerVolumeMute x)) (read_one read_bool ''mute'' d)),
         (''media_play'', Some (SvMediaPlayer MediaPlayerPlay)),
         (''media_pause'', Some (SvMediaPlayer MediaPlayerPause)),
         (''media_play_pause'', Some (SvMediaPlayer MediaPlayerPlayPause)),
         (''media_stop'', Some (SvMediaPlayer MediaPlayerStop)),
         (''media_seek'', map_option (\<lambda>x. SvMediaPlayer (MediaPlayerSeek x)) (read_one json_as_f64 ''position'' d)),
         (''media_next_track'', Some (SvMediaPlayer MediaPlayerNextTrack)),
         (''media_previous_track'', Some (SvMediaPlayer MediaPlayerPreviousTrack)),
         (''play_media'', map_option (\<lambda>x. SvMediaPlayer (MediaPlayerPlayMedia x)) (read_play_media d))] a
      else if k = K_Update then map_of
        [(''install'', Some (SvUpdate UpdateInstall)), (''check'', Some (SvUpdate UpdateCheck)),
         (''skip'', Some (SvUpdate UpdateSkip)), (''clear_skipped'', Some (SvUpdate UpdateClearSkipped))] a
      else None)"

definition from_data :: "date_library \<Rightarrow> entity_kind \<Rightarrow> string \<Rightarrow> obj \<Rightarrow> service res" where
  "from_data jt k a d =
     (if \<not> takes_data k a \<and> d \<noteq> [] then Err (Msg ''`{}` takes no data'' [plain (name_text k a)])
      else
        (case read_service jt k a d of
           None \<Rightarrow> Err (Msg ''`{}` isn't a {} service'' [plain (name_text k a), plain (domain k)])
         | Some None \<Rightarrow> Err (Msg ''`{}` data: {}'' [plain (name_text k a), plain ''unreadable''])
         | Some (Some s) \<Rightarrow> and_then (service_validate s) (\<lambda>_. Ok s)))"

section \<open>Writing a service's data\<close>

text \<open>Fields in name order, as a JSON object keeps them; an absent one is left out.\<close>

definition some_field :: "string \<Rightarrow> ('a \<Rightarrow> json) \<Rightarrow> 'a option \<Rightarrow> obj" where
  "some_field name f x = (case x of None \<Rightarrow> [] | Some v \<Rightarrow> [(name, f v)])"

definition enum_json :: "(string \<times> 'a) list \<Rightarrow> 'a \<Rightarrow> json" where
  "enum_json vs x = (case named vs x of Some (TText t) \<Rightarrow> JStr t | _ \<Rightarrow> JNull)"

definition nat_json :: "nat \<Rightarrow> json" where
  "nat_json n = JInt (int n)"

definition rgb_json :: "nat \<times> nat \<times> nat \<Rightarrow> json" where
  "rgb_json c = (case c of (r, g, b) \<Rightarrow> JArr [nat_json r, nat_json g, nat_json b])"

fun service_data :: "date_library \<Rightarrow> service \<Rightarrow> obj" where
  "service_data jt (SvLight (LightTurnOn d)) =
     some_field ''brightness'' nat_json (lo_brightness d)
     @ some_field ''color_temp_kelvin'' nat_json (lo_color_temp_kelvin d)
     @ some_field ''rgb'' rgb_json (lo_rgb d)"
| "service_data jt (SvNumber (NumberSetValue v)) = [(''value'', json_of_f64 v)]"
| "service_data jt (SvNumber (NumberIncrement d)) = some_field ''by'' json_of_f64 d"
| "service_data jt (SvNumber (NumberDecrement d)) = some_field ''by'' json_of_f64 d"
| "service_data jt (SelectSelectOption t) = [(''option'', JStr t)]"
| "service_data jt (TextSetValue t) = [(''value'', JStr t)]"
| "service_data jt (SvCover (CoverSetPosition p)) = [(''position'', nat_json p)]"
| "service_data jt (SvCover (CoverSetTilt p)) = [(''tilt'', nat_json p)]"
| "service_data jt (SvLock (LockLock c)) = some_field ''code'' JStr c"
| "service_data jt (SvLock (LockUnlock c)) = some_field ''code'' JStr c"
| "service_data jt (SvLock (LockOpen c)) = some_field ''code'' JStr c"
| "service_data jt (SvFan (FanTurnOn d)) =
     some_field ''percentage'' nat_json (fo_percentage d) @ some_field ''preset_mode'' JStr (fo_preset_mode d)"
| "service_data jt (SvFan (FanSetPercentage p)) = [(''percentage'', nat_json p)]"
| "service_data jt (SvFan (FanOscillate b)) = [(''oscillating'', JBool b)]"
| "service_data jt (SvFan (FanSetDirection x)) = [(''direction'', enum_json fan_direction_variants x)]"
| "service_data jt (SvFan (FanSetPresetMode m)) = [(''preset_mode'', JStr m)]"
| "service_data jt (SvValve (ValveSetPosition p)) = [(''position'', nat_json p)]"
| "service_data jt (SvSiren (SirenTurnOn d)) =
     some_field ''duration'' nat_json (so_duration d) @ some_field ''tone'' JStr (so_tone d)
     @ some_field ''volume_level'' json_of_f64 (so_volume_level d)"
| "service_data jt (SvClimate (ClimateSetHvacMode m)) = [(''hvac_mode'', enum_json hvac_mode_variants m)]"
| "service_data jt (SvClimate (ClimateSetTemperature d)) =
     some_field ''hvac_mode'' (enum_json hvac_mode_variants) (cs_hvac_mode d)
     @ some_field ''target_temp_high'' json_of_f64 (cs_target_temp_high d)
     @ some_field ''target_temp_low'' json_of_f64 (cs_target_temp_low d)
     @ some_field ''temperature'' json_of_f64 (cs_temperature d)"
| "service_data jt (SvClimate (ClimateSetHumidity h)) = [(''humidity'', json_of_f64 h)]"
| "service_data jt (SvClimate (ClimateSetFanMode m)) = [(''fan_mode'', JStr m)]"
| "service_data jt (SvClimate (ClimateSetSwingMode m)) = [(''swing_mode'', JStr m)]"
| "service_data jt (SvClimate (ClimateSetPresetMode m)) = [(''preset_mode'', JStr m)]"
| "service_data jt (SvWaterHeater (WaterHeaterSetTemperature d)) =
     some_field ''operation_mode'' (enum_json water_heater_mode_variants) (ws_operation_mode d)
     @ [(''temperature'', json_of_f64 (ws_temperature d))]"
| "service_data jt (SvWaterHeater (WaterHeaterSetOperationMode m)) =
     [(''operation_mode'', enum_json water_heater_mode_variants m)]"
| "service_data jt (SvHumidifier (HumidifierSetHumidity h)) = [(''humidity'', json_of_f64 h)]"
| "service_data jt (SvHumidifier (HumidifierSetMode m)) = [(''mode'', JStr m)]"
| "service_data jt (SvMediaPlayer (MediaPlayerVolumeSet v)) = [(''volume'', nat_json v)]"
| "service_data jt (SvMediaPlayer (MediaPlayerVolumeMute b)) = [(''mute'', JBool b)]"
| "service_data jt (SvMediaPlayer (MediaPlayerSeek p)) = [(''position'', json_of_f64 p)]"
| "service_data jt (SvMediaPlayer (MediaPlayerPlayMedia d)) =
     some_field ''album'' JStr (pm_album d) @ some_field ''artist'' JStr (pm_artist d)
     @ [(''content_id'', JStr (pm_content_id d)), (''content_type'', JStr (pm_content_type d))]
     @ some_field ''image_url'' JStr (pm_image_url d) @ some_field ''title'' JStr (pm_title d)"
| "service_data jt (SvAlarm (AlarmArm _ c)) = some_field ''code'' JStr c"
| "service_data jt (SvAlarm (AlarmDisarm c)) = some_field ''code'' JStr c"
| "service_data jt (SvAlarm (AlarmTrigger c)) = some_field ''code'' JStr c"
| "service_data jt (DateSetValue d) = [(''date'', JStr (civil_date_text d))]"
| "service_data jt (TimeSetValue c) = [(''time'', JStr (clock_time_text c))]"
| "service_data jt (DatetimeSetValue i) = [(''datetime'', JStr (instant_text jt i))]"
| "service_data jt (SvVacuum (VacuumSetFanSpeed sp)) = [(''fan_speed'', JStr sp)]"
| "service_data jt (SvTimer (TimerStart d)) = some_field ''duration'' json_of_f64 d"
| "service_data jt (SvTimer (TimerChange v)) = [(''by'', json_of_f64 v)]"
| "service_data jt _ = []"

text \<open>\<open>Service::data\<close>: nothing to send is \<open>None\<close>.\<close>

definition data_to_send :: "date_library \<Rightarrow> service \<Rightarrow> obj option" where
  "data_to_send jt s = (if service_data jt s = [] then None else Some (service_data jt s))"

end
