(* ===== verification/RuleServices.thy ===== *)
theory RuleServices
  imports Rules ServiceData
begin

text \<open>
  The services a rule or a flow may name (\<open>RuleService\<close> of \<open>crates/irori-rules/src/rule.rs\<close>): the
  standard ones and \<open>toggle\<close>, what data they take, and a light's \<open>brightness_pct\<close>.  With them the
  \<open>service_table\<close> that the flow documents are checked against is the code's own: only the
  ranges of numeric fields, which the source reads off a generated JSON Schema, stay a parameter.

  An entity of the registry, and what its capabilities must satisfy (\<open>registry.rs\<close>).
\<close>

section \<open>Naming a service\<close>

definition toggle_action :: string where
  "toggle_action = ''toggle''"

definition can_toggle :: "entity_kind \<Rightarrow> bool" where
  "can_toggle k = (toggle k None \<noteq> None)"

definition rule_service_of :: "entity_kind \<Rightarrow> string \<Rightarrow> rule_service option" where
  "rule_service_of k a =
     (if a = toggle_action then (if can_toggle k then Some \<lparr>rs_kind = k, rs_action = toggle_action\<rparr> else None)
      else if a \<in> set (kind_actions k) then Some \<lparr>rs_kind = k, rs_action = a\<rparr> else None)"

definition rule_services_of :: "entity_kind \<Rightarrow> rule_service list" where
  "rule_services_of k =
     map (\<lambda>a. \<lparr>rs_kind = k, rs_action = a\<rparr>) (kind_actions k)
     @ (if can_toggle k then [\<lparr>rs_kind = k, rs_action = toggle_action\<rparr>] else [])"

definition rule_service_parse :: "string \<Rightarrow> rule_service res" where
  "rule_service_parse t =
     (let unknown = Err (Msg ''there's no service `{}`'' [plain t])
      in (case split_once CHR ''.'' t of
            None \<Rightarrow> unknown
          | Some (d, a) \<Rightarrow>
              (case from_domain d of
                 None \<Rightarrow> unknown
               | Some k \<Rightarrow>
                   (case rule_service_of k a of
                      Some s \<Rightarrow> Ok s
                    | None \<Rightarrow>
                        if a = toggle_action then Err (Msg ''a {} can't be toggled'' [plain (domain k)])
                        else unknown))))"

section \<open>Its data\<close>

definition is_toggle :: "rule_service \<Rightarrow> bool" where
  "is_toggle s = (rs_action s = toggle_action)"

definition has_turn_on :: "entity_kind \<Rightarrow> bool" where
  "has_turn_on k = (''turn_on'' \<in> set (kind_actions k))"

definition rule_takes_data :: "rule_service \<Rightarrow> bool" where
  "rule_takes_data s =
     (if is_toggle s then has_turn_on (rs_kind s) \<and> takes_data (rs_kind s) ''turn_on''
      else takes_data (rs_kind s) (rs_action s))"

definition brightness_pct :: string where
  "brightness_pct = ''brightness_pct''"

definition scale_brightness :: "nat \<Rightarrow> nat" where
  "scale_brightness pct = max 1 (min 255 ((pct * 255 + 50) div 100))"

definition brightness_from_pct :: "entity_kind \<Rightarrow> string \<Rightarrow> obj \<Rightarrow> obj res" where
  "brightness_from_pct k a data =
     (if \<not> (k = K_Light \<and> a = ''turn_on'') then Ok data
      else
        (case oget brightness_pct data of
           None \<Rightarrow> Ok data
         | Some pct \<Rightarrow>
             let data' = odel brightness_pct data in
             if oget ''brightness'' data' \<noteq> None then
               Err (plain ''not both `brightness` and `brightness_pct`; pick one'')
             else
               (case json_as_u64 pct of
                  None \<Rightarrow> Err (plain ''brightness_pct must be from 1 to 100'')
                | Some p \<Rightarrow>
                    if 1 \<le> p \<and> p \<le> 100 then
                      Ok (oput ''brightness'' (JInt (int (scale_brightness p))) data')
                    else Err (plain ''brightness_pct must be from 1 to 100''))))"

text \<open>\<open>RuleService::service\<close>: \<open>None\<close> for a toggle, whose data is checked as its \<open>turn_on\<close>'s.\<close>

definition rule_service_build :: "date_library \<Rightarrow> rule_service \<Rightarrow> call_data option \<Rightarrow> service option res" where
  "rule_service_build jt s data =
     (let d = unwrap_or data [];
          k = rs_kind s
      in if is_toggle s then
           (if d = [] then Ok None
            else if has_turn_on k \<and> takes_data k ''turn_on'' then
              and_then (brightness_from_pct k ''turn_on'' d) (\<lambda>d'.
              and_then (from_data jt k ''turn_on'' d') (\<lambda>on.
              and_then (service_validate on) (\<lambda>_. Ok None)))
            else Err (Msg ''{} does not take data'' [plain (rule_service_text s)]))
         else
           and_then (brightness_from_pct k (rs_action s) d) (\<lambda>d'.
           and_then (from_data jt k (rs_action s) d') (\<lambda>sv.
           and_then (service_validate sv) (\<lambda>_. Ok (Some sv)))))"

definition rule_validate_data :: "date_library \<Rightarrow> rule_service \<Rightarrow> call_data option \<Rightarrow> unit res" where
  "rule_validate_data jt s data =
     (if data \<noteq> None \<and> \<not> rule_takes_data s then
        Err (Msg ''{} does not take data'' [plain (rule_service_text s)])
      else if is_some_and data (\<lambda>d. oget ''code'' d \<noteq> None) then
        Err (Msg ''{} can't carry a `code` yet: a rule file is no place to keep one''
              [plain (rule_service_text s)])
      else and_then (rule_service_build jt s data) (\<lambda>_. Ok ()))"

text \<open>\<open>number_field\<close>: a light's own ranges, or what the schema says of the service's field.\<close>

type_synonym schema_numbers = "entity_kind \<Rightarrow> string \<Rightarrow> string \<Rightarrow> number_field option"

definition whole_field :: "rat \<Rightarrow> rat \<Rightarrow> number_field" where
  "whole_field low high = \<lparr>nf_min = Some (Fin low), nf_max = Some (Fin high), nf_integer = True\<rparr>"

definition rule_number_field :: "schema_numbers \<Rightarrow> rule_service \<Rightarrow> string \<Rightarrow> number_field option" where
  "rule_number_field sn s field =
     (let k = rs_kind s;
          a = (if is_toggle s then ''turn_on'' else rs_action s)
      in if is_toggle s \<and> \<not> has_turn_on k then None
         else if k = K_Light \<and> a = ''turn_on'' then
           (if field = ''brightness'' then Some (whole_field 1 255)
            else if field = brightness_pct then Some (whole_field 1 100)
            else if field = ''color_temp_kelvin'' then Some (whole_field 1000 20000)
            else None)
         else sn k a field)"

definition standard_services :: "date_library \<Rightarrow> schema_numbers \<Rightarrow> service_table" where
  "standard_services jt sn =
     \<lparr>sv_takes_data = rule_takes_data,
      sv_number_field = rule_number_field sn,
      sv_validate_data = rule_validate_data jt\<rparr>"

section \<open>Entities\<close>

datatype entity_category = Config | Diagnostic

record entity =
  en_id :: string
  en_protocol :: string
  en_unique_id :: string
  en_name :: string
  en_device_id :: "string option"
  en_area_id :: "string option"
  en_capabilities :: capabilities
  en_category :: "entity_category option"

text \<open>The rules of each kind's capabilities.\<close>

definition max_options :: nat where "max_options = 256"
definition max_option_len :: nat where "max_option_len = 255"

fun check_options_from :: "string list \<Rightarrow> string list \<Rightarrow> unit res" where
  "check_options_from seen [] = Ok ()"
| "check_options_from seen (t # ts) =
     (if \<not> not_blank t \<or> max_option_len < length (chars_of t) then
        Err (Msg ''option {:?} must be 1-{} characters and not blank'' [plain t, nat_msg max_option_len])
      else if t \<in> set seen then Err (Msg ''option {:?} is listed twice'' [plain t])
      else check_options_from (seen @ [t]) ts)"

definition validate_options :: "string list \<Rightarrow> unit res" where
  "validate_options os =
     (if max_options < length os then
        Err (Msg ''{} options is too many; at most {}'' [nat_msg (length os), nat_msg max_options])
      else check_options_from [] os)"

definition color_temp_validate :: "color_temp_range \<Rightarrow> unit res" where
  "color_temp_validate r =
     (let valid = (\<lambda>k. 1000 \<le> k \<and> k \<le> (20000::nat))
      in and_then (require (valid (ctr_min r) \<and> valid (ctr_max r))
           (Msg ''color temperature range {}-{} K must be within 1000-20000 K''
             [nat_msg (ctr_min r), nat_msg (ctr_max r)])) (\<lambda>_.
         require (ctr_min r \<le> ctr_max r)
           (Msg ''color temperature range has min {} K above max {} K''
             [nat_msg (ctr_min r), nat_msg (ctr_max r)])))"

definition sensor_caps_validate :: "sensor_caps \<Rightarrow> unit res" where
  "sensor_caps_validate c =
     and_then (validate_options (sc_options c)) (\<lambda>_.
     require (\<not> (sc_options c \<noteq> [] \<and> sc_value_type c \<noteq> SensorIsText))
       (plain ''options are for a sensor that reports text; this one reports numbers''))"

definition number_caps_validate :: "number_caps \<Rightarrow> unit res" where
  "number_caps_validate c =
     and_then (require (f64_is_finite (nc_min c) \<and> f64_is_finite (nc_max c) \<and> f64_is_finite (nc_step c))
       (plain ''a number's min, max and step must be finite'')) (\<lambda>_.
     and_then (require (\<not> f64_lt (nc_max c) (nc_min c))
       (Msg ''a number's min {} is above its max {}'' [f64_msg (nc_min c), f64_msg (nc_max c)])) (\<lambda>_.
     require (\<not> f64_le (nc_step c) (Fin 0))
       (Msg ''a number's step must be above zero, not {}'' [f64_msg (nc_step c)])))"

definition select_caps_validate :: "string list \<Rightarrow> unit res" where
  "select_caps_validate os =
     and_then (require (os \<noteq> []) (plain ''a select needs at least one option'')) (\<lambda>_. validate_options os)"

definition max_text_length :: nat where "max_text_length = 255"

definition text_caps_validate :: "text_caps \<Rightarrow> unit res" where
  "text_caps_validate c =
     and_then (require (tc_max_length c \<le> max_text_length)
       (Msg ''a text's max_length is at most {}, not {}'' [nat_msg max_text_length, nat_msg (tc_max_length c)])) (\<lambda>_.
     require (tc_min_length c \<le> tc_max_length c)
       (Msg ''a text's min_length {} is above its max_length {}''
         [nat_msg (tc_min_length c), nat_msg (tc_max_length c)]))"

definition event_caps_validate :: "event_caps \<Rightarrow> unit res" where
  "event_caps_validate c =
     and_then (require (ec_event_types c \<noteq> []) (plain ''an event needs at least one event type'')) (\<lambda>_.
     validate_options (ec_event_types c))"

definition humidity_range_validate :: "humidity_range \<Rightarrow> string \<Rightarrow> unit res" where
  "humidity_range_validate r whose =
     require (f64_within 0 100 (hr_min r) \<and> f64_within 0 100 (hr_max r) \<and> \<not> f64_lt (hr_max r) (hr_min r))
       (Msg ''{} humidity range is {}-{}%, which isn't within 0-100%''
         [plain whose, f64_msg (hr_min r), f64_msg (hr_max r)])"

definition validate_temperatures :: "f64 \<Rightarrow> f64 \<Rightarrow> f64 option \<Rightarrow> string \<Rightarrow> unit res" where
  "validate_temperatures low high step whose =
     and_then (require (f64_is_finite low \<and> f64_is_finite high \<and> \<not> f64_lt high low)
       (Msg ''{} temperatures go from {} to {} C, which isn't a range'' [plain whose, f64_msg low, f64_msg high])) (\<lambda>_.
     check_some step (\<lambda>s. f64_is_finite s \<and> f64_lt (Fin 0) s)
       (\<lambda>s. Msg ''{} temperature step must be above zero, not {}'' [plain whose, f64_msg s]))"

definition climate_caps_validate :: "climate_caps \<Rightarrow> unit res" where
  "climate_caps_validate c =
     and_then (require (mc_hvac_modes c \<noteq> []) (plain ''a climate entity has at least one mode'')) (\<lambda>_.
     and_then (validate_temperatures (mc_min_temp c) (mc_max_temp c) (Some (mc_temp_step c)) ''its'') (\<lambda>_.
     and_then (case mc_target_humidity c of None \<Rightarrow> Ok () | Some r \<Rightarrow> humidity_range_validate r ''its target'') (\<lambda>_.
     check_each validate_options [mc_fan_modes c, mc_swing_modes c, mc_preset_modes c])))"

definition water_heater_caps_validate :: "water_heater_caps \<Rightarrow> unit res" where
  "water_heater_caps_validate c =
     and_then (require (wc_operation_modes c \<noteq> []) (plain ''a water heater has at least one mode'')) (\<lambda>_.
     validate_temperatures (wc_min_temp c) (wc_max_temp c) (Some (wc_temp_step c)) ''its'')"

definition humidifier_caps_validate :: "humidifier_caps \<Rightarrow> unit res" where
  "humidifier_caps_validate c =
     and_then (humidity_range_validate (hc_humidity c) ''its'') (\<lambda>_. validate_options (hc_modes c))"

fun caps_validate :: "capabilities \<Rightarrow> unit res" where
  "caps_validate (C_Light c) =
     (case lc_color_temp c of Some r \<Rightarrow> color_temp_validate r | None \<Rightarrow> Ok ())"
| "caps_validate (C_Sensor c) = sensor_caps_validate c"
| "caps_validate (C_Number c) = number_caps_validate c"
| "caps_validate (C_Select os) = select_caps_validate os"
| "caps_validate (C_Text c) = text_caps_validate c"
| "caps_validate (C_Event c) = event_caps_validate c"
| "caps_validate (C_Fan c) = validate_options (fc_preset_modes c)"
| "caps_validate (C_Siren c) = validate_options (rc_tones c)"
| "caps_validate (C_Climate c) = climate_caps_validate c"
| "caps_validate (C_WaterHeater c) = water_heater_caps_validate c"
| "caps_validate (C_Humidifier c) = humidifier_caps_validate c"
| "caps_validate _ = Ok ()"

definition entity_validate :: "entity \<Rightarrow> unit res" where
  "entity_validate e =
     (let id_kind = entity_id_kind (en_id e); caps = caps_kind (en_capabilities e)
      in and_then (require (id_kind = Some caps)
           (Msg ''entity `{}` is a {}, but its capabilities are for a {}''
             [plain (en_id e), plain (case id_kind of Some k \<Rightarrow> domain k | None \<Rightarrow> []), plain (domain caps)])) (\<lambda>_.
         caps_validate (en_capabilities e)))"

section \<open>Counting a number up and down\<close>

text \<open>\<open>units::round_to\<close>, and \<open>stepped\<close>: the value an increment or a decrement comes to.\<close>

fun round_to :: "f64 \<Rightarrow> nat \<Rightarrow> f64" where
  "round_to (Fin r) p =
     Fin (f64_nearest (of_int (round_half_away (f64_nearest (r * 10 ^ p))) / 10 ^ p))"
| "round_to v p = v"

definition stepped :: "number_caps \<Rightarrow> f64 option \<Rightarrow> number_service \<Rightarrow> f64 res option" where
  "stepped c cur s =
     (let go = (\<lambda>by_how up.
          case cur of
            None \<Rightarrow> Err (plain ''hasn't said its value yet, so there's nothing to count from'')
          | Some v \<Rightarrow>
              let d = unwrap_or by_how (nc_step c);
                  value = (if up then f64_add v d else f64_sub v d)
              in Ok (f64_clamp (round_to value 6) (nc_min c) (nc_max c)))
      in (case s of
            NumberIncrement d \<Rightarrow> Some (go d True)
          | NumberDecrement d \<Rightarrow> Some (go d False)
          | NumberSetValue _ \<Rightarrow> None))"

section \<open>Lemmas\<close>

lemma rule_service_of_iff:
  "s \<in> set (rule_services_of k) \<longleftrightarrow> rule_service_of (rs_kind s) (rs_action s) = Some s \<and> rs_kind s = k"
proof -
  have no: "toggle_action \<notin> set (kind_actions k)" by (cases k) (simp_all add: toggle_action_def)
  show ?thesis
    using no by (cases s) (auto simp: rule_services_of_def rule_service_of_def)
qed

text \<open>C25. A service named in a rule is written and read back: its text parses to it, for every
  service a kind has and for the \<open>toggle\<close> of a kind that can be toggled.\<close>

theorem rule_service_reads_back:
  assumes "s \<in> set (rule_services_of k)"
  shows "rule_service_parse (rule_service_text s) = Ok s"
proof -
  have "rule_service_of (rs_kind s) (rs_action s) = Some s"
    by (rule conjunct1 [OF iffD1 [OF rule_service_of_iff assms]])
  then show ?thesis
    using domain_no_dot [of "rs_kind s"]
    by (simp add: rule_service_parse_def rule_service_text_def split_once_append)
qed

lemma rule_service_reads_back_witness:
  "rule_service_parse ''cover.toggle'' = Ok \<lparr>rs_kind = K_Cover, rs_action = ''toggle''\<rparr>"
  using rule_service_reads_back [of "\<lparr>rs_kind = K_Cover, rs_action = ''toggle''\<rparr>" K_Cover]
  by (simp add: rule_services_of_def toggle_action_def can_toggle_def toggle_def rule_service_text_def)

lemma f64_clamp_takes:
  assumes "number_caps_validate c = Ok ()" and "v \<noteq> NaN"
  shows "number_takes c (f64_clamp v (nc_min c) (nc_max c)) = Ok ()"
proof -
  obtain a b where ab: "nc_min c = Fin a" "nc_max c = Fin b" "a \<le> b"
    using assms(1)
    by (cases "nc_min c"; cases "nc_max c") (auto simp: number_caps_validate_def and_then_Inr_iff)
  then show ?thesis
    using assms(2) by (cases v) (auto simp: number_takes_def f64_clamp_def)
qed

text \<open>C26. Counting a number up or down stays in range: when the entity's limits are sound and the
  value and the amount are numbers, what \<open>stepped\<close> asks for is a value the entity takes, however
  far the step would have gone.\<close>

theorem stepped_stays_in_range:
  assumes "number_caps_validate c = Ok ()" and "f64_is_finite v"
    and "s = NumberIncrement d \<or> s = NumberDecrement d" and "number_step_validate d = Ok ()"
  shows "\<exists>w. stepped c (Some v) s = Some (Ok w) \<and> number_takes c w = Ok ()"
proof -
  have "f64_is_finite (unwrap_or d (nc_step c))"
    using assms(1,4)
    by (cases d) (auto simp: number_caps_validate_def number_step_validate_def and_then_Inr_iff)
  then obtain x y where xy: "unwrap_or d (nc_step c) = Fin x" "v = Fin y"
    using assms(2) by (cases "unwrap_or d (nc_step c)"; cases v) auto
  then show ?thesis
    using assms(3) f64_clamp_takes [OF assms(1)]
    by (auto simp: stepped_def f64_add_def Let_def)
qed

lemma stepped_stays_in_range_witness:
  "\<exists>w. stepped \<lparr>nc_min = Fin 0, nc_max = Fin 10, nc_step = Fin 3, nc_unit = None, nc_device_class = None, nc_mode = []\<rparr>
         (Some (Fin 9)) (NumberIncrement None) = Some (Ok w)
       \<and> number_takes \<lparr>nc_min = Fin 0, nc_max = Fin 10, nc_step = Fin 3, nc_unit = None, nc_device_class = None, nc_mode = []\<rparr> w
         = Ok ()"
  by (rule stepped_stays_in_range [where d = None])
     (simp_all add: number_caps_validate_def number_step_validate_def check_some_def)

end
