(* ===== verification/RuleChecks.thy ===== *)
theory RuleChecks
  imports Eval RuleServices
begin

text \<open>
  The static checks of rules and flows against the home (\<open>crates/irori-rules/src/validate.rs\<close>):
  expressions are parsed, kept inside an allowed surface and typed; triggers, conditions, waits
  and calls are checked against the capabilities of the entities they name.

  The parser of the expression language is a library, so a \<open>parser\<close> from the rewritten text to a
  syntax tree is a parameter.  The tree holds what the code looks at.  Problems keep their
  reasons as messages.
\<close>

section \<open>Expressions\<close>

datatype cel_expr =
    XUnspecified
  | XBool bool
  | XNumber f64
  | XText string
  | XNullOrBytes
  | XIdent string
  | XCollection
  | XSelect
  | XComprehension
  | XCall (x_name: string) (x_target: "cel_expr option") (x_args: "cel_expr list")

type_synonym parser = "nat list \<Rightarrow> cel_expr res"

datatype var_kind = KBool | KNumber | KString | KScalar

type_synonym var_kinds = "(string, var_kind) omap"

text \<open>What the checks know of the home.\<close>

record registry_view =
  rv_entity :: "string \<Rightarrow> entity option"
  rv_timezone :: bool
  rv_location :: bool

text \<open>The map the tests and the server hand in.\<close>

definition map_registry :: "(string, entity) omap \<Rightarrow> bool \<Rightarrow> bool \<Rightarrow> registry_view" where
  "map_registry es tz loc = \<lparr>rv_entity = (\<lambda>i. oget i es), rv_timezone = tz, rv_location = loc\<rparr>"

definition entity_fns :: "string list" where
  "entity_fns = [''num'', ''on'', ''text'', ''brightness'', ''available'', ''unknown'', ''attr'']"

definition clock_fns :: "string list" where
  "clock_fns = [''hour'', ''minute'', ''now_ts'']"

definition math_fns :: "string list" where
  "math_fns = [''min'', ''max'', ''round'', ''clamp'']"

definition binary_ops :: "string list" where
  "binary_ops = [''_&&_'', ''_||_'', ''_+_'', ''_-_'', ''_*_'', ''_/_'', ''_==_'', ''_!=_'', ''_>=_'',
     ''_<=_'', ''_>_'', ''_<_'']"

definition cel_ops :: "string list" where
  "cel_ops = [''_&&_'', ''_||_'', ''!_'', ''_+_'', ''_-_'', ''_*_'', ''_/_'', ''_==_'', ''_!=_'', ''_>=_'',
     ''_<=_'', ''_>_'', ''_<_'', ''-_'', ''_?_:_'']"

definition author_name :: "string \<Rightarrow> string" where
  "author_name n = (if n = ''irori_var'' then ''var'' else n)"

fun string_literal :: "cel_expr \<Rightarrow> string option" where
  "string_literal (XText s) = Some s"
| "string_literal _ = None"

definition arity_of :: "string \<Rightarrow> nat \<Rightarrow> nat option" where
  "arity_of name n =
     (if name \<in> {''num'', ''on'', ''text''} \<and> n = 2 then Some 2
      else if name \<in> {''num'', ''on'', ''text'', ''brightness'', ''available'', ''unknown'', ''var''} then Some 1
      else if name \<in> {''attr'', ''min'', ''max''} then Some 2
      else if name = ''round'' then Some 1
      else if name = ''clamp'' then Some 3
      else if name \<in> set clock_fns then Some 0
      else if name = ''!_'' \<or> name = ''-_'' then Some 1
      else if name \<in> set binary_ops then Some 2
      else if name = ''_?_:_'' then Some 3
      else None)"

definition check_arity :: "string \<Rightarrow> nat \<Rightarrow> unit res" where
  "check_arity name n =
     (case arity_of name n of
        None \<Rightarrow> Ok ()
      | Some expected \<Rightarrow>
          require (n = expected)
            (Msg ''{}() takes {} argument(s), not {}'' [plain name, nat_msg expected, nat_msg n]))"

subsection \<open>Calls against the home\<close>

fun shape_says :: "value_shape \<Rightarrow> string" where
  "shape_says ShapeNumber = ''a number''"
| "shape_says ShapeBool = ''on/off''"
| "shape_says ShapeText = ''text''"

fun shape_fn :: "value_shape \<Rightarrow> string" where
  "shape_fn ShapeNumber = ''num''"
| "shape_fn ShapeBool = ''on''"
| "shape_fn ShapeText = ''text''"

definition no_entity :: "string \<Rightarrow> string \<Rightarrow> 'a res" where
  "no_entity name i = Err (Msg ''{}({:?}): no such entity - check the entity id'' [plain name, plain i])"

definition kind_msg :: "entity \<Rightarrow> msg" where
  "kind_msg e = plain (domain (caps_kind (en_capabilities e)))"

fun has_brightness :: "capabilities \<Rightarrow> bool option" where
  "has_brightness (C_Light l) = Some (lc_brightness l)"
| "has_brightness _ = None"

definition check_fn_against_registry :: "string \<Rightarrow> string \<Rightarrow> registry_view \<Rightarrow> unit res" where
  "check_fn_against_registry name i rv =
     (case rv_entity rv i of
        None \<Rightarrow> no_entity name i
      | Some e \<Rightarrow>
          (case primary_shape (en_capabilities e) of
             None \<Rightarrow>
               if name \<in> {''num'', ''text'', ''on'', ''brightness''} then
                 Err (Msg ''{}({:?}): entity is a {}, which has no value to read'' [plain name, plain i, kind_msg e])
               else Ok ()
           | Some shape \<Rightarrow>
               if name = ''num'' then
                 (if shape = ShapeNumber then Ok ()
                  else Err (Msg ''num({:?}): entity is {}, not a numeric sensor - use {}({:?})''
                        [plain i, kind_msg e, plain (if shape = ShapeText then ''text'' else ''on''), plain i]))
               else if name = ''text'' then
                 (if shape = ShapeText then Ok ()
                  else Err (Msg ''text({:?}): entity is not a text sensor'' [plain i]))
               else if name = ''on'' then
                 (if shape = ShapeBool then Ok ()
                  else if shape = ShapeText then
                    Err (Msg ''on({:?}): entity is text, not on/off - use text({:?})'' [plain i, plain i])
                  else Err (Msg ''on({:?}): entity is a number, not on/off - use num({:?})'' [plain i, plain i]))
               else if name = ''brightness'' then
                 (case has_brightness (en_capabilities e) of
                    Some True \<Rightarrow> Ok ()
                  | Some False \<Rightarrow> Err (Msg ''brightness({:?}): this light is not dimmable'' [plain i])
                  | None \<Rightarrow> Err (Msg ''brightness({:?}): entity is not a light'' [plain i]))
               else Ok ()))"

definition field_names :: "capabilities \<Rightarrow> string" where
  "field_names caps = joined (map fd_name (caps_fields caps))"

definition check_field_against_registry :: "string \<Rightarrow> string \<Rightarrow> string \<Rightarrow> registry_view \<Rightarrow> unit res" where
  "check_field_against_registry name i field rv =
     (case rv_entity rv i of
        None \<Rightarrow>
          Err (Msg ''{}({:?}, {:?}): no such entity - check the entity id'' [plain name, plain i, plain field])
      | Some e \<Rightarrow>
          let caps = en_capabilities e;
              wanted = (if name = ''num'' then ShapeNumber else if name = ''on'' then ShapeBool else ShapeText)
          in (case field_shape caps field of
                Some shape \<Rightarrow>
                  if shape = wanted then Ok ()
                  else Err (Msg ''{}({:?}, {:?}): {} is {} - use {}({:?}, {:?})''
                        [plain name, plain i, plain field, plain field, plain (shape_says shape),
                         plain (shape_fn shape), plain i, plain field])
              | None \<Rightarrow>
                  if caps_fields caps = [] then
                    Err (Msg ''{}({:?}, {:?}): a {} has only its main value - use {}({:?})''
                      [plain name, plain i, plain field, kind_msg e, plain name, plain i])
                  else Err (Msg ''{}({:?}, {:?}): it has no {}; it has: {}''
                      [plain name, plain i, plain field, plain field, plain (field_names caps)])))"

text \<open>\<open>text_can_be\<close>, \<open>text_of\<close> and \<open>check_text_comparison\<close>: what a text is compared with must be
  something the entity can say.\<close>

definition text_can_be :: "entity \<Rightarrow> string \<Rightarrow> unit res" where
  "text_can_be e t =
     (case text_options (en_capabilities e) of
        Some os \<Rightarrow>
          require (t \<in> set os)
            (Msg ''{} is never {:?}; it is one of: {}'' [plain (en_id e), plain t, plain (joined os)])
      | None \<Rightarrow> Ok ())"

fun text_of :: "cel_expr \<Rightarrow> string option" where
  "text_of (XCall name target [arg]) = (if author_name name = ''text'' then string_literal arg else None)"
| "text_of _ = None"

definition compared_text :: "cel_expr list \<Rightarrow> (string \<times> string) option" where
  "compared_text args =
     (case args of
        [left, right] \<Rightarrow>
          (case (text_of left, string_literal right) of
             (Some i, Some t) \<Rightarrow> Some (i, t)
           | _ \<Rightarrow>
               (case (text_of right, string_literal left) of
                  (Some i, Some t) \<Rightarrow> Some (i, t)
                | _ \<Rightarrow> None))
      | _ \<Rightarrow> None)"

definition check_text_comparison :: "cel_expr list \<Rightarrow> registry_view \<Rightarrow> unit res" where
  "check_text_comparison args rv =
     (case compared_text args of
        None \<Rightarrow> Ok ()
      | Some (i, t) \<Rightarrow>
          (case entity_id_parse i of
             Inl _ \<Rightarrow> Ok ()
           | Inr _ \<Rightarrow> (case rv_entity rv i of Some e \<Rightarrow> text_can_be e t | None \<Rightarrow> Ok ())))"

section \<open>Walking an expression\<close>

text \<open>What a walk gathers: the entities read, in order, and whether the clock is.\<close>

type_synonym seen = "string list \<times> bool"

definition forbidden_call :: "string \<Rightarrow> unit res" where
  "forbidden_call name =
     and_then (require (name \<notin> {''has'', ''duration'', ''timestamp''})
       (Msg ''{}() isn't allowed in rule expressions'' [plain name])) (\<lambda>_.
     require (name \<notin> {''map'', ''filter'', ''exists'', ''exists_one'', ''all''})
       (plain ''macros like map/filter/exists aren't allowed''))"

text \<open>A call of a function that reads an entity; the second argument names a field, or an
  attribute.\<close>

definition entity_call :: "registry_view \<Rightarrow> string \<Rightarrow> cel_expr list \<Rightarrow> seen \<Rightarrow> seen res" where
  "entity_call rv name args acc =
     (case args of
        [] \<Rightarrow> Err (Msg ''{}() needs a string literal entity id'' [plain name])
      | first # rest \<Rightarrow>
          (case string_literal first of
             None \<Rightarrow> Err (Msg ''{}() needs a string literal entity id, not an expression'' [plain name])
           | Some i \<Rightarrow>
               and_then (entity_id_parse i) (\<lambda>_.
               let acc' = (oset_ins i (fst acc), snd acc) in
               if name = ''attr'' then
                 (if rv_entity rv i = None then no_entity name i
                  else
                    (case Option.bind (case rest of [] \<Rightarrow> None | second # _ \<Rightarrow> Some second) string_literal of
                       None \<Rightarrow> Err (plain ''attr() needs a string literal key, not an expression'')
                     | Some key \<Rightarrow> and_then (check_slug ''attribute key'' key) (\<lambda>_. Ok acc')))
               else
                 (case rest of
                    [] \<Rightarrow> and_then (check_fn_against_registry name i rv) (\<lambda>_. Ok acc')
                  | second # _ \<Rightarrow>
                      (case string_literal second of
                         None \<Rightarrow> Err (Msg ''{}() needs a string literal field name, not an expression'' [plain name])
                       | Some field \<Rightarrow>
                           and_then (check_field_against_registry name i field rv) (\<lambda>_. Ok acc'))))))"

definition var_call :: "var_kinds \<Rightarrow> cel_expr list \<Rightarrow> unit res" where
  "var_call sets args =
     (case args of
        [] \<Rightarrow> Err (plain ''var() needs a string literal name'')
      | first # _ \<Rightarrow>
          (case string_literal first of
             None \<Rightarrow> Err (plain ''var() needs a string literal name, not an expression'')
           | Some v \<Rightarrow>
               and_then (check_slug ''object id'' v) (\<lambda>_.
               require (oget v sets \<noteq> None)
                 (Msg ''var({:?}): no set for this name in the rule'' [plain v]))))"

text \<open>One call, its arguments apart.\<close>

definition walk_call :: "registry_view \<Rightarrow> var_kinds \<Rightarrow> string \<Rightarrow> cel_expr list \<Rightarrow> seen \<Rightarrow> seen res" where
  "walk_call rv sets name args acc =
     and_then (forbidden_call name) (\<lambda>_.
     let acc' = (fst acc, snd acc \<or> name \<in> set clock_fns) in
     and_then (check_arity name (length args)) (\<lambda>_.
     and_then (if name = ''_==_'' \<or> name = ''_!=_'' then check_text_comparison args rv else Ok ()) (\<lambda>_.
     if name \<in> set entity_fns then entity_call rv name args acc'
     else if name = ''var'' then and_then (var_call sets args) (\<lambda>_. Ok acc')
     else if name \<in> set cel_ops \<or> name \<in> set clock_fns \<or> name \<in> set math_fns then Ok acc'
     else Err (Msg ''unknown function {}()'' [plain name]))))"

fun walk_ast :: "registry_view \<Rightarrow> var_kinds \<Rightarrow> cel_expr \<Rightarrow> seen \<Rightarrow> seen res"
and walk_args :: "registry_view \<Rightarrow> var_kinds \<Rightarrow> cel_expr list \<Rightarrow> seen \<Rightarrow> seen res" where
  "walk_ast rv sets XUnspecified acc = Ok acc"
| "walk_ast rv sets (XBool _) acc = Ok acc"
| "walk_ast rv sets (XNumber _) acc = Ok acc"
| "walk_ast rv sets (XText _) acc = Ok acc"
| "walk_ast rv sets XNullOrBytes acc = Ok acc"
| "walk_ast rv sets (XIdent n) acc =
     Err (Msg ''unknown name {:?}; use num/on/... with a string literal entity id'' [plain n])"
| "walk_ast rv sets XCollection acc =
     Err (plain ''lists, maps, and structs aren't allowed in rule expressions'')"
| "walk_ast rv sets XSelect acc = Err (plain ''field access isn't allowed; use num/on/text/...'')"
| "walk_ast rv sets XComprehension acc = Err (plain ''macros like map/filter/exists aren't allowed'')"
| "walk_ast rv sets (XCall fn target args) acc =
     and_then (walk_call rv sets (author_name fn) args acc) (\<lambda>acc.
     and_then (walk_args rv sets args acc) (\<lambda>acc.
     case target of None \<Rightarrow> Ok acc | Some t \<Rightarrow> walk_ast rv sets t acc))"
| "walk_args rv sets [] acc = Ok acc"
| "walk_args rv sets (e # es) acc = and_then (walk_ast rv sets e acc) (walk_args rv sets es)"

section \<open>The kind of an expression\<close>

definition ternary_kind :: "var_kind \<Rightarrow> var_kind \<Rightarrow> var_kind res" where
  "ternary_kind left right =
     (if left = right then Ok left
      else if left = KScalar then Ok right
      else if right = KScalar then Ok left
      else Err (plain ''ternary branches must be the same type''))"

definition number_calls :: "string list" where
  "number_calls = [''num'', ''brightness'', ''hour'', ''minute'', ''now_ts'', ''_+_'', ''_-_'', ''_*_'', ''_/_'', ''-_'']"

definition bool_calls :: "string list" where
  "bool_calls = [''on'', ''available'', ''unknown'', ''_&&_'', ''_||_'', ''!_'', ''_==_'', ''_!=_'', ''_>=_'',
     ''_<=_'', ''_>_'', ''_<_'']"

text \<open>A call of none of these with no argument is typed as itself by the source, which never
  ends; \<open>endless\<close> stands for that.  \<open>inspect\<close> never gets there (\<open>inspect_is_never_endless\<close>).\<close>

definition endless :: "'a res" where
  "endless = Err (MInt 0)"

fun infer_type :: "var_kinds \<Rightarrow> cel_expr \<Rightarrow> var_kind res"
and infer_numbers :: "var_kinds \<Rightarrow> string \<Rightarrow> cel_expr list \<Rightarrow> unit res" where
  "infer_type sets (XBool _) = Ok KBool"
| "infer_type sets (XNumber _) = Ok KNumber"
| "infer_type sets (XText _) = Ok KString"
| "infer_type sets XNullOrBytes = Err (plain ''null and bytes literals aren't allowed in rule expressions'')"
| "infer_type sets (XCall fn target args) =
     (let name = author_name fn in
      if name \<in> set number_calls then Ok KNumber
      else if name \<in> set math_fns then and_then (infer_numbers sets name args) (\<lambda>_. Ok KNumber)
      else if name \<in> set bool_calls then Ok KBool
      else if name = ''text'' then Ok KString
      else if name = ''attr'' then Ok KScalar
      else if name = ''var'' then
        (case Option.bind (case args of [] \<Rightarrow> None | first # _ \<Rightarrow> Some first) string_literal of
           None \<Rightarrow> Err (plain ''var() needs a string literal name'')
         | Some v \<Rightarrow>
             (case oget v sets of
                Some k \<Rightarrow> Ok k
              | None \<Rightarrow> Err (Msg ''var({:?}): no set for this name in the rule'' [plain v])))
      else if name = ''_?_:_'' then
        (case args of
           _ # left # rest \<Rightarrow>
             and_then (infer_type sets left) (\<lambda>l.
             case rest of
               right # _ \<Rightarrow> and_then (infer_type sets right) (ternary_kind l)
             | [] \<Rightarrow> Err (plain ''ternary needs two branches''))
         | _ \<Rightarrow> Err (plain ''ternary needs two branches''))
      else (case args of first # _ \<Rightarrow> infer_type sets first | [] \<Rightarrow> endless))"
| "infer_type sets XUnspecified = Err (plain ''empty expression'')"
| "infer_type sets (XIdent _) = Err (plain ''this expression shape isn't allowed'')"
| "infer_type sets XCollection = Err (plain ''this expression shape isn't allowed'')"
| "infer_type sets XSelect = Err (plain ''this expression shape isn't allowed'')"
| "infer_type sets XComprehension = Err (plain ''this expression shape isn't allowed'')"
| "infer_numbers sets name [] = Ok ()"
| "infer_numbers sets name (e # es) =
     and_then (infer_type sets e) (\<lambda>k.
     if k = KNumber \<or> k = KScalar then infer_numbers sets name es
     else Err (Msg ''{}() takes numbers'' [plain name]))"

record inspected =
  in_ids :: "string list"
  in_uses_clock :: bool
  in_kind :: var_kind

text \<open>What parsing needs: which characters are letters or digits, and the parser.\<close>

record language =
  lg_alphanumeric :: "nat \<Rightarrow> bool"
  lg_parse :: parser

definition compile :: "language \<Rightarrow> expr_string \<Rightarrow> cel_expr res" where
  "compile lg e = lg_parse lg (rename_reserved (lg_alphanumeric lg) e)"

definition inspect :: "language \<Rightarrow> expr_string \<Rightarrow> registry_view \<Rightarrow> var_kinds \<Rightarrow> inspected res" where
  "inspect lg e rv sets =
     and_then (compile lg e) (\<lambda>ast.
     and_then (walk_ast rv sets ast ([], False)) (\<lambda>(ids, uses_clock).
     and_then (infer_type sets ast) (\<lambda>k.
     Ok \<lparr>in_ids = ids, in_uses_clock = uses_clock, in_kind = k\<rparr>)))"

text \<open>\<open>vars_read\<close>: the run variables an expression reads.\<close>

fun vars_in :: "cel_expr \<Rightarrow> string list"
and vars_in_args :: "cel_expr list \<Rightarrow> string list" where
  "vars_in (XCall fn target args) =
     (case Option.bind (case args of [] \<Rightarrow> None | first # _ \<Rightarrow> Some first) string_literal of
        Some v \<Rightarrow> if author_name fn = ''var'' then [v] else []
      | None \<Rightarrow> [])
     @ vars_in_args args @ (case target of None \<Rightarrow> [] | Some t \<Rightarrow> vars_in t)"
| "vars_in XUnspecified = []"
| "vars_in (XBool _) = []"
| "vars_in (XNumber _) = []"
| "vars_in (XText _) = []"
| "vars_in XNullOrBytes = []"
| "vars_in (XIdent _) = []"
| "vars_in XCollection = []"
| "vars_in XSelect = []"
| "vars_in XComprehension = []"
| "vars_in_args [] = []"
| "vars_in_args (e # es) = vars_in e @ vars_in_args es"

definition vars_read :: "language \<Rightarrow> expr_string \<Rightarrow> string list" where
  "vars_read lg e = (case compile lg e of Inl _ \<Rightarrow> [] | Inr ast \<Rightarrow> oset_of (vars_in ast))"

section \<open>Problems\<close>

record rule_problem =
  rp_path :: string
  rp_reason :: msg

definition problem_at :: "string \<Rightarrow> msg \<Rightarrow> rule_problem" where
  "problem_at path reason = \<lparr>rp_path = path, rp_reason = reason\<rparr>"

definition problem_of :: "string \<Rightarrow> 'a res \<Rightarrow> rule_problem list" where
  "problem_of path r = (case r of Inl m \<Rightarrow> [problem_at path m] | Inr _ \<Rightarrow> [])"

section \<open>What is compared\<close>

text \<open>\<open>read_shape\<close>: the shape of a named field, or of the main value, which some kinds have none of.\<close>

definition read_shape :: "capabilities \<Rightarrow> string option \<Rightarrow> value_shape option option" where
  "read_shape caps field =
     (case field of
        Some f \<Rightarrow> map_option Some (field_shape caps f)
      | None \<Rightarrow> Some (primary_shape caps))"

definition check_field :: "string \<Rightarrow> string \<Rightarrow> string option \<Rightarrow> registry_view \<Rightarrow> rule_problem list" where
  "check_field path i field rv =
     (case (field, rv_entity rv i) of
        (Some f, Some e) \<Rightarrow>
          (let caps = en_capabilities e in
           if field_shape caps f \<noteq> None then []
           else
             [problem_at (path @ ''/field'')
               (if caps_fields caps = [] then
                  Msg ''{} is a {}, which has only its main value; leave `field` out'' [plain i, kind_msg e]
                else Msg ''{} has no {}; it has: {}'' [plain i, plain f, plain (field_names caps)])])
      | _ \<Rightarrow> [])"

fun value_shape_of :: "typed_value \<Rightarrow> (value_shape \<times> string) option" where
  "value_shape_of VNull = None"
| "value_shape_of (VBool _) = Some (ShapeBool, ''a boolean'')"
| "value_shape_of (VNumber _) = Some (ShapeNumber, ''a number'')"
| "value_shape_of (VText _) = Some (ShapeText, ''a string'')"

definition typed_value_fits :: "typed_value \<Rightarrow> entity \<Rightarrow> string option \<Rightarrow> unit res" where
  "typed_value_fits v e field =
     (case value_shape_of v of
        None \<Rightarrow> Ok ()
      | Some (shape, what) \<Rightarrow>
          (case read_shape (en_capabilities e) field of
             None \<Rightarrow> Ok ()
           | Some None \<Rightarrow> Err (Msg ''{} is a {}, which has no value to compare'' [plain (en_id e), kind_msg e])
           | Some (Some has) \<Rightarrow>
               if has = shape then
                 (case (field, v) of (None, VText t) \<Rightarrow> text_can_be e t | _ \<Rightarrow> Ok ())
               else
                 (case field of
                    Some f \<Rightarrow> Err (Msg ''`is` is {}, but {}'s {} is {}''
                      [plain what, plain (en_id e), plain f, plain (shape_says has)])
                  | None \<Rightarrow> Err (Msg ''`is` is {}, but {} is a {}'' [plain what, plain (en_id e), kind_msg e]))))"

text \<open>\<open>check_state_match\<close>: \<open>to_field\<close> is given when a condition or a wait asks what the entity is.\<close>

definition check_state_match ::
  "string \<Rightarrow> string \<Rightarrow> string option \<Rightarrow> typed_value option \<Rightarrow> typed_value option \<Rightarrow> string option
   \<Rightarrow> registry_view \<Rightarrow> rule_problem list" where
  "check_state_match path i field was becomes to_field rv =
     (case rv_entity rv i of
        None \<Rightarrow> [problem_at path (Msg ''no such entity {} - check the entity id'' [plain i])]
      | Some e \<Rightarrow>
          (let over = counts_every_report (caps_kind (en_capabilities e)) in
           if over \<and> to_field \<noteq> None then
             [problem_at path
               (Msg ''{} is a {}: each one happens and is over, so there's nothing it stays at to check. Start the flow from it with a trigger instead''
                 [plain i, kind_msg e])]
           else if over \<and> was \<noteq> None then
             [problem_at (path @ ''/from'') (Msg ''{} is a {}: it has no value to have changed from'' [plain i, kind_msg e])]
           else
             (case was of
                Some v \<Rightarrow> problem_of (path @ ''/from'') (typed_value_fits v e field) | None \<Rightarrow> [])
             @ (case becomes of
                  Some v \<Rightarrow>
                    problem_of (path @ ''/'' @ unwrap_or to_field ''to'') (typed_value_fits v e field)
                | None \<Rightarrow> [])))"

section \<open>Triggers\<close>

definition needs_zone :: msg where
  "needs_zone = plain ''time triggers need the home's time zone; set the time zone in Settings -> Location and time zone''"

definition check_sun_gate :: "string \<Rightarrow> registry_view \<Rightarrow> rule_problem list" where
  "check_sun_gate path rv =
     (if rv_timezone rv then []
      else [problem_at path (plain ''the sun needs the home's time zone; set the time zone in Settings -> Location and time zone'')])
     @ (if rv_location rv then []
        else [problem_at path (plain ''the sun needs to know where the home is; set the location in Settings -> Location and time zone'')])"

text \<open>A press or a ring happens and is over: it can't be held, or be above or below.\<close>

definition check_occurrence :: "string \<Rightarrow> state_trigger \<Rightarrow> registry_view \<Rightarrow> rule_problem list" where
  "check_occurrence here t rv =
     (case rv_entity rv (st_entity t) of
        None \<Rightarrow> []
      | Some e \<Rightarrow>
          if counts_every_report (caps_kind (en_capabilities e)) then
            concat (map (\<lambda>(given, field, why).
                if given then
                  [problem_at (here @ ''/'' @ field) (Msg ''{} is a {}: {}'' [plain (st_entity t), kind_msg e, plain why])]
                else [])
              [(st_hold t \<noteq> None, ''for'', ''it happens and is over, so it can't hold for a time''),
               (st_above t \<noteq> None, ''above'', ''it isn't a number''),
               (st_below t \<noteq> None, ''below'', ''it isn't a number'')])
          else [])"

definition never_changes :: "state_trigger \<Rightarrow> bool" where
  "never_changes t =
     (case (st_from t, st_to t) of
        (Some was, Some becomes) \<Rightarrow>
          (case (vals_list was, vals_list becomes) of
             ([a], [b]) \<Rightarrow> typed_value_eq a b
           | _ \<Rightarrow> False)
      | _ \<Rightarrow> False)"

definition check_level :: "string \<Rightarrow> state_trigger \<Rightarrow> registry_view \<Rightarrow> rule_problem list" where
  "check_level here t rv =
     (if st_above t = None \<and> st_below t = None then []
      else
        (case rv_entity rv (st_entity t) of
           None \<Rightarrow> []
         | Some e \<Rightarrow>
             (case read_shape (en_capabilities e) (st_field t) of
                None \<Rightarrow> []
              | Some shape \<Rightarrow>
                  if shape = Some ShapeNumber then []
                  else
                    [problem_at here
                      (case st_field t of
                         Some f \<Rightarrow> Msg ''above and below are for a number, and {}'s {} isn't one''
                           [plain (st_entity t), plain f]
                       | None \<Rightarrow> Msg ''above and below are for a sensor with numbers, and {} is a {}''
                           [plain (st_entity t), kind_msg e])])))"

definition vals_of :: "vals option \<Rightarrow> typed_value list" where
  "vals_of v = (case v of None \<Rightarrow> [] | Some vs \<Rightarrow> vals_list vs)"

definition check_state_trigger :: "string \<Rightarrow> state_trigger \<Rightarrow> registry_view \<Rightarrow> rule_problem list" where
  "check_state_trigger here t rv =
     check_field here (st_entity t) (st_field t) rv
     @ check_occurrence here t rv
     @ concat (map (\<lambda>v. check_state_match here (st_entity t) (st_field t) (Some v) None None rv) (vals_of (st_from t)))
     @ concat (map (\<lambda>v. check_state_match here (st_entity t) (st_field t) None (Some v) None rv) (vals_of (st_to t)))
     @ (if never_changes t then
          [problem_at (here @ ''/from'')
            (plain ''`from` and `to` are the same value, and a change is to something else, so this never fires'')]
        else [])
     @ check_level here t rv"

fun check_trigger :: "string \<Rightarrow> trigger \<Rightarrow> registry_view \<Rightarrow> rule_problem list" where
  "check_trigger here (TrState t) rv = check_state_trigger here t rv"
| "check_trigger here (TrTime t cron weekday) rv =
     (case cron of None \<Rightarrow> [] | Some c \<Rightarrow> problem_of here (cron_parse c))
     @ (if rv_timezone rv then [] else [problem_at here needs_zone])"
| "check_trigger here (TrSun _ _) rv = check_sun_gate here rv"
| "check_trigger here (TrEvent _ _) rv = []"
| "check_trigger here TrStartup rv = []"

section \<open>Conditions, waits and calls\<close>

datatype expr_role = RoleBool | RoleWait | RoleValue

definition check_expr ::
  "language \<Rightarrow> string \<Rightarrow> expr_string \<Rightarrow> expr_role \<Rightarrow> registry_view \<Rightarrow> var_kinds \<Rightarrow> rule_problem list" where
  "check_expr lg path e role rv sets =
     (case inspect lg e rv sets of
        Inl m \<Rightarrow> [problem_at path m]
      | Inr ins \<Rightarrow>
          (case role of
             RoleWait \<Rightarrow>
               (if in_uses_clock ins then [problem_at path (plain ''hour() cannot drive a wait; use a time trigger'')] else [])
               @ (if in_ids ins = [] then
                    [problem_at path (plain ''a wait expression has to read at least one entity (num/on/...); use a delay or a time trigger otherwise'')]
                  else [])
               @ (if in_kind ins \<noteq> KBool then [problem_at path (plain ''a wait expression must be a boolean'')] else [])
           | RoleBool \<Rightarrow>
               (if in_uses_clock ins \<and> \<not> rv_timezone rv then [problem_at path needs_zone] else [])
               @ (if in_kind ins \<noteq> KBool then [problem_at path (plain ''a condition expression must be a boolean'')] else [])
           | RoleValue \<Rightarrow>
               (if in_uses_clock ins \<and> \<not> rv_timezone rv then [problem_at path needs_zone] else [])))"

definition numbered :: "'a list \<Rightarrow> (nat \<times> 'a) list" where
  "numbered xs = zip [0..<length xs] xs"

fun check_condition ::
  "language \<Rightarrow> string \<Rightarrow> condition \<Rightarrow> registry_view \<Rightarrow> var_kinds \<Rightarrow> rule_problem list"
and check_conditions ::
  "language \<Rightarrow> string \<Rightarrow> nat \<Rightarrow> condition list \<Rightarrow> registry_view \<Rightarrow> var_kinds \<Rightarrow> rule_problem list" where
  "check_condition lg path (CExpr e) rv sets = check_expr lg path e RoleBool rv sets"
| "check_condition lg path (CState c) rv sets =
     check_field path (sk_entity c) (sk_field c) rv
     @ check_state_match path (sk_entity c) (sk_field c) None (sk_is c) (Some ''is'') rv"
| "check_condition lg path (CTime _ _ _) rv sets =
     (if rv_timezone rv then []
      else [problem_at path (plain ''time windows need the home's time zone; set the time zone in Settings -> Location and time zone'')])"
| "check_condition lg path (CSun _) rv sets = check_sun_gate path rv"
| "check_condition lg path (CAll cs) rv sets = check_conditions lg (path @ ''/conditions'') 0 cs rv sets"
| "check_condition lg path (CAny cs) rv sets = check_conditions lg (path @ ''/conditions'') 0 cs rv sets"
| "check_condition lg path (CNot c) rv sets = check_condition lg (path @ ''/condition'') c rv sets"
| "check_conditions lg path i [] rv sets = []"
| "check_conditions lg path i (c # cs) rv sets =
     check_condition lg (path @ ''/'' @ show_nat i) c rv sets @ check_conditions lg path (Suc i) cs rv sets"

fun check_wait_until ::
  "language \<Rightarrow> string \<Rightarrow> wait_until \<Rightarrow> registry_view \<Rightarrow> var_kinds \<Rightarrow> rule_problem list" where
  "check_wait_until lg path (WState c _) rv sets =
     check_field path (sk_entity c) (sk_field c) rv
     @ check_state_match path (sk_entity c) (sk_field c) None (sk_is c) (Some ''is'') rv"
| "check_wait_until lg path (WExpr e _) rv sets = check_expr lg path e RoleWait rv sets"

text \<open>A toggle's data is checked as that of the \<open>turn_on\<close> it may become.\<close>

definition asked_service :: "date_library \<Rightarrow> rule_service \<Rightarrow> call_data option \<Rightarrow> service option res" where
  "asked_service jt s data =
     (if \<not> is_toggle s then rule_service_build jt s data
      else if data \<noteq> None \<and> has_turn_on (rs_kind s) then
        rule_service_build jt \<lparr>rs_kind = rs_kind s, rs_action = ''turn_on''\<rparr> data
      else Ok None)"

definition check_call ::
  "date_library \<Rightarrow> string \<Rightarrow> rule_service \<Rightarrow> string \<Rightarrow> call_data option \<Rightarrow> registry_view \<Rightarrow> rule_problem list" where
  "check_call jt path s target data rv =
     (case rv_entity rv target of
        None \<Rightarrow> [problem_at path (Msg ''no such entity {} - check the entity id'' [plain target])]
      | Some e \<Rightarrow>
          if caps_kind (en_capabilities e) \<noteq> rs_kind s then
            [problem_at path (Msg ''{} acts on a {}, not {}''
              [plain (rule_service_text s), plain (domain (rs_kind s)), plain (en_id e)])]
          else
            (case asked_service jt s data of
               Inr (Some asked) \<Rightarrow>
                 (case supports (en_capabilities e) asked of
                    Inl why \<Rightarrow> [problem_at path (Msg ''{} {}'' [plain (en_id e), why])]
                  | Inr _ \<Rightarrow> [])
             | _ \<Rightarrow> []))"

end
