(* ===== verification/FlowChecks.thy ===== *)
theory FlowChecks
  imports Trace RuleChecks
begin

text \<open>
  What is wrong with a flow (\<open>crates/irori-flows/src/validate.rs\<close>): its wires, circles, nodes that
  nothing reaches, joins, paths that meet again, variables that are not set on every path, and each
  node against the home.  Errors keep a flow from being armed; warnings don't.
\<close>

section \<open>Problems\<close>

definition error_of :: "string option \<Rightarrow> nat option \<Rightarrow> msg \<Rightarrow> problem" where
  "error_of node wire message =
     \<lparr>pb_severity = SevError, pb_node = node, pb_wire = wire, pb_field = None, pb_message = message\<rparr>"

definition warning_of :: "string option \<Rightarrow> nat option \<Rightarrow> msg \<Rightarrow> problem" where
  "warning_of node wire message = (error_of node wire message)\<lparr>pb_severity := Warning\<rparr>"

definition severity_rank :: "problem \<Rightarrow> nat" where
  "severity_rank p = (case pb_severity p of SevError \<Rightarrow> 0 | Warning \<Rightarrow> 1)"

section \<open>Wires\<close>

fun node_kind :: "node \<Rightarrow> string" where
  "node_kind (NTrigger _) = ''trigger''"
| "node_kind (NGate _) = ''gate''"
| "node_kind (NSwitch _) = ''switch''"
| "node_kind (NCall _ _ _) = ''call''"
| "node_kind (NSet _ _) = ''set''"
| "node_kind (NDelay _) = ''delay''"
| "node_kind (NWait _ _) = ''wait''"
| "node_kind (NJoin _ _) = ''join''"
| "node_kind (NStop _) = ''stop''"

definition wire_start :: "wire \<Rightarrow> string" where
  "wire_start w = pr_node (w_from w)"

definition port_problem :: "wire \<Rightarrow> nat \<Rightarrow> node \<Rightarrow> problem list" where
  "port_problem w i n =
     (if pr_port (w_from w) \<in> set (node_ports n) then []
      else
        [error_of (Some (wire_start w)) (Some i)
          (if node_ports n = [] then
             Msg ''a {} has no way out, so nothing can be wired from it'' [plain (node_kind n)]
           else Msg ''a {} has no `{}` port; it has {}''
             [plain (node_kind n), plain (port_text (pr_port (w_from w))),
              plain (joined (map port_text (node_ports n)))])])"

definition target_problem :: "flow \<Rightarrow> wire \<Rightarrow> nat \<Rightarrow> problem list" where
  "target_problem f w i =
     (case oget (w_to w) (fl_nodes f) of
        None \<Rightarrow> [error_of None (Some i) (Msg ''a wire goes to `{}`, which isn't a node'' [plain (w_to w)])]
      | Some n \<Rightarrow>
          if is_trigger n then
            [error_of (Some (w_to w)) (Some i) (plain ''nothing can be wired into a trigger: it only starts runs'')]
          else [])"

text \<open>\<open>seen\<close> holds the wires looked at before; one that starts at no node is passed over.\<close>

fun check_wires_from :: "flow \<Rightarrow> nat \<Rightarrow> wire list \<Rightarrow> wire list \<Rightarrow> problem list" where
  "check_wires_from f i seen [] = []"
| "check_wires_from f i seen (w # ws) =
     (case oget (wire_start w) (fl_nodes f) of
        None \<Rightarrow>
          error_of None (Some i) (Msg ''a wire starts at `{}`, which isn't a node'' [plain (wire_start w)])
          # check_wires_from f (Suc i) seen ws
      | Some n \<Rightarrow>
          port_problem w i n @ target_problem f w i
          @ (if w \<in> set seen then
               [error_of (Some (wire_start w)) (Some i)
                 (Msg ''the wire {} -> {} is there twice'' [plain (port_ref_text (w_from w)), plain (w_to w)])]
             else [])
          @ check_wires_from f (Suc i) (w # seen) ws)"

definition check_wires :: "flow \<Rightarrow> problem list" where
  "check_wires f = check_wires_from f 0 [] (fl_wires f)"

section \<open>The order of the nodes\<close>

text \<open>\<open>topological\<close>: \<open>incoming\<close> counts the wires into each node from nodes not yet in the order.
  The counts are \<open>usize\<close> in the source; as integers here, and no count of a flow goes below zero.\<close>

fun visit_wires :: "wire list \<Rightarrow> (string, int) omap \<Rightarrow> string list \<Rightarrow> (string, int) omap \<times> string list" where
  "visit_wires [] incoming ready = (incoming, ready)"
| "visit_wires (w # ws) incoming ready =
     (case oget (w_to w) incoming of
        None \<Rightarrow> visit_wires ws incoming ready
      | Some c \<Rightarrow>
          visit_wires ws (omod (w_to w) (\<lambda>c. c - 1) incoming)
            (if c - 1 = 0 then ready @ [w_to w] else ready))"

lemma visit_wires_measure:
  "osum nat (fst (visit_wires ws incoming ready)) + length (snd (visit_wires ws incoming ready))
     \<le> osum nat incoming + length ready"
proof (induction ws incoming ready rule: visit_wires.induct)
  case (2 w ws incoming ready)
  show ?case
  proof (cases "oget (w_to w) incoming")
    case None
    then show ?thesis using 2(1) by simp
  next
    case (Some c)
    have le: "osum nat (omod (w_to w) (\<lambda>c. c - 1) incoming) \<le> osum nat incoming"
      by (rule osum_omod_le) simp
    have less: "osum nat (omod (w_to w) (\<lambda>c. c - 1) incoming) < osum nat incoming" if "c = 1"
      by (rule osum_omod_less [OF _ Some]) (use that in simp_all)
    show ?thesis
      using 2(2) [OF Some] le less Some by (auto split: if_splits)
  qed
qed simp

function topo_loop :: "wire list \<Rightarrow> (string, int) omap \<Rightarrow> string list \<Rightarrow> string list \<Rightarrow> string list" where
  "topo_loop ws incoming [] order = order"
| "topo_loop ws incoming (i # ready) order =
     (let next_state = visit_wires (filter (\<lambda>w. wire_start w = i) ws) incoming ready
      in topo_loop ws (fst next_state) (snd next_state) (order @ [i]))"
  by pat_completeness auto
termination
  by (relation "measure (\<lambda>(ws, incoming, ready, order). osum nat incoming + length ready)")
     (simp_all add: le_imp_less_Suc visit_wires_measure)

definition count_incoming :: "flow \<Rightarrow> (string, int) omap" where
  "count_incoming f = map (\<lambda>(i, n). (i, int (length (wires_into f i)))) (fl_nodes f)"

definition topological :: "flow \<Rightarrow> string list option" where
  "topological f =
     (let incoming = count_incoming f;
          ready = map fst (filter (\<lambda>(i, c). c = 0) incoming);
          order = topo_loop (fl_wires f) incoming ready []
      in if length order = length (fl_nodes f) then Some order else None)"

section \<open>Reaching nodes\<close>

fun reach_wires :: "wire list \<Rightarrow> string list \<Rightarrow> string list \<Rightarrow> string list \<times> string list" where
  "reach_wires [] seen queue = (seen, queue)"
| "reach_wires (w # ws) seen queue =
     (if w_to w \<in> set seen then reach_wires ws seen queue
      else reach_wires ws (oset_ins (w_to w) seen) (queue @ [w_to w]))"

lemma reach_wires_grows:
  "set seen \<subseteq> set (fst (reach_wires ws seen queue))
   \<and> set (fst (reach_wires ws seen queue)) \<subseteq> set seen \<union> w_to ` set ws
   \<and> (set (fst (reach_wires ws seen queue)) = set seen \<longrightarrow> snd (reach_wires ws seen queue) = queue)"
proof (induction ws seen queue rule: reach_wires.induct)
  case (2 w ws seen queue)
  then show ?case by (auto split: prod.splits)
qed simp

lemma reach_wires_less:
  assumes "\<not> card (w_to ` set ws - set (fst (reach_wires (filter p ws) seen queue))) < card (w_to ` set ws - set seen)"
  shows "set (fst (reach_wires (filter p ws) seen queue)) = set seen \<and> snd (reach_wires (filter p ws) seen queue) = queue"
proof -
  let ?r = "reach_wires (filter p ws) seen queue"
  have g: "set seen \<subseteq> set (fst ?r)" "set (fst ?r) \<subseteq> set seen \<union> w_to ` set ws"
    "set (fst ?r) = set seen \<longrightarrow> snd ?r = queue"
    using reach_wires_grows [of seen "filter p ws" queue] by auto
  have "set (fst ?r) = set seen"
  proof (rule ccontr)
    assume "set (fst ?r) \<noteq> set seen"
    then have "w_to ` set ws - set (fst ?r) \<subset> w_to ` set ws - set seen" using g by blast
    then show False using assms psubset_card_mono [of "w_to ` set ws - set seen"] by simp
  qed
  then show ?thesis using g by simp
qed

function reach_loop :: "wire list \<Rightarrow> string list \<Rightarrow> string list \<Rightarrow> string list" where
  "reach_loop ws seen [] = seen"
| "reach_loop ws seen (i # queue) =
     (let next_state = reach_wires (filter (\<lambda>w. wire_start w = i) ws) seen queue
      in reach_loop ws (fst next_state) (snd next_state))"
  by pat_completeness auto
termination
proof (relation "measures [\<lambda>(ws, seen, queue). card (w_to ` set ws - set seen), \<lambda>(ws, seen, queue). length queue]",
       goal_cases)
  case (2 ws seen i queue next_state)
  then show ?case
    using reach_wires_less [where ws = ws and seen = seen and queue = queue and p = "\<lambda>w. wire_start w = i"]
    by (cases "card (w_to ` set ws - set (fst next_state)) < card (w_to ` set ws - set seen)")
       (simp_all add: case_prod_beta)
qed simp

definition reach :: "flow \<Rightarrow> string \<Rightarrow> string list" where
  "reach f start = reach_loop (fl_wires f) [start] [start]"

definition trigger_ids :: "flow \<Rightarrow> string list" where
  "trigger_ids f = map fst (filter (\<lambda>(i, n). is_trigger n) (fl_nodes f))"

definition check_reachable :: "flow \<Rightarrow> problem list" where
  "check_reachable f =
     (let reached = concat (map (reach f) (trigger_ids f)) in
      map (\<lambda>i. warning_of (Some i) None (plain ''no trigger leads here, so this never runs''))
        (filter (\<lambda>i. i \<notin> set reached) (okeys (fl_nodes f))))"

fun is_join :: "node \<Rightarrow> bool" where
  "is_join (NJoin _ _) = True"
| "is_join _ = False"

definition check_joins :: "flow \<Rightarrow> problem list" where
  "check_joins f =
     map (\<lambda>(i, n). warning_of (Some i) None
        (plain ''a join brings paths together, but fewer than two come in here''))
      (filter (\<lambda>(i, n). is_join n \<and> length (wires_into f i) < 2) (fl_nodes f))"

section \<open>Paths that meet again\<close>

definition leads_to :: "(string, string list) omap \<Rightarrow> wire \<Rightarrow> wire \<Rightarrow> bool" where
  "leads_to reaches lead w = (lead = w \<or> is_some_and (oget (w_to lead) reaches) (\<lambda>r. wire_start w \<in> set r))"

text \<open>Every port with more than one wire.\<close>

definition forks :: "flow \<Rightarrow> wire list list" where
  "forks f =
     filter (\<lambda>ws. 1 < length ws)
       (map (\<lambda>p. filter (\<lambda>w. w_from w = p) (fl_wires f)) (oset_of (map w_from (fl_wires f))))"

text \<open>\<open>pairs_at\<close>: the elements at two different positions, in both orders.\<close>

fun pairs_after :: "'a list \<Rightarrow> ('a \<times> 'a) list" where
  "pairs_after [] = []"
| "pairs_after (x # xs) = map (Pair x) xs @ pairs_after xs"

definition meets :: "(string, string list) omap \<Rightarrow> wire list list \<Rightarrow> wire \<times> wire \<Rightarrow> bool" where
  "meets reaches fs ab =
     list_ex (\<lambda>ws. list_ex (\<lambda>(l, r).
        leads_to reaches l (fst ab) \<and> leads_to reaches r (snd ab)
        \<or> leads_to reaches r (fst ab) \<and> leads_to reaches l (snd ab)) (pairs_after ws)) fs"

definition check_merges :: "flow \<Rightarrow> problem list" where
  "check_merges f =
     (let reaches = map (\<lambda>i. (i, reach f i)) (okeys (fl_nodes f)) in
      map (\<lambda>(i, n). warning_of (Some i) None
         (plain ''paths that split earlier meet again here, so this can run more than once per run; put a join in front of it to run it once''))
        (filter (\<lambda>(i, n). \<not> is_join n \<and> list_ex (meets reaches (forks f)) (pairs_after (wires_into f i)))
          (fl_nodes f)))"

section \<open>Variables\<close>

text \<open>\<open>node_exprs\<close>: the expressions a node holds.\<close>

fun condition_exprs :: "condition \<Rightarrow> expr_string list" where
  "condition_exprs (CExpr e) = [e]"
| "condition_exprs (CAll cs) = concat (map condition_exprs cs)"
| "condition_exprs (CAny cs) = concat (map condition_exprs cs)"
| "condition_exprs (CNot c) = condition_exprs c"
| "condition_exprs (CState _) = []"
| "condition_exprs (CTime _ _ _) = []"
| "condition_exprs (CSun _) = []"

fun node_exprs :: "node \<Rightarrow> expr_string list" where
  "node_exprs (NGate c) = condition_exprs c"
| "node_exprs (NSwitch cases) = concat (map condition_exprs cases)"
| "node_exprs (NSet _ e) = [e]"
| "node_exprs (NWait (WExpr e _) _) = [e]"
| "node_exprs (NCall _ _ (Some data)) = map snd (data_exprs data)"
| "node_exprs _ = []"

fun kind_word :: "var_kind \<Rightarrow> string" where
  "kind_word KBool = ''true/false''"
| "kind_word KNumber = ''a number''"
| "kind_word KString = ''text''"
| "kind_word KScalar = ''an attribute''"

text \<open>The types: each set's own expression can use the variables set before it in the order.\<close>

definition type_set :: "language \<Rightarrow> registry_view \<Rightarrow> flow \<Rightarrow> string \<Rightarrow> var_kinds \<times> problem list \<Rightarrow> var_kinds \<times> problem list" where
  "type_set lg rv f i acc =
     (let (kinds, ps) = acc in
      case oget i (fl_nodes f) of
        Some (NSet name e) \<Rightarrow>
          (case inspect lg e rv kinds of
             Inl _ \<Rightarrow> acc
           | Inr ins \<Rightarrow>
               (case oget name kinds of
                  Some k \<Rightarrow>
                    if k \<noteq> in_kind ins \<and> k \<noteq> KScalar \<and> in_kind ins \<noteq> KScalar then
                      (kinds, ps @ [error_of (Some i) None
                         (Msg ''`{}` is set as {} here but as {} elsewhere; a variable has one type''
                           [plain name, plain (kind_word (in_kind ins)), plain (kind_word k)])])
                    else (oput name (in_kind ins) kinds, ps)
                | None \<Rightarrow> (oput name (in_kind ins) kinds, ps)))
      | _ \<Rightarrow> acc)"

definition var_types :: "language \<Rightarrow> registry_view \<Rightarrow> flow \<Rightarrow> string list \<Rightarrow> var_kinds \<times> problem list" where
  "var_types lg rv f order = fold (type_set lg rv f) order ([], [])"

text \<open>What is set on every path to each node: the intersection over the wires coming in.\<close>

type_synonym set_before = "(string, string list) omap"

definition set_at :: "flow \<Rightarrow> string \<Rightarrow> string list" where
  "set_at f i = (case oget i (fl_nodes f) of Some (NSet name _) \<Rightarrow> [name] | _ \<Rightarrow> [])"

definition set_along :: "flow \<Rightarrow> set_before \<Rightarrow> wire \<Rightarrow> string list" where
  "set_along f sb w =
     fold oset_ins (set_at f (wire_start w)) (unwrap_or (oget (wire_start w) sb) [])"

definition meet_all :: "string list list \<Rightarrow> string list" where
  "meet_all ss =
     (case ss of
        [] \<Rightarrow> []
      | s # rest \<Rightarrow> fold (\<lambda>t all. filter (\<lambda>v. v \<in> set t) all) rest s)"

definition note_before :: "flow \<Rightarrow> string \<Rightarrow> set_before \<Rightarrow> set_before" where
  "note_before f i sb = oput i (meet_all (map (set_along f sb) (wires_into f i))) sb"

definition vars_before :: "flow \<Rightarrow> string list \<Rightarrow> set_before" where
  "vars_before f order = fold (note_before f) order []"

definition unset_problem :: "var_kinds \<Rightarrow> string \<Rightarrow> string \<Rightarrow> problem" where
  "unset_problem kinds i name =
     error_of (Some i) None
       (if oget name kinds \<noteq> None then
          Msg ''var('{}') isn't set on every path that reaches here; set it earlier on each of them'' [plain name]
        else Msg ''var('{}') is never set in this flow'' [plain name])"

definition check_unset :: "language \<Rightarrow> flow \<Rightarrow> var_kinds \<Rightarrow> set_before \<Rightarrow> string \<Rightarrow> problem list" where
  "check_unset lg f kinds sb i =
     (case oget i (fl_nodes f) of
        None \<Rightarrow> []
      | Some n \<Rightarrow>
          concat (map (\<lambda>e.
            map (unset_problem kinds i)
              (filter (\<lambda>v. v \<notin> set (unwrap_or (oget i sb) [])) (vars_read lg e))) (node_exprs n)))"

definition check_vars :: "language \<Rightarrow> registry_view \<Rightarrow> flow \<Rightarrow> string list \<Rightarrow> var_kinds \<times> problem list" where
  "check_vars lg rv f order =
     (case var_types lg rv f order of
        (kinds, ps) \<Rightarrow>
          (kinds, ps @ concat (map (check_unset lg f kinds (vars_before f order)) order)))"

section \<open>Against the home\<close>

text \<open>What the checks need from outside: the language, the dates and the ranges of numeric fields.\<close>

record checker =
  ck_language :: language
  ck_dates :: date_library
  ck_numbers :: schema_numbers

definition owner_problems :: "string \<Rightarrow> node \<Rightarrow> problem list" where
  "owner_problems i n =
     (case n of
        NTrigger (TrEvent _ _) \<Rightarrow>
          [error_of (Some i) None
            (plain ''only an owner's flow can wait for an event: events are not about any one room'')]
      | NCall _ entity _ \<Rightarrow>
          if is_some_and (entity_id_kind entity) commands_need_owner then
            [error_of (Some i) None
              (Msg ''only an owner can send commands to {}: it changes how the home is set up'' [plain entity])]
          else []
      | _ \<Rightarrow> [])"

text \<open>A worked-out number stands in as three from its field's range; what all three are told alike
  is real.\<close>

definition call_problems :: "checker \<Rightarrow> registry_view \<Rightarrow> rule_service \<Rightarrow> string \<Rightarrow> flow_call_data option \<Rightarrow> rule_problem list" where
  "call_problems ck rv s entity data =
     (let check = (\<lambda>d. check_call (ck_dates ck) ''call'' s entity d rv) in
      case data of
        None \<Rightarrow> check None
      | Some d \<Rightarrow>
          (case map (\<lambda>shape. check (Some shape)) (data_shapes (standard_services (ck_dates ck) (ck_numbers ck)) s d) of
             [low, middle, high] \<Rightarrow> filter (\<lambda>p. p \<in> set middle \<and> p \<in> set high) low
           | _ \<Rightarrow> []))"

definition number_problem :: "checker \<Rightarrow> registry_view \<Rightarrow> var_kinds \<Rightarrow> string \<times> expr_string \<Rightarrow> rule_problem list" where
  "number_problem ck rv vars fe =
     (case inspect (ck_language ck) (snd fe) rv vars of
        Inl m \<Rightarrow> [problem_at (''data/'' @ fst fe) m]
      | Inr ins \<Rightarrow>
          if in_kind ins = KNumber \<or> in_kind ins = KScalar then []
          else [problem_at (''data/'' @ fst fe)
            (Msg ''{} has to work out to a number, but this gives {}'' [plain (fst fe), plain (kind_word (in_kind ins))])])"

definition node_problems :: "checker \<Rightarrow> registry_view \<Rightarrow> var_kinds \<Rightarrow> node \<Rightarrow> rule_problem list" where
  "node_problems ck rv vars n =
     (let lg = ck_language ck in
      case n of
        NTrigger t \<Rightarrow> check_trigger ''trigger'' t rv
      | NGate c \<Rightarrow> check_condition lg ''condition'' c rv vars
      | NSwitch cases \<Rightarrow> check_conditions lg ''cases'' 0 cases rv vars
      | NCall s entity data \<Rightarrow>
          call_problems ck rv s entity data
          @ concat (map (number_problem ck rv vars) (case data of None \<Rightarrow> [] | Some d \<Rightarrow> data_exprs d))
      | NSet _ e \<Rightarrow> problem_of ''expr'' (inspect lg e rv vars)
      | NWait u _ \<Rightarrow> check_wait_until lg ''until'' u rv vars
      | _ \<Rightarrow> [])"

text \<open>Messages as the text they are shown as, as far as the test for a reason that starts with
  \<open>var(\<close> needs it: arguments in their places, a quoted one between quotes.\<close>

fun fill_in :: "string \<Rightarrow> string list \<Rightarrow> string" where
  "fill_in [] args = []"
| "fill_in (c # cs) args =
     (if c = CHR ''{'' \<and> take 1 cs = ''}'' then
        (case args of [] \<Rightarrow> c # fill_in cs args | a # as \<Rightarrow> a @ fill_in (drop 1 cs) as)
      else if c = CHR ''{'' \<and> take 3 cs = '':?}'' then
        (case args of [] \<Rightarrow> c # fill_in cs args | a # as \<Rightarrow> CHR 0x22 # a @ CHR 0x22 # fill_in (drop 3 cs) as)
      else c # fill_in cs args)"

fun render :: "msg \<Rightarrow> string" where
  "render (Msg t as) = fill_in t (map render as)"
| "render (MInt i) = (if i < 0 then ''-'' @ show_nat (nat (- i)) else show_nat (nat i))"

definition about_variable :: "rule_problem \<Rightarrow> bool" where
  "about_variable p = starts_with (render (rp_reason p)) ''var(''"

definition home_problems :: "checker \<Rightarrow> registry_view \<Rightarrow> var_kinds \<Rightarrow> bool \<Rightarrow> string \<times> node \<Rightarrow> problem list" where
  "home_problems ck rv vars runs_the_home node =
     (case node of
        (i, n) \<Rightarrow>
          (if runs_the_home then [] else owner_problems i n)
          @ (case n of
               NTrigger (TrEvent _ _) \<Rightarrow>
                 [warning_of (Some i) None
                   (plain ''nothing sends events yet, so this trigger won't fire until protocols do'')]
             | _ \<Rightarrow> [])
          @ map (\<lambda>p. \<lparr>pb_severity = SevError, pb_node = Some i, pb_wire = None,
                      pb_field = Some (rp_path p), pb_message = rp_reason p\<rparr>)
              (filter (\<lambda>p. \<not> about_variable p) (node_problems ck rv vars n)))"

definition check_home :: "checker \<Rightarrow> registry_view \<Rightarrow> var_kinds \<Rightarrow> bool \<Rightarrow> flow \<Rightarrow> problem list" where
  "check_home ck rv vars runs_the_home f = concat (map (home_problems ck rv vars runs_the_home) (fl_nodes f))"

section \<open>Everything wrong with a flow\<close>

definition walk_problems :: "checker \<Rightarrow> registry_view \<Rightarrow> bool \<Rightarrow> flow \<Rightarrow> problem list" where
  "walk_problems ck rv runs_the_home f =
     (case topological f of
        None \<Rightarrow>
          [error_of None None (plain ''the wires go round in a circle; a flow has to run one way, from its triggers'')]
      | Some order \<Rightarrow>
          (case check_vars (ck_language ck) rv f order of
             (vars, ps) \<Rightarrow>
               check_reachable f @ check_joins f @ check_merges f @ ps
               @ check_home ck rv vars runs_the_home f))"

definition check_for :: "checker \<Rightarrow> registry_view \<Rightarrow> bool \<Rightarrow> flow \<Rightarrow> problem list" where
  "check_for ck rv runs_the_home f =
     sort_key severity_rank
       (check_wires f
        @ (if trigger_ids f = [] then
             [error_of None None (plain ''a flow needs a trigger: nothing would ever start it'')]
           else [])
        @ (if check_wires f = [] then walk_problems ck rv runs_the_home f else []))"

definition check :: "checker \<Rightarrow> registry_view \<Rightarrow> flow \<Rightarrow> problem list" where
  "check ck rv f = check_for ck rv True f"

section \<open>Units and what a flow watches\<close>

text \<open>Every variable the flow sets, loosely typed.\<close>

definition every_var :: "flow \<Rightarrow> var_kinds" where
  "every_var f =
     fold (\<lambda>(i, n) kinds. case n of NSet name _ \<Rightarrow> oput name KScalar kinds | _ \<Rightarrow> kinds) (fl_nodes f) []"

fun state_checks :: "condition \<Rightarrow> state_check list" where
  "state_checks (CState c) = [c]"
| "state_checks (CAll cs) = concat (map state_checks cs)"
| "state_checks (CAny cs) = concat (map state_checks cs)"
| "state_checks (CNot c) = state_checks c"
| "state_checks (CExpr _) = []"
| "state_checks (CTime _ _ _) = []"
| "state_checks (CSun _) = []"

fun number_of :: "typed_value \<Rightarrow> f64 option" where
  "number_of (VNumber n) = Some n"
| "number_of _ = None"

text \<open>Numbers joined by \<open>and\<close>.\<close>

fun and_template :: "nat \<Rightarrow> string" where
  "and_template 0 = []"
| "and_template (Suc 0) = ''{}''"
| "and_template (Suc n) = ''{} and '' @ and_template n"

type_synonym native_units = "(string, string) omap"

definition said :: "native_units \<Rightarrow> string \<Rightarrow> f64 list \<Rightarrow> msg list" where
  "said native entity numbers =
     (case oget entity native of
        None \<Rightarrow> []
      | Some unit \<Rightarrow>
          [Msg ''{}'s device says {}, and Irori keeps it in C: {} here is C. Check the number still means what it did''
            [plain entity, plain unit, Msg (and_template (length numbers)) (map f64_msg numbers)]])"

definition check_said :: "native_units \<Rightarrow> state_check \<Rightarrow> msg list" where
  "check_said native c =
     (case (sk_field c, Option.bind (sk_is c) number_of) of
        (None, Some n) \<Rightarrow> said native (sk_entity c) [n]
      | _ \<Rightarrow> [])"

definition level_numbers :: "state_trigger \<Rightarrow> f64 list" where
  "level_numbers t =
     the_list (st_above t) @ the_list (st_below t)
     @ List.map_filter number_of (vals_of (st_from t) @ vals_of (st_to t))"

definition node_said :: "native_units \<Rightarrow> node \<Rightarrow> msg list" where
  "node_said native n =
     (case n of
        NTrigger (TrState t) \<Rightarrow>
          if st_field t = None \<and> level_numbers t \<noteq> [] then said native (st_entity t) (level_numbers t) else []
      | NWait (WState c _) _ \<Rightarrow> check_said native c
      | NGate c \<Rightarrow> concat (map (check_said native) (state_checks c))
      | NSwitch cases \<Rightarrow> concat (map (check_said native) (concat (map state_checks cases)))
      | _ \<Rightarrow> [])"

definition expr_reads :: "language \<Rightarrow> registry_view \<Rightarrow> flow \<Rightarrow> expr_string \<Rightarrow> string list" where
  "expr_reads lg rv f e = (case inspect lg e rv (every_var f) of Inl _ \<Rightarrow> [] | Inr ins \<Rightarrow> in_ids ins)"

definition expr_said :: "language \<Rightarrow> registry_view \<Rightarrow> flow \<Rightarrow> native_units \<Rightarrow> expr_string \<Rightarrow> msg list" where
  "expr_said lg rv f native e =
     List.map_filter (\<lambda>entity.
        map_option (\<lambda>unit.
          Msg ''{}'s device says {}, and Irori keeps it in C: the numbers it's compared with in `{}` are C. Check they still mean what they did''
            [plain entity, plain unit, plain e])
          (oget entity native)) (expr_reads lg rv f e)"

definition converted :: "language \<Rightarrow> flow \<Rightarrow> registry_view \<Rightarrow> native_units \<Rightarrow> problem list" where
  "converted lg f rv native =
     (if native = [] then []
      else
        concat (map (\<lambda>(i, n).
          map (warning_of (Some i) None)
            (dedup (node_said native n @ concat (map (expr_said lg rv f native) (node_exprs n))))) (fl_nodes f)))"

definition node_watches :: "node \<Rightarrow> string list" where
  "node_watches n =
     (case n of
        NTrigger (TrState t) \<Rightarrow> [st_entity t]
      | NCall _ entity _ \<Rightarrow> [entity]
      | NGate c \<Rightarrow> map sk_entity (state_checks c)
      | NSwitch cases \<Rightarrow> map sk_entity (concat (map state_checks cases))
      | NWait (WState c _) _ \<Rightarrow> [sk_entity c]
      | _ \<Rightarrow> [])"

definition watched_entities :: "language \<Rightarrow> flow \<Rightarrow> registry_view \<Rightarrow> string list" where
  "watched_entities lg f rv =
     oset_of (concat (map (\<lambda>n. node_watches n @ concat (map (expr_reads lg rv f) (node_exprs n)))
       (ovals (fl_nodes f))))"

end
