(* ===== verification/ServiceProps.thy ===== *)
theory ServiceProps
  imports ServiceData
begin

text \<open>
  What the services promise: reading back the data a service is written with gives the service,
  a service that is read is the one that was named, a toggle never asks for the value there
  already is, and a service an entity supports asks for a value that entity can have.
\<close>

section \<open>Days and times read back\<close>

lemma length_show_nat_le: "n < 10 ^ k \<Longrightarrow> 0 < k \<Longrightarrow> length (show_nat n) \<le> k"
proof (induction n arbitrary: k rule: show_nat.induct)
  case (1 n)
  show ?case
  proof (cases "n < 10")
    case True
    then show ?thesis using 1(3) by (subst show_nat.simps) simp
  next
    case False
    with 1(2,3) obtain j where k: "k = Suc j" "0 < j"
      by (cases k; cases "k - 1") auto
    then have "n div 10 < 10 ^ j" using 1(2) by auto
    from 1(1) [OF False this k(2)] show ?thesis
      using False k by (subst show_nat.simps) simp
  qed
qed

lemma digits_val_zeros: "digits_val (replicate m CHR ''0'' @ ds) = digits_val ds"
  by (induction m) (simp_all add: digits_val_def digit_val_def byte_of_def)

lemma pad_facts:
  assumes "0 \<le> i" and "i < 10 ^ k" and "0 < k"
  shows "length (pad k i) = k" and "list_all is_digit (pad k i)" and "digits_val (pad k i) = nat i"
proof -
  have "nat i < 10 ^ k" using assms by (metis nat_less_iff of_nat_numeral of_nat_power)
  then have "length (show_nat (nat i)) \<le> k" using assms(3) by (rule length_show_nat_le)
  then show "length (pad k i) = k" by (simp add: pad_def Let_def)
  show "list_all is_digit (pad k i)"
    by (auto simp: pad_def Let_def list_all_iff is_digit_def byte_of_def dest: show_nat_in_digits [unfolded is_digit_def byte_of_def])
  show "digits_val (pad k i) = nat i"
    by (simp add: pad_def Let_def digits_val_zeros)
qed

lemma digits_val_Cons: "digits_val (c # ds) = digit_val c * 10 ^ length ds + digits_val ds"
proof (induction ds rule: rev_induct)
  case (snoc x xs)
  then show ?case
    using digits_val_snoc [of "c # xs" x] digits_val_snoc [of xs x] by simp
qed (simp add: digits_val_def)

lemma digits_from_run:
  "list_all is_digit ds \<Longrightarrow> length ds = k \<Longrightarrow>
   digits_from pre cur (ds @ fs) (replicate k CHR ''0'' @ ws) =
   digits_from pre (cur * 10 ^ k + int (digits_val ds)) fs ws"
proof (induction ds arbitrary: cur k)
  case (Cons d ds)
  then obtain j where "k = Suc j" "length ds = j" by (cases k) auto
  with Cons show ?case by (simp add: digits_val_Cons algebra_simps)
qed simp

lemma digits_from_sep:
  "w \<noteq> CHR ''0'' \<Longrightarrow> digits_from pre cur (w # fs) (w # ws) = digits_from (cur # pre) 0 fs ws"
  by simp

lemma digits_of_pads:
  assumes "0 \<le> a" "a < 10 ^ k" "0 < k" "0 \<le> b" "b < 100" "0 \<le> c" "c < 100" "w \<noteq> CHR ''0''"
  shows "digits_of (pad k a @ w # pad 2 b @ w # pad 2 c)
           (replicate k CHR ''0'' @ w # replicate 2 CHR ''0'' @ w # replicate 2 CHR ''0'') = Some [a, b, c]"
proof -
  note A = pad_facts [OF assms(1-3)]
  have B: "length (pad 2 b) = 2" "list_all is_digit (pad 2 b)" "digits_val (pad 2 b) = nat b"
    using pad_facts [of b 2] assms by simp_all
  have C: "length (pad 2 c) = 2" "list_all is_digit (pad 2 c)" "digits_val (pad 2 c) = nat c"
    using pad_facts [of c 2] assms by simp_all
  show ?thesis
    using digits_from_run [OF A(2,1), of "[]" 0 "w # pad 2 b @ w # pad 2 c"
            "w # replicate 2 CHR ''0'' @ w # replicate 2 CHR ''0''"]
      digits_from_run [OF B(2,1), of "[a]" 0 "w # pad 2 c" "w # replicate 2 CHR ''0''"]
      digits_from_run [OF C(2,1), of "[b, a]" 0 "[]" "[]"] A(1,3) B(1,3) C(1,3) assms
    by (simp add: digits_of_def)
qed

lemma civil_date_parse_text:
  assumes "0 \<le> cd_year d" "cd_year d < 10000" "0 \<le> cd_month d" "cd_month d < 100"
    "0 \<le> cd_day d" "cd_day d < 100" "day_exists jt (cd_year d) (cd_month d) (cd_day d)"
  shows "civil_date_parse jt (civil_date_text d) = Some d"
proof -
  have shape: "''0000-00-00'' =
      replicate 4 CHR ''0'' @ CHR ''-'' # replicate 2 CHR ''0'' @ CHR ''-'' # replicate 2 CHR ''0''"
    by (simp add: numeral_eq_Suc)
  have "digits_of (civil_date_text d) ''0000-00-00'' = Some [cd_year d, cd_month d, cd_day d]"
    unfolding shape civil_date_text_def
    using digits_of_pads [of "cd_year d" 4 "cd_month d" "cd_day d" "CHR ''-''"] assms by simp
  then show ?thesis
    using assms(7) by (simp add: civil_date_parse_def)
qed

lemma clock_time_parse_text:
  assumes "clock_time_new (ct_hour c) (ct_minute c) (ct_second c) = Some c"
  shows "clock_time_parse (clock_time_text c) = Some c"
proof -
  have bounds: "0 \<le> ct_hour c" "ct_hour c < 100" "0 \<le> ct_minute c" "ct_minute c < 100"
    "0 \<le> ct_second c" "ct_second c < 100"
    using assms by (simp_all add: clock_time_new_def split: if_splits)
  have shape: "''00:00:00'' =
      replicate 2 CHR ''0'' @ CHR '':'' # replicate 2 CHR ''0'' @ CHR '':'' # replicate 2 CHR ''0''"
    by (simp add: numeral_eq_Suc)
  have "digits_of (clock_time_text c) ''00:00:00'' = Some [ct_hour c, ct_minute c, ct_second c]"
    unfolding shape clock_time_text_def
    using digits_of_pads [of "ct_hour c" 2 "ct_minute c" "ct_second c" "CHR '':''"] bounds by simp
  then show ?thesis
    using assms by (simp add: clock_time_parse_def)
qed

section \<open>A service reads back from its own data\<close>

text \<open>What the types of the fields hold: the widths of the integers, days and times that exist,
  doubles that JSON can carry, and instants that the date library reads back.\<close>

fun in_range :: "date_library \<Rightarrow> service \<Rightarrow> bool" where
  "in_range jt (SvLight (LightTurnOn d)) =
     (is_none_or (lo_brightness d) (\<lambda>b. b \<le> 255)
      \<and> is_none_or (lo_rgb d) (\<lambda>(r, g, b). r \<le> 255 \<and> g \<le> 255 \<and> b \<le> 255))"
| "in_range jt (SvCover (CoverSetPosition p)) = (p \<le> 255)"
| "in_range jt (SvCover (CoverSetTilt p)) = (p \<le> 255)"
| "in_range jt (SvValve (ValveSetPosition p)) = (p \<le> 255)"
| "in_range jt (SvFan (FanTurnOn d)) = is_none_or (fo_percentage d) (\<lambda>p. p \<le> 255)"
| "in_range jt (SvFan (FanSetPercentage p)) = (p \<le> 255)"
| "in_range jt (SvWaterHeater (WaterHeaterSetTemperature d)) = f64_is_finite (ws_temperature d)"
| "in_range jt (DateSetValue d) =
     (0 \<le> cd_year d \<and> cd_year d < 10000 \<and> 0 \<le> cd_month d \<and> cd_month d < 100
      \<and> 0 \<le> cd_day d \<and> cd_day d < 100 \<and> day_exists jt (cd_year d) (cd_month d) (cd_day d))"
| "in_range jt (TimeSetValue c) = (clock_time_new (ct_hour c) (ct_minute c) (ct_second c) = Some c)"
| "in_range jt (DatetimeSetValue i) = (instant_parse jt (instant_text jt i) = Some i)"
| "in_range jt _ = True"

lemma read_json_of_f64: "f64_is_finite v \<Longrightarrow> json_as_f64 (json_of_f64 v) = Some v"
  by (cases v) simp_all

lemma json_of_f64_null: "json_of_f64 v = JNull \<longleftrightarrow> \<not> f64_is_finite v"
  by (cases v) simp_all

lemma read_nat_json:
  "n \<le> mx \<Longrightarrow> read_uint mx (nat_json n) = Some n"
  "int n \<le> high \<Longrightarrow> low \<le> int n \<Longrightarrow> whole_nat low high (nat_json n) = Some n"
  by (simp_all add: read_uint_def nat_json_def whole_nat_def whole_def)

lemma read_enum_json:
  "read_enum fan_direction_variants (enum_json fan_direction_variants x1) = Some x1"
  "read_enum hvac_mode_variants (enum_json hvac_mode_variants x2) = Some x2"
  "read_enum water_heater_mode_variants (enum_json water_heater_mode_variants x3) = Some x3"
proof -
  show "read_enum fan_direction_variants (enum_json fan_direction_variants x) = Some x" for x
    by (cases x; hypsubst; code_simp)
  show "read_enum hvac_mode_variants (enum_json hvac_mode_variants x) = Some x" for x
    by (cases x; hypsubst; code_simp)
  show "read_enum water_heater_mode_variants (enum_json water_heater_mode_variants x) = Some x" for x
    by (cases x; hypsubst; code_simp)
qed

lemma read_enum_null: "read_enum vs JNull = None"
  by (simp add: read_enum_def)

lemma enum_json_not_null:
  "enum_json fan_direction_variants x1 \<noteq> JNull"
  "enum_json hvac_mode_variants x2 \<noteq> JNull"
  "enum_json water_heater_mode_variants x3 \<noteq> JNull"
  by (metis read_enum_json(1) read_enum_null option.distinct(1))
     (metis read_enum_json(2) read_enum_null option.distinct(1),
      metis read_enum_json(3) read_enum_null option.distinct(1))

text \<open>A field written from a value is read back as that value; its neighbours do not matter.\<close>

lemma oget_some_field:
  "oget k d = None \<Longrightarrow> oget k (some_field k f x @ d) = map_option f x"
  "n \<noteq> k \<Longrightarrow> oget k (some_field n f x @ d) = oget k d"
  "oget k (some_field n f x) = (if n = k then map_option f x else None)"
  by (auto simp: some_field_def split: option.splits)

lemma optional_written:
  assumes "oget name d = map_option f x" and "\<And>v. x = Some v \<Longrightarrow> f v \<noteq> JNull \<and> rd (f v) = Some v"
  shows "optional rd name d = Some x"
proof (cases x)
  case None
  then show ?thesis using assms(1) by (simp add: optional_def)
next
  case (Some v)
  then show ?thesis using assms by (cases "f v") (simp_all add: optional_def)
qed

lemma needed_written: "oget name d = Some (f v) \<Longrightarrow> rd (f v) = Some v \<Longrightarrow> needed rd name d = Some v"
  by (simp add: needed_def)

lemma only_fields_written:
  "list_all (\<lambda>(k, _). k \<in> set names) d \<Longrightarrow> only_fields names d r = r"
  by (simp add: only_fields_def)

lemma list_all_some_field [simp]:
  "P n \<Longrightarrow> list_all (\<lambda>(k, _). P k) (some_field n f x)"
  by (simp add: some_field_def split: option.splits)

lemma not_null [simp]: "nat_json n \<noteq> JNull" "rgb_json c \<noteq> JNull" "JStr t \<noteq> JNull"
  by (simp_all add: nat_json_def rgb_json_def split: prod.splits)

lemma read_JStr [simp]: "read_string (JStr t) = Some t"
  by (simp add: read_string_def)

lemma read_JBool [simp]: "read_bool (JBool b) = Some b"
  by (simp add: read_bool_def)

lemma read_rgb_json: "r \<le> 255 \<Longrightarrow> g \<le> 255 \<Longrightarrow> b \<le> 255 \<Longrightarrow> read_rgb (rgb_json (r, g, b)) = Some (r, g, b)"
  by (simp add: read_rgb_def rgb_json_def read_nat_json)

lemmas reads = read_json_of_f64 json_of_f64_null read_nat_json read_enum_json enum_json_not_null
  read_rgb_json

lemma code_reads_back: "read_code (some_field ''code'' JStr c) = Some c"
  unfolding read_code_def
  by (subst only_fields_written) (auto simp: oget_some_field intro!: optional_written [where f = JStr])

lemma number_opt_reads_back:
  "is_none_or x f64_is_finite \<Longrightarrow>
   only_fields [n] (some_field n json_of_f64 x) (optional json_as_f64 n (some_field n json_of_f64 x)) = Some x"
  by (subst only_fields_written)
     (auto simp: oget_some_field reads intro!: optional_written [where f = json_of_f64])

lemma one_reads_back: "rd (f v) = Some v \<Longrightarrow> read_one rd n [(n, f v)] = Some v"
  by (simp add: read_one_def only_fields_def needed_def)

lemma light_reads_back:
  assumes "light_turn_on_validate d = Ok ()" and "in_range jt (SvLight (LightTurnOn d))"
  shows "read_light_turn_on (service_data jt (SvLight (LightTurnOn d))) = Some d"
proof -
  let ?o = "service_data jt (SvLight (LightTurnOn d))"
  have b: "optional (whole_nat 1 255) ''brightness'' ?o = Some (lo_brightness d)"
    using assms
    by (intro optional_written [where f = nat_json])
       (auto simp: oget_some_field light_turn_on_validate_def and_then_Inr_iff intro!: reads)
  have k: "optional (whole_nat 1000 20000) ''color_temp_kelvin'' ?o = Some (lo_color_temp_kelvin d)"
    using assms
    by (intro optional_written [where f = nat_json])
       (auto simp: oget_some_field light_turn_on_validate_def and_then_Inr_iff intro!: reads)
  have c: "optional read_rgb ''rgb'' ?o = Some (lo_rgb d)"
    using assms
    by (intro optional_written [where f = rgb_json]) (auto simp: oget_some_field reads)
  have o: "only_fields [''brightness'', ''color_temp_kelvin'', ''rgb''] ?o r = r" for r
    by (rule only_fields_written) simp
  show ?thesis
    unfolding read_light_turn_on_def o b k c
    using assms(1) by (cases d) simp
qed

lemma fan_reads_back:
  assumes "in_range jt (SvFan (FanTurnOn d))"
  shows "read_fan_turn_on (service_data jt (SvFan (FanTurnOn d))) = Some d"
proof -
  let ?o = "service_data jt (SvFan (FanTurnOn d))"
  have p: "optional (read_uint 255) ''percentage'' ?o = Some (fo_percentage d)"
    using assms by (intro optional_written [where f = nat_json]) (auto simp: oget_some_field reads)
  have m: "optional read_string ''preset_mode'' ?o = Some (fo_preset_mode d)"
    by (intro optional_written [where f = JStr]) (auto simp: oget_some_field)
  have o: "only_fields [''percentage'', ''preset_mode''] ?o r = r" for r
    by (rule only_fields_written) simp
  show ?thesis unfolding read_fan_turn_on_def o p m by simp
qed

lemma siren_reads_back:
  assumes "siren_turn_on_validate d = Ok ()"
  shows "read_siren_turn_on (service_data jt (SvSiren (SirenTurnOn d))) = Some d"
proof -
  let ?o = "service_data jt (SvSiren (SirenTurnOn d))"
  have t: "optional read_string ''tone'' ?o = Some (so_tone d)"
    by (intro optional_written [where f = JStr]) (auto simp: oget_some_field)
  have v: "optional json_as_f64 ''volume_level'' ?o = Some (so_volume_level d)"
    using assms
    by (intro optional_written [where f = json_of_f64])
       (auto simp: oget_some_field siren_turn_on_validate_def and_then_Inr_iff f64_within_iff)
  have s: "optional (read_uint 4294967295) ''duration'' ?o = Some (so_duration d)"
    using assms
    by (intro optional_written [where f = nat_json])
       (auto simp: oget_some_field siren_turn_on_validate_def and_then_Inr_iff reads)
  have o: "only_fields [''tone'', ''volume_level'', ''duration''] ?o r = r" for r
    by (rule only_fields_written) simp
  show ?thesis unfolding read_siren_turn_on_def o t v s by simp
qed

lemma set_temperature_reads_back:
  assumes "set_temperature_validate d = Ok ()"
  shows "read_set_temperature (service_data jt (SvClimate (ClimateSetTemperature d))) = Some d"
proof -
  let ?o = "service_data jt (SvClimate (ClimateSetTemperature d))"
  have fin: "is_none_or (cs_temperature d) f64_is_finite" "is_none_or (cs_target_temp_low d) f64_is_finite"
    "is_none_or (cs_target_temp_high d) f64_is_finite"
    using assms by (simp_all add: set_temperature_validate_def and_then_Inr_iff split: sum.splits)
  have t: "optional json_as_f64 ''temperature'' ?o = Some (cs_temperature d)"
    using fin by (intro optional_written [where f = json_of_f64]) (auto simp: oget_some_field reads)
  have l: "optional json_as_f64 ''target_temp_low'' ?o = Some (cs_target_temp_low d)"
    using fin by (intro optional_written [where f = json_of_f64]) (auto simp: oget_some_field reads)
  have h: "optional json_as_f64 ''target_temp_high'' ?o = Some (cs_target_temp_high d)"
    using fin by (intro optional_written [where f = json_of_f64]) (auto simp: oget_some_field reads)
  have m: "optional (read_enum hvac_mode_variants) ''hvac_mode'' ?o = Some (cs_hvac_mode d)"
    by (intro optional_written [where f = "enum_json hvac_mode_variants"]) (auto simp: oget_some_field reads)
  have o: "only_fields [''temperature'', ''target_temp_low'', ''target_temp_high'', ''hvac_mode''] ?o r = r" for r
    by (rule only_fields_written) simp
  show ?thesis unfolding read_set_temperature_def o t l h m by simp
qed

lemma heater_reads_back:
  assumes "f64_is_finite (ws_temperature d)"
  shows "read_heater_temperature (service_data jt (SvWaterHeater (WaterHeaterSetTemperature d))) = Some d"
proof -
  let ?o = "service_data jt (SvWaterHeater (WaterHeaterSetTemperature d))"
  have t: "needed json_as_f64 ''temperature'' ?o = Some (ws_temperature d)"
    using assms by (intro needed_written [where f = json_of_f64]) (auto simp: oget_some_field reads)
  have m: "optional (read_enum water_heater_mode_variants) ''operation_mode'' ?o = Some (ws_operation_mode d)"
    by (intro optional_written [where f = "enum_json water_heater_mode_variants"])
       (auto simp: oget_some_field reads)
  have o: "only_fields [''temperature'', ''operation_mode''] ?o r = r" for r
    by (rule only_fields_written) simp
  show ?thesis unfolding read_heater_temperature_def o t m by simp
qed

lemma play_media_reads_back:
  "read_play_media (service_data jt (SvMediaPlayer (MediaPlayerPlayMedia d))) = Some d"
proof -
  let ?o = "service_data jt (SvMediaPlayer (MediaPlayerPlayMedia d))"
  have a: "needed read_string ''content_type'' ?o = Some (pm_content_type d)"
    "needed read_string ''content_id'' ?o = Some (pm_content_id d)"
    by (auto intro!: needed_written [where f = JStr] simp: oget_some_field)
  have b: "optional read_string ''title'' ?o = Some (pm_title d)"
    "optional read_string ''artist'' ?o = Some (pm_artist d)"
    "optional read_string ''album'' ?o = Some (pm_album d)"
    "optional read_string ''image_url'' ?o = Some (pm_image_url d)"
    by (auto intro!: optional_written [where f = JStr] simp: oget_some_field)
  have o: "only_fields [''content_type'', ''content_id'', ''title'', ''artist'', ''album'', ''image_url''] ?o r = r" for r
    by (rule only_fields_written) simp
  show ?thesis unfolding read_play_media_def o a b by simp
qed

lemmas reads_back =
  light_reads_back fan_reads_back siren_reads_back set_temperature_reads_back heater_reads_back
  play_media_reads_back code_reads_back number_opt_reads_back one_reads_back

lemmas service_splits =
  light_service.splits switch_service.splits number_service.splits cover_service.splits
  lock_service.splits fan_service.splits valve_service.splits siren_service.splits
  climate_service.splits water_heater_service.splits humidifier_service.splits
  media_player_service.splits update_service.splits alarm_service.splits vacuum_service.splits
  mower_service.splits camera_service.splits timer_service.splits

lemma takes_its_data: "takes_data (service_kind s) (service_action s) \<or> service_data jt s = []"
  by (cases s) (auto simp: takes_data_def data_of_def split: service_splits)

lemma finite_of_checks:
  "number_step_validate x = Ok () \<Longrightarrow> is_none_or x f64_is_finite"
  "timer_start_validate x = Ok () \<Longrightarrow> is_none_or x f64_is_finite"
  "timer_change_validate v = Ok () \<Longrightarrow> f64_is_finite v"
  "set_humidity_validate v = Ok () \<Longrightarrow> f64_is_finite v"
  "mp_seconds what (Some v) = Ok () \<Longrightarrow> f64_is_finite v"
  by (auto simp: number_step_validate_def timer_start_validate_def timer_change_validate_def
      set_humidity_validate_def mp_seconds_def f64_within_iff is_none_or_iff)

lemma moment_reads_back:
  "in_range jt (DateSetValue d) \<Longrightarrow> read_one (read_date jt) n [(n, JStr (civil_date_text d))] = Some d"
  "in_range jt (TimeSetValue c) \<Longrightarrow> read_one read_clock n [(n, JStr (clock_time_text c))] = Some c"
  "in_range jt (DatetimeSetValue i) \<Longrightarrow> read_one (read_instant jt) n [(n, JStr (instant_text jt i))] = Some i"
  by (simp_all add: read_one_def only_fields_def needed_def read_date_def read_clock_def
      read_instant_def civil_date_parse_text clock_time_parse_text)

lemma alarm_reads_back:
  "read_service jt K_AlarmControlPanel (service_action (SvAlarm s)) (service_data jt (SvAlarm s))
   = Some (Some (SvAlarm s))"
proof (cases s)
  case (AlarmArm m c)
  then show ?thesis by (cases m) (simp_all add: read_service_def arm_modes_all_def code_reads_back)
qed (simp_all add: read_service_def arm_modes_all_def code_reads_back)

lemma read_service_data:
  assumes "service_validate s = Ok ()" and "in_range jt s"
  shows "read_service jt (service_kind s) (service_action s) (service_data jt s) = Some (Some s)"
proof (cases "service_kind s = K_AlarmControlPanel")
  case True
  then show ?thesis by (cases s) (simp_all add: alarm_reads_back del: service_action.simps service_data.simps)
next
  case False
  then show ?thesis
    using assms
    by (cases s)
       (auto simp: read_service_def reads_back [simplified] reads finite_of_checks
          moment_reads_back [simplified] split: service_splits)
qed

text \<open>C24. Round trip of a service through its data: what \<open>Service::data\<close> writes, \<open>Service::from_data\<close>
  reads back as the same service, for every service that passes its own checks and whose fields
  hold what their types can.  A service without data is sent none and is read back too.\<close>

theorem service_reads_back:
  assumes "service_validate s = Ok ()" and "in_range jt s"
  shows "from_data jt (service_kind s) (service_action s) (unwrap_or (data_to_send jt s) []) = Ok s"
proof -
  have "unwrap_or (data_to_send jt s) [] = service_data jt s"
    by (simp add: data_to_send_def)
  then show ?thesis
    using read_service_data [OF assms] takes_its_data [of s jt] assms(1)
    by (auto simp: from_data_def)
qed

lemma service_reads_back_witness:
  "from_data no_dates K_Climate ''set_temperature''
     [(''hvac_mode'', JStr ''heat''), (''temperature'', JFloat (43 / 2))]
   = Ok (SvClimate (ClimateSetTemperature
       \<lparr>cs_temperature = Some (Fin (43 / 2)), cs_target_temp_low = None, cs_target_temp_high = None,
        cs_hvac_mode = Some HM_Heat\<rparr>))"
proof -
  let ?s = "SvClimate (ClimateSetTemperature
       \<lparr>cs_temperature = Some (Fin (43 / 2)), cs_target_temp_low = None, cs_target_temp_high = None,
        cs_hvac_mode = Some HM_Heat\<rparr>)"
  have "service_validate ?s = Ok ()"
    by (simp add: set_temperature_validate_def check_some_def)
  moreover have "in_range no_dates ?s" by simp
  moreover have "unwrap_or (data_to_send no_dates ?s) [] =
      [(''hvac_mode'', JStr ''heat''), (''temperature'', JFloat (43 / 2))]"
    by (simp add: data_to_send_def some_field_def enum_json_def) code_simp
  ultimately show ?thesis
    using service_reads_back [of ?s no_dates] by simp
qed

section \<open>What is read is what was named\<close>

lemma read_service_is_named:
  "read_service jt k a d = Some (Some s) \<Longrightarrow> service_kind s = k \<and> service_action s = a \<and> a \<in> set (kind_actions k)"
  by (auto simp: read_service_def arm_modes_all_def split: if_splits)

text \<open>Reading a service by its name: what \<open>Service::from_data\<close> answers is a service of that kind
  and that action, one the kind has, and it passes its own checks; data for a service that takes
  none is refused.\<close>

lemma service_is_the_named_one:
  assumes "from_data jt k a d = Ok s"
  shows "service_kind s = k \<and> service_action s = a \<and> a \<in> set (kind_actions k)
    \<and> service_validate s = Ok () \<and> (takes_data k a \<or> d = [])"
proof -
  have "read_service jt k a d = Some (Some s)" and "service_validate s = Ok ()" and "takes_data k a \<or> d = []"
    using assms by (auto simp: from_data_def and_then_Inr_iff split: if_splits option.splits)
  then show ?thesis using read_service_is_named by blast
qed

section \<open>Toggles and what is asked\<close>

lemma parsed_words:
  "open_state_parse ''open'' = Some OS_Open" "open_state_parse ''closed'' = Some OS_Closed"
  "lock_status_parse ''locked'' = Some LS_Locked" "lock_status_parse ''unlocked'' = Some LS_Unlocked"
  "hvac_mode_parse ''off'' = Some HM_Off" "water_heater_mode_parse ''off'' = Some WM_Off"
  using enum_parse_str(1) [of OS_Open] enum_parse_str(1) [of OS_Closed] enum_parse_str(6) [of LS_Locked]
    enum_parse_str(6) [of LS_Unlocked] enum_parse_str(2) [of HM_Off] enum_parse_str(3) [of WM_Off]
  by simp_all

text \<open>A toggle: the service it resolves to is one of the kind's, and if that service asks for a
  value, it is not the value the entity already has.  So a toggle never asks for what is.\<close>

lemma toggle_asks_other:
  assumes "toggle k cur = Some a" and "service_kind s = k" and "service_action s = a"
    and "asks_for jt s = Some v"
  shows "a \<in> set (kind_actions k) \<and> cur \<noteq> Some v"
  using assms
  by (cases s)
     (auto simp: toggle_def on_off_toggle_def parsed_words
       split: if_splits service_splits option.splits typed.splits lock_status.splits)


lemma with_primary_kind: "with_primary jt k prev v = Some st \<Longrightarrow> state_kind st = k"
  by (cases k) auto

text \<open>The kinds whose states have no limits of the entity's to fit.\<close>

lemma fits_unlimited:
  "state_kind st = caps_kind caps \<Longrightarrow>
   caps_kind caps \<notin> set [K_Light, K_Sensor, K_Number, K_Select, K_Text, K_Event, K_Cover, K_Fan, K_Valve,
     K_Climate, K_Humidifier, K_WaterHeater, K_MediaPlayer, K_Vacuum, K_Camera] \<Longrightarrow>
   fits caps st = Ok ()"
  by (cases caps) (auto simp: fits_def)

lemmas with_defs =
  light_with_def fan_with_def cover_with_def valve_with_def climate_with_def climate_in_mode_def
  water_heater_with_def humidifier_with_def media_player_with_def vacuum_with_def camera_with_def
  number_with_def text_with_def prev_of_def

lemmas fits_defs =
  fits_def light_fits_def light_supports_def cover_fits_def valve_fits_def opening_fits_def
  cover_opening_def valve_opening_def cover_abilities_def valve_abilities_def fan_fits_def
  climate_fits_def water_heater_fits_def humidifier_fits_def media_player_fits_def vacuum_fits_def
  camera_fits_def

lemmas supports_defs =
  supports_def number_supports_def climate_supports_def climate_supports_temperature_def
  climate_supports_mode_def water_heater_supports_def water_heater_supports_mode_def camera_supports_def

text \<open>The kinds that have limits, one by one: what the new state keeps of the old one fits as it
  did, and the value asked for is one the entity takes.\<close>

lemma ask_kind: "supports caps s = Ok () \<Longrightarrow> service_kind s = caps_kind caps"
  by (simp add: supports_def split: if_splits)

text \<open>A mode a supported service asks a thermostat or a water heater for is one it has.\<close>

lemma climate_ask:
  assumes "climate_supports c n = Ok ()" and "asks_for jt (SvClimate n) = Some v"
  obtains m where "v = TText (hvac_mode_str m)" and "m \<in> set (mc_hvac_modes c)"
  using assms
  by (cases n)
     (auto simp: climate_supports_def climate_supports_mode_def climate_supports_temperature_def
        and_then_Inr_iff require_def simp del: hvac_mode_str.simps split: if_splits)

lemma climate_mode_fits:
  "climate_fits c x = Ok () \<Longrightarrow> m \<in> set (mc_hvac_modes c) \<Longrightarrow> climate_fits c (x\<lparr>cl_hvac_mode := m\<rparr>) = Ok ()"
  by (simp add: climate_fits_def climate_supports_mode_def and_then_Inr_iff)

lemma water_heater_ask:
  assumes "water_heater_supports c n = Ok ()" and "asks_for jt (SvWaterHeater n) = Some v"
  obtains m where "v = TText (water_heater_mode_str m)"
    and "m \<in> set (wc_operation_modes c) \<or> wc_on_off c \<and> m = WM_Off"
  using assms
  by (cases n)
     (auto simp: water_heater_supports_def water_heater_supports_mode_def and_then_Inr_iff require_def
       simp del: water_heater_mode_str.simps split: if_splits)

lemma asked_state_of_kind:
  assumes "supports caps s = Ok ()" and "asks_for jt s = Some v" and "caps_kind caps = state_kind p"
    and "fits caps p = Ok ()" and "with_primary jt (caps_kind caps) (Some p) v = Some st"
  shows "fits caps st = Ok ()"
proof -
  have "same_kind caps p" and k: "service_kind s = caps_kind caps"
    using assms(1,3) by (simp_all add: same_kind_iff ask_kind)
  from this(1) show ?thesis
  proof (cases rule: same_kind.cases)
    case (5 c x)
    with k obtain n where "s = SvNumber n" by (cases s) auto
    with 5 assms show ?thesis by (cases n) (auto simp: with_defs fits_defs supports_defs)
  next
    case (6 c x)
    with k obtain n where "s = SelectSelectOption n" by (cases s) auto
    with 6 assms show ?thesis by (auto simp: with_defs fits_defs supports_defs)
  next
    case (7 c x)
    with k obtain n where "s = TextSetValue n" by (cases s) auto
    with 7 assms show ?thesis by (auto simp: with_defs fits_defs supports_defs)
  next
    case (14 c x)
    with k obtain n where "s = SvClimate n" by (cases s) auto
    with 14 assms(1) have "climate_supports c n = Ok ()" by (simp add: supports_def)
    then obtain m where "v = TText (hvac_mode_str m)" "m \<in> set (mc_hvac_modes c)"
      by (rule climate_ask) (use assms(2) \<open>s = SvClimate n\<close> in simp)
    with 14 assms(4,5) show ?thesis
      by (auto simp: climate_with_def prev_of_def fits_def climate_mode_fits)
  next
    case (15 c x)
    with k obtain n where "s = SvWaterHeater n" by (cases s) auto
    with 15 assms(1) have "water_heater_supports c n = Ok ()" by (simp add: supports_def)
    then obtain m where "v = TText (water_heater_mode_str m)"
      "m \<in> set (wc_operation_modes c) \<or> wc_on_off c \<and> m = WM_Off"
      by (rule water_heater_ask) (use assms(2) \<open>s = SvWaterHeater n\<close> in simp)
    with 15 assms(4,5) show ?thesis
      by (auto simp: water_heater_with_def prev_of_def fits_def water_heater_fits_def water_heater_supports_mode_def)
  next
    case (28 c x)
    with k obtain n where "s = SvCamera n" by (cases s) auto
    with 28 assms show ?thesis
      by (cases n) (auto simp: with_defs fits_defs supports_defs require_def split: if_splits)
  next
    case (3 c x)
    with k show ?thesis by (cases s) auto
  next
    case (8 c x)
    with k show ?thesis by (cases s) auto
  qed (use assms(4,5) in \<open>cases v; auto simp: with_defs bool_with_def update_with_def
         tracker_with_def schedule_with_def timer_with_def fits_defs fits_unlimited
         split: option.splits if_splits\<close>)+
qed

text \<open>C23. What an entity is asked for is something it can be: when a service is one the entity
  supports and it asks for a value, the state it was in with that value in place of its main value
  is again one the entity can be in, and the value has the shape of the entity's main value (and is
  one of its options, where it lists them).\<close>

theorem supported_ask_fits:
  assumes "supports caps s = Ok ()" and "asks_for jt s = Some v" and "fits caps p = Ok ()"
    and "with_primary jt (caps_kind caps) (Some p) v = Some st"
  shows "fits caps st = Ok ()
    \<and> primary_shape caps = Some (typed_shape (primary jt st))
    \<and> (\<forall>t os. primary jt st = TText t \<and> text_options caps = Some os \<longrightarrow> t \<in> set os)"
  using asked_state_of_kind [OF assms(1,2) fits_kind [OF assms(3)] assms(3,4)]
  by (blast intro: reported_primary_shape reported_text_is_an_option)

lemma supported_ask_fits_witness:
  "fits (C_Select [''eco'', ''boost'']) (Select \<lparr>sl_option = ''boost''\<rparr>) = Ok ()"
  using supported_ask_fits [of "C_Select [''eco'', ''boost'']" "SelectSelectOption ''boost''" no_dates
      "TText ''boost''" "Select \<lparr>sl_option = ''eco''\<rparr>" "Select \<lparr>sl_option = ''boost''\<rparr>"]
  by (simp add: supports_def select_has_def fits_def text_with_def)

end
