(* ===== verification/RuleProps.thy ===== *)
theory RuleProps
  imports RuleChecks ServiceProps
begin

text \<open>
  What the static checks promise: typing an expression always ends, a read that was accepted gives
  a value of the kind it was typed with, and a call that was accepted is one the entity can do.
\<close>

section \<open>Typing ends\<close>

lemma walk_call_known:
  assumes "walk_call rv sets name args acc = Ok acc'"
  shows "name \<in> set entity_fns \<union> {''var''} \<union> set cel_ops \<union> set clock_fns \<union> set math_fns"
  using assms by (auto simp: walk_call_def Let_def and_then_Inr_iff split: if_splits)

lemma known_calls_are_typed:
  assumes "name \<in> set entity_fns \<union> {''var''} \<union> set cel_ops \<union> set clock_fns \<union> set math_fns"
  shows "name \<in> set number_calls \<union> set math_fns \<union> set bool_calls \<union> {''text'', ''attr'', ''var'', ''_?_:_''}"
  using assms
  by (auto simp: entity_fns_def cel_ops_def clock_fns_def math_fns_def number_calls_def bool_calls_def)

lemma not_endless [simp]:
  "(Inr x :: 'a res) \<noteq> endless" "(Inl (Msg t as) :: 'a res) \<noteq> endless"
  "ternary_kind l r \<noteq> endless"
  by (simp_all add: endless_def ternary_kind_def)

lemma and_then_endless:
  "and_then r f = endless \<longleftrightarrow> r = endless \<or> (\<exists>x. r = Inr x \<and> f x = endless)"
  by (cases r) (auto simp: endless_def)

lemma bind_endless: "(case x of None \<Rightarrow> Inl (Msg t as) | Some v \<Rightarrow> f v) = endless \<longleftrightarrow> (\<exists>v. x = Some v \<and> f v = endless)"
  by (cases x) simp_all

lemma if_not_endless:
  "(b \<Longrightarrow> x \<noteq> endless) \<Longrightarrow> (\<not> b \<Longrightarrow> y \<noteq> endless) \<Longrightarrow> (if b then x else y) \<noteq> endless"
  by simp

lemma infer_type_call_endless:
  assumes "author_name fn \<in> set number_calls \<union> set math_fns \<union> set bool_calls \<union> {''text'', ''attr'', ''var'', ''_?_:_''}"
    and "\<And>e. e \<in> set args \<Longrightarrow> infer_type sets e \<noteq> endless"
    and "infer_numbers sets (author_name fn) args \<noteq> endless"
  shows "infer_type sets (XCall fn target args) \<noteq> endless"
proof -
  have two: "(case args of _ # left # rest \<Rightarrow>
               and_then (infer_type sets left) (\<lambda>l.
               case rest of right # _ \<Rightarrow> and_then (infer_type sets right) (ternary_kind l)
               | [] \<Rightarrow> Err (plain ''ternary needs two branches''))
           | _ \<Rightarrow> Err (plain ''ternary needs two branches'')) \<noteq> (endless :: var_kind res)"
    using assms(2) by (auto simp: and_then_endless split: list.split)
  show ?thesis
    unfolding infer_type.simps Let_def
    by (intro if_not_endless) (use assms(1,3) two in \<open>auto simp: and_then_endless bind_endless\<close>)
qed

lemma typed_after_walk:
  "walk_ast rv sets e acc = Ok acc' \<Longrightarrow> infer_type sets e \<noteq> endless"
  "walk_args rv sets es acc = Ok acc' \<Longrightarrow>
     (\<forall>e \<in> set es. infer_type sets e \<noteq> endless) \<and> (\<forall>name. infer_numbers sets name es \<noteq> endless)"
proof (induction rv sets e acc and rv sets es acc arbitrary: acc' and acc' rule: walk_ast_walk_args.induct)
  case (10 rv sets fn target args acc)
  from 10(3) obtain a b where call: "walk_call rv sets (author_name fn) args acc = Ok a"
    and args: "walk_args rv sets args a = Ok b"
    by (simp only: walk_ast.simps and_then_Inr_iff) blast
  note ih = 10(1) [OF args]
  show ?case
    by (rule infer_type_call_endless) (use known_calls_are_typed [OF walk_call_known [OF call]] ih in blast)+
next
  case (12 rv sets e es acc)
  from 12(3) obtain b where "walk_ast rv sets e acc = Ok b" and "walk_args rv sets es b = Ok acc'"
    by (simp only: walk_args.simps and_then_Inr_iff) blast
  from 12(1) [OF this(1)] 12(2) [OF this(2)]
  show ?case by (simp add: and_then_endless del: infer_type.simps)
qed (simp_all add: and_then_endless)

text \<open>C22. Typing an expression ends: once the walk has accepted it, the branch in which the source
  would type a call as itself, and so recurse for ever, is not reached by any part of it.\<close>

theorem accepted_expression_is_typed:
  assumes "walk_ast rv sets e acc = Ok acc'"
  shows "infer_type sets e \<noteq> endless"
  by (rule typed_after_walk(1) [OF assms])

lemma accepted_expression_is_typed_witness:
  "walk_ast (map_registry [] True True) [] (XCall ''min'' None [XNumber (Fin 1), XNumber (Fin 2)]) ([], False)
     = Ok ([], False)
   \<and> infer_type [] (XCall ''min'' None [XNumber (Fin 1), XNumber (Fin 2)]) \<noteq> endless
   \<and> infer_type [] (XCall ''f'' None []) = endless"
proof -
  have ok: "walk_ast (map_registry [] True True) [] (XCall ''min'' None [XNumber (Fin 1), XNumber (Fin 2)]) ([], False) = Ok ([], False)"
    by (simp add: walk_call_def forbidden_call_def author_name_def check_arity_def arity_of_def
          clock_fns_def binary_ops_def entity_fns_def cel_ops_def math_fns_def)
  have "infer_type [] (XCall ''f'' None []) = endless"
    by (simp add: author_name_def number_calls_def math_fns_def bool_calls_def)
  then show ?thesis using ok accepted_expression_is_typed [OF ok] by blast
qed

section \<open>Reads that were accepted\<close>

text \<open>What the home has reported fits what its entities can do. An entity may be missing, unavailable
  or yet to report. (\<open>stored_state_fits\<close> shows it of the states the core keeps.)\<close>

definition states_fit :: "registry_view \<Rightarrow> states \<Rightarrow> bool" where
  "states_fit rv ss \<longleftrightarrow>
     (\<forall>i e es st. rv_entity rv i = Some e \<longrightarrow> oget i ss = Some es \<longrightarrow> es_state es = Some st \<longrightarrow>
        fits (en_capabilities e) st = Ok ())"

definition present :: "states \<Rightarrow> string \<Rightarrow> bool" where
  "present ss i \<longleftrightarrow> (\<exists>es. oget i ss = Some es \<and> es_availability es = Available)"

fun cel_kind :: "cel_value \<Rightarrow> var_kind option" where
  "cel_kind (CelBool _) = Some KBool"
| "cel_kind (CelInt _) = Some KNumber"
| "cel_kind (CelUInt _) = Some KNumber"
| "cel_kind (CelFloat _) = Some KNumber"
| "cel_kind (CelString _) = Some KString"
| "cel_kind _ = None"

fun kind_of_shape :: "value_shape \<Rightarrow> var_kind" where
  "kind_of_shape ShapeNumber = KNumber"
| "kind_of_shape ShapeBool = KBool"
| "kind_of_shape ShapeText = KString"

text \<open>The refusals a check can't foresee: a value that may be there and hasn't been reported.\<close>

definition not_said :: "msg \<Rightarrow> bool" where
  "not_said m \<longleftrightarrow>
     (\<exists>as. m = Msg ''{}({:?}, {:?}): the entity hasn't said its {}'' as
         \<or> m = Msg ''brightness({:?}): the light hasn't said its brightness'' as
         \<or> m = Msg ''attr({:?}, {:?}): no such attribute'' as)"

text \<open>Why an entity can't be read: it is gone, unavailable, has never reported, or has not said just this.\<close>

definition why_not :: "states \<Rightarrow> string \<Rightarrow> msg \<Rightarrow> bool" where
  "why_not ss i m \<longleftrightarrow>
     (case oget i ss of
        None \<Rightarrow> \<exists>as. m = Msg ''{}({:?}): no such entity'' as \<or> m = Msg ''attr({:?}): no such entity'' as
      | Some es \<Rightarrow>
          if es_availability es = Unavailable then
            \<exists>as. m = Msg ''{}({:?}): entity is unavailable'' as \<or> m = Msg ''attr({:?}): entity is unavailable'' as
          else es_state es = None \<and> (\<exists>as. m = Msg ''{}({:?}): entity has never reported a value'' as) \<or> not_said m)"

text \<open>A value of the kind, any plain value or null where only an attribute's kind was promised.\<close>

definition has_kind :: "var_kind \<Rightarrow> cel_value \<Rightarrow> bool" where
  "has_kind k v \<longleftrightarrow> cel_kind v = Some k \<or> k = KScalar \<and> (cel_kind v \<noteq> None \<or> v = CelNull)"

definition value_is :: "var_kind \<Rightarrow> cel_value res \<Rightarrow> bool" where
  "value_is k r = (case r of Inr v \<Rightarrow> has_kind k v | Inl m \<Rightarrow> not_said m)"

definition tells_presence :: "string \<Rightarrow> bool" where
  "tells_presence fn \<longleftrightarrow> fn = ''available'' \<or> fn = ''unknown''"

text \<open>A read answers a value of the kind, from an entity that is there and available, or says why not;
  whether it is available or unknown can always be told.\<close>

definition read_is :: "states \<Rightarrow> string \<Rightarrow> string \<Rightarrow> var_kind \<Rightarrow> cel_value res \<Rightarrow> bool" where
  "read_is ss fn i k r =
     (case r of
        Inr v \<Rightarrow> has_kind k v \<and> (tells_presence fn \<or> present ss i)
      | Inl m \<Rightarrow> \<not> tells_presence fn \<and> why_not ss i m)"

lemma cel_kind_of_typed: "cel_kind (cel_of_typed v) = Some (kind_of_shape (typed_shape v))"
  by (cases v) simp_all

lemma read_live:
  assumes "states_fit rv ss" and "rv_entity rv i = Some e" and "check_entity_id i = Ok ()" and "\<not> tells_presence fn"
    and "\<And>st. fits (en_capabilities e) st = Ok () \<Longrightarrow> value_is k (f st)"
  shows "read_is ss fn i k (and_then (fst (live jt n ss i reads)) f)"
proof (cases "oget i ss")
  case None
  then show ?thesis using assms(3,4) by (simp add: live_def look_def read_is_def why_not_def)
next
  case (Some es)
  show ?thesis
  proof (cases "es_availability es = Unavailable \<or> es_state es = None")
    case True
    then show ?thesis using Some assms(3,4) by (auto simp: live_def look_def read_is_def why_not_def split: option.split)
  next
    case False
    then obtain st where st: "es_state es = Some st" "es_availability es = Available"
      by (cases "es_availability es") auto
    then have "value_is k (f st)" using assms(1,2,5) Some by (auto simp: states_fit_def)
    moreover have "and_then (fst (live jt n ss i reads)) f = f st"
      using Some st assms(3) by (simp add: live_def look_def)
    ultimately show ?thesis using Some st assms(4)
      by (auto simp: value_is_def read_is_def why_not_def present_def split: sum.splits)
  qed
qed

lemma read_primary_checked:
  assumes "fits caps st = Ok ()" and "primary_shape caps = Some sh"
  shows "value_is (kind_of_shape sh) (read_primary jt fn sh st i)"
  using reported_primary_shape [OF assms(1), of "date_library.truncate jt"] assms(2)
  by (simp add: read_primary_def value_is_def has_kind_def cel_kind_of_typed Let_def)

lemma read_named_field_checked:
  assumes "fits caps st = Ok ()" and "field_shape caps f = Some sh"
  shows "value_is (kind_of_shape sh) (read_named_field jt fn sh st i f)"
  using reported_field_shape [OF fits_kind [OF assms(1)] assms(2), of "date_library.truncate jt"]
  by (auto simp: read_named_field_def value_is_def has_kind_def cel_kind_of_typed not_said_def split: option.split)

fun fn_shape :: "string \<Rightarrow> value_shape" where
  "fn_shape n = (if n = ''num'' then ShapeNumber else if n = ''on'' then ShapeBool else ShapeText)"

declare fn_shape.simps [simp del]

lemma check_fn_shape:
  assumes "check_fn_against_registry n i rv = Ok ()" and "n \<in> {''num'', ''on'', ''text''}"
  obtains e where "rv_entity rv i = Some e" and "primary_shape (en_capabilities e) = Some (fn_shape n)"
proof -
  obtain e where "rv_entity rv i = Some e"
    using assms(1) by (cases "rv_entity rv i") (simp_all add: check_fn_against_registry_def no_entity_def)
  moreover from this have "primary_shape (en_capabilities e) = Some (fn_shape n)"
    using assms
    by (cases "primary_shape (en_capabilities e)")
       (auto simp: check_fn_against_registry_def fn_shape.simps split: if_splits)
  ultimately show ?thesis by (rule that)
qed

lemma check_field_shape:
  assumes "check_field_against_registry n i f rv = Ok ()"
  obtains e where "rv_entity rv i = Some e" and "field_shape (en_capabilities e) f = Some (fn_shape n)"
  using assms
  by (auto simp: check_field_against_registry_def Let_def fn_shape.simps split: option.splits if_splits)

lemma brightness_checked:
  assumes "check_fn_against_registry ''brightness'' i rv = Ok ()"
  obtains e where "rv_entity rv i = Some e" and "caps_kind (en_capabilities e) = K_Light"
proof -
  obtain e where e: "rv_entity rv i = Some e"
    using assms by (cases "rv_entity rv i") (simp_all add: check_fn_against_registry_def no_entity_def)
  moreover have "has_brightness (en_capabilities e) \<noteq> None"
    using assms e
    by (cases "primary_shape (en_capabilities e)")
       (auto simp: check_fn_against_registry_def split: option.splits)
  then have "caps_kind (en_capabilities e) = K_Light" by (cases "en_capabilities e") simp_all
  ultimately show ?thesis by (rule that)
qed

lemma entity_call_cases:
  assumes "entity_call rv n (map XText ts) acc = Ok acc'" and "check_arity n (length ts) = Ok ()"
    and "n \<in> set entity_fns"
  obtains (main) i where "ts = [i]" "check_entity_id i = Ok ()" "n \<noteq> ''attr''" "check_fn_against_registry n i rv = Ok ()"
  | (field) i f where "ts = [i, f]" "check_entity_id i = Ok ()" "n \<in> {''num'', ''on'', ''text''}"
      "check_field_against_registry n i f rv = Ok ()"
  | (attr) i k where "ts = [i, k]" "check_entity_id i = Ok ()" "n = ''attr''" "rv_entity rv i \<noteq> None"
proof -
  obtain i rest where ts: "ts = i # rest" using assms(1) by (cases ts) (simp_all add: entity_call_def)
  have id: "check_entity_id i = Ok ()"
    using assms(1) ts by (auto simp: entity_call_def and_then_Inr_iff entity_id_parse_def)
  show thesis
  proof (cases "n = ''attr''")
    case True
    then obtain k where "rest = [k]"
      using assms(1,2) ts
      by (cases rest) (auto simp: entity_call_def and_then_Inr_iff check_arity_def arity_of_def Let_def no_entity_def
            split: if_splits)
    then show thesis using attr [of i k] True id ts assms(1)
      by (auto simp: entity_call_def and_then_Inr_iff Let_def no_entity_def split: if_splits)
  next
    case notattr: False
    show thesis
    proof (cases rest)
      case Nil
      then show thesis using main [of i] notattr id ts assms(1)
        by (auto simp: entity_call_def and_then_Inr_iff Let_def)
    next
      case (Cons f more)
      then have "n \<in> {''num'', ''on'', ''text''} \<and> more = []"
        using assms(2,3) ts notattr by (auto simp: check_arity_def arity_of_def entity_fns_def split: if_splits)
      then show thesis using field [of i f] Cons notattr id ts assms(1)
        by (auto simp: entity_call_def and_then_Inr_iff Let_def)
    qed
  qed
qed

lemma valued_fn_main:
  assumes "states_fit rv ss" and "check_entity_id i = Ok ()"
    and "check_fn_against_registry n i rv = Ok ()" and "n \<in> {''num'', ''on'', ''text''}"
  shows "read_is ss n i (kind_of_shape (fn_shape n)) (fst (valued_fn jt ss n (fn_shape n) [CelString i] reads))"
proof -
  obtain e where e: "rv_entity rv i = Some e" "primary_shape (en_capabilities e) = Some (fn_shape n)"
    using check_fn_shape [OF assms(3,4)] .
  have "\<not> tells_presence n" using assms(4) by (auto simp: tells_presence_def)
  then have "read_is ss n i (kind_of_shape (fn_shape n))
      (and_then (fst (live jt n ss i reads)) (\<lambda>s. read_primary jt n (fn_shape n) s i))"
    by (rule read_live [OF assms(1) e(1) assms(2) _ read_primary_checked [OF _ e(2)]])
  then show ?thesis by (simp add: valued_fn_def case_prod_beta)
qed

lemma valued_fn_field:
  assumes "states_fit rv ss" and "check_entity_id i = Ok ()"
    and "check_field_against_registry n i f rv = Ok ()" and "n \<in> {''num'', ''on'', ''text''}"
  shows "read_is ss n i (kind_of_shape (fn_shape n)) (fst (valued_fn jt ss n (fn_shape n) [CelString i, CelString f] reads))"
proof -
  obtain e where e: "rv_entity rv i = Some e" "field_shape (en_capabilities e) f = Some (fn_shape n)"
    using check_field_shape [OF assms(3)] .
  have "\<not> tells_presence n" using assms(4) by (auto simp: tells_presence_def)
  then have "read_is ss n i (kind_of_shape (fn_shape n))
      (and_then (fst (live jt n ss i reads)) (\<lambda>s. read_named_field jt n (fn_shape n) s i f))"
    by (rule read_live [OF assms(1) e(1) assms(2) _ read_named_field_checked [OF _ e(2)]])
  then show ?thesis by (simp add: valued_fn_def case_prod_beta)
qed

lemma brightness_reads:
  assumes "states_fit rv ss" and "check_entity_id i = Ok ()"
    and "check_fn_against_registry ''brightness'' i rv = Ok ()"
  shows "read_is ss ''brightness'' i KNumber (and_then (fst (live jt fn ss i reads)) (\<lambda>s. brightness_of s i))"
proof -
  obtain e where e: "rv_entity rv i = Some e" "caps_kind (en_capabilities e) = K_Light"
    using brightness_checked [OF assms(3)] .
  show ?thesis
  proof (rule read_live [OF assms(1) e(1) assms(2)])
    fix st
    assume "fits (en_capabilities e) st = Ok ()"
    then have "state_kind st = K_Light" using fits_kind [of "en_capabilities e" st] e(2) by simp
    then obtain l where "st = Light l" by (cases st) simp_all
    then show "value_is KNumber (brightness_of st i)" by (auto simp: brightness_of_def value_is_def has_kind_def not_said_def split: option.split)
  qed (simp add: tells_presence_def)
qed

lemma from_json_scalar: "has_kind KScalar (from_json j)"
  by (cases j) (simp_all add: has_kind_def from_json_def)

lemma attr_reads:
  assumes "check_entity_id i = Ok ()"
  shows "read_is ss ''attr'' i KScalar (fst (attr_of jt ss i k reads))"
  using assms
  by (auto simp: attr_of_def look_def read_is_def why_not_def not_said_def present_def tells_presence_def from_json_scalar
      split: option.split) (metis availability.exhaust)+

lemma author_name_entity_fn: "fn \<in> set entity_fns \<Longrightarrow> author_name fn = fn"
  by (auto simp: entity_fns_def author_name_def)

lemma entity_fns_all: "(\<forall>fn \<in> set entity_fns. P fn) \<longleftrightarrow>
    P ''num'' \<and> P ''on'' \<and> P ''text'' \<and> P ''brightness'' \<and> P ''available'' \<and> P ''unknown'' \<and> P ''attr''"
  by (simp add: entity_fns_def)

definition entity_fn_kind :: "string \<Rightarrow> var_kind" where
  "entity_fn_kind fn =
     (if fn \<in> {''num'', ''brightness''} then KNumber else if fn \<in> {''on'', ''available'', ''unknown''} then KBool
      else if fn = ''text'' then KString else KScalar)"

lemma infer_entity_call:
  assumes "fn \<in> set entity_fns"
  shows "infer_type sets (XCall fn target args) = Ok (entity_fn_kind fn)"
proof -
  have "\<forall>fn \<in> set entity_fns. infer_type sets (XCall fn target args) = Ok (entity_fn_kind fn)"
    unfolding entity_fns_all
    by (simp add: author_name_def number_calls_def bool_calls_def math_fns_def entity_fn_kind_def)
  from bspec [OF this assms] show ?thesis .
qed

lemma entity_fns_groups:
  assumes "fn \<in> set entity_fns" and "fn \<noteq> ''attr''"
  shows "fn \<in> {''num'', ''on'', ''text''} \<or> fn = ''brightness'' \<or> fn \<in> {''available'', ''unknown''}"
proof -
  have "\<forall>fn \<in> set entity_fns. fn \<noteq> ''attr'' \<longrightarrow>
      fn \<in> {''num'', ''on'', ''text''} \<or> fn = ''brightness'' \<or> fn \<in> {''available'', ''unknown''}"
    unfolding entity_fns_all by simp
  from mp [OF bspec [OF this assms(1)] assms(2)] show ?thesis .
qed

lemma valued_fns:
  assumes "fn \<in> {''num'', ''on'', ''text''}"
  shows "host_call jt pl snap fn args reads = valued_fn jt (sp_states snap) fn (fn_shape fn) args reads
       \<and> entity_fn_kind fn = kind_of_shape (fn_shape fn)"
proof -
  have "\<forall>fn \<in> {''num'', ''on'', ''text''}.
      host_call jt pl snap fn args reads = valued_fn jt (sp_states snap) fn (fn_shape fn) args reads
      \<and> entity_fn_kind fn = kind_of_shape (fn_shape fn)"
    by (simp add: host_call_def fn_shape.simps entity_fn_kind_def Let_def)
  from bspec [OF this assms] show ?thesis .
qed

lemma known_fns:
  assumes "fn \<in> {''available'', ''unknown''}" and "check_entity_id i = Ok ()"
  shows "read_is (sp_states snap) fn i KBool (fst (host_call jt pl snap fn [CelString i] reads)) \<and> entity_fn_kind fn = KBool"
proof -
  have "\<forall>fn \<in> {''available'', ''unknown''}.
      read_is (sp_states snap) fn i KBool (fst (host_call jt pl snap fn [CelString i] reads)) \<and> entity_fn_kind fn = KBool"
    using assms(2)
    by (simp add: host_call_def Let_def look_def read_is_def has_kind_def tells_presence_def entity_fn_kind_def)
  from bspec [OF this assms(1)] show ?thesis .
qed

text \<open>C20. A read that the check accepts has the kind it is typed with, whatever the home is like by
  then, as long as the states in it fit their entities. A call of a function that reads an entity
  gives a value of the inferred kind (for an attribute any plain value, or null where it is null, a
  list or an object), and then the entity is there and available: the last value of one that is unavailable
  is never read. Otherwise it fails, and says why: the entity is gone, unavailable, has never
  reported, or has not said this field, brightness or attribute. \<open>available\<close> and \<open>unknown\<close> never fail.\<close>

theorem accepted_read_has_its_kind:
  assumes "walk_ast rv sets (XCall fn None (map XText ts)) acc = Ok acc'"
    and "infer_type sets (XCall fn None (map XText ts)) = Ok k"
    and "fn \<in> set entity_fns"
    and "states_fit rv (sp_states snap)"
  shows "read_is (sp_states snap) fn (hd ts) k (fst (host_call jt pl snap fn (map CelString ts) reads))"
proof -
  note name = author_name_entity_fn [OF assms(3)] and kind = assms(2) [unfolded infer_entity_call [OF assms(3)]]
  obtain a where "walk_call rv sets fn (map XText ts) acc = Ok a"
    using assms(1) name by (simp only: walk_ast.simps and_then_Inr_iff) auto
  then have arity: "check_arity fn (length ts) = Ok ()"
    and call: "\<exists>acc. entity_call rv fn (map XText ts) acc = Ok a"
    using assms(3) by (auto simp: walk_call_def Let_def and_then_Inr_iff)
  from call obtain b where call: "entity_call rv fn (map XText ts) b = Ok a" ..
  show ?thesis using call arity assms(3)
  proof (cases rule: entity_call_cases)
    case (main i)
    from entity_fns_groups [OF assms(3) main(3)] show ?thesis
    proof (elim disjE)
      assume valued: "fn \<in> {''num'', ''on'', ''text''}"
      from valued_fn_main [OF assms(4) main(2,4) valued, of jt reads] show ?thesis
        using main(1) kind by (simp add: valued_fns [OF valued])
    next
      assume "fn = ''brightness''"
      then show ?thesis
        using main(1) kind brightness_reads [OF assms(4) main(2), of jt fn reads] main(4)
        by (simp add: host_call_def Let_def case_prod_beta entity_fn_kind_def)
    next
      assume "fn \<in> {''available'', ''unknown''}"
      from known_fns [OF this main(2), where jt = jt and pl = pl and snap = snap and reads = reads] show ?thesis
        using main(1) kind by simp
    qed
  next
    case (field i f)
    from valued_fn_field [OF assms(4) field(2,4,3), of jt reads] show ?thesis
      using field(1) kind by (simp add: valued_fns [OF field(3)])
  next
    case (attr i key)
    then show ?thesis using kind attr_reads [OF attr(2), of "sp_states snap" jt key reads]
      by (simp add: host_call_def entity_fn_kind_def)
  qed
qed

text \<open>A home with one lamp, on at half brightness.\<close>

definition lamp_entity :: entity where
  "lamp_entity = \<lparr>en_id = ''light.lamp'', en_protocol = ''demo'', en_unique_id = ''1'', en_name = ''Lamp'',
     en_device_id = None, en_area_id = None,
     en_capabilities = C_Light \<lparr>lc_brightness = True, lc_color_temp = None, lc_rgb = False\<rparr>, en_category = None\<rparr>"

definition lamp_registry :: registry_view where
  "lamp_registry = map_registry [(''light.lamp'', lamp_entity)] True False"

definition lamp_on :: state where
  "lamp_on = Light \<lparr>lt_on = True, lt_brightness = Some 128, lt_color_mode = None, lt_color_temp_kelvin = None,
     lt_rgb = None\<rparr>"

definition lamp_snapshot :: snapshot where
  "lamp_snapshot = \<lparr>sp_states =
       [(''light.lamp'', \<lparr>es_entity = ''light.lamp'', es_availability = Available, es_state = Some lamp_on,
          es_attributes = [], es_last_changed = 0, es_last_updated = 0, es_last_reported = 0,
          es_context = \<lparr>cx_id = ''x'', cx_parent = None, cx_origin = OriginSystem\<rparr>\<rparr>)],
     sp_vars = [], sp_now = 0\<rparr>"

lemma lamp_reports: "states_fit lamp_registry (sp_states lamp_snapshot)"
  by (auto simp: states_fit_def lamp_registry_def map_registry_def lamp_snapshot_def lamp_entity_def
        lamp_on_def fits_def light_fits_def light_supports_def)

lemma lamp_id: "check_entity_id ''light.lamp'' = Ok ()"
  by code_simp

lemma lamp_brightness_accepted:
  "walk_ast lamp_registry [] (XCall ''brightness'' None (map XText [''light.lamp''])) ([], False)
     = Ok ([''light.lamp''], False)"
  using lamp_id
  by (simp add: walk_call_def forbidden_call_def author_name_def check_arity_def arity_of_def entity_fns_def
        clock_fns_def entity_call_def entity_id_parse_def check_fn_against_registry_def lamp_registry_def
        map_registry_def lamp_entity_def oset_ins_def Let_def)

lemma accepted_read_has_its_kind_witness:
  "\<forall>jt. read_is (sp_states lamp_snapshot) ''brightness'' ''light.lamp'' KNumber
     (fst (host_call jt None lamp_snapshot ''brightness'' (map CelString [''light.lamp'']) []))"
proof
  fix jt :: time_library
  show "read_is (sp_states lamp_snapshot) ''brightness'' ''light.lamp'' KNumber
      (fst (host_call jt None lamp_snapshot ''brightness'' (map CelString [''light.lamp'']) []))"
    using accepted_read_has_its_kind [OF lamp_brightness_accepted _ _ lamp_reports, of KNumber jt None "[]"]
    by (simp add: infer_entity_call entity_fns_def entity_fn_kind_def del: infer_type.simps)
qed

section \<open>Variables that were accepted\<close>

lemma var_call_set: "var_call sets args = Ok () \<Longrightarrow>
    Option.bind (case args of [] \<Rightarrow> None | first # _ \<Rightarrow> Some first) string_literal = Some v \<Longrightarrow> oget v sets \<noteq> None"
  by (auto simp: var_call_def and_then_Inr_iff split: list.splits option.splits)

lemma walk_call_var: "walk_call rv sets ''var'' args acc = Ok acc' \<Longrightarrow> var_call sets args = Ok ()"
  by (auto simp: walk_call_def and_then_Inr_iff Let_def entity_fns_def)

lemma walked_variables_are_set:
  "walk_ast rv sets e acc = Ok acc' \<Longrightarrow> \<forall>v \<in> set (vars_in e). oget v sets \<noteq> None"
  "walk_args rv sets es acc = Ok acc' \<Longrightarrow> \<forall>v \<in> set (vars_in_args es). oget v sets \<noteq> None"
proof (induction rv sets e acc and rv sets es acc arbitrary: acc' and acc' rule: walk_ast_walk_args.induct)
  case (10 rv sets fn target args acc)
  from 10(3) obtain a b where call: "walk_call rv sets (author_name fn) args acc = Ok a"
    and args: "walk_args rv sets args a = Ok b"
    and target: "(case target of None \<Rightarrow> Ok b | Some t \<Rightarrow> walk_ast rv sets t b) = Ok acc'"
    by (simp only: walk_ast.simps and_then_Inr_iff) blast
  have "author_name fn = ''var'' \<Longrightarrow> var_call sets args = Ok ()"
    using walk_call_var call by simp
  moreover have "\<forall>v \<in> set (case target of None \<Rightarrow> [] | Some t \<Rightarrow> vars_in t). oget v sets \<noteq> None"
    using 10(2) target by (cases target) auto
  ultimately show ?case
    using 10(1) [OF args] var_call_set [of sets args] by (auto split: option.splits)
next
  case (12 rv sets e es acc)
  from 12(3) obtain b where "walk_ast rv sets e acc = Ok b" and "walk_args rv sets es b = Ok acc'"
    by (simp only: walk_args.simps and_then_Inr_iff) blast
  from 12(1) [OF this(1)] 12(2) [OF this(2)] show ?case by auto
qed simp_all

lemma inspected_variables_are_set:
  assumes "inspect lg e rv sets = Ok ins" and "v \<in> set (vars_read lg e)"
  shows "oget v sets \<noteq> None"
  using assms walked_variables_are_set(1) [of rv sets]
  by (fastforce simp: inspect_def vars_read_def and_then_Inr_iff)

section \<open>Calls that were accepted\<close>

lemma from_data_named:
  assumes "from_data jt k a d = Ok s"
  shows "service_kind s = k \<and> service_action s = a"
proof -
  have "read_service jt k a d = Some (Some s)"
    using assms by (auto simp: from_data_def and_then_Inr_iff split: if_splits option.splits)
  then show ?thesis using read_service_is_named by blast
qed

text \<open>The kinds whose every entity can do what a toggle becomes.\<close>

definition plainly_toggled :: "entity_kind list" where
  "plainly_toggled = [K_Light, K_Switch, K_Fan, K_Siren, K_Humidifier, K_Cover, K_Valve]"

lemmas plain_reads = from_data_def takes_data_def data_of_def read_service_def read_light_turn_on_def
  read_fan_turn_on_def read_siren_turn_on_def only_fields_def optional_def check_some_def
  light_turn_on_validate_def siren_turn_on_validate_def

lemma plain_toggles_read:
  "from_data jt K_Light ''turn_on'' [] = Ok (SvLight (LightTurnOn \<lparr>lo_brightness = None, lo_color_temp_kelvin = None, lo_rgb = None\<rparr>))"
  "from_data jt K_Light ''turn_off'' [] = Ok (SvLight LightTurnOff)"
  "from_data jt K_Switch ''turn_on'' [] = Ok (SvSwitch SwitchTurnOn)"
  "from_data jt K_Switch ''turn_off'' [] = Ok (SvSwitch SwitchTurnOff)"
  "from_data jt K_Fan ''turn_on'' [] = Ok (SvFan (FanTurnOn \<lparr>fo_percentage = None, fo_preset_mode = None\<rparr>))"
  "from_data jt K_Fan ''turn_off'' [] = Ok (SvFan FanTurnOff)"
  "from_data jt K_Siren ''turn_on'' [] = Ok (SvSiren (SirenTurnOn \<lparr>so_tone = None, so_volume_level = None, so_duration = None\<rparr>))"
  "from_data jt K_Siren ''turn_off'' [] = Ok (SvSiren SirenTurnOff)"
  "from_data jt K_Humidifier ''turn_on'' [] = Ok (SvHumidifier HumidifierTurnOn)"
  "from_data jt K_Humidifier ''turn_off'' [] = Ok (SvHumidifier HumidifierTurnOff)"
  "from_data jt K_Cover ''open'' [] = Ok (SvCover CoverOpen)"
  "from_data jt K_Cover ''close'' [] = Ok (SvCover CoverClose)"
  "from_data jt K_Valve ''open'' [] = Ok (SvValve ValveOpen)"
  "from_data jt K_Valve ''close'' [] = Ok (SvValve ValveClose)"
  by (simp_all add: plain_reads)

lemma plain_toggle_action:
  "k \<in> set [K_Light, K_Switch, K_Fan, K_Siren, K_Humidifier] \<Longrightarrow> \<exists>a. toggle k cur = Some a \<and> (a = ''turn_on'' \<or> a = ''turn_off'')"
  "k = K_Cover \<or> k = K_Valve \<Longrightarrow> \<exists>a. toggle k cur = Some a \<and> (a = ''open'' \<or> a = ''close'')"
proof -
  show "\<exists>a. toggle k cur = Some a \<and> (a = ''turn_on'' \<or> a = ''turn_off'')"
    if "k \<in> set [K_Light, K_Switch, K_Fan, K_Siren, K_Humidifier]"
    unfolding toggle_def if_P [OF that] on_off_toggle_def by simp
  show "\<exists>a. toggle k cur = Some a \<and> (a = ''open'' \<or> a = ''close'')" if "k = K_Cover \<or> k = K_Valve"
    using that by (elim disjE; cases cur) (simp_all add: toggle_def split: typed.split)
qed

lemma plain_services_supported:
  "supports (C_Light c1) (SvLight (LightTurnOn \<lparr>lo_brightness = None, lo_color_temp_kelvin = None, lo_rgb = None\<rparr>)) = Ok ()"
  "supports (C_Light c1) (SvLight LightTurnOff) = Ok ()"
  "supports (C_Switch c2) (SvSwitch w) = Ok ()"
  "supports (C_Fan c3) (SvFan (FanTurnOn \<lparr>fo_percentage = None, fo_preset_mode = None\<rparr>)) = Ok ()"
  "supports (C_Fan c3) (SvFan FanTurnOff) = Ok ()"
  "supports (C_Siren c4) (SvSiren (SirenTurnOn \<lparr>so_tone = None, so_volume_level = None, so_duration = None\<rparr>)) = Ok ()"
  "supports (C_Siren c4) (SvSiren SirenTurnOff) = Ok ()"
  "supports (C_Humidifier c5) (SvHumidifier HumidifierTurnOn) = Ok ()"
  "supports (C_Humidifier c5) (SvHumidifier HumidifierTurnOff) = Ok ()"
  "supports (C_Cover c6) (SvCover CoverOpen) = Ok ()" "supports (C_Cover c6) (SvCover CoverClose) = Ok ()"
  "supports (C_Valve c7) (SvValve ValveOpen) = Ok ()" "supports (C_Valve c7) (SvValve ValveClose) = Ok ()"
  by (simp_all add: supports_def light_supports_def siren_supports_def fan_supports_def humidifier_supports_def
      cover_supports_def valve_supports_def opening_supports_def)

lemma plain_toggle_supported:
  assumes "caps_kind caps \<in> set plainly_toggled"
  shows "\<exists>a asked. toggle (caps_kind caps) cur = Some a \<and> from_data jt (caps_kind caps) a [] = Ok asked \<and>
    service_kind asked = caps_kind caps \<and> service_action asked = a \<and> supports caps asked = Ok ()"
proof -
  have "\<exists>a asked. toggle (caps_kind caps) cur = Some a \<and> from_data jt (caps_kind caps) a [] = Ok asked \<and>
      supports caps asked = Ok ()"
  proof (cases "caps_kind caps = K_Cover \<or> caps_kind caps = K_Valve")
    case True
    then show ?thesis using plain_toggle_action(2) [OF True, of cur]
      by (cases caps) (auto simp: plain_toggles_read plain_services_supported)
  next
    case False
    then have k: "caps_kind caps \<in> set [K_Light, K_Switch, K_Fan, K_Siren, K_Humidifier]"
      using assms by (auto simp: plainly_toggled_def)
    from plain_toggle_action(1) [OF k, of cur] k show ?thesis
      by (cases caps) (auto simp: plain_toggles_read plain_services_supported)
  qed
  then show ?thesis using from_data_named by blast
qed

text \<open>C21. A call that the checks accept is one the entity can do: when the flow's document was read
  (its data passed \<open>validate_data\<close>) and \<open>check_call\<close> has nothing to say, the entity is in the home
  and of the service's kind. A service that is named is the one the data makes, and the entity's
  capabilities support it with that data. For a toggle, what it becomes is known only when it runs:
  the entity supports the \<open>turn_on\<close> its data makes, and, if it is of one of the kinds
  \<open>plainly_toggled\<close>, whichever service the toggle becomes. (Of a lock, a camera, a thermostat or a
  water heater a toggle is accepted that may become a service the entity does not support.)\<close>

theorem accepted_call_is_supported:
  assumes "check_call jt path s target data rv = []" and "rule_validate_data jt s data = Ok ()"
  shows "\<exists>e. rv_entity rv target = Some e \<and> caps_kind (en_capabilities e) = rs_kind s \<and>
    (if is_toggle s then
       (\<forall>on. asked_service jt s data = Ok (Some on) \<longrightarrow> supports (en_capabilities e) on = Ok ()) \<and>
       (rs_kind s \<in> set plainly_toggled \<longrightarrow>
          (\<forall>cur. \<exists>a asked. toggle (rs_kind s) cur = Some a \<and> from_data jt (rs_kind s) a [] = Ok asked
             \<and> service_kind asked = rs_kind s \<and> service_action asked = a
             \<and> supports (en_capabilities e) asked = Ok ()))
     else
       (\<exists>asked. rule_service_build jt s data = Ok (Some asked)
          \<and> service_kind asked = rs_kind s \<and> service_action asked = rs_action s
          \<and> supports (en_capabilities e) asked = Ok ()))"
proof -
  obtain e where e: "rv_entity rv target = Some e"
    using assms(1) by (cases "rv_entity rv target") (simp_all add: check_call_def)
  then have ok: "caps_kind (en_capabilities e) = rs_kind s"
    "\<And>on. asked_service jt s data = Ok (Some on) \<Longrightarrow> supports (en_capabilities e) on = Ok ()"
    using assms(1) by (auto simp: check_call_def split: if_splits sum.splits)
  show ?thesis
  proof (cases "is_toggle s")
    case True
    then show ?thesis using e ok plain_toggle_supported [of "en_capabilities e" _ jt] by auto
  next
    case False
    obtain r where "rule_service_build jt s data = Ok r"
      using assms(2) by (auto simp: rule_validate_data_def and_then_Inr_iff split: if_splits)
    moreover from this obtain asked d where asked: "r = Some asked" "from_data jt (rs_kind s) (rs_action s) d = Ok asked"
      using False by (auto simp: rule_service_build_def and_then_Inr_iff Let_def)
    ultimately show ?thesis
      using False e ok from_data_named [OF asked(2)] by (auto simp: asked_service_def)
  qed
qed

lemma accepted_call_is_supported_witness:
  "\<exists>e asked. rv_entity lamp_registry ''light.lamp'' = Some e
     \<and> rule_service_build no_dates \<lparr>rs_kind = K_Light, rs_action = ''turn_off''\<rparr> None = Ok (Some asked)
     \<and> supports (en_capabilities e) asked = Ok ()"
proof -
  let ?s = "\<lparr>rs_kind = K_Light, rs_action = ''turn_off''\<rparr>"
  have build: "rule_service_build no_dates ?s None = Ok (Some (SvLight LightTurnOff))"
    by (simp add: rule_service_build_def is_toggle_def toggle_action_def brightness_from_pct_def from_data_def
          takes_data_def data_of_def read_service_def Let_def)
  have "check_call no_dates ''call'' ?s ''light.lamp'' None lamp_registry = []"
    using build
    by (simp add: check_call_def asked_service_def is_toggle_def toggle_action_def lamp_registry_def
          map_registry_def lamp_entity_def supports_def)
  moreover have "rule_validate_data no_dates ?s None = Ok ()"
    using build by (simp add: rule_validate_data_def)
  ultimately show ?thesis
    using accepted_call_is_supported [of no_dates "''call''" ?s "''light.lamp''" None lamp_registry]
    by (auto simp: is_toggle_def toggle_action_def)
qed

text \<open>A camera that can't be turned on or off, whose toggle \<open>check_call\<close> accepts: neither service it may
  become is supported.\<close>

definition fixed_camera :: entity where
  "fixed_camera = lamp_entity\<lparr>en_id := ''camera.door'', en_capabilities := C_Camera \<lparr>ka_on_off = False, ka_motion_detection = False\<rparr>\<rparr>"

lemma camera_toggle_is_accepted:
  "check_call jt path \<lparr>rs_kind = K_Camera, rs_action = toggle_action\<rparr> ''camera.door'' None
     (map_registry [(''camera.door'', fixed_camera)] True False) = []
   \<and> \<not> is_ok (supports (en_capabilities fixed_camera) (SvCamera CameraTurnOn))
   \<and> \<not> is_ok (supports (en_capabilities fixed_camera) (SvCamera CameraTurnOff))"
  by (simp add: check_call_def map_registry_def fixed_camera_def lamp_entity_def asked_service_def is_toggle_def
      supports_def camera_supports_def require_def is_ok_def)

end
