(* ===== verification/FlowProps.thy ===== *)
theory FlowProps
  imports FlowChecks RuleProps
begin

text \<open>
  What the checks of a flow promise: \<open>reach\<close> is reachability along the wires, \<open>topological\<close> finds an
  order exactly when the wires make no circle, and a variable that passed the check was set on every
  path that leads to where it is read.
\<close>

section \<open>The graph of a flow\<close>

definition edges :: "flow \<Rightarrow> (string \<times> string) set" where
  "edges f = (\<lambda>w. (wire_start w, w_to w)) ` set (fl_wires f)"

definition wire_edges :: "wire list \<Rightarrow> (string \<times> string) set" where
  "wire_edges ws = (\<lambda>w. (wire_start w, w_to w)) ` set ws"

lemma edges_wires: "edges f = wire_edges (fl_wires f)"
  by (simp add: edges_def wire_edges_def)

section \<open>Reaching\<close>

lemma reach_wires_sets:
  "set (fst (reach_wires ws seen queue)) = set seen \<union> w_to ` set ws
   \<and> set (snd (reach_wires ws seen queue)) = set queue \<union> (w_to ` set ws - set seen)"
  by (induction ws seen queue rule: reach_wires.induct) auto

text \<open>The loop's invariant: the queue has been seen, all that is seen can be reached, and what has left
  the queue has its successors seen.\<close>

definition reach_inv :: "wire list \<Rightarrow> string \<Rightarrow> string set \<Rightarrow> string set \<Rightarrow> bool" where
  "reach_inv ws start seen queue \<longleftrightarrow>
     start \<in> seen \<and> queue \<subseteq> seen \<and> seen \<subseteq> (wire_edges ws)\<^sup>* `` {start}
     \<and> wire_edges ws `` (seen - queue) \<subseteq> seen"

lemma reach_inv_step:
  assumes "reach_inv ws start (set seen) (set (i # queue))"
    and "r = reach_wires (filter (\<lambda>w. wire_start w = i) ws) seen queue"
  shows "reach_inv ws start (set (fst r)) (set (snd r))"
proof -
  have new: "w_to ` set (filter (\<lambda>w. wire_start w = i) ws) = wire_edges ws `` {i}"
    by (auto simp: wire_edges_def)
  have i: "(start, i) \<in> (wire_edges ws)\<^sup>*" using assms(1) by (auto simp: reach_inv_def)
  have "set (fst r) = set seen \<union> wire_edges ws `` {i}"
    and "set (snd r) = set queue \<union> (wire_edges ws `` {i} - set seen)"
    using reach_wires_sets [of "filter (\<lambda>w. wire_start w = i) ws" seen queue] assms(2) new by auto
  then show ?thesis
    using assms(1) i by (auto simp: reach_inv_def intro: rtrancl_into_rtrancl)
qed

lemma reach_loop_reaches:
  "reach_inv ws start (set seen) (set queue) \<Longrightarrow> set (reach_loop ws seen queue) = (wire_edges ws)\<^sup>* `` {start}"
proof (induction ws seen queue rule: reach_loop.induct)
  case (1 ws seen)
  have "n \<in> set seen" if "(start, n) \<in> (wire_edges ws)\<^sup>*" for n
    using that by (induction rule: rtrancl_induct) (use 1 in \<open>auto simp: reach_inv_def\<close>)
  then show ?case using 1 by (auto simp: reach_inv_def)
next
  case (2 ws seen i queue)
  then show ?case using reach_inv_step [OF 2(2) refl] by (simp add: Let_def)
qed

text \<open>C29. The search for the nodes that one node leads to, a worklist over the wires, finds exactly
  those that a path of wires reaches from it, itself included.\<close>

theorem reach_is_reachability:
  "set (reach f start) = {n. (start, n) \<in> (edges f)\<^sup>*}"
proof -
  have "reach_inv (fl_wires f) start (set [start]) (set [start])" by (simp add: reach_inv_def)
  from reach_loop_reaches [OF this] show ?thesis by (auto simp: reach_def edges_wires)
qed

section \<open>Wires that passed\<close>

lemma check_wires_from_ok:
  assumes "check_wires_from f i seen ws = []" and "w \<in> set ws"
  shows "(\<exists>n. oget (wire_start w) (fl_nodes f) = Some n \<and> pr_port (w_from w) \<in> set (node_ports n))
       \<and> (\<exists>n. oget (w_to w) (fl_nodes f) = Some n \<and> \<not> is_trigger n)"
  using assms
  by (induction f i seen ws rule: check_wires_from.induct)
     (auto simp: port_problem_def target_problem_def split: option.splits if_splits)

lemma checked_wire:
  assumes "check_wires f = []" and "w \<in> set (fl_wires f)"
  shows "wire_start w \<in> set (okeys (fl_nodes f))" and "w_to w \<in> set (okeys (fl_nodes f))"
    and "\<exists>n. oget (w_to w) (fl_nodes f) = Some n \<and> \<not> is_trigger n"
proof -
  note ok = check_wires_from_ok [OF assms [unfolded check_wires_def]]
  show "wire_start w \<in> set (okeys (fl_nodes f))" "w_to w \<in> set (okeys (fl_nodes f))"
    using ok oget_None_iff by (metis option.distinct(1))+
  show "\<exists>n. oget (w_to w) (fl_nodes f) = Some n \<and> \<not> is_trigger n" using ok by blast
qed

section \<open>An order of the nodes\<close>

definition into :: "wire list \<Rightarrow> string \<Rightarrow> nat" where
  "into ws n = length (filter (\<lambda>w. w_to w = n) ws)"

text \<open>The wires into a node from nodes that are not in the order yet.\<close>

definition open_into :: "flow \<Rightarrow> string list \<Rightarrow> string \<Rightarrow> nat" where
  "open_into f order n = into (filter (\<lambda>w. wire_start w \<notin> set order) (fl_wires f)) n"

text \<open>The loop's invariant; \<open>rest\<close> holds the wires of the last node that are still to be visited.\<close>

definition topo_inv :: "flow \<Rightarrow> (string, int) omap \<Rightarrow> string list \<Rightarrow> string list \<Rightarrow> wire list \<Rightarrow> bool" where
  "topo_inv f inc ready order rest \<longleftrightarrow>
     distinct (order @ ready) \<and> set (order @ ready) \<subseteq> set (okeys (fl_nodes f))
     \<and> (\<forall>n. oget n inc =
          (if n \<in> set (okeys (fl_nodes f)) then Some (int (open_into f order n + into rest n)) else None))
     \<and> (\<forall>n \<in> set (okeys (fl_nodes f)). n \<in> set (order @ ready) \<longleftrightarrow> open_into f order n + into rest n = 0)
     \<and> (\<forall>i < length order. \<forall>w \<in> set (fl_wires f). w_to w = order ! i \<longrightarrow> wire_start w \<in> set (take i order))"

lemma topo_invD:
  assumes "topo_inv f inc ready order rest"
  shows "distinct (order @ ready)" and "set (order @ ready) \<subseteq> set (okeys (fl_nodes f))"
    and "oget n inc =
          (if n \<in> set (okeys (fl_nodes f)) then Some (int (open_into f order n + into rest n)) else None)"
    and "n \<in> set (okeys (fl_nodes f)) \<Longrightarrow> n \<in> set (order @ ready) \<longleftrightarrow> open_into f order n + into rest n = 0"
    and "\<lbrakk>i < length order; w \<in> set (fl_wires f); w_to w = order ! i\<rbrakk> \<Longrightarrow> wire_start w \<in> set (take i order)"
proof -
  note inv = assms [unfolded topo_inv_def]
  show "distinct (order @ ready)" "set (order @ ready) \<subseteq> set (okeys (fl_nodes f))"
    by (rule inv [THEN conjunct1], rule inv [THEN conjunct2, THEN conjunct1])
  show "oget n inc =
          (if n \<in> set (okeys (fl_nodes f)) then Some (int (open_into f order n + into rest n)) else None)"
    by (rule spec [OF inv [THEN conjunct2, THEN conjunct2, THEN conjunct1]])
  show "n \<in> set (order @ ready) \<longleftrightarrow> open_into f order n + into rest n = 0" if "n \<in> set (okeys (fl_nodes f))"
    by (rule bspec [OF inv [THEN conjunct2, THEN conjunct2, THEN conjunct2, THEN conjunct1] that])
  show "wire_start w \<in> set (take i order)" if "i < length order" "w \<in> set (fl_wires f)" "w_to w = order ! i"
    using inv [THEN conjunct2, THEN conjunct2, THEN conjunct2, THEN conjunct2] that by blast
qed

lemma topo_invI:
  assumes "distinct (order @ ready)" and "set (order @ ready) \<subseteq> set (okeys (fl_nodes f))"
    and "\<And>n. oget n inc =
          (if n \<in> set (okeys (fl_nodes f)) then Some (int (open_into f order n + into rest n)) else None)"
    and "\<And>n. n \<in> set (okeys (fl_nodes f)) \<Longrightarrow> n \<in> set (order @ ready) \<longleftrightarrow> open_into f order n + into rest n = 0"
    and "\<And>i w. \<lbrakk>i < length order; w \<in> set (fl_wires f); w_to w = order ! i\<rbrakk> \<Longrightarrow> wire_start w \<in> set (take i order)"
  shows "topo_inv f inc ready order rest"
  unfolding topo_inv_def by (intro conjI allI ballI impI) (assumption | rule assms)+

lemma into_Cons [simp]: "into (w # ws) n = (if w_to w = n then Suc (into ws n) else into ws n)"
  by (simp add: into_def)

lemma into_Nil [simp]: "into [] n = 0"
  by (simp add: into_def)

lemma into_zero: "into ws n = 0 \<longleftrightarrow> (\<forall>w \<in> set ws. w_to w \<noteq> n)"
  by (auto simp: into_def filter_empty_conv)

lemma open_into_zero: "open_into f order n = 0 \<longleftrightarrow> (\<forall>w \<in> set (fl_wires f). w_to w = n \<longrightarrow> wire_start w \<in> set order)"
  by (auto simp: open_into_def into_zero)

lemma topo_inv_visit:
  "topo_inv f inc ready order rest \<Longrightarrow>
     topo_inv f (fst (visit_wires rest inc ready)) (snd (visit_wires rest inc ready)) order []"
proof (induction rest inc ready rule: visit_wires.induct)
  case (2 w ws inc ready)
  let ?n = "w_to w"
  show ?case
  proof (cases "oget ?n inc")
    case None
    then have "?n \<notin> set (okeys (fl_nodes f))" using 2(3) by (auto simp: topo_inv_def split: if_splits)
    then have "topo_inv f inc ready order ws" using 2(3) by (auto simp: topo_inv_def)
    then show ?thesis using 2(1) None by simp
  next
    case (Some c)
    then have n: "?n \<in> set (okeys (fl_nodes f))" and c: "c = int (open_into f order ?n + Suc (into ws ?n))"
      using 2(3) by (auto simp: topo_inv_def split: if_splits)
    have out: "?n \<notin> set (order @ ready)" using 2(3) n by (simp add: topo_inv_def)
    let ?ready = "if c - 1 = 0 then ready @ [?n] else ready"
    have "topo_inv f (omod ?n (\<lambda>c. c - 1) inc) ?ready order ws"
    proof (rule topo_invI)
      show "distinct (order @ ?ready)" "set (order @ ?ready) \<subseteq> set (okeys (fl_nodes f))"
        using topo_invD(1,2) [OF 2(3)] n out by auto
      show "oget m (omod ?n (\<lambda>c. c - 1) inc) =
          (if m \<in> set (okeys (fl_nodes f)) then Some (int (open_into f order m + into ws m)) else None)" for m
        using topo_invD(3) [OF 2(3), of m] c Some n by auto
      show "m \<in> set (order @ ?ready) \<longleftrightarrow> open_into f order m + into ws m = 0"
        if "m \<in> set (okeys (fl_nodes f))" for m
      proof (cases "m = ?n")
        case True
        then show ?thesis using out c by auto
      next
        case False
        then show ?thesis using topo_invD(4) [OF 2(3) that] by auto
      qed
    qed (rule topo_invD(5) [OF 2(3)])
    then show ?thesis using 2(2) [OF Some] Some by simp
  qed
qed simp

lemma into_split:
  assumes "i \<notin> set order"
  shows "into (filter (\<lambda>w. wire_start w \<notin> set (order @ [i])) ws) n + into (filter (\<lambda>w. wire_start w = i) ws) n
       = into (filter (\<lambda>w. wire_start w \<notin> set order) ws) n"
  using assms by (induction ws) auto

lemma oget_map_ids:
  "oget n (map (\<lambda>(i, x). (i, g i)) m) = (if n \<in> set (okeys m) then Some (g n) else None)"
  by (induction m) auto

lemma topo_inv_pop:
  assumes "topo_inv f inc (i # ready) order []"
  shows "topo_inv f inc ready (order @ [i]) (filter (\<lambda>w. wire_start w = i) (fl_wires f))"
proof (rule topo_invI)
  let ?rest = "filter (\<lambda>w. wire_start w = i) (fl_wires f)"
  have i: "i \<notin> set order" "i \<in> set (okeys (fl_nodes f))" using topo_invD(1,2) [OF assms] by auto
  have same: "open_into f (order @ [i]) n + into ?rest n = open_into f order n" for n
    unfolding open_into_def by (rule into_split [OF i(1)])
  show "distinct ((order @ [i]) @ ready)" "set ((order @ [i]) @ ready) \<subseteq> set (okeys (fl_nodes f))"
    using topo_invD(1,2) [OF assms] by auto
  show "oget n inc =
      (if n \<in> set (okeys (fl_nodes f)) then Some (int (open_into f (order @ [i]) n + into ?rest n)) else None)" for n
    using topo_invD(3) [OF assms, of n] by (simp only: same into_Nil add_0_right)
  show "n \<in> set ((order @ [i]) @ ready) \<longleftrightarrow> open_into f (order @ [i]) n + into ?rest n = 0"
    if "n \<in> set (okeys (fl_nodes f))" for n
    using topo_invD(4) [OF assms that] by (simp only: same into_Nil add_0_right) auto
  show "wire_start w \<in> set (take j (order @ [i]))"
    if "j < length (order @ [i])" "w \<in> set (fl_wires f)" "w_to w = (order @ [i]) ! j" for j w
  proof (cases "j < length order")
    case True
    then show ?thesis using topo_invD(5) [OF assms True that(2)] that(3) by (simp add: nth_append)
  next
    case False
    then have "w_to w = i" "j = length order" using that by (simp_all add: nth_append)
    moreover have "open_into f order i = 0" using topo_invD(4) [OF assms i(2)] by simp
    ultimately show ?thesis using that(2) by (simp add: open_into_zero)
  qed
qed

lemma topo_loop_inv:
  "topo_inv f inc ready order [] \<Longrightarrow>
     \<exists>inc'. topo_inv f inc' [] (topo_loop (fl_wires f) inc ready order) []"
proof (induction "fl_wires f" inc ready order rule: topo_loop.induct)
  case (1 incoming order)
  then show ?case by auto
next
  case (2 incoming i ready order)
  then show ?case using topo_inv_visit [OF topo_inv_pop [OF 2(2)]] by (simp add: Let_def)
qed

lemma topo_inv_start:
  assumes "omap_ok (fl_nodes f)"
  shows "topo_inv f (count_incoming f) (map fst (filter (\<lambda>(i, c). c = 0) (count_incoming f))) [] []"
proof (rule topo_invI)
  have keys: "okeys (count_incoming f) = okeys (fl_nodes f)"
    by (auto simp: count_incoming_def okeys_def)
  have into: "length (wires_into f n) = open_into f [] n" for n
    by (simp add: wires_into_def open_into_def into_def)
  show "oget n (count_incoming f) =
      (if n \<in> set (okeys (fl_nodes f)) then Some (int (open_into f [] n + into [] n)) else None)" for n
    by (simp add: count_incoming_def into oget_map_ids)
  let ?ready = "map fst (filter (\<lambda>(i, c). c = 0) (count_incoming f))"
  show "distinct ([] @ ?ready)"
    using omap_ok_distinct [OF assms] keys by (simp add: okeys_def distinct_map_filter)
  show "set ([] @ ?ready) \<subseteq> set (okeys (fl_nodes f))" by (force simp: count_incoming_def okeys_def)
  show "n \<in> set ([] @ ?ready) \<longleftrightarrow> open_into f [] n + into [] n = 0" if "n \<in> set (okeys (fl_nodes f))" for n
    using that by (force simp: count_incoming_def okeys_def into)
qed simp

definition comes_before :: "'a list \<Rightarrow> 'a \<Rightarrow> 'a \<Rightarrow> bool" where
  "comes_before xs a b \<longleftrightarrow> (\<exists>j < length xs. xs ! j = b \<and> a \<in> set (take j xs))"

text \<open>A list in which every edge goes forward leaves no room for a circle.\<close>

lemma forward_acyclic:
  assumes "distinct xs" and "\<And>a b. (a, b) \<in> E \<Longrightarrow> comes_before xs a b"
  shows "acyclic E"
proof -
  define pos where "pos a = (THE i. i < length xs \<and> xs ! i = a)" for a
  have pos: "pos (xs ! i) = i" if "i < length xs" for i
    unfolding pos_def using that assms(1) by (auto simp: nth_eq_iff_index_eq)
  have "pos a < pos b" if "(a, b) \<in> E" for a b
    using assms(2) [OF that] pos by (auto simp: comes_before_def in_set_conv_nth)
  then have "E \<subseteq> measure pos" by auto
  then show ?thesis using wf_acyclic wf_measure wf_subset by blast
qed

lemma topological_sets:
  assumes "omap_ok (fl_nodes f)"
  obtains inc order where "topo_inv f inc [] order []"
    and "topological f = (if set order = set (okeys (fl_nodes f)) then Some order else None)"
proof -
  obtain inc where inv: "topo_inv f inc []
      (topo_loop (fl_wires f) (count_incoming f) (map fst (filter (\<lambda>(i, c). c = 0) (count_incoming f))) []) []"
    (is "topo_inv _ _ _ ?order _")
    using topo_loop_inv [OF topo_inv_start [OF assms]] by blast
  have order: "distinct ?order" "set ?order \<subseteq> set (okeys (fl_nodes f))" using topo_invD(1,2) [OF inv] by auto
  have nodes: "length (fl_nodes f) = card (set (okeys (fl_nodes f)))"
    using distinct_card [OF omap_ok_distinct [OF assms]] by (simp add: okeys_def)
  have "length ?order = length (fl_nodes f) \<longleftrightarrow> set ?order = set (okeys (fl_nodes f))"
    using order nodes card_subset_eq [OF _ order(2)] by (auto simp: distinct_card [symmetric])
  then show ?thesis using that [OF inv] by (simp add: topological_def Let_def)
qed

lemma topo_inv_done:
  assumes "check_wires f = []" and "topo_inv f inc [] order []"
  shows "set order = set (okeys (fl_nodes f)) \<longleftrightarrow> acyclic (edges f)"
    and "(a, b) \<in> edges f \<Longrightarrow> set order = set (okeys (fl_nodes f)) \<Longrightarrow> comes_before order a b"
proof -
  let ?N = "set (okeys (fl_nodes f))"
  have forward: "comes_before order a b" if edge: "(a, b) \<in> edges f" and all: "set order = ?N" for a b
  proof -
    obtain w where w: "w \<in> set (fl_wires f)" "a = wire_start w" "b = w_to w" using edge by (auto simp: edges_def)
    then have "b \<in> set order" using checked_wire(2) [OF assms(1)] all by simp
    then obtain j where "j < length order" "order ! j = b" by (auto simp: in_set_conv_nth)
    then show ?thesis using topo_invD(5) [OF assms(2) _ w(1)] w by (auto simp: comes_before_def)
  qed
  then show "(a, b) \<in> edges f \<Longrightarrow> set order = ?N \<Longrightarrow> comes_before order a b" .
  show "set order = ?N \<longleftrightarrow> acyclic (edges f)"
  proof
    assume all: "set order = ?N"
    then show "acyclic (edges f)"
      using forward_acyclic [of order "edges f"] topo_invD(1) [OF assms(2)] forward by simp
  next
    assume ac: "acyclic (edges f)"
    have "finite (edges f)" by (simp add: edges_def)
    then have wf: "wf (edges f)" using ac by (rule finite_acyclic_wf)
    have "?N - set order = {}"
    proof (rule ccontr)
      assume "?N - set order \<noteq> {}"
      then obtain z where z: "z \<in> ?N - set order" "\<And>y. (y, z) \<in> edges f \<Longrightarrow> y \<notin> ?N - set order"
        using wfE_min' [OF wf] by metis
      then have "open_into f order z \<noteq> 0" using topo_invD(4) [OF assms(2), of z] by auto
      then obtain w where "w \<in> set (fl_wires f)" "w_to w = z" "wire_start w \<notin> set order"
        by (auto simp: open_into_zero)
      then show False using z(2) [of "wire_start w"] checked_wire(1) [OF assms(1)] by (auto simp: edges_def)
    qed
    then show "set order = ?N" using topo_invD(2) [OF assms(2)] by auto
  qed
qed

lemma topological_order:
  assumes "check_wires f = []" and "omap_ok (fl_nodes f)" and "topological f = Some order"
  shows "distinct order \<and> set order = set (okeys (fl_nodes f))
    \<and> (\<forall>w \<in> set (fl_wires f). comes_before order (wire_start w) (w_to w))"
proof -
  obtain inc order' where inv: "topo_inv f inc [] order' []"
    and top: "topological f = (if set order' = set (okeys (fl_nodes f)) then Some order' else None)"
    using topological_sets [OF assms(2)] .
  have edge: "(wire_start w, w_to w) \<in> edges f" if "w \<in> set (fl_wires f)" for w
    using that by (auto simp: edges_def)
  have "order' = order" "set order = set (okeys (fl_nodes f))"
    using top assms(3) by (auto split: if_splits)
  then show ?thesis using topo_inv_done(2) [OF assms(1) inv edge] topo_invD(1) [OF inv] by auto
qed

text \<open>C28. The order of a flow's nodes: for a flow whose wires join real ports, \<open>topological\<close> refuses
  exactly the flows whose wires make a circle; any order it answers has every node once, and every
  wire goes forward in it.\<close>

theorem topological_iff_acyclic:
  assumes "check_wires f = []" and "omap_ok (fl_nodes f)"
  shows "(topological f = None \<longleftrightarrow> \<not> acyclic (edges f))
       \<and> (\<forall>order. topological f = Some order \<longrightarrow>
            distinct order \<and> set order = set (okeys (fl_nodes f))
            \<and> (\<forall>w \<in> set (fl_wires f). comes_before order (wire_start w) (w_to w)))"
proof -
  obtain inc order where inv: "topo_inv f inc [] order []"
    and top: "topological f = (if set order = set (okeys (fl_nodes f)) then Some order else None)"
    using topological_sets [OF assms(2)] .
  show ?thesis
    using top topo_inv_done(1) [OF assms(1) inv] topological_order [OF assms] by auto
qed

section \<open>Variables are set on every path\<close>

text \<open>The ways to arrive at a node: a run starts at a trigger with no variable, and follows wires; the
  set is that of the variables set on the way.\<close>

inductive arrives :: "flow \<Rightarrow> string \<Rightarrow> string set \<Rightarrow> bool" for f :: flow where
  at_trigger: "oget i (fl_nodes f) = Some (NTrigger t) \<Longrightarrow> arrives f i {}"
| along: "arrives f (wire_start w) vs \<Longrightarrow> w \<in> set (fl_wires f)
    \<Longrightarrow> arrives f (w_to w) (vs \<union> set (set_at f (wire_start w)))"

definition before_at :: "set_before \<Rightarrow> string \<Rightarrow> string set" where
  "before_at sb i = set (unwrap_or (oget i sb) [])"

lemma set_set_along: "set (set_along f sb w) = set (set_at f (wire_start w)) \<union> before_at sb (wire_start w)"
proof -
  have "set (fold oset_ins xs ys) = set xs \<union> set ys" for xs ys :: "string list"
    by (induction xs arbitrary: ys) auto
  then show ?thesis by (simp add: set_along_def before_at_def)
qed

lemma fold_filter_set: "x \<in> set (fold (\<lambda>t. filter (\<lambda>v. v \<in> set t)) ts s) \<longleftrightarrow> x \<in> set s \<and> (\<forall>t \<in> set ts. x \<in> set t)"
  by (induction ts arbitrary: s) auto

lemma meet_all_subset: "s \<in> set ss \<Longrightarrow> set (meet_all ss) \<subseteq> set s"
  by (cases ss) (auto simp: meet_all_def fold_filter_set)

lemma vars_before_other:
  "i \<notin> set xs \<Longrightarrow> oget i (fold (note_before f) xs sb) = oget i sb"
  by (induction xs arbitrary: sb) (auto simp: note_before_def oget_oput)

text \<open>When every wire goes forward in the order, the table is a solution of its equations.\<close>

lemma vars_before_at:
  assumes "distinct order" and "i \<in> set order"
    and "\<And>w. w \<in> set (fl_wires f) \<Longrightarrow> comes_before order (wire_start w) (w_to w)"
  shows "oget i (vars_before f order) = Some (meet_all (map (set_along f (vars_before f order)) (wires_into f i)))"
proof -
  obtain xs ys where order: "order = xs @ i # ys" using assms(2) by (meson split_list)
  let ?sb = "fold (note_before f) xs []"
  have final: "oget k (vars_before f order) = oget k (note_before f i ?sb)" if "k \<notin> set ys" for k
    using vars_before_other [OF that] by (simp add: vars_before_def order)
  have earlier: "set_along f (vars_before f order) w = set_along f ?sb w" if "w \<in> set (wires_into f i)" for w
  proof -
    have "comes_before order (wire_start w) i" using assms(3) that by (auto simp: wires_into_def)
    then have "wire_start w \<in> set xs"
      using assms(1) order by (auto simp: comes_before_def nth_append nth_Cons' split: if_splits dest: in_set_takeD)
    then have "wire_start w \<notin> set ys" "wire_start w \<noteq> i" using assms(1) order by auto
    then show ?thesis using final by (simp add: set_along_def note_before_def oget_oput)
  qed
  have "i \<notin> set ys" using assms(1) order by auto
  then show ?thesis using final [of i] earlier by (simp add: note_before_def oget_oput cong: map_cong)
qed

lemma arrives_covers:
  assumes "check_wires f = []" and "omap_ok (fl_nodes f)" and "topological f = Some order"
    and "arrives f i vs"
  shows "before_at (vars_before f order) i \<subseteq> vs"
  using assms(4)
proof (induction rule: arrives.induct)
  case (at_trigger i t)
  then have "wires_into f i = []"
    using checked_wire(3) [OF assms(1)] by (fastforce simp: wires_into_def filter_empty_conv)
  moreover have "i \<in> set order"
    using topological_order [OF assms(1,2,3)] at_trigger by (metis oget_None_iff option.distinct(1))
  ultimately show ?case
    using vars_before_at [of order i f] topological_order [OF assms(1,2,3)]
    by (simp add: before_at_def meet_all_def)
next
  case (along w vs)
  note order = topological_order [OF assms(1,2,3)]
  have "w_to w \<in> set order" using order checked_wire(2) [OF assms(1) along(2)] by simp
  then have "before_at (vars_before f order) (w_to w)
      = set (meet_all (map (set_along f (vars_before f order)) (wires_into f (w_to w))))"
    using vars_before_at [of order "w_to w" f] order by (simp add: before_at_def)
  also have "\<dots> \<subseteq> set (set_along f (vars_before f order) w)"
    by (rule meet_all_subset) (use along(2) in \<open>simp add: wires_into_def\<close>)
  also have "\<dots> \<subseteq> vs \<union> set (set_at f (wire_start w))" using along(3) by (auto simp: set_set_along)
  finally show ?case .
qed

section \<open>Flows that passed the checks\<close>

definition no_errors :: "problem list \<Rightarrow> bool" where
  "no_errors ps \<longleftrightarrow> (\<forall>p \<in> set ps. \<not> is_error p)"

lemma no_errors_simps [simp]:
  "no_errors []" "no_errors (ps @ qs) \<longleftrightarrow> no_errors ps \<and> no_errors qs"
  "no_errors (error_of n w m # ps) \<longleftrightarrow> False"
  by (auto simp: no_errors_def is_error_def error_of_def)

lemma no_errors_sorted [simp]: "no_errors (sort_key k ps) \<longleftrightarrow> no_errors ps"
  by (simp add: no_errors_def)

lemma wire_problems_are_errors: "no_errors (check_wires f) \<longleftrightarrow> check_wires f = []"
proof -
  have "no_errors (check_wires_from f i seen ws) \<longleftrightarrow> check_wires_from f i seen ws = []" for i seen ws
    by (induction f i seen ws rule: check_wires_from.induct)
       (auto simp: port_problem_def target_problem_def split: option.splits)
  then show ?thesis by (simp add: check_wires_def)
qed

lemma unset_problems_are_errors: "no_errors (check_unset lg f kinds sb i) \<longleftrightarrow> check_unset lg f kinds sb i = []"
proof -
  have "no_errors (map (unset_problem kinds i) vs) \<longleftrightarrow> vs = []" for vs
    by (cases vs) (simp_all add: unset_problem_def)
  then have "no_errors (concat (map (\<lambda>e. map (unset_problem kinds i) (g e)) es)) \<longleftrightarrow> (\<forall>e \<in> set es. g e = [])"
    for g and es :: "expr_string list"
    by (induction es) auto
  then show ?thesis by (auto simp: check_unset_def split: option.split)
qed

lemma checked_flow:
  assumes "no_errors (check_for ck rv home f)"
  obtains order where "check_wires f = []" and "topological f = Some order"
    and "no_errors (snd (check_vars (ck_language ck) rv f order))"
proof -
  have wires: "check_wires f = []" and walk: "no_errors (walk_problems ck rv home f)"
    using assms by (auto simp: check_for_def wire_problems_are_errors split: if_splits)
  then obtain order where "topological f = Some order" by (cases "topological f") (auto simp: walk_problems_def)
  then show ?thesis using that [OF wires] walk by (auto simp: walk_problems_def split: prod.splits)
qed

lemma checked_reads:
  assumes "no_errors (snd (check_vars lg rv f order))" and "i \<in> set order"
    and "oget i (fl_nodes f) = Some n" and "e \<in> set (node_exprs n)" and "v \<in> set (vars_read lg e)"
  shows "v \<in> before_at (vars_before f order) i"
proof -
  have "no_errors (concat (map (check_unset lg f (fst (var_types lg rv f order)) (vars_before f order)) order))"
    using assms(1) by (simp add: check_vars_def split_beta)
  then have "check_unset lg f (fst (var_types lg rv f order)) (vars_before f order) i = []"
    using assms(2) by (simp add: no_errors_def flip: unset_problems_are_errors)
  then show ?thesis using assms(3-5) by (auto simp: check_unset_def before_at_def filter_empty_conv)
qed

text \<open>C27. Definite assignment: in a flow whose check reports no error, every run variable that an
  expression of a node reads was set on the way, whichever path of wires led from a trigger to the
  node.\<close>

theorem variables_are_set_on_every_path:
  assumes "no_errors (check_for ck rv home f)" and "omap_ok (fl_nodes f)"
    and "arrives f i vs" and "oget i (fl_nodes f) = Some n"
    and "e \<in> set (node_exprs n)" and "v \<in> set (vars_read (ck_language ck) e)"
  shows "v \<in> vs"
proof -
  obtain order where ok: "check_wires f = []" "topological f = Some order"
    and vars: "no_errors (snd (check_vars (ck_language ck) rv f order))"
    using checked_flow [OF assms(1)] .
  have "i \<in> set order"
    using topological_order [OF ok(1) assms(2) ok(2)] assms(4) by (metis oget_None_iff option.distinct(1))
  then have "v \<in> before_at (vars_before f order) i" using checked_reads [OF vars _ assms(4-6)] by simp
  then show ?thesis using arrives_covers [OF ok(1) assms(2) ok(2) assms(3)] by blast
qed

section \<open>A checked flow\<close>

text \<open>A parser for two texts, a home with nothing in it, and a flow that sets a variable and then asks
  for it.\<close>

definition tiny_parser :: parser where
  "tiny_parser cs =
     (if cs = [118] then Ok (XCall ''_>_'' None [XCall ''irori_var'' None [XText ''x''], XNumber (Fin 0)])
      else Ok (XNumber (Fin 1)))"

definition tiny_checker :: checker where
  "tiny_checker = \<lparr>ck_language = \<lparr>lg_alphanumeric = (\<lambda>_. False), lg_parse = tiny_parser\<rparr>,
     ck_dates = \<lparr>day_exists = (\<lambda>_ _ _. True), instant_text = (\<lambda>_. []), instant_parse = (\<lambda>_. None)\<rparr>,
     ck_numbers = (\<lambda>_ _ _. None)\<rparr>"

definition empty_home :: registry_view where
  "empty_home = map_registry [] True True"

definition set_then_ask :: flow where
  "set_then_ask = \<lparr>fl_id = ''f'', fl_name = ''F'', fl_description = None, fl_owner = None, fl_enabled = True,
     fl_mode = Named Single,
     fl_nodes = [(''ask'', NGate (CExpr ''v'')), (''set'', NSet ''x'' ''1''), (''start'', NTrigger TrStartup)],
     fl_wires = [Wire (PortRef ''start'' Out) ''set'', Wire (PortRef ''set'' Out) ''ask''],
     fl_layout = [], fl_groups = []\<rparr>"

lemma tiny_compiles:
  "compile (ck_language tiny_checker) ''1'' = Ok (XNumber (Fin 1))"
  "compile (ck_language tiny_checker) ''v'' =
     Ok (XCall ''_>_'' None [XCall ''irori_var'' None [XText ''x''], XNumber (Fin 0)])"
proof -
  have texts: "chars_of ''1'' = [49]" "chars_of ''v'' = [118]"
    by (simp_all add: chars_of_def byte_of_def)
  have "rename_reserved (\<lambda>_. False) ''1'' = [49, 46, 48]" "rename_reserved (\<lambda>_. False) ''v'' = [118]"
    by (simp_all add: rename_reserved_def texts rename_from.simps cp_def byte_of_def starts_word_def
          cp_digit_def next_is_def)
  then show "compile (ck_language tiny_checker) ''1'' = Ok (XNumber (Fin 1))"
    "compile (ck_language tiny_checker) ''v'' =
     Ok (XCall ''_>_'' None [XCall ''irori_var'' None [XText ''x''], XNumber (Fin 0)])"
    by (simp_all add: compile_def tiny_checker_def tiny_parser_def)
qed

lemma tiny_reads: "vars_read (ck_language tiny_checker) ''v'' = [''x'']" "vars_read (ck_language tiny_checker) ''1'' = []"
  by (simp_all add: vars_read_def tiny_compiles author_name_def oset_of_def oset_ins_def)

lemma walk_var_call:
  assumes "oget ''x'' kinds = Some k"
  shows "walk_call rv kinds ''var'' [XText ''x''] acc = Ok acc"
proof -
  have "check_slug ''object id'' ''x'' = Ok ()" by code_simp
  then show ?thesis
    using assms
    by (simp add: walk_call_def forbidden_call_def check_arity_def arity_of_def clock_fns_def binary_ops_def
          entity_fns_def var_call_def)
qed

lemma walk_greater_call: "walk_call rv kinds ''_>_'' [a, b] acc = Ok acc"
  by (simp add: walk_call_def forbidden_call_def check_arity_def arity_of_def clock_fns_def binary_ops_def
        entity_fns_def cel_ops_def)

lemma tiny_inspects:
  "inspect (ck_language tiny_checker) ''1'' rv kinds = Ok \<lparr>in_ids = [], in_uses_clock = False, in_kind = KNumber\<rparr>"
  "oget ''x'' kinds = Some k \<Longrightarrow>
     inspect (ck_language tiny_checker) ''v'' rv kinds = Ok \<lparr>in_ids = [], in_uses_clock = False, in_kind = KBool\<rparr>"
proof -
  show "inspect (ck_language tiny_checker) ''1'' rv kinds = Ok \<lparr>in_ids = [], in_uses_clock = False, in_kind = KNumber\<rparr>"
    by (simp add: inspect_def tiny_compiles)
  show "inspect (ck_language tiny_checker) ''v'' rv kinds = Ok \<lparr>in_ids = [], in_uses_clock = False, in_kind = KBool\<rparr>"
    if "oget ''x'' kinds = Some k"
    using walk_var_call [OF that]
    by (simp add: inspect_def tiny_compiles author_name_def walk_greater_call number_calls_def math_fns_def bool_calls_def)
qed

lemma set_then_ask_graph:
  "check_wires set_then_ask = []" "topological set_then_ask = Some [''start'', ''set'', ''ask'']"
  "trigger_ids set_then_ask = [''start'']" "check_reachable set_then_ask = []" "check_joins set_then_ask = []"
  "check_merges set_then_ask = []"
  "vars_before set_then_ask [''start'', ''set'', ''ask''] = [(''ask'', [''x'']), (''set'', []), (''start'', [])]"
  by code_simp+

lemma set_then_ask_vars:
  "check_vars (ck_language tiny_checker) empty_home set_then_ask [''start'', ''set'', ''ask''] = ([(''x'', KNumber)], [])"
  unfolding check_vars_def set_then_ask_graph
  by (simp add: var_types_def type_set_def set_then_ask_def tiny_inspects check_unset_def tiny_reads)

lemma set_then_ask_home: "check_home tiny_checker empty_home [(''x'', KNumber)] True set_then_ask = []"
  by (simp add: check_home_def home_problems_def set_then_ask_def node_problems_def check_expr_def tiny_inspects
        problem_of_def)

lemma set_then_ask_passes: "check_for tiny_checker empty_home True set_then_ask = []"
  by (simp add: check_for_def walk_problems_def set_then_ask_graph set_then_ask_vars set_then_ask_home)

lemma set_then_ask_sorted: "omap_ok (fl_nodes set_then_ask)"
  by code_simp

lemma topological_iff_acyclic_witness:
  "acyclic (edges set_then_ask) \<and> topological set_then_ask = Some [''start'', ''set'', ''ask'']"
proof -
  show ?thesis using set_then_ask_graph topological_iff_acyclic [of set_then_ask] set_then_ask_sorted by simp
qed

lemma ask_arrival: "arrives set_then_ask ''ask'' {''x''}"
proof -
  have "arrives set_then_ask ''start'' {}"
    by (rule arrives.at_trigger [where t = TrStartup]) code_simp
  then have "arrives set_then_ask ''set'' {}"
    using arrives.along [of set_then_ask "Wire (PortRef ''start'' Out) ''set''" "{}"]
    by (simp add: wire_start_def set_then_ask_def set_at_def)
  then show ?thesis
    using arrives.along [of set_then_ask "Wire (PortRef ''set'' Out) ''ask''" "{}"]
    by (simp add: wire_start_def set_then_ask_def set_at_def)
qed

lemma variables_are_set_on_every_path_witness:
  "arrives set_then_ask ''ask'' {''x''} \<and> ''x'' \<in> {''x''}
   \<and> vars_read (ck_language tiny_checker) ''v'' = [''x'']"
proof -
  have ask: "oget ''ask'' (fl_nodes set_then_ask) = Some (NGate (CExpr ''v''))" by code_simp
  have "''x'' \<in> {''x''}"
    by (rule variables_are_set_on_every_path
          [where ck = tiny_checker and rv = empty_home and home = True and e = "''v''",
            OF _ set_then_ask_sorted ask_arrival ask])
       (simp_all add: set_then_ask_passes tiny_reads)
  then show ?thesis using ask_arrival tiny_reads by simp
qed

end
