(* ===== verification/Engine.thy ===== *)
theory Engine
  imports Trace
begin

text \<open>
  The flow engine (\<open>crates/irori-flows/src/engine.rs\<close>): its state and every operation up to one
  token's step and one timer. The loops over them (\<open>drive\<close>, \<open>advance\<close>) and the operations of the
  interface are in \<open>EngineLoop\<close>.

  A \<open>get_mut\<close> and a write in place is \<open>upd_run\<close> or \<open>upd_token\<close>; \<open>timers\<close> is the ordered set by
  time and number; an \<open>Arc\<close> is its value. Ids come from \<open>ev_mint\<close>, the \<open>n\<close>-th call to the id
  source at a given time.
\<close>

section \<open>What the engine is given\<close>

record env =
  ev_libs :: libraries
  ev_services :: service_table
  ev_version :: "flow \<Rightarrow> string"
  ev_mint :: "nat \<Rightarrow> int \<Rightarrow> string"

abbreviation ev_time :: "env \<Rightarrow> time_library" where
  "ev_time env \<equiv> lib_time (ev_libs env)"

section \<open>The state\<close>

datatype effect =
    ECall nat string "string option" string rule_service "call_data option"
  | EFinished run_record
  | ENearMiss near_miss

record firing =
  fg_trigger :: string
  fg_cause :: "string option"
  fg_test :: "test_kind option"
  fg_by :: "string option"
  fg_note :: msg
  fg_reads :: "read list"

record loaded =
  ld_flow :: flow
  ld_version :: string
  ld_armed :: armed_state
  ld_holds :: "(string, int) omap"
  ld_queue :: "firing list"

datatype doing =
    Ready
  | Delaying int
  | Waiting int int "int option" "string list"
  | Calling nat
  | Joined

record token =
  tk_node :: string
  tk_via :: "wire option"
  tk_step :: "nat option"
  tk_doing :: doing

record join_state =
  js_arrived :: "(wire, nat) omap"
  js_passed :: bool
  js_deadline :: "int option"

definition join_default :: join_state where
  "join_default = \<lparr>js_arrived = [], js_passed = False, js_deadline = None\<rparr>"

record run =
  rn_flow :: flow
  rn_record :: run_record
  rn_tokens :: "(nat, token) omap"
  rn_next_token :: nat
  rn_vars :: run_vars
  rn_joins :: "(string, join_state) omap"
  rn_error :: "(string \<times> msg) option"
  rn_stopped :: "(string \<times> string option) option"

datatype timer =
    TmHold string string
  | TmToken string nat
  | TmJoin string string
  | TmClock string string

record engine =
  eg_flows :: "(string, loaded) omap"
  eg_states :: states
  eg_runs :: "(string, run) omap"
  eg_by_hand :: "string option"
  eg_timers :: "(int \<times> nat \<times> timer) list"
  eg_ready :: "(string \<times> nat) list"
  eg_effects :: "effect list"
  eg_eval :: evaluator
  eg_ids :: nat
  eg_next_call :: nat
  eg_next_timer :: nat
  eg_dry :: bool

definition max_steps :: nat where
  "max_steps = 256"

definition engine_new :: engine where
  "engine_new = \<lparr>eg_flows = [], eg_states = [], eg_runs = [], eg_by_hand = None, eg_timers = [],
     eg_ready = [], eg_effects = [], eg_eval = \<lparr>ev_place = None\<rparr>, eg_ids = 0, eg_next_call = 0,
     eg_next_timer = 0, eg_dry = False\<rparr>"

definition engine_dry :: engine where
  "engine_dry = engine_new\<lparr>eg_dry := True\<rparr>"

section \<open>Writes in place\<close>

definition upd_run :: "string \<Rightarrow> (run \<Rightarrow> run) \<Rightarrow> engine \<Rightarrow> engine" where
  "upd_run r f e = e\<lparr>eg_runs := omod r f (eg_runs e)\<rparr>"

definition upd_token :: "string \<Rightarrow> nat \<Rightarrow> (token \<Rightarrow> token) \<Rightarrow> engine \<Rightarrow> engine" where
  "upd_token r t f = upd_run r (\<lambda>run. run\<lparr>rn_tokens := omod t f (rn_tokens run)\<rparr>)"

definition upd_record :: "(run_record \<Rightarrow> run_record) \<Rightarrow> run \<Rightarrow> run" where
  "upd_record f run = run\<lparr>rn_record := f (rn_record run)\<rparr>"

definition add_ending :: "string \<Rightarrow> port option \<Rightarrow> run \<Rightarrow> run" where
  "add_ending n p = upd_record (\<lambda>rec. rec\<lparr>rr_ended_at := rr_ended_at rec @ [\<lparr>en_node = n, en_port = p\<rparr>]\<rparr>)"

definition get_token :: "string \<Rightarrow> nat \<Rightarrow> engine \<Rightarrow> token option" where
  "get_token r t e = Option.bind (oget r (eg_runs e)) (\<lambda>run. oget t (rn_tokens run))"

definition upd_loaded :: "string \<Rightarrow> (loaded \<Rightarrow> loaded) \<Rightarrow> engine \<Rightarrow> engine" where
  "upd_loaded fid f e = e\<lparr>eg_flows := omod fid f (eg_flows e)\<rparr>"

definition push_effect :: "effect \<Rightarrow> engine \<Rightarrow> engine" where
  "push_effect x e = e\<lparr>eg_effects := eg_effects e @ [x]\<rparr>"

definition plus_ms :: "env \<Rightarrow> int \<Rightarrow> int \<Rightarrow> int" where
  "plus_ms env ts ms = unwrap_or (tl_add_millis (ev_time env) ts ms) ts"

text \<open>\<open>schedule\<close>: into the set, which is ordered by time, then number.\<close>

fun timer_insert :: "int \<times> nat \<times> timer \<Rightarrow> (int \<times> nat \<times> timer) list \<Rightarrow> (int \<times> nat \<times> timer) list" where
  "timer_insert x [] = [x]"
| "timer_insert x (y # ys) =
     (if (fst x, fst (snd x)) < (fst y, fst (snd y)) then x # y # ys else y # timer_insert x ys)"

definition schedule :: "int \<Rightarrow> timer \<Rightarrow> engine \<Rightarrow> engine" where
  "schedule ts tm e =
     e\<lparr>eg_next_timer := Suc (eg_next_timer e),
       eg_timers := timer_insert (ts, Suc (eg_next_timer e), tm) (eg_timers e)\<rparr>"

definition snapshot_of :: "engine \<Rightarrow> string \<Rightarrow> int \<Rightarrow> snapshot" where
  "snapshot_of e r now =
     \<lparr>sp_states = eg_states e,
      sp_vars = (case oget r (eg_runs e) of Some run \<Rightarrow> rn_vars run | None \<Rightarrow> []),
      sp_now = now\<rparr>"

section \<open>Steps and tokens\<close>

text \<open>\<open>leave\<close>: one new token per wire, or the path ends there.\<close>

definition spawn :: "wire \<Rightarrow> run \<Rightarrow> run" where
  "spawn w run =
     run\<lparr>rn_next_token := Suc (rn_next_token run),
         rn_tokens := oput (rn_next_token run)
           \<lparr>tk_node = w_to w, tk_via = Some w, tk_step = None, tk_doing = Ready\<rparr> (rn_tokens run)\<rparr>"

definition leave :: "string \<Rightarrow> string \<Rightarrow> port \<Rightarrow> engine \<Rightarrow> engine" where
  "leave r node p e =
     (case oget r (eg_runs e) of
        None \<Rightarrow> e
      | Some run \<Rightarrow>
          let wires = wires_from (rn_flow run) node p in
          if wires = [] then upd_run r (add_ending node (Some p)) e
          else
            (upd_run r (fold spawn wires) e)
              \<lparr>eg_ready := eg_ready e @ map (\<lambda>i. (r, rn_next_token run + i)) [0..<length wires]\<rparr>)"

text \<open>\<open>open_step\<close>.\<close>

definition new_step :: "nat \<Rightarrow> token \<Rightarrow> nat \<Rightarrow> int \<Rightarrow> run_step" where
  "new_step seq t tid now =
     \<lparr>rs_seq = seq, rs_node = tk_node t, rs_token = tid, rs_via = tk_via t, rs_at = now,
      rs_finished_at = None, rs_port = None, rs_reads = [], rs_note = None, rs_call = None\<rparr>"

definition open_step :: "string \<Rightarrow> nat \<Rightarrow> int \<Rightarrow> engine \<Rightarrow> engine" where
  "open_step r t now e =
     (case oget r (eg_runs e) of
        None \<Rightarrow> e
      | Some run \<Rightarrow>
          (case oget t (rn_tokens run) of
             None \<Rightarrow> e
           | Some tok \<Rightarrow>
               let n = length (rr_steps (rn_record run)) in
               upd_run r (\<lambda>run. (upd_record (\<lambda>rec. rec\<lparr>rr_steps := rr_steps rec @ [new_step n tok t now]\<rparr>) run)
                   \<lparr>rn_tokens := omod t (\<lambda>tok. tok\<lparr>tk_step := Some n\<rparr>) (rn_tokens run)\<rparr>) e))"

text \<open>\<open>with_step\<close>: change the step of a token, if it has one.\<close>

definition run_with_step :: "nat \<Rightarrow> (run_step \<Rightarrow> run_step) \<Rightarrow> run \<Rightarrow> run" where
  "run_with_step t f run =
     (case Option.bind (oget t (rn_tokens run)) tk_step of
        None \<Rightarrow> run
      | Some i \<Rightarrow>
          if i < length (rr_steps (rn_record run)) then
            upd_record (\<lambda>rec. rec\<lparr>rr_steps := (rr_steps rec)[i := f (rr_steps rec ! i)]\<rparr>) run
          else run)"

definition with_step :: "string \<Rightarrow> nat \<Rightarrow> (run_step \<Rightarrow> run_step) \<Rightarrow> engine \<Rightarrow> engine" where
  "with_step r t f = upd_run r (run_with_step t f)"

definition remove_token :: "string \<Rightarrow> nat \<Rightarrow> engine \<Rightarrow> engine" where
  "remove_token r t = upd_run r (\<lambda>run. run\<lparr>rn_tokens := odel t (rn_tokens run)\<rparr>)"

definition pass_token :: "string \<Rightarrow> nat \<Rightarrow> port \<Rightarrow> int \<Rightarrow> engine \<Rightarrow> engine" where
  "pass_token r t p now e =
     (let e = with_step r t (\<lambda>s. s\<lparr>rs_finished_at := Some now, rs_port := Some p\<rparr>) e in
      case get_token r t e of
        None \<Rightarrow> e
      | Some tok \<Rightarrow> leave r (tk_node tok) p (remove_token r t e))"

definition end_token :: "string \<Rightarrow> nat \<Rightarrow> int \<Rightarrow> engine \<Rightarrow> engine" where
  "end_token r t now e =
     (let e = with_step r t (\<lambda>s. s\<lparr>rs_finished_at := Some now\<rparr>) e in
      case get_token r t e of
        None \<Rightarrow> e
      | Some tok \<Rightarrow> upd_run r (add_ending (tk_node tok) None) (remove_token r t e))"

definition set_note :: "msg \<Rightarrow> run_step \<Rightarrow> run_step" where
  "set_note m s = s\<lparr>rs_note := Some m\<rparr>"

definition set_reads_note :: "read list \<Rightarrow> msg \<Rightarrow> run_step \<Rightarrow> run_step" where
  "set_reads_note rs m s = s\<lparr>rs_reads := rs, rs_note := Some m\<rparr>"

definition set_doing :: "string \<Rightarrow> nat \<Rightarrow> doing \<Rightarrow> engine \<Rightarrow> engine" where
  "set_doing r t d = upd_token r t (\<lambda>tok. tok\<lparr>tk_doing := d\<rparr>)"

text \<open>\<open>get_or_insert\<close> on the run's first error.\<close>

definition first_error :: "string \<Rightarrow> msg \<Rightarrow> run \<Rightarrow> run" where
  "first_error n m run = run\<lparr>rn_error := or_else (rn_error run) (Some (n, m))\<rparr>"

section \<open>Starting and ending runs\<close>

definition first_step :: "firing \<Rightarrow> int \<Rightarrow> run_step" where
  "first_step f now =
     \<lparr>rs_seq = 0, rs_node = fg_trigger f, rs_token = 0, rs_via = None, rs_at = now,
      rs_finished_at = Some now, rs_port = Some Out, rs_reads = fg_reads f, rs_note = Some (fg_note f),
      rs_call = None\<rparr>"

definition new_run :: "loaded \<Rightarrow> string \<Rightarrow> string \<Rightarrow> firing \<Rightarrow> int \<Rightarrow> run" where
  "new_run l fid r f now =
     \<lparr>rn_flow = ld_flow l,
      rn_record =
        \<lparr>rr_run_id = r, rr_flow_id = fid, rr_version = ld_version l, rr_trigger = fg_trigger f,
         rr_cause = fg_cause f, rr_test = fg_test f, rr_started_by = fg_by f, rr_started_at = now,
         rr_finished_at = None, rr_outcome = None, rr_ended_at = [], rr_steps = [first_step f now],
         rr_assumptions = []\<rparr>,
      rn_tokens = [], rn_next_token = 1, rn_vars = [], rn_joins = [], rn_error = None, rn_stopped = None\<rparr>"

definition start_run :: "env \<Rightarrow> string \<Rightarrow> firing \<Rightarrow> int \<Rightarrow> engine \<Rightarrow> string \<times> engine" where
  "start_run env fid f now e =
     (let r = ev_mint env (eg_ids e) now;
          e = e\<lparr>eg_ids := Suc (eg_ids e)\<rparr> in
      case oget fid (eg_flows e) of
        None \<Rightarrow> (r, e)
      | Some l \<Rightarrow>
          (r, leave r (fg_trigger f) Out (e\<lparr>eg_runs := oput r (new_run l fid r f now) (eg_runs e)\<rparr>)))"

definition run_outcome_of :: "run \<Rightarrow> run_outcome" where
  "run_outcome_of run =
     (case (rn_stopped run, rn_error run) of
        (Some (n, reason), _) \<Rightarrow> Stopped n reason
      | (None, Some (n, m)) \<Rightarrow> ErrorAt n m
      | (None, None) \<Rightarrow> Completed)"

definition cut_step :: "int \<Rightarrow> run_step \<Rightarrow> run_step" where
  "cut_step now s =
     (if rs_finished_at s = None then
        s\<lparr>rs_finished_at := Some now,
          rs_note := Some (case rs_note s of Some m \<Rightarrow> Msg ''{} (cut short)'' [m] | None \<Rightarrow> plain ''cut short'')\<rparr>
      else s)"

definition finished_record :: "run \<Rightarrow> run_outcome option \<Rightarrow> int \<Rightarrow> run_record" where
  "finished_record run oc now =
     (rn_record run)
       \<lparr>rr_steps := (if oc \<noteq> None then map (cut_step now) (rr_steps (rn_record run)) else rr_steps (rn_record run)),
        rr_finished_at := Some now,
        rr_outcome := Some (unwrap_or oc (run_outcome_of run))\<rparr>"

text \<open>Whether an outcome leaves the flow's queue alone: cut short from outside, and not by a
  cancel.\<close>

definition leaves_queue :: "run_outcome \<Rightarrow> bool" where
  "leaves_queue oc = (case oc of Aborted a \<Rightarrow> a \<noteq> AbCancelled | _ \<Rightarrow> False)"

text \<open>\<open>finish\<close> in two parts: the run goes and its record is kept; then a queued firing has its turn.\<close>

definition close_run :: "string \<Rightarrow> run \<Rightarrow> run_outcome option \<Rightarrow> int \<Rightarrow> engine \<Rightarrow> engine" where
  "close_run r run oc now e =
     push_effect (EFinished (finished_record run oc now))
       (e\<lparr>eg_runs := odel r (eg_runs e), eg_ready := filter (\<lambda>(i, _). i \<noteq> r) (eg_ready e)\<rparr>)"

definition next_turn :: "env \<Rightarrow> string \<Rightarrow> int \<Rightarrow> engine \<Rightarrow> engine" where
  "next_turn env fid now e =
     (case oget fid (eg_flows e) of
        None \<Rightarrow> e
      | Some l \<Rightarrow>
          (case ld_queue l of
             [] \<Rightarrow> e
           | f # q \<Rightarrow> snd (start_run env fid f now (upd_loaded fid (\<lambda>l. l\<lparr>ld_queue := q\<rparr>) e))))"

definition finish :: "env \<Rightarrow> string \<Rightarrow> run_outcome option \<Rightarrow> int \<Rightarrow> engine \<Rightarrow> engine" where
  "finish env r oc now e =
     (case oget r (eg_runs e) of
        None \<Rightarrow> e
      | Some run \<Rightarrow>
          let e' = close_run r run oc now e in
          if leaves_queue (unwrap_or oc (run_outcome_of run)) then e'
          else next_turn env (rr_flow_id (rn_record run)) now e')"

definition runs_of :: "string \<Rightarrow> engine \<Rightarrow> string list" where
  "runs_of fid e = map fst (filter (\<lambda>(_, run). rr_flow_id (rn_record run) = fid) (eg_runs e))"

definition abort_flow :: "env \<Rightarrow> string \<Rightarrow> abort_reason \<Rightarrow> int \<Rightarrow> engine \<Rightarrow> engine" where
  "abort_flow env fid reason now e =
     upd_loaded fid (\<lambda>l. l\<lparr>ld_queue := [], ld_holds := []\<rparr>)
       (fold (\<lambda>r. finish env r (Some (Aborted reason)) now) (runs_of fid e) e)"

section \<open>Firing\<close>

definition near_miss_at :: "string \<Rightarrow> string \<Rightarrow> near_miss_kind \<Rightarrow> msg \<Rightarrow> read list \<Rightarrow> int \<Rightarrow> engine \<Rightarrow> engine" where
  "near_miss_at fid node kind m reads now e =
     push_effect (ENearMiss
       \<lparr>nm_at = now, nm_flow_id = fid,
        nm_version = (case oget fid (eg_flows e) of Some l \<Rightarrow> ld_version l | None \<Rightarrow> []),
        nm_node = node, nm_kind = kind, nm_message = m, nm_reads = reads\<rparr>) e"

definition refusal :: "firing \<Rightarrow> msg \<Rightarrow> msg" where
  "refusal f why =
     Msg ''{}, but {}''
       [if fg_note f = plain [] then Msg ''{} fired'' [plain (fg_trigger f)] else fg_note f, why]"

definition drop_firing :: "string \<Rightarrow> firing \<Rightarrow> msg \<Rightarrow> int \<Rightarrow> engine \<Rightarrow> engine" where
  "drop_firing fid f why now e =
     near_miss_at fid (fg_trigger f) Dropped (refusal f why) (fg_reads f) now e"

text \<open>\<open>fire_now\<close>: the flow's mode decides whether a firing becomes a run.\<close>

definition fire_now :: "env \<Rightarrow> string \<Rightarrow> firing \<Rightarrow> int \<Rightarrow> engine \<Rightarrow> string option \<times> engine" where
  "fire_now env fid f now e =
     (case oget fid (eg_flows e) of
        None \<Rightarrow> (None, e)
      | Some l \<Rightarrow>
          let running = runs_of fid e;
              start = (\<lambda>e. case start_run env fid f now e of (r, e') \<Rightarrow> (Some r, e'))
          in (case fl_mode (ld_flow l) of
                Named Single \<Rightarrow>
                  if running \<noteq> [] then
                    (None, drop_firing fid f (plain ''a run was already going and the mode is single'') now e)
                  else start e
              | Named Restart \<Rightarrow>
                  start (fold (\<lambda>r. finish env r (Some Superseded) now) running e)
              | Limited (Queued mx) \<Rightarrow>
                  if running \<noteq> [] then
                    (None,
                     if length (ld_queue l) < mx then upd_loaded fid (\<lambda>l. l\<lparr>ld_queue := ld_queue l @ [f]\<rparr>) e
                     else drop_firing fid f (Msg ''{} runs were already waiting their turn'' [MInt (int mx)]) now e)
                  else start e
              | Limited (Parallel mx) \<Rightarrow>
                  if mx \<le> length running then
                    (None, drop_firing fid f (Msg ''{} runs were already going at once'' [MInt (int mx)]) now e)
                  else start e))"

definition has_hold :: "string \<Rightarrow> string \<Rightarrow> engine \<Rightarrow> bool" where
  "has_hold fid node e = is_some_and (oget fid (eg_flows e)) (\<lambda>l. oget node (ld_holds l) \<noteq> None)"

definition cancel_hold :: "string \<Rightarrow> string \<Rightarrow> engine \<Rightarrow> engine" where
  "cancel_hold fid node = upd_loaded fid (\<lambda>l. l\<lparr>ld_holds := odel node (ld_holds l)\<rparr>)"

end
