(* ===== verification/EngineStep.thy ===== *)
theory EngineStep
  imports Engine
begin

text \<open>
  One token's step, one timer, one state change (\<open>step\<close>, \<open>timer\<close> and \<open>state_trigger\<close> of
  \<open>engine.rs\<close>), and what they call: answers to calls, waits and joins.
\<close>

section \<open>Calls\<close>

definition answer_call :: "string \<Rightarrow> nat \<Rightarrow> unit res \<Rightarrow> int \<Rightarrow> engine \<Rightarrow> engine" where
  "answer_call r t result now e =
     (let e = with_step r t (\<lambda>s. s\<lparr>rs_call := map_option (\<lambda>c. c\<lparr>cd_result := Some result\<rparr>) (rs_call s)\<rparr>) e in
      case result of
        Inr _ \<Rightarrow> pass_token r t Out now e
      | Inl m \<Rightarrow>
          (case oget r (eg_runs e) of
             None \<Rightarrow> e
           | Some run \<Rightarrow>
               (case oget t (rn_tokens run) of
                  None \<Rightarrow> e
                | Some tok \<Rightarrow>
                    if wires_from (rn_flow run) (tk_node tok) Error \<noteq> [] then pass_token r t Error now e
                    else
                      upd_run r (\<lambda>run. first_error (tk_node tok) m (add_ending (tk_node tok) (Some Error) run))
                        (remove_token r t
                          (with_step r t (\<lambda>s. s\<lparr>rs_finished_at := Some now, rs_port := Some Error\<rparr>) e)))))"

section \<open>Waits\<close>

definition check_wait :: "env \<Rightarrow> string \<Rightarrow> nat \<Rightarrow> int \<Rightarrow> engine \<Rightarrow> engine" where
  "check_wait env r t now e =
     (case oget r (eg_runs e) of
        None \<Rightarrow> e
      | Some run \<Rightarrow>
     (case oget t (rn_tokens run) of
        None \<Rightarrow> e
      | Some tok \<Rightarrow>
     (case oget (tk_node tok) (fl_nodes (rn_flow run)) of
        Some (NWait until tmo) \<Rightarrow>
     (case tk_doing tok of
        Waiting since deadline holding_since wt \<Rightarrow>
          (case eval_wait (ev_libs env) (eg_eval e) (snapshot_of e r now) until of
             (result, rds) \<Rightarrow>
               let watch = oset_of (map rd_entity rds);
                   watch = (case until of WState c _ \<Rightarrow> oset_ins (sk_entity c) watch | WExpr _ _ \<Rightarrow> watch);
                   holds = (result = Ok True);
                   described = describe_wait until;
                   e = with_step r t (\<lambda>s. s\<lparr>rs_reads := rds\<rparr>) e
               in if holds then
                    (case map_option dur_millis (wait_hold until) of
                       None \<Rightarrow>
                         pass_token r t Matched now (with_step r t (set_note (Msg ''{} -> matched'' [described])) e)
                     | Some ms \<Rightarrow>
                         let held_from = unwrap_or holding_since now;
                             done_at = plus_ms env held_from ms
                         in if done_at \<le> now then
                              pass_token r t Matched now
                                (with_step r t (set_note (Msg ''{} -> matched'' [described])) e)
                            else
                              let e = with_step r t (set_note (Msg ''{}: holding'' [described]))
                                        (set_doing r t (Waiting since deadline (Some held_from) watch) e)
                              in if holding_since = None then schedule done_at (TmToken r t) e else e)
                  else
                    with_step r t
                      (set_note (case result of
                          Inl m \<Rightarrow> Msg ''{}: waiting: {}'' [described, m]
                        | Inr _ \<Rightarrow> Msg ''{}: waiting'' [described]))
                      (set_doing r t (Waiting since deadline None watch) e))
      | _ \<Rightarrow> e)
      | _ \<Rightarrow> e)))"

section \<open>Joins\<close>

definition upd_join :: "string \<Rightarrow> (join_state \<Rightarrow> join_state) \<Rightarrow> run \<Rightarrow> run" where
  "upd_join node f run = run\<lparr>rn_joins := omod node f (rn_joins run)\<rparr>"

definition merge_token :: "string \<Rightarrow> int \<Rightarrow> nat \<Rightarrow> engine \<Rightarrow> engine" where
  "merge_token r now t e =
     remove_token r t (with_step r t (\<lambda>s. s\<lparr>rs_finished_at := Some now, rs_note := Some (plain ''merged'')\<rparr>) e)"

definition parked_at :: "string \<Rightarrow> string \<Rightarrow> engine \<Rightarrow> nat list" where
  "parked_at r node e =
     (case Option.bind (oget r (eg_runs e)) (\<lambda>run. oget node (rn_joins run)) of
        None \<Rightarrow> [] | Some j \<Rightarrow> ovals (js_arrived j))"

definition complete_join :: "string \<Rightarrow> nat \<Rightarrow> string \<Rightarrow> port \<Rightarrow> msg \<Rightarrow> int \<Rightarrow> engine \<Rightarrow> engine" where
  "complete_join r through node p note now e =
     (let parked = parked_at r node e;
          e = upd_run r (upd_join node (\<lambda>j. j\<lparr>js_passed := True, js_deadline := None\<rparr>)) e;
          e = fold (merge_token r now) (filter (\<lambda>t. t \<noteq> through) parked) e;
          e = set_doing r through Ready e;
          e = with_step r through (set_note note) e
      in pass_token r through p now e)"

definition join_entry :: "string \<Rightarrow> run \<Rightarrow> run" where
  "join_entry node run =
     (if oget node (rn_joins run) = None then run\<lparr>rn_joins := oput node join_default (rn_joins run)\<rparr> else run)"

definition arrive :: "env \<Rightarrow> string \<Rightarrow> nat \<Rightarrow> string \<Rightarrow> join_mode \<Rightarrow> int option \<Rightarrow> int \<Rightarrow> engine \<Rightarrow> engine" where
  "arrive env r t node m timeout_ms now e =
     (case oget r (eg_runs e) of
        None \<Rightarrow> e
      | Some run \<Rightarrow>
          let incoming = wires_into (rn_flow run) node;
              via = Option.bind (oget t (rn_tokens run)) tk_via;
              e = upd_run r (join_entry node) e;
              j = unwrap_or (oget node (rn_joins run)) join_default
          in (case m of
                JoinFirst \<Rightarrow>
                  if js_passed j then
                    end_token r t now (with_step r t (set_note (plain ''another path got here first'')) e)
                  else
                    pass_token r t Out now
                      (with_step r t (set_note (plain ''first here: goes on''))
                        (upd_run r (upd_join node (\<lambda>j. j\<lparr>js_passed := True\<rparr>)) e))
              | JoinAll \<Rightarrow>
                  if js_passed j then
                    end_token r t now
                      (with_step r t (set_note (plain ''arrived after the join had already gone on'')) e)
                  else
                    let first = (js_arrived j = []);
                        arrived = (case via of Some w \<Rightarrow> oput w t (js_arrived j) | None \<Rightarrow> js_arrived j);
                        e = upd_run r (upd_join node (\<lambda>j. j\<lparr>js_arrived := arrived\<rparr>)) e;
                        missing = length (filter (\<lambda>w. oget w arrived = None) incoming);
                        e = (case timeout_ms of
                               Some ms \<Rightarrow>
                                 if first then
                                   schedule (plus_ms env now ms) (TmJoin r node)
                                     (upd_run r (upd_join node (\<lambda>j. j\<lparr>js_deadline := Some (plus_ms env now ms)\<rparr>)) e)
                                 else e
                             | None \<Rightarrow> e)
                    in if missing = 0 then complete_join r t node Out (plain ''every path is here'') now e
                       else
                         with_step r t
                           (set_note (Msg (if missing = 1 then ''waiting for {} more path'' else ''waiting for {} more paths'')
                             [MInt (int missing)]))
                           (set_doing r t Joined e)))"

text \<open>\<open>give_up_joins\<close>: which joins are stuck is read once, then each gives up.\<close>

definition stuck_joins :: "run \<Rightarrow> (string \<times> nat \<times> string list) list" where
  "stuck_joins run =
     map (\<lambda>(node, j). (node, last (ovals (js_arrived j)),
            map (\<lambda>w. pr_node (w_from w))
              (filter (\<lambda>w. oget w (js_arrived j) = None) (wires_into (rn_flow run) node))))
       (filter (\<lambda>(node, j). \<not> js_passed j \<and> js_arrived j \<noteq> []) (rn_joins run))"

definition give_up_join :: "string \<Rightarrow> int \<Rightarrow> string \<times> nat \<times> string list \<Rightarrow> engine \<Rightarrow> engine" where
  "give_up_join r now s e =
     (case s of (node, through, missing) \<Rightarrow>
        complete_join r through node Timeout
          (Msg ''gave up: the path from {} ended before getting here'' [join_msgs '', '' (map plain missing)]) now e)"

definition give_up_joins :: "string \<Rightarrow> int \<Rightarrow> engine \<Rightarrow> engine" where
  "give_up_joins r now e =
     (case oget r (eg_runs e) of
        None \<Rightarrow> e
      | Some run \<Rightarrow> fold (give_up_join r now) (stuck_joins run) e)"

section \<open>One step\<close>

text \<open>\<open>marked\<close>: a condition as a note, each of several checks with how it came out.\<close>

definition marked :: "env \<Rightarrow> evaluator \<Rightarrow> condition \<Rightarrow> snapshot \<Rightarrow> msg" where
  "marked env ev c snap =
     (let mark = (\<lambda>child. Msg ''{} {}'' [describe child,
            (case fst (eval_condition (ev_libs env) ev snap child) of
               Inr True \<Rightarrow> plain ''v''
             | Inr False \<Rightarrow> plain ''x''
             | Inl m \<Rightarrow> Msg ''x ({})'' [m])])
      in (case c of
            CAll cs \<Rightarrow> join_msgs '' and '' (map mark cs)
          | CAny cs \<Rightarrow> join_msgs '' or '' (map mark cs)
          | _ \<Rightarrow> describe c))"

definition step_gate :: "env \<Rightarrow> condition \<Rightarrow> string \<Rightarrow> nat \<Rightarrow> int \<Rightarrow> engine \<Rightarrow> engine" where
  "step_gate env c r t now e =
     (let snap = snapshot_of e r now in
      case eval_condition (ev_libs env) (eg_eval e) snap c of
        (result, rds) \<Rightarrow>
          let what = marked env (eg_eval e) c snap;
              note = (case result of
                  Inr b \<Rightarrow> Msg ''{} -> {}'' [what, yes_no b]
                | Inl m \<Rightarrow> Msg ''{} -> no: {}'' [what, m])
          in pass_token r t (if result = Ok True then Yes else No) now
               (with_step r t (set_reads_note rds note) e))"

text \<open>The cases of a switch, tried in order: the port, the reads of every case tried, the notes.\<close>

fun switch_cases :: "env \<Rightarrow> evaluator \<Rightarrow> snapshot \<Rightarrow> nat \<Rightarrow> condition list \<Rightarrow> read list \<Rightarrow> msg list
    \<Rightarrow> port \<times> read list \<times> msg list" where
  "switch_cases env ev snap i [] rds notes = (Else, rds, notes)"
| "switch_cases env ev snap i (c # cs) rds notes =
     (case eval_condition (ev_libs env) ev snap c of
        (result, new_rds) \<Rightarrow>
          let what = marked env ev c snap;
              rds = merge_reads rds new_rds
          in (case result of
                Inr True \<Rightarrow>
                  (Case (min (Suc i) 255), rds, notes @ [Msg ''case {}: {} -> yes'' [MInt (int (Suc i)), what]])
              | Inr False \<Rightarrow>
                  switch_cases env ev snap (Suc i) cs rds (notes @ [Msg ''case {}: {} -> no'' [MInt (int (Suc i)), what]])
              | Inl m \<Rightarrow>
                  switch_cases env ev snap (Suc i) cs rds (notes @ [Msg ''case {}: {}'' [MInt (int (Suc i)), m]])))"

definition step_switch :: "env \<Rightarrow> condition list \<Rightarrow> string \<Rightarrow> nat \<Rightarrow> int \<Rightarrow> engine \<Rightarrow> engine" where
  "step_switch env cases r t now e =
     (case switch_cases env (eg_eval e) (snapshot_of e r now) 0 cases [] [] of
        (chosen, rds, notes) \<Rightarrow>
          pass_token r t chosen now (with_step r t (set_reads_note rds (join_msgs ''; '' notes)) e))"

text \<open>An expression of a call's settings, worked out to a number.\<close>

definition eval_number :: "env \<Rightarrow> evaluator \<Rightarrow> snapshot \<Rightarrow> expr_string \<Rightarrow> f64 outcome" where
  "eval_number env ev snap ex =
     (case eval_value (ev_libs env) ev ex snap of
        (r, rds) \<Rightarrow>
          (and_then r (\<lambda>v. case json_as_f64 v of
               Some n \<Rightarrow> Ok n
             | None \<Rightarrow> Err (Msg ''`{}` gave {}, not a number'' [plain ex, json_msg v])), rds))"

definition resolve_call :: "env \<Rightarrow> evaluator \<Rightarrow> snapshot \<Rightarrow> rule_service \<Rightarrow> flow_call_data option
    \<Rightarrow> (call_data option \<times> msg list) outcome" where
  "resolve_call env ev snap service data =
     (case data of
        None \<Rightarrow> (Ok (None, []), [])
      | Some d \<Rightarrow>
          (case resolve_from (ev_services env) service (eval_number env ev snap) d of
             (r, rds) \<Rightarrow> (and_then r (\<lambda>(cd, notes). Ok (Some cd, notes)), rds)))"

definition call_opened :: "rule_service \<Rightarrow> string \<Rightarrow> call_data option \<Rightarrow> bool \<Rightarrow> call_detail" where
  "call_opened service entity data dry =
     \<lparr>cd_service = rule_service_text service, cd_entity = entity, cd_data = map_option JObj data,
      cd_result = None, cd_simulated = dry\<rparr>"

definition step_call :: "env \<Rightarrow> rule_service \<Rightarrow> string \<Rightarrow> flow_call_data option \<Rightarrow> string \<Rightarrow> nat \<Rightarrow> int
    \<Rightarrow> engine \<Rightarrow> engine" where
  "step_call env service entity data r t now e =
     (let call_id = eg_next_call e;
          e = e\<lparr>eg_next_call := Suc (eg_next_call e)\<rparr>;
          dry = eg_dry e in
      case resolve_call env (eg_eval e) (snapshot_of e r now) service data of
        (Inl m, rds) \<Rightarrow>
          answer_call r t (Err m) now
            (with_step r t (\<lambda>s. s\<lparr>rs_reads := rds,
                rs_note := Some (Msg ''couldn't work out the settings: {}'' [m]),
                rs_call := Some (call_opened service entity None dry)\<rparr>) e)
      | (Inr (cd, worked), rds) \<Rightarrow>
          let note = (if worked = [] then Msg ''{} {}'' [plain (rule_service_text service), plain entity]
                      else Msg ''{} {} ({})'' [plain (rule_service_text service), plain entity, join_msgs '', '' worked]);
              e = with_step r t (\<lambda>s. s\<lparr>rs_reads := rds, rs_note := Some note,
                    rs_call := Some (call_opened service entity cd dry)\<rparr>) e;
              e = set_doing r t (Calling call_id) e
          in if dry then answer_call r t (Ok ()) now e
             else
               push_effect
                 (ECall call_id r (Option.bind (oget r (eg_runs e)) (\<lambda>run. rr_cause (rn_record run))) entity service cd) e)"

definition step_set :: "env \<Rightarrow> string \<Rightarrow> expr_string \<Rightarrow> string \<Rightarrow> nat \<Rightarrow> string \<Rightarrow> int \<Rightarrow> engine \<Rightarrow> engine" where
  "step_set env name ex r t node now e =
     (case eval_value (ev_libs env) (eg_eval e) ex (snapshot_of e r now) of
        (Inr v, rds) \<Rightarrow>
          pass_token r t Out now
            (with_step r t (set_reads_note rds (Msg ''{} = {}'' [plain name, words v]))
              (upd_run r (\<lambda>run. run\<lparr>rn_vars := oput name v (rn_vars run)\<rparr>) e))
      | (Inl m, rds) \<Rightarrow>
          end_token r t now
            (upd_run r (first_error node m)
              (with_step r t (set_reads_note rds (Msg ''couldn't work out {}: {}'' [plain name, m])) e)))"

definition step_delay :: "env \<Rightarrow> compact_duration \<Rightarrow> string \<Rightarrow> nat \<Rightarrow> int \<Rightarrow> engine \<Rightarrow> engine" where
  "step_delay env hold r t now e =
     (let until = plus_ms env now (dur_millis hold)
      in schedule until (TmToken r t)
           (with_step r t (set_note (Msg ''waiting {}'' [plain hold])) (set_doing r t (Delaying until) e)))"

definition step_wait :: "env \<Rightarrow> compact_duration \<Rightarrow> string \<Rightarrow> nat \<Rightarrow> int \<Rightarrow> engine \<Rightarrow> engine" where
  "step_wait env tmo r t now e =
     (let deadline = plus_ms env now (dur_millis tmo)
      in check_wait env r t now
           (schedule deadline (TmToken r t) (set_doing r t (Waiting now deadline None []) e)))"

definition cut_other :: "string \<Rightarrow> nat \<Rightarrow> int \<Rightarrow> nat \<Rightarrow> engine \<Rightarrow> engine" where
  "cut_other r t now other e =
     remove_token r other
       (if other \<noteq> t then
          with_step r other (\<lambda>s. s\<lparr>rs_finished_at := Some now,
            rs_note := or_else (rs_note s) (Some (plain ''cut short by a stop''))\<rparr>) e
        else e)"

definition run_tokens :: "string \<Rightarrow> engine \<Rightarrow> nat list" where
  "run_tokens r e = (case oget r (eg_runs e) of None \<Rightarrow> [] | Some run \<Rightarrow> okeys (rn_tokens run))"

definition step_stop :: "string option \<Rightarrow> string \<Rightarrow> nat \<Rightarrow> string \<Rightarrow> int \<Rightarrow> engine \<Rightarrow> engine" where
  "step_stop reason r t node now e =
     (let e = with_step r t (\<lambda>s. s\<lparr>rs_finished_at := Some now,
                rs_note := Some (plain (unwrap_or reason ''stop''))\<rparr>) e;
          e = upd_run r (\<lambda>run. add_ending node None (run\<lparr>rn_stopped := Some (node, reason)\<rparr>)) e
      in fold (cut_other r t now) (run_tokens r e) e)"

definition step_node :: "env \<Rightarrow> node \<Rightarrow> string \<Rightarrow> nat \<Rightarrow> string \<Rightarrow> int \<Rightarrow> engine \<Rightarrow> engine" where
  "step_node env n r t node now e =
     (case n of
        NTrigger _ \<Rightarrow> pass_token r t Out now e
      | NGate c \<Rightarrow> step_gate env c r t now e
      | NSwitch cases \<Rightarrow> step_switch env cases r t now e
      | NCall service entity data \<Rightarrow> step_call env service entity data r t now e
      | NSet name ex \<Rightarrow> step_set env name ex r t node now e
      | NDelay hold \<Rightarrow> step_delay env hold r t now e
      | NWait until tmo \<Rightarrow> step_wait env tmo r t now e
      | NJoin m tmo \<Rightarrow> arrive env r t node m (map_option dur_millis tmo) now e
      | NStop reason \<Rightarrow> step_stop reason r t node now e)"

definition too_many_steps :: msg where
  "too_many_steps = Msg ''the run took more than {} steps; paths multiply too much'' [MInt (int max_steps)]"

definition step :: "env \<Rightarrow> string \<Rightarrow> nat \<Rightarrow> int \<Rightarrow> engine \<Rightarrow> engine" where
  "step env r t now e =
     (case oget r (eg_runs e) of
        None \<Rightarrow> e
      | Some run \<Rightarrow>
     (case oget t (rn_tokens run) of
        None \<Rightarrow> e
      | Some tok \<Rightarrow>
          if tk_doing tok \<noteq> Ready then e
          else
     (case oget (tk_node tok) (fl_nodes (rn_flow run)) of
        None \<Rightarrow> end_token r t now e
      | Some n \<Rightarrow>
          if max_steps \<le> length (rr_steps (rn_record run)) then
            (let e = upd_run r (\<lambda>run. run\<lparr>rn_error := Some (tk_node tok, too_many_steps)\<rparr>) e
             in fold (\<lambda>tid. end_token r tid now) (run_tokens r e) e)
          else step_node env n r t (tk_node tok) now (open_step r t now e))))"

section \<open>Clocks and timers\<close>

definition next_moment :: "time_library \<Rightarrow> place \<Rightarrow> trigger \<Rightarrow> int \<Rightarrow> int option" where
  "next_moment tz p tr aft =
     (case tr of
        TrTime (Some tm) _ weekday \<Rightarrow> next_time tz p tm weekday aft
      | TrTime None (Some cron) _ \<Rightarrow>
          (case cron_parse cron of Inl _ \<Rightarrow> None | Inr c \<Rightarrow> next_cron tz p c aft)
      | TrSun event offset \<Rightarrow> next_sun tz p event (case offset of None \<Rightarrow> 0 | Some d \<Rightarrow> dur_millis d) aft
      | _ \<Rightarrow> None)"

definition armed_trigger :: "string \<Rightarrow> string \<Rightarrow> engine \<Rightarrow> trigger option" where
  "armed_trigger fid node e =
     (case oget fid (eg_flows e) of
        None \<Rightarrow> None
      | Some l \<Rightarrow>
          if ld_armed l = Armed then
            (case oget node (fl_nodes (ld_flow l)) of Some (NTrigger tr) \<Rightarrow> Some tr | _ \<Rightarrow> None)
          else None)"

definition timer_clock :: "env \<Rightarrow> string \<Rightarrow> string \<Rightarrow> int \<Rightarrow> engine \<Rightarrow> engine" where
  "timer_clock env fid node now e =
     (case ev_place (eg_eval e) of
        None \<Rightarrow> e
      | Some p \<Rightarrow>
     (case armed_trigger fid node e of
        None \<Rightarrow> e
      | Some tr \<Rightarrow>
          let e = (case next_moment (ev_time env) p tr now of
                     Some ts \<Rightarrow> schedule ts (TmClock fid node) e | None \<Rightarrow> e)
          in snd (fire_now env fid
               \<lparr>fg_trigger = node, fg_cause = None, fg_test = None, fg_by = None,
                fg_note = clock_note (ev_time env) p tr now, fg_reads = []\<rparr> now e)))"

definition timer_hold :: "env \<Rightarrow> string \<Rightarrow> string \<Rightarrow> int \<Rightarrow> engine \<Rightarrow> engine" where
  "timer_hold env fid node now e =
     (case Option.bind (oget fid (eg_flows e)) (\<lambda>l. oget node (ld_holds l)) of
        None \<Rightarrow> e
      | Some until \<Rightarrow>
          if now < until then e
          else
            let e = cancel_hold fid node e in
            (case Option.bind (oget fid (eg_flows e)) (\<lambda>l. oget node (fl_nodes (ld_flow l))) of
               Some (NTrigger (TrState st)) \<Rightarrow>
                 let rd = read_main (ev_time env) (st_entity st) (eg_states e);
                     hold = unwrap_or (st_hold st) []
                 in snd (fire_now env fid
                      \<lparr>fg_trigger = node,
                       fg_cause = map_option (\<lambda>s. cx_id (es_context s)) (oget (st_entity st) (eg_states e)),
                       fg_test = None, fg_by = None,
                       fg_note = Msg ''{} held {} for {}'' [plain (st_entity st), words (rd_value rd), plain hold],
                       fg_reads = [rd]\<rparr> now e)
             | _ \<Rightarrow> e))"

definition timeout_text :: "run \<Rightarrow> string \<Rightarrow> string" where
  "timeout_text run node =
     (case oget node (fl_nodes (rn_flow run)) of Some (NWait _ tmo) \<Rightarrow> tmo | _ \<Rightarrow> [])"

definition timer_token :: "env \<Rightarrow> string \<Rightarrow> nat \<Rightarrow> int \<Rightarrow> engine \<Rightarrow> engine" where
  "timer_token env r t now e =
     (case oget r (eg_runs e) of
        None \<Rightarrow> e
      | Some run \<Rightarrow>
     (case oget t (rn_tokens run) of
        None \<Rightarrow> e
      | Some tok \<Rightarrow>
     (case tk_doing tok of
        Delaying until \<Rightarrow> if until \<le> now then pass_token r t Out now e else e
      | Waiting since deadline hs wt \<Rightarrow>
          if deadline \<le> now then
            pass_token r t Timeout now
              (with_step r t
                (set_note (Msg ''gave up waiting after {}'' [plain (timeout_text run (tk_node tok))])) e)
          else check_wait env r t now e
      | _ \<Rightarrow> e)))"

definition timer_join :: "string \<Rightarrow> string \<Rightarrow> int \<Rightarrow> engine \<Rightarrow> engine" where
  "timer_join r node now e =
     (case Option.bind (oget r (eg_runs e)) (\<lambda>run. oget node (rn_joins run)) of
        None \<Rightarrow> e
      | Some j \<Rightarrow>
          if \<not> js_passed j \<and> is_some_and (js_deadline j) (\<lambda>d. d \<le> now) \<and> js_arrived j \<noteq> [] then
            complete_join r (last (ovals (js_arrived j))) node Timeout
              (plain ''timed out waiting for the other paths'') now e
          else e)"

fun run_timer :: "env \<Rightarrow> timer \<Rightarrow> int \<Rightarrow> engine \<Rightarrow> engine" where
  "run_timer env (TmClock fid node) now e = timer_clock env fid node now e"
| "run_timer env (TmHold fid node) now e = timer_hold env fid node now e"
| "run_timer env (TmToken r t) now e = timer_token env r t now e"
| "run_timer env (TmJoin r node) now e = timer_join r node now e"

section \<open>A state change at one trigger\<close>

definition any_matches :: "vals \<Rightarrow> json \<Rightarrow> bool" where
  "any_matches wanted v = list_ex (\<lambda>w. value_matches w v) (vals_list wanted)"

text \<open>Whether a value is inside a level: above one end and below the other, where given.\<close>

definition inside_level :: "f64 option \<Rightarrow> f64 option \<Rightarrow> json \<Rightarrow> bool" where
  "inside_level abv blw v =
     is_some_and (json_as_f64 v) (\<lambda>n. is_none_or abv (\<lambda>a. f64_lt a n) \<and> is_none_or blw (\<lambda>b. f64_lt n b))"

definition old_value :: "env \<Rightarrow> entity_state option \<Rightarrow> string option \<Rightarrow> json" where
  "old_value env old field =
     (case Option.bind old es_state of None \<Rightarrow> JNull | Some s \<Rightarrow> read_of (ev_time env) s field)"

definition watched :: "state_trigger \<Rightarrow> msg" where
  "watched st =
     (case st_field st of
        Some f \<Rightarrow> Msg ''{}'s {}'' [plain (st_entity st), plain f] | None \<Rightarrow> plain (st_entity st))"

text \<open>The last part of \<open>state_trigger\<close>: the edge is from and to the right values, so it fires or
  starts counting; or it is still where the trigger wants it; or a count that was going is off.\<close>

definition trigger_edge :: "env \<Rightarrow> string \<Rightarrow> string \<Rightarrow> state_trigger \<Rightarrow> bool \<Rightarrow> bool \<Rightarrow> json \<Rightarrow> msg \<Rightarrow> read
    \<Rightarrow> entity_state \<Rightarrow> int \<Rightarrow> engine \<Rightarrow> engine" where
  "trigger_edge env fid node st from_ok to_ok nv note rd new now e =
     (if from_ok \<and> to_ok then
        (case st_hold st of
           Some h \<Rightarrow>
             let until = plus_ms env now (dur_millis h)
             in schedule until (TmHold fid node)
                  (upd_loaded fid (\<lambda>l. l\<lparr>ld_holds := oput node until (ld_holds l)\<rparr>) e)
         | None \<Rightarrow>
             snd (fire_now env fid
               \<lparr>fg_trigger = node, fg_cause = Some (cx_id (es_context new)), fg_test = None, fg_by = None,
                fg_note = note, fg_reads = [rd]\<rparr> now e))
      else if (st_above st = None \<and> st_below st = None) \<and> to_ok
              \<and> \<not> is_some_and (st_from st) (\<lambda>f. st_to st = None \<and> any_matches f nv) then e
      else if has_hold fid node e then
        near_miss_at fid node HoldReset
          (Msg ''{} before the {} it had to hold for was up'' [note, plain (unwrap_or (st_hold st) [])]) [rd] now
          (cancel_hold fid node e)
      else e)"

definition state_trigger_fires :: "env \<Rightarrow> string \<Rightarrow> string \<Rightarrow> state_trigger \<Rightarrow> entity_state option \<Rightarrow> entity_state
    \<Rightarrow> int \<Rightarrow> engine \<Rightarrow> engine" where
  "state_trigger_fires env fid node st old new now e =
     (let level = (st_above st \<noteq> None \<or> st_below st \<noteq> None);
          rd = read_of_field (ev_time env) (st_entity st) (st_field st) (eg_states e);
          ov = old_value env old (st_field st);
          nv = rd_value rd;
          was_available = is_some_and old (\<lambda>s. es_availability s = Available) in
      if es_availability new = Unavailable \<or> es_state new = None then
        (let had_hold = has_hold fid node e;
             e = cancel_hold fid node e
         in if was_available \<or> had_hold then
              near_miss_at fid node NmUnavailable
                (Msg ''{} {}, so this trigger can't fire until it's back''
                  [plain (st_entity st),
                   plain (if es_availability new = Unavailable then ''became unavailable'' else ''doesn't know its value'')])
                [rd] now e
            else e)
      else if st_field st \<noteq> None \<and> nv = JNull then cancel_hold fid node e
      else
        let happening = (entity_id_kind (st_entity st) = Some K_Event) in
        if happening \<and> is_none_or old (\<lambda>s. es_last_changed s = es_last_changed new) then e
        else if \<not> happening \<and> old \<noteq> None \<and> ov = nv then
          (if was_available \<and> is_some_and (st_to st) (\<lambda>w. any_matches w nv) then
             near_miss_at fid node SameValue
               (Msg ''{} reported {} again, but it already was, so a change to {} didn't happen''
                 [watched st, words nv, words nv]) [rd] now e
           else e)
        else
          let note = (if happening then Msg ''{}: {}'' [plain (st_entity st), words nv]
                      else Msg ''{} went {} -> {}'' [watched st, words ov, words nv]);
              inside = inside_level (st_above st) (st_below st) in
          if level then
            (if inside nv \<and> inside ov \<and> old \<noteq> None then e
             else trigger_edge env fid node st (\<not> inside ov \<or> old = None) (inside nv) nv note rd new now e)
          else
            trigger_edge env fid node st
              (is_none_or (st_from st) (\<lambda>w. any_matches w ov))
              (is_none_or (st_to st) (\<lambda>w. any_matches w nv)) nv note rd new now e)"

end
