(* ===== verification/EngineFrame.thy ===== *)
theory EngineFrame
  imports EngineStep
begin

text \<open>
  What one step of one token leaves alone. A step writes into one run, asks for effects, adds to
  the ready queue and schedules timers of that run; it opens no step of its own, and touches
  neither the flows nor any trigger's timer.

  The head of a run is the part of it that only starting a run or opening a step writes. The
  locale \<open>step_frame\<close> is an observation of the engine that survives the primitive writes; every
  operation up to \<open>step_node\<close> then leaves it alone. It is interpreted three times: on the
  heads, on the triggers' timers and on the fields a step never writes.
\<close>

named_theorems keeps \<open>updates of a run that leave its head alone\<close>

section \<open>Heads\<close>

definition step_head :: "run_step \<Rightarrow> run_step" where
  "step_head s = s\<lparr>rs_finished_at := None, rs_port := None, rs_reads := [], rs_note := None, rs_call := None\<rparr>"

definition head_of :: "run \<Rightarrow> flow \<times> run_record" where
  "head_of run =
     (rn_flow run, (rn_record run)\<lparr>rr_steps := map step_head (rr_steps (rn_record run)), rr_ended_at := []\<rparr>)"

text \<open>A run's tokens are numbered below its next number.\<close>

definition fresh_tokens :: "run \<Rightarrow> bool" where
  "fresh_tokens run \<longleftrightarrow> (\<forall>k \<in> set (okeys (rn_tokens run)). k < rn_next_token run)"

definition keeps_head :: "(run \<Rightarrow> run) \<Rightarrow> bool" where
  "keeps_head f \<longleftrightarrow> (\<forall>run. head_of (f run) = head_of run \<and> (fresh_tokens run \<longrightarrow> fresh_tokens (f run)))"

definition keeps_step :: "(run_step \<Rightarrow> run_step) \<Rightarrow> bool" where
  "keeps_step f \<longleftrightarrow> (\<forall>s. step_head (f s) = step_head s)"

lemma keeps_headD: "keeps_head f \<Longrightarrow> head_of (f run) = head_of run"
  by (simp add: keeps_head_def)

lemma keeps_freshD: "keeps_head f \<Longrightarrow> fresh_tokens run \<Longrightarrow> fresh_tokens (f run)"
  by (simp add: keeps_head_def)

lemma keeps_stepI: "(\<And>s. step_head (f s) = step_head s) \<Longrightarrow> keeps_step f"
  by (simp add: keeps_step_def)

lemma keeps_tokens [keeps]:
  "keeps_head (\<lambda>run. run\<lparr>rn_tokens := odel t (rn_tokens run)\<rparr>)"
  "keeps_head (\<lambda>run. run\<lparr>rn_tokens := omod t g (rn_tokens run)\<rparr>)"
  by (simp_all add: keeps_head_def head_of_def fresh_tokens_def)

lemma keeps_vars [keeps]: "keeps_head (\<lambda>run. run\<lparr>rn_vars := g run\<rparr>)"
  by (simp add: keeps_head_def head_of_def fresh_tokens_def)

lemma keeps_error [keeps]: "keeps_head (\<lambda>run. run\<lparr>rn_error := g run\<rparr>)"
  by (simp add: keeps_head_def head_of_def fresh_tokens_def)

lemma keeps_add_ending [keeps]: "keeps_head (add_ending n p)"
  by (simp add: keeps_head_def head_of_def fresh_tokens_def add_ending_def upd_record_def)

lemma keeps_first_error [keeps]: "keeps_head (first_error n m)"
  by (simp add: keeps_head_def head_of_def fresh_tokens_def first_error_def)

lemma keeps_first_error_ending [keeps]: "keeps_head (\<lambda>run. first_error n m (add_ending k p run))"
  by (simp add: keeps_head_def head_of_def fresh_tokens_def first_error_def add_ending_def upd_record_def)

lemma keeps_stopped_ending [keeps]: "keeps_head (\<lambda>run. add_ending n p (run\<lparr>rn_stopped := x\<rparr>))"
  by (simp add: keeps_head_def head_of_def fresh_tokens_def add_ending_def upd_record_def)

lemma keeps_upd_join [keeps]: "keeps_head (upd_join n f)"
  by (simp add: keeps_head_def head_of_def fresh_tokens_def upd_join_def)

lemma keeps_join_entry [keeps]: "keeps_head (join_entry n)"
  by (simp add: keeps_head_def head_of_def fresh_tokens_def join_entry_def)

lemma head_of_spawn [simp]: "head_of (spawn w run) = head_of run"
  by (simp add: head_of_def spawn_def)

lemma fresh_spawn: "fresh_tokens run \<Longrightarrow> fresh_tokens (spawn w run)"
  by (auto simp: fresh_tokens_def spawn_def)

lemma keeps_spawn_all [keeps]: "keeps_head (fold spawn ws)"
proof -
  have "head_of (fold spawn ws run) = head_of run \<and> (fresh_tokens run \<longrightarrow> fresh_tokens (fold spawn ws run))" for run
    by (induction ws arbitrary: run) (simp_all add: fresh_spawn)
  then show ?thesis by (simp add: keeps_head_def)
qed

lemma map_same_at: "i < length xs \<Longrightarrow> (map g xs)[i := g (xs ! i)] = map g xs"
  by (metis list_update_id map_update)

lemma keeps_with_step [keeps]: "keeps_step f \<Longrightarrow> keeps_head (run_with_step t f)"
  by (auto simp: keeps_head_def keeps_step_def head_of_def run_with_step_def upd_record_def map_update
      map_same_at fresh_tokens_def split: option.split)

lemma keeps_step_notes [keeps]:
  "keeps_step (set_note m)" "keeps_step (set_reads_note rs m)"
  "keeps_step (\<lambda>s. s\<lparr>rs_reads := x\<rparr>)"
  "keeps_step (\<lambda>s. s\<lparr>rs_finished_at := y\<rparr>)"
  "keeps_step (\<lambda>s. s\<lparr>rs_finished_at := y, rs_port := p\<rparr>)"
  "keeps_step (\<lambda>s. s\<lparr>rs_finished_at := y, rs_note := n s\<rparr>)"
  "keeps_step (\<lambda>s. s\<lparr>rs_call := c s\<rparr>)"
  "keeps_step (\<lambda>s. s\<lparr>rs_reads := x, rs_note := n s, rs_call := c s\<rparr>)"
  by (simp_all add: keeps_step_def step_head_def set_note_def set_reads_note_def)

section \<open>The frame of a step\<close>

locale step_frame =
  fixes obs :: "engine \<Rightarrow> 'o"
  assumes obs_upd_run: "keeps_head f \<Longrightarrow> obs (upd_run r f e) = obs e"
    and obs_ready: "obs (e\<lparr>eg_ready := q\<rparr>) = obs e"
    and obs_effects: "obs (e\<lparr>eg_effects := x\<rparr>) = obs e"
    and obs_next_call: "obs (e\<lparr>eg_next_call := n\<rparr>) = obs e"
    and obs_token_timer: "obs (schedule ts (TmToken r t) e) = obs e"
    and obs_join_timer: "obs (schedule ts (TmJoin r m) e) = obs e"
begin

lemmas obs_writes = obs_upd_run obs_ready obs_effects obs_next_call obs_token_timer obs_join_timer

lemma obs_fold: "(\<And>x e. obs (f x e) = obs e) \<Longrightarrow> obs (fold f xs e) = obs e"
  by (induction xs arbitrary: e) simp_all

lemma obs_with_step: "keeps_step f \<Longrightarrow> obs (with_step r t f e) = obs e"
  by (simp add: with_step_def obs_upd_run keeps)

lemma obs_remove_token: "obs (remove_token r t e) = obs e"
  by (simp add: remove_token_def obs_upd_run keeps)

lemma obs_set_doing: "obs (set_doing r t d e) = obs e"
  by (simp add: set_doing_def upd_token_def obs_upd_run keeps)

lemma obs_leave: "obs (leave r n p e) = obs e"
  by (simp add: leave_def Let_def obs_writes keeps split: option.split)

lemmas obs_moves = obs_writes obs_with_step obs_remove_token obs_set_doing obs_leave keeps

lemma obs_pass_token: "obs (pass_token r t p now e) = obs e"
  by (simp add: pass_token_def Let_def obs_moves split: option.split)

lemma obs_end_token: "obs (end_token r t now e) = obs e"
  by (simp add: end_token_def Let_def obs_moves split: option.split)

lemmas obs_ends = obs_moves obs_pass_token obs_end_token

lemma obs_push_effect: "obs (push_effect x e) = obs e"
  by (simp add: push_effect_def obs_effects)

lemma obs_answer_call: "obs (answer_call r t res now e) = obs e"
  by (simp add: answer_call_def Let_def obs_ends split: option.split sum.split)

lemma obs_check_wait: "obs (check_wait env r t now e) = obs e"
  by (auto simp: check_wait_def Let_def obs_ends
      split: option.split prod.split node.split doing.split)

lemma obs_merge_token: "obs (merge_token r now t e) = obs e"
  by (simp add: merge_token_def obs_ends)

lemma obs_complete_join: "obs (complete_join r t n p m now e) = obs e"
  by (simp add: complete_join_def Let_def obs_ends obs_fold obs_merge_token)

lemma obs_give_up_joins: "obs (give_up_joins r now e) = obs e"
  by (auto simp: give_up_joins_def give_up_join_def obs_fold obs_complete_join
      split: option.split prod.split intro!: obs_fold)

lemma obs_arrive: "obs (arrive env r t n m ms now e) = obs e"
  by (simp add: arrive_def Let_def obs_ends obs_complete_join split: option.split join_mode.split)

lemma obs_step_gate: "obs (step_gate env c r t now e) = obs e"
  by (simp add: step_gate_def Let_def obs_ends split: prod.split)

lemma obs_step_switch: "obs (step_switch env cs r t now e) = obs e"
  by (simp add: step_switch_def obs_ends split: prod.split)

lemma obs_step_call: "obs (step_call env sv en d r t now e) = obs e"
  by (auto simp: step_call_def Let_def obs_ends obs_answer_call obs_push_effect
      split: prod.split sum.split)

lemma obs_step_set: "obs (step_set env nm ex r t n now e) = obs e"
  by (simp add: step_set_def obs_ends split: prod.split sum.split)

lemma obs_step_delay: "obs (step_delay env h r t now e) = obs e"
  by (simp add: step_delay_def Let_def obs_ends)

lemma obs_step_wait: "obs (step_wait env tmo r t now e) = obs e"
  by (simp add: step_wait_def Let_def obs_ends obs_check_wait)

lemma obs_cut_other: "obs (cut_other r t now x e) = obs e"
  by (simp add: cut_other_def obs_ends)

lemma obs_step_stop: "obs (step_stop reason r t n now e) = obs e"
  by (simp add: step_stop_def Let_def obs_ends obs_fold obs_cut_other)

lemma obs_step_node: "obs (step_node env n r t nd now e) = obs e"
  by (simp add: step_node_def obs_ends obs_step_gate obs_step_switch obs_step_call obs_step_set
      obs_step_delay obs_step_wait obs_arrive obs_step_stop split: node.split)

lemma obs_end_tokens: "obs (fold (\<lambda>t. end_token r t now) ts e) = obs e"
  by (rule obs_fold) (rule obs_end_token)

lemma obs_timer_token: "obs (timer_token env r t now e) = obs e"
  by (simp add: timer_token_def obs_ends obs_check_wait split: option.split doing.split)

lemma obs_timer_join: "obs (timer_join r n now e) = obs e"
  by (simp add: timer_join_def obs_complete_join split: option.split)

text \<open>A whole step is its opening, or leaves the observation alone.\<close>

lemma obs_step_cases:
  "obs (step env r t now e) = obs e \<or>
   obs (step env r t now e) = obs (open_step r t now e) \<and>
     (\<exists>run tok. oget r (eg_runs e) = Some run \<and> oget t (rn_tokens run) = Some tok \<and>
        length (rr_steps (rn_record run)) < max_steps)"
  by (auto simp: step_def Let_def obs_ends obs_end_tokens obs_step_node split: option.split)

end

section \<open>What a step leaves alone\<close>

definition heads :: "engine \<Rightarrow> (string \<times> flow \<times> run_record) list" where
  "heads e = map (\<lambda>(r, run). (r, head_of run)) (eg_runs e)"

fun of_trigger :: "timer \<Rightarrow> bool" where
  "of_trigger (TmHold _ _) = True"
| "of_trigger (TmClock _ _) = True"
| "of_trigger _ = False"

definition trigger_timers :: "engine \<Rightarrow> (int \<times> nat \<times> timer) list" where
  "trigger_timers e = filter (\<lambda>(_, _, tm). of_trigger tm) (eg_timers e)"

definition still :: "engine \<Rightarrow> engine" where
  "still e = e\<lparr>eg_runs := [], eg_timers := [], eg_ready := [], eg_effects := [], eg_next_call := 0,
     eg_next_timer := 0\<rparr>"

lemma heads_upd_run: "keeps_head f \<Longrightarrow> heads (upd_run r f e) = heads e"
  by (auto simp: heads_def upd_run_def omod_def dest: keeps_headD)

lemma filter_timer_insert: "\<not> P x \<Longrightarrow> filter P (timer_insert x ts) = filter P ts"
  by (induction ts) auto

interpretation heads_frame: step_frame heads
  by unfold_locales (simp_all add: heads_upd_run, simp_all add: heads_def schedule_def)

interpretation timers_frame: step_frame trigger_timers
  by unfold_locales (simp_all add: trigger_timers_def upd_run_def schedule_def filter_timer_insert)

interpretation still_frame: step_frame still
  by unfold_locales (simp_all add: still_def upd_run_def schedule_def)

lemma stillD:
  assumes "still e = still e'"
  shows "eg_flows e = eg_flows e'" "eg_states e = eg_states e'" "eg_by_hand e = eg_by_hand e'"
    "eg_eval e = eg_eval e'" "eg_ids e = eg_ids e'" "eg_dry e = eg_dry e'"
  using assms by (cases e; cases e'; simp add: still_def)+

end
