(* ===== verification/EngineMeasure.thy ===== *)
theory EngineMeasure
  imports EngineFrame "HOL-Library.Product_Lexorder"
begin

text \<open>
  Why the engine's loops end. \<open>drive\<close> runs steps while any token is ready: each step uses up one
  of the run's 256, and only a queued firing starts a run inside it. \<open>advance\<close> runs timers while
  any is due: a run's timers come from its steps, or from a wait that starts to hold, which it
  can do only once per timer.

  \<open>qlen\<close> counts the queued firings, \<open>room\<close> the steps the runs may still take. The locale
  \<open>run_measure\<close> is a third number that can only grow when a step opens: the joins that have not
  gone on (\<open>unpassed\<close>) for \<open>drive\<close>, the runs' timers and waits (\<open>weight\<close>) for \<open>advance\<close>.
\<close>

section \<open>The numbers\<close>

definition room :: "engine \<Rightarrow> nat" where
  "room e = osum (\<lambda>run. max_steps - length (rr_steps (rn_record run))) (eg_runs e)"

definition qlen :: "engine \<Rightarrow> nat" where
  "qlen e = (\<Sum>k \<in> set (okeys (eg_flows e)). length (ld_queue (the (oget k (eg_flows e)))))"

lemma room_heads: "room e = sum_list (map (\<lambda>(_, _, rec). max_steps - length (rr_steps rec)) (heads e))"
  by (simp add: room_def osum_def heads_def head_of_def o_def case_prod_beta)

lemma qlen_flows: "eg_flows e = eg_flows e' \<Longrightarrow> qlen e = qlen e'"
  by (simp add: qlen_def)

lemma room_cong: "heads e = heads e' \<Longrightarrow> room e = room e'"
  by (simp add: room_heads)

lemma qlen_upd_loaded:
  assumes "oget fid (eg_flows e) = Some l" "length (ld_queue (f l)) < length (ld_queue l)"
  shows "qlen (upd_loaded fid f e) < qlen e"
proof -
  have mem: "fid \<in> set (okeys (eg_flows e))"
    using assms(1) oget_None_iff[of fid "eg_flows e"] by auto
  have "length (ld_queue (the (oget k (omod fid f (eg_flows e)))))
      \<le> length (ld_queue (the (oget k (eg_flows e))))" for k
    using assms by (cases "k = fid") auto
  with mem assms show ?thesis
    unfolding qlen_def upd_loaded_def
    by (auto intro!: sum_strict_mono_ex1)
qed

lemma room_open_step:
  assumes "oget r (eg_runs e) = Some run" "oget t (rn_tokens run) = Some tok"
    "length (rr_steps (rn_record run)) < max_steps"
  shows "room (open_step r t now e) < room e"
  using assms unfolding room_def open_step_def
  by (auto simp: upd_run_def upd_record_def Let_def intro!: osum_omod_less)

lemma flows_step: "eg_flows (step env r t now e) = eg_flows e"
proof -
  have "eg_flows (open_step r t now e) = eg_flows e"
    by (simp add: open_step_def upd_run_def Let_def split: option.split)
  then show ?thesis
    using still_frame.obs_step_cases[of env r t now e] stillD(1)[of "step env r t now e"] by metis
qed

text \<open>A step that opens nothing, and one that does.\<close>

definition opens :: "string \<Rightarrow> nat \<Rightarrow> engine \<Rightarrow> bool" where
  "opens r t e =
     is_some_and (oget r (eg_runs e)) (\<lambda>run. length (rr_steps (rn_record run)) < max_steps \<and>
       is_some_and (oget t (rn_tokens run)) (\<lambda>tok. tk_doing tok = Ready \<and>
         oget (tk_node tok) (fl_nodes (rn_flow run)) \<noteq> None))"

lemma step_opens:
  assumes "opens r t e"
  shows "\<exists>run tok n. oget r (eg_runs e) = Some run \<and> oget t (rn_tokens run) = Some tok \<and>
    oget (tk_node tok) (fl_nodes (rn_flow run)) = Some n \<and>
    length (rr_steps (rn_record run)) < max_steps \<and>
    step env r t now e = step_node env n r t (tk_node tok) now (open_step r t now e)"
  using assms by (auto simp: opens_def step_def is_some_and_iff split: option.splits)

lemma step_skips:
  assumes "\<not> opens r t e"
  shows "\<exists>f ts. step env r t now e
    = fold (\<lambda>t. end_token r t now) ts (upd_run r (\<lambda>run. run\<lparr>rn_error := f run\<rparr>) e)"
proof -
  have same: ?thesis if "step env r t now e = e"
    by (intro exI[of _ rn_error] exI[of _ "[]"]) (simp add: that upd_run_def omod_id)
  have one: ?thesis if "step env r t now e = end_token r t now e"
    by (intro exI[of _ rn_error] exI[of _ "[t]"]) (simp add: that upd_run_def omod_id)
  have err: "\<exists>f ts. fold (\<lambda>t. end_token r t now) us (upd_run r (\<lambda>run. run\<lparr>rn_error := x\<rparr>) e)
      = fold (\<lambda>t. end_token r t now) ts (upd_run r (\<lambda>run. run\<lparr>rn_error := f run\<rparr>) e)" for us x
    by (intro exI[of _ "\<lambda>_. x"] exI[of _ us]) simp
  show ?thesis
  proof (cases "get_token r t e")
    case None
    then have "step env r t now e = e"
      by (auto simp: step_def get_token_def split: option.splits)
    then show ?thesis by (rule same)
  next
    case (Some tok)
    then obtain run where run: "oget r (eg_runs e) = Some run" "oget t (rn_tokens run) = Some tok"
      by (auto simp: get_token_def split: Option.bind_splits)
    consider "tk_doing tok \<noteq> Ready" | "tk_doing tok = Ready" "oget (tk_node tok) (fl_nodes (rn_flow run)) = None"
      | n where "tk_doing tok = Ready" "oget (tk_node tok) (fl_nodes (rn_flow run)) = Some n"
          "max_steps \<le> length (rr_steps (rn_record run))"
      using assms run by (fastforce simp: opens_def is_some_and_iff)
    then show ?thesis
    proof cases
      case 1
      with run have "step env r t now e = e" by (simp add: step_def)
      then show ?thesis by (rule same)
    next
      case 2
      with run have "step env r t now e = end_token r t now e" by (simp add: step_def)
      then show ?thesis by (rule one)
    next
      case 3
      with run show ?thesis by (simp add: step_def Let_def err)
    qed
  qed
qed

lemma step_room: "opens r t e \<Longrightarrow> room (step env r t now e) < room e"
proof -
  assume o: "opens r t e"
  from step_opens[OF this] obtain run tok n where *: "oget r (eg_runs e) = Some run"
      "oget t (rn_tokens run) = Some tok" "length (rr_steps (rn_record run)) < max_steps"
      "step env r t now e = step_node env n r t (tk_node tok) now (open_step r t now e)"
    by metis
  show ?thesis
    unfolding *(4) using room_open_step[OF *(1,2,3), of now]
    by (simp add: room_heads heads_frame.obs_step_node)
qed

lemma skip_heads: "\<not> opens r t e \<Longrightarrow> heads (step env r t now e) = heads e"
  using step_skips[of r t e env now]
  by (auto simp: heads_frame.obs_end_tokens heads_frame.obs_upd_run keeps)

lemma ready_end_token: "eg_ready (end_token r t now e) = eg_ready e"
  by (simp add: end_token_def with_step_def upd_run_def remove_token_def Let_def split: option.split)

lemma ready_end_tokens: "eg_ready (fold (\<lambda>t. end_token r t now) ts e) = eg_ready e"
  by (induction ts arbitrary: e) (simp_all add: ready_end_token)

lemma skip_ready: "\<not> opens r t e \<Longrightarrow> eg_ready (step env r t now e) = eg_ready e"
  using step_skips[of r t e env now] by (auto simp: ready_end_tokens upd_run_def)

section \<open>A number that grows only when a step opens\<close>

locale run_measure =
  fixes m :: "engine \<Rightarrow> nat"
  assumes m_write: "(\<And>run. rn_tokens (f run) = rn_tokens run \<and> rn_joins (f run) = rn_joins run)
      \<Longrightarrow> m (upd_run r f e) \<le> m e"
    and m_ready: "m (e\<lparr>eg_ready := q\<rparr>) \<le> m e"
    and m_effects: "m (e\<lparr>eg_effects := x\<rparr>) \<le> m e"
    and m_close: "m (e\<lparr>eg_runs := odel r (eg_runs e)\<rparr>) \<le> m e"
    and m_remove: "m (remove_token r t e) \<le> m e"
    and m_spawn: "m (upd_run r (fold spawn ws) e) \<le> m e"
    and m_wake: "m (set_doing r t Ready e) \<le> m e"
    and m_pass: "m (upd_run r (upd_join n (\<lambda>j. j\<lparr>js_passed := True, js_deadline := None\<rparr>)) e) \<le> m e"
begin

lemma m_fold: "(\<And>x e. m (f x e) \<le> m e) \<Longrightarrow> m (fold f xs e) \<le> m e"
  by (induction xs arbitrary: e) (auto intro: order_trans)

lemma m_with_step: "m (with_step r t f e) \<le> m e"
  by (auto simp: with_step_def run_with_step_def upd_record_def intro!: m_write split: option.split)

lemma m_leave: "m (leave r n p e) \<le> m e"
  by (auto simp: leave_def Let_def add_ending_def upd_record_def
      intro!: m_write intro: order_trans[OF m_ready m_spawn] split: option.split)

lemma m_pass_token: "m (pass_token r t p now e) \<le> m e"
  by (auto simp: pass_token_def Let_def split: option.split
      intro: m_with_step order_trans[OF m_leave order_trans[OF m_remove m_with_step]])

lemma m_end_token: "m (end_token r t now e) \<le> m e"
  by (auto simp: end_token_def Let_def add_ending_def upd_record_def split: option.split
      intro: m_with_step order_trans[OF m_write order_trans[OF m_remove m_with_step]])

lemma m_merge_token: "m (merge_token r now t e) \<le> m e"
  by (simp add: merge_token_def) (rule order_trans[OF m_remove m_with_step])

lemma m_complete_join:
  "m (complete_join r t n p note now e)
   \<le> m (upd_run r (upd_join n (\<lambda>j. j\<lparr>js_passed := True, js_deadline := None\<rparr>)) e)"
  unfolding complete_join_def Let_def
  by (intro order_trans[OF m_pass_token] order_trans[OF m_with_step] order_trans[OF m_wake]
      m_fold m_merge_token)

lemma m_complete_join_le: "m (complete_join r t n p note now e) \<le> m e"
  by (rule order_trans[OF m_complete_join m_pass])

lemma m_give_up_join: "m (give_up_join r now s e) \<le> m e"
  by (simp add: give_up_join_def m_complete_join_le split: prod.split)

lemma m_give_up_joins: "m (give_up_joins r now e) \<le> m e"
  by (simp add: give_up_joins_def m_fold m_give_up_join split: option.split)

lemma m_timer_join: "m (timer_join r n now e) \<le> m e"
  by (simp add: timer_join_def m_complete_join_le split: option.split)

lemma m_skip: "\<not> opens r t e \<Longrightarrow> m (step env r t now e) \<le> m e"
  using step_skips[of r t e env now]
  by (auto intro!: order_trans[OF m_fold[OF m_end_token]] m_write)

lemma m_close_run: "m (close_run r run oc now e) \<le> m e"
proof -
  have *: "close_run r run oc now e =
      (e\<lparr>eg_runs := odel r (eg_runs e)\<rparr>)
        \<lparr>eg_ready := filter (\<lambda>(i, _). i \<noteq> r) (eg_ready e)\<rparr>
        \<lparr>eg_effects := eg_effects e @ [EFinished (finished_record run oc now)]\<rparr>"
    by (simp add: close_run_def push_effect_def)
  show ?thesis unfolding *
    by (intro order_trans[OF m_effects] order_trans[OF m_ready] m_close)
qed

end
end
