(* ===== verification/EngineLoop.thy ===== *)
theory EngineLoop
  imports EngineMeasure
begin

text \<open>
  The engine's inner loop (\<open>drive\<close> of \<open>engine.rs\<close>), with its termination: ready tokens step
  until none is left, then a run with nothing left to do gives up its joins or finishes, which
  may make tokens ready again.
\<close>

section \<open>Runs with nothing left to do\<close>

definition idle_runs :: "engine \<Rightarrow> string list" where
  "idle_runs e =
     map fst (filter (\<lambda>(_, run). list_all (\<lambda>tok. tk_doing tok = Joined) (ovals (rn_tokens run))) (eg_runs e))"

definition settle_run :: "env \<Rightarrow> int \<Rightarrow> string \<Rightarrow> engine \<Rightarrow> engine" where
  "settle_run env now r e =
     (if is_some_and (oget r (eg_runs e)) (\<lambda>run. rn_tokens run \<noteq> []) then
        (let e = give_up_joins r now e;
             emptied = is_some_and (oget r (eg_runs e)) (\<lambda>run. rn_tokens run = [])
         in if emptied \<and> eg_ready e = [] then finish env r None now e else e)
      else finish env r None now e)"

definition settle :: "env \<Rightarrow> int \<Rightarrow> engine \<Rightarrow> engine" where
  "settle env now e = fold (settle_run env now) (idle_runs e) e"

section \<open>What starting and ending a run do to the numbers\<close>

lemma flows_leave: "eg_flows (leave r n p e) = eg_flows e"
  using still_frame.obs_leave[of r n p e] by (rule stillD)

lemma flows_start_run: "eg_flows (snd (start_run env fid f now e)) = eg_flows e"
  by (simp add: start_run_def Let_def flows_leave split: option.split)

lemma next_turn_qlen: "next_turn env fid now e = e \<or> qlen (next_turn env fid now e) < qlen e"
proof (cases "\<exists>l f q. oget fid (eg_flows e) = Some l \<and> ld_queue l = f # q")
  case True
  then obtain l f q where l: "oget fid (eg_flows e) = Some l" "ld_queue l = f # q" by blast
  then have "qlen (next_turn env fid now e) = qlen (upd_loaded fid (\<lambda>l. l\<lparr>ld_queue := q\<rparr>) e)"
    by (simp add: next_turn_def) (rule qlen_flows, rule flows_start_run)
  also have "\<dots> < qlen e" using l by (intro qlen_upd_loaded) auto
  finally show ?thesis by simp
next
  case False
  then show ?thesis by (auto simp: next_turn_def split: option.split list.split)
qed

lemma flows_close_run [simp]: "eg_flows (close_run r run oc now e) = eg_flows e"
  by (simp add: close_run_def push_effect_def)

lemma ready_close_run: "eg_ready (close_run r run oc now e) = filter (\<lambda>(i, _). i \<noteq> r) (eg_ready e)"
  by (simp add: close_run_def push_effect_def)

lemma room_close_run: "room (close_run r run oc now e) \<le> room e"
  by (simp add: room_def close_run_def push_effect_def osum_odel_le)

lemma finish_cases:
  obtains "finish env r oc now e = e"
  | run where "oget r (eg_runs e) = Some run" "finish env r oc now e = close_run r run oc now e"
  | run where "oget r (eg_runs e) = Some run" "qlen (finish env r oc now e) < qlen e"
proof (cases "oget r (eg_runs e)")
  case None
  then show ?thesis using that(1) by (simp add: finish_def)
next
  case (Some run)
  have q: "qlen (close_run r run oc now e) = qlen e" by (rule qlen_flows) simp
  show ?thesis
  proof (cases "leaves_queue (unwrap_or oc (run_outcome_of run))")
    case True
    with Some that(2) show ?thesis by (simp add: finish_def Let_def)
  next
    case False
    then have "finish env r oc now e
        = next_turn env (rr_flow_id (rn_record run)) now (close_run r run oc now e)"
      using Some by (simp add: finish_def Let_def)
    with that(2,3) Some q show ?thesis
      using next_turn_qlen[of env "rr_flow_id (rn_record run)" now "close_run r run oc now e"] by metis
  qed
qed

context run_measure
begin

definition rank :: "engine \<Rightarrow> nat \<times> nat \<times> nat" where
  "rank e = (qlen e, room e, m e)"

lemma rank_step: "rank (step env r t now e) \<le> rank e"
proof (cases "opens r t e")
  case True
  then show ?thesis
    using step_room[OF True, of env now] qlen_flows[OF flows_step[of env r t now e]]
    by (simp add: rank_def)
next
  case False
  then show ?thesis
    using room_cong[OF skip_heads[OF False, of env now]] qlen_flows[OF flows_step[of env r t now e]]
      m_skip[OF False]
    by (simp add: rank_def)
qed

lemma rank_finish: "rank (finish env r oc now e) \<le> rank e"
  by (rule finish_cases[of env r oc now e])
    (auto simp: rank_def intro: room_close_run m_close_run
      simp: qlen_flows[OF flows_close_run] dest: le_neq_implies_less[OF room_close_run])

lemma rank_give_up_joins: "rank (give_up_joins r now e) \<le> rank e"
  using room_cong[OF heads_frame.obs_give_up_joins] m_give_up_joins
    qlen_flows[OF stillD(1)[OF still_frame.obs_give_up_joins]]
  by (simp add: rank_def)

lemma rank_settle_run: "rank (settle_run env now r e) \<le> rank e"
  by (auto simp: settle_run_def Let_def rank_finish rank_give_up_joins
      intro: order_trans[OF rank_finish rank_give_up_joins])

lemma rank_settle: "rank (settle env now e) \<le> rank e"
proof -
  have "rank (fold (settle_run env now) rs e) \<le> rank e" for rs
    by (induction rs arbitrary: e) (auto intro: order_trans rank_settle_run)
  then show ?thesis by (simp add: settle_def)
qed

end

section \<open>Joins that have not gone on\<close>

definition open_joins :: "run \<Rightarrow> nat" where
  "open_joins run = osum (\<lambda>j. if js_passed j then 0 else 1) (rn_joins run)"

definition unpassed :: "engine \<Rightarrow> nat" where
  "unpassed e = osum open_joins (eg_runs e)"

lemma unpassed_upd_run: "(\<And>run. open_joins (f run) \<le> open_joins run) \<Longrightarrow> unpassed (upd_run r f e) \<le> unpassed e"
  by (simp add: unpassed_def upd_run_def osum_omod_le)

lemma joins_spawn_all: "rn_joins (fold spawn ws run) = rn_joins run"
  by (induction ws arbitrary: run) (simp_all add: spawn_def)

lemma open_joins_pass:
  "open_joins (upd_join n (\<lambda>j. j\<lparr>js_passed := True, js_deadline := None\<rparr>) run) \<le> open_joins run"
  by (simp add: open_joins_def upd_join_def osum_omod_le)

lemma osum_omod_less_mem:
  assumes "\<And>v. f (g v) \<le> f v" "(k, v) \<in> set m" "f (g v) < f v"
  shows "osum f (omod k g m) < osum f m"
  using assms(2)
proof (induction m)
  case (Cons p m)
  have "osum f (omod k g m) \<le> osum f m" by (rule osum_omod_le) (rule assms(1))
  with Cons assms show ?case by (cases p) (auto simp: omod_def add_le_less_mono add_less_le_mono)
qed simp

interpretation joins: run_measure unpassed
proof unfold_locales
  show "unpassed (upd_run r f e) \<le> unpassed e"
    if "\<And>run. rn_tokens (f run) = rn_tokens run \<and> rn_joins (f run) = rn_joins run" for f r e
    by (rule unpassed_upd_run) (simp add: open_joins_def that)
  show "unpassed (e\<lparr>eg_runs := odel r (eg_runs e)\<rparr>) \<le> unpassed e" for e r
    by (simp add: unpassed_def osum_odel_le)
  show "unpassed (remove_token r t e) \<le> unpassed e" for r t e
    unfolding remove_token_def by (rule unpassed_upd_run) (simp add: open_joins_def)
  show "unpassed (upd_run r (fold spawn ws) e) \<le> unpassed e" for r ws e
    by (rule unpassed_upd_run) (simp add: open_joins_def joins_spawn_all)
  show "unpassed (set_doing r t Ready e) \<le> unpassed e" for r t e
    unfolding set_doing_def upd_token_def by (rule unpassed_upd_run) (simp add: open_joins_def)
qed (simp_all add: unpassed_def unpassed_upd_run [unfolded unpassed_def] open_joins_pass)

lemma stuck_joins_unpassed:
  assumes "oget r (eg_runs e) = Some run" "s \<in> set (stuck_joins run)"
  shows "unpassed (give_up_join r now s e) < unpassed e"
proof -
  obtain n t ms where s: "s = (n, t, ms)" by (cases s)
  with assms(2) obtain j where j: "(n, j) \<in> set (rn_joins run)" "\<not> js_passed j"
    by (auto simp: stuck_joins_def)
  have "open_joins (upd_join n (\<lambda>j. j\<lparr>js_passed := True, js_deadline := None\<rparr>) run) < open_joins run"
    unfolding open_joins_def upd_join_def using j by (simp, intro osum_omod_less_mem) auto
  then have "unpassed (upd_run r (upd_join n (\<lambda>j. j\<lparr>js_passed := True, js_deadline := None\<rparr>)) e) < unpassed e"
    unfolding unpassed_def upd_run_def using assms(1)
    by (simp, intro osum_omod_less) (auto simp: open_joins_pass)
  then show ?thesis
    unfolding s give_up_join_def prod.case by (rule le_less_trans[OF joins.m_complete_join])
qed

lemma give_up_unpassed:
  assumes "eg_ready (give_up_joins r now e) \<noteq> eg_ready e"
  shows "unpassed (give_up_joins r now e) < unpassed e"
proof -
  from assms obtain run where run: "oget r (eg_runs e) = Some run"
    by (auto simp: give_up_joins_def split: option.splits)
  with assms have "stuck_joins run \<noteq> []" by (auto simp: give_up_joins_def)
  then obtain s ss where s: "stuck_joins run = s # ss" by (cases "stuck_joins run") auto
  have "unpassed (give_up_joins r now e) \<le> unpassed (give_up_join r now s e)"
    using run s by (simp add: give_up_joins_def joins.m_fold joins.m_give_up_join)
  also have "\<dots> < unpassed e"
    by (rule stuck_joins_unpassed[OF run(1)]) (simp add: s)
  finally show ?thesis .
qed

lemma rank_give_up: "eg_ready (give_up_joins r now e) \<noteq> eg_ready e
    \<Longrightarrow> joins.rank (give_up_joins r now e) < joins.rank e"
  using room_cong[OF heads_frame.obs_give_up_joins, of r now e] give_up_unpassed[of r now e]
    qlen_flows[OF stillD(1)[OF still_frame.obs_give_up_joins], of r now e]
  by (simp add: joins.rank_def)

lemma rank_finish_ready:
  assumes "eg_ready e = []" "eg_ready (finish env r oc now e) \<noteq> []"
  shows "joins.rank (finish env r oc now e) < joins.rank e"
  by (rule finish_cases[of env r oc now e])
    (use assms in \<open>auto simp: joins.rank_def ready_close_run\<close>)

lemma rank_settle_run_ready:
  assumes "eg_ready e = []" "eg_ready (settle_run env now r e) \<noteq> []"
  shows "joins.rank (settle_run env now r e) < joins.rank e"
proof (cases "is_some_and (oget r (eg_runs e)) (\<lambda>run. rn_tokens run \<noteq> [])")
  case False
  with assms show ?thesis by (simp add: settle_run_def rank_finish_ready)
next
  case True
  let ?g = "give_up_joins r now e"
  show ?thesis
  proof (cases "is_some_and (oget r (eg_runs ?g)) (\<lambda>run. rn_tokens run = []) \<and> eg_ready ?g = []")
    case True': True
    with True have *: "settle_run env now r e = finish env r None now ?g"
      by (simp add: settle_run_def Let_def)
    with assms True' have "joins.rank (finish env r None now ?g) < joins.rank ?g"
      by (intro rank_finish_ready) auto
    with * joins.rank_give_up_joins[of r now e] show ?thesis by (simp add: order.strict_trans2)
  next
    case False
    with True have *: "settle_run env now r e = ?g" by (auto simp: settle_run_def Let_def)
    with assms show ?thesis by (simp add: rank_give_up)
  qed
qed

lemma rank_settle_ready:
  assumes "eg_ready e = []" "eg_ready (settle env now e) \<noteq> []"
  shows "joins.rank (settle env now e) < joins.rank e"
proof -
  have "eg_ready e' = [] \<or> joins.rank e' < b \<Longrightarrow> joins.rank e' \<le> b \<Longrightarrow>
      eg_ready (fold (settle_run env now) rs e') = [] \<or> joins.rank (fold (settle_run env now) rs e') < b"
    for rs e' b
  proof (induction rs arbitrary: e')
    case (Cons r rs)
    show ?case
      using Cons.prems rank_settle_run_ready[of e' env now r] joins.rank_settle_run[of env now r e']
      by (simp, intro Cons.IH) (auto dest: order.strict_trans2 order.strict_trans1 order_trans)
  qed simp
  from this[of e "joins.rank e" "idle_runs e"] assms show ?thesis by (auto simp: settle_def)
qed

section \<open>The loops\<close>

function run_ready :: "env \<Rightarrow> int \<Rightarrow> engine \<Rightarrow> engine" where
  "run_ready env now e =
     (case eg_ready e of
        [] \<Rightarrow> e
      | (r, t) # q \<Rightarrow> run_ready env now (step env r t now (e\<lparr>eg_ready := q\<rparr>)))"
  by pat_completeness auto

lemma room_upd_ready [simp]: "room (e\<lparr>eg_ready := q\<rparr>) = room e"
  by (simp add: room_def)

termination run_ready
proof (relation "measures [\<lambda>(env, now, e). room e, \<lambda>(env, now, e). length (eg_ready e)]")
  fix env :: env and now and e :: engine and r t and q :: "(string \<times> nat) list" and x
  assume e: "eg_ready e = x # q" "(r, t) = x"
  let ?e = "e\<lparr>eg_ready := q\<rparr>"
  show "((env, now, step env r t now ?e), (env, now, e))
    \<in> measures [\<lambda>(env, now, e). room e, \<lambda>(env, now, e). length (eg_ready e)]"
  proof (cases "opens r t ?e")
    case True
    from step_room[OF this, of env now] show ?thesis by simp
  next
    case False
    from room_cong[OF skip_heads[OF this, of env now]] skip_ready[OF this, of env now] e
    show ?thesis by simp
  qed
qed simp

declare run_ready.simps [simp del]

lemma ready_run_ready: "eg_ready (run_ready env now e) = []"
proof (induction env now e rule: run_ready.induct)
  case (1 env now e)
  show ?case
    by (subst run_ready.simps) (auto split: list.split intro: 1)
qed

context run_measure
begin

lemma rank_upd_ready: "rank (e\<lparr>eg_ready := q\<rparr>) \<le> rank e"
  by (simp add: rank_def qlen_def m_ready)

lemma rank_run_ready: "rank (run_ready env now e) \<le> rank e"
proof (induction env now e rule: run_ready.induct)
  case (1 env now e)
  show ?case
  proof (cases "eg_ready e")
    case Nil
    then show ?thesis by (subst run_ready.simps) simp
  next
    case (Cons x q)
    obtain r t where x: "x = (r, t)" by (cases x)
    have "rank (run_ready env now (step env r t now (e\<lparr>eg_ready := q\<rparr>)))
        \<le> rank (step env r t now (e\<lparr>eg_ready := q\<rparr>))"
      using 1 Cons x by simp
    also have "\<dots> \<le> rank e" by (rule order_trans[OF rank_step rank_upd_ready])
    finally show ?thesis using Cons x by (subst run_ready.simps) simp
  qed
qed

end

function drive :: "env \<Rightarrow> int \<Rightarrow> engine \<Rightarrow> engine" where
  "drive env now e =
     (let e = settle env now (run_ready env now e)
      in if eg_ready e = [] then e else drive env now e)"
  by pat_completeness auto

termination drive
proof (relation "inv_image {(x, y). x < y} (\<lambda>(env, now, e). joins.rank e)")
  show "wf (inv_image {(x, y). x < y} (\<lambda>(env :: env, now :: int, e). joins.rank e))"
    by (intro wf_inv_image wf)
next
  fix env now e x
  assume x: "x = settle env now (run_ready env now e)" "eg_ready x \<noteq> []"
  with rank_settle_ready[OF ready_run_ready] joins.rank_run_ready
  have "joins.rank x < joins.rank e" by (metis order.strict_trans2)
  then show "((env, now, x), (env, now, e)) \<in> inv_image {(x, y). x < y} (\<lambda>(env, now, e). joins.rank e)"
    by simp
qed

declare drive.simps [simp del]

lemma ready_drive: "eg_ready (drive env now e) = []"
proof (induction env now e rule: drive.induct)
  case (1 env now e)
  then show ?case by (subst drive.simps) (simp add: Let_def)
qed

end
