(* ===== verification/EngineTime.thy ===== *)
theory EngineTime
  imports EngineLoop
begin

text \<open>
  Time in the engine (\<open>advance\<close> of \<open>engine.rs\<close>): timers run in order until none is due, and why
  that ends.
\<close>

section \<open>The timers of runs\<close>

definition fresh_wait :: "token \<Rightarrow> bool" where
  "fresh_wait tok = (case tk_doing tok of Waiting _ _ None _ \<Rightarrow> True | _ \<Rightarrow> False)"

definition fresh_waits :: "engine \<Rightarrow> (string \<times> nat) set" where
  "fresh_waits e = {(r, t). \<exists>tok. get_token r t e = Some tok \<and> fresh_wait tok}"

definition run_timers :: "engine \<Rightarrow> nat" where
  "run_timers e = length (filter (\<lambda>(_, _, tm). \<not> of_trigger tm) (eg_timers e))"

definition weight :: "engine \<Rightarrow> nat" where
  "weight e = 2 * run_timers e + card (fresh_waits e)"

lemma get_token_Some:
  "get_token r t e = Some tok
   \<longleftrightarrow> (\<exists>run. oget r (eg_runs e) = Some run \<and> oget t (rn_tokens run) = Some tok)"
  by (cases "oget r (eg_runs e)") (simp_all add: get_token_def)

lemma oget_Some_key: "oget k m = Some v \<Longrightarrow> k \<in> set (okeys m)"
  using oget_None_iff[of k m] by auto

lemma finite_fresh_waits: "finite (fresh_waits e)"
proof -
  have "fresh_waits e \<subseteq> Sigma (set (okeys (eg_runs e)))
      (\<lambda>r. set (okeys (rn_tokens (the (oget r (eg_runs e))))))"
    by (auto simp: fresh_waits_def get_token_Some dest: oget_Some_key)
  then show ?thesis by (rule finite_subset) simp
qed

lemma weight_mono:
  assumes "eg_timers e = eg_timers e'" "fresh_waits e \<subseteq> fresh_waits e'"
  shows "weight e \<le> weight e'"
  using assms card_mono[OF finite_fresh_waits assms(2)] by (simp add: weight_def run_timers_def)

lemma fresh_upd_run:
  assumes "\<And>run t tok. oget t (rn_tokens (f run)) = Some tok \<Longrightarrow> fresh_wait tok
    \<Longrightarrow> oget t (rn_tokens run) = Some tok"
  shows "fresh_waits (upd_run r f e) \<subseteq> fresh_waits e"
  by (clarsimp simp: fresh_waits_def get_token_Some upd_run_def split: if_splits) (use assms in blast)+

lemma spawn_fresh:
  "oget t (rn_tokens (fold spawn ws run)) = Some tok \<Longrightarrow> fresh_wait tok \<Longrightarrow> oget t (rn_tokens run) = Some tok"
proof (induction ws arbitrary: run)
  case (Cons w ws)
  then have "oget t (rn_tokens (spawn w run)) = Some tok" by simp
  with Cons.prems(2) show ?case
    by (auto simp: spawn_def oget_oput fresh_wait_def split: if_splits)
qed simp

lemma weight_upd_run:
  assumes "\<And>run t tok. oget t (rn_tokens (f run)) = Some tok \<Longrightarrow> fresh_wait tok
    \<Longrightarrow> oget t (rn_tokens run) = Some tok"
  shows "weight (upd_run r f e) \<le> weight e"
  by (rule weight_mono) (simp add: upd_run_def, rule fresh_upd_run, rule assms)

interpretation timing: run_measure weight
proof unfold_locales
  show "weight (upd_run r f e) \<le> weight e"
    if "\<And>run. rn_tokens (f run) = rn_tokens run \<and> rn_joins (f run) = rn_joins run" for f r e
    by (rule weight_upd_run) (simp add: that)
  show "weight (e\<lparr>eg_runs := odel r (eg_runs e)\<rparr>) \<le> weight e" for e r
    by (rule weight_mono) (auto simp: fresh_waits_def get_token_Some split: if_splits)
  show "weight (remove_token r t e) \<le> weight e" for r t e
    unfolding remove_token_def by (rule weight_upd_run) (auto split: if_splits)
  show "weight (upd_run r (fold spawn ws) e) \<le> weight e" for r ws e
    by (rule weight_upd_run) (rule spawn_fresh)
  show "weight (set_doing r t Ready e) \<le> weight e" for r t e
    unfolding set_doing_def upd_token_def
    by (rule weight_upd_run) (auto simp: fresh_wait_def split: if_splits)
  show "weight (upd_run r (upd_join n (\<lambda>j. j\<lparr>js_passed := True, js_deadline := None\<rparr>)) e) \<le> weight e"
    for r n e by (rule weight_upd_run) (simp add: upd_join_def)
qed (auto simp: weight_def run_timers_def fresh_waits_def get_token_def)

lemma fresh_with_step: "fresh_waits (with_step r t f e) = fresh_waits e"
proof -
  have "rn_tokens (run_with_step t f run) = rn_tokens run" for run
    by (simp add: run_with_step_def upd_record_def split: option.split)
  then have "get_token i j (with_step r t f e) = get_token i j e" for i j
    by (cases "i = r"; cases "oget i (eg_runs e)") (simp_all add: get_token_def with_step_def upd_run_def)
  then show ?thesis by (simp add: fresh_waits_def)
qed

lemma timers_with_step [simp]: "eg_timers (with_step r t f e) = eg_timers e"
  by (simp add: with_step_def upd_run_def)

lemma timers_set_doing [simp]: "eg_timers (set_doing r t d e) = eg_timers e"
  by (simp add: set_doing_def upd_token_def upd_run_def)

lemma weight_with_step [simp]: "weight (with_step r t f e) = weight e"
  by (simp add: weight_def run_timers_def fresh_with_step)

lemma fresh_set_doing: "fresh_waits (set_doing r t d e) \<subseteq> insert (r, t) (fresh_waits e)"
  by (auto simp: fresh_waits_def get_token_Some set_doing_def upd_token_def upd_run_def split: if_splits)

lemma fresh_set_held: "fresh_waits (set_doing r t (Waiting s d (Some h) w) e) \<subseteq> fresh_waits e - {(r, t)}"
  by (auto simp: fresh_waits_def get_token_Some set_doing_def upd_token_def upd_run_def fresh_wait_def
      split: if_splits)

lemma weight_set_doing: "weight (set_doing r t d e) \<le> Suc (weight e)"
proof -
  have "card (fresh_waits (set_doing r t d e)) \<le> card (insert (r, t) (fresh_waits e))"
    by (intro card_mono fresh_set_doing) (simp add: finite_fresh_waits)
  also have "\<dots> \<le> Suc (card (fresh_waits e))" by (rule card_insert_le_m1) simp_all
  finally show ?thesis by (simp add: weight_def run_timers_def)
qed

lemma weight_set_held:
  "(r, t) \<in> fresh_waits e \<Longrightarrow> Suc (weight (set_doing r t (Waiting s d (Some h) w) e)) \<le> weight e"
proof -
  assume i: "(r, t) \<in> fresh_waits e"
  have "card (fresh_waits (set_doing r t (Waiting s d (Some h) w) e)) \<le> card (fresh_waits e - {(r, t)})"
    by (intro card_mono fresh_set_held) (simp add: finite_fresh_waits)
  also have "\<dots> < card (fresh_waits e)"
    by (intro card_Diff1_less finite_fresh_waits i)
  finally show ?thesis by (simp add: weight_def run_timers_def)
qed

lemma run_timers_insert:
  "length (filter P (timer_insert x ts)) = (if P x then 1 else 0) + length (filter P ts)"
  by (induction ts) auto

lemma weight_schedule: "weight (schedule ts (TmToken r t) e) = weight e + 2"
  by (simp add: weight_def run_timers_def schedule_def run_timers_insert fresh_waits_def get_token_def)

lemma weight_pass: "weight e' \<le> weight e \<Longrightarrow> weight (pass_token r t p now e') \<le> Suc (weight e)"
  using timing.m_pass_token[of r t p now e'] by simp

text \<open>A wait looked at again asks for one timer at most, and then only if it was fresh.\<close>

lemma check_wait_weight: "weight (check_wait env r t now e) \<le> Suc (weight e)"
proof (cases "get_token r t e")
  case None
  then show ?thesis
    by (cases "oget r (eg_runs e)") (auto simp: check_wait_def get_token_def)
next
  case (Some tok)
  then obtain run where run: "oget r (eg_runs e) = Some run" "oget t (rn_tokens run) = Some tok"
    by (auto simp: get_token_Some)
  show ?thesis
  proof (cases "\<exists>u tmo s d h w. oget (tk_node tok) (fl_nodes (rn_flow run)) = Some (NWait u tmo)
      \<and> tk_doing tok = Waiting s d h w")
    case False
    with run show ?thesis by (auto simp: check_wait_def split: option.split node.split doing.split)
  next
    case True
    then obtain u tmo s d h w where w: "oget (tk_node tok) (fl_nodes (rn_flow run)) = Some (NWait u tmo)"
        "tk_doing tok = Waiting s d h w" by blast
    have first: "weight (schedule ts (TmToken r t) (with_step r t n
        (set_doing r t (Waiting s d (Some x) w') (with_step r t g e)))) \<le> Suc (weight e)"
      if "h = None" for ts n x w' g
    proof -
      have "(r, t) \<in> fresh_waits (with_step r t g e)"
        using that run w by (unfold fresh_with_step) (auto simp: fresh_waits_def get_token_Some fresh_wait_def)
      from weight_set_held[OF this] show ?thesis by (simp add: weight_schedule)
    qed
    show ?thesis
      using run w weight_set_doing[of r t _ "with_step r t _ e"] first
      by (auto simp: check_wait_def Let_def intro!: weight_pass split: prod.split option.split)
  qed
qed

lemma timer_token_weight: "weight (timer_token env r t now e) \<le> Suc (weight e)"
  using check_wait_weight by (auto simp: timer_token_def intro!: weight_pass split: option.split doing.split)

section \<open>Triggers' timers that are due\<close>

definition due :: "int \<Rightarrow> engine \<Rightarrow> nat" where
  "due now e = length (filter (\<lambda>(ts, _, _). ts \<le> now) (trigger_timers e))"

lemma trigger_timers_leave: "trigger_timers (leave r n p e) = trigger_timers e"
  by (rule timers_frame.obs_leave)

lemma trigger_timers_start_run: "trigger_timers (snd (start_run env fid f now e)) = trigger_timers e"
  by (simp add: start_run_def Let_def trigger_timers_leave split: option.split) (simp add: trigger_timers_def)

lemma trigger_timers_finish: "trigger_timers (finish env r oc now e) = trigger_timers e"
  by (simp add: finish_def Let_def next_turn_def trigger_timers_start_run close_run_def push_effect_def
      upd_loaded_def split: option.split list.split)
    (simp add: trigger_timers_def)

lemma trigger_timers_settle: "trigger_timers (settle env now e) = trigger_timers e"
proof -
  have "trigger_timers (settle_run env now r e) = trigger_timers e" for r e
    by (simp add: settle_run_def Let_def trigger_timers_finish timers_frame.obs_give_up_joins)
  then have "trigger_timers (fold (settle_run env now) rs e) = trigger_timers e" for rs e
    by (induction rs arbitrary: e) simp_all
  then show ?thesis by (simp add: settle_def)
qed

lemma trigger_timers_step: "trigger_timers (step env r t now e) = trigger_timers e"
proof -
  have "trigger_timers (open_step r t now e) = trigger_timers e"
    by (simp add: open_step_def upd_run_def Let_def trigger_timers_def split: option.split)
  then show ?thesis using timers_frame.obs_step_cases[of env r t now e] by metis
qed

lemma trigger_timers_run_ready: "trigger_timers (run_ready env now e) = trigger_timers e"
proof (induction env now e rule: run_ready.induct)
  case (1 env now e)
  then show ?case
    by (subst run_ready.simps)
      (auto simp: trigger_timers_step timers_frame.obs_ready split: list.split)
qed

lemma trigger_timers_drive: "trigger_timers (drive env now e) = trigger_timers e"
proof (induction env now e rule: drive.induct)
  case (1 env now e)
  then show ?case
    by (subst drive.simps) (simp add: Let_def trigger_timers_settle trigger_timers_run_ready)
qed

lemma trigger_timers_fire_now: "trigger_timers (snd (fire_now env fid f now e)) = trigger_timers e"
proof -
  have "trigger_timers (fold (\<lambda>r. finish env r oc now) rs e) = trigger_timers e" for oc rs e
    by (induction rs arbitrary: e) (simp_all add: trigger_timers_finish)
  note fold = this
  have upd: "trigger_timers (upd_loaded fid g e) = trigger_timers e"
      "trigger_timers (e\<lparr>eg_effects := x\<rparr>) = trigger_timers e" for g e x
    by (simp_all add: trigger_timers_def upd_loaded_def)
  show ?thesis
    by (simp add: fire_now_def Let_def case_prod_beta drop_firing_def near_miss_at_def push_effect_def
        trigger_timers_start_run fold upd split: option.split mode.split named_mode.split limited_mode.split)
qed

lemma trigger_timers_upd_loaded: "trigger_timers (upd_loaded fid g e) = trigger_timers e"
  by (simp add: trigger_timers_def upd_loaded_def)

lemma due_insert:
  "\<not> ts \<le> now \<Longrightarrow> due now (schedule ts tm e) = due now e"
  by (simp add: due_def trigger_timers_def schedule_def run_timers_insert filter_filter case_prod_beta
      del: filter_filter) (simp add: run_timers_insert filter_filter)

lemma next_moment_gt: "next_moment tz p tr aft = Some ts \<Longrightarrow> aft < ts"
  by (auto simp: next_moment_def dest: next_time_gt next_cron_gt next_sun_gt
      split: trigger.splits option.splits sum.splits)

lemma due_trigger_timers: "trigger_timers e = trigger_timers e' \<Longrightarrow> due now e = due now e'"
  by (simp add: due_def)

lemma due_timer_clock: "due now (timer_clock env fid node now e) = due now e"
proof -
  have "due now (snd (fire_now env fid' f now e)) = due now e" for fid' f e
    by (rule due_trigger_timers) (rule trigger_timers_fire_now)
  then show ?thesis
    by (auto simp: timer_clock_def Let_def due_insert dest!: next_moment_gt split: option.split)
qed

lemma due_timer_hold: "due now (timer_hold env fid node t e) = due now e"
  by (rule due_trigger_timers)
    (simp add: timer_hold_def Let_def trigger_timers_fire_now trigger_timers_upd_loaded cancel_hold_def
      split: option.split node.split trigger.split)

section \<open>The loop\<close>

definition fire_time :: "timer \<Rightarrow> int \<Rightarrow> int \<Rightarrow> int" where
  "fire_time tm ts now = (case tm of TmClock _ _ \<Rightarrow> now | _ \<Rightarrow> ts)"

function advance :: "env \<Rightarrow> int \<Rightarrow> engine \<Rightarrow> engine" where
  "advance env now e =
     (case eg_timers e of
        [] \<Rightarrow> e
      | (ts, _, tm) # rest \<Rightarrow>
          if now < ts then e
          else
            let t = fire_time tm ts now
            in advance env now (drive env t (run_timer env tm t (e\<lparr>eg_timers := rest\<rparr>))))"
  by pat_completeness auto

lemma rank_popped:
  "\<not> of_trigger tm \<Longrightarrow> eg_timers e = (ts, k, tm) # rest
   \<Longrightarrow> qlen (e\<lparr>eg_timers := rest\<rparr>) = qlen e \<and> room (e\<lparr>eg_timers := rest\<rparr>) = room e \<and>
      weight (e\<lparr>eg_timers := rest\<rparr>) + 2 = weight e"
  by (simp add: qlen_def room_def weight_def run_timers_def fresh_waits_def get_token_def)

lemma rank_run_timer:
  assumes "\<not> of_trigger tm" "eg_timers e = (ts, k, tm) # rest"
  shows "timing.rank (run_timer env tm t (e\<lparr>eg_timers := rest\<rparr>)) < timing.rank e"
proof -
  let ?e = "e\<lparr>eg_timers := rest\<rparr> :: engine"
  have h: "heads (run_timer env tm t ?e) = heads ?e"
    using assms(1) by (cases tm) (simp_all add: heads_frame.obs_timer_token heads_frame.obs_timer_join)
  have s: "still (run_timer env tm t ?e) = still ?e"
    using assms(1) by (cases tm) (simp_all add: still_frame.obs_timer_token still_frame.obs_timer_join)
  have w: "weight (run_timer env tm t ?e) \<le> Suc (weight ?e)"
    using assms(1) timer_token_weight timing.m_timer_join
    by (cases tm) (simp_all add: le_SucI)
  show ?thesis
    using room_cong[OF h] qlen_flows[OF stillD(1)[OF s]] w rank_popped[OF assms]
    by (simp add: timing.rank_def)
qed

lemma rank_drive: "timing.rank (drive env now e) \<le> timing.rank e"
proof (induction env now e rule: drive.induct)
  case (1 env now e)
  have "timing.rank (settle env now (run_ready env now e)) \<le> timing.rank e"
    by (rule order_trans[OF timing.rank_settle timing.rank_run_ready])
  with 1 show ?case
    by (subst drive.simps) (auto simp: Let_def intro: order_trans)
qed

lemma due_popped:
  assumes "eg_timers e = (ts, k, tm) # rest" "ts \<le> now"
  shows "due now e = due now (e\<lparr>eg_timers := rest\<rparr>) + (if of_trigger tm then 1 else 0)"
  using assms by (simp add: due_def trigger_timers_def)

lemma due_run_timer:
  assumes "t = fire_time tm ts now"
  shows "due now (run_timer env tm t e) = due now e"
proof (cases tm)
  case (TmClock f n)
  with assms show ?thesis by (simp add: fire_time_def due_timer_clock)
qed (simp_all add: due_timer_hold due_trigger_timers[OF timers_frame.obs_timer_token]
    due_trigger_timers[OF timers_frame.obs_timer_join])

termination advance
proof (relation "inv_image {(x, y). x < y} (\<lambda>(env, now, e). (due now e, timing.rank e))")
  show "wf (inv_image {(x, y). x < y} (\<lambda>(env :: env, now, e). (due now e, timing.rank e)))"
    by (intro wf_inv_image wf)
next
  fix env :: env and now and e :: engine and ts k tm rest x y t
  assume e: "eg_timers e = x # rest" "(ts, y) = x" "(k, tm) = y" and ts: "\<not> now < ts"
    and t: "t = fire_time tm ts now"
  let ?e' = "drive env t (run_timer env tm t (e\<lparr>eg_timers := rest\<rparr>))"
  have tms: "eg_timers e = (ts, k, tm) # rest" using e by simp
  have d: "due now ?e' = due now (e\<lparr>eg_timers := rest\<rparr>)"
    using due_run_timer[OF t, of env] due_trigger_timers[OF trigger_timers_drive] by simp
  have "(due now ?e', timing.rank ?e') < (due now e, timing.rank e)"
  proof (cases "of_trigger tm")
    case True
    with d due_popped[OF tms, of now] ts show ?thesis by simp
  next
    case False
    with d due_popped[OF tms, of now] ts
      order.strict_trans1[OF rank_drive rank_run_timer[OF False tms, of env t], of env t]
    show ?thesis by simp
  qed
  then show "((env, now, ?e'), (env, now, e))
      \<in> inv_image {(x, y). x < y} (\<lambda>(env, now, e). (due now e, timing.rank e))"
    by simp
qed

declare advance.simps [simp del]

lemma advance_Nil: "eg_timers e = [] \<Longrightarrow> advance env now e = e"
  by (subst advance.simps) simp

lemma advance_Cons:
  "eg_timers e = (ts, k, tm) # rest \<Longrightarrow> advance env now e =
     (if now < ts then e
      else advance env now (drive env (fire_time tm ts now)
             (run_timer env tm (fire_time tm ts now) (e\<lparr>eg_timers := rest\<rparr>))))"
  by (subst advance.simps) (simp add: Let_def)

text \<open>What the loop leaves: nothing due, if the timers are in order.\<close>

lemma advance_first: "eg_timers (advance env now e) = x # rest \<Longrightarrow> now < fst x"
proof (induction env now e rule: advance.induct)
  case (1 env now e)
  show ?case
  proof (cases "eg_timers e")
    case Nil
    with 1(2) show ?thesis by (simp add: advance_Nil)
  next
    case (Cons y ys)
    obtain ts k tm where y: "y = (ts, k, tm)" by (cases y)
    with Cons have tms: "eg_timers e = (ts, k, tm) # ys" by simp
    show ?thesis
    proof (cases "now < ts")
      case True
      with 1(2) tms show ?thesis by (auto simp: advance_Cons)
    next
      case False
      from 1(1)[OF tms refl refl False refl] 1(2) False show ?thesis
        by (simp add: advance_Cons[OF tms])
    qed
  qed
qed

end
