(* ===== verification/EngineApi.thy ===== *)
theory EngineApi
  imports EngineTime
begin

text \<open>
  The engine's interface: what the flows extension, the simulator and the tests call
  (the public operations of \<open>engine.rs\<close>).
\<close>

section \<open>The state of the home\<close>

definition load_states :: "entity_state list \<Rightarrow> engine \<Rightarrow> engine" where
  "load_states ss e = e\<lparr>eg_states := ofold (map (\<lambda>s. (es_entity s, s)) ss)\<rparr>"

definition all_waits :: "engine \<Rightarrow> (string \<times> nat) list" where
  "all_waits e =
     concat (map (\<lambda>(r, run). map (\<lambda>(t, _). (r, t))
       (filter (\<lambda>(_, tok). case tk_doing tok of Waiting _ _ _ _ \<Rightarrow> True | _ \<Rightarrow> False) (rn_tokens run)))
       (eg_runs e))"

definition check_waits :: "env \<Rightarrow> int \<Rightarrow> (string \<times> nat) list \<Rightarrow> engine \<Rightarrow> engine" where
  "check_waits env now = fold (\<lambda>(r, t). check_wait env r t now)"

definition resync :: "env \<Rightarrow> entity_state list \<Rightarrow> int \<Rightarrow> engine \<Rightarrow> engine" where
  "resync env ss now e =
     (let e = load_states ss e
      in drive env now (check_waits env now (all_waits e) e))"

section \<open>Clocks\<close>

definition is_clock :: "timer \<Rightarrow> bool" where
  "is_clock tm = (case tm of TmClock _ _ \<Rightarrow> True | _ \<Rightarrow> False)"

text \<open>The clock triggers of the armed flows, each with its next moment.\<close>

definition clocks_due :: "env \<Rightarrow> place \<Rightarrow> int \<Rightarrow> engine \<Rightarrow> (int \<times> string \<times> string) list" where
  "clocks_due env p now e =
     concat (map (\<lambda>(fid, l).
       List.map_filter (\<lambda>(node, n). case n of
           NTrigger tr \<Rightarrow> map_option (\<lambda>ts. (ts, fid, node)) (next_moment (ev_time env) p tr now)
         | _ \<Rightarrow> None) (fl_nodes (ld_flow l)))
       (filter (\<lambda>(_, l). ld_armed l = Armed) (eg_flows e)))"

definition wind_clocks :: "env \<Rightarrow> int \<Rightarrow> engine \<Rightarrow> engine" where
  "wind_clocks env now e =
     (let e = e\<lparr>eg_timers := filter (\<lambda>(_, _, tm). \<not> is_clock tm) (eg_timers e)\<rparr>
      in case ev_place (eg_eval e) of
           None \<Rightarrow> e
         | Some p \<Rightarrow> fold (\<lambda>(ts, fid, node). schedule ts (TmClock fid node)) (clocks_due env p now e) e)"

definition set_place :: "env \<Rightarrow> place option \<Rightarrow> int \<Rightarrow> engine \<Rightarrow> engine" where
  "set_place env p now e =
     (if ev_place (eg_eval e) = p then e
      else
        let e = advance env now e
        in wind_clocks env now (e\<lparr>eg_eval := (eg_eval e)\<lparr>ev_place := p\<rparr>\<rparr>))"

definition next_clock :: "string \<Rightarrow> engine \<Rightarrow> (string, int) omap" where
  "next_clock fid e =
     ofold (List.map_filter (\<lambda>(ts, _, tm). case tm of
         TmClock f node \<Rightarrow> if f = fid then Some (node, ts) else None
       | _ \<Rightarrow> None) (eg_timers e))"

section \<open>Setting the flows\<close>

record arm =
  am_flow :: flow
  am_problems :: "problem list"

definition arm_state :: "arm \<Rightarrow> armed_state" where
  "arm_state a =
     (if \<not> fl_enabled (am_flow a) then Disabled
      else case find is_error (am_problems a) of
             Some p \<Rightarrow> Unarmed (case pb_node p of
                 Some node \<Rightarrow> Msg ''{}: {}'' [plain node, pb_message p]
               | None \<Rightarrow> pb_message p)
           | None \<Rightarrow> Armed)"

text \<open>One flow of the new set: it is taken out of the old set; if it is the same and armed both
  times it keeps its holds and its queue, and otherwise its runs are aborted.\<close>

definition set_flow :: "env \<Rightarrow> int \<Rightarrow> arm \<Rightarrow> (string, loaded) omap \<times> engine \<Rightarrow> (string, loaded) omap \<times> engine" where
  "set_flow env now a s =
     (case s of (nxt, e) \<Rightarrow>
        let version = ev_version env (am_flow a);
            armed = arm_state a;
            fid = fl_id (am_flow a);
            old = oget fid (eg_flows e);
            e = e\<lparr>eg_flows := odel fid (eg_flows e)\<rparr>;
            entry = (\<lambda>holds queue. \<lparr>ld_flow = am_flow a, ld_version = version, ld_armed = armed,
                       ld_holds = holds, ld_queue = queue\<rparr>)
        in case Option.bind old (\<lambda>l. if ld_version l = version \<and> armed = Armed \<and> ld_armed l = Armed
                                     then Some l else None) of
             Some l \<Rightarrow> (oput fid (entry (ld_holds l) (ld_queue l)) nxt, e)
           | None \<Rightarrow>
               (oput fid (entry [] []) nxt,
                abort_flow env fid (if armed = Disabled then AbDisabled else AbChanged) now e))"

definition set_flows :: "env \<Rightarrow> arm list \<Rightarrow> int \<Rightarrow> engine \<Rightarrow> engine" where
  "set_flows env arms now e =
     (case fold (set_flow env now) arms ([], advance env now e) of
        (nxt, e) \<Rightarrow>
          let e = fold (\<lambda>fid. abort_flow env fid AbRemoved now) (okeys (eg_flows e)) e
          in wind_clocks env now (e\<lparr>eg_flows := nxt\<rparr>))"

section \<open>Starting, firing and stopping\<close>

definition startups :: "engine \<Rightarrow> (string \<times> string) list" where
  "startups e =
     concat (map (\<lambda>(fid, l).
       map (\<lambda>(node, _). (fid, node)) (filter (\<lambda>(_, n). n = NTrigger TrStartup) (fl_nodes (ld_flow l))))
       (filter (\<lambda>(_, l). ld_armed l = Armed) (eg_flows e)))"

definition fire_startup :: "env \<Rightarrow> int \<Rightarrow> string \<times> string \<Rightarrow> engine \<Rightarrow> engine" where
  "fire_startup env now s e =
     snd (fire_now env (fst s)
       \<lparr>fg_trigger = snd s, fg_cause = None, fg_test = None, fg_by = None,
        fg_note = plain ''Irori started'', fg_reads = []\<rparr> now e)"

definition start :: "env \<Rightarrow> int \<Rightarrow> engine \<Rightarrow> engine" where
  "start env now e = drive env now (fold (fire_startup env now) (startups e) e)"

definition is_trigger :: "node option \<Rightarrow> bool" where
  "is_trigger n = (case n of Some (NTrigger _) \<Rightarrow> True | _ \<Rightarrow> False)"

definition by_hand :: "string \<Rightarrow> test_kind option \<Rightarrow> engine \<Rightarrow> firing" where
  "by_hand trigger test e =
     \<lparr>fg_trigger = trigger, fg_cause = None, fg_test = test,
      fg_by = (if test \<noteq> None then eg_by_hand e else None), fg_note = plain ''fired by hand'', fg_reads = []\<rparr>"

definition fire :: "env \<Rightarrow> string \<Rightarrow> string \<Rightarrow> test_kind option \<Rightarrow> int \<Rightarrow> engine
    \<Rightarrow> string option res \<times> engine" where
  "fire env fid trigger test now e =
     (case oget fid (eg_flows e) of
        None \<Rightarrow> (Err (Msg ''there's no flow `{}`'' [plain fid]), e)
      | Some l \<Rightarrow>
          if \<not> is_trigger (oget trigger (fl_nodes (ld_flow l))) then
            (Err (Msg ''`{}` isn't a trigger of `{}`'' [plain trigger, plain fid]), e)
          else
            (case ld_armed l of
               Disabled \<Rightarrow> (Err (Msg ''`{}` is turned off'' [plain fid]), e)
             | Unarmed reason \<Rightarrow> (Err (Msg ''`{}` can't run: {}'' [plain fid, reason]), e)
             | Armed \<Rightarrow>
                 (case fire_now env fid (by_hand trigger test e) now e of
                    (started, e) \<Rightarrow> (Ok started, drive env now e))))"

definition fire_by :: "env \<Rightarrow> string \<Rightarrow> string \<Rightarrow> test_kind option \<Rightarrow> string option \<Rightarrow> int \<Rightarrow> engine
    \<Rightarrow> string option res \<times> engine" where
  "fire_by env fid trigger test who now e =
     (case fire env fid trigger test now (e\<lparr>eg_by_hand := who\<rparr>) of
        (started, e) \<Rightarrow> (started, e\<lparr>eg_by_hand := None\<rparr>))"

definition cancel :: "env \<Rightarrow> string \<Rightarrow> int \<Rightarrow> engine \<Rightarrow> bool \<times> engine" where
  "cancel env r now e =
     (oget r (eg_runs e) \<noteq> None, drive env now (finish env r (Some (Aborted AbCancelled)) now e))"

definition shutdown :: "env \<Rightarrow> int \<Rightarrow> engine \<Rightarrow> engine" where
  "shutdown env now e =
     fold (\<lambda>r. finish env r (Some (Aborted AbShutdown)) now) (okeys (eg_runs e)) e"

section \<open>What the home and the calls report\<close>

definition watching :: "string \<Rightarrow> engine \<Rightarrow> (string \<times> string \<times> state_trigger) list" where
  "watching entity e =
     concat (map (\<lambda>(fid, l).
       List.map_filter (\<lambda>(node, n). case n of
           NTrigger (TrState st) \<Rightarrow> if st_entity st = entity then Some (fid, node, st) else None
         | _ \<Rightarrow> None) (fl_nodes (ld_flow l)))
       (filter (\<lambda>(_, l). ld_armed l = Armed) (eg_flows e)))"

definition waits_on :: "string \<Rightarrow> engine \<Rightarrow> (string \<times> nat) list" where
  "waits_on entity e =
     concat (map (\<lambda>(r, run). map (\<lambda>(t, _). (r, t))
       (filter (\<lambda>(_, tok). case tk_doing tok of Waiting _ _ _ watch \<Rightarrow> entity \<in> set watch | _ \<Rightarrow> False)
         (rn_tokens run)))
       (eg_runs e))"

definition state_changed :: "env \<Rightarrow> entity_state option \<Rightarrow> entity_state \<Rightarrow> int \<Rightarrow> engine \<Rightarrow> engine" where
  "state_changed env old new now e =
     (let e = e\<lparr>eg_states := oput (es_entity new) new (eg_states e)\<rparr>;
          e = fold (\<lambda>(fid, node, st). state_trigger_fires env fid node st old new now)
                (watching (es_entity new) e) e
      in drive env now (check_waits env now (waits_on (es_entity new) e) e))"

definition calling :: "nat \<Rightarrow> engine \<Rightarrow> (string \<times> nat) option" where
  "calling c e =
     (case concat (map (\<lambda>(r, run). map (\<lambda>(t, _). (r, t))
         (filter (\<lambda>(_, tok). tk_doing tok = Calling c) (rn_tokens run))) (eg_runs e)) of
        [] \<Rightarrow> None | x # _ \<Rightarrow> Some x)"

definition call_finished :: "env \<Rightarrow> nat \<Rightarrow> unit res \<Rightarrow> int \<Rightarrow> engine \<Rightarrow> engine" where
  "call_finished env c result now e =
     (case calling c e of
        None \<Rightarrow> e
      | Some (r, t) \<Rightarrow> drive env now (answer_call r t result now e))"

section \<open>What can be asked\<close>

definition next_deadline :: "engine \<Rightarrow> int option" where
  "next_deadline e = (case eg_timers e of [] \<Rightarrow> None | (ts, _) # _ \<Rightarrow> Some ts)"

definition take_effects :: "engine \<Rightarrow> effect list \<times> engine" where
  "take_effects e = (eg_effects e, e\<lparr>eg_effects := []\<rparr>)"

definition idle :: "engine \<Rightarrow> bool" where
  "idle e = (eg_runs e = [])"

definition armed :: "engine \<Rightarrow> (string \<times> armed_state \<times> string) list" where
  "armed e = map (\<lambda>(fid, l). (fid, ld_armed l, ld_version l)) (eg_flows e)"

record token_at =
  ta_node :: string
  ta_doing :: string
  ta_since :: "int option"
  ta_until :: "int option"
  ta_holding_since :: "int option"

definition token_at_of :: "run \<Rightarrow> token \<Rightarrow> token_at" where
  "token_at_of run tok =
     (let show = (\<lambda>doing since until hs. \<lparr>ta_node = tk_node tok, ta_doing = doing, ta_since = since,
                    ta_until = until, ta_holding_since = hs\<rparr>)
      in case tk_doing tok of
           Ready \<Rightarrow> show ''ready'' None None None
         | Delaying until \<Rightarrow> show ''delaying'' None (Some until) None
         | Waiting since deadline hs _ \<Rightarrow> show ''waiting'' (Some since) (Some deadline) hs
         | Calling _ \<Rightarrow> show ''calling'' None None None
         | Joined \<Rightarrow> show ''joining'' None (Option.bind (oget (tk_node tok) (rn_joins run)) js_deadline) None)"

definition active :: "string option \<Rightarrow> engine \<Rightarrow> (run_record \<times> token_at list) list" where
  "active fid e =
     map (\<lambda>run. (rn_record run, map (token_at_of run) (ovals (rn_tokens run))))
       (filter (\<lambda>run. is_none_or fid (\<lambda>f. rr_flow_id (rn_record run) = f)) (ovals (eg_runs e)))"

definition holding :: "string \<Rightarrow> engine \<Rightarrow> (string \<times> int) list" where
  "holding fid e = (case oget fid (eg_flows e) of None \<Rightarrow> [] | Some l \<Rightarrow> ld_holds l)"

definition running :: "string \<Rightarrow> engine \<Rightarrow> nat" where
  "running fid e = length (filter (\<lambda>run. rr_flow_id (rn_record run) = fid) (ovals (eg_runs e)))"

end
