(* ===== verification/EngineInv.thy ===== *)
theory EngineInv
  imports EngineApi
begin

text \<open>
  Invariants of the engine. A \<open>request\<close> is one call of the interface and \<open>handle\<close> what it does;
  \<open>reached\<close> are the engines any sequence of requests leads to.

  \<open>write_invariant\<close> is a predicate that survives the engine's primitive writes;
  \<open>engine_invariant\<close> one that also survives firing, finishing and changing the flows, and then
  holds of every engine reached; \<open>run_invariant\<close> one that survives starting and closing a run,
  whatever the flow's mode, and is such an invariant.
\<close>

section \<open>Requests\<close>

datatype request =
    LoadStates "entity_state list"
  | Resync "entity_state list"
  | SetPlace "place option"
  | SetFlows "arm list"
  | Start
  | FireBy string string "test_kind option" "string option"
  | Cancel string
  | Shutdown
  | StateChanged "entity_state option" entity_state
  | CallFinished nat "unit res"
  | Advance
  | TakeEffects

fun handle :: "env \<Rightarrow> request \<Rightarrow> int \<Rightarrow> engine \<Rightarrow> engine" where
  "handle env (LoadStates ss) now e = load_states ss e"
| "handle env (Resync ss) now e = resync env ss now e"
| "handle env (SetPlace p) now e = set_place env p now e"
| "handle env (SetFlows arms) now e = set_flows env arms now e"
| "handle env Start now e = start env now e"
| "handle env (FireBy fid node test who) now e = snd (fire_by env fid node test who now e)"
| "handle env (Cancel r) now e = snd (cancel env r now e)"
| "handle env Shutdown now e = shutdown env now e"
| "handle env (StateChanged old new) now e = state_changed env old new now e"
| "handle env (CallFinished c res) now e = call_finished env c res now e"
| "handle env Advance now e = advance env now e"
| "handle env TakeEffects now e = snd (take_effects e)"

inductive reached :: "env \<Rightarrow> engine \<Rightarrow> engine \<Rightarrow> bool" for env e0 where
  reached_start: "reached env e0 e0"
| reached_handle: "reached env e0 e \<Longrightarrow> reached env e0 (handle env q now e)"

definition handle_all :: "env \<Rightarrow> (request \<times> int) list \<Rightarrow> engine \<Rightarrow> engine" where
  "handle_all env qs e = fold (\<lambda>(q, now). handle env q now) qs e"

lemma reached_handle_all: "reached env e0 (handle_all env qs e0)"
proof -
  have "reached env e0 e \<Longrightarrow> reached env e0 (handle_all env qs e)" for e
    by (induction qs arbitrary: e) (auto simp: handle_all_def intro: reached_handle)
  then show ?thesis by (simp add: reached_start)
qed

section \<open>The part of \<open>set_flows\<close> between the clocks\<close>

definition swap_flows :: "env \<Rightarrow> int \<Rightarrow> arm list \<Rightarrow> engine \<Rightarrow> engine" where
  "swap_flows env now arms e =
     (case fold (set_flow env now) arms ([], e) of
        (nxt, e) \<Rightarrow> (fold (\<lambda>fid. abort_flow env fid AbRemoved now) (okeys (eg_flows e)) e)\<lparr>eg_flows := nxt\<rparr>)"

lemma set_flows_swap: "set_flows env arms now e = wind_clocks env now (swap_flows env now arms (advance env now e))"
  by (simp add: set_flows_def swap_flows_def case_prod_beta Let_def)

section \<open>Armed flows\<close>

definition is_armed :: "string \<Rightarrow> engine \<Rightarrow> bool" where
  "is_armed fid e \<longleftrightarrow> (\<exists>v. (fid, Armed, v) \<in> set (armed e))"

lemma is_armed_mem: "is_armed fid e \<longleftrightarrow> (\<exists>l. (fid, l) \<in> set (eg_flows e) \<and> ld_armed l = Armed)"
  by (force simp: is_armed_def armed_def)

lemma is_armedI: "oget fid (eg_flows e) = Some l \<Longrightarrow> ld_armed l = Armed \<Longrightarrow> is_armed fid e"
  by (auto simp: is_armed_mem dest: oget_Some_mem)

lemma is_armed_schedule [simp]: "is_armed fid (schedule ts tm e) = is_armed fid e"
  by (simp add: is_armed_def armed_def schedule_def)

lemma is_armed_cong: "armed e = armed e' \<Longrightarrow> is_armed fid e = is_armed fid e'"
  by (simp add: is_armed_def)

lemma armed_flows: "eg_flows e = eg_flows e' \<Longrightarrow> armed e = armed e'"
  by (simp add: armed_def)

lemma armed_upd_loaded:
  "(\<And>l. ld_armed (f l) = ld_armed l \<and> ld_version (f l) = ld_version l) \<Longrightarrow> armed (upd_loaded fid f e) = armed e"
  by (auto simp: armed_def upd_loaded_def omod_def)

lemma armed_start_run: "armed (snd (start_run env fid f now e)) = armed e"
  by (rule armed_flows) (rule flows_start_run)

lemma armed_finish: "armed (finish env r oc now e) = armed e"
proof -
  have "armed (close_run r run oc now e) = armed e" for run by (rule armed_flows) simp
  then show ?thesis
    by (simp add: finish_def Let_def next_turn_def armed_start_run armed_upd_loaded
        split: option.split list.split)
qed

lemma armed_fire_now: "armed (snd (fire_now env fid f now e)) = armed e"
proof -
  have "armed (fold (\<lambda>r. finish env r oc now) rs e) = armed e" for oc rs e
    by (induction rs arbitrary: e) (simp_all add: armed_finish)
  moreover have "armed (near_miss_at fid n k m rs now e) = armed e" for n k m rs
    by (rule armed_flows) (simp add: near_miss_at_def push_effect_def)
  ultimately show ?thesis
    by (simp add: fire_now_def Let_def case_prod_beta drop_firing_def armed_start_run armed_upd_loaded
        split: option.split mode.split named_mode.split limited_mode.split)
qed

definition set_hold :: "string \<Rightarrow> string \<Rightarrow> int \<Rightarrow> engine \<Rightarrow> engine" where
  "set_hold fid node until = upd_loaded fid (\<lambda>l. l\<lparr>ld_holds := oput node until (ld_holds l)\<rparr>)"

lemmas trigger_edge_set_hold = trigger_edge_def [folded set_hold_def]

lemma armed_state_trigger: "armed (state_trigger_fires env fid node st old new now e) = armed e"
proof -
  have 1: "armed (near_miss_at fid n k m rs now e) = armed e" for n k m rs e
    by (rule armed_flows) (simp add: near_miss_at_def push_effect_def)
  have 2: "armed (cancel_hold fid node e) = armed e" "armed (set_hold fid node u e) = armed e" for u e
    by (simp_all add: cancel_hold_def set_hold_def armed_upd_loaded)
  have 3: "armed (schedule ts tm e) = armed e" for ts tm e
    by (rule armed_flows) (simp add: schedule_def)
  have 4: "armed (trigger_edge env fid node st a b nv m rd new now e) = armed e" for a b nv m rd
    by (simp add: trigger_edge_set_hold Let_def 1 2 3 armed_fire_now split: option.split)
  show ?thesis
    by (simp add: state_trigger_fires_def Let_def 1 2 4)
qed

lemma mem_map_filter: "y \<in> set (List.map_filter f xs) \<longleftrightarrow> (\<exists>x \<in> set xs. f x = Some y)"
  by (force simp: List.map_filter_def)

lemma watching_armed: "(fid, node, st) \<in> set (watching entity e) \<Longrightarrow> is_armed fid e"
  by (auto simp: watching_def is_armed_mem mem_map_filter split: node.splits trigger.splits if_splits)

lemma startups_armed: "(fid, node) \<in> set (startups e) \<Longrightarrow> is_armed fid e"
  by (auto simp: startups_def is_armed_mem)

section \<open>Writes\<close>

text \<open>What a run's marks are: all of it but its head and its tokens.\<close>

definition marks :: "(run \<Rightarrow> run) \<Rightarrow> bool" where
  "marks f \<longleftrightarrow> keeps_head f \<and> (\<forall>run. rn_tokens (f run) = rn_tokens run)"

named_theorems marked \<open>updates of a run that leave its head and its tokens alone\<close>

lemma marks_updates [marked]:
  "marks (\<lambda>run. run\<lparr>rn_vars := v run\<rparr>)" "marks (\<lambda>run. run\<lparr>rn_error := x run\<rparr>)"
  "marks (add_ending n p)" "marks (first_error n m)"
  "marks (\<lambda>run. first_error n m (add_ending k p run))" "marks (\<lambda>run. add_ending n p (run\<lparr>rn_stopped := y\<rparr>))"
  "marks (upd_join n g)" "marks (join_entry n)"
  by (simp_all add: marks_def keeps) (simp_all add: add_ending_def upd_record_def first_error_def upd_join_def join_entry_def)

definition untimed :: "doing \<Rightarrow> bool" where
  "untimed d = (case d of Delaying _ \<Rightarrow> False | Waiting _ _ _ _ \<Rightarrow> False | _ \<Rightarrow> True)"

lemma untimed_simps [simp]: "untimed Ready" "untimed Joined" "untimed (Calling c)"
  by (simp_all add: untimed_def)

fun of_wait :: "timer \<Rightarrow> bool" where
  "of_wait (TmToken _ _) = True"
| "of_wait (TmHold _ _) = True"
| "of_wait _ = False"

locale move_invariant =
  fixes env :: env and I :: "engine \<Rightarrow> bool"
  assumes I_with_step: "\<And>f r t e. keeps_step f \<Longrightarrow> I e \<Longrightarrow> I (with_step r t f e)"
    and I_remove_token: "\<And>r t e. I e \<Longrightarrow> I (remove_token r t e)"
    and I_set_doing: "\<And>r t d e. untimed d \<Longrightarrow> I e \<Longrightarrow> I (set_doing r t d e)"
    and I_leave: "\<And>r n p e. I e \<Longrightarrow> I (leave r n p e)"
    and I_mark: "\<And>f r e. marks f \<Longrightarrow> I e \<Longrightarrow> I (upd_run r f e)"
    and I_check_wait: "\<And>r t now e. I e \<Longrightarrow> I (check_wait env r t now e)"
    and I_step_delay: "\<And>h r t now e. I e \<Longrightarrow> I (step_delay env h r t now e)"
    and I_step_wait: "\<And>tmo r t now e. I e \<Longrightarrow> I (step_wait env tmo r t now e)"
    and I_ready: "\<And>e q. I e \<Longrightarrow> I (e\<lparr>eg_ready := q\<rparr>)"
    and I_miss: "\<And>e x. I e \<Longrightarrow> I (push_effect (ENearMiss x) e)"
    and I_call: "\<And>e c r p n s d. I e \<Longrightarrow> \<not> eg_dry e \<Longrightarrow> I (push_effect (ECall c r p n s d) e)"
    and I_taken: "\<And>e. I e \<Longrightarrow> I (e\<lparr>eg_effects := []\<rparr>)"
    and I_next_call: "\<And>e n. I e \<Longrightarrow> I (e\<lparr>eg_next_call := n\<rparr>)"
    and I_open: "\<And>e r t now. I e \<Longrightarrow> opens r t e \<Longrightarrow> I (open_step r t now e)"
    and I_schedule: "\<And>e ts tm. I e \<Longrightarrow> I (schedule ts tm e)"
    and I_pop: "\<And>e ts k tm rest. I e \<Longrightarrow> eg_timers e = (ts, k, tm) # rest \<Longrightarrow> \<not> of_wait tm
      \<Longrightarrow> I (e\<lparr>eg_timers := rest\<rparr>)"
    and I_pop_token: "\<And>e ts k r t rest. I e \<Longrightarrow> eg_timers e = (ts, k, TmToken r t) # rest
      \<Longrightarrow> I (timer_token env r t ts (e\<lparr>eg_timers := rest\<rparr>))"
    and I_unwind: "\<And>e. I e \<Longrightarrow> I (e\<lparr>eg_timers := filter (\<lambda>(_, _, tm). \<not> is_clock tm) (eg_timers e)\<rparr>)"
    and I_cancel_hold: "\<And>e fid node. I e \<Longrightarrow> I (cancel_hold fid node e)"
    and I_start_hold: "\<And>e fid node until. I e \<Longrightarrow> is_armed fid e
      \<Longrightarrow> I (schedule until (TmHold fid node) (set_hold fid node until e))"
    and I_states: "\<And>e s. I e \<Longrightarrow> I (e\<lparr>eg_states := s\<rparr>)"
    and I_by_hand: "\<And>e u. I e \<Longrightarrow> I (e\<lparr>eg_by_hand := u\<rparr>)"
    and I_eval: "\<And>e v. I e \<Longrightarrow> I (e\<lparr>eg_eval := v\<rparr>)"
begin

lemma I_fold: "(\<And>x e. I e \<Longrightarrow> I (f x e)) \<Longrightarrow> I e \<Longrightarrow> I (fold f xs e)"
  by (induction xs arbitrary: e) simp_all

lemma I_pass_token: "I e \<Longrightarrow> I (pass_token r t p now e)"
  by (simp add: pass_token_def Let_def I_with_step I_remove_token I_leave keeps split: option.split)

lemma I_end_token: "I e \<Longrightarrow> I (end_token r t now e)"
  by (simp add: end_token_def Let_def I_with_step I_remove_token I_mark marked keeps split: option.split)

lemmas I_moves = I_mark marked I_with_step I_remove_token I_set_doing I_leave I_pass_token I_end_token
  I_next_call I_schedule keeps

lemma I_answer_call: "I e \<Longrightarrow> I (answer_call r t res now e)"
  by (simp add: answer_call_def Let_def I_moves split: option.split sum.split)

lemma I_complete_join: "I e \<Longrightarrow> I (complete_join r t n p m now e)"
  by (simp add: complete_join_def Let_def I_moves I_fold merge_token_def)

lemma I_give_up_joins: "I e \<Longrightarrow> I (give_up_joins r now e)"
  by (auto simp: give_up_joins_def give_up_join_def I_complete_join split: option.split prod.split
      intro!: I_fold)

lemma I_arrive: "I e \<Longrightarrow> I (arrive env r t n m ms now e)"
  by (simp add: arrive_def Let_def I_moves I_complete_join split: option.split join_mode.split)

lemma I_step_call: "I e \<Longrightarrow> I (step_call env sv en d r t now e)"
proof -
  assume i: "I e"
  have "eg_dry (set_doing r t x (with_step r t g (e\<lparr>eg_next_call := n\<rparr>))) = eg_dry e" for x g n
    by (simp add: set_doing_def with_step_def upd_token_def upd_run_def)
  with i show ?thesis
    by (auto simp: step_call_def Let_def I_moves I_answer_call I_call split: prod.split sum.split)
qed

lemma I_step_node: "I e \<Longrightarrow> I (step_node env n r t nd now e)"
  by (auto simp: step_node_def step_gate_def step_switch_def step_set_def
      step_stop_def cut_other_def Let_def I_moves I_step_call I_step_delay I_step_wait I_arrive
      split: node.split prod.split sum.split intro!: I_fold)

lemma I_step: "I e \<Longrightarrow> I (step env r t now e)"
proof (cases "opens r t e")
  case True
  assume "I e"
  with True step_opens[OF True, of env now] I_open I_step_node show ?thesis by metis
next
  case False
  assume "I e"
  with step_skips[OF False, of env now] show ?thesis
    by (auto intro!: I_fold I_end_token I_mark marked)
qed

lemma I_run_ready: "I e \<Longrightarrow> I (run_ready env now e)"
proof (induction x \<equiv> env now e rule: run_ready.induct)
  case (1 now e)
  then show ?case
    by (subst run_ready.simps) (auto simp: I_step I_ready split: list.split)
qed

lemma I_check_waits: "I e \<Longrightarrow> I (check_waits env now ws e)"
  unfolding check_waits_def by (rule I_fold) (auto simp: I_check_wait)

lemma I_near_miss: "I e \<Longrightarrow> I (near_miss_at fid node k m rs now e)"
  by (simp add: near_miss_at_def I_miss)

lemma I_wind_clocks: "I e \<Longrightarrow> I (wind_clocks env now e)"
  unfolding wind_clocks_def Let_def
  by (auto simp: I_schedule split: option.split intro!: I_fold I_unwind)

end

text \<open>A predicate that survives any write into a run that keeps its head, and any timer going, is
  such an invariant.\<close>

locale write_invariant =
  fixes env :: env and I :: "engine \<Rightarrow> bool"
  assumes W_upd_run: "\<And>f r e. keeps_head f \<Longrightarrow> I e \<Longrightarrow> I (upd_run r f e)"
    and W_ready: "\<And>e q. I e \<Longrightarrow> I (e\<lparr>eg_ready := q\<rparr>)"
    and W_miss: "\<And>e x. I e \<Longrightarrow> I (push_effect (ENearMiss x) e)"
    and W_call: "\<And>e c r p n s d. I e \<Longrightarrow> \<not> eg_dry e \<Longrightarrow> I (push_effect (ECall c r p n s d) e)"
    and W_taken: "\<And>e. I e \<Longrightarrow> I (e\<lparr>eg_effects := []\<rparr>)"
    and W_next_call: "\<And>e n. I e \<Longrightarrow> I (e\<lparr>eg_next_call := n\<rparr>)"
    and W_open: "\<And>e r t now. I e \<Longrightarrow> opens r t e \<Longrightarrow> I (open_step r t now e)"
    and W_schedule: "\<And>e ts tm. I e \<Longrightarrow> I (schedule ts tm e)"
    and W_pop: "\<And>e x rest. I e \<Longrightarrow> eg_timers e = x # rest \<Longrightarrow> I (e\<lparr>eg_timers := rest\<rparr>)"
    and W_retain: "\<And>e P. I e \<Longrightarrow> I (e\<lparr>eg_timers := filter P (eg_timers e)\<rparr>)"
    and W_cancel_hold: "\<And>e fid node. I e \<Longrightarrow> I (cancel_hold fid node e)"
    and W_set_hold: "\<And>e fid node until. I e \<Longrightarrow> is_armed fid e \<Longrightarrow> I (set_hold fid node until e)"
    and W_states: "\<And>e s. I e \<Longrightarrow> I (e\<lparr>eg_states := s\<rparr>)"
    and W_by_hand: "\<And>e u. I e \<Longrightarrow> I (e\<lparr>eg_by_hand := u\<rparr>)"
    and W_eval: "\<And>e v. I e \<Longrightarrow> I (e\<lparr>eg_eval := v\<rparr>)"
begin

lemma W_with_step: "keeps_step f \<Longrightarrow> I e \<Longrightarrow> I (with_step r t f e)"
  by (simp add: with_step_def W_upd_run keeps)

lemma W_remove_token: "I e \<Longrightarrow> I (remove_token r t e)"
  by (simp add: remove_token_def W_upd_run keeps)

lemma W_set_doing: "I e \<Longrightarrow> I (set_doing r t d e)"
  by (simp add: set_doing_def upd_token_def W_upd_run keeps)

lemma W_leave: "I e \<Longrightarrow> I (leave r n p e)"
  by (simp add: leave_def Let_def W_upd_run W_ready keeps split: option.split)

lemma W_pass_token: "I e \<Longrightarrow> I (pass_token r t p now e)"
  by (simp add: pass_token_def Let_def W_with_step W_remove_token W_leave keeps split: option.split)

lemmas W_moves = W_upd_run W_with_step W_remove_token W_set_doing W_leave W_pass_token W_schedule keeps

lemma W_check_wait: "I e \<Longrightarrow> I (check_wait env r t now e)"
  by (auto simp: check_wait_def Let_def W_moves split: option.split prod.split node.split doing.split)

lemma W_pop_hold:
  assumes "\<And>e f now. I e \<Longrightarrow> is_some_and (oget fid (eg_flows e)) (\<lambda>l. oget node (ld_holds l) \<noteq> None)
      \<Longrightarrow> I (snd (fire_now env fid f now (cancel_hold fid node e)))"
    and "I e" "eg_timers e = x # rest"
  shows "I (timer_hold env fid node ts (e\<lparr>eg_timers := rest\<rparr>))"
  using W_pop[OF assms(2,3)]
  by (auto simp: timer_hold_def Let_def W_cancel_hold is_some_and_iff
      split: option.split node.split trigger.split Option.bind_splits intro!: assms(1))

lemma W_timer_token: "I e \<Longrightarrow> I (timer_token env r t now e)"
  by (simp add: timer_token_def W_moves W_check_wait split: option.split doing.split)

end

sublocale write_invariant \<subseteq> move_invariant
  by unfold_locales
    (auto simp: W_moves marks_def W_check_wait step_delay_def step_wait_def Let_def W_ready W_miss W_call W_taken
      W_next_call W_open W_pop W_retain W_cancel_hold W_set_hold W_states W_by_hand W_eval intro: W_timer_token W_pop)

section \<open>Invariants that survive firing and finishing\<close>

locale engine_invariant = move_invariant +
  assumes I_finish: "\<And>e r oc now. I e \<Longrightarrow> I (finish env r oc now e)"
    and I_fire: "\<And>e fid f now. I e \<Longrightarrow> is_armed fid e \<Longrightarrow> I (snd (fire_now env fid f now e))"
    and I_pop_hold: "\<And>e ts k fid node rest. I e \<Longrightarrow> eg_timers e = (ts, k, TmHold fid node) # rest
      \<Longrightarrow> I (timer_hold env fid node ts (e\<lparr>eg_timers := rest\<rparr>))"
    and I_swap: "\<And>e arms now. I e \<Longrightarrow> I (swap_flows env now arms e)"
begin

lemma I_settle: "I e \<Longrightarrow> I (settle env now e)"
  unfolding settle_def
  by (rule I_fold) (auto simp: settle_run_def Let_def I_finish I_give_up_joins)

lemma I_drive: "I e \<Longrightarrow> I (drive env now e)"
proof (induction x \<equiv> env now e rule: drive.induct)
  case (1 now e)
  then show ?case
    by (subst drive.simps) (auto simp: Let_def I_settle I_run_ready)
qed

lemma I_timer_clock: "I e \<Longrightarrow> I (timer_clock env fid node now e)"
proof -
  assume i: "I e"
  have "armed_trigger fid node e = Some tr \<Longrightarrow> is_armed fid e" for tr
    by (auto simp: armed_trigger_def split: option.splits if_splits dest: is_armedI)
  with i show ?thesis
    by (auto simp: timer_clock_def Let_def I_fire I_schedule split: option.split)
qed

lemma I_run_timer:
  assumes "I e" "eg_timers e = (ts, k, tm) # rest"
  shows "I (run_timer env tm (fire_time tm ts now) (e\<lparr>eg_timers := rest\<rparr>))"
  using assms I_pop[OF assms]
  by (cases tm)
    (auto simp: fire_time_def timer_join_def I_pop_token I_pop_hold I_timer_clock I_complete_join
      split: option.split)

lemma I_advance: "I e \<Longrightarrow> I (advance env now e)"
proof (induction x \<equiv> env now e rule: advance.induct)
  case (1 now e)
  show ?case
  proof (cases "eg_timers e")
    case Nil
    with 1 show ?thesis by (simp add: advance_Nil)
  next
    case (Cons y ys)
    obtain ts k tm where y: "y = (ts, k, tm)" by (cases y)
    with Cons have tms: "eg_timers e = (ts, k, tm) # ys" by simp
    from 1(1)[OF tms refl refl _ refl] I_drive[OF I_run_timer[OF 1(2) tms]] 1(2) show ?thesis
      by (simp add: advance_Cons[OF tms])
  qed
qed

lemma I_trigger_edge: "I e \<Longrightarrow> is_armed fid e \<Longrightarrow> I (trigger_edge env fid node st a b nv note rd new now e)"
  by (auto simp: trigger_edge_set_hold Let_def I_schedule I_start_hold I_fire I_near_miss I_cancel_hold
      split: option.split)

lemma I_state_trigger: "I e \<Longrightarrow> is_armed fid e \<Longrightarrow> I (state_trigger_fires env fid node st old new now e)"
  by (simp add: state_trigger_fires_def Let_def I_cancel_hold I_near_miss I_trigger_edge)

lemma I_fold_armed:
  assumes "\<And>x e. I e \<Longrightarrow> is_armed (g x) e \<Longrightarrow> I (f x e)" "\<And>x e. armed (f x e) = armed e"
  shows "I e \<Longrightarrow> \<forall>x \<in> set xs. is_armed (g x) e \<Longrightarrow> I (fold f xs e)"
  by (induction xs arbitrary: e) (simp_all add: assms is_armed_cong[OF assms(2)])

lemma I_state_changed: "I e \<Longrightarrow> I (state_changed env old new now e)"
proof -
  let ?e = "e\<lparr>eg_states := oput (es_entity new) new (eg_states e)\<rparr>"
  let ?f = "\<lambda>x. state_trigger_fires env (fst x) (fst (snd x)) (snd (snd x)) old new now"
  assume "I e"
  then have "I (fold ?f (watching (es_entity new) ?e) ?e)"
    using watching_armed[of _ _ _ "es_entity new" ?e]
    by (intro I_fold_armed[where g = fst]) (auto simp: I_state_trigger armed_state_trigger I_states)
  moreover have "(\<lambda>(fid, node, st). state_trigger_fires env fid node st old new now) = ?f"
    by (auto simp: fun_eq_iff)
  ultimately show ?thesis
    by (simp add: state_changed_def Let_def I_drive I_check_waits)
qed

lemma I_resync: "I e \<Longrightarrow> I (resync env ss now e)"
  by (simp add: resync_def load_states_def Let_def I_drive I_check_waits I_states)

lemma I_set_place: "I e \<Longrightarrow> I (set_place env p now e)"
  by (simp add: set_place_def Let_def I_wind_clocks I_eval I_advance)

lemma I_set_flows: "I e \<Longrightarrow> I (set_flows env arms now e)"
  by (simp add: set_flows_swap I_wind_clocks I_swap I_advance)

lemma I_start: "I e \<Longrightarrow> I (start env now e)"
  unfolding start_def
  by (intro I_drive I_fold_armed[where g = fst])
    (auto simp: fire_startup_def I_fire armed_fire_now dest: startups_armed)

lemma I_fire_by: "I e \<Longrightarrow> I (snd (fire_by env fid node test who now e))"
proof -
  assume i: "I e"
  have "oget fid (eg_flows (e\<lparr>eg_by_hand := who\<rparr>)) = Some l \<Longrightarrow> ld_armed l = Armed
      \<Longrightarrow> is_armed fid (e\<lparr>eg_by_hand := who\<rparr>)" for l
    by (rule is_armedI)
  with i show ?thesis
    by (auto simp: fire_by_def fire_def case_prod_beta I_by_hand I_drive I_fire
        split: option.split armed_state.split)
qed

lemma I_handle: "I e \<Longrightarrow> I (handle env q now e)"
  by (cases q)
    (auto simp: load_states_def I_states I_resync I_set_place I_set_flows I_start I_fire_by cancel_def
      I_drive I_finish shutdown_def I_state_changed call_finished_def I_answer_call I_advance
      take_effects_def I_taken split: option.split intro!: I_fold)

lemma I_reached: "reached env e0 e \<Longrightarrow> I e0 \<Longrightarrow> I e"
  by (induction rule: reached.induct) (auto intro: I_handle)

end

section \<open>Invariants of single runs\<close>

locale run_invariant = move_invariant +
  assumes I_start_run: "\<And>e fid f now. I e \<Longrightarrow> I (snd (start_run env fid f now e))"
    and I_close: "\<And>e r run oc now. I e \<Longrightarrow> oget r (eg_runs e) = Some run \<Longrightarrow> I (close_run r run oc now e)"
    and I_flows: "\<And>e m. I e \<Longrightarrow> I (e\<lparr>eg_flows := m\<rparr>)"
    and I_hold_gone: "\<And>e ts k fid node rest. I e \<Longrightarrow> eg_timers e = (ts, k, TmHold fid node) # rest
      \<Longrightarrow> I (e\<lparr>eg_timers := rest\<rparr>)"
begin

lemma I_loaded: "I e \<Longrightarrow> I (upd_loaded fid f e)"
  by (simp add: upd_loaded_def I_flows)

lemma I_next_turn: "I e \<Longrightarrow> I (next_turn env fid now e)"
  by (simp add: next_turn_def I_start_run I_loaded split: option.split list.split)

lemma I_finish_run: "I e \<Longrightarrow> I (finish env r oc now e)"
  by (simp add: finish_def Let_def I_close I_next_turn split: option.split)

lemma I_fire_run: "I e \<Longrightarrow> I (snd (fire_now env fid f now e))"
  by (auto simp: fire_now_def Let_def case_prod_beta drop_firing_def I_near_miss I_start_run I_loaded I_finish_run
      split: option.split mode.split named_mode.split limited_mode.split intro!: I_start_run I_fold)

lemma I_hold_up:
  assumes "I e" "eg_timers e = (ts, k, TmHold fid node) # rest"
  shows "I (timer_hold env fid node ts (e\<lparr>eg_timers := rest\<rparr>))"
  using I_hold_gone[OF assms]
  by (auto simp: timer_hold_def Let_def I_cancel_hold I_fire_run
      split: option.split node.split trigger.split)

lemma I_abort_flow: "I e \<Longrightarrow> I (abort_flow env fid reason now e)"
  unfolding abort_flow_def by (intro I_loaded I_fold I_finish_run)

lemma I_set_flow: "I (snd s) \<Longrightarrow> I (snd (set_flow env now a s))"
  by (auto simp: set_flow_def Let_def I_abort_flow I_flows case_prod_beta split: option.split)

lemma I_swap_flows: "I e \<Longrightarrow> I (swap_flows env now arms e)"
proof -
  assume "I e"
  have "I (snd s) \<Longrightarrow> I (snd (fold (set_flow env now) arms s))" for s
    by (induction arms arbitrary: s) (simp_all add: I_set_flow)
  from this[of "([], e)"] \<open>I e\<close> have "I (snd (fold (set_flow env now) arms ([], e)))" by simp
  then show ?thesis
    by (auto simp: swap_flows_def case_prod_beta intro!: I_flows I_fold I_abort_flow)
qed

end

sublocale run_invariant \<subseteq> engine_invariant
  by unfold_locales (simp_all add: I_finish_run I_fire_run I_swap_flows I_hold_up)

end
