(* ===== verification/EngineSafe.thy ===== *)
theory EngineSafe
  imports EngineInv
begin

text \<open>
  What holds of every engine a sequence of requests reaches: its timers are in order, every run's
  record is well formed and has at most 256 steps, a dry engine asks for no call, and no flow has
  more runs going, or firings waiting, than its mode allows.
\<close>

section \<open>The timers are in order\<close>

definition timer_key :: "int \<times> nat \<times> timer \<Rightarrow> int \<times> nat" where
  "timer_key x = (fst x, fst (snd x))"

definition timers_ok :: "engine \<Rightarrow> bool" where
  "timers_ok e \<longleftrightarrow> sorted_wrt (<) (map timer_key (eg_timers e)) \<and>
     (\<forall>x \<in> set (eg_timers e). fst (snd x) \<le> eg_next_timer e)"

lemma set_timer_insert [simp]: "set (timer_insert x ts) = insert x (set ts)"
  by (induction ts) auto

lemma sorted_timer_insert:
  "sorted_wrt (<) (map timer_key ts) \<Longrightarrow> timer_key x \<notin> timer_key ` set ts
   \<Longrightarrow> sorted_wrt (<) (map timer_key (timer_insert x ts))"
proof (induction ts)
  case (Cons y ys)
  then show ?case
    by (auto simp: timer_key_def [symmetric] not_less dest: order.strict_trans)
qed simp

lemma timers_ok_schedule: "timers_ok e \<Longrightarrow> timers_ok (schedule ts tm e)"
proof -
  assume ok: "timers_ok e"
  then have "timer_key (ts, Suc (eg_next_timer e), tm) \<notin> timer_key ` set (eg_timers e)"
    by (force simp: timers_ok_def timer_key_def)
  with ok show ?thesis
    by (auto simp: timers_ok_def schedule_def intro!: sorted_timer_insert)
qed

lemma timers_ok_cong: "eg_timers e = eg_timers e' \<Longrightarrow> eg_next_timer e = eg_next_timer e' \<Longrightarrow> timers_ok e = timers_ok e'"
  by (simp add: timers_ok_def)

lemma timers_ok_leave: "timers_ok (leave r n p e) = timers_ok e"
  by (rule timers_ok_cong; simp add: leave_def upd_run_def Let_def split: option.split)

interpretation timers_writes: write_invariant env timers_ok for env
proof unfold_locales
  show "timers_ok (schedule ts tm e)" if "timers_ok e" for e ts tm
    using that by (rule timers_ok_schedule)
  show "timers_ok (e\<lparr>eg_timers := rest\<rparr>)" if "timers_ok e" "eg_timers e = x # rest" for e :: engine and x rest
    using that by (simp add: timers_ok_def)
  show "timers_ok (e\<lparr>eg_timers := filter P (eg_timers e)\<rparr>)" if "timers_ok e" for e :: engine and P
    using that by (auto simp: timers_ok_def sorted_wrt_map intro: sorted_wrt_filter)
  show "timers_ok (open_step r t now e)" if "timers_ok e" for r t now e
    using that by (simp add: open_step_def upd_run_def Let_def timers_ok_def split: option.split)
qed (simp_all add: timers_ok_def upd_run_def cancel_hold_def set_hold_def upd_loaded_def push_effect_def)

interpretation timers_inv: run_invariant env timers_ok for env
proof unfold_locales
  show "timers_ok (snd (start_run env fid f now e))" if "timers_ok e" for e fid f now
    using that by (simp add: start_run_def Let_def timers_ok_leave split: option.split) (simp add: timers_ok_def)
qed (simp_all add: timers_ok_def close_run_def push_effect_def)

section \<open>Every record is well formed\<close>

definition record_ok :: "run_record \<Rightarrow> bool" where
  "record_ok rec \<longleftrightarrow> 0 < length (rr_steps rec) \<and> length (rr_steps rec) \<le> max_steps \<and>
     rs_node (rr_steps rec ! 0) = rr_trigger rec \<and>
     (\<forall>i < length (rr_steps rec). rs_seq (rr_steps rec ! i) = i)"

definition effect_ok :: "effect \<Rightarrow> bool" where
  "effect_ok x = (case x of EFinished rec \<Rightarrow> record_ok rec | _ \<Rightarrow> True)"

definition records_ok :: "engine \<Rightarrow> bool" where
  "records_ok e \<longleftrightarrow> (\<forall>r run. oget r (eg_runs e) = Some run \<longrightarrow> record_ok (rn_record run)) \<and>
     (\<forall>x \<in> set (eg_effects e). effect_ok x)"

lemma record_ok_head: "record_ok (rn_record run) = record_ok (snd (head_of run))"
  by (auto simp: record_ok_def head_of_def step_head_def)

lemma record_ok_keeps: "keeps_head f \<Longrightarrow> record_ok (rn_record (f run)) = record_ok (rn_record run)"
  by (simp add: record_ok_head keeps_headD)

lemma record_ok_finished: "record_ok (rn_record run) \<Longrightarrow> record_ok (finished_record run oc now)"
  by (auto simp: record_ok_def finished_record_def cut_step_def)

lemma record_ok_open:
  assumes "record_ok rec" "length (rr_steps rec) < max_steps"
  shows "record_ok (rec\<lparr>rr_steps := rr_steps rec @ [new_step (length (rr_steps rec)) tok t now]\<rparr>)"
  using assms by (auto simp: record_ok_def nth_append new_step_def less_Suc_eq)

lemma records_ok_upd_run:
  "(\<And>run. record_ok (rn_record run) \<Longrightarrow> record_ok (rn_record (f run))) \<Longrightarrow> records_ok e \<Longrightarrow> records_ok (upd_run r f e)"
  by (auto simp: records_ok_def upd_run_def split: if_splits)

lemma records_ok_ready: "records_ok (e\<lparr>eg_ready := q\<rparr>) = records_ok e"
  by (simp add: records_ok_def)

lemma records_ok_leave: "records_ok e \<Longrightarrow> records_ok (leave r n p e)"
  by (simp add: leave_def Let_def records_ok_ready records_ok_upd_run record_ok_keeps keeps split: option.split)

lemma record_ok_new: "record_ok (rn_record (new_run l fid r f now))"
  by (simp add: record_ok_def new_run_def first_step_def max_steps_def)

interpretation records_writes: write_invariant env records_ok for env
proof unfold_locales
  show "records_ok (upd_run r f e)" if "keeps_head f" "records_ok e" for f r e
    using that by (intro records_ok_upd_run) (simp_all add: record_ok_keeps)
  show "records_ok (open_step r t now e)" if ok: "records_ok e" and o: "opens r t e" for r t now e
  proof -
    from o obtain run tok where run: "oget r (eg_runs e) = Some run" "oget t (rn_tokens run) = Some tok"
        "length (rr_steps (rn_record run)) < max_steps"
      by (auto simp: opens_def is_some_and_iff)
    with ok have "record_ok (rn_record run)" by (simp add: records_ok_def)
    from record_ok_open[OF this run(3)] run ok show ?thesis
      by (auto simp: open_step_def Let_def records_ok_def upd_run_def upd_record_def split: if_splits)
  qed
qed (auto simp: records_ok_def cancel_hold_def set_hold_def upd_loaded_def push_effect_def schedule_def effect_ok_def)

interpretation records_inv: run_invariant env records_ok for env
proof unfold_locales
  show "records_ok (snd (start_run env fid f now e))" if "records_ok e" for e fid f now
    using that record_ok_new
    by (auto simp: start_run_def Let_def records_ok_def oget_oput split: option.split if_splits
        intro!: records_ok_leave [unfolded records_ok_def])
  show "records_ok (close_run r run oc now e)" if "records_ok e" "oget r (eg_runs e) = Some run" for r run oc now e
    using that by (auto simp: records_ok_def close_run_def push_effect_def effect_ok_def record_ok_finished split: if_splits)
qed (simp_all add: records_ok_def)

section \<open>Tokens are numbered afresh\<close>

definition tokens_ok :: "engine \<Rightarrow> bool" where
  "tokens_ok e \<longleftrightarrow> (\<forall>r run. oget r (eg_runs e) = Some run \<longrightarrow> fresh_tokens run)"

lemma tokens_ok_upd_run: "keeps_head f \<Longrightarrow> tokens_ok e \<Longrightarrow> tokens_ok (upd_run r f e)"
  by (auto simp: tokens_ok_def upd_run_def keeps_freshD split: if_splits)

lemma tokens_ok_ready: "tokens_ok (e\<lparr>eg_ready := q\<rparr>) = tokens_ok e"
  by (simp add: tokens_ok_def)

lemma tokens_ok_leave: "tokens_ok e \<Longrightarrow> tokens_ok (leave r n p e)"
  by (simp add: leave_def Let_def tokens_ok_ready tokens_ok_upd_run keeps split: option.split)

interpretation tokens_writes: write_invariant env tokens_ok for env
proof unfold_locales
  show "tokens_ok (upd_run r f e)" if "keeps_head f" "tokens_ok e" for f r e
    using that by (rule tokens_ok_upd_run)
  show "tokens_ok (open_step r t now e)" if "tokens_ok e" for r t now e
    using that by (auto simp: open_step_def Let_def tokens_ok_def upd_run_def upd_record_def fresh_tokens_def
        split: option.split if_splits)
qed (auto simp: tokens_ok_def cancel_hold_def set_hold_def upd_loaded_def push_effect_def schedule_def)

interpretation tokens_inv: run_invariant env tokens_ok for env
proof unfold_locales
  show "tokens_ok (snd (start_run env fid f now e))" if "tokens_ok e" for e fid f now
    using that
    by (auto simp: start_run_def Let_def split: option.split intro!: tokens_ok_leave)
      (auto simp: tokens_ok_def oget_oput new_run_def fresh_tokens_def split: if_splits)
qed (auto simp: tokens_ok_def close_run_def push_effect_def split: if_splits)

section \<open>A dry engine calls nothing\<close>

definition is_call :: "effect \<Rightarrow> bool" where
  "is_call x = (case x of ECall _ _ _ _ _ _ \<Rightarrow> True | _ \<Rightarrow> False)"

definition dry_ok :: "engine \<Rightarrow> bool" where
  "dry_ok e \<longleftrightarrow> eg_dry e \<and> (\<forall>x \<in> set (eg_effects e). \<not> is_call x)"

lemma dry_ok_leave: "dry_ok (leave r n p e) = dry_ok e"
  by (simp add: leave_def dry_ok_def upd_run_def Let_def split: option.split)

interpretation dry_writes: write_invariant env dry_ok for env
proof unfold_locales
  show "dry_ok (open_step r t now e)" if "dry_ok e" for r t now e
    using that by (simp add: open_step_def upd_run_def Let_def dry_ok_def split: option.split)
qed (auto simp: dry_ok_def upd_run_def cancel_hold_def set_hold_def upd_loaded_def push_effect_def schedule_def is_call_def)

interpretation dry_inv: run_invariant env dry_ok for env
proof unfold_locales
  show "dry_ok (snd (start_run env fid f now e))" if "dry_ok e" for e fid f now
    using that by (simp add: start_run_def Let_def dry_ok_leave split: option.split) (simp add: dry_ok_def)
qed (auto simp: dry_ok_def close_run_def push_effect_def is_call_def)

end
