(* ===== verification/EngineAlarms.thy ===== *)
theory EngineAlarms
  imports EngineSafe
begin

text \<open>
  Nothing waits without an alarm: a token that delays, or waits with a deadline, has a timer at
  that very moment, so \<open>advance\<close> can't pass it by.

  \<open>owed\<close> are the tokens whose timer is missing; every reached engine owes nothing.
\<close>

section \<open>What tokens are owed\<close>

definition alarm_of :: "token \<Rightarrow> int option" where
  "alarm_of tok = (case tk_doing tok of Delaying u \<Rightarrow> Some u | Waiting _ d _ _ \<Rightarrow> Some d | _ \<Rightarrow> None)"

definition owed :: "engine \<Rightarrow> (string \<times> nat \<times> int) set" where
  "owed e = {(r, t, u). (\<exists>tok. get_token r t e = Some tok \<and> alarm_of tok = Some u) \<and>
     (\<forall>k. (u, k, TmToken r t) \<notin> set (eg_timers e))}"

lemma owed_mono:
  assumes "\<And>r t tok u. get_token r t e' = Some tok \<Longrightarrow> alarm_of tok = Some u \<Longrightarrow>
      \<exists>tok0. get_token r t e = Some tok0 \<and> alarm_of tok0 = Some u"
    and "\<And>u k r t. (u, k, TmToken r t) \<in> set (eg_timers e) \<Longrightarrow> (u, k, TmToken r t) \<in> set (eg_timers e')"
  shows "owed e' \<subseteq> owed e"
  using assms by (fastforce simp: owed_def)

lemma get_token_upd_run:
  "get_token r t (upd_run i f e)
   = (if r = i then Option.bind (oget i (eg_runs e)) (\<lambda>run. oget t (rn_tokens (f run))) else get_token r t e)"
  by (cases "oget i (eg_runs e)") (simp_all add: get_token_def upd_run_def)

lemma owed_upd_run:
  assumes "\<And>run t tok u. oget t (rn_tokens (f run)) = Some tok \<Longrightarrow> alarm_of tok = Some u \<Longrightarrow>
      \<exists>tok0. oget t (rn_tokens run) = Some tok0 \<and> alarm_of tok0 = Some u"
  shows "owed (upd_run r f e) \<subseteq> owed e"
proof (rule owed_mono)
  fix i t tok u assume "get_token i t (upd_run r f e) = Some tok" "alarm_of tok = Some u"
  then show "\<exists>tok0. get_token i t e = Some tok0 \<and> alarm_of tok0 = Some u"
    using assms by (fastforce simp: get_token_upd_run get_token_Some split: if_splits Option.bind_splits)
qed (simp add: upd_run_def)

lemma tokens_run_with_step [simp]: "rn_tokens (run_with_step t f run) = rn_tokens run"
  by (simp add: run_with_step_def upd_record_def split: option.split)

lemma owed_with_step: "owed (with_step r t f e) \<subseteq> owed e"
  unfolding with_step_def by (rule owed_upd_run) simp

lemma owed_mark: "marks f \<Longrightarrow> owed (upd_run r f e) \<subseteq> owed e"
  by (rule owed_upd_run) (simp add: marks_def)

lemma spawned_alarm:
  "oget t (rn_tokens (fold spawn ws run)) = Some tok \<Longrightarrow> alarm_of tok = Some u \<Longrightarrow> oget t (rn_tokens run) = Some tok"
proof (induction ws arbitrary: run)
  case (Cons w ws)
  then have "oget t (rn_tokens (spawn w run)) = Some tok" by simp
  with Cons.prems(2) show ?case
    by (auto simp: spawn_def oget_oput alarm_of_def split: if_splits)
qed simp

lemma owed_cong: "eg_runs e' = eg_runs e \<Longrightarrow> eg_timers e' = eg_timers e \<Longrightarrow> owed e' = owed e"
  by (simp add: owed_def get_token_def)

lemma owed_leave: "owed (leave r n p e) \<subseteq> owed e"
proof -
  have "marks (add_ending n (Some p))" by (simp add: marked)
  then have "owed (upd_run r (add_ending n (Some p)) e) \<subseteq> owed e" by (rule owed_mark)
  moreover have "owed ((upd_run r (fold spawn ws) e)\<lparr>eg_ready := q\<rparr>) \<subseteq> owed e" for ws q
  proof -
    have "owed (upd_run r (fold spawn ws) e) \<subseteq> owed e"
      by (rule owed_upd_run) (use spawned_alarm in blast)
    moreover have "owed ((upd_run r (fold spawn ws) e)\<lparr>eg_ready := q\<rparr>) = owed (upd_run r (fold spawn ws) e)"
      by (rule owed_cong) simp_all
    ultimately show ?thesis by simp
  qed
  ultimately show ?thesis
    by (simp add: leave_def Let_def split: option.split)
qed

lemma owed_remove: "owed (remove_token r t e) \<subseteq> owed e" "(r, t, u) \<notin> owed (remove_token r t e)"
proof -
  show "owed (remove_token r t e) \<subseteq> owed e"
    unfolding remove_token_def by (rule owed_upd_run) (auto split: if_splits)
  show "(r, t, u) \<notin> owed (remove_token r t e)"
    by (auto simp: owed_def remove_token_def get_token_upd_run split: Option.bind_splits)
qed

lemma owed_set_untimed: "untimed d \<Longrightarrow> owed (set_doing r t d e) \<subseteq> owed e"
  unfolding set_doing_def upd_token_def
  by (rule owed_upd_run) (auto simp: alarm_of_def untimed_def split: if_splits doing.splits)

lemma owed_set_timed:
  assumes "\<And>tok. alarm_of (tok\<lparr>tk_doing := d\<rparr>) = Some u"
  shows "owed (set_doing r t d e) \<subseteq> insert (r, t, u) (owed e)"
  using assms
  by (auto simp: owed_def set_doing_def upd_token_def get_token_upd_run get_token_Some upd_run_def
      split: if_splits Option.bind_splits)

lemma owed_set_same:
  assumes "get_token r t e = Some tok" "alarm_of tok = Some u" "\<And>tok. alarm_of (tok\<lparr>tk_doing := d\<rparr>) = Some u"
  shows "owed (set_doing r t d e) \<subseteq> owed e"
  using assms
  by (auto simp: owed_def set_doing_def upd_token_def get_token_upd_run get_token_Some upd_run_def
      split: if_splits Option.bind_splits)

lemma set_timer_insert': "set (timer_insert x ts) = insert x (set ts)"
  by (induction ts) auto

lemma owed_schedule: "owed (schedule u tm e) \<subseteq> owed e"
  by (rule owed_mono) (auto simp: schedule_def get_token_def set_timer_insert')

lemma owed_schedule_token: "owed (schedule u (TmToken r t) e) \<subseteq> owed e - {(r, t, u)}"
proof -
  have "(r, t, u) \<notin> owed (schedule u (TmToken r t) e)"
    by (auto simp: owed_def schedule_def set_timer_insert')
  with owed_schedule[of u "TmToken r t" e] show ?thesis by blast
qed

lemma owed_pass: "owed (pass_token r t p now e) \<subseteq> owed e" "(r, t, u) \<notin> owed (pass_token r t p now e)"
proof -
  let ?e = "with_step r t (\<lambda>s. s\<lparr>rs_finished_at := Some now, rs_port := Some p\<rparr>) e"
  have *: "owed ?e \<subseteq> owed e" by (rule owed_with_step)
  have "owed (pass_token r t p now e) \<subseteq> owed e \<and> (r, t, u) \<notin> owed (pass_token r t p now e)"
  proof (cases "get_token r t ?e")
    case None
    then have "(r, t, u) \<notin> owed ?e" by (simp add: owed_def)
    with None * show ?thesis by (simp add: pass_token_def Let_def)
  next
    case (Some tok)
    with * owed_leave[of r "tk_node tok" p "remove_token r t ?e"] owed_remove[where r = r and t = t and e = ?e]
    show ?thesis by (simp add: pass_token_def Let_def) blast
  qed
  then show "owed (pass_token r t p now e) \<subseteq> owed e" "(r, t, u) \<notin> owed (pass_token r t p now e)" by simp_all
qed

section \<open>Every reached engine owes nothing\<close>

definition alarms_ok :: "engine \<Rightarrow> bool" where
  "alarms_ok e \<longleftrightarrow> owed e = {}"

lemma alarms_ok_mono: "alarms_ok e \<Longrightarrow> owed e' \<subseteq> owed e \<Longrightarrow> alarms_ok e'"
  by (simp add: alarms_ok_def)

lemma alarms_ok_cong: "alarms_ok e \<Longrightarrow> eg_runs e' = eg_runs e \<Longrightarrow> eg_timers e' = eg_timers e \<Longrightarrow> alarms_ok e'"
  unfolding alarms_ok_def using owed_cong[of e' e] by simp

lemma alarms_ok_pass: "alarms_ok e \<Longrightarrow> alarms_ok (pass_token r t p now e)"
  by (erule alarms_ok_mono) (rule owed_pass)

lemma alarms_ok_with_step: "alarms_ok e \<Longrightarrow> alarms_ok (with_step r t f e)"
  by (erule alarms_ok_mono) (rule owed_with_step)

lemma get_token_with_step [simp]: "get_token r t (with_step i j f e) = get_token r t e"
  by (cases "r = i") (simp_all add: with_step_def get_token_upd_run, simp add: get_token_def)

lemma alarms_ok_check_wait: "alarms_ok e \<Longrightarrow> alarms_ok (check_wait env r t now e)"
proof -
  assume ok: "alarms_ok e"
  have hold: "alarms_ok (set_doing r t (Waiting s d h w) (with_step r t f e))"
    if "get_token r t e = Some tok" "tk_doing tok = Waiting s d h0 w0" for s d h w f tok h0 w0
    by (rule alarms_ok_mono[OF ok], rule subset_trans[OF owed_set_same[of r t _ tok d] owed_with_step])
      (use that in \<open>simp_all add: alarm_of_def\<close>)
  have sched: "alarms_ok e' \<Longrightarrow> alarms_ok (schedule u tm e')" for u tm e'
    by (erule alarms_ok_mono) (rule owed_schedule)
  show ?thesis
  proof (cases "\<exists>run tok until tmo s d hs w. oget r (eg_runs e) = Some run \<and> oget t (rn_tokens run) = Some tok
      \<and> oget (tk_node tok) (fl_nodes (rn_flow run)) = Some (NWait until tmo) \<and> tk_doing tok = Waiting s d hs w")
    case True
    then obtain run tok until tmo s d hs w where *: "oget r (eg_runs e) = Some run" "oget t (rn_tokens run) = Some tok"
        "oget (tk_node tok) (fl_nodes (rn_flow run)) = Some (NWait until tmo)" "tk_doing tok = Waiting s d hs w"
      by blast
    then have "get_token r t e = Some tok" by (simp add: get_token_def)
    note hold' = hold[OF this *(4)]
    show ?thesis
      by (simp add: check_wait_def Let_def * ok hold' alarms_ok_pass alarms_ok_with_step sched
          split: option.split prod.split)
  next
    case False
    with ok show ?thesis
      by (auto simp: check_wait_def split: option.split node.split doing.split)
  qed
qed

lemma alarms_ok_step_delay: "alarms_ok e \<Longrightarrow> alarms_ok (step_delay env h r t now e)"
proof -
  assume ok: "alarms_ok e"
  let ?u = "plus_ms env now (dur_millis h)"
  have "owed (with_step r t f (set_doing r t (Delaying ?u) e)) \<subseteq> {(r, t, ?u)}" for f
    using owed_with_step[of r t f "set_doing r t (Delaying ?u) e"] owed_set_timed[of "Delaying ?u" ?u r t e] ok
    by (auto simp: alarms_ok_def alarm_of_def)
  then show ?thesis
    using owed_schedule_token by (fastforce simp: step_delay_def Let_def alarms_ok_def)
qed

lemma alarms_ok_step_wait: "alarms_ok e \<Longrightarrow> alarms_ok (step_wait env tmo r t now e)"
proof -
  assume ok: "alarms_ok e"
  let ?u = "plus_ms env now (dur_millis tmo)"
  have "owed (set_doing r t (Waiting now ?u None []) e) \<subseteq> {(r, t, ?u)}"
    using owed_set_timed[of "Waiting now ?u None []" ?u r t e] ok by (auto simp: alarms_ok_def alarm_of_def)
  then have "alarms_ok (schedule ?u (TmToken r t) (set_doing r t (Waiting now ?u None []) e))"
    using owed_schedule_token by (fastforce simp: alarms_ok_def)
  then show ?thesis
    unfolding step_wait_def Let_def by (rule alarms_ok_check_wait)
qed

lemma alarms_ok_pop_token:
  assumes "alarms_ok e" "eg_timers e = (ts, k, TmToken r t) # rest"
  shows "alarms_ok (timer_token env r t ts (e\<lparr>eg_timers := rest\<rparr>))"
proof -
  let ?e = "e\<lparr>eg_timers := rest\<rparr>"
  have gone: "owed ?e \<subseteq> {(r, t, ts)}"
  proof
    fix x assume "x \<in> owed ?e"
    then obtain i j u tok where x: "x = (i, j, u)" "get_token i j e = Some tok" "alarm_of tok = Some u"
        "\<forall>k. (u, k, TmToken i j) \<notin> set rest"
      by (auto simp: owed_def get_token_def)
    from assms(1) have "(i, j, u) \<notin> owed e" by (simp add: alarms_ok_def)
    with x assms(2) show "x \<in> {(r, t, ts)}" by (auto simp: owed_def)
  qed
  show ?thesis
  proof (cases "get_token r t ?e")
    case None
    then have "(r, t, ts) \<notin> owed ?e" by (simp add: owed_def)
    with gone have "alarms_ok ?e" by (auto simp: alarms_ok_def)
    with None show ?thesis by (auto simp: timer_token_def get_token_def split: option.split)
  next
    case (Some tok)
    have at_once: "alarms_ok (pass_token r t p ts (with_step r t f ?e))" "alarms_ok (pass_token r t p ts ?e)" for p f
      using gone owed_with_step[of r t f ?e]
        owed_pass(1)[of r t p ts "with_step r t f ?e"] owed_pass(2)[of r t ts p ts "with_step r t f ?e"]
        owed_pass(1)[of r t p ts ?e] owed_pass(2)[of r t ts p ts ?e]
      unfolding alarms_ok_def by blast+
    have other: "alarms_ok ?e" if "alarm_of tok \<noteq> Some ts"
    proof -
      have "(r, t, ts) \<notin> owed ?e" using that Some by (simp add: owed_def)
      with gone show ?thesis by (auto simp: alarms_ok_def)
    qed
    show ?thesis
      using Some at_once other
      by (auto simp: timer_token_def get_token_Some alarm_of_def alarms_ok_check_wait split: doing.split)
  qed
qed

lemma alarms_ok_open: "alarms_ok e \<Longrightarrow> alarms_ok (open_step r t now e)"
  by (auto simp: open_step_def Let_def alarm_of_def upd_record_def split: option.split if_splits
      elim!: alarms_ok_mono intro!: subset_refl owed_upd_run)

lemma get_token_odel: "get_token i t (e\<lparr>eg_runs := odel r m\<rparr>) = (if i = r then None else Option.bind (oget i m) (\<lambda>run. oget t (rn_tokens run)))"
  by (simp add: get_token_def)

lemma alarms_ok_start_run: "alarms_ok e \<Longrightarrow> alarms_ok (snd (start_run env fid f now e))"
proof -
  assume ok: "alarms_ok e"
  have "alarms_ok (e\<lparr>eg_ids := n, eg_runs := oput r (new_run l fid r f now) (eg_runs e)\<rparr>)" for n r l
    using ok by (auto simp: alarms_ok_def owed_def get_token_def oget_oput new_run_def split: if_splits)
  then show ?thesis
    using ok alarms_ok_cong[OF ok, of "e\<lparr>eg_ids := Suc (eg_ids e)\<rparr>"]
    by (simp add: start_run_def Let_def alarms_ok_mono[OF _ owed_leave] split: option.split)
qed

lemma alarms_ok_close: "alarms_ok e \<Longrightarrow> alarms_ok (close_run r run oc now e)"
  by (erule alarms_ok_mono, rule owed_mono)
    (auto simp: close_run_def push_effect_def get_token_def split: if_splits)

interpretation alarms_inv: run_invariant env alarms_ok for env
proof unfold_locales
  show "alarms_ok (e\<lparr>eg_timers := rest\<rparr>)"
    if "alarms_ok e" "eg_timers e = (ts, k, tm) # rest" "\<not> of_wait tm" for e :: engine and ts k tm rest
    using that(1) by (rule alarms_ok_mono, intro owed_mono) (use that in \<open>auto simp: get_token_def\<close>)
  show "alarms_ok (e\<lparr>eg_timers := rest\<rparr>)"
    if "alarms_ok e" "eg_timers e = (ts, k, TmHold fid node) # rest" for e :: engine and ts k fid node rest
    using that(1) by (rule alarms_ok_mono, intro owed_mono) (use that in \<open>auto simp: get_token_def\<close>)
  show "alarms_ok (schedule until (TmHold fid node) (set_hold fid node until e))" if "alarms_ok e" for e fid node until
    by (rule alarms_ok_mono[OF _ owed_schedule], rule alarms_ok_cong[OF that])
      (simp_all add: set_hold_def upd_loaded_def)
  show "alarms_ok (e\<lparr>eg_timers := filter (\<lambda>(_, _, tm). \<not> is_clock tm) (eg_timers e)\<rparr>)" if "alarms_ok e" for e :: engine
    using that by (rule alarms_ok_mono, intro owed_mono) (auto simp: is_clock_def get_token_def)
  show "alarms_ok (remove_token r t e)" if "alarms_ok e" for r t e
    using that by (rule alarms_ok_mono) (rule owed_remove)
qed (simp_all add: alarms_ok_with_step alarms_ok_check_wait alarms_ok_step_delay alarms_ok_step_wait
    alarms_ok_pop_token alarms_ok_open alarms_ok_start_run alarms_ok_close
    alarms_ok_mono[OF _ owed_set_untimed] alarms_ok_mono[OF _ owed_leave] alarms_ok_mono[OF _ owed_mark]
    alarms_ok_mono[OF _ owed_schedule],
   (erule alarms_ok_cong, simp_all add: push_effect_def cancel_hold_def set_hold_def upd_loaded_def)+)

end
