(* ===== verification/EngineHolds.thy ===== *)
theory EngineHolds
  imports EngineAlarms
begin

text \<open>
  A trigger that has begun to hold has a timer for the moment its time is up, so a hold is never
  forgotten: \<open>unheld\<close> are the holds whose timer is missing, and every reached engine has none.
\<close>

definition unheld :: "engine \<Rightarrow> (string \<times> string \<times> int) set" where
  "unheld e = {(fid, node, u). (\<exists>l. oget fid (eg_flows e) = Some l \<and> oget node (ld_holds l) = Some u) \<and>
     (\<forall>k. (u, k, TmHold fid node) \<notin> set (eg_timers e))}"

definition holds_ok :: "engine \<Rightarrow> bool" where
  "holds_ok e \<longleftrightarrow> unheld e = {}"

lemma holds_okD:
  "holds_ok e \<Longrightarrow> oget fid (eg_flows e) = Some l \<Longrightarrow> oget node (ld_holds l) = Some u
   \<Longrightarrow> \<exists>k. (u, k, TmHold fid node) \<in> set (eg_timers e)"
  unfolding holds_ok_def unheld_def by blast

lemma holds_ok_mono:
  assumes "holds_ok e"
    and "\<And>fid l node u. oget fid (eg_flows e') = Some l \<Longrightarrow> oget node (ld_holds l) = Some u \<Longrightarrow>
      \<exists>l0. oget fid (eg_flows e) = Some l0 \<and> oget node (ld_holds l0) = Some u"
    and "\<And>u k fid node. (u, k, TmHold fid node) \<in> set (eg_timers e) \<Longrightarrow> (u, k, TmHold fid node) \<in> set (eg_timers e')"
  shows "holds_ok e'"
  using assms(1) unfolding holds_ok_def unheld_def by clarsimp (metis assms(2,3))

lemma holds_ok_still:
  "holds_ok e \<Longrightarrow> eg_flows e' = eg_flows e \<Longrightarrow> trigger_timers e' = trigger_timers e \<Longrightarrow> holds_ok e'"
proof (erule holds_ok_mono)
  fix u k fid node assume "trigger_timers e' = trigger_timers e" "(u, k, TmHold fid node) \<in> set (eg_timers e)"
  then have "(u, k, TmHold fid node) \<in> set (trigger_timers e')" by (simp add: trigger_timers_def)
  then show "(u, k, TmHold fid node) \<in> set (eg_timers e')" by (simp add: trigger_timers_def)
qed simp

lemma holds_ok_upd_run: "holds_ok e \<Longrightarrow> holds_ok (upd_run r f e)"
  by (erule holds_ok_still) (simp_all add: upd_run_def trigger_timers_def)

lemma holds_ok_loaded:
  assumes "holds_ok e" "\<And>l node u. oget node (ld_holds (f l)) = Some u \<Longrightarrow> oget node (ld_holds l) = Some u"
  shows "holds_ok (upd_loaded fid f e)"
  using assms(1) by (rule holds_ok_mono) (auto simp: upd_loaded_def split: if_splits dest: assms(2))

lemma holds_ok_schedule: "holds_ok e \<Longrightarrow> holds_ok (schedule ts tm e)"
  by (erule holds_ok_mono) (auto simp: schedule_def set_timer_insert')

lemma holds_ok_cancel: "holds_ok e \<Longrightarrow> holds_ok (cancel_hold fid node e)"
  unfolding cancel_hold_def by (erule holds_ok_loaded) (auto split: if_splits)

lemma holds_ok_start_hold: "holds_ok e \<Longrightarrow> holds_ok (schedule u (TmHold fid node) (set_hold fid node u e))"
  by (auto simp: holds_ok_def unheld_def schedule_def set_timer_insert' set_hold_def upd_loaded_def oget_oput
      split: if_splits) blast+

lemma holds_ok_start_run: "holds_ok e \<Longrightarrow> holds_ok (snd (start_run env fid f now e))"
  by (erule holds_ok_still) (simp_all add: flows_start_run trigger_timers_start_run)

lemma holds_ok_close: "holds_ok e \<Longrightarrow> holds_ok (close_run r run oc now e)"
  by (erule holds_ok_still) (simp_all add: close_run_def push_effect_def trigger_timers_def)

lemma holds_ok_queue: "holds_ok e \<Longrightarrow> holds_ok (upd_loaded fid (\<lambda>l. l\<lparr>ld_queue := q l\<rparr>) e)"
  by (erule holds_ok_loaded) simp

lemma holds_ok_finish: "holds_ok e \<Longrightarrow> holds_ok (finish env r oc now e)"
  by (simp add: finish_def Let_def next_turn_def holds_ok_close holds_ok_start_run holds_ok_queue
      split: option.split list.split)

lemma holds_ok_finish_all: "holds_ok e \<Longrightarrow> holds_ok (fold (\<lambda>r. finish env r oc now) rs e)"
  by (induction rs arbitrary: e) (simp_all add: holds_ok_finish)

lemma holds_ok_miss: "holds_ok e \<Longrightarrow> holds_ok (push_effect x e)"
  by (erule holds_ok_still) (simp_all add: push_effect_def trigger_timers_def)

lemma holds_ok_fire: "holds_ok e \<Longrightarrow> holds_ok (snd (fire_now env fid f now e))"
  by (simp add: fire_now_def Let_def case_prod_beta drop_firing_def near_miss_at_def holds_ok_start_run
      holds_ok_finish_all holds_ok_miss holds_ok_queue
      split: option.split mode.split named_mode.split limited_mode.split)

text \<open>A hold whose timer goes off is up, and gone.\<close>

lemma holds_ok_pop_hold:
  assumes "holds_ok e" "eg_timers e = (ts, k, TmHold fid node) # rest"
  shows "holds_ok (timer_hold env fid node ts (e\<lparr>eg_timers := rest\<rparr>))"
proof -
  let ?e = "e\<lparr>eg_timers := rest\<rparr>"
  have gone: "unheld ?e \<subseteq> {(fid, node, ts)}"
  proof
    fix x assume "x \<in> unheld ?e"
    then obtain i n u l where x: "x = (i, n, u)" "oget i (eg_flows e) = Some l" "oget n (ld_holds l) = Some u"
        "\<forall>k. (u, k, TmHold i n) \<notin> set rest"
      by (auto simp: unheld_def)
    from holds_okD[OF assms(1) x(2,3)] x(1,4) assms(2) show "x \<in> {(fid, node, ts)}" by auto
  qed
  have cancelled: "holds_ok (cancel_hold fid node ?e)"
  proof -
    have "unheld (cancel_hold fid node ?e) \<subseteq> unheld ?e" "(fid, node, ts) \<notin> unheld (cancel_hold fid node ?e)"
      by (auto simp: unheld_def cancel_hold_def upd_loaded_def split: if_splits)
    with gone show ?thesis unfolding holds_ok_def by blast
  qed
  have kept: "holds_ok ?e" if "Option.bind (oget fid (eg_flows e)) (\<lambda>l. oget node (ld_holds l)) \<noteq> Some ts"
  proof -
    have "(fid, node, ts) \<notin> unheld ?e" using that by (auto simp: unheld_def)
    with gone show ?thesis unfolding holds_ok_def by blast
  qed
  show ?thesis
    using kept cancelled
    by (auto simp: timer_hold_def Let_def holds_ok_fire split: option.split node.split trigger.split)
qed

text \<open>Setting the flows: a flow keeps its holds or has none.\<close>

definition held_in :: "(int \<times> nat \<times> timer) list \<Rightarrow> (string, loaded) omap \<Rightarrow> bool" where
  "held_in ts m \<longleftrightarrow> (\<forall>fid l node u. oget fid m = Some l \<longrightarrow> oget node (ld_holds l) = Some u
     \<longrightarrow> (\<exists>k. (u, k, TmHold fid node) \<in> set ts))"

lemma holds_ok_held: "holds_ok e \<longleftrightarrow> held_in (trigger_timers e) (eg_flows e)"
proof -
  have "(u, k, TmHold fid node) \<in> set (trigger_timers e) \<longleftrightarrow> (u, k, TmHold fid node) \<in> set (eg_timers e)" for u k fid node
    by (simp add: trigger_timers_def)
  then show ?thesis unfolding holds_ok_def unheld_def held_in_def by blast
qed

lemma held_in_odel: "held_in ts m \<Longrightarrow> held_in ts (odel fid m)"
  by (auto simp: held_in_def)

lemma held_in_oput: "held_in ts m \<Longrightarrow> held_in ts [(fid, l)] \<Longrightarrow> held_in ts (oput fid l m)"
  by (fastforce simp: held_in_def oget_oput split: if_splits)

lemma held_in_one: "held_in ts m \<Longrightarrow> oget fid m = Some l0 \<Longrightarrow> ld_holds l = ld_holds l0 \<Longrightarrow> held_in ts [(fid, l)]"
  by (fastforce simp: held_in_def split: if_splits)

lemma flows_finish_holds:
  "held_in ts (eg_flows e) \<Longrightarrow> held_in ts (eg_flows (finish env r oc now e))"
proof -
  assume h: "held_in ts (eg_flows e)"
  have "held_in ts (eg_flows (upd_loaded fid (\<lambda>l. l\<lparr>ld_queue := q\<rparr>) (close_run r run oc now e)))" for fid q run
    using h by (fastforce simp: held_in_def upd_loaded_def split: if_splits)
  with h show ?thesis
    by (simp add: finish_def Let_def next_turn_def flows_start_run split: option.split list.split)
qed

lemma abort_flow_holds:
  "held_in ts (eg_flows e) \<Longrightarrow> held_in ts (eg_flows (abort_flow env fid a now e))"
  "trigger_timers (abort_flow env fid a now e) = trigger_timers e"
proof -
  have fold: "held_in ts (eg_flows e) \<Longrightarrow> held_in ts (eg_flows (fold (\<lambda>r. finish env r oc now) rs e))"
    "trigger_timers (fold (\<lambda>r. finish env r oc now) rs e) = trigger_timers e" for oc rs e
    by (induction rs arbitrary: e) (simp_all add: flows_finish_holds trigger_timers_finish)
  show "held_in ts (eg_flows e) \<Longrightarrow> held_in ts (eg_flows (abort_flow env fid a now e))"
    unfolding abort_flow_def
    by (drule fold(1)) (fastforce simp: held_in_def upd_loaded_def split: if_splits)
  show "trigger_timers (abort_flow env fid a now e) = trigger_timers e"
    unfolding abort_flow_def by (simp add: trigger_timers_upd_loaded fold(2))
qed

lemma set_flow_holds:
  assumes "held_in ts (fst s)" "held_in ts (eg_flows (snd s))"
  shows "held_in ts (fst (set_flow env now a s)) \<and> held_in ts (eg_flows (snd (set_flow env now a s))) \<and>
    trigger_timers (snd (set_flow env now a s)) = trigger_timers (snd s)"
proof -
  obtain nxt e where s: "s = (nxt, e)" by (cases s)
  have h: "held_in ts nxt" "held_in ts (eg_flows e)" using assms by (simp_all add: s)
  have none: "held_in ts [(fid, l)]" if "ld_holds l = []" for fid l
    using that by (auto simp: held_in_def split: if_splits)
  have gone: "held_in ts (eg_flows (e\<lparr>eg_flows := odel fid (eg_flows e)\<rparr>))" for fid
    using h by (simp add: held_in_odel)
  have timers: "trigger_timers (e\<lparr>eg_flows := m\<rparr>) = trigger_timers e" for m
    by (simp add: trigger_timers_def)
  show ?thesis
    using h gone
    by (auto simp: s set_flow_def Let_def abort_flow_holds timers none
        split: option.split Option.bind_splits if_splits intro!: held_in_oput intro: held_in_one held_in_odel)
qed

lemma holds_ok_swap:
  assumes "holds_ok e"
  shows "holds_ok (swap_flows env now arms e)"
proof -
  have 1: "held_in ts (fst s) \<Longrightarrow> held_in ts (eg_flows (snd s)) \<Longrightarrow> held_in ts (fst (fold (set_flow env now) arms s)) \<and>
      trigger_timers (snd (fold (set_flow env now) arms s)) = trigger_timers (snd s)" for ts s
    by (induction arms arbitrary: s) (use set_flow_holds in fastforce)+
  have 2: "trigger_timers (fold (\<lambda>fid. abort_flow env fid AbRemoved now) fids e) = trigger_timers e" for fids e
    by (induction fids arbitrary: e) (simp_all add: abort_flow_holds)
  have "held_in (trigger_timers e) (fst ([], e))" by (simp add: held_in_def)
  from 1[OF this] assms show ?thesis
    by (auto simp: holds_ok_held swap_flows_def case_prod_beta 2 trigger_timers_def [of "_\<lparr>eg_flows := _\<rparr>"]
        simp flip: trigger_timers_def)
qed

interpretation holds_inv: engine_invariant env holds_ok for env
proof unfold_locales
  show "holds_ok (set_doing r t d e)" if "holds_ok e" for r t d e
    using that by (simp add: set_doing_def upd_token_def holds_ok_upd_run)
  show "holds_ok (check_wait env r t now e)" if "holds_ok e" for r t now e
    using that by (rule holds_ok_still) (rule stillD(1)[OF still_frame.obs_check_wait], rule timers_frame.obs_check_wait)
  show "holds_ok (step_delay env h r t now e)" if "holds_ok e" for h r t now e
    using that by (rule holds_ok_still) (rule stillD(1)[OF still_frame.obs_step_delay], rule timers_frame.obs_step_delay)
  show "holds_ok (step_wait env tmo r t now e)" if "holds_ok e" for tmo r t now e
    using that by (rule holds_ok_still) (rule stillD(1)[OF still_frame.obs_step_wait], rule timers_frame.obs_step_wait)
  show "holds_ok (leave r n p e)" if "holds_ok e" for r n p e
    using that by (rule holds_ok_still) (rule flows_leave, rule timers_frame.obs_leave)
  show "holds_ok (open_step r t now e)" if "holds_ok e" for r t now e
    using that by (simp add: open_step_def Let_def holds_ok_upd_run split: option.split)
  show "holds_ok (e\<lparr>eg_timers := rest\<rparr>)"
    if "holds_ok e" "eg_timers e = (ts, k, tm) # rest" "\<not> of_wait tm" for e :: engine and ts k tm rest
    using that(1) by (rule holds_ok_mono) (use that in auto)
  show "holds_ok (timer_token env r t ts (e\<lparr>eg_timers := rest\<rparr>))"
    if "holds_ok e" "eg_timers e = (ts, k, TmToken r t) # rest" for e :: engine and ts k r t rest
  proof -
    have "holds_ok (e\<lparr>eg_timers := rest\<rparr>)"
      using that(1) by (rule holds_ok_mono) (use that in auto)
    then show ?thesis
      by (rule holds_ok_still)
        (rule stillD(1)[OF still_frame.obs_timer_token], rule timers_frame.obs_timer_token)
  qed
  show "holds_ok (e\<lparr>eg_timers := filter (\<lambda>(_, _, tm). \<not> is_clock tm) (eg_timers e)\<rparr>)" if "holds_ok e" for e :: engine
    using that by (rule holds_ok_mono) (auto simp: is_clock_def)
qed (simp_all add: with_step_def remove_token_def holds_ok_upd_run holds_ok_miss holds_ok_schedule holds_ok_cancel
    holds_ok_start_hold holds_ok_finish holds_ok_fire holds_ok_pop_hold holds_ok_swap,
   (erule holds_ok_still, simp_all add: trigger_timers_def)+)

end
