(* ===== verification/EngineLimits.thy ===== *)
theory EngineLimits
  imports EngineInv
begin

text \<open>
  A flow's mode bounds its runs: \<open>limits_ok\<close> says no loaded flow has more runs going, or more
  firings waiting, than its mode allows, and every reached engine keeps it.

  A flow that is set again with the version it had keeps its runs and its queue, so the bound
  needs the version to settle the mode (\<open>versions_fix_mode\<close>): \<open>Flow::version\<close> is a hash of the
  whole definition.
\<close>

definition run_limit :: "mode \<Rightarrow> nat" where
  "run_limit m = (case m of Limited (Parallel mx) \<Rightarrow> mx | _ \<Rightarrow> 1)"

definition queue_limit :: "mode \<Rightarrow> nat" where
  "queue_limit m = (case m of Limited (Queued mx) \<Rightarrow> mx | _ \<Rightarrow> 0)"

definition versions_fix_mode :: "env \<Rightarrow> bool" where
  "versions_fix_mode env \<longleftrightarrow> (\<forall>f g. ev_version env f = ev_version env g \<longrightarrow> fl_mode f = fl_mode g)"

definition loaded_ok :: "env \<Rightarrow> engine \<Rightarrow> string \<Rightarrow> loaded \<Rightarrow> bool" where
  "loaded_ok env e fid l \<longleftrightarrow>
     ld_version l = ev_version env (ld_flow l) \<and>
     running fid e \<le> run_limit (fl_mode (ld_flow l)) \<and>
     length (ld_queue l) \<le> queue_limit (fl_mode (ld_flow l))"

definition limits_ok :: "env \<Rightarrow> engine \<Rightarrow> bool" where
  "limits_ok env e \<longleftrightarrow> omap_ok (eg_runs e) \<and>
     (\<forall>fid l. oget fid (eg_flows e) = Some l \<longrightarrow> loaded_ok env e fid l)"

section \<open>Counting the runs of a flow\<close>

lemma running_entries: "running fid e = length (filter (\<lambda>p. rr_flow_id (rn_record (snd p)) = fid) (eg_runs e))"
  by (simp add: running_def ovals_def filter_map o_def)

lemma running_runs_of: "running fid e = length (runs_of fid e)"
  by (auto simp: running_entries runs_of_def intro!: arg_cong[where f = length] filter_cong)

lemma runs_of_iff:
  "omap_ok (eg_runs e) \<Longrightarrow> r \<in> set (runs_of fid e)
     \<longleftrightarrow> (\<exists>run. oget r (eg_runs e) = Some run \<and> rr_flow_id (rn_record run) = fid)"
  by (force simp: runs_of_def oget_eq_Some)

lemma running_heads: "running fid e = length (filter (\<lambda>(_, _, rec). rr_flow_id rec = fid) (heads e))"
  by (simp add: running_entries heads_def filter_map o_def case_prod_beta head_of_def)

lemma running_cong: "eg_runs e = eg_runs e' \<Longrightarrow> running fid e = running fid e'"
  by (simp add: running_def)

lemma running_upd_run: "keeps_head f \<Longrightarrow> running fid (upd_run r f e) = running fid e"
  by (simp add: running_heads heads_upd_run)

lemma running_leave: "running fid (leave r n p e) = running fid e"
  by (simp add: running_heads heads_frame.obs_leave)

lemma running_open_step: "running fid (open_step r t now e) = running fid e"
proof -
  have "length (filter (\<lambda>p. rr_flow_id (rn_record (snd p)) = fid) (omod r f m))
      = length (filter (\<lambda>p. rr_flow_id (rn_record (snd p)) = fid) m)"
    if "\<And>run. rr_flow_id (rn_record (f run)) = rr_flow_id (rn_record run)" for f m
    using that by (induction m) (auto simp: omod_def)
  note count = this
  show ?thesis
    by (simp add: open_step_def upd_run_def running_entries Let_def upd_record_def split: option.split)
      (intro allI impI count, simp)
qed

lemma omap_runs_leave: "omap_ok (eg_runs (leave r n p e)) = omap_ok (eg_runs e)"
  by (simp add: leave_def upd_run_def Let_def split: option.split)

lemma running_start_run:
  assumes "omap_ok (eg_runs e)"
  shows "running fid (snd (start_run env fid' f now e)) \<le> running fid e + (if fid = fid' then 1 else 0)"
    and "omap_ok (eg_runs (snd (start_run env fid' f now e)))"
proof -
  have "running fid (e\<lparr>eg_ids := k, eg_runs := oput r (new_run l fid' r f now) (eg_runs e)\<rparr>)
      \<le> running fid e + (if fid = fid' then 1 else 0)" for k r l
    using om.count_put_le[OF assms, of "\<lambda>_ run. rr_flow_id (rn_record run) = fid" r "new_run l fid' r f now"]
      om.count_put_other[OF assms, of "\<lambda>_ run. rr_flow_id (rn_record run) = fid" r "new_run l fid' r f now"]
    by (cases "fid = fid'") (simp_all add: running_entries new_run_def)
  moreover have "running fid (e\<lparr>eg_ids := k\<rparr>) = running fid e" for k
    by (simp add: running_def)
  ultimately show "running fid (snd (start_run env fid' f now e)) \<le> running fid e + (if fid = fid' then 1 else 0)"
    by (cases "fid = fid'") (auto simp: start_run_def Let_def running_leave split: option.split)
  show "omap_ok (eg_runs (snd (start_run env fid' f now e)))"
    using assms by (simp add: start_run_def Let_def omap_runs_leave omap_ok_oput split: option.split)
qed

lemma runs_close_run [simp]: "eg_runs (close_run r run oc now e) = odel r (eg_runs e)"
  by (simp add: close_run_def push_effect_def)

lemma running_odel:
  assumes "omap_ok (eg_runs e)" "eg_runs e' = odel r (eg_runs e)"
  shows "running fid e' \<le> running fid e"
  using om.count_del_le[OF assms(1), of "\<lambda>_ run. rr_flow_id (rn_record run) = fid" r] assms(2)
  by (simp add: running_entries)

lemma running_odel_less:
  assumes "omap_ok (eg_runs e)" "eg_runs e' = odel r (eg_runs e)" "oget r (eg_runs e) = Some run"
  shows "running (rr_flow_id (rn_record run)) e' < running (rr_flow_id (rn_record run)) e"
  using om.count_del_less[OF assms(1,3), of "\<lambda>_ x. rr_flow_id (rn_record x) = rr_flow_id (rn_record run)"] assms(2)
  by (simp add: running_entries)

section \<open>Runs cut short from outside\<close>

lemma odel_missing: "oget r m = None \<Longrightarrow> odel r m = m"
  by (auto simp: odel_def oget_None_iff okeys_def filter_id_conv)

text \<open>Ending a run starts no other: the outcome leaves the queue, or the queue is empty.\<close>

definition quiet :: "run_outcome \<Rightarrow> engine \<Rightarrow> string \<Rightarrow> bool" where
  "quiet oc e r \<longleftrightarrow> leaves_queue oc \<or>
     (\<forall>run l. oget r (eg_runs e) = Some run \<longrightarrow> oget (rr_flow_id (rn_record run)) (eg_flows e) = Some l
        \<longrightarrow> ld_queue l = [])"

lemma finish_cut:
  assumes "quiet oc e r"
  shows "eg_runs (finish env r (Some oc) now e) = odel r (eg_runs e)"
    and "eg_flows (finish env r (Some oc) now e) = eg_flows e"
  using assms by (auto simp: quiet_def finish_def next_turn_def Let_def odel_missing split: option.split)

lemma finish_cut_all:
  assumes "\<forall>r \<in> set rs. quiet oc e r"
  shows "eg_runs (fold (\<lambda>r. finish env r (Some oc) now) rs e) = fold odel rs (eg_runs e)"
    and "eg_flows (fold (\<lambda>r. finish env r (Some oc) now) rs e) = eg_flows e"
proof -
  have "eg_runs (fold (\<lambda>r. finish env r (Some oc) now) rs e) = fold odel rs (eg_runs e) \<and>
      eg_flows (fold (\<lambda>r. finish env r (Some oc) now) rs e) = eg_flows e"
    using assms
  proof (induction rs arbitrary: e)
    case (Cons r rs)
    note cut = finish_cut[of oc e r env now]
    from Cons.prems cut have "\<forall>r' \<in> set rs. quiet oc (finish env r (Some oc) now e) r'"
      by (auto simp: quiet_def split: if_splits)
    with Cons.IH[of "finish env r (Some oc) now e"] Cons.prems cut show ?case by simp
  qed simp
  then show "eg_runs (fold (\<lambda>r. finish env r (Some oc) now) rs e) = fold odel rs (eg_runs e)"
    "eg_flows (fold (\<lambda>r. finish env r (Some oc) now) rs e) = eg_flows e" by auto
qed

lemma fold_odel: "fold odel rs m = filter (\<lambda>p. fst p \<notin> set rs) m"
  by (induction rs arbitrary: m) (auto simp: odel_def intro!: filter_cong)

lemma cut_all_runs:
  fixes env now fid
  assumes "\<forall>r \<in> set (runs_of fid e). quiet oc e r" "omap_ok (eg_runs e)"
  defines "e' \<equiv> fold (\<lambda>r. finish env r (Some oc) now) (runs_of fid e) e"
  shows "running fid e' = 0" and "running fid' e' \<le> running fid' e" and "omap_ok (eg_runs e')"
    and "eg_flows e' = eg_flows e"
proof -
  have runs: "eg_runs e' = filter (\<lambda>p. fst p \<notin> set (runs_of fid e)) (eg_runs e)"
    unfolding e'_def by (simp add: finish_cut_all[OF assms(1)] fold_odel)
  show "running fid e' = 0"
    by (force simp: running_entries runs runs_of_def filter_empty_conv)
  show "running fid' e' \<le> running fid' e"
    unfolding running_entries runs filter_filter
    by (rule order_trans[OF _ length_filter_le[of "\<lambda>p. fst p \<notin> set (runs_of fid e)"]])
      (simp add: conj_commute)
  show "omap_ok (eg_runs e')"
    using assms(2) unfolding runs omap_ok_def sorted_wrt_map by (rule sorted_wrt_filter)
  show "eg_flows e' = eg_flows e"
    unfolding e'_def by (rule finish_cut_all(2)[OF assms(1)])
qed

section \<open>The bound is kept\<close>

lemma limits_okD:
  assumes "limits_ok env e" "oget fid (eg_flows e) = Some l"
  shows "ld_version l = ev_version env (ld_flow l)"
    and "running fid e \<le> run_limit (fl_mode (ld_flow l))"
    and "length (ld_queue l) \<le> queue_limit (fl_mode (ld_flow l))"
  using assms by (auto simp: limits_ok_def loaded_ok_def)

lemma limits_ok_shrink:
  assumes "limits_ok env e" "omap_ok (eg_runs e')" "eg_flows e' = eg_flows e"
    and "\<And>fid. running fid e' \<le> running fid e"
  shows "limits_ok env e'"
  using assms by (auto simp: limits_ok_def loaded_ok_def intro: order_trans)

lemma limits_ok_flows:
  assumes "limits_ok env e" "\<And>fid l. oget fid m = Some l \<Longrightarrow> loaded_ok env e fid l"
  shows "limits_ok env (e\<lparr>eg_flows := m\<rparr>)"
  using assms by (simp add: limits_ok_def loaded_ok_def running_def)

lemma limits_ok_upd_loaded:
  assumes "limits_ok env e"
    and "\<And>l. oget fid (eg_flows e) = Some l \<Longrightarrow> ld_flow (f l) = ld_flow l \<and> ld_version (f l) = ld_version l \<and>
      length (ld_queue (f l)) \<le> queue_limit (fl_mode (ld_flow l))"
  shows "limits_ok env (upd_loaded fid f e)"
  using assms by (auto simp: limits_ok_def loaded_ok_def upd_loaded_def running_def split: if_splits)

lemma limits_ok_start_run:
  assumes "limits_ok env e"
    and "\<And>l. oget fid (eg_flows e) = Some l \<Longrightarrow> Suc (running fid e) \<le> run_limit (fl_mode (ld_flow l))"
  shows "limits_ok env (snd (start_run env fid f now e))"
proof -
  have ok: "omap_ok (eg_runs e)" using assms(1) by (simp add: limits_ok_def)
  show ?thesis
    unfolding limits_ok_def flows_start_run
  proof (intro conjI allI impI)
    fix fid' l assume l: "oget fid' (eg_flows e) = Some l"
    have "running fid' (snd (start_run env fid f now e)) \<le> run_limit (fl_mode (ld_flow l))"
      using running_start_run(1)[OF ok, of fid' env fid f now] assms(2)[of l] l limits_okD(2)[OF assms(1) l]
      by (cases "fid' = fid") auto
    then show "loaded_ok env (snd (start_run env fid f now e)) fid' l"
      using limits_okD[OF assms(1) l] by (simp add: loaded_ok_def)
  qed (rule running_start_run(2)[OF ok])
qed

lemma limits_ok_finish:
  assumes "limits_ok env e"
  shows "limits_ok env (finish env r oc now e)"
proof (cases "oget r (eg_runs e)")
  case None
  with assms show ?thesis by (simp add: finish_def)
next
  case (Some run)
  let ?c = "close_run r run oc now e" and ?fid = "rr_flow_id (rn_record run)"
  have ok: "omap_ok (eg_runs e)" using assms by (simp add: limits_ok_def)
  have c: "limits_ok env ?c"
    by (rule limits_ok_shrink[OF assms]) (simp_all add: ok omap_ok_odel running_odel[OF ok])
  have "limits_ok env (next_turn env ?fid now ?c)"
  proof (cases "\<exists>l f q. oget ?fid (eg_flows ?c) = Some l \<and> ld_queue l = f # q")
    case False
    with c show ?thesis by (auto simp: next_turn_def split: option.split list.split)
  next
    case True
    then obtain l f q where l: "oget ?fid (eg_flows ?c) = Some l" "ld_queue l = f # q" by blast
    let ?u = "upd_loaded ?fid (\<lambda>l. l\<lparr>ld_queue := q\<rparr>) ?c"
    from limits_okD(3)[OF c l(1)] l have lim: "length q < queue_limit (fl_mode (ld_flow l))"
      by simp
    have one: "run_limit (fl_mode (ld_flow l)) = 1"
      using lim by (auto simp: run_limit_def queue_limit_def split: mode.splits limited_mode.splits)
    have "running ?fid ?c < running ?fid e"
      by (rule running_odel_less[OF ok _ Some]) simp
    moreover have "running ?fid e \<le> 1"
      using limits_okD(2)[OF assms, of ?fid l] l one by simp
    moreover have "running ?fid ?u = running ?fid ?c"
      by (rule running_cong) (simp add: upd_loaded_def)
    ultimately have none: "running ?fid ?u = 0" by linarith
    have u: "limits_ok env ?u"
      using l lim by (intro limits_ok_upd_loaded[OF c]) auto
    have "limits_ok env (snd (start_run env ?fid f now ?u))"
      using l one none by (intro limits_ok_start_run[OF u]) (auto simp: upd_loaded_def)
    then show ?thesis using l by (simp add: next_turn_def)
  qed
  with c Some show ?thesis by (simp add: finish_def Let_def)
qed

lemma limits_ok_near_miss: "limits_ok env e \<Longrightarrow> limits_ok env (near_miss_at fid n k m rs now e)"
  by (rule limits_ok_shrink) (auto simp: near_miss_at_def push_effect_def running_def limits_ok_def)

lemma limits_ok_fire:
  assumes "limits_ok env e"
  shows "limits_ok env (snd (fire_now env fid f now e))"
proof (cases "oget fid (eg_flows e)")
  case None
  with assms show ?thesis by (simp add: fire_now_def)
next
  case (Some l)
  have ok: "omap_ok (eg_runs e)" using assms by (simp add: limits_ok_def)
  let ?m = "fl_mode (ld_flow l)"
  have start: "limits_ok env (snd (start_run env fid f now e))" if "Suc (running fid e) \<le> run_limit ?m"
    using that Some by (intro limits_ok_start_run assms) auto
  have drop: "limits_ok env (drop_firing fid f why now e)" for why
    unfolding drop_firing_def by (rule limits_ok_near_miss[OF assms])
  have queue: "limits_ok env (upd_loaded fid (\<lambda>l. l\<lparr>ld_queue := ld_queue l @ [f]\<rparr>) e)"
    if "length (ld_queue l) < queue_limit ?m"
    using that Some by (intro limits_ok_upd_loaded assms) auto
  have restart: "limits_ok env (snd (start_run env fid f now
      (fold (\<lambda>r. finish env r (Some Superseded) now) (runs_of fid e) e)))"
    if "?m = Named Restart"
  proof -
    let ?r = "fold (\<lambda>r. finish env r (Some Superseded) now) (runs_of fid e) e"
    have "ld_queue l = []"
      using limits_okD(3)[OF assms Some] that by (simp add: queue_limit_def)
    then have quiet: "\<forall>r \<in> set (runs_of fid e). quiet Superseded e r"
      using Some by (auto simp: quiet_def runs_of_iff[OF ok])
    note cut = cut_all_runs[OF quiet ok, where env = env and now = now]
    have "limits_ok env ?r" by (rule limits_ok_shrink[OF assms]) (simp_all add: cut)
    then show ?thesis
      using Some that by (intro limits_ok_start_run) (auto simp: cut run_limit_def)
  qed
  show ?thesis
    using Some start drop queue restart
    by (auto simp: fire_now_def Let_def case_prod_beta running_runs_of run_limit_def queue_limit_def
        split: mode.split named_mode.split limited_mode.split)
qed

section \<open>The bound is kept when the flows change\<close>

lemma limits_ok_odel: "limits_ok env e \<Longrightarrow> limits_ok env (e\<lparr>eg_flows := odel fid (eg_flows e)\<rparr>)"
  by (rule limits_ok_flows) (auto simp: limits_ok_def split: if_splits)

lemma abort_flow_runs:
  fixes env now fid
  assumes "limits_ok env e" "a \<noteq> AbCancelled"
  defines "e' \<equiv> abort_flow env fid a now e"
  shows "running fid e' = 0" and "running fid' e' \<le> running fid' e" and "omap_ok (eg_runs e')"
    and "limits_ok env e'"
proof -
  let ?f = "fold (\<lambda>r. finish env r (Some (Aborted a)) now) (runs_of fid e) e"
  have ok: "omap_ok (eg_runs e)" using assms(1) by (simp add: limits_ok_def)
  have quiet: "\<forall>r \<in> set (runs_of fid e). quiet (Aborted a) e r"
    using assms(2) by (simp add: quiet_def leaves_queue_def)
  note cut = cut_all_runs[OF quiet ok, where env = env and now = now]
  have runs: "eg_runs e' = eg_runs ?f" by (simp add: e'_def abort_flow_def upd_loaded_def)
  show "running fid e' = 0" "running fid' e' \<le> running fid' e" "omap_ok (eg_runs e')"
    using cut running_cong[OF runs] runs by simp_all
  have "limits_ok env ?f" by (rule limits_ok_shrink[OF assms(1)]) (simp_all add: cut)
  then show "limits_ok env e'"
    unfolding e'_def abort_flow_def by (rule limits_ok_upd_loaded) simp
qed

text \<open>While the new set is being made: the runs going respect the old set and what the new one
  holds so far.\<close>

definition swap_ok :: "env \<Rightarrow> (string, loaded) omap \<times> engine \<Rightarrow> bool" where
  "swap_ok env s \<longleftrightarrow> limits_ok env (snd s) \<and>
     (\<forall>fid l. oget fid (fst s) = Some l \<longrightarrow> loaded_ok env (snd s) fid l)"

lemma loaded_ok_shrink:
  "loaded_ok env e fid l \<Longrightarrow> running fid e' \<le> running fid e \<Longrightarrow> loaded_ok env e' fid l"
  by (auto simp: loaded_ok_def)

lemma loaded_ok_flows: "loaded_ok env (e\<lparr>eg_flows := m\<rparr>) fid l = loaded_ok env e fid l"
  by (simp add: loaded_ok_def running_def)

lemma swap_ok_abort:
  assumes "swap_ok env (nxt, e)" "a \<noteq> AbCancelled"
  shows "swap_ok env (nxt, abort_flow env fid a now e)"
proof -
  have l: "limits_ok env e" using assms(1) by (simp add: swap_ok_def)
  show ?thesis
    using assms(1) abort_flow_runs(4)[OF l assms(2)]
      loaded_ok_shrink[OF _ abort_flow_runs(2)[OF l assms(2)]]
    by (simp add: swap_ok_def)
qed

lemma swap_ok_put:
  "swap_ok env (nxt, e) \<Longrightarrow> loaded_ok env e fid l \<Longrightarrow> swap_ok env (oput fid l nxt, e)"
  by (simp add: swap_ok_def oget_oput)

lemma swap_ok_set_flow:
  assumes ver: "versions_fix_mode env" and ok: "swap_ok env s"
  shows "swap_ok env (set_flow env now a s)"
proof -
  obtain nxt e where s: "s = (nxt, e)" by (cases s)
  let ?fid = "fl_id (am_flow a)"
  let ?e = "e\<lparr>eg_flows := odel ?fid (eg_flows e)\<rparr>"
  let ?why = "if arm_state a = Disabled then AbDisabled else AbChanged"
  let ?entry = "\<lambda>h q. \<lparr>ld_flow = am_flow a, ld_version = ev_version env (am_flow a),
      ld_armed = arm_state a, ld_holds = h, ld_queue = q\<rparr>"
  have ok': "swap_ok env (nxt, ?e)"
    using ok unfolding s swap_ok_def by (auto simp: loaded_ok_flows limits_ok_odel)
  show ?thesis
  proof (cases "\<exists>l. oget ?fid (eg_flows e) = Some l \<and> ld_version l = ev_version env (am_flow a)
      \<and> arm_state a = Armed \<and> ld_armed l = Armed")
    case True
    then obtain l where l: "oget ?fid (eg_flows e) = Some l" "ld_version l = ev_version env (am_flow a)"
        "arm_state a = Armed" "ld_armed l = Armed" by blast
    have lim: "limits_ok env e" using ok by (simp add: s swap_ok_def)
    have "fl_mode (am_flow a) = fl_mode (ld_flow l)"
      using ver l(2) limits_okD(1)[OF lim l(1)] by (metis versions_fix_mode_def)
    then have "loaded_ok env ?e ?fid (?entry (ld_holds l) (ld_queue l))"
      using limits_okD[OF lim l(1)] by (simp add: loaded_ok_def running_def)
    from swap_ok_put[OF ok' this] l show ?thesis by (simp add: s set_flow_def Let_def)
  next
    case False
    then have set: "set_flow env now a s = (oput ?fid (?entry [] []) nxt, abort_flow env ?fid ?why now ?e)"
      by (auto simp: s set_flow_def Let_def split: option.split Option.bind_split)
    have "running ?fid (abort_flow env ?fid ?why now ?e) = 0"
      using ok' by (intro abort_flow_runs(1)) (auto simp: swap_ok_def)
    then have "loaded_ok env (abort_flow env ?fid ?why now ?e) ?fid (?entry [] [])"
      by (simp add: loaded_ok_def)
    then show ?thesis unfolding set by (intro swap_ok_put swap_ok_abort ok') auto
  qed
qed

lemma limits_ok_swap:
  assumes "versions_fix_mode env" "limits_ok env e"
  shows "limits_ok env (swap_flows env now arms e)"
proof -
  have 1: "swap_ok env s \<Longrightarrow> swap_ok env (fold (set_flow env now) arms s)" for s
    by (induction arms arbitrary: s) (simp_all add: swap_ok_set_flow assms(1))
  have 2: "swap_ok env (nxt, e) \<Longrightarrow> swap_ok env (nxt, fold (\<lambda>fid. abort_flow env fid AbRemoved now) fids e)"
    for nxt fids e
    by (induction fids arbitrary: e) (simp_all add: swap_ok_abort)
  obtain nxt e' where e': "fold (set_flow env now) arms ([], e) = (nxt, e')" by fastforce
  have "swap_ok env ([], e)" using assms(2) by (simp add: swap_ok_def)
  from 2[OF 1[OF this, unfolded e']] show ?thesis
    unfolding swap_flows_def e' prod.case by (intro limits_ok_flows) (auto simp: swap_ok_def)
qed

lemma limits_ok_upd_run:
  assumes "keeps_head f" "limits_ok env e"
  shows "limits_ok env (upd_run r f e)"
proof (rule limits_ok_shrink[OF assms(2)])
  show "omap_ok (eg_runs (upd_run r f e))" using assms(2) by (simp add: upd_run_def limits_ok_def)
  show "eg_flows (upd_run r f e) = eg_flows e" by (simp add: upd_run_def)
  show "running fid (upd_run r f e) \<le> running fid e" for fid by (simp add: running_upd_run assms(1))
qed

lemma limits_ok_open_step:
  assumes "limits_ok env e"
  shows "limits_ok env (open_step r t now e)"
proof (rule limits_ok_shrink[OF assms])
  show "omap_ok (eg_runs (open_step r t now e))"
    using assms by (simp add: open_step_def upd_run_def limits_ok_def Let_def split: option.split)
  show "eg_flows (open_step r t now e) = eg_flows e"
    by (simp add: open_step_def upd_run_def Let_def split: option.split)
  show "running fid (open_step r t now e) \<le> running fid e" for fid by (simp add: running_open_step)
qed

lemma limits_ok_holds:
  "limits_ok env e \<Longrightarrow> limits_ok env (cancel_hold fid node e)"
  "limits_ok env e \<Longrightarrow> limits_ok env (set_hold fid node until e)"
  unfolding cancel_hold_def set_hold_def by (rule limits_ok_upd_loaded, assumption, auto dest: limits_okD(3))+

lemma limits_ok_cong:
  "eg_runs e' = eg_runs e \<Longrightarrow> eg_flows e' = eg_flows e \<Longrightarrow> limits_ok env e \<Longrightarrow> limits_ok env e'"
  by (rule limits_ok_shrink) (auto simp: limits_ok_def running_def)

interpretation limits_writes: write_invariant env "\<lambda>e. versions_fix_mode env \<longrightarrow> limits_ok env e" for env
  by unfold_locales
    (auto simp: limits_ok_upd_run limits_ok_open_step limits_ok_holds push_effect_def schedule_def
      intro: limits_ok_cong)

interpretation limits_inv: engine_invariant env "\<lambda>e. versions_fix_mode env \<longrightarrow> limits_ok env e" for env
proof unfold_locales
  show "versions_fix_mode env \<longrightarrow> limits_ok env (timer_hold env fid node ts (e\<lparr>eg_timers := rest\<rparr>))"
    if "versions_fix_mode env \<longrightarrow> limits_ok env e" "eg_timers e = (ts, k, TmHold fid node) # rest"
    for e :: engine and ts k fid node rest
    using _ that by (rule limits_writes.W_pop_hold) (auto simp: limits_ok_fire limits_ok_holds)
qed (auto simp: limits_ok_finish limits_ok_fire limits_ok_swap)

end
