(* ===== verification/EngineArmed.thy ===== *)
theory EngineArmed
  imports EngineLimits
begin

text \<open>
  A run that is going always belongs to a flow that is loaded and armed, in the version its record
  says; a flow that is not armed has nothing waiting and nothing counting. \<open>armed_ok\<close> says so,
  and every reached engine keeps it.
\<close>

definition run_at_home :: "(string, loaded) omap \<Rightarrow> run \<Rightarrow> bool" where
  "run_at_home flows run \<longleftrightarrow>
     (\<exists>l. oget (rr_flow_id (rn_record run)) flows = Some l \<and> ld_armed l = Armed \<and>
        ld_version l = rr_version (rn_record run))"

definition loaded_quiet :: "(string, loaded) omap \<Rightarrow> bool" where
  "loaded_quiet flows \<longleftrightarrow> omap_ok flows \<and>
     (\<forall>fid l. oget fid flows = Some l \<longrightarrow> ld_armed l \<noteq> Armed \<longrightarrow> ld_queue l = [] \<and> ld_holds l = [])"

definition armed_ok :: "engine \<Rightarrow> bool" where
  "armed_ok e \<longleftrightarrow> omap_ok (eg_runs e) \<and> loaded_quiet (eg_flows e) \<and>
     (\<forall>r run. oget r (eg_runs e) = Some run \<longrightarrow> run_at_home (eg_flows e) run)"

lemma armed_ok_is_armed: "armed_ok e \<Longrightarrow> is_armed fid e \<longleftrightarrow> (\<exists>l. oget fid (eg_flows e) = Some l \<and> ld_armed l = Armed)"
  by (auto simp: is_armed_mem armed_ok_def loaded_quiet_def oget_eq_Some)

lemma armed_ok_cong: "eg_runs e' = eg_runs e \<Longrightarrow> eg_flows e' = eg_flows e \<Longrightarrow> armed_ok e' = armed_ok e"
  by (simp add: armed_ok_def)

lemma armed_ok_same: "eg_runs e' = eg_runs e \<Longrightarrow> eg_flows e' = eg_flows e \<Longrightarrow> armed_ok e \<Longrightarrow> armed_ok e'"
  by (simp add: armed_ok_def)

section \<open>Writes to a run\<close>

lemma run_at_home_head: "head_of run = head_of run' \<Longrightarrow> run_at_home flows run = run_at_home flows run'"
proof -
  assume "head_of run = head_of run'"
  then have "rr_flow_id (snd (head_of run)) = rr_flow_id (snd (head_of run'))"
      "rr_version (snd (head_of run)) = rr_version (snd (head_of run'))" by simp_all
  then show ?thesis by (simp add: run_at_home_def head_of_def)
qed

lemma armed_ok_upd_run:
  "(\<And>run. run_at_home (eg_flows e) (f run) = run_at_home (eg_flows e) run) \<Longrightarrow> armed_ok e \<Longrightarrow> armed_ok (upd_run r f e)"
  by (auto simp: armed_ok_def upd_run_def split: if_splits)

lemma armed_ok_keeps: "keeps_head f \<Longrightarrow> armed_ok e \<Longrightarrow> armed_ok (upd_run r f e)"
  by (rule armed_ok_upd_run) (auto dest!: keeps_headD intro!: run_at_home_head)

lemma armed_ok_open: "armed_ok e \<Longrightarrow> armed_ok (open_step r t now e)"
  by (auto simp: open_step_def Let_def run_at_home_def upd_record_def intro!: armed_ok_upd_run split: option.split)

lemma armed_ok_leave: "armed_ok e \<Longrightarrow> armed_ok (leave r n p e)"
proof -
  assume "armed_ok e"
  then have "armed_ok ((upd_run r f e)\<lparr>eg_ready := q\<rparr>)" if "keeps_head f" for f q
    using armed_ok_keeps[OF that] armed_ok_cong[of "(upd_run r f e)\<lparr>eg_ready := q\<rparr>" "upd_run r f e"] by simp
  with \<open>armed_ok e\<close> show ?thesis
    by (simp add: leave_def Let_def armed_ok_keeps keeps split: option.split)
qed

section \<open>Writes to a flow\<close>

lemma armed_ok_upd_loaded:
  assumes "armed_ok e"
    and "\<And>l. oget fid (eg_flows e) = Some l \<Longrightarrow> ld_armed (f l) = ld_armed l \<and> ld_version (f l) = ld_version l \<and>
      (ld_armed l \<noteq> Armed \<longrightarrow> ld_queue (f l) = [] \<and> ld_holds (f l) = [])"
  shows "armed_ok (upd_loaded fid f e)"
proof -
  have "run_at_home (omod fid f (eg_flows e)) run" if "run_at_home (eg_flows e) run" for run
    using that assms(2) by (cases "rr_flow_id (rn_record run) = fid") (auto simp: run_at_home_def)
  moreover have "loaded_quiet (omod fid f (eg_flows e))"
    using assms by (auto simp: loaded_quiet_def armed_ok_def split: if_splits)
  ultimately show ?thesis
    using assms(1) by (simp add: armed_ok_def upd_loaded_def)
qed

lemma armed_ok_quiet:
  "armed_ok e \<Longrightarrow> oget fid (eg_flows e) = Some l \<Longrightarrow> ld_armed l \<noteq> Armed \<Longrightarrow> ld_queue l = [] \<and> ld_holds l = []"
  by (auto simp: armed_ok_def loaded_quiet_def)

lemma armed_ok_cancel: "armed_ok e \<Longrightarrow> armed_ok (cancel_hold fid node e)"
  unfolding cancel_hold_def by (rule armed_ok_upd_loaded) (auto dest: armed_ok_quiet)

lemma armed_ok_set_hold: "armed_ok e \<Longrightarrow> is_armed fid e \<Longrightarrow> armed_ok (set_hold fid node until e)"
  unfolding set_hold_def by (rule armed_ok_upd_loaded) (auto simp: armed_ok_is_armed)

section \<open>Starting and ending runs\<close>

lemma armed_ok_start_run:
  assumes "armed_ok e" "\<And>l. oget fid (eg_flows e) = Some l \<Longrightarrow> ld_armed l = Armed"
  shows "armed_ok (snd (start_run env fid f now e))"
proof (cases "oget fid (eg_flows e)")
  case None
  with assms(1) show ?thesis by (simp add: start_run_def Let_def armed_ok_def)
next
  case (Some l)
  let ?r = "ev_mint env (eg_ids e) now"
  have "armed_ok (e\<lparr>eg_ids := Suc (eg_ids e), eg_runs := oput ?r (new_run l fid ?r f now) (eg_runs e)\<rparr>)"
    using assms Some
    by (auto simp: armed_ok_def omap_ok_oput oget_oput new_run_def run_at_home_def split: if_splits)
  with Some show ?thesis by (simp add: start_run_def Let_def armed_ok_leave)
qed

lemma armed_ok_close: "armed_ok e \<Longrightarrow> armed_ok (close_run r run oc now e)"
  by (auto simp: armed_ok_def close_run_def push_effect_def omap_ok_odel split: if_splits)

lemma armed_ok_next_turn: "armed_ok e \<Longrightarrow> armed_ok (next_turn env fid now e)"
proof -
  assume ok: "armed_ok e"
  have "armed_ok (snd (start_run env fid f now (upd_loaded fid (\<lambda>l. l\<lparr>ld_queue := q\<rparr>) e)))"
    if l: "oget fid (eg_flows e) = Some l" "ld_queue l = f # q" for l f q
  proof -
    have "ld_armed l = Armed" using armed_ok_quiet[OF ok l(1)] l(2) by auto
    with l ok show ?thesis
      by (intro armed_ok_start_run armed_ok_upd_loaded) (auto simp: upd_loaded_def)
  qed
  with ok show ?thesis by (auto simp: next_turn_def split: option.split list.split)
qed

lemma armed_ok_finish: "armed_ok e \<Longrightarrow> armed_ok (finish env r oc now e)"
  by (simp add: finish_def Let_def armed_ok_close armed_ok_next_turn split: option.split)

lemma armed_ok_finish_all: "armed_ok e \<Longrightarrow> armed_ok (fold (\<lambda>r. finish env r oc now) rs e)"
  by (induction rs arbitrary: e) (simp_all add: armed_ok_finish)

lemma armed_ok_near_miss: "armed_ok e \<Longrightarrow> armed_ok (near_miss_at fid n k m rs now e)"
  using armed_ok_cong[of "near_miss_at fid n k m rs now e" e] by (simp add: near_miss_at_def push_effect_def)

lemma armed_ok_fire:
  assumes ok: "armed_ok e" and armed: "is_armed fid e"
  shows "armed_ok (snd (fire_now env fid f now e))"
proof (cases "oget fid (eg_flows e)")
  case None
  with ok show ?thesis by (simp add: fire_now_def)
next
  case (Some l)
  have start: "armed_ok (snd (start_run env fid f now e'))" if "armed_ok e'" "armed e' = armed e" for e'
  proof (rule armed_ok_start_run[OF that(1)])
    fix l' assume "oget fid (eg_flows e') = Some l'"
    moreover have "is_armed fid e'" using armed is_armed_cong[OF that(2)] by simp
    ultimately show "ld_armed l' = Armed" using armed_ok_is_armed[OF that(1)] by auto
  qed
  have fold: "armed (fold (\<lambda>r. finish env r (Some Superseded) now) rs e') = armed e'" for rs e'
    by (induction rs arbitrary: e') (simp_all add: armed_finish)
  have queue: "armed_ok (upd_loaded fid (\<lambda>l. l\<lparr>ld_queue := ld_queue l @ [f]\<rparr>) e)"
    using armed by (intro armed_ok_upd_loaded ok) (auto simp: armed_ok_is_armed[OF ok])
  show ?thesis
    using Some start[OF ok refl] start[OF armed_ok_finish_all[OF ok] fold] queue
    by (auto simp: fire_now_def Let_def case_prod_beta drop_firing_def armed_ok_near_miss ok
        split: mode.split named_mode.split limited_mode.split)
qed

lemma armed_ok_hold_fire:
  assumes "armed_ok e" "is_some_and (oget fid (eg_flows e)) (\<lambda>l. oget node (ld_holds l) \<noteq> None)"
  shows "armed_ok (snd (fire_now env fid f now (cancel_hold fid node e)))"
proof (rule armed_ok_fire[OF armed_ok_cancel[OF assms(1)]])
  from assms(2) obtain l where l: "oget fid (eg_flows e) = Some l" "ld_holds l \<noteq> []"
    by (fastforce simp: is_some_and_iff)
  with armed_ok_quiet[OF assms(1) l(1)] have "ld_armed l = Armed" by auto
  then have "is_armed fid e" by (rule is_armedI[OF l(1)])
  moreover have "armed (cancel_hold fid node e) = armed e"
    by (simp add: cancel_hold_def armed_upd_loaded)
  ultimately show "is_armed fid (cancel_hold fid node e)" using is_armed_cong by blast
qed

section \<open>Changing the flows\<close>

text \<open>While the new set is being made, each run is at home in what is left of the old set or in
  what the new set holds so far, and no flow is in both.\<close>

definition swap_home :: "(string, loaded) omap \<times> engine \<Rightarrow> bool" where
  "swap_home s \<longleftrightarrow> omap_ok (eg_runs (snd s)) \<and> loaded_quiet (fst s) \<and> loaded_quiet (eg_flows (snd s)) \<and>
     (\<forall>fid. oget fid (fst s) \<noteq> None \<longrightarrow> oget fid (eg_flows (snd s)) = None) \<and>
     (\<forall>r run. oget r (eg_runs (snd s)) = Some run
        \<longrightarrow> run_at_home (eg_flows (snd s)) run \<or> run_at_home (fst s) run)"

lemma abort_flow_oget:
  assumes "omap_ok (eg_runs e)" "a \<noteq> AbCancelled"
  shows "oget r (eg_runs (abort_flow env fid a now e)) = Some run
      \<longleftrightarrow> oget r (eg_runs e) = Some run \<and> rr_flow_id (rn_record run) \<noteq> fid"
    and "eg_flows (abort_flow env fid a now e) = omod fid (\<lambda>l. l\<lparr>ld_queue := [], ld_holds := []\<rparr>) (eg_flows e)"
    and "omap_ok (eg_runs (abort_flow env fid a now e))"
proof -
  have quiet: "\<forall>r \<in> set (runs_of fid e). quiet (Aborted a) e r"
    using assms(2) by (simp add: quiet_def leaves_queue_def)
  note cut = cut_all_runs[OF quiet assms(1), where env = env and now = now]
  have runs: "eg_runs (abort_flow env fid a now e) = filter (\<lambda>p. fst p \<notin> set (runs_of fid e)) (eg_runs e)"
    by (simp add: abort_flow_def upd_loaded_def finish_cut_all(1)[OF quiet] fold_odel)
  show ok: "omap_ok (eg_runs (abort_flow env fid a now e))"
    using cut(3) by (simp add: abort_flow_def upd_loaded_def)
  show "oget r (eg_runs (abort_flow env fid a now e)) = Some run
      \<longleftrightarrow> oget r (eg_runs e) = Some run \<and> rr_flow_id (rn_record run) \<noteq> fid"
    unfolding oget_eq_Some[OF ok] unfolding runs using assms(1)
    by (auto simp: runs_of_iff oget_eq_Some [symmetric])
  show "eg_flows (abort_flow env fid a now e) = omod fid (\<lambda>l. l\<lparr>ld_queue := [], ld_holds := []\<rparr>) (eg_flows e)"
    by (simp add: abort_flow_def upd_loaded_def cut(4))
qed

lemma loaded_quiet_clear: "loaded_quiet flows \<Longrightarrow> loaded_quiet (omod fid (\<lambda>l. l\<lparr>ld_queue := [], ld_holds := []\<rparr>) flows)"
  by (auto simp: loaded_quiet_def split: if_splits)

lemma loaded_quiet_odel: "loaded_quiet flows \<Longrightarrow> loaded_quiet (odel fid flows)"
  by (auto simp: loaded_quiet_def omap_ok_odel split: if_splits)

lemma loaded_quiet_oput:
  "loaded_quiet flows \<Longrightarrow> ld_armed l = Armed \<or> ld_queue l = [] \<and> ld_holds l = [] \<Longrightarrow> loaded_quiet (oput fid l flows)"
  by (auto simp: loaded_quiet_def omap_ok_oput oget_oput split: if_splits)

lemma run_at_home_clear:
  "run_at_home (omod fid (\<lambda>l. l\<lparr>ld_queue := [], ld_holds := []\<rparr>) flows) run = run_at_home flows run"
  by (auto simp: run_at_home_def)

lemma swap_home_abort:
  assumes "swap_home (nxt, e)" "a \<noteq> AbCancelled"
  shows "swap_home (nxt, abort_flow env fid a now e)"
proof -
  have ok: "omap_ok (eg_runs e)" using assms(1) by (simp add: swap_home_def)
  show ?thesis
    using assms(1) unfolding swap_home_def
    by (auto simp: abort_flow_oget[OF ok assms(2)] loaded_quiet_clear run_at_home_clear)
qed

lemma swap_home_put:
  assumes "swap_home (nxt, e)" "oget fid (eg_flows e) = None"
    and "\<And>r run. oget r (eg_runs e) = Some run \<Longrightarrow> rr_flow_id (rn_record run) \<noteq> fid"
    and "ld_armed l = Armed \<or> ld_queue l = [] \<and> ld_holds l = []"
  shows "swap_home (oput fid l nxt, e)"
  using assms by (auto simp: swap_home_def loaded_quiet_oput oget_oput run_at_home_def)

lemma swap_home_set_flow:
  assumes ok: "swap_home s"
  shows "swap_home (set_flow env now a s)"
proof -
  obtain nxt e where s: "s = (nxt, e)" by (cases s)
  let ?fid = "fl_id (am_flow a)"
  let ?e = "e\<lparr>eg_flows := odel ?fid (eg_flows e)\<rparr>"
  let ?why = "if arm_state a = Disabled then AbDisabled else AbChanged"
  let ?entry = "\<lambda>h q. \<lparr>ld_flow = am_flow a, ld_version = ev_version env (am_flow a),
      ld_armed = arm_state a, ld_holds = h, ld_queue = q\<rparr>"
  have runs: "omap_ok (eg_runs e)" using ok by (simp add: s swap_home_def)
  show ?thesis
  proof (cases "\<exists>l. oget ?fid (eg_flows e) = Some l \<and> ld_version l = ev_version env (am_flow a)
      \<and> arm_state a = Armed \<and> ld_armed l = Armed")
    case True
    then obtain l where l: "oget ?fid (eg_flows e) = Some l" "ld_version l = ev_version env (am_flow a)"
        "arm_state a = Armed" "ld_armed l = Armed" by blast
    then have "set_flow env now a s = (oput ?fid (?entry (ld_holds l) (ld_queue l)) nxt, ?e)"
      by (simp add: s set_flow_def Let_def)
    moreover have "oget ?fid nxt = None"
      using ok l(1) unfolding s swap_home_def by (metis fst_conv snd_conv option.distinct(1))
    ultimately show ?thesis
      using ok l unfolding s swap_home_def run_at_home_def
      by (fastforce simp: loaded_quiet_oput loaded_quiet_odel oget_oput)
  next
    case False
    then have set: "set_flow env now a s = (oput ?fid (?entry [] []) nxt, abort_flow env ?fid ?why now ?e)"
      by (auto simp: s set_flow_def Let_def split: option.split Option.bind_split)
    let ?g = "abort_flow env ?fid ?why now e"
    have why: "?why \<noteq> AbCancelled" by simp
    note ab = abort_flow_oget[OF _ why, where e = ?e and env = env and fid = ?fid and now = now]
    have gone: "oget r (eg_runs (abort_flow env ?fid ?why now ?e)) = Some run
        \<longleftrightarrow> oget r (eg_runs e) = Some run \<and> rr_flow_id (rn_record run) \<noteq> ?fid" for r run
      using ab(1) runs by simp
    have flows: "eg_flows (abort_flow env ?fid ?why now ?e)
        = omod ?fid (\<lambda>l. l\<lparr>ld_queue := [], ld_holds := []\<rparr>) (odel ?fid (eg_flows e))"
      using ab(2) runs by simp
    have "swap_home (nxt, abort_flow env ?fid ?why now ?e)"
      using ok ab(3) runs unfolding s swap_home_def
      by (auto simp: gone flows loaded_quiet_clear loaded_quiet_odel run_at_home_clear run_at_home_def)
    then show ?thesis
      unfolding set by (rule swap_home_put) (auto simp: gone flows)
  qed
qed

lemma armed_ok_swap:
  assumes "armed_ok e"
  shows "armed_ok (swap_flows env now arms e)"
proof -
  have 1: "swap_home s \<Longrightarrow> swap_home (fold (set_flow env now) arms s)" for s
    by (induction arms arbitrary: s) (simp_all add: swap_home_set_flow)
  have 2: "swap_home (nxt, e) \<Longrightarrow> swap_home (nxt, fold (\<lambda>fid. abort_flow env fid AbRemoved now) fids e) \<and>
      (\<forall>r run. oget r (eg_runs (fold (\<lambda>fid. abort_flow env fid AbRemoved now) fids e)) = Some run
        \<longrightarrow> rr_flow_id (rn_record run) \<notin> set fids \<and> oget r (eg_runs e) = Some run)" for nxt fids e
  proof (induction fids arbitrary: e)
    case (Cons fid fids)
    have runs: "omap_ok (eg_runs e)" using Cons.prems by (simp add: swap_home_def)
    have next': "swap_home (nxt, abort_flow env fid AbRemoved now e)"
      by (rule swap_home_abort[OF Cons.prems]) simp
    from Cons.IH[OF next'] show ?case
      using abort_flow_oget(1)[OF runs, where a = AbRemoved and env = env and fid = fid and now = now] by auto
  qed simp
  obtain nxt e' where e': "fold (set_flow env now) arms ([], e) = (nxt, e')" by fastforce
  let ?g = "fold (\<lambda>fid. abort_flow env fid AbRemoved now) (okeys (eg_flows e')) e'"
  have "swap_home ([], e)" using assms by (auto simp: swap_home_def armed_ok_def loaded_quiet_def)
  from 1[OF this, unfolded e'] have mid: "swap_home (nxt, e')" .
  note fin = 2[OF mid, of "okeys (eg_flows e')"]
  have "run_at_home nxt run" if "oget r (eg_runs ?g) = Some run" for r run
  proof -
    from fin that have r: "oget r (eg_runs e') = Some run" "rr_flow_id (rn_record run) \<notin> set (okeys (eg_flows e'))"
      by blast+
    then have "\<not> run_at_home (eg_flows e') run" by (auto simp: run_at_home_def dest: oget_Some_key)
    with mid r show ?thesis by (auto simp: swap_home_def)
  qed
  with fin show ?thesis
    unfolding swap_flows_def e' prod.case by (auto simp: armed_ok_def swap_home_def)
qed

interpretation armed_writes: write_invariant env armed_ok for env
  by unfold_locales
    (auto simp: armed_ok_keeps armed_ok_open armed_ok_cancel armed_ok_set_hold push_effect_def schedule_def
      intro: armed_ok_same)

interpretation armed_inv: engine_invariant env armed_ok for env
  by unfold_locales
    (auto simp: armed_ok_finish armed_ok_fire armed_ok_hold_fire armed_ok_swap intro!: armed_writes.W_pop_hold)

end
