(* ===== verification/EngineProps.thy ===== *)
theory EngineProps
  imports EngineSafe EngineArmed EngineAlarms
begin

text \<open>
  What the engine promises, as theorems over every engine a sequence of requests reaches, and
  over single operations.
\<close>

section \<open>Every reached engine\<close>

lemma limits_ok_new: "limits_ok env engine_new"
  by (simp add: limits_ok_def engine_new_def)

lemma reached_limits: "versions_fix_mode env \<Longrightarrow> reached env engine_new e \<Longrightarrow> limits_ok env e"
  using limits_inv.I_reached[of env engine_new e] limits_ok_new by blast

text \<open>C1. However firings, time, state changes and changes of the flows interleave, a flow never
  has more runs going, or more firings waiting, than its mode allows: one run in single, restart
  and queued mode, \<open>max\<close> runs in parallel mode, \<open>max\<close> waiting firings in queued mode and none in
  the others.\<close>

theorem runs_within_mode:
  assumes "versions_fix_mode env" "reached env engine_new e" "oget fid (eg_flows e) = Some l"
  shows "running fid e \<le> run_limit (fl_mode (ld_flow l)) \<and>
    length (ld_queue l) \<le> queue_limit (fl_mode (ld_flow l))"
  using limits_okD[OF reached_limits[OF assms(1,2)] assms(3)] by blast

lemma records_ok_new: "records_ok engine_new"
  by (simp add: records_ok_def engine_new_def)

text \<open>C7. Every run's record, while it is going and when it is handed over, has between 1 and 256
  steps, numbered from 0 in order, and its first step is at the trigger.\<close>

theorem records_well_formed:
  assumes "reached env engine_new e"
  shows "(oget r (eg_runs e) = Some run \<longrightarrow> record_ok (rn_record run)) \<and>
    (EFinished rec \<in> set (eg_effects e) \<longrightarrow> record_ok rec)"
proof -
  have "records_ok e" by (rule records_inv.I_reached[OF assms records_ok_new])
  then show ?thesis by (auto simp: records_ok_def effect_ok_def)
qed

lemma timers_ok_new: "timers_ok engine_new"
  by (simp add: timers_ok_def engine_new_def)

lemma reached_timers: "reached env engine_new e \<Longrightarrow> timers_ok e"
  by (rule timers_inv.I_reached[OF _ timers_ok_new])

lemma advance_past:
  assumes "reached env engine_new e" "x \<in> set (eg_timers (advance env now e))"
  shows "now < fst x"
proof -
  let ?e = "advance env now e"
  have "reached env engine_new ?e"
    using reached_handle[OF assms(1), of Advance now] by simp
  then have ok: "sorted_wrt (<) (map timer_key (eg_timers ?e))"
    using reached_timers by (auto simp: timers_ok_def)
  from assms(2) obtain y ys where y: "eg_timers ?e = y # ys" by (cases "eg_timers ?e") auto
  have "fst y \<le> fst x"
    using assms(2) ok unfolding y by (auto simp: timer_key_def)
  with advance_first[OF y] show ?thesis by simp
qed

text \<open>C3. After \<open>advance\<close> to a moment, no timer at or before that moment is left, whatever the
  timers that ran scheduled.\<close>

theorem advance_leaves_nothing_due:
  assumes "reached env engine_new e" "x \<in> set (eg_timers (advance env now e))"
  shows "now < fst x"
  using assms by (rule advance_past)

lemma alarms_ok_new: "alarms_ok engine_new"
  by (simp add: alarms_ok_def owed_def get_token_def engine_new_def)

text \<open>C4. Nothing is overslept: once the engine has been told the time, no token is left delaying
  until, or waiting with a deadline at, that moment or an earlier one, whatever happened before.\<close>

theorem nothing_overslept:
  assumes "reached env engine_new e" "oget r (eg_runs (advance env now e)) = Some run"
    and "oget t (rn_tokens run) = Some tok"
    and "tk_doing tok = Delaying u \<or> (\<exists>since holding watch. tk_doing tok = Waiting since u holding watch)"
  shows "now < u"
proof -
  let ?e = "advance env now e"
  have "reached env engine_new ?e"
    using reached_handle[OF assms(1), of Advance now] by simp
  then have "alarms_ok ?e" using alarms_inv.I_reached alarms_ok_new by blast
  moreover have "get_token r t ?e = Some tok" "alarm_of tok = Some u"
    using assms(2-4) by (auto simp: get_token_def alarm_of_def)
  ultimately obtain k where "(u, k, TmToken r t) \<in> set (eg_timers ?e)"
    unfolding alarms_ok_def owed_def by blast
  from advance_past[OF assms(1) this] show ?thesis by simp
qed

lemma dry_ok_new: "dry_ok engine_dry"
  by (simp add: dry_ok_def engine_dry_def engine_new_def)

text \<open>C9. A dry engine never asks for a call: what a simulation does stays in it.\<close>

theorem dry_engine_never_calls:
  assumes "reached env engine_dry e"
  shows "ECall c r parent entity service data \<notin> set (eg_effects e)"
  using dry_inv.I_reached[OF assms dry_ok_new] by (auto simp: dry_ok_def is_call_def)

lemma armed_ok_new: "armed_ok engine_new"
  by (simp add: armed_ok_def loaded_quiet_def engine_new_def)

text \<open>C8. A run that is going belongs to a flow that is loaded and armed, in the version its record
  names: turning a flow off, changing it, breaking it or removing it ends its runs, and nothing
  starts one again.\<close>

theorem runs_belong_to_armed_flows:
  assumes "reached env engine_new e" "oget r (eg_runs e) = Some run"
  shows "\<exists>l. oget (rr_flow_id (rn_record run)) (eg_flows e) = Some l \<and> ld_armed l = Armed \<and>
    ld_version l = rr_version (rn_record run)"
  using armed_inv.I_reached[OF assms(1) armed_ok_new] assms(2)
  by (auto simp: armed_ok_def run_at_home_def)

text \<open>C2. \<open>drive\<close> always returns, with nothing ready to step; however the flows fork and queue.\<close>

theorem drive_settles: "eg_ready (drive env now e) = []"
  by (rule ready_drive)

end
