(* ===== verification/EngineOps.thy ===== *)
theory EngineOps
  imports EngineProps
begin

text \<open>
  What single operations of the engine do: modes and queues, refusals, stops, failed calls, the
  step limit, switches, holds and unavailable entities.
\<close>

section \<open>Firing by hand\<close>

text \<open>Firing by hand succeeds exactly when the flow is there, the node is one of its triggers and
  the flow is armed; a refusal changes nothing.\<close>

lemma fire_accepts_or_refuses:
  "((\<exists>x. fst (fire env fid node test now e) = Inr x)
     \<longleftrightarrow> (\<exists>l tr. oget fid (eg_flows e) = Some l \<and> oget node (fl_nodes (ld_flow l)) = Some (NTrigger tr)
          \<and> ld_armed l = Armed)) \<and>
   (fst (fire env fid node test now e) = Inl m \<longrightarrow> snd (fire env fid node test now e) = e)"
  by (auto simp: fire_def is_trigger_def case_prod_beta split: option.splits node.splits armed_state.splits)

section \<open>Modes\<close>

lemma runs_leave: "oget i (eg_runs (leave r n p e)) = Some run' \<Longrightarrow> \<exists>run. oget i (eg_runs e) = Some run \<and> head_of run' = head_of run"
  by (auto simp: leave_def upd_run_def Let_def keeps keeps_headD split: option.splits if_splits)

lemma runs_leave_Some: "oget i (eg_runs e) = Some run \<Longrightarrow> \<exists>run'. oget i (eg_runs (leave r n p e)) = Some run' \<and> head_of run' = head_of run"
  by (auto simp: leave_def upd_run_def Let_def keeps keeps_headD split: option.splits)

lemma effects_leave [simp]: "eg_effects (leave r n p e) = eg_effects e"
  by (simp add: leave_def upd_run_def Let_def split: option.split)

lemma head_fields:
  assumes "head_of run = head_of run'"
  shows "rn_flow run = rn_flow run'" "rr_run_id (rn_record run) = rr_run_id (rn_record run')"
    "rr_flow_id (rn_record run) = rr_flow_id (rn_record run')"
    "rr_version (rn_record run) = rr_version (rn_record run')"
    "rr_trigger (rn_record run) = rr_trigger (rn_record run')"
    "rr_cause (rn_record run) = rr_cause (rn_record run')"
    "rr_test (rn_record run) = rr_test (rn_record run')"
    "rr_started_by (rn_record run) = rr_started_by (rn_record run')"
    "rr_started_at (rn_record run) = rr_started_at (rn_record run')"
    "length (rr_steps (rn_record run)) = length (rr_steps (rn_record run'))"
proof -
  let ?r = "rn_record run" and ?r' = "rn_record run'"
  have *: "rn_flow run = rn_flow run'"
    "?r\<lparr>rr_steps := map step_head (rr_steps ?r), rr_ended_at := []\<rparr> = ?r'\<lparr>rr_steps := map step_head (rr_steps ?r'), rr_ended_at := []\<rparr>"
    using assms by (simp_all add: head_of_def)
  from *(1) show "rn_flow run = rn_flow run'" .
  from *(2) show "rr_run_id ?r = rr_run_id ?r'" "rr_flow_id ?r = rr_flow_id ?r'" "rr_version ?r = rr_version ?r'"
    "rr_trigger ?r = rr_trigger ?r'" "rr_cause ?r = rr_cause ?r'" "rr_test ?r = rr_test ?r'"
    "rr_started_by ?r = rr_started_by ?r'" "rr_started_at ?r = rr_started_at ?r'"
    by (cases ?r; cases ?r'; simp)+
  from *(2) have "map step_head (rr_steps ?r) = map step_head (rr_steps ?r')"
    by (cases ?r; cases ?r'; simp)
  then show "length (rr_steps ?r) = length (rr_steps ?r')" by (rule map_eq_imp_length_eq)
qed

text \<open>What a run looks like that a firing has just started.\<close>

definition started_by_firing :: "run \<Rightarrow> string \<Rightarrow> string \<Rightarrow> firing \<Rightarrow> int \<Rightarrow> bool" where
  "started_by_firing run fid r f now \<longleftrightarrow>
     rr_run_id (rn_record run) = r \<and> rr_flow_id (rn_record run) = fid \<and>
     rr_trigger (rn_record run) = fg_trigger f \<and> rr_cause (rn_record run) = fg_cause f \<and>
     rr_test (rn_record run) = fg_test f \<and> rr_started_by (rn_record run) = fg_by f \<and>
     rr_started_at (rn_record run) = now \<and> length (rr_steps (rn_record run)) = 1"

lemma start_run_started:
  assumes "oget fid (eg_flows e) = Some l" "start_run env fid f now e = (r, e')"
  shows "\<exists>run. oget r (eg_runs e') = Some run \<and> started_by_firing run fid r f now"
    and "eg_effects e' = eg_effects e" and "eg_flows e' = eg_flows e"
    and "r = ev_mint env (eg_ids e) now"
proof -
  let ?i = "ev_mint env (eg_ids e) now"
  let ?e = "e\<lparr>eg_ids := Suc (eg_ids e), eg_runs := oput ?i (new_run l fid ?i f now) (eg_runs e)\<rparr>"
  have s: "r = ?i" "e' = leave ?i (fg_trigger f) Out ?e"
    using assms by (auto simp: start_run_def Let_def)
  have "oget ?i (eg_runs ?e) = Some (new_run l fid ?i f now)" by (simp add: oget_oput)
  from runs_leave_Some[OF this, of ?i "fg_trigger f" Out] obtain run where
    run: "oget ?i (eg_runs e') = Some run" "head_of run = head_of (new_run l fid ?i f now)"
    unfolding s(2) by blast
  show "\<exists>run. oget r (eg_runs e') = Some run \<and> started_by_firing run fid r f now"
    unfolding started_by_firing_def
    using run head_fields[OF run(2)] s(1) by (auto simp: new_run_def)
  show "r = ?i" by (rule s(1))
  show "eg_effects e' = eg_effects e" "eg_flows e' = eg_flows e"
    unfolding s(2) by (simp_all add: flows_leave)
qed

lemma finish_all_effects:
  assumes "\<forall>r \<in> set rs. quiet oc e r \<and> oget r (eg_runs e) \<noteq> None" "distinct rs"
  shows "eg_effects (fold (\<lambda>r. finish env r (Some oc) now) rs e)
    = eg_effects e @ map (\<lambda>r. EFinished (finished_record (the (oget r (eg_runs e))) (Some oc) now)) rs"
  using assms
proof (induction rs arbitrary: e)
  case (Cons r rs)
  then obtain run where run: "oget r (eg_runs e) = Some run" "quiet oc e r" by auto
  let ?e = "finish env r (Some oc) now e"
  note cut = finish_cut[OF run(2), of env now]
  have "\<forall>r' \<in> set rs. quiet oc ?e r' \<and> oget r' (eg_runs ?e) \<noteq> None"
    using Cons.prems cut by (auto simp: quiet_def split: if_splits)
  then have "eg_effects (fold (\<lambda>r. finish env r (Some oc) now) rs ?e)
      = eg_effects ?e @ map (\<lambda>r. EFinished (finished_record (the (oget r (eg_runs ?e))) (Some oc) now)) rs"
    using Cons by simp
  moreover have "eg_effects ?e = eg_effects e @ [EFinished (finished_record run (Some oc) now)]"
    using run by (auto simp: quiet_def finish_def next_turn_def Let_def close_run_def push_effect_def
        split: option.split)
  moreover have "map (\<lambda>r. EFinished (finished_record (the (oget r (eg_runs ?e))) (Some oc) now)) rs
      = map (\<lambda>r. EFinished (finished_record (the (oget r (eg_runs e))) (Some oc) now)) rs"
    using Cons.prems(2) by (auto simp: cut)
  ultimately show ?case using run by simp
qed simp

lemma distinct_runs_of: "omap_ok (eg_runs e) \<Longrightarrow> distinct (runs_of fid e)"
  by (auto simp: runs_of_def omap_ok_def strict_sorted_iff distinct_map_filter)

text \<open>In restart mode a firing starts a run at once and ends every run of the flow that was going,
  each with the outcome superseded: afterwards the new run is the flow's only one.\<close>

lemma restart_replaces:
  assumes "versions_fix_mode env" "reached env engine_new e"
    and "oget fid (eg_flows e) = Some l" "fl_mode (ld_flow l) = Named Restart"
  shows "\<exists>r e'. fire_now env fid f now e = (Some r, e') \<and> runs_of fid e' = [r] \<and>
    eg_effects e' = eg_effects e @
      map (\<lambda>i. EFinished (finished_record (the (oget i (eg_runs e))) (Some Superseded) now)) (runs_of fid e)"
proof -
  have lim: "limits_ok env e" by (rule reached_limits[OF assms(1,2)])
  then have ok: "omap_ok (eg_runs e)" by (simp add: limits_ok_def)
  have "ld_queue l = []" using limits_okD(3)[OF lim assms(3)] assms(4) by (simp add: queue_limit_def)
  then have quiet: "\<forall>r \<in> set (runs_of fid e). quiet Superseded e r"
    using assms(3) by (auto simp: quiet_def runs_of_iff[OF ok])
  let ?c = "fold (\<lambda>r. finish env r (Some Superseded) now) (runs_of fid e) e"
  note cut = cut_all_runs[OF quiet ok, where env = env and now = now]
  have eff: "eg_effects ?c = eg_effects e @
      map (\<lambda>i. EFinished (finished_record (the (oget i (eg_runs e))) (Some Superseded) now)) (runs_of fid e)"
    using quiet by (intro finish_all_effects distinct_runs_of ok) (auto simp: runs_of_iff[OF ok])
  obtain r e' where s: "start_run env fid f now ?c = (r, e')" by fastforce
  have l: "oget fid (eg_flows ?c) = Some l" using assms(3) by (simp add: cut(4))
  note st = start_run_started[OF l s]
  have "running fid e' \<le> 1" "omap_ok (eg_runs e')"
    using running_start_run(1)[OF cut(3), of fid env fid f now] running_start_run(2)[OF cut(3), of env fid f now] s cut(1)
    by simp_all
  moreover have "r \<in> set (runs_of fid e')"
    using st(1) runs_of_iff[OF \<open>omap_ok (eg_runs e')\<close>] by (auto simp: started_by_firing_def)
  ultimately have "runs_of fid e' = [r]"
    by (cases "runs_of fid e'") (auto simp: running_runs_of)
  moreover have "fire_now env fid f now e = (Some r, e')"
    using assms(3,4) s by (simp add: fire_now_def Let_def)
  ultimately show ?thesis using eff st(2) by auto
qed

text \<open>C10. In queued mode firings wait their turn in order: one that comes while a run is going is put
  last, or dropped with a near miss when the queue is full, and the runs going are untouched.\<close>

theorem busy_queue_takes_or_drops:
  assumes "oget fid (eg_flows e) = Some l" "fl_mode (ld_flow l) = Limited (Queued mx)" "0 < running fid e"
    and "fire_now env fid f now e = (started, e')"
  shows "started = None \<and> eg_runs e' = eg_runs e \<and>
    (if length (ld_queue l) < mx
     then oget fid (eg_flows e') = Some (l\<lparr>ld_queue := ld_queue l @ [f]\<rparr>) \<and> eg_effects e' = eg_effects e
     else eg_flows e' = eg_flows e \<and>
       (\<exists>nm. eg_effects e' = eg_effects e @ [ENearMiss nm] \<and> nm_kind nm = Dropped \<and> nm_node nm = fg_trigger f \<and>
          nm_flow_id nm = fid \<and> nm_at nm = now \<and> nm_reads nm = fg_reads f))"
proof -
  have "runs_of fid e \<noteq> []" using assms(3) by (auto simp: running_runs_of)
  with assms show ?thesis
    by (auto simp: fire_now_def Let_def upd_loaded_def drop_firing_def near_miss_at_def push_effect_def
        split: if_splits)
qed

text \<open>C11. When a run of a queued flow ends, by itself or because a person cancelled it, the firing
  that waited longest becomes a run at once, and the others move up.\<close>

theorem ended_run_gives_turn:
  assumes "oget r (eg_runs e) = Some run" "oget (rr_flow_id (rn_record run)) (eg_flows e) = Some l"
    and "ld_queue l = f # q" "\<not> leaves_queue (unwrap_or oc (run_outcome_of run))"
  shows "let e' = finish env r oc now e; fid = rr_flow_id (rn_record run); r' = ev_mint env (eg_ids e) now
    in oget fid (eg_flows e') = Some (l\<lparr>ld_queue := q\<rparr>) \<and>
       (\<exists>run'. oget r' (eg_runs e') = Some run' \<and> started_by_firing run' fid r' f now) \<and>
       eg_effects e' = eg_effects e @ [EFinished (finished_record run oc now)]"
proof -
  let ?fid = "rr_flow_id (rn_record run)"
  let ?u = "upd_loaded ?fid (\<lambda>l. l\<lparr>ld_queue := q\<rparr>) (close_run r run oc now e)"
  obtain r' e' where s: "start_run env ?fid f now ?u = (r', e')" by fastforce
  have u: "oget ?fid (eg_flows ?u) = Some (l\<lparr>ld_queue := q\<rparr>)" "eg_ids ?u = eg_ids e"
      "eg_effects ?u = eg_effects e @ [EFinished (finished_record run oc now)]"
    using assms(2) by (simp_all add: upd_loaded_def close_run_def push_effect_def)
  have "finish env r oc now e = e'"
    using assms s by (simp add: finish_def Let_def next_turn_def)
  then show ?thesis
    using start_run_started[OF u(1) s] u by (auto simp: Let_def)
qed

end
