(* ===== verification/EngineTokens.thy ===== *)
theory EngineTokens
  imports EngineOps
begin

text \<open>
  What happens to the tokens of one run: passing, forking, stopping, failing, joining, and the
  step limit.
\<close>

section \<open>Reading a run through a write\<close>

named_theorems run_reads \<open>the run an operation leaves\<close>

definition run_at :: "string \<Rightarrow> engine \<Rightarrow> run option" where
  "run_at r e = oget r (eg_runs e)"

lemma run_at_upd [run_reads]: "run_at r (upd_run r f e) = map_option f (run_at r e)"
  by (simp add: run_at_def upd_run_def)

lemma run_at_ready [run_reads]: "run_at r (e\<lparr>eg_ready := q\<rparr>) = run_at r e"
  by (simp add: run_at_def)

lemma run_at_other [run_reads]:
  "run_at r (schedule ts tm e) = run_at r e" "run_at r (push_effect x e) = run_at r e"
  "run_at r (e\<lparr>eg_next_call := n\<rparr>) = run_at r e"
  by (simp_all add: run_at_def schedule_def push_effect_def)

lemma fields_with_step [simp]:
  "rn_joins (run_with_step t f run) = rn_joins run" "rn_error (run_with_step t f run) = rn_error run"
  "rn_stopped (run_with_step t f run) = rn_stopped run" "rn_flow (run_with_step t f run) = rn_flow run"
  "rn_next_token (run_with_step t f run) = rn_next_token run" "rn_vars (run_with_step t f run) = rn_vars run"
  by (simp_all add: run_with_step_def upd_record_def split: option.split)

lemma fields_add_ending [simp]:
  "rn_tokens (add_ending n p run) = rn_tokens run" "rn_joins (add_ending n p run) = rn_joins run"
  "rn_error (add_ending n p run) = rn_error run" "rn_stopped (add_ending n p run) = rn_stopped run"
  "rn_flow (add_ending n p run) = rn_flow run" "rn_next_token (add_ending n p run) = rn_next_token run"
  "rn_vars (add_ending n p run) = rn_vars run"
  by (simp_all add: add_ending_def upd_record_def)

lemma run_at_with_step [run_reads]: "run_at r (with_step r t f e) = map_option (run_with_step t f) (run_at r e)"
  by (simp add: with_step_def run_reads)

lemma run_at_remove [run_reads]:
  "run_at r (remove_token r t e) = map_option (\<lambda>run. run\<lparr>rn_tokens := odel t (rn_tokens run)\<rparr>) (run_at r e)"
  by (simp add: remove_token_def run_reads)

lemma run_at_set_doing [run_reads]:
  "run_at r (set_doing r t d e)
   = map_option (\<lambda>run. run\<lparr>rn_tokens := omod t (\<lambda>tok. tok\<lparr>tk_doing := d\<rparr>) (rn_tokens run)\<rparr>) (run_at r e)"
  by (simp add: set_doing_def upd_token_def run_reads)

definition leave_run :: "string \<Rightarrow> port \<Rightarrow> run \<Rightarrow> run" where
  "leave_run n p run =
     (let ws = wires_from (rn_flow run) n p in
      if ws = [] then add_ending n (Some p) run else fold spawn ws run)"

lemma run_at_leave [run_reads]: "run_at r (leave r n p e) = map_option (leave_run n p) (run_at r e)"
  by (simp add: leave_def leave_run_def Let_def run_at_def upd_run_def split: option.split)

lemma get_token_run_at: "get_token r t e = Option.bind (run_at r e) (\<lambda>run. oget t (rn_tokens run))"
  by (simp add: get_token_def run_at_def)

section \<open>Passing\<close>

text \<open>The tokens that go on by some wires: numbered from the run's next token on, each ready at the
  wire's end.\<close>

definition new_tokens :: "nat \<Rightarrow> wire list \<Rightarrow> (nat \<times> token) list" where
  "new_tokens k ws =
     map (\<lambda>(i, w). (i, \<lparr>tk_node = w_to w, tk_via = Some w, tk_step = None, tk_doing = Ready\<rparr>)) (enumerate k ws)"

lemma new_tokens_Nil [simp]: "new_tokens k [] = []"
  by (simp add: new_tokens_def)

lemma reached_fresh: "reached env engine_new e \<Longrightarrow> oget r (eg_runs e) = Some run \<Longrightarrow> fresh_tokens run"
  using tokens_inv.I_reached[of env engine_new e] by (auto simp: tokens_ok_def engine_new_def)

lemma oput_last: "\<forall>k' \<in> set (okeys m). k' < k \<Longrightarrow> oput k v m = m @ [(k, v)]"
  by (induction k v m rule: oput.induct) auto

lemma spawn_all:
  assumes "fresh_tokens run"
  shows "rn_tokens (fold spawn ws run) = rn_tokens run @ new_tokens (rn_next_token run) ws"
    and "rn_next_token (fold spawn ws run) = rn_next_token run + length ws"
    and "rn_joins (fold spawn ws run) = rn_joins run" "rn_error (fold spawn ws run) = rn_error run"
      "rn_stopped (fold spawn ws run) = rn_stopped run" "rn_flow (fold spawn ws run) = rn_flow run"
proof -
  have "rn_tokens (fold spawn ws run) = rn_tokens run @ new_tokens (rn_next_token run) ws \<and>
      rn_next_token (fold spawn ws run) = rn_next_token run + length ws \<and>
      rn_joins (fold spawn ws run) = rn_joins run \<and> rn_error (fold spawn ws run) = rn_error run \<and>
      rn_stopped (fold spawn ws run) = rn_stopped run \<and> rn_flow (fold spawn ws run) = rn_flow run"
    using assms
  proof (induction ws arbitrary: run)
    case (Cons w ws)
    have put: "rn_tokens (spawn w run) = rn_tokens run @
        [(rn_next_token run, \<lparr>tk_node = w_to w, tk_via = Some w, tk_step = None, tk_doing = Ready\<rparr>)]"
      using Cons.prems by (simp add: spawn_def oput_last fresh_tokens_def)
    have "fresh_tokens (spawn w run)"
      unfolding fresh_tokens_def put using Cons.prems by (auto simp: fresh_tokens_def okeys_def spawn_def)
    from Cons.IH[OF this] put show ?case by (simp add: spawn_def new_tokens_def)
  qed (simp add: new_tokens_def)
  then show "rn_tokens (fold spawn ws run) = rn_tokens run @ new_tokens (rn_next_token run) ws"
    and "rn_next_token (fold spawn ws run) = rn_next_token run + length ws"
    and "rn_joins (fold spawn ws run) = rn_joins run" "rn_error (fold spawn ws run) = rn_error run"
      "rn_stopped (fold spawn ws run) = rn_stopped run" "rn_flow (fold spawn ws run) = rn_flow run"
    by auto
qed

lemma fresh_odel: "fresh_tokens run \<Longrightarrow> fresh_tokens (run\<lparr>rn_tokens := odel t (rn_tokens run)\<rparr>)"
  by (auto simp: fresh_tokens_def)

lemma pass_token_run:
  assumes "run_at r e = Some run" "oget t (rn_tokens run) = Some tok" "fresh_tokens run"
  shows "\<exists>run'. run_at r (pass_token r t p now e) = Some run' \<and>
    rn_tokens run' = odel t (rn_tokens run) @
      new_tokens (rn_next_token run) (wires_from (rn_flow run) (tk_node tok) p) \<and>
    rn_joins run' = rn_joins run \<and> rn_error run' = rn_error run \<and> rn_stopped run' = rn_stopped run \<and>
    rn_flow run' = rn_flow run \<and>
    rn_next_token run' = rn_next_token run + length (wires_from (rn_flow run) (tk_node tok) p)"
proof -
  let ?s = "run_with_step t (\<lambda>s. s\<lparr>rs_finished_at := Some now, rs_port := Some p\<rparr>) run"
  have "fresh_tokens (?s\<lparr>rn_tokens := odel t (rn_tokens run)\<rparr>)"
    using assms(3) by (auto simp: fresh_tokens_def)
  note sp = spawn_all[OF this]
  have "run_at r (pass_token r t p now e) = Some (leave_run (tk_node tok) p (?s\<lparr>rn_tokens := odel t (rn_tokens run)\<rparr>))"
    using assms by (simp add: pass_token_def Let_def run_reads get_token_run_at)
  then show ?thesis
    by (auto simp: leave_run_def Let_def sp)
qed

text \<open>A token that goes on by a port becomes one ready token for every wire from that port, in
  the wires' order, and is gone itself; the run's other tokens stay as they are.\<close>

lemma token_forks_per_wire:
  assumes "reached env engine_new e" "oget r (eg_runs e) = Some run" "oget t (rn_tokens run) = Some tok"
  shows "let ws = wires_from (rn_flow run) (tk_node tok) p; e' = pass_token r t p now e in
    map_option rn_tokens (oget r (eg_runs e')) = Some (odel t (rn_tokens run) @ new_tokens (rn_next_token run) ws) \<and>
    eg_ready e' = eg_ready e @ map (\<lambda>i. (r, rn_next_token run + i)) [0..<length ws]"
proof -
  have "eg_ready (pass_token r t p now e) = eg_ready e
      @ map (\<lambda>i. (r, rn_next_token run + i)) [0..<length (wires_from (rn_flow run) (tk_node tok) p)]"
    using assms
    by (simp add: pass_token_def Let_def get_token_def leave_def with_step_def remove_token_def upd_run_def)
  then show ?thesis
    using pass_token_run[of r e run t tok p now] assms(2,3) reached_fresh[OF assms(1,2)]
    by (auto simp: run_at_def Let_def)
qed

section \<open>Stopping\<close>

lemma cut_others_tokens:
  assumes "run_at r e = Some run"
  shows "\<exists>run'. run_at r (fold (cut_other r t now) ts e) = Some run' \<and>
    rn_tokens run' = fold odel ts (rn_tokens run) \<and> rn_stopped run' = rn_stopped run"
  using assms
proof (induction ts arbitrary: e run)
  case (Cons t' ts)
  have "\<exists>run1. run_at r (cut_other r t now t' e) = Some run1 \<and> rn_tokens run1 = odel t' (rn_tokens run)
      \<and> rn_stopped run1 = rn_stopped run"
    using Cons.prems by (simp add: cut_other_def run_reads)
  then obtain run1 where 1: "run_at r (cut_other r t now t' e) = Some run1"
      "rn_tokens run1 = odel t' (rn_tokens run)" "rn_stopped run1 = rn_stopped run" by blast
  from Cons.IH[OF 1(1)] 1(2,3) show ?case by simp
qed simp

lemma fold_odel_keys: "fold odel (okeys m) m = []"
  unfolding fold_odel by (auto simp: okeys_def filter_empty_conv)

lemma step_stop_run:
  assumes "run_at r e = Some run"
  shows "\<exists>run'. run_at r (step_stop reason r t node now e) = Some run' \<and> rn_tokens run' = [] \<and>
    rn_stopped run' = Some (node, reason)"
proof -
  let ?e = "upd_run r (\<lambda>run. add_ending node None (run\<lparr>rn_stopped := Some (node, reason)\<rparr>))
      (with_step r t (\<lambda>s. s\<lparr>rs_finished_at := Some now, rs_note := Some (plain (unwrap_or reason ''stop''))\<rparr>) e)"
  obtain run1 where run1: "run_at r ?e = Some run1" "rn_stopped run1 = Some (node, reason)"
    using assms by (simp add: run_reads)
  have "run_tokens r ?e = okeys (rn_tokens run1)"
    using run1 by (simp add: run_tokens_def run_at_def)
  with cut_others_tokens[OF run1(1), of t now "okeys (rn_tokens run1)"] run1(2) show ?thesis
    by (simp add: step_stop_def Let_def fold_odel_keys)
qed

lemma run_at_open:
  assumes "run_at r e = Some run" "oget t (rn_tokens run) = Some tok"
  shows "\<exists>run'. run_at r (open_step r t now e) = Some run' \<and>
    rn_tokens run' = omod t (\<lambda>tok. tok\<lparr>tk_step := Some (length (rr_steps (rn_record run)))\<rparr>) (rn_tokens run) \<and>
    rn_flow run' = rn_flow run \<and> rn_error run' = rn_error run \<and> rn_joins run' = rn_joins run \<and>
    rn_next_token run' = rn_next_token run \<and> rn_stopped run' = rn_stopped run \<and> rn_vars run' = rn_vars run"
  using assms by (simp add: open_step_def Let_def run_at_def upd_run_def upd_record_def)

text \<open>C12. A stop ends the whole run: a token that steps at one leaves the run with no tokens and
  its outcome is \<open>stopped\<close> at that node (not \<open>completed\<close>), whatever the other paths were doing and
  whatever had failed before.\<close>

theorem stop_ends_the_run:
  assumes "oget r (eg_runs e) = Some run" "oget t (rn_tokens run) = Some tok" "tk_doing tok = Ready"
    and "oget (tk_node tok) (fl_nodes (rn_flow run)) = Some (NStop reason)"
    and "length (rr_steps (rn_record run)) < max_steps"
  shows "\<exists>run'. oget r (eg_runs (step env r t now e)) = Some run' \<and> rn_tokens run' = [] \<and>
    run_outcome_of run' = Stopped (tk_node tok) reason"
proof -
  have "step env r t now e = step_stop reason r t (tk_node tok) now (open_step r t now e)"
    using assms by (simp add: step_def step_node_def)
  moreover obtain run1 where "run_at r (open_step r t now e) = Some run1"
    using run_at_open[of r e run t tok now] assms(1,2) by (auto simp: run_at_def)
  ultimately show ?thesis
    using step_stop_run[of r "open_step r t now e" run1 reason t "tk_node tok" now]
    by (auto simp: run_at_def run_outcome_of_def)
qed

section \<open>Failing\<close>

text \<open>C15. A call that failed goes on by its error port when something is wired to it, and the run
  carries on as if nothing failed; when nothing is, that path ends there, the others go on, and
  the run's error is its first one.\<close>

theorem failed_call_takes_error_port:
  assumes "reached env engine_new e" "oget r (eg_runs e) = Some run" "oget t (rn_tokens run) = Some tok"
  shows "let ws = wires_from (rn_flow run) (tk_node tok) Error in
    \<exists>run'. oget r (eg_runs (answer_call r t (Err m) now e)) = Some run' \<and>
      rn_tokens run' = odel t (rn_tokens run) @ new_tokens (rn_next_token run) ws \<and>
      rn_error run' = (if ws = [] then or_else (rn_error run) (Some (tk_node tok, m)) else rn_error run)"
proof -
  define d where "d = with_step r t (\<lambda>s. s\<lparr>rs_call := map_option (\<lambda>c. c\<lparr>cd_result := Some (Err m)\<rparr>) (rs_call s)\<rparr>) e"
  obtain run1 where run1: "run_at r d = Some run1" "rn_tokens run1 = rn_tokens run" "rn_flow run1 = rn_flow run"
      "rn_error run1 = rn_error run" "rn_next_token run1 = rn_next_token run"
    using assms(2) [folded run_at_def] by (simp add: d_def run_reads)
  have fresh: "fresh_tokens run1" using reached_fresh[OF assms(1,2)] run1 by (simp add: fresh_tokens_def)
  show ?thesis
  proof (cases "wires_from (rn_flow run) (tk_node tok) Error = []")
    case True
    have "answer_call r t (Err m) now e =
        upd_run r (\<lambda>run. first_error (tk_node tok) m (add_ending (tk_node tok) (Some Error) run))
          (remove_token r t (with_step r t (\<lambda>s. s\<lparr>rs_finished_at := Some now, rs_port := Some Error\<rparr>) d))"
      using True assms run1 by (simp add: answer_call_def Let_def run_at_def flip: d_def)
    then have "\<exists>run'. run_at r (answer_call r t (Err m) now e) = Some run' \<and>
        rn_tokens run' = odel t (rn_tokens run) \<and> rn_error run' = or_else (rn_error run) (Some (tk_node tok, m))"
      using run1 by (simp add: run_reads first_error_def)
    with True show ?thesis by (auto simp: run_at_def new_tokens_def)
  next
    case False
    have "answer_call r t (Err m) now e = pass_token r t Error now d"
      using False assms run1 by (simp add: answer_call_def Let_def run_at_def flip: d_def)
    with pass_token_run[OF run1(1) _ fresh, of t tok Error now] assms(3) run1 False show ?thesis
      by (auto simp: run_at_def)
  qed
qed

end
