(* ===== verification/EngineJoins.thy ===== *)
theory EngineJoins
  imports EngineTokens
begin

text \<open>
  Where paths come together: joins that wait for every path or let the first go on, and the step
  limit that ends every path of a run.
\<close>

section \<open>Ending tokens\<close>

lemma end_token_run:
  assumes "run_at r e = Some run" "oget t (rn_tokens run) = Some tok"
  shows "\<exists>run'. run_at r (end_token r t now e) = Some run' \<and> rn_tokens run' = odel t (rn_tokens run) \<and>
    rn_joins run' = rn_joins run \<and> rn_error run' = rn_error run \<and> rn_stopped run' = rn_stopped run"
  using assms by (simp add: end_token_def Let_def run_reads get_token_run_at)

lemma end_token_missing:
  assumes "run_at r e = Some run" "oget t (rn_tokens run) = None"
  shows "run_at r (end_token r t now e) = Some run"
  using assms by (simp add: end_token_def Let_def run_reads get_token_run_at run_with_step_def)

lemma odel_absent: "oget t m = None \<Longrightarrow> odel t m = m"
  by (auto simp: odel_def oget_None_iff okeys_def intro!: filter_True)

lemma end_tokens_run:
  assumes "run_at r e = Some run"
  shows "\<exists>run'. run_at r (fold (\<lambda>t. end_token r t now) ts e) = Some run' \<and>
    rn_tokens run' = fold odel ts (rn_tokens run) \<and> rn_error run' = rn_error run \<and>
    rn_stopped run' = rn_stopped run"
  using assms
proof (induction ts arbitrary: e run)
  case (Cons t ts)
  have "\<exists>run1. run_at r (end_token r t now e) = Some run1 \<and> rn_tokens run1 = odel t (rn_tokens run) \<and>
      rn_error run1 = rn_error run \<and> rn_stopped run1 = rn_stopped run"
  proof (cases "oget t (rn_tokens run)")
    case None
    with Cons.prems end_token_missing[of r e run t now] show ?thesis by (simp add: odel_absent)
  next
    case (Some tok)
    with Cons.prems end_token_run[of r e run t tok now] show ?thesis by blast
  qed
  then obtain run1 where 1: "run_at r (end_token r t now e) = Some run1" "rn_tokens run1 = odel t (rn_tokens run)"
      "rn_error run1 = rn_error run" "rn_stopped run1 = rn_stopped run" by blast
  from Cons.IH[OF 1(1)] 1(2-4) show ?case by simp
qed simp

text \<open>C13. The step limit: a token that would take a run's 257th step ends every path of the run,
  and the run's outcome is that error at the token's node.\<close>

theorem step_limit_ends_the_run:
  assumes "oget r (eg_runs e) = Some run" "oget t (rn_tokens run) = Some tok" "tk_doing tok = Ready"
    and "oget (tk_node tok) (fl_nodes (rn_flow run)) = Some n" "rn_stopped run = None"
    and "256 \<le> length (rr_steps (rn_record run))"
  shows "\<exists>run'. oget r (eg_runs (step env r t now e)) = Some run' \<and> rn_tokens run' = [] \<and>
    run_outcome_of run' = ErrorAt (tk_node tok) too_many_steps"
proof -
  let ?e = "upd_run r (\<lambda>run. run\<lparr>rn_error := Some (tk_node tok, too_many_steps)\<rparr>) e"
  have at: "run_at r ?e = Some (run\<lparr>rn_error := Some (tk_node tok, too_many_steps)\<rparr>)"
    using assms(1) by (simp add: run_at_def upd_run_def)
  then have "run_tokens r ?e = okeys (rn_tokens run)"
    by (simp add: run_tokens_def run_at_def)
  moreover have "step env r t now e = fold (\<lambda>t. end_token r t now) (run_tokens r ?e) ?e"
    using assms by (simp add: step_def max_steps_def Let_def)
  ultimately show ?thesis
    using end_tokens_run[OF at, of now "okeys (rn_tokens run)"] assms(5)
    by (auto simp: fold_odel_keys run_at_def run_outcome_of_def)
qed

section \<open>A join that completes\<close>

lemma merge_tokens_run:
  assumes "run_at r e = Some run"
  shows "\<exists>run'. run_at r (fold (merge_token r now) ts e) = Some run' \<and>
    rn_tokens run' = fold odel ts (rn_tokens run) \<and> rn_joins run' = rn_joins run \<and>
    rn_flow run' = rn_flow run \<and> rn_next_token run' = rn_next_token run \<and>
    rn_error run' = rn_error run \<and> rn_stopped run' = rn_stopped run"
  using assms
proof (induction ts arbitrary: e run)
  case (Cons t ts)
  have "\<exists>run1. run_at r (merge_token r now t e) = Some run1 \<and> rn_tokens run1 = odel t (rn_tokens run) \<and>
      rn_joins run1 = rn_joins run \<and> rn_flow run1 = rn_flow run \<and> rn_next_token run1 = rn_next_token run \<and>
      rn_error run1 = rn_error run \<and> rn_stopped run1 = rn_stopped run"
    using Cons.prems by (simp add: merge_token_def run_reads)
  then obtain run1 where 1: "run_at r (merge_token r now t e) = Some run1" "rn_tokens run1 = odel t (rn_tokens run)"
      "rn_joins run1 = rn_joins run \<and> rn_flow run1 = rn_flow run \<and> rn_next_token run1 = rn_next_token run \<and>
      rn_error run1 = rn_error run \<and> rn_stopped run1 = rn_stopped run" by blast
  from Cons.IH[OF 1(1)] 1(2,3) show ?case by simp
qed simp

lemma ready_merge: "eg_ready (fold (merge_token r now) ts e) = eg_ready e"
  by (induction ts arbitrary: e) (simp_all add: merge_token_def remove_token_def with_step_def upd_run_def)

definition passed_join :: "join_state \<Rightarrow> join_state" where
  "passed_join j = j\<lparr>js_passed := True, js_deadline := None\<rparr>"

lemma odel_omod: "odel k (omod k f m) = odel k m"
  by (induction m) (auto simp: odel_def omod_def)

lemma oget_fold_odel: "oget k (fold odel ks m) = (if k \<in> set ks then None else oget k m)"
  by (induction ks arbitrary: m) auto

definition others :: "nat set \<Rightarrow> (nat, token) omap \<Rightarrow> (nat, token) omap" where
  "others ts m = filter (\<lambda>p. fst p \<notin> ts) m"

lemma complete_join_run:
  assumes run: "run_at r e = Some run" "fresh_tokens run"
    and tok: "oget through (rn_tokens run) = Some tok" "tk_node tok = node"
    and join: "oget node (rn_joins run) = Some j"
  shows "\<exists>run'. run_at r (complete_join r through node p what now e) = Some run' \<and>
    rn_tokens run' = others (insert through (set (ovals (js_arrived j)))) (rn_tokens run) @
      new_tokens (rn_next_token run) (wires_from (rn_flow run) node p) \<and>
    oget node (rn_joins run') = Some (passed_join j)"
proof -
  let ?parked = "filter (\<lambda>t. t \<noteq> through) (ovals (js_arrived j))"
  let ?e1 = "upd_run r (upd_join node (\<lambda>j. j\<lparr>js_passed := True, js_deadline := None\<rparr>)) e"
  have e1: "run_at r ?e1 = Some (upd_join node (\<lambda>j. j\<lparr>js_passed := True, js_deadline := None\<rparr>) run)"
    using run by (simp add: run_reads)
  from merge_tokens_run[OF e1, of now ?parked]
  obtain run2 where run2: "run_at r (fold (merge_token r now) ?parked ?e1) = Some run2"
      "rn_tokens run2 = fold odel ?parked (rn_tokens run)" "rn_flow run2 = rn_flow run"
      "rn_joins run2 = omod node (\<lambda>j. j\<lparr>js_passed := True, js_deadline := None\<rparr>) (rn_joins run)"
      "rn_next_token run2 = rn_next_token run"
    by (auto simp: upd_join_def)
  let ?e3 = "with_step r through (set_note what) (set_doing r through Ready (fold (merge_token r now) ?parked ?e1))"
  obtain run3 where run3: "run_at r ?e3 = Some run3"
      "rn_tokens run3 = omod through (\<lambda>tok. tok\<lparr>tk_doing := Ready\<rparr>) (fold odel ?parked (rn_tokens run))"
      "rn_flow run3 = rn_flow run" "rn_joins run3 = rn_joins run2" "rn_next_token run3 = rn_next_token run"
    using run2 by (simp add: run_reads)
  have toks: "fold odel ?parked (rn_tokens run) = others (set ?parked) (rn_tokens run)"
    by (simp add: fold_odel others_def)
  have "oget through (rn_tokens run3) = Some (tok\<lparr>tk_doing := Ready\<rparr>)"
    using tok(1) by (simp add: run3(2) oget_fold_odel)
  moreover have "fresh_tokens run3"
    using run(2) by (auto simp: fresh_tokens_def run3 toks others_def okeys_def omod_def)
  moreover have "odel through (rn_tokens run3) = others (insert through (set (ovals (js_arrived j)))) (rn_tokens run)"
    by (auto simp: run3(2) toks odel_omod) (auto simp: others_def odel_def intro!: filter_cong)
  moreover have "parked_at r node e = ovals (js_arrived j)"
    using run join by (simp add: parked_at_def run_at_def)
  ultimately show ?thesis
    using pass_token_run[OF run3(1), of through "tok\<lparr>tk_doing := Ready\<rparr>" p now] join tok(2)
    by (auto simp: complete_join_def Let_def run3 run2(4) passed_join_def)
qed

section \<open>Arriving at a join\<close>

text \<open>What a run remembers of a join: which token came by which wire.\<close>

definition join_of :: "string \<Rightarrow> run \<Rightarrow> join_state" where
  "join_of node run = unwrap_or (oget node (rn_joins run)) join_default"

definition missing_wires :: "flow \<Rightarrow> string \<Rightarrow> (wire, nat) omap \<Rightarrow> wire list" where
  "missing_wires f node arrived = filter (\<lambda>w. oget w arrived = None) (wires_into f node)"

lemma join_entry_fields [simp]:
  "oget node (rn_joins (join_entry node run)) = Some (join_of node run)"
  "rn_tokens (join_entry n run) = rn_tokens run" "rn_flow (join_entry n run) = rn_flow run"
  "rn_next_token (join_entry n run) = rn_next_token run"
  by (auto simp: join_entry_def join_of_def oget_oput)

lemma upd_join_fields [simp]:
  "rn_tokens (upd_join n f run) = rn_tokens run" "rn_flow (upd_join n f run) = rn_flow run"
  "rn_next_token (upd_join n f run) = rn_next_token run"
  "rn_joins (upd_join n f run) = omod n f (rn_joins run)"
  by (simp_all add: upd_join_def)

text \<open>The engine right after a token's wire has been noted, deadline and all.\<close>

definition noted :: "env \<Rightarrow> string \<Rightarrow> string \<Rightarrow> (wire, nat) omap \<Rightarrow> bool \<Rightarrow> int option \<Rightarrow> int \<Rightarrow> engine \<Rightarrow> engine" where
  "noted env r node arrived fst_here timeout_ms now e =
     (let e = upd_run r (upd_join node (\<lambda>j. j\<lparr>js_arrived := arrived\<rparr>)) (upd_run r (join_entry node) e)
      in case timeout_ms of
           Some ms \<Rightarrow>
             if fst_here then
               schedule (plus_ms env now ms) (TmJoin r node)
                 (upd_run r (upd_join node (\<lambda>j. j\<lparr>js_deadline := Some (plus_ms env now ms)\<rparr>)) e)
             else e
         | None \<Rightarrow> e)"

lemma noted_run:
  assumes "run_at r e = Some run"
  shows "\<exists>run1 j. run_at r (noted env r node arrived fst_here ms now e) = Some run1 \<and>
    rn_tokens run1 = rn_tokens run \<and> rn_flow run1 = rn_flow run \<and> rn_next_token run1 = rn_next_token run \<and>
    oget node (rn_joins run1) = Some j \<and> js_arrived j = arrived \<and> js_passed j = js_passed (join_of node run)"
  using assms by (simp add: noted_def Let_def run_reads split: option.split)

lemma arrive_all:
  assumes "run_at r e = Some run" "oget t (rn_tokens run) = Some tok" "tk_via tok = Some w"
    and "\<not> js_passed (join_of node run)"
  shows "arrive env r t node JoinAll ms now e =
    (let arrived = oput w t (js_arrived (join_of node run));
         e' = noted env r node arrived (js_arrived (join_of node run) = []) ms now e;
         missing = length (missing_wires (rn_flow run) node arrived)
     in if missing = 0 then complete_join r t node Out (plain ''every path is here'') now e'
        else with_step r t
          (set_note (Msg (if missing = 1 then ''waiting for {} more path'' else ''waiting for {} more paths'')
            [MInt (int missing)])) (set_doing r t Joined e'))"
  using assms
  by (simp add: arrive_def run_at_def noted_def join_of_def missing_wires_def Let_def split: option.split)

text \<open>C14. A join that waits for every path: a token that comes in while a wire into the join is
  still missing stays there, joined, and nothing goes on; when its wire was the last, every token
  that was waiting there is merged with it and one token per wire of \<open>out\<close> goes on.\<close>

theorem join_waits_for_every_path:
  assumes "reached env engine_new e" "oget r (eg_runs e) = Some run" "oget t (rn_tokens run) = Some tok"
    and "tk_node tok = node" "tk_via tok = Some w" "\<not> js_passed (join_of node run)"
    and "arrived = oput w t (js_arrived (join_of node run))"
  shows "\<exists>run' j. oget r (eg_runs (arrive env r t node JoinAll ms now e)) = Some run' \<and>
    oget node (rn_joins run') = Some j \<and> js_arrived j = arrived \<and>
    (if \<exists>w' \<in> set (wires_into (rn_flow run) node). oget w' arrived = None
     then \<not> js_passed j \<and> rn_tokens run' = omod t (\<lambda>tok. tok\<lparr>tk_doing := Joined\<rparr>) (rn_tokens run)
     else js_passed j \<and> rn_tokens run' = others (insert t (set (ovals arrived))) (rn_tokens run) @
            new_tokens (rn_next_token run) (wires_from (rn_flow run) node Out))"
proof -
  have at: "run_at r e = Some run" using assms(2) by (simp add: run_at_def)
  let ?e = "noted env r node arrived (js_arrived (join_of node run) = []) ms now e"
  obtain run1 j where 1: "run_at r ?e = Some run1" "rn_tokens run1 = rn_tokens run"
      "rn_flow run1 = rn_flow run" "rn_next_token run1 = rn_next_token run"
      "oget node (rn_joins run1) = Some j" "js_arrived j = arrived" "\<not> js_passed j"
    using noted_run[OF at, of env node arrived] assms(6) by metis
  have fresh: "fresh_tokens run1"
    using reached_fresh[OF assms(1,2)] 1 by (simp add: fresh_tokens_def)
  have missing: "length (missing_wires (rn_flow run) node arrived) = 0
      \<longleftrightarrow> \<not> (\<exists>w' \<in> set (wires_into (rn_flow run) node). oget w' arrived = None)"
    by (auto simp: missing_wires_def filter_empty_conv)
  show ?thesis
  proof (cases "\<exists>w' \<in> set (wires_into (rn_flow run) node). oget w' arrived = None")
    case True
    with missing arrive_all[OF at assms(3,5,6)] 1 show ?thesis
      by (auto simp: Let_def assms(7) [symmetric] run_reads simp flip: run_at_def)
  next
    case False
    with missing have "arrive env r t node JoinAll ms now e
        = complete_join r t node Out (plain ''every path is here'') now ?e"
      using arrive_all[OF at assms(3,5,6)] by (simp add: Let_def assms(7) [symmetric])
    moreover obtain run' where "run_at r (complete_join r t node Out (plain ''every path is here'') now ?e) = Some run'"
        "rn_tokens run' = others (insert t (set (ovals arrived))) (rn_tokens run) @
           new_tokens (rn_next_token run) (wires_from (rn_flow run) node Out)"
        "oget node (rn_joins run') = Some (passed_join j)"
      using complete_join_run[OF 1(1) fresh _ assms(4) 1(5), of t Out "plain ''every path is here''" now] assms(3) 1
      by auto
    ultimately show ?thesis
      using False 1(6) by (intro exI[of _ run'] exI[of _ "passed_join j"]) (simp add: passed_join_def run_at_def)
  qed
qed

text \<open>A token that reaches a join which has already gone on ends there: its run has one token
  fewer, nothing new is ready, and the join stays as it was. So it is for both kinds of join.\<close>

lemma late_arrival_ends:
  assumes "oget r (eg_runs e) = Some run" "oget t (rn_tokens run) = Some tok"
    and "oget node (rn_joins run) = Some j" "js_passed j"
  shows "\<exists>run'. oget r (eg_runs (arrive env r t node m ms now e)) = Some run' \<and>
    rn_tokens run' = odel t (rn_tokens run) \<and> rn_joins run' = rn_joins run \<and>
    eg_ready (arrive env r t node m ms now e) = eg_ready e"
proof -
  let ?e = "upd_run r (join_entry node) e"
  have "join_entry node run = run" using assms(3) by (simp add: join_entry_def)
  then have at: "run_at r ?e = Some run" using assms(1) by (simp add: run_reads) (simp add: run_at_def)
  have "\<exists>what. arrive env r t node m ms now e = end_token r t now (with_step r t (set_note what) ?e)"
    using assms by (auto simp: arrive_def Let_def split: join_mode.split)
  then obtain what where a: "arrive env r t node m ms now e = end_token r t now (with_step r t (set_note what) ?e)"
    by blast
  have "run_at r (with_step r t (set_note what) ?e) = Some (run_with_step t (set_note what) run)"
    unfolding run_at_with_step at by simp
  from end_token_run[OF this, of t tok now] assms(2)
  show ?thesis
    by (auto simp: a run_at_def ready_end_token) (simp add: with_step_def upd_run_def)
qed

end
