(* ===== verification/EngineTriggers.thy ===== *)
theory EngineTriggers
  imports EngineHolds EngineJoins
begin

text \<open>
  When a state trigger fires. \<open>edge\<close> is the rule in one sentence, \<open>state_trigger_edge\<close> says the
  handler keeps to it; a trigger that must hold fires when its time is up and never sleeps over it.
\<close>

section \<open>The rule\<close>

definition new_read :: "env \<Rightarrow> state_trigger \<Rightarrow> engine \<Rightarrow> json" where
  "new_read env st e = rd_value (read_of_field (ev_time env) (st_entity st) (st_field st) (eg_states e))"

definition is_level :: "state_trigger \<Rightarrow> bool" where
  "is_level st \<longleftrightarrow> st_above st \<noteq> None \<or> st_below st \<noteq> None"

text \<open>The entity can be read; something changed (for an event, it happened again); and the change
  came into the level from outside it, or went from and to the values asked for.\<close>

definition edge :: "env \<Rightarrow> state_trigger \<Rightarrow> entity_state option \<Rightarrow> entity_state \<Rightarrow> json \<Rightarrow> bool" where
  "edge env st old new nv \<longleftrightarrow>
     es_availability new = Available \<and> es_state new \<noteq> None \<and> (st_field st \<noteq> None \<longrightarrow> nv \<noteq> JNull) \<and>
     (if entity_id_kind (st_entity st) = Some K_Event
      then (\<exists>s. old = Some s \<and> es_last_changed s \<noteq> es_last_changed new)
      else old = None \<or> old_value env old (st_field st) \<noteq> nv) \<and>
     (if is_level st
      then inside_level (st_above st) (st_below st) nv \<and>
        (old = None \<or> \<not> inside_level (st_above st) (st_below st) (old_value env old (st_field st)))
      else (\<forall>w. st_from st = Some w \<longrightarrow> any_matches w (old_value env old (st_field st))) \<and>
        (\<forall>w. st_to st = Some w \<longrightarrow> any_matches w nv))"

definition untouched :: "engine \<Rightarrow> engine \<Rightarrow> bool" where
  "untouched e e' \<longleftrightarrow> eg_runs e' = eg_runs e \<and> eg_timers e' = eg_timers e \<and> eg_ready e' = eg_ready e \<and>
     (\<forall>fid l'. oget fid (eg_flows e') = Some l' \<longrightarrow> (\<exists>l. oget fid (eg_flows e) = Some l \<and>
        ld_queue l' = ld_queue l \<and> set (ld_holds l') \<subseteq> set (ld_holds l)))"

lemma untouched_refl [simp]: "untouched e e"
  by (auto simp: untouched_def)

lemma untouched_cancel [simp]: "untouched e (cancel_hold fid node e)"
  by (auto simp: untouched_def cancel_hold_def upd_loaded_def odel_def split: if_splits)

lemma untouched_miss [simp]: "untouched e (near_miss_at fid node k m rs now e') = untouched e e'"
  by (simp add: untouched_def near_miss_at_def push_effect_def)

text \<open>The parts of the rule: there is nothing to read, it is what was there before, and where it was and
  is now.\<close>

definition nothing_read :: "env \<Rightarrow> state_trigger \<Rightarrow> entity_state \<Rightarrow> engine \<Rightarrow> bool" where
  "nothing_read env st new e \<longleftrightarrow> es_availability new = Unavailable \<or> es_state new = None \<or>
     st_field st \<noteq> None \<and> new_read env st e = JNull"

definition same_again :: "env \<Rightarrow> state_trigger \<Rightarrow> entity_state option \<Rightarrow> entity_state \<Rightarrow> engine \<Rightarrow> bool" where
  "same_again env st old new e \<longleftrightarrow>
     (if entity_id_kind (st_entity st) = Some K_Event then is_none_or old (\<lambda>s. es_last_changed s = es_last_changed new)
      else old \<noteq> None \<and> old_value env old (st_field st) = new_read env st e)"

definition left_from :: "env \<Rightarrow> state_trigger \<Rightarrow> entity_state option \<Rightarrow> bool" where
  "left_from env st old \<longleftrightarrow>
     (if is_level st then \<not> inside_level (st_above st) (st_below st) (old_value env old (st_field st)) \<or> old = None
      else is_none_or (st_from st) (\<lambda>w. any_matches w (old_value env old (st_field st))))"

definition came_to :: "env \<Rightarrow> state_trigger \<Rightarrow> engine \<Rightarrow> bool" where
  "came_to env st e \<longleftrightarrow>
     (if is_level st then inside_level (st_above st) (st_below st) (new_read env st e)
      else is_none_or (st_to st) (\<lambda>w. any_matches w (new_read env st e)))"

lemma edge_parts:
  "edge env st old new (new_read env st e) \<longleftrightarrow>
     \<not> nothing_read env st new e \<and> \<not> same_again env st old new e \<and> left_from env st old \<and> came_to env st e"
  unfolding edge_def nothing_read_def same_again_def left_from_def came_to_def
  by (cases "es_availability new"; cases old; cases "is_level st") (auto simp: is_none_or_iff)

lemma state_trigger_stays:
  assumes "nothing_read env st new e \<or> same_again env st old new e"
  shows "untouched e (state_trigger_fires env fid node st old new now e)"
proof -
  note fires = state_trigger_fires_def [of env fid node st old new now e, unfolded Let_def new_read_def [symmetric]]
  show ?thesis
  proof (cases "nothing_read env st new e")
    case True
    show ?thesis
    proof (cases "es_availability new = Unavailable \<or> es_state new = None")
      case True
      then show ?thesis unfolding fires by simp
    next
      case False
      moreover from this True have "st_field st \<noteq> None \<and> new_read env st e = JNull" by (auto simp: nothing_read_def)
      ultimately show ?thesis unfolding fires by simp
    qed
  next
    case False
    with assms have same: "same_again env st old new e" by simp
    from False have read: "\<not> (es_availability new = Unavailable \<or> es_state new = None)"
        "\<not> (st_field st \<noteq> None \<and> new_read env st e = JNull)"
      by (simp_all add: nothing_read_def)
    show ?thesis
    proof (cases "entity_id_kind (st_entity st) = Some K_Event")
      case True
      with same have "is_none_or old (\<lambda>s. es_last_changed s = es_last_changed new)" by (simp add: same_again_def)
      with read True show ?thesis unfolding fires by simp
    next
      case other: False
      with same have "old \<noteq> None \<and> old_value env old (st_field st) = new_read env st e" by (simp add: same_again_def)
      with read other show ?thesis unfolding fires by simp
    qed
  qed
qed

lemma state_trigger_moves:
  fixes fid node :: string and now :: int
  assumes "\<not> nothing_read env st new e" and "\<not> same_again env st old new e"
  defines "e' \<equiv> state_trigger_fires env fid node st old new now e"
  shows "(\<exists>nt rd. e' = trigger_edge env fid node st (left_from env st old) (came_to env st e) (new_read env st e) nt rd new now e)
    \<or> e' = e \<and> \<not> left_from env st old"
proof -
  let ?nv = "new_read env st e" and ?ov = "old_value env old (st_field st)"
  let ?event = "entity_id_kind (st_entity st) = Some K_Event"
  let ?inside = "inside_level (st_above st) (st_below st)"
  let ?note = "if ?event then Msg ''{}: {}'' [plain (st_entity st), words ?nv]
                    else Msg ''{} went {} -> {}'' [watched st, words ?ov, words ?nv]"
  let ?rd = "read_of_field (ev_time env) (st_entity st) (st_field st) (eg_states e)"
  let ?go = "trigger_edge env fid node st (left_from env st old) (came_to env st e) ?nv ?note ?rd new now e"
  note fires = state_trigger_fires_def [of env fid node st old new now e, unfolded Let_def new_read_def [symmetric]]
  have not_same: "\<not> (?event \<and> is_none_or old (\<lambda>s. es_last_changed s = es_last_changed new))"
      "\<not> (\<not> ?event \<and> old \<noteq> None \<and> ?ov = ?nv)"
    using assms(2) by (auto simp: same_again_def)
  have read: "\<not> (es_availability new = Unavailable \<or> es_state new = None)" "\<not> (st_field st \<noteq> None \<and> ?nv = JNull)"
    using assms(1) by (auto simp: nothing_read_def)
  have "e' = (if is_level st then (if ?inside ?nv \<and> ?inside ?ov \<and> old \<noteq> None then e else ?go) else ?go)"
    using not_same read unfolding e'_def fires left_from_def came_to_def is_level_def
    by (simp only: if_False simp_thms) (cases "st_above st \<noteq> None \<or> st_below st \<noteq> None"; simp only: if_False if_True simp_thms)
  then show ?thesis by (auto simp: left_from_def split: if_splits)
qed

lemma trigger_edge_rest: "\<not> (a \<and> b) \<Longrightarrow> untouched e (trigger_edge env fid node st a b nv nt rd new now e)"
  by (subst trigger_edge_def, subst if_not_P, assumption) simp

text \<open>C6. A state trigger keeps to the rule: on an edge it fires, with the change's context as its
  cause, or starts to hold; on any other report no run starts, no firing is queued, nothing new
  is timed, and nothing starts to hold. A change to a value that is unknown (\<open>null\<close>) is no edge, whatever
  the trigger asks for: one that waits for \<open>null\<close>, or for any change from a value, does not fire on it.\<close>

theorem state_trigger_edge:
  "let e' = state_trigger_fires env fid node st old new now e in
   if edge env st old new (new_read env st e)
   then (case st_hold st of
           Some h \<Rightarrow> let until = plus_ms env now (dur_millis h)
             in e' = schedule until (TmHold fid node) (set_hold fid node until e)
         | None \<Rightarrow> \<exists>f. e' = snd (fire_now env fid f now e) \<and> fg_trigger f = node \<and>
             fg_cause f = Some (cx_id (es_context new)))
   else untouched e e'"
proof (cases "edge env st old new (new_read env st e)")
  case True
  with edge_parts have ok: "\<not> nothing_read env st new e" "\<not> same_again env st old new e" and "left_from env st old" "came_to env st e"
    by metis+
  with state_trigger_moves[OF ok, of fid node now] obtain nt rd where
    "state_trigger_fires env fid node st old new now e = trigger_edge env fid node st True True (new_read env st e) nt rd new now e"
    by auto
  then show ?thesis
    by (simp add: True Let_def trigger_edge_def set_hold_def split: option.split) auto
next
  case False
  have "untouched e (state_trigger_fires env fid node st old new now e)"
  proof (cases "nothing_read env st new e \<or> same_again env st old new e")
    case moving: False
    then have "\<not> (left_from env st old \<and> came_to env st e)" using False edge_parts by metis
    from trigger_edge_rest[OF this] state_trigger_moves[of env st new e old fid node now] moving
    show ?thesis by (metis untouched_refl)
  qed (rule state_trigger_stays)
  with False show ?thesis by (simp add: Let_def)
qed

section \<open>Holding\<close>

lemma holds_ok_new: "holds_ok engine_new"
  by (simp add: holds_ok_def unheld_def engine_new_def)

text \<open>C5. No hold is overslept: once the engine has been told the time, every trigger that is still
  holding has its time up later.\<close>

theorem no_hold_overslept:
  assumes "reached env engine_new e" "oget node (holding fid (advance env now e)) = Some u"
  shows "now < u"
proof -
  let ?e = "advance env now e"
  have r: "reached env engine_new ?e"
    using reached_handle[OF assms(1), of Advance now] by simp
  from assms(2) obtain l where "oget fid (eg_flows ?e) = Some l" "oget node (ld_holds l) = Some u"
    by (auto simp: holding_def split: option.splits)
  from holds_okD[OF holds_inv.I_reached[OF r holds_ok_new] this]
  obtain k where "(u, k, TmHold fid node) \<in> set (eg_timers ?e)" by blast
  from advance_past[OF assms(1) this] show ?thesis by simp
qed

end
