(* ===== verification/Examples.thy ===== *)
theory Examples
  imports EngineTriggers
begin

text \<open>
  A small home to try theorems on: a calendar with the one zone UTC, no expressions, services
  that take no data, versions that name the mode, and a few flows. The definitions come first;
  then the theorems' instances at them, and what three flows show of the engine.
\<close>

section \<open>A calendar\<close>

definition days_of :: "civil_date \<Rightarrow> int" where
  "days_of d =
     (let m = cd_month d;
          y = (if m \<le> 2 then cd_year d - 1 else cd_year d);
          era = y div 400; yoe = y mod 400;
          doy = (153 * (if 2 < m then m - 3 else m + 9) + 2) div 5 + cd_day d - 1
      in era * 146097 + yoe * 365 + yoe div 4 - yoe div 100 + doy - 719468)"

definition date_of :: "int \<Rightarrow> civil_date" where
  "date_of days =
     (let z = days + 719468; era = z div 146097; doe = z mod 146097;
          yoe = (doe - doe div 1460 + doe div 36524 - doe div 146096) div 365;
          doy = doe - (365 * yoe + yoe div 4 - yoe div 100);
          mp = (5 * doy + 2) div 153;
          m = (if mp < 10 then mp + 3 else mp - 9)
      in \<lparr>cd_year = yoe + era * 400 + (if m \<le> 2 then 1 else 0), cd_month = m,
          cd_day = doy - (153 * mp + 2) div 5 + 1\<rparr>)"

definition weekday_of :: "int \<Rightarrow> weekday" where
  "weekday_of days = [Thu, Fri, Sat, Sun, Mon, Tue, Wed] ! nat (days mod 7)"

definition seconds_of :: "date_time \<Rightarrow> int" where
  "seconds_of dt = days_of (dt_date dt) * 86400 + dt_hour dt * 3600 + dt_minute dt * 60 + dt_second dt"

definition civil_of :: "int \<Rightarrow> date_time" where
  "civil_of ts =
     (let s = ts div 1000000000; r = s mod 86400
      in \<lparr>dt_date = date_of (s div 86400), dt_hour = r div 3600, dt_minute = r div 60 mod 60, dt_second = r mod 60\<rparr>)"

definition utc_time :: time_library where
  "utc_time = \<lparr>
     day_exists = (\<lambda>y m d. days_of \<lparr>cd_year = y, cd_month = m, cd_day = d\<rparr>
       < days_of (if m = 12 then \<lparr>cd_year = y + 1, cd_month = 1, cd_day = 1\<rparr>
                  else \<lparr>cd_year = y, cd_month = m + 1, cd_day = 1\<rparr>)),
     instant_text = (\<lambda>_. []), instant_parse = (\<lambda>_. None),
     tl_zone_known = (\<lambda>z. z = ''UTC''),
     tl_civil = (\<lambda>_. civil_of),
     tl_offset = (\<lambda>_ _. Unambiguous 0),
     tl_to_timestamp = (\<lambda>off dt. Some ((seconds_of dt - off) * 1000000000)),
     tl_tomorrow = (\<lambda>d. Some (date_of (days_of d + 1))),
     tl_yesterday = (\<lambda>d. Some (date_of (days_of d - 1))),
     tl_weekday = (\<lambda>d. weekday_of (days_of d)),
     tl_days = (\<lambda>d. Some (days_of d)),
     tl_utc_date = (\<lambda>ts. dt_date (civil_of ts)),
     tl_add_millis = (\<lambda>ts ms. Some (ts + ms * 1000000)),
     tl_from_millis = (\<lambda>ms. Some (ms * 1000000)),
     tl_sun_minutes = (\<lambda>_ _ _ _. None)\<rparr>"

definition utc :: place where
  "utc = \<lparr>pl_name = ''UTC'', pl_coordinates = None\<rparr>"

section \<open>The rest of what the engine is given\<close>

definition no_cel :: cel_library where
  "no_cel = \<lparr>cel_alphanumeric = (\<lambda>c. 48 \<le> c \<and> c \<le> 57 \<or> 65 \<le> c \<and> c \<le> 90 \<or> 97 \<le> c \<and> c \<le> 122),
     cel_compile = (\<lambda>_. Ok ()), cel_exec = (\<lambda>_ _ rds. (Ok (CelBool True), rds))\<rparr>"

definition plain_services :: service_table where
  "plain_services = \<lparr>sv_takes_data = (\<lambda>_. False), sv_number_field = (\<lambda>_ _. None), sv_validate_data = (\<lambda>_ _. Ok ())\<rparr>"

fun mode_name :: "mode \<Rightarrow> string" where
  "mode_name (Named Single) = ''s''"
| "mode_name (Named Restart) = ''r''"
| "mode_name (Limited (Queued n)) = CHR ''q'' # replicate n CHR ''1''"
| "mode_name (Limited (Parallel n)) = CHR ''p'' # replicate n CHR ''1''"

definition home :: env where
  "home = \<lparr>ev_libs = \<lparr>lib_time = utc_time, lib_cel = no_cel\<rparr>, ev_services = plain_services,
     ev_version = (\<lambda>f. mode_name (fl_mode f)),
     ev_mint = (\<lambda>n _. CHR ''i'' # replicate n CHR ''1'')\<rparr>"

section \<open>Two flows\<close>

definition wire_from :: "string \<Rightarrow> port \<Rightarrow> string \<Rightarrow> wire" where
  "wire_from a p b = Wire (PortRef a p) b"

definition flow_of :: "string \<Rightarrow> mode \<Rightarrow> (string \<times> node) list \<Rightarrow> wire list \<Rightarrow> flow" where
  "flow_of fid m nodes wires = \<lparr>fl_id = fid, fl_name = fid, fl_description = None, fl_owner = None,
     fl_enabled = True, fl_mode = m, fl_nodes = nodes, fl_wires = wires, fl_layout = [], fl_groups = []\<rparr>"

definition arm_of :: "flow \<Rightarrow> arm" where
  "arm_of f = \<lparr>am_flow = f, am_problems = []\<rparr>"

text \<open>On start-up, wait ten seconds, then stop.\<close>

definition slow :: "mode \<Rightarrow> flow" where
  "slow m = flow_of ''s'' m
     [(''a'', NTrigger TrStartup), (''b'', NDelay ''10s''), (''c'', NStop (Some ''done''))]
     [wire_from ''a'' Out ''b'', wire_from ''b'' Out ''c'']"

definition slow_started :: "mode \<Rightarrow> engine" where
  "slow_started m = handle_all home [(SetFlows [arm_of (slow m)], 0), (Start, 0), (Start, 5)] engine_new"

definition busy :: engine where
  "busy = slow_started (Limited (Queued 1))"

definition one_run :: "engine \<Rightarrow> run" where
  "one_run e = snd (hd (eg_runs e))"

definition some_firing :: firing where
  "some_firing = \<lparr>fg_trigger = ''a'', fg_cause = None, fg_test = None, fg_by = None, fg_note = plain ''x'', fg_reads = []\<rparr>"

text \<open>A flow that forks in two, one path to a stop and one to a join of everything.\<close>

definition forked :: flow where
  "forked = flow_of ''f'' (Named Single)
     [(''a'', NTrigger TrStartup), (''b'', NDelay ''1s''), (''c'', NDelay ''2s''), (''j'', NJoin JoinAll None),
      (''s'', NStop None)]
     [wire_from ''a'' Out ''b'', wire_from ''a'' Out ''c'', wire_from ''b'' Out ''j'', wire_from ''c'' Out ''j'',
      wire_from ''j'' Out ''s'']"

definition fork_started :: engine where
  "fork_started = handle_all home [(SetFlows [arm_of forked], 0), (Start, 0)] engine_new"

text \<open>A run whose first step is a stop.\<close>

definition ready_to_stop :: engine where
  "ready_to_stop = snd (start_run home ''e'' some_firing 0
     (swap_flows home 0 [arm_of (flow_of ''e'' (Named Single)
       [(''a'', NTrigger TrStartup), (''c'', NStop (Some ''done''))] [wire_from ''a'' Out ''c''])] engine_new))"

definition calls :: flow where
  "calls = flow_of ''c'' (Named Single)
     [(''a'', NTrigger TrStartup), (''b'', NCall \<lparr>rs_kind = K_Light, rs_action = ''turn_on''\<rparr> ''light.desk'' None)]
     [wire_from ''a'' Out ''b'']"

definition called :: engine where
  "called = handle_all home [(SetFlows [arm_of calls], 0), (Start, 0)] engine_new"

definition worn_out :: engine where
  "worn_out = upd_run ''i'' (upd_record (\<lambda>rec. rec\<lparr>rr_steps := replicate 256 (hd (rr_steps rec))\<rparr>)) ready_to_stop"

definition one_there :: engine where
  "one_there = handle home Advance 1000000000 fork_started"

definition raced :: flow where
  "raced = flow_of ''r'' (Named Single)
     [(''a'', NTrigger TrStartup), (''b'', NDelay ''1s''), (''c'', NDelay ''2s''), (''j'', NJoin JoinFirst None)]
     [wire_from ''a'' Out ''b'', wire_from ''a'' Out ''c'', wire_from ''b'' Out ''j'', wire_from ''c'' Out ''j'']"

definition race_won :: engine where
  "race_won = handle_all home [(SetFlows [arm_of raced], 0), (Start, 0), (Advance, 1000000000)] engine_new"

text \<open>A lamp whose brightness must stay above 100 for five seconds.\<close>

definition lamp :: "nat \<Rightarrow> int \<Rightarrow> entity_state" where
  "lamp b ts = \<lparr>es_entity = ''light.desk'', es_availability = Available,
     es_state = Some (Light \<lparr>lt_on = True, lt_brightness = Some b, lt_color_mode = None,
       lt_color_temp_kelvin = None, lt_rgb = None\<rparr>),
     es_attributes = [], es_last_changed = ts, es_last_updated = ts, es_last_reported = ts,
     es_context = \<lparr>cx_id = ''x'', cx_parent = None, cx_origin = OriginSystem\<rparr>\<rparr>"

definition bright :: state_trigger where
  "bright = \<lparr>st_entity = ''light.desk'', st_field = Some ''brightness'', st_from = None, st_to = None,
     st_above = Some (Fin 100), st_below = None, st_hold = Some ''5s''\<rparr>"

definition dimmer :: flow where
  "dimmer = flow_of ''d'' (Named Single) [(''a'', NTrigger (TrState bright)), (''b'', NDelay ''10s'')]
     [wire_from ''a'' Out ''b'']"

definition dimmer_held :: engine where
  "dimmer_held = handle_all home
     [(SetFlows [arm_of dimmer], 0), (StateChanged (Some (lamp 50 0)) (lamp 200 1), 1)] engine_new"

text \<open>Two paths meet at \<open>m\<close>, so two tokens come to the join \<open>j\<close> by the same wire.\<close>

definition twice :: flow where
  "twice = flow_of ''t'' (Named Single)
     [(''a'', NTrigger TrStartup), (''b'', NSet ''x'' ''1''), (''c'', NSet ''x'' ''1''), (''d'', NSet ''x'' ''1''),
      (''j'', NJoin JoinAll None), (''m'', NSet ''x'' ''1'')]
     [wire_from ''a'' Out ''m'', wire_from ''a'' Out ''b'', wire_from ''a'' Out ''c'',
      wire_from ''b'' Out ''m'', wire_from ''c'' Out ''d'', wire_from ''m'' Out ''j'', wire_from ''d'' Out ''j'']"

definition twice_run :: engine where
  "twice_run = handle_all home [(SetFlows [arm_of twice], 0), (Start, 0)] engine_new"

definition unwired :: flow where
  "unwired = flow_of ''q'' (Limited (Queued 2))
     [(''a'', NTrigger TrStartup), (''b'', NStop None), (''z'', NTrigger TrStartup)]
     [wire_from ''a'' Out ''b'']"

definition unwired_run :: engine where
  "unwired_run = handle_all home [(SetFlows [arm_of unwired], 0), (Start, 0)] engine_new"

section \<open>Instances\<close>

text \<open>What the definitions evaluate to: each engine is evaluated once.\<close>

lemma example_facts:
  shows "let e = busy in
      (fst (hd (eg_runs e)) = ''i'' \<and> eg_runs e \<noteq> []) \<and>
      (case fst (fire home ''s'' ''b'' None 6 e) of Inl _ \<Rightarrow> True | Inr _ \<Rightarrow> False) \<and>
      (map_option (fl_mode \<circ> ld_flow) (oget ''s'' (eg_flows e)) = Some (Limited (Queued 1)) \<and> 0 < running ''s'' e) \<and>
      (case oget ''i'' (eg_runs e) of None \<Rightarrow> False | Some run \<Rightarrow>
      (case oget (rr_flow_id (rn_record run)) (eg_flows e) of None \<Rightarrow> False | Some l \<Rightarrow>
         ld_queue l \<noteq> [] \<and> \<not> leaves_queue (unwrap_or None (run_outcome_of run)) \<and> ev_mint home (eg_ids e) 6 = ''i1''))"
    and "let e = advance home 1 busy in
      (eg_timers e \<noteq> []) \<and>
      (case oget ''i'' (eg_runs e) of None \<Rightarrow> False | Some run \<Rightarrow>
      (case oget 1 (rn_tokens run) of None \<Rightarrow> False | Some tok \<Rightarrow>
         (case tk_doing tok of Delaying u \<Rightarrow> True | _ \<Rightarrow> False)))"
    and "let e = slow_started (Named Restart) in
      (map_option (fl_mode \<circ> ld_flow) (oget ''s'' (eg_flows e)) = Some (Named Restart))"
    and "let e = fork_started in
      (case oget ''i'' (eg_runs e) of None \<Rightarrow> False | Some run \<Rightarrow>
      (case oget 1 (rn_tokens run) of None \<Rightarrow> False | Some tok \<Rightarrow>
        length (wires_from (rn_flow run) (tk_node tok) Out) = 1 \<and> rn_next_token run = 3 \<and> eg_ready e = []))"
    and "let e = ready_to_stop in
      (case oget ''i'' (eg_runs e) of None \<Rightarrow> False | Some run \<Rightarrow>
      (case oget 1 (rn_tokens run) of None \<Rightarrow> False | Some tok \<Rightarrow>
         tk_doing tok = Ready \<and> tk_node tok = ''c'' \<and>
         oget (tk_node tok) (fl_nodes (rn_flow run)) = Some (NStop (Some ''done'')) \<and>
         length (rr_steps (rn_record run)) < max_steps))"
    and "let e = worn_out in
      (case oget ''i'' (eg_runs e) of None \<Rightarrow> False | Some run \<Rightarrow>
      (case oget 1 (rn_tokens run) of None \<Rightarrow> False | Some tok \<Rightarrow>
         tk_doing tok = Ready \<and> tk_node tok = ''c'' \<and>
         oget (tk_node tok) (fl_nodes (rn_flow run)) = Some (NStop (Some ''done'')) \<and> rn_stopped run = None \<and>
         length (rr_steps (rn_record run)) = 256))"
    and "let e = called in
      (case oget ''i'' (eg_runs e) of None \<Rightarrow> False | Some run \<Rightarrow>
      (case oget 1 (rn_tokens run) of None \<Rightarrow> False | Some tok \<Rightarrow>
        wires_from (rn_flow run) (tk_node tok) Error = [] \<and> okeys (rn_tokens run) = [1] \<and> tk_node tok = ''b'' \<and>
        rn_error run = None))"
    and "let e = one_there in
      (case oget ''i'' (eg_runs e) of None \<Rightarrow> False | Some run \<Rightarrow>
      (case oget 3 (rn_tokens run) of None \<Rightarrow> False | Some tok \<Rightarrow>
         tk_node tok = ''j'' \<and> tk_via tok = Some (wire_from ''b'' Out ''j'') \<and> \<not> js_passed (join_of ''j'' run) \<and>
         wire_from ''c'' Out ''j'' \<in> set (wires_into (rn_flow run) ''j'') \<and>
         oget (wire_from ''c'' Out ''j'') (oput (wire_from ''b'' Out ''j'') 3 (js_arrived (join_of ''j'' run))) = None \<and>
         oget (wire_from ''b'' Out ''j'') (oput (wire_from ''b'' Out ''j'') 3 (js_arrived (join_of ''j'' run))) = Some 3))"
    and "let e = race_won in
      (case oget ''i'' (eg_runs e) of None \<Rightarrow> False | Some run \<Rightarrow>
      (case (oget 2 (rn_tokens run), oget ''j'' (rn_joins run)) of
         (Some tok, Some j) \<Rightarrow> js_passed j | _ \<Rightarrow> False))"
    and "let e = advance home 2000000000 dimmer_held in
      (oget ''a'' (holding ''d'' e) \<noteq> None)"
    and "let e = advance home 6000000000 dimmer_held in
      (case oget ''i'' (eg_runs e) of None \<Rightarrow> False
     | Some run \<Rightarrow> map rd_value (rs_reads (hd (rr_steps (rn_record run)))) = [JBool True]) \<and>
      (new_read home bright e = JFloat 200)"
    and "let e = twice_run in
      (map_option (\<lambda>run. map tk_doing (ovals (rn_tokens run))) (oget ''i'' (eg_runs e)) = Some [Joined]) \<and>
      (Option.bind (oget ''i'' (eg_runs e)) (\<lambda>run. map_option js_passed (oget ''j'' (rn_joins run))) = Some True) \<and>
      (eg_timers e = []) \<and>
      (case oget ''t'' (eg_flows e) of None \<Rightarrow> False
      | Some l \<Rightarrow> fl_mode (ld_flow l) = Named Single \<and> runs_of ''t'' e \<noteq> [])"
    and "let e = unwired_run in
      (case oget ''i1'' (eg_runs e) of None \<Rightarrow> False | Some run \<Rightarrow>
      rn_tokens run = [] \<and> rr_trigger (rn_record run) = ''z'') \<and>
      (eg_timers e = []) \<and>
      (eg_ready e = [])"
  by code_simp+

lemma mode_name_inject: "mode_name a = mode_name b \<Longrightarrow> a = b"
  by (cases a rule: mode_name.cases; cases b rule: mode_name.cases) (auto dest: arg_cong[where f = length])

lemma home_versions: "versions_fix_mode home"
  by (auto simp: versions_fix_mode_def home_def dest: mode_name_inject)

lemma slow_started_reached: "reached home engine_new (slow_started m)"
  by (simp add: slow_started_def reached_handle_all)

lemma busy_reached: "reached home engine_new busy"
  by (simp add: busy_def slow_started_reached)

theorem runs_within_mode_witness:
  "running ''s'' busy \<le> 2"
proof -
  have "map_option (fl_mode \<circ> ld_flow) (oget ''s'' (eg_flows busy))
      = Some (Limited (Queued 1))" using example_facts(1) [unfolded Let_def] by simp
  then obtain l where l: "oget ''s'' (eg_flows busy) = Some l"
      "fl_mode (ld_flow l) = Limited (Queued 1)" by auto
  show ?thesis
    using runs_within_mode[OF home_versions busy_reached l(1)] by (simp add: l(2) run_limit_def)
qed

lemma slow_run: "oget ''i'' (eg_runs busy) = Some (one_run busy)"
proof -
  have "fst (hd (eg_runs busy)) = ''i'' \<and> eg_runs busy \<noteq> []" by (rule example_facts(1) [unfolded Let_def, THEN conjunct1])
  then show ?thesis
    by (cases "eg_runs busy") (auto simp: one_run_def)
qed

theorem records_well_formed_witness: "record_ok (rn_record (one_run busy))"
  using records_well_formed[OF busy_reached] slow_run by blast

theorem advance_leaves_nothing_due_witness:
  "1 < fst (hd (eg_timers (advance home 1 busy)))"
proof -
  have "eg_timers (advance home 1 busy) \<noteq> []" by (rule example_facts(2) [unfolded Let_def, THEN conjunct1])
  then have "hd (eg_timers (advance home 1 busy))
      \<in> set (eg_timers (advance home 1 busy))" by simp
  then show ?thesis by (rule advance_leaves_nothing_due[OF busy_reached])
qed

theorem nothing_overslept_witness:
  "\<exists>run tok u. oget ''i'' (eg_runs (advance home 1 busy)) = Some run \<and>
    oget 1 (rn_tokens run) = Some tok \<and> tk_doing tok = Delaying u \<and> 1 < u"
proof -
  have "case oget ''i'' (eg_runs (advance home 1 busy)) of None \<Rightarrow> False | Some run \<Rightarrow>
      (case oget 1 (rn_tokens run) of None \<Rightarrow> False | Some tok \<Rightarrow>
         (case tk_doing tok of Delaying u \<Rightarrow> True | _ \<Rightarrow> False))" by (rule example_facts(2) [unfolded Let_def, THEN conjunct2])
  then obtain run tok u where *: "oget ''i'' (eg_runs (advance home 1 busy)) = Some run"
      "oget 1 (rn_tokens run) = Some tok" "tk_doing tok = Delaying u"
    by (auto split: option.splits doing.splits)
  moreover have "1 < u" using nothing_overslept[OF busy_reached *(1,2)] *(3) by blast
  ultimately show ?thesis by blast
qed

theorem dry_engine_never_calls_witness:
  "ECall 0 [] None [] \<lparr>rs_kind = K_Light, rs_action = ''turn_on''\<rparr> None \<notin> set (eg_effects (handle_all home [(SetFlows [arm_of (slow (Named Single))], 0), (Start, 0)] engine_dry))"
  by (rule dry_engine_never_calls[OF reached_handle_all])

theorem runs_belong_to_armed_flows_witness:
  "is_armed (rr_flow_id (rn_record (one_run busy))) busy"
  using runs_belong_to_armed_flows[OF busy_reached slow_run] by (auto intro: is_armedI)

theorem busy_queue_takes_or_drops_witness:
  "fst (fire_now home ''s'' some_firing 6 busy) = None"
proof -
  let ?e = "busy"
  have "map_option (fl_mode \<circ> ld_flow) (oget ''s'' (eg_flows ?e)) = Some (Limited (Queued 1)) \<and> 0 < running ''s'' ?e" by (rule example_facts(1) [unfolded Let_def, THEN conjunct2, THEN conjunct2, THEN conjunct1])
  then obtain l where l: "oget ''s'' (eg_flows ?e) = Some l" "fl_mode (ld_flow l) = Limited (Queued 1)"
      "0 < running ''s'' ?e" by auto
  obtain s e' where f: "fire_now home ''s'' some_firing 6 ?e = (s, e')" by fastforce
  from busy_queue_takes_or_drops[OF l f] f show ?thesis by simp
qed

theorem ended_run_gives_turn_witness:
  "\<exists>run'. oget ''i1'' (eg_runs (finish home ''i'' None 6 busy)) = Some run'"
proof -
  let ?e = "busy"
  have "case oget ''i'' (eg_runs ?e) of None \<Rightarrow> False | Some run \<Rightarrow>
      (case oget (rr_flow_id (rn_record run)) (eg_flows ?e) of None \<Rightarrow> False | Some l \<Rightarrow>
         ld_queue l \<noteq> [] \<and> \<not> leaves_queue (unwrap_or None (run_outcome_of run)) \<and> ev_mint home (eg_ids ?e) 6 = ''i1'')" by (rule example_facts(1) [unfolded Let_def, THEN conjunct2, THEN conjunct2, THEN conjunct2])
  then obtain run l f q where *: "oget ''i'' (eg_runs ?e) = Some run"
      "oget (rr_flow_id (rn_record run)) (eg_flows ?e) = Some l" "ld_queue l = f # q"
      "\<not> leaves_queue (unwrap_or None (run_outcome_of run))" "ev_mint home (eg_ids ?e) 6 = ''i1''"
    by (auto split: option.splits simp: neq_Nil_conv)
  from ended_run_gives_turn[OF *(1-4), of home 6] *(5) show ?thesis by (auto simp: Let_def)
qed

lemma fork_reached: "reached home engine_new fork_started"
  by (simp add: fork_started_def reached_handle_all)

theorem stop_ends_the_run_witness:
  "\<exists>run'. oget ''i'' (eg_runs (step home ''i'' 1 1 ready_to_stop)) = Some run' \<and>
    run_outcome_of run' = Stopped ''c'' (Some ''done'')"
proof -
  have "case oget ''i'' (eg_runs ready_to_stop) of None \<Rightarrow> False | Some run \<Rightarrow>
      (case oget 1 (rn_tokens run) of None \<Rightarrow> False | Some tok \<Rightarrow>
         tk_doing tok = Ready \<and> tk_node tok = ''c'' \<and>
         oget (tk_node tok) (fl_nodes (rn_flow run)) = Some (NStop (Some ''done'')) \<and>
         length (rr_steps (rn_record run)) < max_steps)" by (rule example_facts(5) [unfolded Let_def])
  then obtain run tok where *: "oget ''i'' (eg_runs ready_to_stop) = Some run" "oget 1 (rn_tokens run) = Some tok"
      "tk_doing tok = Ready" "oget (tk_node tok) (fl_nodes (rn_flow run)) = Some (NStop (Some ''done''))"
      "length (rr_steps (rn_record run)) < max_steps" "tk_node tok = ''c''"
    by (auto split: option.splits)
  from stop_ends_the_run[OF *(1-5), of home 1] *(6) show ?thesis by auto
qed

theorem failed_call_takes_error_port_witness:
  "\<exists>run'. oget ''i'' (eg_runs (answer_call ''i'' 1 (Err (plain ''no'')) 5 called)) = Some run' \<and>
    rn_tokens run' = [] \<and> rn_error run' = Some (''b'', plain ''no'')"
proof -
  have "case oget ''i'' (eg_runs called) of None \<Rightarrow> False | Some run \<Rightarrow>
      (case oget 1 (rn_tokens run) of None \<Rightarrow> False | Some tok \<Rightarrow>
        wires_from (rn_flow run) (tk_node tok) Error = [] \<and> okeys (rn_tokens run) = [1] \<and> tk_node tok = ''b'' \<and>
        rn_error run = None)" by (rule example_facts(7) [unfolded Let_def])
  then obtain run tok where *: "oget ''i'' (eg_runs called) = Some run" "oget 1 (rn_tokens run) = Some tok"
      "wires_from (rn_flow run) (tk_node tok) Error = []" "okeys (rn_tokens run) = [1]" "tk_node tok = ''b''"
      "rn_error run = None"
    by (auto split: option.splits)
  have "odel 1 (rn_tokens run) = []"
    using *(4) by (auto simp: odel_def okeys_def filter_empty_conv)
  with failed_call_takes_error_port[OF reached_handle_all *(1)[unfolded called_def] *(2), of "plain ''no''" 5] *(3,5,6)
  show ?thesis by (auto simp: called_def Let_def)
qed

theorem step_limit_ends_the_run_witness:
  "\<exists>run'. oget ''i'' (eg_runs (step home ''i'' 1 1 worn_out)) = Some run' \<and> rn_tokens run' = [] \<and>
    run_outcome_of run' = ErrorAt ''c'' too_many_steps"
proof -
  have "case oget ''i'' (eg_runs worn_out) of None \<Rightarrow> False | Some run \<Rightarrow>
      (case oget 1 (rn_tokens run) of None \<Rightarrow> False | Some tok \<Rightarrow>
         tk_doing tok = Ready \<and> tk_node tok = ''c'' \<and>
         oget (tk_node tok) (fl_nodes (rn_flow run)) = Some (NStop (Some ''done'')) \<and> rn_stopped run = None \<and>
         length (rr_steps (rn_record run)) = 256)" by (rule example_facts(6) [unfolded Let_def])
  then obtain run tok where *: "oget ''i'' (eg_runs worn_out) = Some run" "oget 1 (rn_tokens run) = Some tok"
      "tk_doing tok = Ready" "oget (tk_node tok) (fl_nodes (rn_flow run)) = Some (NStop (Some ''done''))"
      "rn_stopped run = None" "256 \<le> length (rr_steps (rn_record run))" "tk_node tok = ''c''"
    by (auto split: option.splits)
  from step_limit_ends_the_run[OF *(1-6), of home 1] *(7) show ?thesis by auto
qed

lemma one_there_reached: "reached home engine_new one_there"
  unfolding one_there_def by (rule reached_handle) (rule fork_reached)

theorem join_waits_for_every_path_witness:
  "\<exists>run' j. oget ''i'' (eg_runs (arrive home ''i'' 3 ''j'' JoinAll None 5 one_there)) = Some run' \<and>
    oget ''j'' (rn_joins run') = Some j \<and> \<not> js_passed j \<and> oget (wire_from ''b'' Out ''j'') (js_arrived j) = Some 3"
proof -
  let ?w = "wire_from ''b'' Out ''j''"
  have "case oget ''i'' (eg_runs one_there) of None \<Rightarrow> False | Some run \<Rightarrow>
      (case oget 3 (rn_tokens run) of None \<Rightarrow> False | Some tok \<Rightarrow>
         tk_node tok = ''j'' \<and> tk_via tok = Some ?w \<and> \<not> js_passed (join_of ''j'' run) \<and>
         wire_from ''c'' Out ''j'' \<in> set (wires_into (rn_flow run) ''j'') \<and>
         oget (wire_from ''c'' Out ''j'') (oput ?w 3 (js_arrived (join_of ''j'' run))) = None \<and>
         oget ?w (oput ?w 3 (js_arrived (join_of ''j'' run))) = Some 3)" by (rule example_facts(8) [unfolded Let_def])
  then obtain run tok where *: "oget ''i'' (eg_runs one_there) = Some run" "oget 3 (rn_tokens run) = Some tok"
      "tk_node tok = ''j''" "tk_via tok = Some ?w" "\<not> js_passed (join_of ''j'' run)"
      "wire_from ''c'' Out ''j'' \<in> set (wires_into (rn_flow run) ''j'')"
      "oget (wire_from ''c'' Out ''j'') (oput ?w 3 (js_arrived (join_of ''j'' run))) = None"
      "oget ?w (oput ?w 3 (js_arrived (join_of ''j'' run))) = Some 3"
    by (auto split: option.splits)
  from join_waits_for_every_path[OF one_there_reached *(1-5) refl, where ms = None and now = 5] *(6-8)
  show ?thesis by (auto split: if_splits)
qed

lemma dimmer_reached: "reached home engine_new dimmer_held"
  by (simp add: dimmer_held_def reached_handle_all)

theorem no_hold_overslept_witness:
  "\<exists>u. oget ''a'' (holding ''d'' (advance home 2000000000 dimmer_held)) = Some u \<and> 2000000000 < u"
proof -
  have "oget ''a'' (holding ''d'' (advance home 2000000000 dimmer_held)) \<noteq> None" by (rule example_facts(10) [unfolded Let_def])
  then obtain u where u: "oget ''a'' (holding ''d'' (advance home 2000000000 dimmer_held)) = Some u" by blast
  from no_hold_overslept[OF dimmer_reached u] u show ?thesis by blast
qed

section \<open>A field that holds\<close>

text \<open>The run that a held field starts is shown the entity's main value, not the field that was
  held: the lamp's brightness stayed at 200, and the run's first step says the lamp read \<open>true\<close>.\<close>

lemma held_field_shows_main_value:
  "let e = advance home 6000000000 dimmer_held in
   (\<exists>run. oget ''i'' (eg_runs e) = Some run \<and> map rd_value (rs_reads (hd (rr_steps (rn_record run)))) = [JBool True]) \<and>
   new_read home bright e = JFloat 200"
proof -
  have "case oget ''i'' (eg_runs (advance home 6000000000 dimmer_held)) of None \<Rightarrow> False
     | Some run \<Rightarrow> map rd_value (rs_reads (hd (rr_steps (rn_record run)))) = [JBool True]" by (rule example_facts(11) [unfolded Let_def, THEN conjunct1])
  moreover have "new_read home bright (advance home 6000000000 dimmer_held) = JFloat 200" by (rule example_facts(11) [unfolded Let_def, THEN conjunct2])
  ultimately show ?thesis by (auto simp: Let_def split: option.splits)
qed

section \<open>Runs that nothing would ever end\<close>

text \<open>In a flow where two tokens come to a join by the same wire, the second takes the place of the first
  among those that wait, and the first is never merged: the join has gone on and that token is still
  joined there. Nothing is timed and nothing is ready, so the run goes on however far time advances,
  and in single mode the flow refuses later firings, until somebody cancels the run or changes the flow.\<close>

lemma second_token_by_a_wire_strands_the_first:
  "(\<exists>run. oget ''i'' (eg_runs twice_run) = Some run \<and> map tk_doing (ovals (rn_tokens run)) = [Joined] \<and>
      map_option js_passed (oget ''j'' (rn_joins run)) = Some True) \<and>
   advance home now twice_run = twice_run \<and>
   fst (fire_now home ''t'' f now twice_run) = None"
proof -
  have r1: "map_option (\<lambda>run. map tk_doing (ovals (rn_tokens run))) (oget ''i'' (eg_runs twice_run)) = Some [Joined]" by (rule example_facts(12) [unfolded Let_def, THEN conjunct1])
  have r2: "Option.bind (oget ''i'' (eg_runs twice_run)) (\<lambda>run. map_option js_passed (oget ''j'' (rn_joins run))) = Some True" by (rule example_facts(12) [unfolded Let_def, THEN conjunct2, THEN conjunct1])
  from r1 r2 have run: "\<exists>run. oget ''i'' (eg_runs twice_run) = Some run \<and> map tk_doing (ovals (rn_tokens run)) = [Joined] \<and>
      map_option js_passed (oget ''j'' (rn_joins run)) = Some True"
    by auto
  have timers: "eg_timers twice_run = []" by (rule example_facts(12) [unfolded Let_def, THEN conjunct2, THEN conjunct2, THEN conjunct1])
  have flow: "case oget ''t'' (eg_flows twice_run) of None \<Rightarrow> False
      | Some l \<Rightarrow> fl_mode (ld_flow l) = Named Single \<and> runs_of ''t'' twice_run \<noteq> []" by (rule example_facts(12) [unfolded Let_def, THEN conjunct2, THEN conjunct2, THEN conjunct2])
  then obtain l where "oget ''t'' (eg_flows twice_run) = Some l" "fl_mode (ld_flow l) = Named Single"
      "runs_of ''t'' twice_run \<noteq> []"
    by (auto split: option.splits)
  then have "fst (fire_now home ''t'' f now twice_run) = None"
    by (simp add: fire_now_def Let_def)
  with run advance_Nil[OF timers] show ?thesis by blast
qed

text \<open>A queued firing whose trigger has nothing wired to it becomes a run without a token when its
  turn comes, and the loop that gave it its turn has already looked for runs to finish: it stays
  going, with nothing ready and nothing timed, and no passing of time ends it.\<close>

lemma queued_unwired_run_is_left_going:
  "(\<exists>run. oget ''i1'' (eg_runs unwired_run) = Some run \<and> rn_tokens run = [] \<and>
      rr_trigger (rn_record run) = ''z'') \<and>
   eg_ready unwired_run = [] \<and> advance home now unwired_run = unwired_run"
proof -
  have run: "case oget ''i1'' (eg_runs unwired_run) of None \<Rightarrow> False | Some run \<Rightarrow>
      rn_tokens run = [] \<and> rr_trigger (rn_record run) = ''z''" by (rule example_facts(13) [unfolded Let_def, THEN conjunct1])
  have "eg_timers unwired_run = []" "eg_ready unwired_run = []" by (rule example_facts(13) [unfolded Let_def, THEN conjunct2, THEN conjunct1], rule example_facts(13) [unfolded Let_def, THEN conjunct2, THEN conjunct2])
  with run advance_Nil[of unwired_run home now] show ?thesis by (auto split: option.splits)
qed

end
