(* ===== verification/FlowSim.thy ===== *)
theory FlowSim
  imports EngineProps
begin

text \<open>
  Trying a flow without trusting it (\<open>crates/irori-flows/src/sim.rs\<close>): a dry run of one trigger,
  and a replay of what the home went through. Both drive a dry engine by its own timers, and collect
  the runs that finish.
\<close>

section \<open>The clock\<close>

text \<open>\<open>MAX_TICKS\<close>.\<close>

definition max_ticks :: nat where
  "max_ticks = 100000"

definition finished_in :: "effect list \<Rightarrow> run_record list" where
  "finished_in = List.map_filter (\<lambda>x. case x of EFinished rec \<Rightarrow> Some rec | _ \<Rightarrow> None)"

definition finished :: "engine \<Rightarrow> run_record list \<times> engine" where
  "finished e = (case take_effects e of (xs, e) \<Rightarrow> (finished_in xs, e))"

text \<open>The loop of \<open>settle\<close>, with the ticks that are left.\<close>

fun settle_ticks :: "env \<Rightarrow> nat \<Rightarrow> int option \<Rightarrow> engine \<Rightarrow> run_record list \<times> engine" where
  "settle_ticks env n until e =
     (case next_deadline e of
        None \<Rightarrow> ([], e)
      | Some next \<Rightarrow>
          if is_some_and until (\<lambda>u. u < next) then ([], e)
          else if until = None \<and> idle e then ([], e)
          else (case n of
              0 \<Rightarrow> ([], e)
            | Suc n \<Rightarrow>
                (case finished (advance env next e) of
                   (recs, e) \<Rightarrow> (case settle_ticks env n until e of (later, e) \<Rightarrow> (recs @ later, e)))))"

declare settle_ticks.simps [simp del]

definition sim_settle :: "env \<Rightarrow> int option \<Rightarrow> engine \<Rightarrow> run_record list \<times> engine" where
  "sim_settle env until e =
     (case finished e of (recs, e) \<Rightarrow>
        (case settle_ticks env max_ticks until e of (later, e) \<Rightarrow> (recs @ later, e)))"

section \<open>A dry run\<close>

text \<open>What a step makes a dry run assume, and what the run does.\<close>

definition step_assumptions :: "run_step \<Rightarrow> msg list" where
  "step_assumptions s =
     (if rs_port s = Some Timeout then
        [Msg ''{}: nothing changes during a dry run, so this waited its full time. In real life it may have gone on sooner.''
           [plain (rs_node s)]]
      else []) @
     (case rs_call s of
        Some c \<Rightarrow>
          if cd_simulated c then
            [Msg ''{}: {} {} was recorded, not sent, and assumed to work.''
               [plain (rs_node s), plain (cd_service c), plain (cd_entity c)]]
          else []
      | None \<Rightarrow> [])"

definition ended_in_error :: "run_record \<Rightarrow> bool" where
  "ended_in_error rec = (case rr_outcome rec of Some (ErrorAt _ _) \<Rightarrow> True | _ \<Rightarrow> False)"

definition assumptions :: "run_record \<Rightarrow> msg list" where
  "assumptions rec =
     remdups_adj (concat (map step_assumptions (rr_steps rec)) @
       (if ended_in_error rec then [plain ''It ended in an error; see the step it stopped at.''] else []))"

text \<open>The state an entity is made to say: an overriding JSON value, as its kind holds it.\<close>

fun json_typed :: "json \<Rightarrow> typed option" where
  "json_typed (JBool b) = Some (TBool b)"
| "json_typed (JInt i) = map_option TNumber (json_as_f64 (JInt i))"
| "json_typed (JFloat r) = map_option TNumber (json_as_f64 (JFloat r))"
| "json_typed (JStr t) = Some (TText t)"
| "json_typed _ = None"

definition pretend :: "env \<Rightarrow> entity_state \<Rightarrow> json \<Rightarrow> entity_state res" where
  "pretend env s v =
     (let wrong = Err (Msg ''{} isn't a value {} can have'' [json_msg v, plain (es_entity s)]);
          s = s\<lparr>es_availability := Available\<rparr>
      in if v = JNull then Ok (s\<lparr>es_state := None\<rparr>)
         else (case json_typed v of
             None \<Rightarrow> wrong
           | Some typed \<Rightarrow>
               (case Option.bind (entity_id_kind (es_entity s)) (\<lambda>k.
                   with_primary (date_library.truncate (ev_time env)) k (es_state s) typed) of
                  None \<Rightarrow> wrong
                | Some st \<Rightarrow> Ok (s\<lparr>es_state := Some st\<rparr>))))"

fun override :: "env \<Rightarrow> (string \<times> json) list \<Rightarrow> states \<Rightarrow> states res" where
  "override env [] ss = Ok ss"
| "override env ((entity, v) # rest) ss =
     (case oget entity ss of
        None \<Rightarrow> Err (Msg ''{} isn't in the home'' [plain entity])
      | Some s \<Rightarrow> and_then (pretend env s v) (\<lambda>s. override env rest (oput entity s ss)))"

text \<open>Both simulations arm the flow alone, turned on, in a dry engine.\<close>

definition alone :: "flow \<Rightarrow> arm list" where
  "alone f = [\<lparr>am_flow = f\<lparr>fl_enabled := True\<rparr>, am_problems = []\<rparr>]"

text \<open>What is made of the fired engine: it is followed until it is idle, and the last run that
  finished is the answer.\<close>

definition run_out :: "env \<Rightarrow> string option res \<times> engine \<Rightarrow> run_record res" where
  "run_out env fired =
     (case fired of
        (Inl m, _) \<Rightarrow> Err m
      | (Inr _, e) \<Rightarrow>
          (let recs = fst (sim_settle env None e)
           in if recs = [] then Err (plain ''the run didn't finish'')
              else let rec = List.last recs in Ok (rec\<lparr>rr_assumptions := assumptions rec\<rparr>)))"

definition dry_run :: "env \<Rightarrow> flow \<Rightarrow> string \<Rightarrow> entity_state list \<Rightarrow> (string, json) omap \<Rightarrow> place option
    \<Rightarrow> int \<Rightarrow> run_record res" where
  "dry_run env f trigger states overrides place now =
     (let e = set_place env place now engine_dry in
      and_then (override env overrides (ofold (map (\<lambda>s. (es_entity s, s)) states))) (\<lambda>ss.
        let e = load_states (ovals ss) e;
            e = set_flows env (alone f) now e
        in run_out env (fire env (fl_id f) trigger (Some Dry) now e)))"

section \<open>A backtest\<close>

text \<open>Where each entity starts, and what changed then.\<close>

definition replay_initial :: "(string, entity_state list) omap \<Rightarrow> entity_state list \<Rightarrow> entity_state list" where
  "replay_initial history baseline =
     filter (\<lambda>s. is_none_or (oget (es_entity s) history) (\<lambda>h. h = [])) baseline @
     List.map_filter (\<lambda>h. case h of [] \<Rightarrow> None | first # _ \<Rightarrow> Some first) (ovals history)"

definition replay_changes :: "(string, entity_state list) omap \<Rightarrow> entity_state list" where
  "replay_changes history = sort_key es_last_updated (concat (map (drop 1) (ovals history)))"

definition replay_start :: "env \<Rightarrow> (string, entity_state list) omap \<Rightarrow> int \<Rightarrow> int" where
  "replay_start env history to =
     (case List.map_filter (\<lambda>h. case h of [] \<Rightarrow> None | first # _ \<Rightarrow> Some (es_last_updated first)) (ovals history) of
        [] \<Rightarrow> plus_ms env to (- 86400000)
      | t # ts \<Rightarrow> fold min ts t)"

definition replay_change :: "env \<Rightarrow> entity_state \<Rightarrow> run_record list \<times> engine \<Rightarrow> run_record list \<times> engine" where
  "replay_change env s acc =
     (case acc of (recs, e) \<Rightarrow>
        (case sim_settle env (Some (es_last_updated s)) e of (settled, e) \<Rightarrow>
           (case finished (state_changed env (oget (es_entity s) (eg_states e)) s (es_last_updated s) e) of
              (then_done, e) \<Rightarrow> (recs @ settled @ then_done, e))))"

definition backtest :: "env \<Rightarrow> flow \<Rightarrow> (string, entity_state list) omap \<Rightarrow> entity_state list \<Rightarrow> place option
    \<Rightarrow> int \<Rightarrow> run_record list \<times> nat" where
  "backtest env f history baseline place to =
     (let changes = replay_changes history;
          start = replay_start env history to;
          e = load_states (replay_initial history baseline) engine_dry;
          e = set_place env place start e;
          e = set_flows env (alone f) start e
      in (case fold (replay_change env) changes ([], e) of
            (recs, e) \<Rightarrow>
              (case sim_settle env (Some to) e of
                 (settled, e) \<Rightarrow> (recs @ settled @ map fst (active None e), length changes))))"

section \<open>What is answered\<close>

text \<open>A dry engine that is asked things, and all the effects it has handed over so far.\<close>

inductive watched :: "env \<Rightarrow> engine \<Rightarrow> effect list \<Rightarrow> bool" for env where
  watched_dry: "watched env engine_dry []"
| watched_ask: "watched env e xs \<Longrightarrow> q \<noteq> TakeEffects \<Longrightarrow> watched env (handle env q now e) xs"
| watched_fire: "watched env e xs \<Longrightarrow> watched env (snd (fire env fid node test now e)) xs"
| watched_take: "watched env e xs \<Longrightarrow> watched env (e\<lparr>eg_effects := []\<rparr>) (xs @ eg_effects e)"

lemmas watched_requests =
  watched_ask[where q = "SetPlace p" for p, simplified] watched_ask[where q = "SetFlows as" for as, simplified]
  watched_ask[where q = "LoadStates ss" for ss, simplified] watched_ask[where q = Advance, simplified]
  watched_ask[where q = "StateChanged old new" for old new, simplified]

lemma finished_in_append [simp]: "finished_in (xs @ ys) = finished_in xs @ finished_in ys"
  by (simp add: finished_in_def List.map_filter_def)

lemma finished_in_Nil [simp]: "finished_in [] = []"
  by (simp add: finished_in_def List.map_filter_def)

lemma finished_in_mem [simp]: "rec \<in> set (finished_in xs) \<longleftrightarrow> EFinished rec \<in> set xs"
  by (induction xs) (auto simp: finished_in_def List.map_filter_def split: effect.splits)

text \<open>What a piece of a simulation answers is what finished among the effects handed over meanwhile.\<close>

definition answers :: "env \<Rightarrow> effect list \<Rightarrow> run_record list \<times> engine \<Rightarrow> bool" where
  "answers env xs s \<longleftrightarrow> (\<exists>ys. watched env (snd s) (xs @ ys) \<and> fst s = finished_in ys)"

lemma answers_none: "watched env e xs \<Longrightarrow> answers env xs ([], e)"
  by (auto simp: answers_def intro: exI[of _ "[]"])

lemma answers_finished: "watched env e xs \<Longrightarrow> answers env xs (finished e)"
  by (auto simp: answers_def finished_def take_effects_def intro: watched_take)

lemma answers_then:
  assumes "answers env xs (recs, e)" and "\<And>ys. watched env e ys \<Longrightarrow> answers env ys (later, e')"
  shows "answers env xs (recs @ later, e')"
proof -
  obtain ys where ys: "watched env e (xs @ ys)" "recs = finished_in ys" using assms(1) by (auto simp: answers_def)
  obtain zs where "watched env e' ((xs @ ys) @ zs)" "later = finished_in zs"
    using assms(2)[OF ys(1)] by (auto simp: answers_def)
  with ys(2) show ?thesis by (auto simp: answers_def intro!: exI[of _ "ys @ zs"])
qed

lemma answers_ticks: "watched env e xs \<Longrightarrow> answers env xs (settle_ticks env n until e)"
proof (induction n arbitrary: e xs)
  case 0
  then show ?case by (simp add: settle_ticks.simps answers_none split: option.split)
next
  case (Suc n)
  have step: "answers env xs (recs @ later, e2)"
    if "finished (advance env u e) = (recs, e1)" "settle_ticks env n until e1 = (later, e2)" for u recs e1 later e2
    using answers_then[OF answers_finished[OF watched_requests(4)[OF Suc.prems], of u, unfolded that(1)]]
      Suc.IH[of e1] that(2) by metis
  show ?case
    by (subst settle_ticks.simps) (auto simp: answers_none[OF Suc.prems] step split: option.split prod.split)
qed

lemma answers_settle:
  assumes "watched env e xs"
  shows "answers env xs (sim_settle env until e)"
proof -
  obtain recs e1 where f: "finished e = (recs, e1)" by (cases "finished e")
  obtain later e2 where l: "settle_ticks env max_ticks until e1 = (later, e2)" by fastforce
  have "answers env xs (recs @ later, e2)"
    using answers_then[OF answers_finished[OF assms, unfolded f]] answers_ticks[of env e1 _ max_ticks until] l by metis
  then show ?thesis by (simp add: sim_settle_def f l)
qed

lemma answers_replay: "answers env xs (recs, e) \<Longrightarrow> answers env xs (replay_change env s (recs, e))"
proof -
  assume so_far: "answers env xs (recs, e)"
  obtain r1 e1 where s1: "sim_settle env (Some (es_last_updated s)) e = (r1, e1)" by fastforce
  let ?e2 = "state_changed env (oget (es_entity s) (eg_states e1)) s (es_last_updated s) e1"
  obtain r2 e3 where s2: "finished ?e2 = (r2, e3)" by (cases "finished ?e2")
  have "answers env xs (recs @ r1, e1)"
    using answers_then[OF so_far] answers_settle[of env e _ "Some (es_last_updated s)"] s1 by metis
  moreover have "answers env ys (r2, e3)" if "watched env e1 ys" for ys
    using answers_finished[OF watched_requests(5)[OF that]] s2 by metis
  ultimately have "answers env xs ((recs @ r1) @ r2, e3)" by (rule answers_then)
  then show ?thesis by (simp add: replay_change_def s1 s2)
qed

lemma answers_replays: "answers env xs (recs, e) \<Longrightarrow> answers env xs (fold (replay_change env) changes (recs, e))"
proof (induction changes arbitrary: recs e)
  case (Cons s changes)
  then show ?case using answers_replay[OF Cons.prems, of s] by (cases "replay_change env s (recs, e)") simp
qed simp

text \<open>A dry run answers the last run that a watched engine handed over, and a backtest all of them and
  those still going.\<close>

lemma dry_run_watched:
  assumes "dry_run env f trigger states overrides place now = Ok rec"
  shows "\<exists>e xs as. watched env e xs \<and> finished_in xs \<noteq> [] \<and> rec = List.last (finished_in xs)\<lparr>rr_assumptions := as\<rparr>"
proof -
  obtain ss :: states where given: "run_out env (fire env (fl_id f) trigger (Some Dry) now
      (set_flows env (alone f) now (load_states (ovals ss) (set_place env place now engine_dry)))) = Ok rec"
    using assms by (auto simp: dry_run_def Let_def and_then_Inr_iff)
  obtain r e where fired: "fire env (fl_id f) trigger (Some Dry) now
      (set_flows env (alone f) now (load_states (ovals ss) (set_place env place now engine_dry))) = (r, e)" by fastforce
  have "watched env e []"
    using watched_fire[OF watched_requests(2)[OF watched_requests(3)[OF watched_requests(1)[OF watched_dry]]],
      of env "fl_id f" trigger "Some Dry" now "alone f" now "ovals ss" place now] fired by simp
  from answers_settle[OF this, of None] given show ?thesis
    by (auto simp: run_out_def fired answers_def Let_def split: sum.splits if_splits)
qed

lemma backtest_watched:
  "\<exists>e xs. watched env e xs \<and> fst (backtest env f history baseline place to) = finished_in xs @ map fst (active None e)"
proof -
  let ?start = "replay_start env history to"
  let ?e = "set_flows env (alone f) ?start (set_place env place ?start
      (load_states (replay_initial history baseline) engine_dry))"
  obtain recs e1 where f: "fold (replay_change env) (replay_changes history) ([], ?e) = (recs, e1)" by fastforce
  obtain r2 e2 where s: "sim_settle env (Some to) e1 = (r2, e2)" by fastforce
  have "watched env ?e []" by (intro watched_requests watched_dry)
  from answers_replays[OF answers_none[OF this], of "replay_changes history"] f have "answers env [] (recs, e1)" by simp
  from answers_then[OF this] answers_settle[of env e1 _ "Some to"] s have "answers env [] (recs @ r2, e2)" by metis
  then obtain xs where "watched env e2 xs" "recs @ r2 = finished_in xs" by (auto simp: answers_def)
  moreover have "fst (backtest env f history baseline place to) = (recs @ r2) @ map fst (active None e2)"
    by (simp add: backtest_def Let_def f s)
  ultimately show ?thesis by metis
qed

text \<open>An invariant of the engine that the dry engine has, and that says \<open>P\<close> of its effects, says it of
  every effect a watched engine hands over.\<close>

locale simulation = engine_invariant +
  fixes P :: "effect \<Rightarrow> bool"
  assumes I_dry: "I engine_dry"
    and P_effect: "\<And>e x. I e \<Longrightarrow> x \<in> set (eg_effects e) \<Longrightarrow> P x"
begin

lemma I_fire_given: "I e \<Longrightarrow> I (snd (fire env fid node test now e))"
  by (auto simp: fire_def case_prod_beta I_drive I_fire is_armedI split: option.split armed_state.split)

lemma watched_I: "watched env e xs \<Longrightarrow> I e \<and> (\<forall>x \<in> set xs. P x)"
  by (induction rule: watched.induct) (auto simp: I_dry I_handle I_fire_given I_taken P_effect)

end

end
