(* ===== verification/SimProps.thy ===== *)
theory SimProps
  imports Examples FlowSim "HOL-Library.Multiset"
begin

text \<open>
  What simulations promise, and one thing a dry run does not: the run it answers need not be the
  one it fired.
\<close>

section \<open>Every record that is answered\<close>

lemma engine_invariant_conj:
  assumes "engine_invariant env I" "engine_invariant env J"
  shows "engine_invariant env (\<lambda>e. I e \<and> J e)"
  using assms unfolding engine_invariant_def move_invariant_def engine_invariant_axioms_def
  by (elim conjE, intro conjI) simp_all

interpretation sims: simulation env "\<lambda>e. (records_ok e \<and> armed_ok e) \<and> dry_ok e" "\<lambda>x. effect_ok x \<and> \<not> is_call x" for env
proof (intro simulation.intro engine_invariant_conj simulation_axioms.intro)
  show "engine_invariant env records_ok" by (rule records_inv.engine_invariant_axioms)
  show "engine_invariant env armed_ok" by (rule armed_inv.engine_invariant_axioms)
  show "engine_invariant env dry_ok" by (rule dry_inv.engine_invariant_axioms)
  show "(records_ok engine_dry \<and> armed_ok engine_dry) \<and> dry_ok engine_dry"
    by (simp add: records_ok_def armed_ok_def loaded_quiet_def dry_ok_def engine_dry_def engine_new_def)
  show "effect_ok x \<and> \<not> is_call x" if "(records_ok e \<and> armed_ok e) \<and> dry_ok e" "x \<in> set (eg_effects e)" for e x
    using that by (simp add: records_ok_def dry_ok_def)
qed

lemma watched_sound:
  assumes "watched env e xs"
  shows "\<forall>x \<in> set (xs @ eg_effects e). \<not> is_call x" "\<forall>rec \<in> set (finished_in xs @ map fst (active None e)). record_ok rec"
proof -
  have i: "records_ok e" "armed_ok e" "dry_ok e" and x: "\<forall>x \<in> set xs. effect_ok x \<and> \<not> is_call x"
    using sims.watched_I[OF assms] by simp_all
  show "\<forall>x \<in> set (xs @ eg_effects e). \<not> is_call x" using x i(3) by (auto simp: dry_ok_def)
  have "record_ok rec" if "EFinished rec \<in> set xs" for rec using x that by (auto simp: effect_ok_def)
  moreover have "record_ok (rn_record run)" if "(r, run) \<in> set (eg_runs e)" for r run
    using i that by (auto simp: records_ok_def armed_ok_def oget_eq_Some)
  ultimately show "\<forall>rec \<in> set (finished_in xs @ map fst (active None e)). record_ok rec"
    by (auto simp: active_def ovals_def)
qed

text \<open>C30. A simulation calls nothing, whatever is simulated and however long it goes on. Its records
  are those that an engine which is dry from the start handed over as finished (of a dry run the last
  one, its assumptions added; of a backtest all of them, and then the runs still going at the end of
  the window), and among everything that engine handed over there is no call. Every record answered
  is well formed: between 1 and 256 steps numbered from 0, the first at its trigger. A backtest
  replays every state of the history but each entity's first, in the order of their times.\<close>

theorem simulations_answer_sound_records:
  "(dry_run env f trigger states overrides place now = Ok rec \<longrightarrow>
     (\<exists>e xs as. watched env e xs \<and> (\<forall>x \<in> set (xs @ eg_effects e). \<not> is_call x) \<and>
        finished_in xs \<noteq> [] \<and> rec = List.last (finished_in xs)\<lparr>rr_assumptions := as\<rparr> \<and> record_ok rec)) \<and>
   (\<exists>e xs. watched env e xs \<and> (\<forall>x \<in> set (xs @ eg_effects e). \<not> is_call x) \<and>
      fst (backtest env f history baseline place to) = finished_in xs @ map fst (active None e)) \<and>
   (\<forall>r \<in> set (fst (backtest env f history baseline place to)). record_ok r) \<and>
   snd (backtest env f history baseline place to) = sum_list (map (\<lambda>h. length h - 1) (ovals history)) \<and>
   sorted (map es_last_updated (replay_changes history)) \<and>
   mset (replay_changes history) = mset (concat (map (drop 1) (ovals history)))"
proof (intro conjI impI)
  assume "dry_run env f trigger states overrides place now = Ok rec"
  from dry_run_watched[OF this] obtain e xs as where
    w: "watched env e xs" "finished_in xs \<noteq> []" "rec = List.last (finished_in xs)\<lparr>rr_assumptions := as\<rparr>" by blast
  then have "record_ok (List.last (finished_in xs))" using watched_sound(2)[OF w(1)] last_in_set[OF w(2)] by (simp del: finished_in_mem)
  then have "record_ok rec" by (simp add: w(3) record_ok_def)
  with w watched_sound(1)[OF w(1)] show "\<exists>e xs as. watched env e xs \<and> (\<forall>x \<in> set (xs @ eg_effects e). \<not> is_call x) \<and>
        finished_in xs \<noteq> [] \<and> rec = List.last (finished_in xs)\<lparr>rr_assumptions := as\<rparr> \<and> record_ok rec" by blast
next
  from backtest_watched[of env f history baseline place to] obtain e xs where
    w: "watched env e xs" "fst (backtest env f history baseline place to) = finished_in xs @ map fst (active None e)" by blast
  from w watched_sound(1)[OF w(1)] show "\<exists>e xs. watched env e xs \<and> (\<forall>x \<in> set (xs @ eg_effects e). \<not> is_call x) \<and>
      fst (backtest env f history baseline place to) = finished_in xs @ map fst (active None e)" by blast
  from w(2) watched_sound(2)[OF w(1)] show "\<forall>r \<in> set (fst (backtest env f history baseline place to)). record_ok r" by simp
next
  have "snd (backtest env f history baseline place to) = length (replay_changes history)"
    by (simp add: backtest_def Let_def split: prod.split)
  also have "\<dots> = sum_list (map (\<lambda>h. length h - 1) (ovals history))"
    by (simp add: replay_changes_def length_concat comp_def)
  finally show "snd (backtest env f history baseline place to) = sum_list (map (\<lambda>h. length h - 1) (ovals history))" .
qed (simp_all add: replay_changes_def)

section \<open>Which run a dry run answers\<close>

text \<open>A tick budget that is not used up makes no difference.\<close>

lemma settle_ticks_more:
  assumes "settle_ticks env n until e = (recs, e')"
    and "is_none_or (next_deadline e') (\<lambda>t. is_some_and until (\<lambda>u. u < t) \<or> until = None \<and> idle e')"
  shows "settle_ticks env (n + k) until e = (recs, e')"
  using assms
proof (induction n arbitrary: e recs)
  case 0
  then have "recs = [] \<and> e' = e"
    by (auto simp: settle_ticks.simps[of env 0 until e] split: option.splits if_splits)
  with 0 show ?case
    by (subst settle_ticks.simps) (auto split: option.splits)
next
  case (Suc n)
  show ?case
    using Suc.prems Suc.IH
    by (subst settle_ticks.simps, subst (asm) settle_ticks.simps)
      (fastforce split: option.splits if_splits prod.splits)
qed

text \<open>A flow with two triggers: one by hand, here on start-up, whose run takes 25 hours, and a daily
  one at midnight whose run takes 2.\<close>

definition daily :: flow where
  "daily = flow_of ''t'' (Limited (Parallel 2))
     [(''a'', NTrigger TrStartup), (''b'', NDelay ''25h''), (''c'', NTrigger (TrTime (Some ''00:00'') None None)),
      (''d'', NDelay ''2h'')]
     [wire_from ''a'' Out ''b'', wire_from ''c'' Out ''d'']"

definition daily_fired :: "string option res \<times> engine" where
  "daily_fired = fire home ''t'' ''a'' (Some Dry) 1
     (set_flows home (alone daily) 1 (load_states [] (set_place home (Some utc) 1 engine_dry)))"

lemma daily_facts:
  "case daily_fired of (r, e) \<Rightarrow> is_ok r \<and>
     (case finished e of (recs, e) \<Rightarrow> recs = [] \<and>
       (case settle_ticks home 3 None e of (recs, e) \<Rightarrow> map rr_trigger recs = [''a'', ''c''] \<and> idle e))"
  by code_simp

text \<open>The dry run fires \<open>a\<close>, and answers the run the clock started at \<open>c\<close>: it is the last to finish.\<close>

lemma dry_run_of_daily:
  "\<exists>rec. dry_run home daily ''a'' [] [] (Some utc) 1 = Ok rec \<and> rr_trigger rec = ''c''"
proof -
  obtain r e where fired: "daily_fired = (r, e)" by fastforce
  obtain e0 where none: "finished e = ([], e0)"
    using daily_facts by (cases "finished e") (simp add: fired)
  obtain recs e1 where ticks: "settle_ticks home 3 None e0 = (recs, e1)" by fastforce
  have ran: "is_ok r" "map rr_trigger recs = [''a'', ''c'']" "idle e1"
    using daily_facts by (simp_all add: fired none ticks)
  have "settle_ticks home (3 + 99997) None e0 = (recs, e1)"
    using ran(3) by (intro settle_ticks_more ticks) (cases "next_deadline e1"; simp)
  then have "fst (sim_settle home None e) = recs"
    by (simp add: sim_settle_def none max_ticks_def)
  moreover have "recs \<noteq> []" "rr_trigger (List.last recs) = ''c''"
    using ran(2) by (auto simp: last_map [symmetric])
  ultimately show ?thesis
    using ran(1) fired
    by (auto simp: dry_run_def Let_def ofold_def ovals_def daily_fired_def daily_def flow_of_def run_out_def
        and_then_Inr_iff is_ok_def split: sum.splits prod.splits)
qed

theorem simulations_answer_sound_records_witness:
  "\<exists>rec xs e. dry_run home daily ''a'' [] [] (Some utc) 1 = Ok rec \<and> record_ok rec \<and> watched home e xs \<and>
     (\<forall>x \<in> set (xs @ eg_effects e). \<not> is_call x) \<and> finished_in xs \<noteq> []"
proof -
  obtain rec where rec: "dry_run home daily ''a'' [] [] (Some utc) 1 = Ok rec" using dry_run_of_daily by blast
  from simulations_answer_sound_records [THEN conjunct1, rule_format, OF this] rec show ?thesis by blast
qed

end
