(* ===== verification/Registry.thy ===== *)
theory Registry
  imports RuleServices "HOL-Library.Product_Lexorder" "HOL-Library.Word"
begin

text \<open>
  What the core keeps of the home: floors, areas and devices, what protocols describe and report
  (\<open>crates/irori-types/src/registry.rs\<close>, \<open>protocol.rs\<close>), what a person has said about them
  (\<open>settings.rs\<close>), and the ids that are made for them (the free functions of
  \<open>crates/irori-core/src/home.rs\<close>).

  The drawing of the home is compared and handed out, never looked into, so it is a type of the
  model's own, \<open>'p\<close>.
\<close>

section \<open>Floors, areas, devices\<close>

record floor =
  fr_id :: string
  fr_name :: string
  fr_level :: int

record area =
  ar_id :: string
  ar_name :: string
  ar_floor :: "string option"

record device =
  dv_id :: string
  dv_protocol :: string
  dv_unique_id :: string
  dv_name :: string
  dv_description :: "string option"
  dv_manufacturer :: "string option"
  dv_model :: "string option"
  dv_sw_version :: "string option"
  dv_hw_version :: "string option"
  dv_serial_number :: "string option"
  dv_area :: "string option"
  dv_suggested_area :: "string option"
  dv_via :: "string option"

section \<open>What protocols say\<close>

record device_description =
  dd_unique_id :: string
  dd_name :: string
  dd_manufacturer :: "string option"
  dd_model :: "string option"
  dd_sw_version :: "string option"
  dd_hw_version :: "string option"
  dd_serial_number :: "string option"
  dd_suggested_area :: "string option"
  dd_via :: "string option"

definition device_description_validate :: "device_description \<Rightarrow> unit res" where
  "device_description_validate d =
     require (dd_via d \<noteq> Some (dd_unique_id d))
       (Msg ''device `{}` can't be reached via itself (via_device_unique_id is its own unique_id)''
         [plain (dd_unique_id d)])"

record entity_description =
  ed_unique_id :: string
  ed_name :: "string option"
  ed_device :: "string option"
  ed_object_id :: "string option"
  ed_capabilities :: capabilities
  ed_category :: "entity_category option"

definition prefixed :: "string \<Rightarrow> unit res \<Rightarrow> unit res" where
  "prefixed unique r = (case r of Inl e \<Rightarrow> Err (Msg ''entity `{}`: {}'' [plain unique, e]) | Inr u \<Rightarrow> Ok u)"

definition entity_description_validate :: "entity_description \<Rightarrow> unit res" where
  "entity_description_validate d =
     (if ed_name d = None \<and> ed_device d = None then
        Err (Msg ''entity `{}` has no name, so it must belong to a device (set `device_unique_id`) whose name it uses''
              [plain (ed_unique_id d)])
      else prefixed (ed_unique_id d) (caps_validate (ed_capabilities d)))"

definition ed_kind :: "entity_description \<Rightarrow> entity_kind" where
  "ed_kind d = caps_kind (ed_capabilities d)"

record state_report =
  sr_unique_id :: string
  sr_state :: "state option"
  sr_attributes :: "(string, json) omap"
  sr_caused_by :: "string option"
  sr_replayed :: bool

definition state_report_validate :: "state_report \<Rightarrow> unit res" where
  "state_report_validate r =
     (case sr_state r of Some st \<Rightarrow> prefixed (sr_unique_id r) (state_validate st) | None \<Rightarrow> Ok ())"

definition is_occurrence :: "state_report \<Rightarrow> bool" where
  "is_occurrence r = is_some_and (sr_state r) (\<lambda>st. counts_every_report (state_kind st))"

text \<open>\<open>AvailabilityTarget\<close>.\<close>

datatype target = OfDevice string | OfEntities "string list"

section \<open>What a person says\<close>

datatype placement = Unsaid | Nowhere | InArea string

definition placement_area :: "placement \<Rightarrow> string option" where
  "placement_area p = (case p of InArea a \<Rightarrow> Some a | _ \<Rightarrow> None)"

record device_settings =
  ds_name :: "string option"
  ds_description :: "string option"
  ds_area :: placement
  ds_added :: bool

definition device_settings_empty :: "device_settings \<Rightarrow> bool" where
  "device_settings_empty s = (ds_name s = None \<and> ds_description s = None \<and> ds_area s = Unsaid \<and> \<not> ds_added s)"

record entity_settings =
  ey_name :: "string option"

record 'p settings =
  se_floors :: "floor list"
  se_areas :: "area list"
  se_floorplan :: 'p
  se_devices :: "(string, device_settings) omap"
  se_entities :: "(string \<times> string, entity_settings) omap"
  se_ask :: bool

text \<open>\<open>SettingsKey\<close> in the config files: \<open>Display\<close> and \<open>from_str\<close>.\<close>

definition settings_key_text :: "string \<times> string \<Rightarrow> string" where
  "settings_key_text k = fst k @ CHR ''/'' # snd k"

definition settings_key_parse :: "string \<Rightarrow> (string \<times> string) res" where
  "settings_key_parse value =
     (case unwrap_or (split_once CHR ''/'' value) (value, []) of
        (protocol, unique) \<Rightarrow>
          and_then (check_slug ''protocol id'' protocol) (\<lambda>_.
          and_then (check_unique_id unique) (\<lambda>_. Ok (protocol, unique))))"

text \<open>\<open>str::trim\<close>: whitespace off both ends.\<close>

lemma ws_len_Nil [simp]: "ws_len [] = 0"
  by (simp add: ws_len_def)

function trim_start :: "string \<Rightarrow> string" where
  "trim_start s = (if ws_len s = 0 then s else trim_start (drop (ws_len s) s))"
  by pat_completeness auto
termination
proof (relation "measure length")
  show "(drop (ws_len s) s, s) \<in> measure length" if "ws_len s \<noteq> 0" for s
    using that by (cases s) auto
qed simp

declare trim_start.simps [simp del]

fun trim_end :: "string \<Rightarrow> string" where
  "trim_end [] = []"
| "trim_end (x # xs) = (if trim_start (x # xs) = [] then [] else x # trim_end xs)"

definition trim :: "string \<Rightarrow> string" where
  "trim s = trim_end (trim_start s)"

text \<open>The core's libraries: the calendar, and \<open>str::to_lowercase\<close>, a table of Unicode.\<close>

record core_libs =
  cl_dates :: date_library
  cl_lower :: "string \<Rightarrow> string"

definition area_by_id :: "'p settings \<Rightarrow> string \<Rightarrow> area option" where
  "area_by_id s i = find (\<lambda>a. ar_id a = i) (se_areas s)"

definition floor_by_id :: "'p settings \<Rightarrow> string \<Rightarrow> floor option" where
  "floor_by_id s i = find (\<lambda>f. fr_id f = i) (se_floors s)"

definition area_named :: "core_libs \<Rightarrow> 'p settings \<Rightarrow> string \<Rightarrow> area option" where
  "area_named lib s name =
     (let wanted = cl_lower lib (trim name)
      in find (\<lambda>a. cl_lower lib (trim (ar_name a)) = wanted) (se_areas s))"

definition placed :: "core_libs \<Rightarrow> 'p settings \<Rightarrow> placement \<Rightarrow> string option \<Rightarrow> string option" where
  "placed lib s chosen suggested =
     (case chosen of
        InArea a \<Rightarrow> map_option ar_id (area_by_id s a)
      | Nowhere \<Rightarrow> None
      | Unsaid \<Rightarrow> Option.bind suggested (\<lambda>name. map_option ar_id (area_named lib s name)))"

section \<open>Ids\<close>

definition is_alnum :: "char \<Rightarrow> bool" where
  "is_alnum c \<longleftrightarrow> is_lower c \<or> is_upper c \<or> is_digit c"

text \<open>The loop of \<open>slugify\<close> and \<open>device_id_for\<close>. A character outside ASCII separates, like each of
  its bytes.\<close>

fun slug_chars :: "string \<Rightarrow> bool \<Rightarrow> string \<Rightarrow> string" where
  "slug_chars slug separate [] = slug"
| "slug_chars slug separate (c # cs) =
     (if is_alnum c then
        slug_chars (slug @ (if separate \<and> slug \<noteq> [] then ''_'' else []) @ [lower_char c]) False cs
      else slug_chars slug True cs)"

definition trim_underscores :: "string \<Rightarrow> string" where
  "trim_underscores s = rev (dropWhile (\<lambda>c. c = CHR ''_'') (rev s))"

definition slugify :: "string \<Rightarrow> string" where
  "slugify text = trim_underscores (take slug_max_len (slug_chars [] False text))"

definition fnv1a :: "nat list \<Rightarrow> 64 word" where
  "fnv1a bytes = foldl (\<lambda>hash byte. xor hash (of_nat byte) * 0x100000001b3) 0xcbf29ce484222325 bytes"

definition hex_digit :: "nat \<Rightarrow> char" where
  "hex_digit n = ''0123456789abcdef'' ! n"

definition hex16 :: "64 word \<Rightarrow> string" where
  "hex16 w = map (\<lambda>i. hex_digit (unat w div 16 ^ (15 - i) mod 16)) [0..<16]"

definition device_id_for :: "string \<Rightarrow> string \<Rightarrow> string" where
  "device_id_for protocol unique =
     (let canonical = protocol @ CHR '' '' # unique;
          slug = slug_chars [] False canonical
      in if slug_max_len < length slug \<or> length slug \<le> length protocol then
           let hash = hex16 (fnv1a (map byte_of canonical));
               keep = slug_max_len - length hash - 1
           in trim_underscores (take keep slug) @ CHR ''_'' # hash
         else slug)"

text \<open>\<open>unique_id_for\<close>: the base, or the base with the first free number. The search has no end of
  its own: \<open>None\<close> is a search that goes on for ever.\<close>

definition numbered :: "string \<Rightarrow> nat \<Rightarrow> string" where
  "numbered base n =
     (let suffix = CHR ''_'' # show_nat n
      in trim_underscores (take (slug_max_len - length suffix) base) @ suffix)"

partial_function (option) find_free :: "string \<Rightarrow> (string \<Rightarrow> bool) \<Rightarrow> nat \<Rightarrow> string option" where
  "find_free base taken n =
     (if taken (numbered base n) then find_free base taken (n + 1) else Some (numbered base n))"

definition unique_id_for :: "string \<Rightarrow> string \<Rightarrow> (string \<Rightarrow> bool) \<Rightarrow> string option" where
  "unique_id_for base fallback taken =
     (let base = (if base = [] then fallback else base)
      in if \<not> taken base then Some base else find_free base taken 2)"

definition new_area_id :: "string \<Rightarrow> area list \<Rightarrow> string option" where
  "new_area_id name existing =
     Option.bind (unique_id_for (slugify name) ''area''
         (\<lambda>c. is_ok (check_slug ''area id'' c) \<and> list_ex (\<lambda>a. ar_id a = c) existing))
       (\<lambda>i. if is_ok (check_slug ''area id'' i) then Some i else None)"

definition new_floor_id :: "string \<Rightarrow> floor list \<Rightarrow> string option" where
  "new_floor_id name existing =
     Option.bind (unique_id_for (slugify name) ''floor''
         (\<lambda>c. is_ok (check_slug ''floor id'' c) \<and> list_ex (\<lambda>f. fr_id f = c) existing))
       (\<lambda>i. if is_ok (check_slug ''floor id'' i) then Some i else None)"

end
