(* ===== verification/Updates.thy ===== *)
theory Updates
  imports Registry
begin

text \<open>
  What the core adds to an \<open>update\<close> entity that no device keeps: the version someone chose to skip,
  and why the last install did not finish (\<open>crates/irori-core/src/home/updates.rs\<close>).
\<close>

section \<open>What a device says, made safe\<close>

definition text_max :: nat where
  "text_max = 255"

definition link_max :: nat where
  "link_max = 2048"

definition stopped_text :: string where
  "stopped_text = ''It stopped before the new version was installed.''"

text \<open>\<open>chars().take(n)\<close>: the bytes of the first \<open>n\<close> characters.\<close>

definition char_len :: "char \<Rightarrow> nat" where
  "char_len c = (let b = byte_of c in if b < 128 then 1 else if b < 224 then 2 else if b < 240 then 3 else 4)"

fun take_chars :: "nat \<Rightarrow> string \<Rightarrow> string" where
  "take_chars 0 s = []"
| "take_chars (Suc n) s =
     (case s of [] \<Rightarrow> [] | c # _ \<Rightarrow> take (char_len c) s @ take_chars n (drop (char_len c) s))"

definition clean_text :: "string option \<Rightarrow> string option" where
  "clean_text t =
     (case map_option (\<lambda>t. take_chars text_max (trim t)) t of
        Some t \<Rightarrow> if t = [] then None else Some t
      | None \<Rightarrow> None)"

definition clean_link :: "string option \<Rightarrow> string option" where
  "clean_link u =
     (case u of
        Some url \<Rightarrow>
          if length url \<le> link_max
             \<and> (starts_with url ''https://'' \<or> starts_with url ''http://'')
             \<and> \<not> list_ex is_white (chars_of url)
          then Some url else None
      | None \<Rightarrow> None)"

definition clean :: "update_state \<Rightarrow> update_state" where
  "clean u = u\<lparr>up_skipped_version := None,
     up_installed_version := clean_text (up_installed_version u),
     up_latest_version := clean_text (up_latest_version u),
     up_title := clean_text (up_title u),
     up_release_summary := clean_text (up_release_summary u),
     up_last_error := clean_text (up_last_error u),
     up_release_url := clean_link (up_release_url u)\<rparr>"

section \<open>What the core folds in\<close>

text \<open>\<open>UpdateState::differs\<close>.\<close>

definition differs :: "string option \<Rightarrow> string option \<Rightarrow> bool" where
  "differs installed latest =
     (case (installed, latest) of (Some i, Some l) \<Rightarrow> i \<noteq> l | _ \<Rightarrow> False)"

text \<open>The skip that is kept: forgotten once the device has a newer version.\<close>

definition fold_skip :: "string option \<Rightarrow> update_state \<Rightarrow> update_state \<times> string option" where
  "fold_skip skipped new =
     (if skipped = None then (new, None)
      else if up_latest_version new = skipped then
        (new\<lparr>up_skipped_version := skipped, up_available := False\<rparr>, skipped)
      else if up_latest_version new \<noteq> None then (new, None)
      else (new, skipped))"

definition fold_error :: "update_state option \<Rightarrow> string option \<Rightarrow> update_state \<Rightarrow> string option" where
  "fold_error old told new =
     (case old of
        Some o' \<Rightarrow>
          if up_in_progress new then up_last_error new
          else
            (let same = (up_installed_version o' = up_installed_version new);
                 behind = differs (up_installed_version new) (up_latest_version new)
             in if told \<noteq> None then None
                else if up_in_progress o' \<and> same \<and> behind then Some stopped_text
                else if same then up_last_error o'
                else None)
      | None \<Rightarrow> up_last_error new)"

text \<open>\<open>fold\<close>, with the skip as it is afterwards.\<close>

definition fold_report :: "update_state option \<Rightarrow> update_state \<Rightarrow> string option \<Rightarrow> update_state \<times> string option" where
  "fold_report old reported skipped =
     (let told = (if up_in_progress reported then None else up_last_error reported)
      in case fold_skip skipped (reported\<lparr>up_skipped_version := None, up_last_error := None\<rparr>) of
           (new, skipped) \<Rightarrow>
             (let new = new\<lparr>up_last_error := fold_error old told new\<rparr>
              in (new\<lparr>up_last_error := or_else told (up_last_error new)\<rparr>, skipped)))"

section \<open>Lemmas\<close>

lemma fold_skip_same:
  "fold_skip skipped u = (v, s) \<Longrightarrow> up_skipped_version u = None \<Longrightarrow>
   up_progress v = up_progress u \<and> up_in_progress v = up_in_progress u \<and> up_latest_version v = up_latest_version u \<and>
   up_installed_version v = up_installed_version u \<and> (up_skipped_version v = None \<or> \<not> up_available v) \<and>
   (s \<noteq> None \<longrightarrow> s = skipped) \<and> up_title v = up_title u"
  by (auto simp: fold_skip_def split: if_splits)

lemma fold_report_valid:
  assumes "update_validate u = Ok ()" and "fold_report old u skipped = (v, s)"
  shows "update_validate v = Ok ()"
proof -
  obtain w where w: "fold_skip skipped (u\<lparr>up_skipped_version := None, up_last_error := None\<rparr>) = (w, s)"
    using assms(2) by (auto simp: fold_report_def Let_def split: prod.splits)
  with assms(2) have "v = w\<lparr>up_last_error := up_last_error v\<rparr>"
    by (auto simp: fold_report_def Let_def)
  then have "up_progress v = up_progress w" "up_in_progress v = up_in_progress w"
    "up_available v = up_available w" "up_skipped_version v = up_skipped_version w"
    by (metis update_state.simps update_state.surjective update_state.update_convs)+
  with fold_skip_same[OF w] assms(1) show ?thesis
    by (auto simp: update_validate_def and_then_Inr_iff split: option.splits)
qed

end
