(* ===== verification/Home.thy ===== *)
theory Home
  imports Updates
begin

text \<open>
  The home (\<open>crates/irori-core/src/home.rs\<close>): what exists in it and what it is doing, changed one
  operation at a time.

  An operation is a function of the home. \<open>Result<Vec<Event>, Rejected>\<close> is \<open>home_event list res\<close>
  beside the home as the operation leaves it, refused or not. Where the code indexes a map or
  \<open>expect\<close>s a value, the model is a partial function: \<open>None\<close> is the panic. \<open>HashMap\<close>s are only
  looked up, so they are ordered maps too.
\<close>

section \<open>The state\<close>

text \<open>\<open>Stamp\<close>: when an operation happens, and the id of the context it makes.\<close>

record stamp =
  sm_now :: int
  sm_context :: string

record found =
  fo_protocol :: string
  fo_description :: device_description
  fo_entities :: "(string, entity_kind list \<times> entity_description) omap"
  fo_reports :: "(string, state_report) omap"
  fo_available :: bool

record 'p home =
  hm_devices :: "(string, device) omap"
  hm_device_keys :: "(string \<times> string, string) omap"
  hm_entities :: "(string, entity) omap"
  hm_entity_keys :: "(string \<times> string, string) omap"
  hm_states :: "(string, entity_state) omap"
  hm_device_names :: "(string, string) omap"
  hm_entity_names :: "(string, string) omap"
  hm_settings :: "'p settings"
  hm_device_descriptions :: "(string, device_description) omap"
  hm_entity_descriptions :: "(string, entity_kind list \<times> entity_description) omap"
  hm_found :: "(string, found) omap"
  hm_found_entities :: "(string \<times> string, string) omap"
  hm_commanded :: "(string, typed) omap"
  hm_skipped :: "(string \<times> string, string) omap"
  hm_skips_changed :: bool
  hm_calls :: "(string, (string \<times> int) list) omap"

text \<open>The default home, with a blank drawing.\<close>

definition settings_default :: "'p \<Rightarrow> 'p settings" where
  "settings_default blank = \<lparr>se_floors = [], se_areas = [], se_floorplan = blank, se_devices = [],
     se_entities = [], se_ask = False\<rparr>"

definition home_default :: "'p \<Rightarrow> 'p home" where
  "home_default blank = \<lparr>hm_devices = [], hm_device_keys = [], hm_entities = [], hm_entity_keys = [], hm_states = [],
     hm_device_names = [], hm_entity_names = [], hm_settings = settings_default blank,
     hm_device_descriptions = [], hm_entity_descriptions = [], hm_found = [], hm_found_entities = [],
     hm_commanded = [], hm_skipped = [], hm_skips_changed = False, hm_calls = []\<rparr>"

text \<open>The events an operation of the home answers (\<open>events.rs\<close>).\<close>

datatype home_event =
    StateChanged string "entity_state option" entity_state
  | DeviceAdded device
  | DeviceUpdated device
  | DeviceRemoved string
  | EntityAdded entity
  | EntityUpdated entity
  | EntityRemoved string
  | SettingsChanged
  | FoundChanged

definition system_protocol :: string where
  "system_protocol = ''irori''"

text \<open>\<open>CALL_WINDOW\<close> in nanoseconds, and \<open>MAX_RECENT_CALLS\<close>.\<close>

definition call_window :: int where
  "call_window = 5 * 60 * 1000000000"

definition max_recent_calls :: nat where
  "max_recent_calls = 1024"

section \<open>Contexts\<close>

definition system_context :: "stamp \<Rightarrow> ctx" where
  "system_context s = \<lparr>cx_id = sm_context s, cx_parent = None, cx_origin = OriginSystem\<rparr>"

definition device_context :: "string \<Rightarrow> stamp \<Rightarrow> string option \<Rightarrow> ctx" where
  "device_context p s parent = \<lparr>cx_id = sm_context s, cx_parent = parent, cx_origin = OriginDevice p\<rparr>"

definition within_call_window :: "int \<Rightarrow> int \<Rightarrow> bool" where
  "within_call_window called now \<longleftrightarrow> - call_window \<le> now - called \<and> now - called \<le> call_window"

definition entity_fits :: "entity \<Rightarrow> state \<Rightarrow> unit res" where
  "entity_fits e st =
     (case fits (en_capabilities e) st of
        Inl what \<Rightarrow> Err (Msg ''state report for `{}`: {}'' [plain (en_id e), what])
      | Inr u \<Rightarrow> Ok u)"

section \<open>What things are called, and where they are\<close>

definition is_held :: "'p home \<Rightarrow> string \<Rightarrow> string \<Rightarrow> bool" where
  "is_held h p i \<longleftrightarrow> p \<noteq> system_protocol \<and> se_ask (hm_settings h) \<and> oget i (se_devices (hm_settings h)) = None"

definition entity_key :: "'p home \<Rightarrow> string \<Rightarrow> (string \<times> string) option" where
  "entity_key h i = map_option (\<lambda>e. (en_protocol e, en_unique_id e)) (oget i (hm_entities h))"

definition name_for_device :: "'p home \<Rightarrow> string \<Rightarrow> string \<Rightarrow> string" where
  "name_for_device h i reported =
     unwrap_or (Option.bind (oget i (se_devices (hm_settings h))) ds_name) reported"

definition description_for_device :: "'p home \<Rightarrow> string \<Rightarrow> string option" where
  "description_for_device h i = Option.bind (oget i (se_devices (hm_settings h))) ds_description"

definition area_for_device :: "core_libs \<Rightarrow> 'p home \<Rightarrow> string \<Rightarrow> string option \<Rightarrow> string option" where
  "area_for_device lib h i suggested =
     placed lib (hm_settings h) (unwrap_or (map_option ds_area (oget i (se_devices (hm_settings h)))) Unsaid) suggested"

text \<open>\<open>name_for_entity\<close>: \<open>None\<close> when it has no name and no device to follow.\<close>

definition chosen_name :: "'p home \<Rightarrow> string \<times> string \<Rightarrow> string option" where
  "chosen_name h k = Option.bind (oget k (se_entities (hm_settings h))) ey_name"

definition name_for_entity :: "'p home \<Rightarrow> string \<Rightarrow> string option \<Rightarrow> string option" where
  "name_for_entity h i dev =
     (case Option.bind (entity_key h i) (chosen_name h) of
        Some chosen \<Rightarrow> Some chosen
      | None \<Rightarrow>
          (case oget i (hm_entity_names h) of
             Some reported \<Rightarrow> Some reported
           | None \<Rightarrow> Option.bind dev (\<lambda>d. map_option dv_name (oget d (hm_devices h)))))"

definition device_id_of :: "'p home \<Rightarrow> string \<Rightarrow> string \<Rightarrow> string option" where
  "device_id_of h p u = oget (p, u) (hm_device_keys h)"

definition entity_id_of :: "'p home \<Rightarrow> string \<Rightarrow> string \<Rightarrow> string option" where
  "entity_id_of h p u = oget (p, u) (hm_entity_keys h)"

text \<open>The entities of a device, in the order of their ids.\<close>

definition owned :: "'p home \<Rightarrow> string \<Rightarrow> entity list" where
  "owned h i = filter (\<lambda>e. en_device_id e = Some i) (ovals (hm_entities h))"

section \<open>Loops that answer events\<close>

text \<open>An operation for each of a list, one after the other, its events in a row.\<close>

fun each :: "('x \<Rightarrow> 's \<Rightarrow> ('e list \<times> 's) option) \<Rightarrow> 'x list \<Rightarrow> 's \<Rightarrow> ('e list \<times> 's) option" where
  "each f [] s = Some ([], s)"
| "each f (x # xs) s =
     Option.bind (f x s) (\<lambda>(es, s). Option.bind (each f xs s) (\<lambda>(es', s). Some (es @ es', s)))"

text \<open>\<open>unwrap_or_default\<close> of an operation that may be refused.\<close>

definition if_accepted :: "('e list res \<times> 's) option \<Rightarrow> ('e list \<times> 's) option" where
  "if_accepted r = Option.bind r (\<lambda>(x, s). Some (case x of Inl _ \<Rightarrow> [] | Inr es \<Rightarrow> es, s))"

text \<open>The entity is given the name it has by now.\<close>

definition rename_entity :: "string \<Rightarrow> string option \<Rightarrow> 'p home \<Rightarrow> (home_event list \<times> 'p home) option" where
  "rename_entity i dev h =
     Option.bind (name_for_entity h i dev) (\<lambda>name.
     Option.bind (oget i (hm_entities h)) (\<lambda>e.
       if en_name e = name then Some ([], h)
       else let e = e\<lparr>en_name := name\<rparr>
            in Some ([EntityUpdated e], h\<lparr>hm_entities := oput i e (hm_entities h)\<rparr>)))"

section \<open>Devices\<close>

text \<open>Whether following what a device is reached through leads to another.\<close>

fun reaches_in :: "nat \<Rightarrow> 'p home \<Rightarrow> string option \<Rightarrow> string \<Rightarrow> bool" where
  "reaches_in 0 h cur goal = True"
| "reaches_in (Suc n) h cur goal =
     (case cur of
        None \<Rightarrow> False
      | Some i \<Rightarrow> i = goal \<or> reaches_in n h (Option.bind (oget i (hm_devices h)) dv_via) goal)"

definition reaches :: "'p home \<Rightarrow> string \<Rightarrow> string \<Rightarrow> bool" where
  "reaches h from goal = reaches_in (Suc (length (hm_devices h))) h (Some from) goal"

definition new_found :: "string \<Rightarrow> device_description \<Rightarrow> found" where
  "new_found p d = \<lparr>fo_protocol = p, fo_description = d, fo_entities = [], fo_reports = [], fo_available = True\<rparr>"

text \<open>A description of a device that is kept out of the home.\<close>

definition describe_found :: "string \<Rightarrow> string \<Rightarrow> device_description \<Rightarrow> 'p home \<Rightarrow> home_event list \<times> 'p home" where
  "describe_found p i d h =
     (case oget i (hm_found h) of
        Some f \<Rightarrow>
          (if fo_description f \<noteq> d then [FoundChanged] else [],
           h\<lparr>hm_found := oput i (f\<lparr>fo_description := d\<rparr>) (hm_found h)\<rparr>)
      | None \<Rightarrow> ([FoundChanged], h\<lparr>hm_found := oput i (new_found p d) (hm_found h)\<rparr>))"

text \<open>What a device that is described again becomes.\<close>

definition redescribed :: "core_libs \<Rightarrow> 'p home \<Rightarrow> string \<Rightarrow> device_description \<Rightarrow> string option \<Rightarrow> device \<Rightarrow> device" where
  "redescribed lib h i d via dv = dv
     \<lparr>dv_name := name_for_device h i (dd_name d), dv_manufacturer := dd_manufacturer d,
      dv_model := dd_model d, dv_sw_version := dd_sw_version d, dv_hw_version := dd_hw_version d,
      dv_serial_number := dd_serial_number d, dv_suggested_area := dd_suggested_area d,
      dv_area := area_for_device lib h i (dd_suggested_area d), dv_via := via\<rparr>"

definition redescribe_device :: "core_libs \<Rightarrow> string \<Rightarrow> device_description \<Rightarrow> string option \<Rightarrow> 'p home
    \<Rightarrow> (home_event list res \<times> 'p home) option" where
  "redescribe_device lib i d via h =
     (if is_some_and via (\<lambda>v. reaches h v i) then
        Some (Err (Msg ''device `{}`: being reached via `{}` would make a loop''
                     [plain (dd_unique_id d), plain (unwrap_or (dd_via d) [])]), h)
      else
        (let h = h\<lparr>hm_device_names := oput i (dd_name d) (hm_device_names h),
                   hm_device_descriptions := oput i d (hm_device_descriptions h)\<rparr>
         in Option.bind (oget i (hm_devices h)) (\<lambda>before.
              let dv = redescribed lib h i d via before
              in if dv = before then Some (Ok [], h)
                 else
                   let h = h\<lparr>hm_devices := oput i dv (hm_devices h)\<rparr>;
                       following = (if dv_name dv \<noteq> dv_name before then map en_id (owned h i) else [])
                   in Option.bind (each (\<lambda>e. rename_entity e (Some i)) following h) (\<lambda>(es, h).
                        Some (Ok (DeviceUpdated dv # es), h)))))"

definition new_device :: "core_libs \<Rightarrow> 'p home \<Rightarrow> string \<Rightarrow> string \<Rightarrow> device_description \<Rightarrow> string option \<Rightarrow> device" where
  "new_device lib h p i d via = \<lparr>dv_id = i, dv_protocol = p, dv_unique_id = dd_unique_id d,
     dv_name = name_for_device h i (dd_name d), dv_description = description_for_device h i,
     dv_manufacturer = dd_manufacturer d, dv_model = dd_model d, dv_sw_version = dd_sw_version d,
     dv_hw_version = dd_hw_version d, dv_serial_number = dd_serial_number d,
     dv_area = area_for_device lib h i (dd_suggested_area d), dv_suggested_area = dd_suggested_area d, dv_via = via\<rparr>"

definition add_device :: "core_libs \<Rightarrow> string \<Rightarrow> string \<Rightarrow> device_description \<Rightarrow> string option \<Rightarrow> 'p home
    \<Rightarrow> home_event list res \<times> 'p home" where
  "add_device lib p i d via h =
     (case oget i (hm_devices h) of
        Some holder \<Rightarrow>
          (Err (Msg ''device `{}` would have the id `{}`, which `{}` already has; its unique_id has to differ by more than case or punctuation''
                  [plain (dd_unique_id d), plain i, plain (dv_unique_id holder)]), h)
      | None \<Rightarrow>
          (let dv = new_device lib h p i d via
           in (Ok [DeviceAdded dv],
               h\<lparr>hm_device_descriptions := oput i d (hm_device_descriptions h),
                 hm_device_names := oput i (dd_name d) (hm_device_names h),
                 hm_device_keys := oput (p, dd_unique_id d) i (hm_device_keys h),
                 hm_devices := oput i dv (hm_devices h)\<rparr>)))"

text \<open>What a device is reached through, as far as the home knows.\<close>

definition find_via :: "string \<Rightarrow> device_description \<Rightarrow> 'p home \<Rightarrow> string option res" where
  "find_via p d h =
     (case dd_via d of
        None \<Rightarrow> Ok None
      | Some v \<Rightarrow>
          if oget (device_id_for p v) (hm_found h) \<noteq> None then Ok None
          else (case device_id_of h p v of
                  Some i \<Rightarrow> Ok (Some i)
                | None \<Rightarrow> Err (Msg ''device `{}`: via_device_unique_id `{}` isn't a device this protocol described''
                    [plain (dd_unique_id d), plain v])))"

definition describe_device :: "core_libs \<Rightarrow> string \<Rightarrow> device_description \<Rightarrow> 'p home
    \<Rightarrow> (home_event list res \<times> 'p home) option" where
  "describe_device lib p d h =
     (case device_description_validate d of
        Inl e \<Rightarrow> Some (Err e, h)
      | Inr _ \<Rightarrow>
          (let i = device_id_for p (dd_unique_id d)
           in if is_held h p i \<or> oget i (hm_found h) \<noteq> None then
                (case describe_found p i d h of (es, h) \<Rightarrow> Some (Ok es, h))
              else
                (case find_via p d h of
                   Inl e \<Rightarrow> Some (Err e, h)
                 | Inr via \<Rightarrow>
                     (case device_id_of h p (dd_unique_id d) of
                        Some i \<Rightarrow> redescribe_device lib i d via h
                      | None \<Rightarrow> Some (add_device lib p i d via h)))))"

section \<open>Availability\<close>

text \<open>\<open>set_availability_of\<close>, for one entity and for many. \<open>Reported\<close> is whether the protocol said so.\<close>

definition set_availability_one :: "availability \<Rightarrow> int \<Rightarrow> ctx \<Rightarrow> bool \<Rightarrow> string \<Rightarrow> 'p home
    \<Rightarrow> home_event list \<times> 'p home" where
  "set_availability_one av now cx reported i h =
     (case oget i (hm_states h) of
        None \<Rightarrow> ([], h)
      | Some old \<Rightarrow>
          if es_availability old = av then
            ([], if reported then
                   h\<lparr>hm_states := oput i (old\<lparr>es_last_reported := max now (es_last_reported old)\<rparr>) (hm_states h)\<rparr>
                 else h)
          else
            (let now = max now (es_last_updated old);
                 new = old\<lparr>es_availability := av, es_last_changed := now, es_last_updated := now,
                         es_last_reported := (if reported then max now (es_last_reported old) else es_last_reported old),
                         es_context := cx\<rparr>
             in ([StateChanged i (Some old) new], h\<lparr>hm_states := oput i new (hm_states h)\<rparr>)))"

fun set_availability_of :: "availability \<Rightarrow> int \<Rightarrow> ctx \<Rightarrow> bool \<Rightarrow> string list \<Rightarrow> 'p home
    \<Rightarrow> home_event list \<times> 'p home" where
  "set_availability_of av now cx reported [] h = ([], h)"
| "set_availability_of av now cx reported (i # is) h =
     (case set_availability_one av now cx reported i h of (es, h) \<Rightarrow>
        (case set_availability_of av now cx reported is h of (es', h) \<Rightarrow> (es @ es', h)))"

section \<open>Entities\<close>

text \<open>The device an entity's description names: refused when its protocol has none, a panic when
  the key leads nowhere.\<close>

definition described_device :: "string \<Rightarrow> entity_description \<Rightarrow> 'p home \<Rightarrow> device option res option" where
  "described_device p d h =
     (case ed_device d of
        None \<Rightarrow> Some (Ok None)
      | Some u \<Rightarrow>
          (case device_id_of h p u of
             None \<Rightarrow> Some (Err (Msg ''entity `{}`: device_unique_id `{}` isn't a device this protocol described (describe the device first)''
               [plain (ed_unique_id d), plain u]))
           | Some i \<Rightarrow> Option.bind (oget i (hm_devices h)) (\<lambda>dv. Some (Ok (Some dv)))))"

text \<open>A value the entity can no longer have is forgotten.\<close>

definition forget_unfit :: "entity \<Rightarrow> stamp \<Rightarrow> string \<Rightarrow> 'p home \<Rightarrow> (home_event list \<times> 'p home) option" where
  "forget_unfit e s i h =
     Option.bind (oget i (hm_states h)) (\<lambda>old.
       if is_some_and (es_state old) (\<lambda>st. \<not> is_ok (entity_fits e st)) then
         (let now = max (sm_now s) (es_last_updated old);
              new = old\<lparr>es_state := None, es_last_changed := now, es_last_updated := now,
                      es_context := system_context s\<rparr>
          in Some ([StateChanged i (Some old) new],
               h\<lparr>hm_commanded := odel i (hm_commanded h), hm_states := oput i new (hm_states h)\<rparr>))
       else Some ([], h))"

definition redescribe_entity :: "string \<Rightarrow> entity_kind list \<Rightarrow> entity_description \<Rightarrow> string option \<Rightarrow> stamp \<Rightarrow> string
    \<Rightarrow> 'p home \<Rightarrow> (home_event list res \<times> 'p home) option" where
  "redescribe_entity p kinds d dev s i h =
     Option.bind (oget i (hm_entities h)) (\<lambda>before.
     Option.bind (entity_id_kind (en_id before)) (\<lambda>k.
       if k \<noteq> ed_kind d then
         Some (Err (Msg ''entity `{}` is already a {}; it can't become a {} (use a different unique_id)''
                 [plain (ed_unique_id d), plain (domain k), plain (domain (ed_kind d))]), h)
       else
         (let h = h\<lparr>hm_entity_names := (case ed_name d of Some n \<Rightarrow> oput i n (hm_entity_names h)
                                          | None \<Rightarrow> odel i (hm_entity_names h)),
                    hm_entity_descriptions := oput i (kinds, d) (hm_entity_descriptions h)\<rparr>
          in Option.bind (name_for_entity h i dev) (\<lambda>name.
               let e = before\<lparr>en_name := name, en_capabilities := ed_capabilities d,
                         en_category := ed_category d, en_device_id := dev\<rparr>;
                   h = h\<lparr>hm_entities := oput i e (hm_entities h)\<rparr>
               in Option.bind (forget_unfit e s i h) (\<lambda>(forgot, h).
                    case set_availability_of Available (sm_now s) (device_context p s None) True [i] h of
                      (back, h) \<Rightarrow>
                        Some (Ok ((if e = before then [] else [EntityUpdated e]) @ forgot @ back), h))))))"

text \<open>What a new entity's id is made of.\<close>

definition id_base :: "entity_description \<Rightarrow> device option \<Rightarrow> string \<Rightarrow> string" where
  "id_base d dev otherwise =
     (case (ed_object_id d, ed_name d, dev) of
        (Some o', _, _) \<Rightarrow> o'
      | (None, Some reported, Some dv) \<Rightarrow> slugify (dv_id dv @ CHR '' '' # reported)
      | (None, None, Some dv) \<Rightarrow> dv_id dv
      | (None, _, None) \<Rightarrow> slugify otherwise)"

text \<open>\<open>entity_id_free\<close>: whether no entity has the candidate's id.\<close>

definition entity_id_taken :: "entity_kind \<Rightarrow> 'p home \<Rightarrow> string \<Rightarrow> bool" where
  "entity_id_taken k h c = (case entity_id_new k c of Inr i \<Rightarrow> oget i (hm_entities h) \<noteq> None | Inl _ \<Rightarrow> False)"

definition new_entity_id :: "entity_kind \<Rightarrow> string \<Rightarrow> 'p home \<Rightarrow> string option" where
  "new_entity_id k base h =
     Option.bind (unique_id_for base (domain k) (entity_id_taken k h)) (\<lambda>o'.
       case entity_id_new k o' of Inr i \<Rightarrow> Some i | Inl _ \<Rightarrow> None)"

definition fresh_state :: "string \<Rightarrow> stamp \<Rightarrow> entity_state" where
  "fresh_state i s = \<lparr>es_entity = i, es_availability = Available, es_state = None, es_attributes = [],
     es_last_changed = sm_now s, es_last_updated = sm_now s, es_last_reported = sm_now s,
     es_context = system_context s\<rparr>"

definition add_entity :: "string \<Rightarrow> entity_kind list \<Rightarrow> entity_description \<Rightarrow> device option \<Rightarrow> stamp
    \<Rightarrow> 'p home \<Rightarrow> (home_event list res \<times> 'p home) option" where
  "add_entity p kinds d dev s h =
     Option.bind (case ed_name d of Some n \<Rightarrow> Some n | None \<Rightarrow> map_option dv_name dev) (\<lambda>otherwise.
     Option.bind (new_entity_id (ed_kind d) (id_base d dev otherwise) h) (\<lambda>i.
       let e = \<lparr>en_id = i, en_protocol = p, en_unique_id = ed_unique_id d,
                en_name = unwrap_or (chosen_name h (p, ed_unique_id d)) otherwise,
                en_device_id = map_option dv_id dev, en_area_id = None,
                en_capabilities = ed_capabilities d, en_category = ed_category d\<rparr>;
           st = fresh_state i s
       in Some (Ok [EntityAdded e, StateChanged i None st],
            h\<lparr>hm_entity_names := (case ed_name d of Some n \<Rightarrow> oput i n (hm_entity_names h) | None \<Rightarrow> hm_entity_names h),
              hm_entity_descriptions := oput i (kinds, d) (hm_entity_descriptions h),
              hm_entity_keys := oput (p, ed_unique_id d) i (hm_entity_keys h),
              hm_entities := oput i e (hm_entities h),
              hm_states := oput i st (hm_states h)\<rparr>)))"

text \<open>The found device an entity's description belongs to.\<close>

definition found_device :: "string \<Rightarrow> entity_description \<Rightarrow> 'p home \<Rightarrow> string option" where
  "found_device p d h =
     (case ed_device d of
        None \<Rightarrow> None
      | Some u \<Rightarrow> let i = device_id_for p u in if oget i (hm_found h) \<noteq> None then Some i else None)"

definition describe_entity :: "string \<Rightarrow> entity_kind list \<Rightarrow> entity_description \<Rightarrow> stamp \<Rightarrow> 'p home
    \<Rightarrow> (home_event list res \<times> 'p home) option" where
  "describe_entity p kinds d s h =
     (case entity_description_validate d of
        Inl e \<Rightarrow> Some (Err e, h)
      | Inr _ \<Rightarrow>
          if ed_kind d \<notin> set kinds then
            Some (Err (Msg ''entity `{}` is a {}, but the manifest's entity_kinds doesn't list {}''
                    [plain (ed_unique_id d), plain (domain (ed_kind d)), plain (domain (ed_kind d))]), h)
          else
            (case found_device p d h of
               Some i \<Rightarrow>
                 Some (Ok [], h\<lparr>hm_found_entities := oput (p, ed_unique_id d) i (hm_found_entities h),
                    hm_found := omod i (\<lambda>f. f\<lparr>fo_entities := oput (ed_unique_id d) (kinds, d) (fo_entities f)\<rparr>) (hm_found h)\<rparr>)
             | None \<Rightarrow>
                 Option.bind (described_device p d h) (\<lambda>r.
                   case r of
                     Inl e \<Rightarrow> Some (Err e, h)
                   | Inr dev \<Rightarrow>
                       (case entity_id_of h p (ed_unique_id d) of
                          Some i \<Rightarrow> redescribe_entity p kinds d (map_option dv_id dev) s i h
                        | None \<Rightarrow> add_entity p kinds d dev s h))))"

section \<open>Taking things out\<close>

definition remove_entity :: "string \<Rightarrow> string \<Rightarrow> 'p home \<Rightarrow> home_event list res \<times> 'p home" where
  "remove_entity p u h =
     (case oget (p, u) (hm_found_entities h) of
        Some dev \<Rightarrow>
          (Ok [], h\<lparr>hm_found_entities := odel (p, u) (hm_found_entities h),
             hm_found := omod dev (\<lambda>f. f\<lparr>fo_entities := odel u (fo_entities f), fo_reports := odel u (fo_reports f)\<rparr>) (hm_found h)\<rparr>)
      | None \<Rightarrow>
          (case oget (p, u) (hm_entity_keys h) of
             None \<Rightarrow> (Err (Msg ''can't remove entity `{}`: this protocol has no such entity'' [plain u]), h)
           | Some i \<Rightarrow>
               (Ok [EntityRemoved i],
                h\<lparr>hm_entity_keys := odel (p, u) (hm_entity_keys h),
                  hm_entity_descriptions := odel i (hm_entity_descriptions h),
                  hm_entities := odel i (hm_entities h), hm_states := odel i (hm_states h),
                  hm_entity_names := odel i (hm_entity_names h), hm_commanded := odel i (hm_commanded h)\<rparr>)))"

text \<open>A device's entities, until one is refused.\<close>

fun remove_owned :: "entity list \<Rightarrow> 'p home \<Rightarrow> home_event list res \<times> 'p home" where
  "remove_owned [] h = (Ok [], h)"
| "remove_owned (e # es) h =
     (case remove_entity (en_protocol e) (en_unique_id e) h of
        (Inl m, h) \<Rightarrow> (Err m, h)
      | (Inr evs, h) \<Rightarrow>
          (case remove_owned es h of (Inl m, h) \<Rightarrow> (Err m, h) | (Inr evs', h) \<Rightarrow> (Ok (evs @ evs'), h)))"

text \<open>What was reached through a device is reached directly.\<close>

definition unlinked :: "string \<Rightarrow> device \<Rightarrow> device" where
  "unlinked i d = (if dv_via d = Some i then d\<lparr>dv_via := None\<rparr> else d)"

definition remove_device :: "string \<Rightarrow> string \<Rightarrow> 'p home \<Rightarrow> home_event list res \<times> 'p home" where
  "remove_device p u h =
     (case oget (device_id_for p u) (hm_found h) of
        Some f \<Rightarrow>
          (Ok [], h\<lparr>hm_found := odel (device_id_for p u) (hm_found h),
             hm_found_entities := fold (\<lambda>e. odel (p, e)) (okeys (fo_entities f)) (hm_found_entities h)\<rparr>)
      | None \<Rightarrow>
          (case oget (p, u) (hm_device_keys h) of
             None \<Rightarrow> (Err (Msg ''can't remove device `{}`: this protocol has no such device'' [plain u]), h)
           | Some i \<Rightarrow>
               (let h = h\<lparr>hm_device_keys := odel (p, u) (hm_device_keys h),
                          hm_device_descriptions := odel i (hm_device_descriptions h)\<rparr>
                in case remove_owned (owned h i) h of
                     (Inl m, h) \<Rightarrow> (Err m, h)
                   | (Inr es, h) \<Rightarrow>
                       (let cut = filter (\<lambda>d. dv_via d = Some i) (ovals (hm_devices h));
                            devices = map (\<lambda>(j, d). (j, unlinked i d)) (hm_devices h)
                        in (Ok (es @ map (\<lambda>d. DeviceUpdated (unlinked i d)) cut @ [DeviceRemoved i]),
                            h\<lparr>hm_devices := odel i devices\<rparr>)))))"

definition remove_protocol :: "string \<Rightarrow> 'p home \<Rightarrow> home_event list \<times> 'p home" where
  "remove_protocol p h =
     (let live = map dv_unique_id (filter (\<lambda>d. dv_protocol d = p) (ovals (hm_devices h)));
          found = map (dd_unique_id \<circ> fo_description) (filter (\<lambda>f. fo_protocol f = p) (ovals (hm_found h)))
      in fold (\<lambda>u (evs, h). case remove_device p u h of (r, h) \<Rightarrow> (evs @ (case r of Inr es \<Rightarrow> es | Inl _ \<Rightarrow> []), h))
           (live @ found) ([], h))"

end
