(* ===== verification/HomeOps.thy ===== *)
theory HomeOps
  imports Home
begin

text \<open>
  The rest of the home's operations (\<open>crates/irori-core/src/home.rs\<close>, \<open>home/updates.rs\<close>): devices in
  and out of it, what a person says, reports and availability, service calls, updates.
\<close>

section \<open>Reports\<close>

definition call_known :: "'p home \<Rightarrow> string \<Rightarrow> string \<Rightarrow> int \<Rightarrow> bool" where
  "call_known h p c now =
     is_some_and (oget p (hm_calls h)) (list_ex (\<lambda>(i, called). i = c \<and> within_call_window called now))"

definition update_of :: "'p home \<Rightarrow> string \<Rightarrow> update_state option" where
  "update_of h i =
     Option.bind (oget i (hm_states h)) (\<lambda>es.
       case es_state es of Some (Update u) \<Rightarrow> Some u | _ \<Rightarrow> None)"

definition fold_update :: "string \<Rightarrow> string \<times> string \<Rightarrow> update_state \<Rightarrow> 'p home \<Rightarrow> state \<times> 'p home" where
  "fold_update i key reported h =
     (let had = oget key (hm_skipped h)
      in case fold_report (update_of h i) reported had of
           (new, skipped) \<Rightarrow>
             (Update new,
              if had \<noteq> None \<and> skipped = None
              then h\<lparr>hm_skipped := odel key (hm_skipped h), hm_skips_changed := True\<rparr> else h))"

definition clean_report :: "state_report \<Rightarrow> state_report" where
  "clean_report r = (case sr_state r of Some (Update u) \<Rightarrow> r\<lparr>sr_state := Some (Update (clean u))\<rparr> | _ \<Rightarrow> r)"

text \<open>What the core knows, folded into a report for an update.\<close>

definition fold_state :: "string \<Rightarrow> string \<times> string \<Rightarrow> state option \<Rightarrow> 'p home \<Rightarrow> state option \<times> 'p home" where
  "fold_state i key st h =
     (case st of
        Some (Update u) \<Rightarrow> (case fold_update i key u h of (new, h) \<Rightarrow> (Some new, h))
      | _ \<Rightarrow> (st, h))"

text \<open>What an accepted report makes of the entity's state.\<close>

definition take_report :: "string \<Rightarrow> stamp \<Rightarrow> string option \<Rightarrow> state option \<Rightarrow> (string, json) omap \<Rightarrow> bool \<Rightarrow> string
    \<Rightarrow> entity_kind \<Rightarrow> 'p home \<Rightarrow> (home_event list res \<times> 'p home) option" where
  "take_report p s parent st attrs replayed i k h =
     (let h = h\<lparr>hm_commanded := odel i (hm_commanded h)\<rparr>
      in Option.bind (oget i (hm_states h)) (\<lambda>old.
           let now = max (max (sm_now s) (es_last_updated old)) (es_last_reported old);
               occurrence = counts_every_report k
           in if occurrence \<and> replayed then
                (let new = old\<lparr>es_last_reported := now\<rparr>;
                     new = (if es_state new \<noteq> st \<or> es_attributes new \<noteq> attrs
                            then new\<lparr>es_state := st, es_attributes := attrs, es_last_updated := now\<rparr> else new)
                 in Some (Ok [], h\<lparr>hm_states := oput i new (hm_states h)\<rparr>))
              else
                (let state_changed = (es_state old \<noteq> st \<or> occurrence \<and> st \<noteq> None);
                     changed = (state_changed \<or> es_attributes old \<noteq> attrs);
                     new = old\<lparr>es_last_reported := now\<rparr>;
                     new = (if changed
                            then new\<lparr>es_state := st, es_attributes := attrs, es_last_updated := now,
                                   es_last_changed := (if state_changed then now else es_last_changed new),
                                   es_context := device_context p s parent\<rparr>
                            else new)
                 in Some (Ok (if changed then [StateChanged i (Some old) new] else []),
                      h\<lparr>hm_states := oput i new (hm_states h)\<rparr>))))"

definition report_known :: "string \<Rightarrow> state_report \<Rightarrow> stamp \<Rightarrow> string \<Rightarrow> 'p home \<Rightarrow> (home_event list res \<times> 'p home) option" where
  "report_known p r s i h =
     Option.bind (case sr_state r of
         None \<Rightarrow> Some (Ok ())
       | Some st \<Rightarrow> Option.bind (oget i (hm_entities h)) (\<lambda>e. Some (entity_fits e st))) (\<lambda>ok.
       case ok of
         Inl e \<Rightarrow> Some (Err e, h)
       | Inr _ \<Rightarrow>
           (case fold_state i (p, sr_unique_id r) (sr_state r) h of
              (st, h) \<Rightarrow>
                if is_some_and (sr_caused_by r) (\<lambda>c. \<not> call_known h p c (sm_now s)) then
                  Some (Err (Msg ''state report for `{}`: caused_by `{}` isn't a service call sent to this protocol in the last 5 minutes''
                          [plain (sr_unique_id r), plain (unwrap_or (sr_caused_by r) [])]), h)
                else
                  Option.bind (entity_id_kind i) (\<lambda>k.
                    take_report p s (sr_caused_by r) st (sr_attributes r) (sr_replayed r) i k h)))"

definition report_state :: "string \<Rightarrow> state_report \<Rightarrow> stamp \<Rightarrow> 'p home \<Rightarrow> (home_event list res \<times> 'p home) option" where
  "report_state p r s h =
     (let r = clean_report r
      in case state_report_validate r of
           Inl e \<Rightarrow> Some (Err e, h)
         | Inr _ \<Rightarrow>
             (case oget (p, sr_unique_id r) (hm_found_entities h) of
                Some dev \<Rightarrow>
                  Some (Ok [], h\<lparr>hm_found := omod dev (\<lambda>f. f\<lparr>fo_reports :=
                    oput (sr_unique_id r) (r\<lparr>sr_caused_by := None\<rparr>) (fo_reports f)\<rparr>) (hm_found h)\<rparr>)
              | None \<Rightarrow>
                  (case entity_id_of h p (sr_unique_id r) of
                     None \<Rightarrow> Some (Err (Msg ''state report for `{}`: this protocol has no such entity (describe it first)''
                       [plain (sr_unique_id r)]), h)
                   | Some i \<Rightarrow> report_known p r s i h)))"

section \<open>Availability\<close>

fun entity_ids_of :: "'p home \<Rightarrow> string \<Rightarrow> string list \<Rightarrow> string list res" where
  "entity_ids_of h p [] = Ok []"
| "entity_ids_of h p (u # us) =
     (case entity_id_of h p u of
        None \<Rightarrow> Err (Msg ''can't set availability of entity `{}`: this protocol has no such entity'' [plain u])
      | Some i \<Rightarrow> and_then (entity_ids_of h p us) (\<lambda>is. Ok (i # is)))"

text \<open>The entities a change of availability is for; \<open>None\<close> when it is only for what is found.\<close>

definition target_ids :: "'p home \<Rightarrow> string \<Rightarrow> target \<Rightarrow> string list res" where
  "target_ids h p t =
     (case t of
        OfDevice u \<Rightarrow>
          (case device_id_of h p u of
             None \<Rightarrow> Err (Msg ''can't set availability of device `{}`: this protocol has no such device'' [plain u])
           | Some i \<Rightarrow> Ok (map en_id (owned h i)))
      | OfEntities us \<Rightarrow> entity_ids_of h p us)"

definition set_availability :: "string \<Rightarrow> target \<Rightarrow> availability \<Rightarrow> stamp \<Rightarrow> 'p home \<Rightarrow> home_event list res \<times> 'p home" where
  "set_availability p t av s h =
     (let go = (\<lambda>t. case target_ids h p t of
              Inl e \<Rightarrow> (Err e, h)
            | Inr is \<Rightarrow>
                (case set_availability_of av (sm_now s) (device_context p s None) True is h of (es, h) \<Rightarrow> (Ok es, h)))
      in case t of
           OfDevice u \<Rightarrow>
             if oget (device_id_for p u) (hm_found h) \<noteq> None then
               (Ok [], h\<lparr>hm_found := omod (device_id_for p u) (\<lambda>f. f\<lparr>fo_available := (av = Available)\<rparr>) (hm_found h)\<rparr>)
             else go t
         | OfEntities us \<Rightarrow>
             (let kept = filter (\<lambda>u. oget (p, u) (hm_found_entities h) = None) us
              in if kept = [] then (Ok [], h) else go (OfEntities kept)))"

definition mark_unavailable :: "string \<Rightarrow> stamp \<Rightarrow> 'p home \<Rightarrow> home_event list \<times> 'p home" where
  "mark_unavailable p s h =
     set_availability_of Unavailable (sm_now s) (system_context s) False
       (map en_id (filter (\<lambda>e. en_protocol e = p) (ovals (hm_entities h)))) h"

section \<open>In and out of the home\<close>

text \<open>What a device that is taken out is remembered as.\<close>

definition remember :: "'p home \<Rightarrow> entity \<Rightarrow> found \<Rightarrow> found" where
  "remember h e f =
     (let u = en_unique_id e;
          f = (case oget (en_id e) (hm_entity_descriptions h) of
                 Some d \<Rightarrow> f\<lparr>fo_entities := oput u d (fo_entities f)\<rparr> | None \<Rightarrow> f)
      in case oget (en_id e) (hm_states h) of
           Some st \<Rightarrow>
             f\<lparr>fo_available := (fo_available f \<and> es_availability st \<noteq> Unavailable),
               fo_reports := oput u \<lparr>sr_unique_id = u, sr_state = es_state st, sr_attributes = es_attributes st,
                 sr_caused_by = None, sr_replayed = False\<rparr> (fo_reports f)\<rparr>
         | None \<Rightarrow> f)"

definition hold :: "string \<Rightarrow> 'p home \<Rightarrow> home_event list \<times> 'p home" where
  "hold i h =
     (case (oget i (hm_devices h), oget i (hm_device_descriptions h)) of
        (Some dv, Some d) \<Rightarrow>
          (let es = owned h i;
               f = fold (remember h) es (new_found (dv_protocol dv) d)
           in case remove_device (dv_protocol dv) (dv_unique_id dv) h of
                (r, h) \<Rightarrow>
                  (case r of Inr evs \<Rightarrow> evs | Inl _ \<Rightarrow> [],
                   h\<lparr>hm_found_entities := fold (\<lambda>e. oput (dv_protocol dv, en_unique_id e) i) es (hm_found_entities h),
                     hm_found := oput i f (hm_found h)\<rparr>))
      | _ \<Rightarrow> ([], h))"

definition admit :: "core_libs \<Rightarrow> string \<Rightarrow> stamp \<Rightarrow> 'p home \<Rightarrow> (home_event list \<times> 'p home) option" where
  "admit lib i s h =
     (case oget i (hm_found h) of
        None \<Rightarrow> Some ([], h)
      | Some f \<Rightarrow>
          (let p = fo_protocol f;
               h = h\<lparr>hm_found := odel i (hm_found h),
                     hm_found_entities := fold (\<lambda>u. odel (p, u)) (okeys (fo_entities f)) (hm_found_entities h)\<rparr>
           in Option.bind (if_accepted (describe_device lib p (fo_description f) h)) (\<lambda>(es1, h).
              Option.bind (each (\<lambda>(kinds, d) h. if_accepted (describe_entity p kinds d s h)) (ovals (fo_entities f)) h)
                (\<lambda>(es2, h).
              Option.bind (each (\<lambda>r h. if_accepted (report_state p (r\<lparr>sr_replayed := True\<rparr>) s h)) (ovals (fo_reports f)) h)
                (\<lambda>(es3, h).
              Option.bind (if fo_available f then Some ([], h)
                 else if_accepted (Some (set_availability p (OfDevice (dd_unique_id (fo_description f))) Unavailable s h)))
                (\<lambda>(es4, h). Some (es1 @ es2 @ es3 @ es4, h)))))))"

definition forget_device :: "string \<Rightarrow> 'p home \<Rightarrow> home_event list res \<times> 'p home" where
  "forget_device i h =
     (if oget i (hm_devices h) \<noteq> None then (case hold i h of (es, h) \<Rightarrow> (Ok es, h))
      else if oget i (hm_found h) \<noteq> None then (Ok [], h)
      else (Err (Msg ''there's no device `{}`'' [plain i]), h))"

section \<open>What a person says\<close>

text \<open>A device is given the name, the words and the room it has by now.\<close>

definition resettle_device :: "core_libs \<Rightarrow> string \<Rightarrow> 'p home \<Rightarrow> (home_event list \<times> 'p home) option" where
  "resettle_device lib i h =
     Option.bind (oget i (hm_device_names h)) (\<lambda>reported.
     Option.bind (oget i (hm_devices h)) (\<lambda>dv.
       let name = name_for_device h i reported;
           desc = description_for_device h i;
           area = area_for_device lib h i (dv_suggested_area dv)
       in if dv_name dv = name \<and> dv_area dv = area \<and> dv_description dv = desc then Some ([], h)
          else let dv = dv\<lparr>dv_name := name, dv_description := desc, dv_area := area\<rparr>
               in Some ([DeviceUpdated dv], h\<lparr>hm_devices := oput i dv (hm_devices h)\<rparr>)))"

definition resettle_entity :: "string \<Rightarrow> 'p home \<Rightarrow> (home_event list \<times> 'p home) option" where
  "resettle_entity i h =
     Option.bind (oget i (hm_entities h)) (\<lambda>e. rename_entity i (en_device_id e) h)"

definition now_held :: "'p home \<Rightarrow> string list" where
  "now_held h = map fst (filter (\<lambda>(i, d). is_held h (dv_protocol d) i) (hm_devices h))"

definition now_added :: "'p home \<Rightarrow> string list" where
  "now_added h = map fst (filter (\<lambda>(i, f). \<not> is_held h (fo_protocol f) i) (hm_found h))"

definition apply_settings :: "core_libs \<Rightarrow> 'p settings \<Rightarrow> stamp \<Rightarrow> 'p home \<Rightarrow> (home_event list \<times> 'p home) option" where
  "apply_settings lib st s h =
     (if hm_settings h = st then Some ([], h)
      else
        (let h = h\<lparr>hm_settings := st\<rparr>
         in Option.bind (each (\<lambda>i h. Some (hold i h)) (now_held h) h) (\<lambda>(es1, h).
            Option.bind (each (\<lambda>i. admit lib i s) (now_added h) h) (\<lambda>(es2, h).
            Option.bind (each (resettle_device lib) (okeys (hm_devices h)) h) (\<lambda>(es3, h).
            Option.bind (each resettle_entity (okeys (hm_entities h)) h) (\<lambda>(es4, h).
              let es = es1 @ es2 @ es3 @ es4
              in Some (if es = [] then [SettingsChanged] else es, h)))))))"

section \<open>Service calls\<close>

text \<open>\<open>CallError\<close> (\<open>services.rs\<close>), \<open>Command\<close> and \<open>Resolved\<close>.\<close>

datatype call_error =
    UnknownEntity string
  | NotSupported msg
  | NotRunning string
  | CallUnavailable msg
  | CallFailed msg
  | CallTimeout

record command =
  cm_action :: string
  cm_data :: obj

record resolved =
  rv_protocol :: string
  rv_unique_id :: string
  rv_service :: service

text \<open>The value an entity has, or was last told to have.\<close>

definition current_value :: "core_libs \<Rightarrow> 'p home \<Rightarrow> string \<Rightarrow> typed option" where
  "current_value lib h i =
     or_else (oget i (hm_commanded h))
       (Option.bind (oget i (hm_states h)) (\<lambda>es. map_option (primary (cl_dates lib)) (es_state es)))"

definition not_supported :: "string \<Rightarrow> msg \<Rightarrow> call_error" where
  "not_supported i what = NotSupported (Msg ''`{}` {}'' [plain i, what])"

text \<open>The action a command names: \<open>toggle\<close> is resolved from the current value.\<close>

definition resolve_action :: "core_libs \<Rightarrow> string \<Rightarrow> entity_kind \<Rightarrow> command \<Rightarrow> 'p home \<Rightarrow> call_error + string" where
  "resolve_action lib i k c h =
     (if cm_action c = toggle_action then
        (if cm_data c \<noteq> [] then Inl (NotSupported (Msg ''`{}.toggle` takes no data'' [plain (domain k)]))
         else (case toggle k (current_value lib h i) of
                 None \<Rightarrow> Inl (not_supported i (Msg ''is a {}; it can't be toggled'' [plain (domain k)]))
               | Some a \<Rightarrow> Inr a))
      else if cm_action c \<in> set (kind_actions k) then Inr (cm_action c)
      else Inl (not_supported i (Msg ''is a {}; it has no `{}`'' [plain (domain k), plain (cm_action c)])))"

text \<open>Counting up or down is the core's to work out: the protocol is sent the value it comes to.\<close>

definition count_service :: "core_libs \<Rightarrow> string \<Rightarrow> capabilities \<Rightarrow> service \<Rightarrow> 'p home \<Rightarrow> call_error + service" where
  "count_service lib i caps sv h =
     (case (caps, sv) of
        (C_Number nc, SvNumber ns) \<Rightarrow>
          (case stepped nc (Option.bind (current_value lib h i) (\<lambda>v. case v of TNumber n \<Rightarrow> Some n | _ \<Rightarrow> None)) ns of
             Some (Inr v) \<Rightarrow> Inr (SvNumber (NumberSetValue v))
           | Some (Inl why) \<Rightarrow> Inl (not_supported i why)
           | None \<Rightarrow> Inr sv)
      | _ \<Rightarrow> Inr sv)"

definition resolve :: "core_libs \<Rightarrow> string \<Rightarrow> command \<Rightarrow> 'p home \<Rightarrow> (call_error + resolved) option" where
  "resolve lib i c h =
     (case oget i (hm_entities h) of
        None \<Rightarrow> Some (Inl (UnknownEntity i))
      | Some e \<Rightarrow>
          Option.bind (entity_id_kind (en_id e)) (\<lambda>k.
            if \<not> has_services k then
              Some (Inl (not_supported i (Msg ''is a {}; it has no services'' [plain (domain k)])))
            else Some
              (case resolve_action lib i k c h of
                 Inl x \<Rightarrow> Inl x
               | Inr a \<Rightarrow>
                   (case from_data (cl_dates lib) k a (cm_data c) of
                      Inl m \<Rightarrow> Inl (NotSupported m)
                    | Inr sv \<Rightarrow>
                        (case count_service lib i (en_capabilities e) sv h of
                           Inl x \<Rightarrow> Inl x
                         | Inr sv \<Rightarrow>
                             (case supports (en_capabilities e) sv of
                                Inl why \<Rightarrow> Inl (not_supported i why)
                              | Inr _ \<Rightarrow> Inr \<lparr>rv_protocol = en_protocol e, rv_unique_id = en_unique_id e,
                                           rv_service = sv\<rparr>))))))"

definition forget_call :: "string \<Rightarrow> string \<Rightarrow> 'p home \<Rightarrow> 'p home" where
  "forget_call p c h = h\<lparr>hm_calls := omod p (filter (\<lambda>(i, _). i \<noteq> c)) (hm_calls h)\<rparr>"

definition forget_command :: "string \<Rightarrow> 'p home \<Rightarrow> 'p home" where
  "forget_command i h = h\<lparr>hm_commanded := odel i (hm_commanded h)\<rparr>"

definition still_dispatchable :: "'p home \<Rightarrow> string \<Rightarrow> resolved \<Rightarrow> bool" where
  "still_dispatchable h i r =
     is_some_and (oget i (hm_entities h)) (\<lambda>e.
       en_protocol e = rv_protocol r \<and> en_unique_id e = rv_unique_id r
       \<and> is_ok (supports (en_capabilities e) (rv_service r)))"

definition record_command :: "core_libs \<Rightarrow> string \<Rightarrow> service \<Rightarrow> 'p home \<Rightarrow> 'p home" where
  "record_command lib i sv h =
     (case asks_for (cl_dates lib) sv of
        Some v \<Rightarrow> h\<lparr>hm_commanded := oput i v (hm_commanded h)\<rparr>
      | None \<Rightarrow> h\<lparr>hm_commanded := odel i (hm_commanded h)\<rparr>)"

definition record_call :: "string \<Rightarrow> string \<Rightarrow> int \<Rightarrow> 'p home \<Rightarrow> 'p home" where
  "record_call p c now h =
     (let calls = dropWhile (\<lambda>(_, called). \<not> within_call_window called now) (unwrap_or (oget p (hm_calls h)) []);
          calls = (if length calls = max_recent_calls then tl calls else calls)
      in h\<lparr>hm_calls := oput p (calls @ [(c, now)]) (hm_calls h)\<rparr>)"

section \<open>Updates\<close>

text \<open>\<open>change_update\<close>: nothing happens for what isn't an update with a state, or isn't changed.\<close>

definition change_update :: "string \<Rightarrow> ctx \<Rightarrow> stamp \<Rightarrow> (update_state \<Rightarrow> update_state) \<Rightarrow> 'p home
    \<Rightarrow> home_event list \<times> 'p home" where
  "change_update i cx s change h =
     (case oget i (hm_states h) of
        None \<Rightarrow> ([], h)
      | Some old \<Rightarrow>
          (case es_state old of
             Some (Update u) \<Rightarrow>
               if change u = u then ([], h)
               else
                 (let now = max (sm_now s) (es_last_updated old);
                      new = old\<lparr>es_state := Some (Update (change u)), es_last_updated := now,
                              es_last_changed := (if up_available (change u) = up_available u
                                                  then es_last_changed old else now),
                              es_context := cx\<rparr>
                  in ([StateChanged i (Some old) new], h\<lparr>hm_states := oput i new (hm_states h)\<rparr>))
           | _ \<Rightarrow> ([], h)))"

definition skip_update :: "string \<Rightarrow> ctx \<Rightarrow> stamp \<Rightarrow> 'p home \<Rightarrow> (call_error + home_event list) \<times> 'p home" where
  "skip_update i cx s h =
     (let refuse = (\<lambda>what. (Inl (not_supported i (plain what)), h))
      in case update_of h i of
           None \<Rightarrow> refuse ''hasn't said what version it has''
         | Some u \<Rightarrow>
             if up_in_progress u then refuse ''is installing; there's nothing to skip''
             else
               (case (up_available u, up_latest_version u) of
                  (True, Some version) \<Rightarrow>
                    (case entity_key h i of
                       None \<Rightarrow> refuse ''isn't here any more''
                     | Some key \<Rightarrow>
                         (let h = h\<lparr>hm_skipped := oput key version (hm_skipped h), hm_skips_changed := True\<rparr>
                          in case change_update i cx s
                                    (\<lambda>u. u\<lparr>up_skipped_version := Some version, up_available := False\<rparr>) h of
                               (es, h) \<Rightarrow> (Inr es, h)))
                | _ \<Rightarrow> refuse ''has no update to skip''))"

definition clear_skipped_update :: "string \<Rightarrow> ctx \<Rightarrow> stamp \<Rightarrow> 'p home \<Rightarrow> home_event list \<times> 'p home" where
  "clear_skipped_update i cx s h =
     (case entity_key h i of
        None \<Rightarrow> ([], h)
      | Some key \<Rightarrow>
          (let h = (if oget key (hm_skipped h) \<noteq> None
                    then h\<lparr>hm_skipped := odel key (hm_skipped h), hm_skips_changed := True\<rparr> else h)
           in change_update i cx s (\<lambda>u. u\<lparr>up_skipped_version := None,
                up_available := differs (up_installed_version u) (up_latest_version u)\<rparr>) h))"

definition begin_update :: "string \<Rightarrow> stamp \<Rightarrow> 'p home \<Rightarrow> home_event list \<times> 'p home" where
  "begin_update i s h = change_update i (system_context s) s (\<lambda>u. u\<lparr>up_last_error := None\<rparr>) h"

definition fail_update :: "string \<Rightarrow> string \<Rightarrow> stamp \<Rightarrow> 'p home \<Rightarrow> home_event list \<times> 'p home" where
  "fail_update i why s h =
     change_update i (system_context s) s
       (\<lambda>u. u\<lparr>up_last_error := Some why, up_in_progress := False, up_progress := None\<rparr>) h"

text \<open>The skips to store, when they have changed, in the order of their keys; and put back.\<close>

definition skips_to_store :: "'p home \<Rightarrow> (string \<times> string, string) omap option \<times> 'p home" where
  "skips_to_store h =
     (if hm_skips_changed h then Some (hm_skipped h) else None, h\<lparr>hm_skips_changed := False\<rparr>)"

definition restore_skips :: "((string \<times> string) \<times> string) list \<Rightarrow> 'p home \<Rightarrow> 'p home" where
  "restore_skips skips h = h\<lparr>hm_skipped := ofold skips\<rparr>"

section \<open>What can be asked\<close>

record held_device =
  hd_id :: string
  hd_protocol :: string
  hd_name :: string
  hd_manufacturer :: "string option"
  hd_model :: "string option"
  hd_provides :: "(string, nat) omap"

definition held_devices :: "'p home \<Rightarrow> held_device list" where
  "held_devices h =
     map (\<lambda>(i, f). \<lparr>hd_id = i, hd_protocol = fo_protocol f, hd_name = name_for_device h i (dd_name (fo_description f)),
         hd_manufacturer = dd_manufacturer (fo_description f), hd_model = dd_model (fo_description f),
         hd_provides = fold (\<lambda>(_, d) m. let k = domain (ed_kind d) in oput k (unwrap_or (oget k m) 0 + 1) m)
           (ovals (fo_entities f)) []\<rparr>) (hm_found h)"

definition device_key :: "'p home \<Rightarrow> string \<Rightarrow> (string \<times> string) option" where
  "device_key h i =
     (case oget i (hm_devices h) of
        Some dv \<Rightarrow> Some (dv_protocol dv, dv_unique_id dv)
      | None \<Rightarrow> map_option (\<lambda>f. (fo_protocol f, dd_unique_id (fo_description f))) (oget i (hm_found h)))"

definition device_entity_keys :: "'p home \<Rightarrow> string \<Rightarrow> (string \<times> string) list option" where
  "device_entity_keys h i =
     (case oget i (hm_devices h) of
        Some dv \<Rightarrow> Some (map (\<lambda>e. (dv_protocol dv, en_unique_id e)) (owned h i))
      | None \<Rightarrow> map_option (\<lambda>f. map (\<lambda>u. (fo_protocol f, u)) (okeys (fo_entities f))) (oget i (hm_found h)))"

end
