(* ===== verification/Slugs.thy ===== *)
theory Slugs
  imports Updates
begin

text \<open>
  The ids that are made are ids: what \<open>slugify\<close>, \<open>device_id_for\<close> and \<open>unique_id_for\<close> answer passes
  \<open>check_slug\<close>, so the \<open>expect\<close>s after them can't fail, and the search for a free id ends.
\<close>

section \<open>Slugs\<close>

definition slug_char :: "char \<Rightarrow> bool" where
  "slug_char c \<longleftrightarrow> is_lower c \<or> is_digit c \<or> c = CHR ''_''"

definition slug_like :: "string \<Rightarrow> bool" where
  "slug_like s \<longleftrightarrow> s \<noteq> [] \<and> list_all slug_char s \<and> hd s \<noteq> CHR ''_'' \<and> last s \<noteq> CHR ''_'' \<and> \<not> has_double_underscore s"

definition is_slug :: "string \<Rightarrow> bool" where
  "is_slug s \<longleftrightarrow> slug_like s \<and> length s \<le> slug_max_len"

lemma check_slug_ok [simp]: "check_slug what s = Inr u \<longleftrightarrow> is_slug s"
  by (auto simp: check_slug_def is_slug_def slug_like_def slug_char_def list_all_iff)

lemma double_append:
  "has_double_underscore (xs @ ys) \<longleftrightarrow> has_double_underscore xs \<or> has_double_underscore ys \<or>
     (xs \<noteq> [] \<and> ys \<noteq> [] \<and> last xs = CHR ''_'' \<and> hd ys = CHR ''_'')"
proof (induction xs)
  case (Cons x xs)
  then show ?case by (cases xs; cases ys) auto
qed simp

lemma slug_like_append:
  "slug_like xs \<Longrightarrow> slug_like ys \<Longrightarrow> slug_like (xs @ CHR ''_'' # ys)"
  by (auto simp: slug_like_def slug_char_def double_append[of xs] double_append[of "[CHR ''_'']" ys, simplified])

lemma slug_like_snoc: "slug_like xs \<Longrightarrow> slug_char c \<Longrightarrow> c \<noteq> CHR ''_'' \<Longrightarrow> slug_like (xs @ [c])"
  by (auto simp: slug_like_def double_append)

lemma slug_like_single: "slug_char c \<Longrightarrow> c \<noteq> CHR ''_'' \<Longrightarrow> slug_like [c]"
  by (simp add: slug_like_def)

lemma slug_like_plain: "w \<noteq> [] \<Longrightarrow> \<forall>c \<in> set w. slug_char c \<and> c \<noteq> CHR ''_'' \<Longrightarrow> slug_like w"
proof (induction w rule: rev_induct)
  case (snoc x xs)
  then show ?case by (cases "xs = []") (simp_all add: slug_like_snoc slug_like_single)
qed simp

lemma byte_lower_char: "byte_of (lower_char c) = (if is_upper c then byte_of c + 32 else byte_of c)"
proof (cases "is_upper c")
  case True
  then have "of_char c + 32 < (256::nat)" by (simp add: is_upper_def byte_of_def)
  with True show ?thesis by (simp add: lower_char_def byte_of_def of_char_mod_256)
qed (simp add: lower_char_def)

lemma lower_slug_char: "is_alnum c \<Longrightarrow> slug_char (lower_char c) \<and> lower_char c \<noteq> CHR ''_''"
proof -
  assume c: "is_alnum c"
  have "byte_of (lower_char c) \<noteq> byte_of CHR ''_''"
    using c unfolding byte_lower_char
    by (auto simp: is_alnum_def is_upper_def is_lower_def is_digit_def byte_of_def)
  then have "lower_char c \<noteq> CHR ''_''" by auto
  with c byte_lower_char[of c] show ?thesis
    by (auto simp: is_alnum_def slug_char_def is_upper_def is_lower_def is_digit_def split: if_splits)
qed

lemma slug_chars_like:
  "slug = [] \<or> slug_like slug \<Longrightarrow> slug_chars slug sep cs = [] \<or> slug_like (slug_chars slug sep cs)"
proof (induction slug sep cs rule: slug_chars.induct)
  case (2 slug separate c cs)
  show ?case
  proof (cases "is_alnum c")
    case True
    from lower_slug_char[OF True] have c: "slug_like [lower_char c]" by (simp add: slug_like_single)
    have "slug_like (slug @ (if separate \<and> slug \<noteq> [] then ''_'' else []) @ [lower_char c])"
      using 2(3) c slug_like_append[OF _ c, of slug] slug_like_snoc[of slug] lower_slug_char[OF True] by auto
    then show ?thesis using 2(1)[OF True] True by simp
  next
    case False
    then show ?thesis using 2 by simp
  qed
qed simp

lemma slug_chars_grows: "slug \<noteq> [] \<Longrightarrow> slug_chars slug sep cs \<noteq> []"
  by (induction slug sep cs rule: slug_chars.induct) auto

lemma slug_chars_prefix: "\<exists>r. slug_chars slug sep cs = slug @ r"
proof (induction slug sep cs rule: slug_chars.induct)
  case (2 slug separate c cs)
  then show ?case by (cases "is_alnum c") fastforce+
qed simp

lemma trimmed_prefix: "\<exists>r. s = trim_underscores s @ r"
proof -
  have "rev s = takeWhile (\<lambda>c. c = CHR ''_'') (rev s) @ dropWhile (\<lambda>c. c = CHR ''_'') (rev s)" by simp
  then have "s = trim_underscores s @ rev (takeWhile (\<lambda>c. c = CHR ''_'') (rev s))"
    unfolding trim_underscores_def by (metis rev_append rev_rev_ident)
  then show ?thesis by blast
qed

lemma length_trimmed: "length (trim_underscores s) \<le> length s"
  using length_dropWhile_le[of _ "rev s"] by (simp add: trim_underscores_def)

lemma last_trimmed: "trim_underscores s \<noteq> [] \<Longrightarrow> last (trim_underscores s) \<noteq> CHR ''_''"
  using hd_dropWhile[of "\<lambda>c. c = CHR ''_''" "rev s"] by (simp add: trim_underscores_def last_rev)

lemma trimmed_empty: "trim_underscores s = [] \<longleftrightarrow> (\<forall>c \<in> set s. c = CHR ''_'')"
  by (simp add: trim_underscores_def dropWhile_eq_Nil_conv)

lemma slug_like_cut:
  assumes "slug_like s" "0 < n"
  shows "slug_like (trim_underscores (take n s))"
proof -
  obtain c cs where s: "s = c # cs" using assms(1) by (cases s) (auto simp: slug_like_def)
  then have c: "c \<noteq> CHR ''_''" "c \<in> set (take n s)"
    using assms by (auto simp: slug_like_def take_Cons')
  then have ne: "trim_underscores (take n s) \<noteq> []" using trimmed_empty by blast
  obtain r where "take n s = trim_underscores (take n s) @ r" using trimmed_prefix by blast
  then obtain r' where r': "s = trim_underscores (take n s) @ r'" by (metis append.assoc append_take_drop_id)
  have "list_all slug_char (trim_underscores (take n s)) \<and> \<not> has_double_underscore (trim_underscores (take n s))
      \<and> hd (trim_underscores (take n s)) \<noteq> CHR ''_''"
    using assms(1) ne r' by (metis double_append hd_append2 list_all_append slug_like_def)
  then show ?thesis using ne last_trimmed by (simp add: slug_like_def)
qed

lemma is_slug_cut: "slug_like s \<Longrightarrow> 0 < n \<Longrightarrow> n \<le> slug_max_len \<Longrightarrow> is_slug (trim_underscores (take n s))"
  using slug_like_cut[of s n] length_trimmed[of "take n s"] by (simp add: is_slug_def)

lemma slugify_slug: "slugify text = [] \<or> is_slug (slugify text)"
proof (cases "slug_chars [] False text = []")
  case True
  then show ?thesis by (simp add: slugify_def trim_underscores_def)
next
  case False
  then show ?thesis
    using slug_chars_like[of "[]" False "text"] is_slug_cut[of _ slug_max_len]
    by (auto simp: slugify_def slug_max_len_def)
qed

section \<open>Ids of devices\<close>

lemma hex_digits: "n < 16 \<Longrightarrow> slug_char (hex_digit n) \<and> hex_digit n \<noteq> CHR ''_''"
proof -
  assume "n < 16"
  then have "hex_digit n \<in> set ''0123456789abcdef''" unfolding hex_digit_def by (intro nth_mem) simp
  moreover have "\<forall>c \<in> set ''0123456789abcdef''. slug_char c \<and> c \<noteq> CHR ''_''"
    by (simp add: slug_char_def is_lower_def is_digit_def byte_of_def)
  ultimately show ?thesis by blast
qed

lemma hex16_like: "slug_like (hex16 w)" "length (hex16 w) = 16"
proof -
  have "slug_char (hex_digit (k mod 16)) \<and> hex_digit (k mod 16) \<noteq> CHR ''_''" for k
    by (rule hex_digits) simp
  then show "slug_like (hex16 w)" unfolding hex16_def by (intro slug_like_plain) auto
  show "length (hex16 w) = 16" by (simp add: hex16_def)
qed

lemma first_alnum: "is_slug p \<Longrightarrow> slug_chars [] False (p @ rest) \<noteq> []"
proof -
  assume "is_slug p"
  then obtain c cs where p: "p = c # cs" "slug_char c" "c \<noteq> CHR ''_''"
    by (cases p) (auto simp: is_slug_def slug_like_def)
  then have "is_alnum c" by (auto simp: slug_char_def is_alnum_def)
  with p show ?thesis using slug_chars_grows by simp
qed

text \<open>A device's id is an id, whatever its handle: \<open>DeviceId::try_from(slug).expect\<close> can't fail.\<close>

lemma device_id_is_a_slug:
  assumes "is_slug protocol"
  shows "is_slug (device_id_for protocol unique)"
proof -
  let ?c = "protocol @ CHR '' '' # unique"
  have like: "slug_like (slug_chars [] False ?c)"
    using slug_chars_like[of "[]" False ?c] first_alnum[OF assms] by simp
  let ?t = "trim_underscores (take 47 (slug_chars [] False ?c))"
  have "slug_like (?t @ CHR ''_'' # hex16 w)" for w
    using slug_like_append[OF slug_like_cut[OF like] hex16_like(1)] by simp
  moreover have "length (?t @ CHR ''_'' # hex16 w) \<le> 64" for w
    using length_trimmed[of "take 47 (slug_chars [] False ?c)"] by (simp add: hex16_like)
  ultimately show ?thesis
    using like by (simp add: device_id_for_def Let_def hex16_like is_slug_def slug_max_len_def)
qed

section \<open>Free ids\<close>

lemma show_nat_plain: "c \<in> set (show_nat n) \<Longrightarrow> slug_char c \<and> c \<noteq> CHR ''_''"
  using show_nat_in_digits[of c n] by (auto simp: slug_char_def)

lemma show_nat_like: "slug_like (show_nat n)"
  by (intro slug_like_plain) (auto dest: show_nat_plain)

lemma length_show_nat: "n < 10 ^ k \<Longrightarrow> 0 < k \<Longrightarrow> length (show_nat n) \<le> k"
proof (induction n arbitrary: k rule: show_nat.induct)
  case (1 n)
  show ?case
  proof (cases "n < 10")
    case True
    then show ?thesis using 1(3) by (subst show_nat.simps) simp
  next
    case False
    then obtain j where j: "k = Suc j" "0 < j" using 1(2,3) by (cases k; cases "k - 1") auto
    then have "n div 10 < 10 ^ j" using 1(2) by (simp add: less_mult_imp_div_less mult.commute)
    with 1(1)[OF False this j(2)] show ?thesis using j False by (subst show_nat.simps) simp
  qed
qed

lemma numbered_inj: "numbered base n = numbered base m \<Longrightarrow> n = m"
proof -
  assume eq: "numbered base n = numbered base m"
  let ?tail = "\<lambda>s. rev (takeWhile (\<lambda>c. c \<noteq> CHR ''_'') (rev s))"
  have tail: "?tail (t @ CHR ''_'' # show_nat k) = show_nat k" for t k
    using show_nat_plain[of _ k] by (auto simp: takeWhile_append)
  from eq have "show_nat n = show_nat m"
    by (metis tail numbered_def)
  then show ?thesis by (metis digits_val_show_nat)
qed

lemma numbered_slug:
  assumes "slug_like base" "n < 10 ^ 10"
  shows "is_slug (numbered base n)"
proof -
  have len: "length (CHR ''_'' # show_nat n) \<le> 11" using length_show_nat[OF assms(2)] by simp
  let ?k = "slug_max_len - length (CHR ''_'' # show_nat n)"
  have "0 < ?k" using len by (simp add: slug_max_len_def)
  then have "slug_like (trim_underscores (take ?k base))" by (rule slug_like_cut[OF assms(1)])
  then have like: "slug_like (numbered base n)"
    using slug_like_append[OF _ show_nat_like] by (simp add: numbered_def Let_def)
  have "length (trim_underscores (take ?k base)) \<le> ?k"
    using length_trimmed[of "take ?k base"] by (rule order_trans) simp
  then have "length (numbered base n) \<le> slug_max_len"
    using len by (simp add: numbered_def Let_def slug_max_len_def)
  with like show ?thesis by (simp add: is_slug_def)
qed

lemma find_free_Some:
  assumes "finite {k. n \<le> k \<and> taken (numbered base k)}"
  shows "\<exists>k. find_free base taken n = Some (numbered base k) \<and> n \<le> k \<and> \<not> taken (numbered base k)
    \<and> k \<le> n + card {k. n \<le> k \<and> taken (numbered base k)}"
  using assms
proof (induction "card {k. n \<le> k \<and> taken (numbered base k)}" arbitrary: n)
  case 0
  then have "\<not> taken (numbered base n)" by auto
  then show ?case by (subst find_free.simps) auto
next
  case (Suc c)
  show ?case
  proof (cases "taken (numbered base n)")
    case False
    then show ?thesis by (subst find_free.simps) auto
  next
    case True
    then have set: "{k. n \<le> k \<and> taken (numbered base k)} = insert n {k. n + 1 \<le> k \<and> taken (numbered base k)}"
      using le_eq_less_or_eq by auto
    moreover have fin: "finite {k. n + 1 \<le> k \<and> taken (numbered base k)}"
      by (rule finite_subset[OF _ Suc.prems]) auto
    ultimately have "card {k. n \<le> k \<and> taken (numbered base k)} = Suc (card {k. n + 1 \<le> k \<and> taken (numbered base k)})"
      by simp
    with Suc(1)[of "n + 1"] Suc(2) fin True show ?thesis
      by (subst find_free.simps) fastforce
  qed
qed

text \<open>Taken ids are among a list of ids, so the search ends with a free one.\<close>

lemma find_free_ends:
  assumes "\<And>c. taken c \<Longrightarrow> f c \<in> set ids" "inj_on f {c. taken c}"
  shows "\<exists>k. find_free base taken 2 = Some (numbered base k) \<and> \<not> taken (numbered base k) \<and> k \<le> 2 + length ids"
proof -
  let ?K = "{k. 2 \<le> k \<and> taken (numbered base k)}"
  have inj: "inj_on (\<lambda>k. f (numbered base k)) ?K"
    using assms(2) numbered_inj by (fastforce simp: inj_on_def)
  have sub: "(\<lambda>k. f (numbered base k)) ` ?K \<subseteq> set ids" using assms(1) by auto
  have fin: "finite ?K" using finite_imageD[OF finite_subset[OF sub] inj] by simp
  have "card ?K \<le> card (set ids)" by (rule card_inj_on_le[OF inj sub]) simp
  then have "card ?K \<le> length ids" using card_length[of ids] by linarith
  with find_free_Some[OF fin] show ?thesis by (metis add_le_cancel_left order_trans)
qed

lemma unique_id_ends:
  assumes "\<And>c. taken c \<Longrightarrow> f c \<in> set ids" "inj_on f {c. taken c}"
    and "base = [] \<or> is_slug base" "is_slug fallback" "length ids < 10 ^ 9"
  shows "\<exists>i. unique_id_for base fallback taken = Some i \<and> is_slug i \<and> \<not> taken i"
proof -
  let ?b = "if base = [] then fallback else base"
  have slug: "is_slug ?b" using assms(3,4) by auto
  show ?thesis
  proof (cases "taken ?b")
    case False
    then show ?thesis using slug by (simp add: unique_id_for_def Let_def)
  next
    case True
    obtain k where k: "find_free ?b taken 2 = Some (numbered ?b k)" "\<not> taken (numbered ?b k)" "k \<le> 2 + length ids"
      using find_free_ends[of taken f ids ?b] assms(1,2) by blast
    then have "is_slug (numbered ?b k)" using slug assms(5) by (intro numbered_slug) (simp_all add: is_slug_def)
    with k True show ?thesis by (simp add: unique_id_for_def Let_def)
  qed
qed

end
