(* ===== verification/HomeInv.thy ===== *)
theory HomeInv
  imports HomeOps Slugs
begin

text \<open>
  When the home is well formed: its maps agree with each other, every entity's device is there,
  every state fits what its entity can do, and nothing is both in the home and only found.

  \<open>H\<close> are the handles protocols have for devices, no two of which make the same id, and \<open>E\<close> their
  handles for entities.
\<close>

section \<open>Well formed\<close>

definition handles :: "(string \<times> string) set \<Rightarrow> (string \<times> string) set \<Rightarrow> bool" where
  "handles H E \<longleftrightarrow> inj_on (\<lambda>(p, u). device_id_for p u) H \<and> (\<forall>k \<in> H. is_slug (fst k)) \<and>
     finite E \<and> card E < 10 ^ 9"

definition device_ok :: "(string \<times> string) set \<Rightarrow> 'p home \<Rightarrow> string \<Rightarrow> device \<Rightarrow> bool" where
  "device_ok H h i d \<longleftrightarrow> dv_id d = i \<and> (dv_protocol d, dv_unique_id d) \<in> H \<and>
     device_id_for (dv_protocol d) (dv_unique_id d) = i \<and>
     oget (dv_protocol d, dv_unique_id d) (hm_device_keys h) = Some i \<and>
     oget i (hm_device_names h) \<noteq> None \<and> oget i (hm_found h) = None \<and>
     (\<exists>dd. oget i (hm_device_descriptions h) = Some dd \<and> dd_unique_id dd = dv_unique_id d)"

text \<open>A description that an entity with this handle can have.\<close>

definition entity_description_ok :: "string \<Rightarrow> string \<Rightarrow> string option \<Rightarrow> entity_description \<Rightarrow> bool" where
  "entity_description_ok p u dev d \<longleftrightarrow> ed_unique_id d = u \<and> map_option (device_id_for p) (ed_device d) = dev \<and>
     is_none_or (ed_object_id d) is_slug"

definition entity_ok :: "(string \<times> string) set \<Rightarrow> 'p home \<Rightarrow> string \<Rightarrow> entity \<Rightarrow> bool" where
  "entity_ok E h i e \<longleftrightarrow> en_id e = i \<and> entity_id_kind i = Some (caps_kind (en_capabilities e)) \<and>
     (en_protocol e, en_unique_id e) \<in> E \<and>
     oget (en_protocol e, en_unique_id e) (hm_entity_keys h) = Some i \<and>
     oget (en_protocol e, en_unique_id e) (hm_found_entities h) = None \<and>
     (\<exists>kinds d. oget i (hm_entity_descriptions h) = Some (kinds, d) \<and>
        entity_description_ok (en_protocol e) (en_unique_id e) (en_device_id e) d) \<and>
     (\<forall>j. en_device_id e = Some j \<longrightarrow> (\<exists>d. oget j (hm_devices h) = Some d \<and> dv_protocol d = en_protocol e)) \<and>
     (oget i (hm_entity_names h) = None \<longrightarrow> en_device_id e \<noteq> None)"

definition value_ok :: "capabilities \<Rightarrow> string \<Rightarrow> entity_state \<Rightarrow> bool" where
  "value_ok caps i es \<longleftrightarrow> es_entity es = i \<and> es_last_changed es \<le> es_last_updated es \<and>
     (\<forall>st. es_state es = Some st \<longrightarrow> fits caps st = Ok () \<and> state_validate st = Ok ())"

definition found_ok :: "(string \<times> string) set \<Rightarrow> (string \<times> string) set \<Rightarrow> string \<Rightarrow> found \<Rightarrow> bool" where
  "found_ok H E i f \<longleftrightarrow> (fo_protocol f, dd_unique_id (fo_description f)) \<in> H \<and>
     device_id_for (fo_protocol f) (dd_unique_id (fo_description f)) = i \<and>
     omap_ok (fo_entities f) \<and>
     (\<forall>u kinds d. oget u (fo_entities f) = Some (kinds, d) \<longrightarrow>
        entity_description_ok (fo_protocol f) u (Some i) d \<and> (fo_protocol f, u) \<in> E)"

text \<open>Everything but the states; \<open>home_wf\<close> is all of it.\<close>

definition wf_registry :: "(string \<times> string) set \<Rightarrow> (string \<times> string) set \<Rightarrow> 'p home \<Rightarrow> bool" where
  "wf_registry H E h \<longleftrightarrow> omap_ok (hm_devices h) \<and> omap_ok (hm_entities h) \<and> omap_ok (hm_found h) \<and>
     (\<forall>i d. oget i (hm_devices h) = Some d \<longrightarrow> device_ok H h i d) \<and>
     (\<forall>i e. oget i (hm_entities h) = Some e \<longrightarrow> entity_ok E h i e) \<and>
     (\<forall>i f. oget i (hm_found h) = Some f \<longrightarrow> found_ok H E i f) \<and>
     (\<forall>p u i. oget (p, u) (hm_device_keys h) = Some i \<longrightarrow>
        (\<exists>d. oget i (hm_devices h) = Some d \<and> dv_protocol d = p \<and> dv_unique_id d = u)) \<and>
     (\<forall>p u i. oget (p, u) (hm_entity_keys h) = Some i \<longrightarrow>
        (\<exists>e. oget i (hm_entities h) = Some e \<and> en_protocol e = p \<and> en_unique_id e = u)) \<and>
     (\<forall>p u i. oget (p, u) (hm_found_entities h) = Some i \<longrightarrow>
        (\<exists>f. oget i (hm_found h) = Some f \<and> fo_protocol f = p \<and> oget u (fo_entities f) \<noteq> None))"

definition wf_states :: "'p home \<Rightarrow> bool" where
  "wf_states h \<longleftrightarrow> (\<forall>i. (oget i (hm_states h) = None) = (oget i (hm_entities h) = None)) \<and>
     (\<forall>i e es. oget i (hm_entities h) = Some e \<longrightarrow> oget i (hm_states h) = Some es \<longrightarrow> value_ok (en_capabilities e) i es)"

definition home_wf :: "(string \<times> string) set \<Rightarrow> (string \<times> string) set \<Rightarrow> 'p home \<Rightarrow> bool" where
  "home_wf H E h \<longleftrightarrow> wf_registry H E h \<and> wf_states h"

text \<open>Outside \<open>apply_settings\<close>, nothing that is to wait to be added is in the home.\<close>

definition none_held :: "'p home \<Rightarrow> bool" where
  "none_held h \<longleftrightarrow> (\<forall>i d. oget i (hm_devices h) = Some d \<longrightarrow> \<not> is_held h (dv_protocol d) i)"

section \<open>What follows\<close>

lemmas wf_defs = home_wf_def wf_registry_def wf_states_def

lemma home_wfI:
  assumes "omap_ok (hm_devices h)" "omap_ok (hm_entities h)" "omap_ok (hm_found h)"
    and "\<And>i d. oget i (hm_devices h) = Some d \<Longrightarrow> device_ok H h i d"
    and "\<And>i e. oget i (hm_entities h) = Some e \<Longrightarrow> entity_ok E h i e"
    and "\<And>i f. oget i (hm_found h) = Some f \<Longrightarrow> found_ok H E i f"
    and "\<And>p u i. oget (p, u) (hm_device_keys h) = Some i \<Longrightarrow>
      \<exists>d. oget i (hm_devices h) = Some d \<and> dv_protocol d = p \<and> dv_unique_id d = u"
    and "\<And>p u i. oget (p, u) (hm_entity_keys h) = Some i \<Longrightarrow>
      \<exists>e. oget i (hm_entities h) = Some e \<and> en_protocol e = p \<and> en_unique_id e = u"
    and "\<And>p u i. oget (p, u) (hm_found_entities h) = Some i \<Longrightarrow>
      \<exists>f. oget i (hm_found h) = Some f \<and> fo_protocol f = p \<and> oget u (fo_entities f) \<noteq> None"
    and "\<And>i. oget i (hm_states h) = None \<longleftrightarrow> oget i (hm_entities h) = None"
    and "\<And>i e es. oget i (hm_entities h) = Some e \<Longrightarrow> oget i (hm_states h) = Some es \<Longrightarrow> value_ok (en_capabilities e) i es"
  shows "home_wf H E h"
  unfolding home_wf_def wf_registry_def wf_states_def using assms by (intro conjI allI impI) assumption+

lemma wf_maps: "home_wf H E h \<Longrightarrow> omap_ok (hm_devices h) \<and> omap_ok (hm_entities h) \<and> omap_ok (hm_found h)"
  by (simp add: wf_defs)

lemma wf_deviceD: "home_wf H E h \<Longrightarrow> oget i (hm_devices h) = Some d \<Longrightarrow> device_ok H h i d"
  by (simp add: wf_defs)

lemma wf_entityD: "home_wf H E h \<Longrightarrow> oget i (hm_entities h) = Some e \<Longrightarrow> entity_ok E h i e"
  by (simp add: wf_defs)

lemma wf_foundD: "home_wf H E h \<Longrightarrow> oget i (hm_found h) = Some f \<Longrightarrow> found_ok H E i f"
  by (simp add: wf_defs)

lemma wf_device_keyD: "home_wf H E h \<Longrightarrow> oget (p, u) (hm_device_keys h) = Some i \<Longrightarrow>
    \<exists>d. oget i (hm_devices h) = Some d \<and> dv_protocol d = p \<and> dv_unique_id d = u \<and> device_ok H h i d"
  unfolding home_wf_def wf_registry_def by metis

lemma wf_entity_keyD: "home_wf H E h \<Longrightarrow> oget (p, u) (hm_entity_keys h) = Some i \<Longrightarrow>
    \<exists>e. oget i (hm_entities h) = Some e \<and> en_protocol e = p \<and> en_unique_id e = u \<and> entity_ok E h i e"
  unfolding home_wf_def wf_registry_def by metis

lemma wf_found_keyD: "home_wf H E h \<Longrightarrow> oget (p, u) (hm_found_entities h) = Some i \<Longrightarrow>
    \<exists>f. oget i (hm_found h) = Some f \<and> fo_protocol f = p \<and> oget u (fo_entities f) \<noteq> None \<and> found_ok H E i f"
  unfolding home_wf_def wf_registry_def by metis

lemma wf_state_iff: "home_wf H E h \<Longrightarrow> oget i (hm_states h) = None \<longleftrightarrow> oget i (hm_entities h) = None"
  by (simp add: home_wf_def wf_states_def)

lemma wf_stateD: "home_wf H E h \<Longrightarrow> oget i (hm_entities h) = Some e \<Longrightarrow>
    \<exists>es. oget i (hm_states h) = Some es \<and> value_ok (en_capabilities e) i es"
  by (cases "oget i (hm_states h)") (auto simp: home_wf_def wf_states_def)

lemma wf_valueD:
  assumes "home_wf H E h" "oget i (hm_states h) = Some es"
  shows "\<exists>e. oget i (hm_entities h) = Some e \<and> value_ok (en_capabilities e) i es"
proof -
  obtain e where e: "oget i (hm_entities h) = Some e" using wf_state_iff[OF assms(1), of i] assms(2) by auto
  moreover from wf_stateD[OF assms(1) this] assms(2) have "value_ok (en_capabilities e) i es" by simp
  ultimately show ?thesis by blast
qed

lemma mem_ovals: "omap_ok m \<Longrightarrow> v \<in> set (ovals m) \<longleftrightarrow> (\<exists>k. oget k m = Some v)"
  by (force simp: ovals_def oget_eq_Some)

lemma mem_owned: "home_wf H E h \<Longrightarrow> e \<in> set (owned h i) \<longleftrightarrow> oget (en_id e) (hm_entities h) = Some e \<and> en_device_id e = Some i"
proof -
  assume w: "home_wf H E h"
  then have "omap_ok (hm_entities h)" by (simp add: wf_defs)
  then show ?thesis
    using wf_entityD[OF w] by (auto simp: owned_def mem_ovals entity_ok_def)
qed

lemma same_handle:
  assumes "handles H E" "(p, u) \<in> H" "(p', u') \<in> H" "device_id_for p u = device_id_for p' u'"
  shows "p = p' \<and> u = u'"
  using inj_onD[of "\<lambda>(p, u). device_id_for p u" H "(p, u)" "(p', u')"] assms by (simp add: handles_def)

lemma wf_default: "home_wf H E (home_default blank)"
  by (simp add: wf_defs home_default_def)

lemma none_held_default: "none_held (home_default blank)"
  by (simp add: none_held_def home_default_def)

section \<open>Writes that keep it\<close>

named_theorems wf_frame \<open>writes beside what is well formed\<close>

lemma wf_beside [wf_frame]:
  "home_wf H E (h\<lparr>hm_commanded := a\<rparr>) = home_wf H E h" "home_wf H E (h\<lparr>hm_skipped := b\<rparr>) = home_wf H E h"
  "home_wf H E (h\<lparr>hm_skips_changed := c\<rparr>) = home_wf H E h" "home_wf H E (h\<lparr>hm_calls := d\<rparr>) = home_wf H E h"
  "home_wf H E (h\<lparr>hm_settings := s\<rparr>) = home_wf H E h"
  by (simp_all add: wf_defs device_ok_def entity_ok_def)

lemma held_beside [wf_frame]:
  "none_held (h\<lparr>hm_commanded := a\<rparr>) = none_held h" "none_held (h\<lparr>hm_skipped := b\<rparr>) = none_held h"
  "none_held (h\<lparr>hm_skips_changed := c\<rparr>) = none_held h" "none_held (h\<lparr>hm_calls := d\<rparr>) = none_held h"
  "none_held (h\<lparr>hm_states := ss\<rparr>) = none_held h" "none_held (h\<lparr>hm_found := fs\<rparr>) = none_held h"
  "none_held (h\<lparr>hm_found_entities := fe\<rparr>) = none_held h" "none_held (h\<lparr>hm_entities := en\<rparr>) = none_held h"
  by (simp_all add: none_held_def is_held_def)

lemma wf_put_state:
  assumes "home_wf H E h" "oget i (hm_entities h) = Some e" "value_ok (en_capabilities e) i es"
  shows "home_wf H E (h\<lparr>hm_states := oput i es (hm_states h)\<rparr>)"
  using assms by (auto simp: wf_defs oget_oput device_ok_def entity_ok_def)

text \<open>Devices and entities may change in everything but what they are known by.\<close>

definition same_device :: "device \<Rightarrow> device \<Rightarrow> bool" where
  "same_device d d' \<longleftrightarrow> dv_id d' = dv_id d \<and> dv_protocol d' = dv_protocol d \<and> dv_unique_id d' = dv_unique_id d"

lemma wf_devices:
  assumes w: "home_wf H E h" and ok: "omap_ok m"
    and old: "\<And>j d'. oget j m = Some d' \<Longrightarrow> \<exists>d. oget j (hm_devices h) = Some d \<and> same_device d d'"
    and kept: "\<And>j d. oget j (hm_devices h) = Some d \<Longrightarrow> \<exists>d'. oget j m = Some d' \<and> same_device d d'"
  shows "home_wf H E (h\<lparr>hm_devices := m\<rparr>)"
proof -
  let ?h = "h\<lparr>hm_devices := m\<rparr>"
  have devices: "device_ok H ?h j d'" if "oget j m = Some d'" for j d'
  proof -
    from old[OF that] obtain d where d: "oget j (hm_devices h) = Some d" "same_device d d'" by blast
    from wf_deviceD[OF w d(1)] d(2) show ?thesis by (simp add: device_ok_def same_device_def)
  qed
  have entities: "entity_ok E ?h j e" if "oget j (hm_entities h) = Some e" for j e
  proof -
    have e: "entity_ok E h j e" using wf_entityD[OF w that] .
    have "\<exists>d. oget i m = Some d \<and> dv_protocol d = en_protocol e" if "en_device_id e = Some i" for i
      using e that kept unfolding entity_ok_def same_device_def by metis
    with e show ?thesis by (simp add: entity_ok_def)
  qed
  have keys: "\<exists>d. oget i m = Some d \<and> dv_protocol d = p \<and> dv_unique_id d = u"
    if "oget (p, u) (hm_device_keys h) = Some i" for p u i
    using wf_device_keyD[OF w that] kept unfolding same_device_def by metis
  have "wf_registry H E ?h"
    using w ok devices entities keys unfolding home_wf_def wf_registry_def by simp
  moreover have "wf_states ?h" using w by (simp add: home_wf_def wf_states_def)
  ultimately show ?thesis by (simp add: home_wf_def)
qed

lemma wf_put_device:
  assumes w: "home_wf H E h" and d: "oget i (hm_devices h) = Some d" "same_device d d'"
  shows "home_wf H E (h\<lparr>hm_devices := oput i d' (hm_devices h)\<rparr>)"
proof (rule wf_devices[OF w])
  show "omap_ok (oput i d' (hm_devices h))" using w by (simp add: wf_defs omap_ok_oput)
qed (use d in \<open>auto simp: oget_oput same_device_def split: if_splits\<close>)

definition same_entity :: "entity \<Rightarrow> entity \<Rightarrow> bool" where
  "same_entity e e' \<longleftrightarrow> en_id e' = en_id e \<and> en_protocol e' = en_protocol e \<and> en_unique_id e' = en_unique_id e \<and>
     en_capabilities e' = en_capabilities e \<and> en_device_id e' = en_device_id e"

lemma wf_put_entity:
  assumes w: "home_wf H E h" and e: "oget i (hm_entities h) = Some e" "same_entity e e'"
  shows "home_wf H E (h\<lparr>hm_entities := oput i e' (hm_entities h)\<rparr>)"
proof -
  let ?h = "h\<lparr>hm_entities := oput i e' (hm_entities h)\<rparr>"
  have devices: "device_ok H ?h j d" if "oget j (hm_devices h) = Some d" for j d
    using wf_deviceD[OF w that] by (simp add: device_ok_def)
  have entities: "entity_ok E ?h j x" if "oget j (hm_entities ?h) = Some x" for j x
  proof (cases "j = i")
    case True
    with that wf_entityD[OF w e(1)] e(2) show ?thesis by (simp add: entity_ok_def same_entity_def oget_oput)
  next
    case False
    with that wf_entityD[OF w, of j x] show ?thesis by (simp add: entity_ok_def oget_oput)
  qed
  have keys: "\<exists>x. oget j (hm_entities ?h) = Some x \<and> en_protocol x = p \<and> en_unique_id x = u"
    if "oget (p, u) (hm_entity_keys h) = Some j" for p u j
    using wf_entity_keyD[OF w that] e by (auto simp: oget_oput same_entity_def)
  have "omap_ok (hm_entities ?h)" using w by (simp add: wf_defs omap_ok_oput)
  then have "wf_registry H E ?h"
    using w devices entities keys unfolding home_wf_def wf_registry_def by simp
  moreover have "wf_states ?h"
    using w e by (auto simp: home_wf_def wf_states_def oget_oput same_entity_def split: if_splits)
  ultimately show ?thesis by (simp add: home_wf_def)
qed

end
