(* ===== verification/HomeKeep.thy ===== *)
theory HomeKeep
  imports HomeInv
begin

text \<open>
  Each operation keeps the home well formed and does not panic, for what its protocols may ask.
\<close>

section \<open>Maps\<close>

lemma oget_values: "oget i (map (\<lambda>(j, d). (j, f d)) m) = map_option f (oget i m)"
  by (induction m) auto

lemma omap_ok_values: "omap_ok (map (\<lambda>(j, d). (j, f d)) m) = omap_ok m"
proof -
  have "map fst (map (\<lambda>(j, d). (j, f d)) m) = map fst m" by (simp add: case_prod_beta o_def)
  then show ?thesis unfolding omap_ok_def by (simp only:)
qed

lemma oget_without_all: "oget k (fold (\<lambda>u. odel (p, u)) us m) = (if k \<in> Pair p ` set us then None else oget k m)"
  by (induction us arbitrary: m) auto

lemma oget_fold_oput:
  "oget k (fold (\<lambda>e. oput (p, g e) i) es m) = (if k \<in> (\<lambda>e. (p, g e)) ` set es then Some i else oget k m)"
  by (induction es arbitrary: m) (auto simp: oget_oput)

lemma mem_okeys: "k \<in> set (okeys m) \<longleftrightarrow> oget k m \<noteq> None"
  by (simp add: oget_None_iff)

section \<open>Availability\<close>

lemma value_ok_availability:
  "value_ok caps i es \<Longrightarrow> value_ok caps i (es\<lparr>es_last_reported := t\<rparr>)"
  "value_ok caps i es \<Longrightarrow> value_ok caps i (es\<lparr>es_availability := av, es_last_changed := max t (es_last_updated es),
     es_last_updated := max t (es_last_updated es), es_last_reported := r, es_context := cx\<rparr>)"
  by (simp_all add: value_ok_def)

lemma set_availability_one_wf:
  assumes w: "home_wf H E h"
  shows "home_wf H E (snd (set_availability_one av now cx reported i h))"
proof (cases "oget i (hm_states h)")
  case (Some old)
  obtain e where e: "oget i (hm_entities h) = Some e" "value_ok (en_capabilities e) i old"
    using wf_valueD[OF w Some] by blast
  show ?thesis
    using w Some wf_put_state[OF w e(1)] value_ok_availability[OF e(2)]
    by (simp add: set_availability_one_def Let_def)
qed (simp add: set_availability_one_def w)

lemma set_availability_of_wf: "home_wf H E h \<Longrightarrow> home_wf H E (snd (set_availability_of av now cx reported is h))"
proof (induction "is" arbitrary: h)
  case (Cons i "is")
  show ?case
    using Cons.IH[OF set_availability_one_wf[OF Cons.prems]] by (simp add: case_prod_beta)
qed simp

text \<open>It changes the states, and what is asked of the rest of the home is as before.\<close>

lemma set_availability_of_states: "\<exists>m. snd (set_availability_of av now cx reported is h) = h\<lparr>hm_states := m\<rparr>"
proof (induction "is" arbitrary: h)
  case Nil
  show ?case by (rule exI[of _ "hm_states h"]) simp
next
  case (Cons i "is")
  have "\<exists>m. snd (set_availability_one av now cx reported i h) = h\<lparr>hm_states := m\<rparr>"
    by (cases "oget i (hm_states h)") (auto simp: set_availability_one_def Let_def intro: exI[of _ "hm_states h"])
  then obtain m where m: "snd (set_availability_one av now cx reported i h) = h\<lparr>hm_states := m\<rparr>" by blast
  obtain m' where "snd (set_availability_of av now cx reported is (h\<lparr>hm_states := m\<rparr>)) = h\<lparr>hm_states := m'\<rparr>"
    using Cons.IH[of "h\<lparr>hm_states := m\<rparr>"] by auto
  with m show ?case by (auto simp: case_prod_beta)
qed

section \<open>What is kept\<close>

text \<open>An operation that leaves the home well formed, what a person said, and nothing in the home that
  is to wait; and one that does not touch what is only found either.\<close>

definition keeps :: "(string \<times> string) set \<Rightarrow> (string \<times> string) set \<Rightarrow> 'p home \<Rightarrow> 'p home \<Rightarrow> bool" where
  "keeps H E h h' \<longleftrightarrow> home_wf H E h' \<and> hm_settings h' = hm_settings h \<and> (none_held h \<longrightarrow> none_held h')"

definition keeps_live :: "(string \<times> string) set \<Rightarrow> (string \<times> string) set \<Rightarrow> 'p home \<Rightarrow> 'p home \<Rightarrow> bool" where
  "keeps_live H E h h' \<longleftrightarrow> keeps H E h h' \<and> hm_found h' = hm_found h \<and> hm_found_entities h' = hm_found_entities h"

text \<open>Nothing is found that wasn't.\<close>

definition found_from :: "'p home \<Rightarrow> 'p home \<Rightarrow> bool" where
  "found_from h h' \<longleftrightarrow> (\<forall>i f. oget i (hm_found h') = Some f \<longrightarrow>
     (\<exists>g. oget i (hm_found h) = Some g \<and> fo_protocol g = fo_protocol f))"

lemma found_from_refl: "hm_found h' = hm_found h \<Longrightarrow> found_from h h'"
  by (simp add: found_from_def)

lemma found_fromD: "found_from h h' \<Longrightarrow> oget i (hm_found h') = Some f \<Longrightarrow>
    \<exists>g. oget i (hm_found h) = Some g \<and> fo_protocol g = fo_protocol f"
  by (simp add: found_from_def)

lemma found_from_trans: "found_from h h' \<Longrightarrow> found_from h' h'' \<Longrightarrow> found_from h h''"
  unfolding found_from_def by metis

lemma found_from_omod: "(\<And>f. fo_protocol (g f) = fo_protocol f) \<Longrightarrow> found_from h (h\<lparr>hm_found := omod i g (hm_found h)\<rparr>)"
  by (auto simp: found_from_def)

lemma keeps_trans: "keeps H E h h' \<Longrightarrow> keeps H E h' h'' \<Longrightarrow> keeps H E h h''"
  by (simp add: keeps_def)

lemma keeps_live_trans: "keeps_live H E h h' \<Longrightarrow> keeps_live H E h' h'' \<Longrightarrow> keeps_live H E h h''"
  by (auto simp: keeps_live_def intro: keeps_trans)

lemma keeps_refl: "home_wf H E h \<Longrightarrow> keeps_live H E h h"
  by (simp add: keeps_live_def keeps_def)

lemma keeps_states:
  "home_wf H E (h\<lparr>hm_states := m\<rparr>) \<Longrightarrow> keeps_live H E h (h\<lparr>hm_states := m\<rparr>)"
  by (simp add: keeps_live_def keeps_def wf_frame)

lemma set_availability_of_keeps:
  "home_wf H E h \<Longrightarrow> keeps_live H E h (snd (set_availability_of av now cx reported is h))"
  using set_availability_of_wf[of H E h] set_availability_of_states[of av now cx reported "is" h] keeps_states
  by metis

text \<open>What is found may change in what was last said of it.\<close>

lemma wf_found_changed:
  assumes w: "home_wf H E h" and g: "\<And>f. fo_protocol (g f) = fo_protocol f \<and> fo_description (g f) = fo_description f \<and> fo_entities (g f) = fo_entities f"
  shows "home_wf H E (h\<lparr>hm_found := omod i g (hm_found h)\<rparr>)"
proof (rule home_wfI)
  fix j f
  assume "oget j (hm_found (h\<lparr>hm_found := omod i g (hm_found h)\<rparr>)) = Some f"
  then obtain x where "oget j (hm_found h) = Some x" "f = x \<or> f = g x" by (auto split: if_splits)
  with wf_foundD[OF w] g show "found_ok H E j f" by (fastforce simp: found_ok_def)
next
  fix p u j
  assume "oget (p, u) (hm_found_entities (h\<lparr>hm_found := omod i g (hm_found h)\<rparr>)) = Some j"
  with wf_found_keyD[OF w, of p u j] g
  show "\<exists>f. oget j (hm_found (h\<lparr>hm_found := omod i g (hm_found h)\<rparr>)) = Some f \<and> fo_protocol f = p \<and> oget u (fo_entities f) \<noteq> None"
    by auto
qed (use w wf_maps[OF w] wf_deviceD[OF w] wf_entityD[OF w] wf_device_keyD[OF w] wf_entity_keyD[OF w] wf_state_iff[OF w]
    wf_stateD[OF w] in \<open>fastforce simp: device_ok_def entity_ok_def\<close>)+

lemma set_availability_keeps:
  assumes w: "home_wf H E h"
  shows "keeps H E h (snd (set_availability p t av s h)) \<and> found_from h (snd (set_availability p t av s h))"
proof -
  have go: "keeps H E h (snd (case set_availability_of a now cx b is h of (es, h) \<Rightarrow> (Ok es, h)))"
    "found_from h (snd (case set_availability_of a now cx b is h of (es, h) \<Rightarrow> (Ok es, h)))" for a now cx b "is"
    using set_availability_of_keeps[OF w] by (simp_all add: case_prod_beta keeps_live_def found_from_refl)
  have same: "keeps H E h h" "found_from h h" using keeps_refl[OF w] by (simp_all add: keeps_live_def found_from_refl)
  have found: "keeps H E h (h\<lparr>hm_found := omod i (\<lambda>f. f\<lparr>fo_available := b\<rparr>) (hm_found h)\<rparr>)" for i b
    using wf_found_changed[OF w, of "\<lambda>f. f\<lparr>fo_available := b\<rparr>"] by (simp add: keeps_def wf_frame)
  show ?thesis
    by (auto simp: set_availability_def Let_def go same found found_from_omod split: target.split sum.split)
qed

section \<open>Reports\<close>

text \<open>An update with what the core knows folded in still fits, and is still valid.\<close>

lemma fold_state_fits:
  assumes "fold_state i key st h = (st', h')" "\<forall>v. st = Some v \<longrightarrow> fits caps v = Ok () \<and> state_validate v = Ok ()"
  shows "\<forall>v. st' = Some v \<longrightarrow> fits caps v = Ok () \<and> state_validate v = Ok ()"
proof (cases "\<exists>u. st = Some (Update u)")
  case False
  then have "st' = st" using assms(1) by (auto simp: fold_state_def split: option.splits state.splits)
  then show ?thesis using assms(2) by simp
next
  case True
  then obtain u where u: "st = Some (Update u)" by blast
  obtain v sk where fold: "fold_report (update_of h i) u (oget key (hm_skipped h)) = (v, sk)" by fastforce
  then have "st' = Some (Update v)"
    using assms(1) by (simp add: fold_state_def fold_update_def Let_def u)
  moreover have "update_validate v = Ok ()" using fold_report_valid[OF _ fold] assms(2) u by simp
  moreover have "fits caps (Update v) = fits caps (Update u)"
    by (cases caps) (simp_all add: fits_def)
  ultimately show ?thesis using assms(2) u by simp
qed

lemma fold_state_home:
  assumes "fold_state i key st h = (st', h')"
  shows "\<exists>sk b. h' = h\<lparr>hm_skipped := sk, hm_skips_changed := b\<rparr>"
proof -
  have "\<exists>sk b. h = h\<lparr>hm_skipped := sk, hm_skips_changed := b\<rparr>"
    by (rule exI[of _ "hm_skipped h"], rule exI[of _ "hm_skips_changed h"]) simp
  moreover have "\<exists>sk b. h\<lparr>hm_skipped := a, hm_skips_changed := c\<rparr> = h\<lparr>hm_skipped := sk, hm_skips_changed := b\<rparr>" for a c
    by blast
  ultimately show ?thesis
    using assms by (auto simp: fold_state_def fold_update_def Let_def split: option.splits state.splits prod.splits if_splits)
qed

lemma take_report_keeps:
  assumes w: "home_wf H E h" and e: "oget i (hm_entities h) = Some e"
    and st: "\<forall>v. st = Some v \<longrightarrow> fits (en_capabilities e) v = Ok () \<and> state_validate v = Ok ()"
  shows "\<exists>x h'. take_report p s parent st attrs replayed i k h = Some (x, h') \<and> keeps_live H E h h'"
proof -
  obtain old where old: "oget i (hm_states h) = Some old" "value_ok (en_capabilities e) i old"
    using wf_stateD[OF w e] by blast
  let ?h = "h\<lparr>hm_commanded := odel i (hm_commanded h)\<rparr>"
  have put: "keeps_live H E h (?h\<lparr>hm_states := oput i new (hm_states h)\<rparr>)" if "value_ok (en_capabilities e) i new" for new
    using wf_put_state[of H E ?h i e new] w e that by (simp add: keeps_live_def keeps_def wf_frame)
  let ?now = "max (max (sm_now s) (es_last_updated old)) (es_last_reported old)"
  have "value_ok (en_capabilities e) i (old\<lparr>es_last_reported := t\<rparr>)"
    "value_ok (en_capabilities e) i (old\<lparr>es_last_reported := ?now, es_state := st, es_attributes := attrs, es_last_updated := ?now\<rparr>)"
    "value_ok (en_capabilities e) i (old\<lparr>es_last_reported := ?now, es_state := st, es_attributes := attrs, es_last_updated := ?now,
       es_last_changed := ?now, es_context := cx\<rparr>)"
    "value_ok (en_capabilities e) i (old\<lparr>es_last_reported := ?now, es_state := st, es_attributes := attrs, es_last_updated := ?now,
       es_last_changed := es_last_changed old, es_context := cx\<rparr>)" for t cx
    using old(2) st by (auto simp: value_ok_def)
  from this[THEN put] show ?thesis
    using old(1) by (simp add: take_report_def Let_def)
qed

lemma report_known_keeps:
  assumes w: "home_wf H E h" and key: "oget (p, sr_unique_id r) (hm_entity_keys h) = Some i"
    and ok: "state_report_validate r = Ok ()"
  shows "\<exists>x h'. report_known p r s i h = Some (x, h') \<and> keeps_live H E h h'"
proof -
  obtain e where e: "oget i (hm_entities h) = Some e" "entity_ok E h i e" using wf_entity_keyD[OF w key] by blast
  have kind: "entity_id_kind i = Some (caps_kind (en_capabilities e))" using e(2) by (simp add: entity_ok_def)
  have refused: "keeps_live H E h h" using keeps_refl[OF w] .
  show ?thesis
  proof (cases "\<forall>v. sr_state r = Some v \<longrightarrow> fits (en_capabilities e) v = Ok ()")
    case False
    then show ?thesis
      using refused e(1) by (auto simp: report_known_def entity_fits_def split: sum.splits)
  next
    case True
    obtain st h1 where fold: "fold_state i (p, sr_unique_id r) (sr_state r) h = (st, h1)" by fastforce
    obtain sk b where h1: "h1 = h\<lparr>hm_skipped := sk, hm_skips_changed := b\<rparr>" using fold_state_home[OF fold] by blast
    have k1: "keeps_live H E h h1" using w h1 by (simp add: keeps_live_def keeps_def wf_frame)
    have "\<forall>v. sr_state r = Some v \<longrightarrow> fits (en_capabilities e) v = Ok () \<and> state_validate v = Ok ()"
      using True ok by (auto simp: state_report_validate_def prefixed_def split: sum.splits)
    from fold_state_fits[OF fold this] have st: "\<forall>v. st = Some v \<longrightarrow> fits (en_capabilities e) v = Ok () \<and> state_validate v = Ok ()" .
    have w1: "home_wf H E h1" and e1: "oget i (hm_entities h1) = Some e"
      using k1 e(1) h1 by (simp_all add: keeps_live_def keeps_def)
    obtain x h' where t: "take_report p s (sr_caused_by r) st (sr_attributes r) (sr_replayed r) i (caps_kind (en_capabilities e)) h1 = Some (x, h')"
      "keeps_live H E h1 h'" using take_report_keeps[OF w1 e1 st] by blast
    have "keeps_live H E h h'" using keeps_live_trans[OF k1 t(2)] .
    moreover have "(case sr_state r of None \<Rightarrow> Some (Ok ()) | Some st \<Rightarrow> Option.bind (oget i (hm_entities h)) (\<lambda>e. Some (entity_fits e st)))
        = Some (Ok ())"
      using True e(1) by (auto simp: entity_fits_def split: option.split)
    ultimately show ?thesis
      using k1 t(1) by (auto simp: report_known_def fold kind)
  qed
qed

lemma report_state_keeps:
  assumes w: "home_wf H E h"
  shows "\<exists>x h'. report_state p r s h = Some (x, h') \<and> keeps H E h h' \<and> found_from h h'"
proof -
  have same: "keeps H E h h \<and> found_from h h" using keeps_refl[OF w] by (simp add: keeps_live_def found_from_refl)
  have found: "keeps H E h (h\<lparr>hm_found := omod i (\<lambda>f. f\<lparr>fo_reports := g f\<rparr>) (hm_found h)\<rparr>)" for i g
    using wf_found_changed[OF w, of "\<lambda>f. f\<lparr>fo_reports := g f\<rparr>"] by (simp add: keeps_def wf_frame)
  have "\<exists>x h'. report_known p r s i h = Some (x, h') \<and> keeps H E h h' \<and> found_from h h'"
    if "state_report_validate r = Inr u" "entity_id_of h p (sr_unique_id r) = Some i" for r u i
    using report_known_keeps[OF w, of p r i s] that by (auto simp: entity_id_of_def keeps_live_def intro: found_from_refl)
  then show ?thesis
    using same found by (auto simp: report_state_def Let_def found_from_omod split: sum.split option.split)
qed

section \<open>Devices\<close>

lemma wf_device_described:
  assumes w: "home_wf H E h" and d: "oget i (hm_devices h) = Some d" "dd_unique_id dd = dv_unique_id d"
  shows "home_wf H E (h\<lparr>hm_device_names := oput i n (hm_device_names h),
    hm_device_descriptions := oput i dd (hm_device_descriptions h)\<rparr>)"
proof -
  have "device_ok H (h\<lparr>hm_device_names := oput i n (hm_device_names h),
      hm_device_descriptions := oput i dd (hm_device_descriptions h)\<rparr>) j x" if "oget j (hm_devices h) = Some x" for j x
    using wf_deviceD[OF w that] that d by (auto simp: device_ok_def oget_oput)
  then show ?thesis
    using w by (simp add: wf_defs entity_ok_def)
qed

lemma name_for_entity_Some:
  assumes "entity_ok E h i e"
  shows "\<exists>n. name_for_entity h i (en_device_id e) = Some n"
proof (cases "oget i (hm_entity_names h)")
  case None
  then obtain j where "en_device_id e = Some j" using assms by (auto simp: entity_ok_def)
  moreover then obtain d where "oget j (hm_devices h) = Some d" using assms by (auto simp: entity_ok_def)
  ultimately show ?thesis by (auto simp: name_for_entity_def None split: option.split)
qed (auto simp: name_for_entity_def split: option.split)

text \<open>Renaming an entity: everything else about the home is as before.\<close>

definition renames :: "'p home \<Rightarrow> 'p home \<Rightarrow> bool" where
  "renames h h' \<longleftrightarrow> (\<exists>m. h' = h\<lparr>hm_entities := m\<rparr>) \<and>
     (\<forall>i e. oget i (hm_entities h) = Some e \<longrightarrow> (\<exists>e'. oget i (hm_entities h') = Some e' \<and> same_entity e e'))"

lemma renames_refl: "renames h h"
  by (auto simp: renames_def same_entity_def intro: exI[of _ "hm_entities h"])

lemma renamesD: "renames h h' \<Longrightarrow> oget i (hm_entities h) = Some e \<Longrightarrow>
    \<exists>e'. oget i (hm_entities h') = Some e' \<and> same_entity e e'"
  by (simp add: renames_def)

lemma renames_trans:
  assumes 1: "renames h h'" and 2: "renames h' h''"
  shows "renames h h''"
proof -
  obtain m where h': "h' = h\<lparr>hm_entities := m\<rparr>" using 1 by (auto simp: renames_def)
  obtain m' where "h'' = h'\<lparr>hm_entities := m'\<rparr>" using 2 by (auto simp: renames_def)
  with h' have "h'' = h\<lparr>hm_entities := m'\<rparr>" by simp
  moreover have "\<exists>e''. oget i (hm_entities h'') = Some e'' \<and> same_entity e e''" if e: "oget i (hm_entities h) = Some e" for i e
  proof -
    obtain e' where e': "oget i (hm_entities h') = Some e'" "same_entity e e'" using 1 e by (auto simp: renames_def)
    obtain e'' where "oget i (hm_entities h'') = Some e''" "same_entity e' e''" using 2 e'(1) by (auto simp: renames_def)
    with e'(2) show ?thesis by (auto simp: same_entity_def)
  qed
  ultimately show ?thesis by (auto simp: renames_def)
qed

lemma rename_entity_renames:
  assumes w: "home_wf H E h" and e: "oget i (hm_entities h) = Some e" "en_device_id e = dev"
  shows "\<exists>es h'. rename_entity i dev h = Some (es, h') \<and> home_wf H E h' \<and> renames h h'"
proof -
  obtain n where n: "name_for_entity h i dev = Some n"
    using name_for_entity_Some[OF wf_entityD[OF w e(1)]] e(2) by auto
  let ?e = "e\<lparr>en_name := n\<rparr>"
  let ?h = "h\<lparr>hm_entities := oput i ?e (hm_entities h)\<rparr>"
  have same: "same_entity e ?e" by (simp add: same_entity_def)
  then have "renames h ?h" using e(1) by (auto simp: renames_def oget_oput same_entity_def)
  then show ?thesis
    using n e(1) w wf_put_entity[OF w e(1) same] renames_refl[of h] by (simp add: rename_entity_def Let_def)
qed

text \<open>A loop of operations that each keep a property of the home keeps it.\<close>

lemma each_keeps:
  assumes "\<And>x h. x \<in> set xs \<Longrightarrow> Q h \<Longrightarrow> \<exists>es h'. f x h = Some (es, h') \<and> Q h'" "Q h"
  shows "\<exists>es h'. each f xs h = Some (es, h') \<and> Q h'"
  using assms
proof (induction xs arbitrary: h)
  case (Cons x xs)
  obtain es h1 where 1: "f x h = Some (es, h1)" "Q h1" using Cons.prems by (metis list.set_intros(1))
  obtain es' h2 where "each f xs h1 = Some (es', h2)" "Q h2" using Cons.IH[OF _ 1(2)] Cons.prems(1) by auto
  with 1 show ?case by simp
qed simp

lemma keeps_renames: "home_wf H E h' \<Longrightarrow> renames h h' \<Longrightarrow> keeps_live H E h h'"
  by (auto simp: keeps_live_def keeps_def renames_def wf_frame)

lemma rename_owned:
  assumes w: "home_wf H E h"
  shows "\<exists>es h'. each (\<lambda>e. rename_entity e (Some i)) (map en_id (owned h i)) h = Some (es, h') \<and> keeps_live H E h h'"
proof -
  have "\<exists>es h'. each (\<lambda>e. rename_entity e (Some i)) (map en_id (owned h i)) h = Some (es, h')
      \<and> home_wf H E h' \<and> renames h h'"
  proof (rule each_keeps)
    fix x h'
    assume x: "x \<in> set (map en_id (owned h i))" and h': "home_wf H E h' \<and> renames h h'"
    from x obtain e where e: "oget x (hm_entities h) = Some e" "en_device_id e = Some i"
      using mem_owned[OF w] by auto
    with renamesD[of h h' x e] h' obtain e' where e': "oget x (hm_entities h') = Some e'" "en_device_id e' = Some i"
      by (auto simp: same_entity_def)
    from rename_entity_renames[OF _ e'] h' obtain es h'' where
      "rename_entity x (Some i) h' = Some (es, h'')" "home_wf H E h''" "renames h' h''" by blast
    then show "\<exists>es h''. rename_entity x (Some i) h' = Some (es, h'') \<and> home_wf H E h'' \<and> renames h h''"
      using h' renames_trans by blast
  qed (simp add: w renames_refl)
  then show ?thesis using keeps_renames by blast
qed

lemma none_held_devices:
  assumes "\<And>j d'. oget j m = Some d' \<Longrightarrow> \<exists>d. oget j (hm_devices h) = Some d \<and> dv_protocol d' = dv_protocol d"
  shows "none_held h \<Longrightarrow> none_held (h\<lparr>hm_devices := m\<rparr>)"
  using assms by (fastforce simp: none_held_def is_held_def)

lemma none_held_frame [wf_frame]:
  "none_held (h\<lparr>hm_device_names := a\<rparr>) = none_held h" "none_held (h\<lparr>hm_device_descriptions := b\<rparr>) = none_held h"
  "none_held (h\<lparr>hm_device_keys := c\<rparr>) = none_held h" "none_held (h\<lparr>hm_entity_names := d\<rparr>) = none_held h"
  "none_held (h\<lparr>hm_entity_descriptions := e\<rparr>) = none_held h" "none_held (h\<lparr>hm_entity_keys := f\<rparr>) = none_held h"
  by (simp_all add: none_held_def is_held_def)

lemma redescribe_device_keeps:
  assumes w: "home_wf H E h" and d: "oget i (hm_devices h) = Some d" "dd_unique_id dd = dv_unique_id d"
  shows "\<exists>x h'. redescribe_device lib i dd via h = Some (x, h') \<and> keeps_live H E h h'"
proof (cases "is_some_and via (\<lambda>v. reaches h v i)")
  case True
  then show ?thesis using keeps_refl[OF w] by (simp add: redescribe_device_def)
next
  case False
  let ?h = "h\<lparr>hm_device_names := oput i (dd_name dd) (hm_device_names h),
              hm_device_descriptions := oput i dd (hm_device_descriptions h)\<rparr>"
  let ?d = "redescribed lib ?h i dd via d"
  let ?g = "?h\<lparr>hm_devices := oput i ?d (hm_devices ?h)\<rparr>"
  have w1: "home_wf H E ?h" using wf_device_described[OF w d] .
  have same: "same_device d ?d" by (simp add: same_device_def redescribed_def)
  have w2: "home_wf H E ?g" using wf_put_device[OF w1 _ same] d(1) by simp
  have k1: "keeps_live H E h ?h" using w1 by (simp add: keeps_live_def keeps_def wf_frame)
  have "none_held ?h \<Longrightarrow> none_held ?g"
    using d(1) same by (intro none_held_devices) (auto simp: oget_oput same_device_def split: if_splits)
  then have k2: "keeps_live H E h ?g" using w2 k1 by (simp add: keeps_live_def keeps_def)
  obtain es h' where r: "each (\<lambda>e. rename_entity e (Some i)) (map en_id (owned ?g i)) ?g = Some (es, h')" "keeps_live H E ?g h'"
    using rename_owned[OF w2] by blast
  have "keeps_live H E h h'" using keeps_live_trans[OF k2 r(2)] .
  then show ?thesis
    using False k1 k2 r(1) d(1) by (simp add: redescribe_device_def Let_def)
qed

lemma describe_found_keeps:
  assumes w: "home_wf H E h" and hd: "handles H E" "(p, dd_unique_id dd) \<in> H"
    and i: "i = device_id_for p (dd_unique_id dd)" and free: "oget i (hm_found h) = None \<Longrightarrow> oget i (hm_devices h) = None"
  shows "keeps H E h (snd (describe_found p i dd h))"
proof -
  have put: "keeps H E h (h\<lparr>hm_found := oput i f (hm_found h)\<rparr>)"
    if f: "found_ok H E i f" and kept: "\<And>f'. oget i (hm_found h) = Some f' \<Longrightarrow> fo_protocol f = fo_protocol f' \<and> fo_entities f = fo_entities f'" for f
  proof -
    have live: "oget i (hm_devices h) = None"
      using free wf_deviceD[OF w, of i] by (cases "oget i (hm_devices h)") (auto simp: device_ok_def)
    have "home_wf H E (h\<lparr>hm_found := oput i f (hm_found h)\<rparr>)"
    proof (rule home_wfI)
      fix q u j
      assume "oget (q, u) (hm_found_entities (h\<lparr>hm_found := oput i f (hm_found h)\<rparr>)) = Some j"
      with wf_found_keyD[OF w, of q u j] kept
      show "\<exists>x. oget j (hm_found (h\<lparr>hm_found := oput i f (hm_found h)\<rparr>)) = Some x \<and> fo_protocol x = q \<and> oget u (fo_entities x) \<noteq> None"
        by (auto simp: oget_oput)
    qed (use w f live wf_maps[OF w] wf_deviceD[OF w] wf_entityD[OF w] wf_foundD[OF w] wf_device_keyD[OF w] wf_entity_keyD[OF w]
        wf_state_iff[OF w] wf_stateD[OF w] in \<open>fastforce simp: device_ok_def entity_ok_def oget_oput omap_ok_oput split: if_splits\<close>)+
    then show ?thesis by (simp add: keeps_def wf_frame)
  qed
  show ?thesis
  proof (cases "oget i (hm_found h)")
    case None
    have "found_ok H E i (new_found p dd)" using hd i by (simp add: found_ok_def new_found_def)
    from put[OF this] None show ?thesis by (simp add: describe_found_def)
  next
    case (Some f)
    have f: "found_ok H E i f" using wf_foundD[OF w Some] .
    then have "fo_protocol f = p" using same_handle[OF hd(1), of "fo_protocol f" _ p] hd(2) i by (auto simp: found_ok_def)
    then have "found_ok H E i (f\<lparr>fo_description := dd\<rparr>)" using f hd(2) i by (simp add: found_ok_def)
    from put[OF this] Some show ?thesis by (simp add: describe_found_def)
  qed
qed

lemma add_device_keeps:
  assumes w: "home_wf H E h" and p: "(p, dd_unique_id dd) \<in> H" and i: "i = device_id_for p (dd_unique_id dd)"
    and out: "\<not> is_held h p i" "oget i (hm_found h) = None" "device_id_of h p (dd_unique_id dd) = None"
  shows "keeps_live H E h (snd (add_device lib p i dd via h))"
proof (cases "oget i (hm_devices h)")
  case (Some holder)
  then show ?thesis using keeps_refl[OF w] by (simp add: add_device_def)
next
  case None
  let ?d = "new_device lib h p i dd via"
  let ?h = "h\<lparr>hm_device_descriptions := oput i dd (hm_device_descriptions h),
    hm_device_names := oput i (dd_name dd) (hm_device_names h),
    hm_device_keys := oput (p, dd_unique_id dd) i (hm_device_keys h),
    hm_devices := oput i ?d (hm_devices h)\<rparr>"
  have d: "dv_id ?d = i" "dv_protocol ?d = p" "dv_unique_id ?d = dd_unique_id dd"
    by (simp_all add: new_device_def)
  have "home_wf H E ?h"
  proof (rule home_wfI)
    fix j x
    assume "oget j (hm_devices ?h) = Some x"
    then show "device_ok H ?h j x"
      using wf_deviceD[OF w, of j x] d p i out None
      by (auto simp: device_ok_def oget_oput device_id_of_def split: if_splits)
  next
    fix j e
    assume e: "oget j (hm_entities ?h) = Some e"
    then have "entity_ok E h j e" using wf_entityD[OF w] by simp
    moreover have "\<exists>d. oget k (hm_devices ?h) = Some d \<and> dv_protocol d = en_protocol e" if "en_device_id e = Some k" for k
      using \<open>entity_ok E h j e\<close> that None by (auto simp: entity_ok_def oget_oput)
    ultimately show "entity_ok E ?h j e" by (simp add: entity_ok_def)
  next
    fix q u j
    assume "oget (q, u) (hm_device_keys ?h) = Some j"
    then show "\<exists>x. oget j (hm_devices ?h) = Some x \<and> dv_protocol x = q \<and> dv_unique_id x = u"
      using wf_device_keyD[OF w, of q u j] d None by (fastforce simp: oget_oput split: if_splits)
  qed (use wf_maps[OF w] wf_foundD[OF w] wf_entity_keyD[OF w] wf_found_keyD[OF w] wf_state_iff[OF w] wf_stateD[OF w]
      in \<open>fastforce simp: omap_ok_oput\<close>)+
  moreover have "none_held ?h" if "none_held h"
    using that out(1) d by (auto simp: none_held_def is_held_def oget_oput split: if_splits)
  ultimately show ?thesis using None by (simp add: add_device_def Let_def keeps_live_def keeps_def)
qed

lemma describe_device_keeps:
  assumes w: "home_wf H E h" and hd: "handles H E" "(p, dd_unique_id dd) \<in> H" and held: "none_held h"
  shows "\<exists>x h'. describe_device lib p dd h = Some (x, h') \<and> keeps H E h h' \<and>
    (\<not> is_held h p (device_id_for p (dd_unique_id dd)) \<and> oget (device_id_for p (dd_unique_id dd)) (hm_found h) = None
       \<longrightarrow> keeps_live H E h h')"
proof -
  let ?i = "device_id_for p (dd_unique_id dd)"
  have same: "keeps_live H E h h" using keeps_refl[OF w] .
  have found: "keeps H E h (snd (describe_found p ?i dd h))" if out: "is_held h p ?i \<or> oget ?i (hm_found h) \<noteq> None"
  proof (rule describe_found_keeps[OF w hd refl])
    assume "oget ?i (hm_found h) = None"
    show "oget ?i (hm_devices h) = None"
    proof (rule ccontr)
      assume "oget ?i (hm_devices h) \<noteq> None"
      then obtain d where d: "oget ?i (hm_devices h) = Some d" by blast
      then have "dv_protocol d = p"
        using wf_deviceD[OF w d] same_handle[OF hd(1), of "dv_protocol d" "dv_unique_id d"] hd(2) by (auto simp: device_ok_def)
      then show False using held d out \<open>oget ?i (hm_found h) = None\<close> by (auto simp: none_held_def)
    qed
  qed
  have live: "\<exists>x h'. (case device_id_of h p (dd_unique_id dd) of Some i \<Rightarrow> redescribe_device lib i dd via h
      | None \<Rightarrow> Some (add_device lib p ?i dd via h)) = Some (x, h') \<and> keeps_live H E h h'"
    if "\<not> (is_held h p ?i \<or> oget ?i (hm_found h) \<noteq> None)" for via
  proof (cases "device_id_of h p (dd_unique_id dd)")
    case None
    then show ?thesis
      using add_device_keeps[OF w hd(2) refl _ _ None, of lib via] that
      by (cases "add_device lib p ?i dd via h") simp
  next
    case (Some j)
    then obtain d where d: "oget j (hm_devices h) = Some d" "dd_unique_id dd = dv_unique_id d"
      using wf_device_keyD[OF w] by (fastforce simp: device_id_of_def)
    show ?thesis using redescribe_device_keeps[OF w d] Some by simp
  qed
  have "\<exists>x h'. describe_device lib p dd h = Some (x, h') \<and> keeps_live H E h h'"
    if "\<not> (is_held h p ?i \<or> oget ?i (hm_found h) \<noteq> None)"
    using live[OF that] same that
    by (auto simp: describe_device_def Let_def split: sum.split)
  moreover have "\<exists>x h'. describe_device lib p dd h = Some (x, h') \<and> keeps H E h h'"
    if "is_held h p ?i \<or> oget ?i (hm_found h) \<noteq> None"
    using found[OF that] same that
    by (auto simp: describe_device_def Let_def keeps_live_def split: sum.split prod.split)
  ultimately show ?thesis by (metis keeps_live_def)
qed

end
