(* ===== verification/HomeEntities.thy ===== *)
theory HomeEntities
  imports HomeKeep
begin

text \<open>
  Describing an entity keeps the home well formed: its id is free, its name and its device are there,
  and a value it can no longer have is forgotten.
\<close>

section \<open>A new entity's id\<close>

lemma domain_slug: "is_slug (domain k)"
  by (cases k) (simp_all add: is_slug_def slug_like_def slug_char_def is_lower_def is_digit_def byte_of_def slug_max_len_def)

lemma entity_id_new_slug: "is_slug o' \<Longrightarrow> entity_id_new k o' = Ok (domain k @ CHR ''.'' # o')"
  using split_once_append[OF domain_no_dot, of k o'] check_slug_ok[of "''entity id''" o' "()"]
  by (simp add: entity_id_new_def entity_id_parse_def check_entity_id_def del: check_slug_ok)

lemma device_id_slug: "handles H E \<Longrightarrow> device_ok H h i d \<Longrightarrow> is_slug i"
  using device_id_is_a_slug[of "dv_protocol d" "dv_unique_id d"] by (force simp: device_ok_def handles_def)

text \<open>No more entities are in the home than there are handles for them.\<close>

lemma few_entities:
  assumes w: "home_wf H E h" and hd: "handles H E"
  shows "length (okeys (hm_entities h)) < 10 ^ 9"
proof -
  let ?handle = "\<lambda>i. (\<lambda>e. (en_protocol e, en_unique_id e)) (the (oget i (hm_entities h)))"
  have ok: "omap_ok (hm_entities h)" using wf_maps[OF w] by simp
  have sub: "?handle ` set (okeys (hm_entities h)) \<subseteq> E"
    using wf_entityD[OF w] by (auto simp: mem_okeys entity_ok_def)
  have inj: "inj_on ?handle (set (okeys (hm_entities h)))"
  proof (rule inj_onI)
    fix i j
    assume "i \<in> set (okeys (hm_entities h))" "j \<in> set (okeys (hm_entities h))" and eq: "?handle i = ?handle j"
    then obtain e f where "oget i (hm_entities h) = Some e" "oget j (hm_entities h) = Some f" by (auto simp: mem_okeys)
    with wf_entityD[OF w, of i e] wf_entityD[OF w, of j f] eq show "i = j" by (simp add: entity_ok_def)
  qed
  have "length (okeys (hm_entities h)) = card (set (okeys (hm_entities h)))"
    using distinct_card[OF omap_ok_distinct[OF ok]] by simp
  also have "\<dots> \<le> card E" using card_inj_on_le[OF inj sub] hd by (simp add: handles_def)
  finally show ?thesis using hd by (simp add: handles_def)
qed

lemma new_entity_id_Some:
  assumes w: "home_wf H E h" and hd: "handles H E" and base: "base = [] \<or> is_slug base"
  shows "\<exists>i. new_entity_id k base h = Some i \<and> oget i (hm_entities h) = None \<and> entity_id_kind i = Some k"
proof -
  let ?f = "\<lambda>c. domain k @ CHR ''.'' # c"
  have taken: "?f c \<in> set (okeys (hm_entities h))" if "entity_id_taken k h c" for c
    using that entity_id_kind_new[of k c]
    by (auto simp: entity_id_taken_def mem_okeys entity_id_new_def entity_id_parse_def and_then_Inr_iff split: sum.splits)
  have inj: "inj_on ?f {c. entity_id_taken k h c}" by (simp add: inj_on_def)
  obtain o' where o': "unique_id_for base (domain k) (entity_id_taken k h) = Some o'" "is_slug o'" "\<not> entity_id_taken k h o'"
    using unique_id_ends[where taken = "entity_id_taken k h" and f = ?f and ids = "okeys (hm_entities h)", OF taken inj base domain_slug few_entities[OF w hd]]
    by blast
  note new = entity_id_new_slug[OF o'(2), of k]
  show ?thesis
    using o' new entity_id_kind_new[OF new] by (simp add: new_entity_id_def entity_id_taken_def)
qed

section \<open>A new entity\<close>

text \<open>The device a description names, when it names one.\<close>

definition device_given :: "string \<Rightarrow> entity_description \<Rightarrow> device option \<Rightarrow> 'p home \<Rightarrow> bool" where
  "device_given p d dev h \<longleftrightarrow>
     (case dev of
        None \<Rightarrow> ed_device d = None
      | Some dv \<Rightarrow> oget (dv_id dv) (hm_devices h) = Some dv \<and> dv_protocol dv = p \<and>
          ed_device d = Some (dv_unique_id dv) \<and> device_id_for p (dv_unique_id dv) = dv_id dv)"

lemma described_device_given:
  assumes w: "home_wf H E h"
  shows "\<exists>r. described_device p d h = Some r \<and> (\<forall>dev. r = Ok dev \<longrightarrow> device_given p d dev h)"
proof (cases "ed_device d")
  case None
  then show ?thesis by (simp add: described_device_def device_given_def)
next
  case (Some u)
  show ?thesis
  proof (cases "device_id_of h p u")
    case None
    then show ?thesis using Some by (simp add: described_device_def)
  next
    case (Some i)
    then obtain dv where "oget i (hm_devices h) = Some dv" "dv_protocol dv = p" "dv_unique_id dv = u" "device_ok H h i dv"
      using wf_device_keyD[OF w] by (fastforce simp: device_id_of_def)
    with Some \<open>ed_device d = Some u\<close> show ?thesis
      by (auto simp: described_device_def device_given_def device_ok_def)
  qed
qed

lemma id_base_slug:
  assumes w: "home_wf H E h" and hd: "handles H E" and dev: "device_given p d dev h" and "is_none_or (ed_object_id d) is_slug"
  shows "id_base d dev otherwise = [] \<or> is_slug (id_base d dev otherwise)"
proof -
  have "is_slug (dv_id dv)" if "dev = Some dv" for dv
    using that dev wf_deviceD[OF w, of "dv_id dv" dv] device_id_slug[OF hd] by (auto simp: device_given_def)
  then show ?thesis
    using assms(4) slugify_slug by (auto simp: id_base_def is_none_or_iff split: option.split)
qed

text \<open>What a description says of an entity, when the device it names is the one given.\<close>

lemma described_ok:
  assumes "device_given p d dev h" "is_none_or (ed_object_id d) is_slug"
  shows "entity_description_ok p (ed_unique_id d) (map_option dv_id dev) d"
    and "map_option dv_id dev = Some j \<Longrightarrow> \<exists>x. oget j (hm_devices h) = Some x \<and> dv_protocol x = p"
  using assms by (auto simp: entity_description_ok_def device_given_def split: option.splits)

lemma nameless_has_device:
  "entity_description_validate d = Ok () \<Longrightarrow> device_given p d dev h \<Longrightarrow> ed_name d = None \<Longrightarrow> dev \<noteq> None"
  by (cases dev) (simp_all add: entity_description_validate_def device_given_def)

lemma add_entity_keeps:
  assumes w: "home_wf H E h" and hd: "handles H E" and dev: "device_given p d dev h" and slug: "is_none_or (ed_object_id d) is_slug"
    and valid: "entity_description_validate d = Ok ()" and E: "(p, ed_unique_id d) \<in> E"
    and new: "oget (p, ed_unique_id d) (hm_entity_keys h) = None" "oget (p, ed_unique_id d) (hm_found_entities h) = None"
  shows "\<exists>x h'. add_entity p kinds d dev s h = Some (x, h') \<and> keeps_live H E h h'"
proof -
  obtain otherwise where o': "(case ed_name d of Some n \<Rightarrow> Some n | None \<Rightarrow> map_option dv_name dev) = Some otherwise"
    using nameless_has_device[OF valid dev] by (cases "ed_name d"; cases dev) auto
  obtain i where i: "new_entity_id (ed_kind d) (id_base d dev otherwise) h = Some i" "oget i (hm_entities h) = None"
    "entity_id_kind i = Some (ed_kind d)"
    using new_entity_id_Some[OF w hd id_base_slug[OF w hd dev slug]] by blast
  define e where "e = \<lparr>en_id = i, en_protocol = p, en_unique_id = ed_unique_id d,
      en_name = unwrap_or (chosen_name h (p, ed_unique_id d)) otherwise,
      en_device_id = map_option dv_id dev, en_area_id = None, en_capabilities = ed_capabilities d, en_category = ed_category d\<rparr>"
  define g where "g = h\<lparr>hm_entity_names := (case ed_name d of Some n \<Rightarrow> oput i n (hm_entity_names h) | None \<Rightarrow> hm_entity_names h),
      hm_entity_descriptions := oput i (kinds, d) (hm_entity_descriptions h),
      hm_entity_keys := oput (p, ed_unique_id d) i (hm_entity_keys h),
      hm_entities := oput i e (hm_entities h), hm_states := oput i (fresh_state i s) (hm_states h)\<rparr>"
  have "home_wf H E g"
  proof (rule home_wfI)
    fix j x
    assume x: "oget j (hm_entities g) = Some x"
    show "entity_ok E g j x"
    proof (cases "j = i")
      case True
      then show ?thesis
        using x i(3) E new described_ok[OF dev slug] nameless_has_device[OF valid dev]
        by (cases "ed_name d") (auto simp: g_def e_def entity_ok_def oget_oput ed_kind_def)
    next
      case False
      then have "oget j (hm_entities h) = Some x" using x by (simp add: g_def oget_oput)
      then have "entity_ok E h j x" by (rule wf_entityD[OF w])
      then show ?thesis using False new by (auto simp: g_def entity_ok_def oget_oput split: option.split)
    qed
  next
    fix q u j
    assume "oget (q, u) (hm_entity_keys g) = Some j"
    then show "\<exists>x. oget j (hm_entities g) = Some x \<and> en_protocol x = q \<and> en_unique_id x = u"
      using wf_entity_keyD[OF w, of q u j] i(2) by (fastforce simp: g_def e_def oget_oput split: if_splits)
  next
    fix j x es
    assume "oget j (hm_entities g) = Some x" "oget j (hm_states g) = Some es"
    then show "value_ok (en_capabilities x) j es"
      using wf_stateD[OF w, of j x] by (auto simp: g_def e_def oget_oput value_ok_def fresh_state_def split: if_splits)
  qed (use wf_maps[OF w] wf_deviceD[OF w] wf_foundD[OF w] wf_device_keyD[OF w] wf_found_keyD[OF w] wf_state_iff[OF w]
      in \<open>fastforce simp: g_def device_ok_def oget_oput omap_ok_oput\<close>)+
  moreover have "none_held g = none_held h" by (simp add: g_def wf_frame)
  moreover have "hm_settings g = hm_settings h" "hm_found g = hm_found h" "hm_found_entities g = hm_found_entities h"
    by (simp_all add: g_def)
  ultimately have "keeps_live H E h g" by (simp add: keeps_live_def keeps_def)
  moreover have "add_entity p kinds d dev s h = Some (Ok [EntityAdded e, StateChanged i None (fresh_state i s)], g)"
    by (simp add: add_entity_def o' i(1) Let_def g_def e_def)
  ultimately show ?thesis by blast
qed

section \<open>An entity described again\<close>

lemma redescribed_wf:
  assumes w: "home_wf H E h" and e: "oget i (hm_entities h) = Some e" "en_protocol e = p" "en_unique_id e = ed_unique_id d"
    and dev: "device_given p d dev h" and slug: "is_none_or (ed_object_id d) is_slug"
    and valid: "entity_description_validate d = Ok ()" and kind: "entity_id_kind i = Some (ed_kind d)"
    and names: "oget i nm = ed_name d" "\<And>j. j \<noteq> i \<Longrightarrow> oget j nm = oget j (hm_entity_names h)"
    and st: "value_ok (ed_capabilities d) i st" "oget i m = Some st" "\<And>j. j \<noteq> i \<Longrightarrow> oget j m = oget j (hm_states h)"
  shows "keeps_live H E h (h\<lparr>hm_entity_names := nm, hm_entity_descriptions := oput i (kinds, d) (hm_entity_descriptions h),
    hm_entities := oput i (e\<lparr>en_name := n, en_capabilities := ed_capabilities d, en_category := ed_category d,
      en_device_id := map_option dv_id dev\<rparr>) (hm_entities h), hm_states := m\<rparr>)"
    (is "keeps_live H E h ?h")
proof -
  have e_ok: "entity_ok E h i e" using wf_entityD[OF w e(1)] .
  have "home_wf H E ?h"
  proof (rule home_wfI)
    fix j x
    assume x: "oget j (hm_entities ?h) = Some x"
    show "entity_ok E ?h j x"
    proof (cases "j = i")
      case True
      then show ?thesis
        using x e_ok e(2,3) kind names(1) described_ok[OF dev slug] nameless_has_device[OF valid dev]
        by (auto simp: entity_ok_def oget_oput ed_kind_def)
    next
      case False
      then show ?thesis using x wf_entityD[OF w, of j x] names(2)[of j] by (simp add: entity_ok_def oget_oput)
    qed
  next
    fix q u j
    assume "oget (q, u) (hm_entity_keys ?h) = Some j"
    then show "\<exists>x. oget j (hm_entities ?h) = Some x \<and> en_protocol x = q \<and> en_unique_id x = u"
      using wf_entity_keyD[OF w, of q u j] e by (auto simp: oget_oput)
  next
    fix j
    show "oget j (hm_states ?h) = None \<longleftrightarrow> oget j (hm_entities ?h) = None"
      using wf_state_iff[OF w, of j] st(2) st(3)[of j] by (cases "j = i") (simp_all add: oget_oput)
  next
    fix j x es
    assume "oget j (hm_entities ?h) = Some x" "oget j (hm_states ?h) = Some es"
    then show "value_ok (en_capabilities x) j es"
      using wf_stateD[OF w, of j x] st(1,2) st(3)[of j] by (cases "j = i") (auto simp: oget_oput)
  qed (use wf_maps[OF w] wf_deviceD[OF w] wf_foundD[OF w] wf_device_keyD[OF w] wf_found_keyD[OF w]
      in \<open>fastforce simp: device_ok_def oget_oput omap_ok_oput\<close>)+
  then show ?thesis by (simp add: keeps_live_def keeps_def none_held_def is_held_def)
qed

lemma same_states: "h\<lparr>hm_states := hm_states h\<rparr> = h"
  by simp

lemma entity_fits_iff: "is_ok (entity_fits e v) \<longleftrightarrow> fits (en_capabilities e) v = Ok ()"
  by (auto simp: entity_fits_def is_ok_def split: sum.splits)

lemma forget_unfit_keeps:
  assumes old: "oget i (hm_states g) = Some old" and ok: "value_ok caps i old"
    and keep: "\<And>m st. value_ok (en_capabilities e) i st \<Longrightarrow> oget i m = Some st \<Longrightarrow>
      (\<And>j. j \<noteq> i \<Longrightarrow> oget j m = oget j (hm_states g)) \<Longrightarrow> keeps_live H E h (g\<lparr>hm_states := m\<rparr>)"
  shows "\<exists>es h'. forget_unfit e s i g = Some (es, h') \<and> keeps_live H E h h'"
proof (cases "is_some_and (es_state old) (\<lambda>st. \<not> is_ok (entity_fits e st))")
  case True
  define now where "now = max (sm_now s) (es_last_updated old)"
  define new where "new = old\<lparr>es_state := None, es_last_changed := now, es_last_updated := now, es_context := system_context s\<rparr>"
  have "value_ok (en_capabilities e) i new" using ok by (simp add: value_ok_def new_def)
  then have "keeps_live H E h (g\<lparr>hm_states := oput i new (hm_states g)\<rparr>)" by (rule keep) (simp_all add: oget_oput)
  then have "keeps_live H E h ((g\<lparr>hm_states := oput i new (hm_states g)\<rparr>)\<lparr>hm_commanded := odel i (hm_commanded g)\<rparr>)"
    unfolding keeps_live_def keeps_def wf_frame by simp
  moreover have "(g\<lparr>hm_states := oput i new (hm_states g)\<rparr>)\<lparr>hm_commanded := odel i (hm_commanded g)\<rparr> =
      g\<lparr>hm_commanded := odel i (hm_commanded g), hm_states := oput i new (hm_states g)\<rparr>"
    by (rule home.equality) simp_all
  ultimately have "keeps_live H E h (g\<lparr>hm_commanded := odel i (hm_commanded g), hm_states := oput i new (hm_states g)\<rparr>)"
    by simp
  with True old show ?thesis
    by (simp add: forget_unfit_def Let_def new_def now_def)
next
  case False
  then have "value_ok (en_capabilities e) i old"
    using ok by (auto simp: value_ok_def entity_fits_iff is_some_and_iff)
  from keep[OF this old] have "keeps_live H E h g" by simp
  with False old show ?thesis by (simp add: forget_unfit_def Let_def)
qed

lemma redescribe_entity_keeps:
  assumes w: "home_wf H E h" and e: "oget i (hm_entities h) = Some e" "en_protocol e = p" "en_unique_id e = ed_unique_id d"
    and dev: "device_given p d dev h" and slug: "is_none_or (ed_object_id d) is_slug"
    and valid: "entity_description_validate d = Ok ()"
  shows "\<exists>x h'. redescribe_entity p kinds d (map_option dv_id dev) s i h = Some (x, h') \<and> keeps_live H E h h'"
proof -
  have e_ok: "entity_ok E h i e" using wf_entityD[OF w e(1)] .
  then have id: "en_id e = i" "entity_id_kind i = Some (caps_kind (en_capabilities e))" by (simp_all add: entity_ok_def)
  show ?thesis
  proof (cases "caps_kind (en_capabilities e) = ed_kind d")
    case False
    then show ?thesis using e(1) id keeps_refl[OF w] by (simp add: redescribe_entity_def)
  next
    case True
    define nm where "nm = (case ed_name d of Some n \<Rightarrow> oput i n (hm_entity_names h) | None \<Rightarrow> odel i (hm_entity_names h))"
    define h1 where "h1 = h\<lparr>hm_entity_names := nm, hm_entity_descriptions := oput i (kinds, d) (hm_entity_descriptions h)\<rparr>"
    have nm: "oget i nm = ed_name d" "\<And>j. j \<noteq> i \<Longrightarrow> oget j nm = oget j (hm_entity_names h)"
      by (auto simp: nm_def oget_oput split: option.split)
    have "dev \<noteq> None" if "ed_name d = None" using nameless_has_device[OF valid dev that] .
    then obtain n0 where n0: "(case ed_name d of Some r \<Rightarrow> Some r
        | None \<Rightarrow> Option.bind (map_option dv_id dev) (\<lambda>j. map_option dv_name (oget j (hm_devices h)))) = Some n0"
      using dev by (cases "ed_name d"; cases dev) (auto simp: device_given_def)
    have "hm_entity_names h1 = nm" "hm_devices h1 = hm_devices h" by (simp_all add: h1_def)
    then have "\<exists>n. name_for_entity h1 i (map_option dv_id dev) = Some n"
      using n0 by (cases "Option.bind (entity_key h1 i) (chosen_name h1)"; cases "ed_name d")
        (simp_all add: name_for_entity_def nm(1))
    then obtain n where n: "name_for_entity h1 i (map_option dv_id dev) = Some n" by blast
    define e' where "e' = e\<lparr>en_name := n, en_capabilities := ed_capabilities d, en_category := ed_category d,
        en_device_id := map_option dv_id dev\<rparr>"
    define h2 where "h2 = h1\<lparr>hm_entities := oput i e' (hm_entities h1)\<rparr>"
    obtain old where old: "oget i (hm_states h) = Some old" "value_ok (en_capabilities e) i old"
      using wf_stateD[OF w e(1)] by blast
    have kind: "entity_id_kind i = Some (ed_kind d)" using id True by simp
    have keep: "keeps_live H E h (h2\<lparr>hm_states := m\<rparr>)"
      if "value_ok (en_capabilities e') i st" "oget i m = Some st" "\<And>j. j \<noteq> i \<Longrightarrow> oget j m = oget j (hm_states h2)" for m st
      using redescribed_wf[OF w e dev slug valid kind nm, where st = st and m = m and kinds = kinds and n = n] that
      by (simp add: h2_def h1_def e'_def)
    have "oget i (hm_states h2) = Some old" using old by (simp add: h2_def h1_def)
    then have "\<exists>es h'. forget_unfit e' s i h2 = Some (es, h') \<and> keeps_live H E h h'"
      by (rule forget_unfit_keeps[OF _ old(2)]) (rule keep)
    then obtain es h3 where f: "forget_unfit e' s i h2 = Some (es, h3)" "keeps_live H E h h3" by blast
    then have "home_wf H E h3" by (simp add: keeps_live_def keeps_def)
    from set_availability_of_keeps[OF this]
    have "keeps_live H E h (snd (set_availability_of Available (sm_now s) (device_context p s None) True [i] h3))"
      using keeps_live_trans[OF f(2)] by blast
    moreover have "redescribe_entity p kinds d (map_option dv_id dev) s i h =
        (case set_availability_of Available (sm_now s) (device_context p s None) True [i] h3 of
           (back, h') \<Rightarrow> Some (Ok ((if e' = e then [] else [EntityUpdated e']) @ es @ back), h'))"
      using e(1) id True f(1) n unfolding h2_def h1_def nm_def e'_def
      by (simp add: redescribe_entity_def Let_def del: set_availability_of.simps)
    ultimately show ?thesis by (simp add: case_prod_beta)
  qed
qed

section \<open>Describing an entity\<close>

text \<open>What a protocol may describe as an entity: it has handles, and it is not moved between a device
  in the home and one only found. (The code leaves such an entity in both places.)\<close>

definition entity_may_be_described :: "(string \<times> string) set \<Rightarrow> (string \<times> string) set \<Rightarrow> string \<Rightarrow> entity_description \<Rightarrow> 'p home \<Rightarrow> bool" where
  "entity_may_be_described H E p d h \<longleftrightarrow> (p, ed_unique_id d) \<in> E \<and> is_none_or (ed_object_id d) is_slug \<and>
     (if found_device p d h = None then oget (p, ed_unique_id d) (hm_found_entities h) = None
      else is_none_or (ed_device d) (\<lambda>u. (p, u) \<in> H) \<and> oget (p, ed_unique_id d) (hm_entity_keys h) = None)"

lemma describe_found_entity_wf:
  assumes w: "home_wf H E h" and hd: "handles H E" and may: "entity_may_be_described H E p d h"
    and i: "found_device p d h = Some i"
  shows "home_wf H E (h\<lparr>hm_found_entities := oput (p, ed_unique_id d) i (hm_found_entities h),
    hm_found := omod i (\<lambda>f. f\<lparr>fo_entities := oput (ed_unique_id d) (kinds, d) (fo_entities f)\<rparr>) (hm_found h)\<rparr>)"
    (is "home_wf H E ?h")
proof -
  obtain u where u: "ed_device d = Some u" "i = device_id_for p u" "oget i (hm_found h) \<noteq> None"
    using i by (auto simp: found_device_def Let_def split: option.splits if_splits)
  then obtain f where f: "oget i (hm_found h) = Some f" by blast
  have may': "(p, ed_unique_id d) \<in> E" "(p, u) \<in> H" "is_none_or (ed_object_id d) is_slug"
    "oget (p, ed_unique_id d) (hm_entity_keys h) = None"
    using may i u(1) by (auto simp: entity_may_be_described_def is_none_or_iff)
  have f_ok: "found_ok H E i f" using wf_foundD[OF w f] .
  then have p: "fo_protocol f = p"
    using same_handle[OF hd, of "fo_protocol f" _ p u] may'(2) u(2) by (auto simp: found_ok_def)
  let ?f = "f\<lparr>fo_entities := oput (ed_unique_id d) (kinds, d) (fo_entities f)\<rparr>"
  have "entity_description_ok p (ed_unique_id d) (Some i) d" using may' u by (simp add: entity_description_ok_def)
  then have f'_ok: "found_ok H E i ?f" using f_ok may'(1) p by (auto simp: found_ok_def oget_oput omap_ok_oput)
  show ?thesis
  proof (rule home_wfI)
    fix j e
    assume "oget j (hm_entities ?h) = Some e"
    then have "entity_ok E h j e" using wf_entityD[OF w] by simp
    with may'(4) show "entity_ok E ?h j e" by (auto simp: entity_ok_def oget_oput)
  next
    fix q v j
    assume "oget (q, v) (hm_found_entities ?h) = Some j"
    then show "\<exists>x. oget j (hm_found ?h) = Some x \<and> fo_protocol x = q \<and> oget v (fo_entities x) \<noteq> None"
      using wf_found_keyD[OF w, of q v j] f p by (auto simp: oget_oput split: if_splits)
  qed (use w f f'_ok wf_maps[OF w] wf_deviceD[OF w] wf_foundD[OF w] wf_device_keyD[OF w] wf_entity_keyD[OF w]
      wf_state_iff[OF w] wf_stateD[OF w] in \<open>fastforce simp: device_ok_def oget_oput split: if_splits\<close>)+
qed

lemma describe_entity_keeps:
  assumes w: "home_wf H E h" and hd: "handles H E" and may: "entity_may_be_described H E p d h"
  shows "\<exists>x h'. describe_entity p kinds d s h = Some (x, h') \<and> keeps H E h h' \<and>
    (found_device p d h = None \<longrightarrow> keeps_live H E h h')"
proof -
  have same: "keeps_live H E h h" using keeps_refl[OF w] .
  note slug = may[unfolded entity_may_be_described_def, THEN conjunct2, THEN conjunct1]
  show ?thesis
  proof (cases "entity_description_validate d = Ok () \<and> ed_kind d \<in> set kinds")
    case False
    then show ?thesis using same by (auto simp: describe_entity_def keeps_live_def split: sum.split)
  next
    case True
    show ?thesis
    proof (cases "found_device p d h")
      case (Some i)
      then show ?thesis
        using True describe_found_entity_wf[OF w hd may Some] by (simp add: describe_entity_def keeps_def wf_frame)
    next
      case None
      obtain r where r: "described_device p d h = Some r" "\<forall>dev. r = Ok dev \<longrightarrow> device_given p d dev h"
        using described_device_given[OF w] by blast
      have E: "(p, ed_unique_id d) \<in> E" "oget (p, ed_unique_id d) (hm_found_entities h) = None"
        using may None by (simp_all add: entity_may_be_described_def)
      have "\<exists>x h'. (case entity_id_of h p (ed_unique_id d) of
            Some i \<Rightarrow> redescribe_entity p kinds d (map_option dv_id dev) s i h
          | None \<Rightarrow> add_entity p kinds d dev s h) = Some (x, h') \<and> keeps_live H E h h'"
        if dev: "device_given p d dev h" for dev
      proof (cases "entity_id_of h p (ed_unique_id d)")
        case None
        then show ?thesis
          using add_entity_keeps[OF w hd dev slug _ E(1) _ E(2), of kinds s] True by (simp add: entity_id_of_def)
      next
        case (Some i)
        then obtain e where "oget i (hm_entities h) = Some e" "en_protocol e = p" "en_unique_id e = ed_unique_id d"
          using wf_entity_keyD[OF w, of p "ed_unique_id d" i] by (auto simp: entity_id_of_def)
        from redescribe_entity_keeps[OF w this dev slug] True Some show ?thesis by simp
      qed
      with r True None same show ?thesis
        by (auto simp: describe_entity_def keeps_live_def split: sum.split)
    qed
  qed
qed

end
