(* ===== verification/HomeRemove.thy ===== *)
theory HomeRemove
  imports HomeEntities
begin

text \<open>
  Taking things out of the home, and putting them back, keeps it well formed.
\<close>

section \<open>Entities\<close>

lemma remove_found_entity_wf:
  assumes w: "home_wf H E h" and i: "oget (p, u) (hm_found_entities h) = Some i"
  shows "home_wf H E (h\<lparr>hm_found_entities := odel (p, u) (hm_found_entities h),
    hm_found := omod i (\<lambda>f. f\<lparr>fo_entities := odel u (fo_entities f), fo_reports := odel u (fo_reports f)\<rparr>) (hm_found h)\<rparr>)"
    (is "home_wf H E ?h")
proof -
  obtain f where f: "oget i (hm_found h) = Some f" "fo_protocol f = p" "found_ok H E i f"
    using wf_found_keyD[OF w i] by blast
  have f'_ok: "found_ok H E i (f\<lparr>fo_entities := odel u (fo_entities f), fo_reports := odel u (fo_reports f)\<rparr>)"
    using f(3) by (auto simp: found_ok_def omap_ok_odel)
  show ?thesis
  proof (rule home_wfI)
    fix q v j
    assume "oget (q, v) (hm_found_entities ?h) = Some j"
    then show "\<exists>x. oget j (hm_found ?h) = Some x \<and> fo_protocol x = q \<and> oget v (fo_entities x) \<noteq> None"
      using wf_found_keyD[OF w, of q v j] f by (auto split: if_splits)
  next
    fix j e
    assume "oget j (hm_entities ?h) = Some e"
    then show "entity_ok E ?h j e" using wf_entityD[OF w, of j e] by (simp add: entity_ok_def)
  qed (use w f f'_ok wf_maps[OF w] wf_deviceD[OF w] wf_foundD[OF w] wf_device_keyD[OF w] wf_entity_keyD[OF w]
      wf_state_iff[OF w] wf_stateD[OF w] in \<open>fastforce simp: device_ok_def split: if_splits\<close>)+
qed

text \<open>A home without one of its entities.\<close>

definition without_entity :: "string \<Rightarrow> string \<times> string \<Rightarrow> 'p home \<Rightarrow> 'p home" where
  "without_entity i k h = h\<lparr>hm_entity_keys := odel k (hm_entity_keys h),
     hm_entity_descriptions := odel i (hm_entity_descriptions h),
     hm_entities := odel i (hm_entities h), hm_states := odel i (hm_states h),
     hm_entity_names := odel i (hm_entity_names h), hm_commanded := odel i (hm_commanded h)\<rparr>"

lemma without_entity_wf:
  assumes w: "home_wf H E h" and e: "oget i (hm_entities h) = Some e" "k = (en_protocol e, en_unique_id e)"
  shows "home_wf H E (without_entity i k h)" (is "home_wf H E ?h")
proof -
  have key: "oget k (hm_entity_keys h) = Some i" using wf_entityD[OF w e(1)] e(2) by (simp add: entity_ok_def)
  show ?thesis
  proof (rule home_wfI)
    fix j x
    assume "oget j (hm_entities ?h) = Some x"
    then have x: "j \<noteq> i" "oget j (hm_entities h) = Some x" by (auto simp: without_entity_def split: if_splits)
    then have "entity_ok E h j x" using wf_entityD[OF w] by simp
    with x(1) key show "entity_ok E ?h j x" by (auto simp: entity_ok_def without_entity_def)
  next
    fix q v j
    assume "oget (q, v) (hm_entity_keys ?h) = Some j"
    then have "(q, v) \<noteq> k" "oget (q, v) (hm_entity_keys h) = Some j" by (auto simp: without_entity_def split: if_splits)
    with wf_entity_keyD[OF w, of q v j] e
    show "\<exists>x. oget j (hm_entities ?h) = Some x \<and> en_protocol x = q \<and> en_unique_id x = v"
      by (auto simp: without_entity_def)
  next
    fix j x es
    assume "oget j (hm_entities ?h) = Some x" "oget j (hm_states ?h) = Some es"
    then show "value_ok (en_capabilities x) j es"
      using wf_stateD[OF w, of j x] by (auto simp: without_entity_def split: if_splits)
  next
    fix j
    show "oget j (hm_states ?h) = None \<longleftrightarrow> oget j (hm_entities ?h) = None"
      using wf_state_iff[OF w, of j] by (simp add: without_entity_def)
  qed (use wf_maps[OF w] wf_deviceD[OF w] wf_foundD[OF w] wf_device_keyD[OF w] wf_found_keyD[OF w]
      in \<open>fastforce simp: without_entity_def device_ok_def omap_ok_odel\<close>)+
qed

lemma remove_entity_live:
  "oget (p, u) (hm_found_entities h) = None \<Longrightarrow> oget (p, u) (hm_entity_keys h) = Some i \<Longrightarrow>
   remove_entity p u h = (Ok [EntityRemoved i], without_entity i (p, u) h)"
  by (simp add: remove_entity_def without_entity_def)

lemma without_entity_frame:
  "hm_devices (without_entity i k h) = hm_devices h" "hm_device_keys (without_entity i k h) = hm_device_keys h"
  "hm_device_names (without_entity i k h) = hm_device_names h" "hm_settings (without_entity i k h) = hm_settings h"
  "hm_device_descriptions (without_entity i k h) = hm_device_descriptions h" "hm_found (without_entity i k h) = hm_found h"
  "hm_found_entities (without_entity i k h) = hm_found_entities h" "none_held (without_entity i k h) = none_held h"
  by (simp_all add: without_entity_def none_held_def is_held_def)

lemma remove_entity_keeps:
  assumes w: "home_wf H E h"
  shows "keeps H E h (snd (remove_entity p u h))"
proof (cases "oget (p, u) (hm_found_entities h)")
  case (Some i)
  then show ?thesis using remove_found_entity_wf[OF w Some] by (simp add: remove_entity_def keeps_def wf_frame)
next
  case found: None
  show ?thesis
  proof (cases "oget (p, u) (hm_entity_keys h)")
    case None
    then show ?thesis using found keeps_refl[OF w] by (simp add: remove_entity_def keeps_live_def)
  next
    case (Some i)
    then obtain e where e: "oget i (hm_entities h) = Some e" "(p, u) = (en_protocol e, en_unique_id e)"
      using wf_entity_keyD[OF w Some] by auto
    show ?thesis
      using without_entity_wf[OF w e] by (simp add: remove_entity_live[OF found Some] keeps_def without_entity_frame)
  qed
qed

section \<open>Devices\<close>

text \<open>What taking entities out leaves as it was.\<close>

definition devices_alike :: "'p home \<Rightarrow> 'p home \<Rightarrow> bool" where
  "devices_alike h h' \<longleftrightarrow> hm_devices h' = hm_devices h \<and> hm_device_keys h' = hm_device_keys h \<and>
     hm_device_names h' = hm_device_names h \<and> hm_device_descriptions h' = hm_device_descriptions h \<and>
     hm_settings h' = hm_settings h \<and> hm_found h' = hm_found h \<and> hm_found_entities h' = hm_found_entities h"

lemma without_entity_alike: "devices_alike (without_entity i k h) h' = devices_alike h h'"
  by (simp add: devices_alike_def without_entity_frame)

text \<open>A device's entities are all removed, and nothing else is.\<close>

lemma remove_owned_all:
  assumes "home_wf H E h" "distinct (map en_id es)" "\<forall>e \<in> set es. oget (en_id e) (hm_entities h) = Some e"
  shows "\<exists>evs h'. remove_owned es h = (Ok evs, h') \<and> home_wf H E h' \<and> devices_alike h h' \<and>
    (\<forall>i. oget i (hm_entities h') = (if i \<in> en_id ` set es then None else oget i (hm_entities h)))"
  using assms
proof (induction es arbitrary: h)
  case Nil
  then show ?case by (simp add: devices_alike_def)
next
  case (Cons e es)
  have e: "oget (en_id e) (hm_entities h) = Some e" using Cons.prems(3) by simp
  have e_ok: "entity_ok E h (en_id e) e" using wf_entityD[OF Cons.prems(1) e] .
  let ?k = "(en_protocol e, en_unique_id e)"
  let ?h = "without_entity (en_id e) ?k h"
  have r: "remove_entity (en_protocol e) (en_unique_id e) h = (Ok [EntityRemoved (en_id e)], ?h)"
    using e_ok by (intro remove_entity_live) (simp_all add: entity_ok_def)
  have ents: "oget i (hm_entities ?h) = (if i = en_id e then None else oget i (hm_entities h))" for i
    by (simp add: without_entity_def)
  have rest: "\<forall>x \<in> set es. oget (en_id x) (hm_entities ?h) = Some x"
  proof
    fix x
    assume x: "x \<in> set es"
    have "en_id e \<notin> en_id ` set es" using Cons.prems(2) by simp
    then have "en_id x \<noteq> en_id e" using x by (metis imageI)
    then show "oget (en_id x) (hm_entities ?h) = Some x" using Cons.prems(3) x ents[of "en_id x"] by simp
  qed
  have "distinct (map en_id es)" using Cons.prems(2) by simp
  from Cons.IH[OF without_entity_wf[OF Cons.prems(1) e refl] this rest]
  obtain evs h' where h': "remove_owned es ?h = (Ok evs, h')" "home_wf H E h'" "devices_alike ?h h'"
    "\<forall>i. oget i (hm_entities h') = (if i \<in> en_id ` set es then None else oget i (hm_entities ?h))"
    by blast
  then show ?case using r ents by (simp add: without_entity_alike)
qed

lemma remove_entity_beside:
  "remove_entity p u (h\<lparr>hm_device_keys := a, hm_device_descriptions := b\<rparr>) =
   apsnd (\<lambda>h. h\<lparr>hm_device_keys := a, hm_device_descriptions := b\<rparr>) (remove_entity p u h)"
  by (cases "oget (p, u) (hm_found_entities h)"; cases "oget (p, u) (hm_entity_keys h)") (simp_all add: remove_entity_def)

lemma remove_owned_beside:
  "remove_owned es (h\<lparr>hm_device_keys := a, hm_device_descriptions := b\<rparr>) =
   apsnd (\<lambda>h. h\<lparr>hm_device_keys := a, hm_device_descriptions := b\<rparr>) (remove_owned es h)"
  by (induction es arbitrary: h) (simp_all add: remove_entity_beside apsnd_def map_prod_def split: prod.split sum.split)

lemma owned_distinct: "home_wf H E h \<Longrightarrow> distinct (map en_id (owned h i))"
proof -
  assume w: "home_wf H E h"
  have ok: "omap_ok (hm_entities h)" using wf_maps[OF w] by simp
  have "en_id (snd p) = fst p" if "p \<in> set (hm_entities h)" for p
    using that wf_entityD[OF w, of "fst p" "snd p"] oget_eq_Some[OF ok, of "fst p" "snd p"] by (simp add: entity_ok_def)
  then have "map en_id (ovals (hm_entities h)) = okeys (hm_entities h)"
    by (simp add: ovals_def okeys_def)
  then show ?thesis
    using omap_ok_distinct[OF ok] unfolding owned_def by (metis distinct_map_filter)
qed

lemma drop_device_wf:
  assumes w: "home_wf H E h" and d: "oget i (hm_devices h) = Some d" "k = (dv_protocol d, dv_unique_id d)"
    and alone: "\<And>j e. oget j (hm_entities h) = Some e \<Longrightarrow> en_device_id e \<noteq> Some i"
  shows "home_wf H E (h\<lparr>hm_device_keys := odel k (hm_device_keys h), hm_device_descriptions := odel i (hm_device_descriptions h),
    hm_devices := odel i (hm_devices h)\<rparr>)" (is "home_wf H E ?h")
proof -
  have key: "oget k (hm_device_keys h) = Some i" using wf_deviceD[OF w d(1)] d(2) by (simp add: device_ok_def)
  show ?thesis
  proof (rule home_wfI)
    fix j x
    assume "oget j (hm_devices ?h) = Some x"
    then have x: "j \<noteq> i" "oget j (hm_devices h) = Some x" by (auto split: if_splits)
    from wf_deviceD[OF w x(2)] x(1) key show "device_ok H ?h j x" by (auto simp: device_ok_def)
  next
    fix j e
    assume "oget j (hm_entities ?h) = Some e"
    then have "entity_ok E h j e" "en_device_id e \<noteq> Some i" using wf_entityD[OF w] alone by simp_all
    then show "entity_ok E ?h j e" by (auto simp: entity_ok_def)
  next
    fix q v j
    assume "oget (q, v) (hm_device_keys ?h) = Some j"
    then have "(q, v) \<noteq> k" "oget (q, v) (hm_device_keys h) = Some j" by (auto split: if_splits)
    with wf_device_keyD[OF w, of q v j] d
    show "\<exists>x. oget j (hm_devices ?h) = Some x \<and> dv_protocol x = q \<and> dv_unique_id x = v" by auto
  qed (use wf_maps[OF w] wf_foundD[OF w] wf_entity_keyD[OF w] wf_found_keyD[OF w] wf_state_iff[OF w] wf_stateD[OF w]
      in \<open>fastforce simp: omap_ok_odel\<close>)+
qed

text \<open>Taking a device out of the home: it and its entities are gone, and nothing else.\<close>

lemma remove_live_device:
  assumes w: "home_wf H E h" and d: "oget i (hm_devices h) = Some d"
  shows "\<exists>evs h'. remove_device (dv_protocol d) (dv_unique_id d) h = (Ok evs, h') \<and> keeps_live H E h h' \<and>
    oget i (hm_devices h') = None \<and>
    (\<forall>j. j \<noteq> i \<longrightarrow> oget j (hm_devices h') = map_option (unlinked i) (oget j (hm_devices h))) \<and>
    (\<forall>j. oget j (hm_entities h') =
      (if \<exists>e. oget j (hm_entities h) = Some e \<and> en_device_id e = Some i then None else oget j (hm_entities h)))"
proof -
  let ?p = "dv_protocol d" and ?u = "dv_unique_id d"
  have d_ok: "device_id_for ?p ?u = i" "oget (?p, ?u) (hm_device_keys h) = Some i" "oget i (hm_found h) = None"
    using wf_deviceD[OF w d] by (simp_all add: device_ok_def)
  have own: "e \<in> set (owned h i) \<longleftrightarrow> oget (en_id e) (hm_entities h) = Some e \<and> en_device_id e = Some i" for e
    using mem_owned[OF w] .
  obtain evs g where g: "remove_owned (owned h i) h = (Ok evs, g)" "home_wf H E g" "devices_alike h g"
    "\<forall>j. oget j (hm_entities g) = (if j \<in> en_id ` set (owned h i) then None else oget j (hm_entities h))"
    using remove_owned_all[OF w owned_distinct[OF w]] own by blast
  have gone: "j \<in> en_id ` set (owned h i) \<longleftrightarrow> (\<exists>e. oget j (hm_entities h) = Some e \<and> en_device_id e = Some i)" for j
  proof
    assume "\<exists>e. oget j (hm_entities h) = Some e \<and> en_device_id e = Some i"
    then obtain e where e: "oget j (hm_entities h) = Some e" "en_device_id e = Some i" by blast
    moreover have "en_id e = j" using wf_entityD[OF w e(1)] by (simp add: entity_ok_def)
    ultimately show "j \<in> en_id ` set (owned h i)" using own[of e] by force
  qed (use own in auto)
  have same: "hm_devices g = hm_devices h" "hm_device_keys g = hm_device_keys h" "hm_found g = hm_found h"
    "hm_device_descriptions g = hm_device_descriptions h" "hm_settings g = hm_settings h" "hm_found_entities g = hm_found_entities h"
    using g(3) by (simp_all add: devices_alike_def)
  let ?m = "map (\<lambda>(j, d). (j, unlinked i d)) (hm_devices g)"
  have unlinked: "same_device x (unlinked i x)" for x by (simp add: same_device_def unlinked_def)
  have "home_wf H E (g\<lparr>hm_devices := ?m\<rparr>)"
    using g(2) wf_maps[OF g(2)] unlinked by (intro wf_devices) (auto simp: oget_values omap_ok_values)
  note wg = this
  have alone: "en_device_id e \<noteq> Some i" if "oget j (hm_entities (g\<lparr>hm_devices := ?m\<rparr>)) = Some e" for j e
  proof
    assume "en_device_id e = Some i"
    moreover have "oget j (hm_entities h) = Some e" using that g(4) by (simp split: if_splits)
    ultimately have "j \<in> en_id ` set (owned h i)" using gone by blast
    then show False using that g(4) by simp
  qed
  have "oget i (hm_devices (g\<lparr>hm_devices := ?m\<rparr>)) = Some (unlinked i d)" using d same by (simp add: oget_values)
  from drop_device_wf[OF wg this refl alone]
  have w': "home_wf H E (g\<lparr>hm_devices := ?m, hm_device_keys := odel (?p, ?u) (hm_device_keys g),
      hm_device_descriptions := odel i (hm_device_descriptions g), hm_devices := odel i ?m\<rparr>)"
    using unlinked[of d] by (simp add: same_device_def)
  define h' where "h' = g\<lparr>hm_device_keys := odel (?p, ?u) (hm_device_keys g),
      hm_device_descriptions := odel i (hm_device_descriptions g), hm_devices := odel i ?m\<rparr>"
  have "home_wf H E h'" using w' by (simp add: h'_def)
  moreover have "none_held h'" if "none_held h"
  proof -
    have "dv_protocol (unlinked i x) = dv_protocol x" for x using unlinked by (simp add: same_device_def)
    then show ?thesis
      using that same by (fastforce simp: none_held_def is_held_def h'_def oget_values split: if_splits)
  qed
  ultimately have "keeps_live H E h h'" using same by (simp add: keeps_live_def keeps_def h'_def)
  moreover have "\<exists>evs. remove_device ?p ?u h = (Ok evs, h')"
    using g(1) d_ok same by (simp add: remove_device_def Let_def remove_owned_beside h'_def owned_def)
  ultimately show ?thesis
    using same g(4) gone by (auto simp: h'_def oget_values)
qed

text \<open>What is only found is forgotten.\<close>

lemma drop_found_wf:
  assumes w: "home_wf H E h" and f: "oget i (hm_found h) = Some f"
  shows "home_wf H E (h\<lparr>hm_found := odel i (hm_found h),
    hm_found_entities := fold (\<lambda>e. odel (fo_protocol f, e)) (okeys (fo_entities f)) (hm_found_entities h)\<rparr>)" (is "home_wf H E ?h")
proof (rule home_wfI)
  fix q v j
  assume "oget (q, v) (hm_found_entities ?h) = Some j"
  then have j: "oget (q, v) (hm_found_entities h) = Some j" "(q, v) \<notin> Pair (fo_protocol f) ` set (okeys (fo_entities f))"
    by (auto simp: oget_without_all split: if_splits)
  obtain x where x: "oget j (hm_found h) = Some x" "fo_protocol x = q" "oget v (fo_entities x) \<noteq> None"
    using wf_found_keyD[OF w j(1)] by blast
  then have "j \<noteq> i" using f j(2) by (auto simp: image_iff mem_okeys)
  with x show "\<exists>x. oget j (hm_found ?h) = Some x \<and> fo_protocol x = q \<and> oget v (fo_entities x) \<noteq> None" by simp
next
  fix j e
  assume "oget j (hm_entities ?h) = Some e"
  then show "entity_ok E ?h j e" using wf_entityD[OF w, of j e] by (simp add: entity_ok_def oget_without_all)
qed (use wf_maps[OF w] wf_deviceD[OF w] wf_foundD[OF w] wf_device_keyD[OF w] wf_entity_keyD[OF w] wf_state_iff[OF w] wf_stateD[OF w]
    in \<open>fastforce simp: device_ok_def omap_ok_odel split: if_splits\<close>)+

lemma remove_device_keeps:
  assumes w: "home_wf H E h" and hd: "handles H E" "(p, u) \<in> H"
  shows "keeps H E h (snd (remove_device p u h))"
proof (cases "oget (device_id_for p u) (hm_found h)")
  case (Some f)
  then have "fo_protocol f = p"
    using wf_foundD[OF w Some] same_handle[OF hd(1), of "fo_protocol f" _ p u] hd(2) by (auto simp: found_ok_def)
  with drop_found_wf[OF w Some] Some show ?thesis by (simp add: remove_device_def keeps_def wf_frame)
next
  case none: None
  show ?thesis
  proof (cases "oget (p, u) (hm_device_keys h)")
    case None
    with none show ?thesis using keeps_refl[OF w] by (simp add: remove_device_def keeps_live_def)
  next
    case (Some i)
    then obtain d where "oget i (hm_devices h) = Some d" "dv_protocol d = p" "dv_unique_id d = u"
      using wf_device_keyD[OF w Some] by blast
    from remove_live_device[OF w this(1)] this(2,3) show ?thesis by (auto simp: keeps_live_def)
  qed
qed

lemma remove_protocol_keeps:
  assumes w: "home_wf H E h" and hd: "handles H E"
  shows "keeps H E h (snd (remove_protocol p h))"
proof -
  define us where "us = map dv_unique_id (filter (\<lambda>d. dv_protocol d = p) (ovals (hm_devices h))) @
      map (dd_unique_id \<circ> fo_description) (filter (\<lambda>f. fo_protocol f = p) (ovals (hm_found h)))"
  have us: "\<forall>u \<in> set us. (p, u) \<in> H"
    using wf_deviceD[OF w] wf_foundD[OF w] wf_maps[OF w]
    by (auto simp: us_def mem_ovals device_ok_def found_ok_def)
  have loop: "keeps H E h (snd (fold (\<lambda>u (evs, h). case remove_device p u h of
      (r, h) \<Rightarrow> (evs @ (case r of Inr es \<Rightarrow> es | Inl _ \<Rightarrow> []), h)) us (evs, g)))"
    if "keeps H E h g" "\<forall>u \<in> set us. (p, u) \<in> H" for us evs g
    using that
  proof (induction us arbitrary: evs g)
    case (Cons u us)
    have "home_wf H E g" using Cons.prems(1) by (simp add: keeps_def)
    from remove_device_keeps[OF this hd, of p u] Cons.prems
    have "keeps H E h (snd (remove_device p u g))" by (auto intro: keeps_trans)
    from Cons.IH[OF this] Cons.prems(2) show ?case by (simp add: case_prod_beta)
  qed simp
  have "keeps H E h h" using keeps_refl[OF w] by (simp add: keeps_live_def)
  from loop[OF this us] show ?thesis by (simp only: remove_protocol_def Let_def us_def)
qed

section \<open>Out of the home\<close>

text \<open>What a device taken out is remembered as: every entity it has, as last described.\<close>

lemma remember_fold:
  defines "r \<equiv> \<lambda>h es f. fold (remember h) es f"
  shows "fo_protocol (r h es f) = fo_protocol f" "fo_description (r h es f) = fo_description f"
    "omap_ok (fo_entities f) \<Longrightarrow> omap_ok (fo_entities (r h es f))"
    "oget u (fo_entities (r h es f)) = Some x \<Longrightarrow> oget u (fo_entities f) = Some x \<or>
       (\<exists>e \<in> set es. en_unique_id e = u \<and> oget (en_id e) (hm_entity_descriptions h) = Some x)"
    "oget u (fo_entities f) \<noteq> None \<Longrightarrow> oget u (fo_entities (r h es f)) \<noteq> None"
    "e \<in> set es \<Longrightarrow> oget (en_id e) (hm_entity_descriptions h) \<noteq> None \<Longrightarrow>
       oget (en_unique_id e) (fo_entities (r h es f)) \<noteq> None"
proof -
  have one: "fo_protocol (remember h e f) = fo_protocol f" "fo_description (remember h e f) = fo_description f"
    "fo_entities (remember h e f) = (case oget (en_id e) (hm_entity_descriptions h) of
        Some d \<Rightarrow> oput (en_unique_id e) d (fo_entities f) | None \<Rightarrow> fo_entities f)" for e f
    by (auto simp: remember_def Let_def split: option.split)
  show "fo_protocol (r h es f) = fo_protocol f" "fo_description (r h es f) = fo_description f"
    unfolding r_def by (induction es arbitrary: f) (simp_all add: one)
  show "omap_ok (fo_entities f) \<Longrightarrow> omap_ok (fo_entities (r h es f))"
    unfolding r_def by (induction es arbitrary: f) (simp_all add: one omap_ok_oput split: option.split)
  show "oget u (fo_entities (r h es f)) = Some x \<Longrightarrow> oget u (fo_entities f) = Some x \<or>
       (\<exists>e \<in> set es. en_unique_id e = u \<and> oget (en_id e) (hm_entity_descriptions h) = Some x)"
    unfolding r_def by (induction es arbitrary: f) (fastforce simp: one oget_oput split: option.splits if_splits)+
  show grow: "oget u (fo_entities f) \<noteq> None \<Longrightarrow> oget u (fo_entities (r h es f)) \<noteq> None" for u f es
    unfolding r_def by (induction es arbitrary: f) (fastforce simp: one oget_oput split: option.split)+
  show "e \<in> set es \<Longrightarrow> oget (en_id e) (hm_entity_descriptions h) \<noteq> None \<Longrightarrow>
       oget (en_unique_id e) (fo_entities (r h es f)) \<noteq> None"
  proof (induction es arbitrary: f)
    case (Cons a es)
    show ?case
    proof (cases "e \<in> set es")
      case True
      with Cons.IH[OF this Cons.prems(2), of "remember h a f"] show ?thesis by (simp add: r_def)
    next
      case False
      with Cons.prems have "oget (en_unique_id e) (fo_entities (remember h a f)) \<noteq> None" by (auto simp: one oget_oput)
      from grow[OF this] show ?thesis by (simp add: r_def)
    qed
  qed simp
qed

end
