(* ===== verification/HomeSettle.thy ===== *)
theory HomeSettle
  imports HomeRemove
begin

text \<open>
  Devices that leave the home and come back, and what a person says, keep the home well formed.
\<close>

section \<open>Out of the home\<close>

lemma keep_found_wf:
  assumes w: "home_wf H E h" and i: "oget i (hm_devices h) = None" and f: "found_ok H E i f"
    and known: "\<And>e. e \<in> set es \<Longrightarrow> oget (g e) (fo_entities f) \<noteq> None"
    and gone: "\<And>e. e \<in> set es \<Longrightarrow> oget (fo_protocol f, g e) (hm_entity_keys h) = None"
    and old: "oget i (hm_found h) = None"
  shows "home_wf H E (h\<lparr>hm_found_entities := fold (\<lambda>e. oput (fo_protocol f, g e) i) es (hm_found_entities h),
    hm_found := oput i f (hm_found h)\<rparr>)" (is "home_wf H E ?h")
proof (rule home_wfI)
  fix j x
  assume "oget j (hm_devices ?h) = Some x"
  then show "device_ok H ?h j x" using wf_deviceD[OF w, of j x] i by (auto simp: device_ok_def oget_oput)
next
  fix j e
  assume "oget j (hm_entities ?h) = Some e"
  then have e: "entity_ok E h j e" using wf_entityD[OF w] by simp
  then have "(en_protocol e, en_unique_id e) \<notin> (\<lambda>e. (fo_protocol f, g e)) ` set es"
    using gone by (auto simp: entity_ok_def)
  with e show "entity_ok E ?h j e" by (auto simp: entity_ok_def oget_fold_oput)
next
  fix j x
  assume "oget j (hm_found ?h) = Some x"
  then show "found_ok H E j x" using wf_foundD[OF w, of j x] f by (auto simp: oget_oput split: if_splits)
next
  fix q v j
  assume "oget (q, v) (hm_found_entities ?h) = Some j"
  then have "(q, v) \<in> (\<lambda>e. (fo_protocol f, g e)) ` set es \<and> j = i \<or> oget (q, v) (hm_found_entities h) = Some j"
    by (auto simp: oget_fold_oput split: if_splits)
  then show "\<exists>x. oget j (hm_found ?h) = Some x \<and> fo_protocol x = q \<and> oget v (fo_entities x) \<noteq> None"
  proof
    assume "oget (q, v) (hm_found_entities h) = Some j"
    from wf_found_keyD[OF w this] old show ?thesis by (auto simp: oget_oput)
  qed (use known in \<open>auto simp: oget_oput\<close>)
qed (use wf_maps[OF w] wf_device_keyD[OF w] wf_entity_keyD[OF w] wf_state_iff[OF w] wf_stateD[OF w]
    in \<open>fastforce simp: omap_ok_oput\<close>)+

text \<open>\<open>hold\<close>: the device is found now, and is not in the home; no other device came or went.\<close>

lemma hold_keeps:
  assumes w: "home_wf H E h"
  shows "keeps H E h (snd (hold i h)) \<and> oget i (hm_devices (snd (hold i h))) = None \<and>
    (\<forall>j. j \<noteq> i \<longrightarrow> oget j (hm_devices (snd (hold i h))) = None \<longleftrightarrow> oget j (hm_devices h) = None) \<and>
    (\<forall>j x. oget j (hm_devices (snd (hold i h))) = Some x \<longrightarrow> (\<exists>d. oget j (hm_devices h) = Some d \<and> same_device d x)) \<and>
    (oget i (hm_devices h) \<noteq> None \<longrightarrow> oget i (hm_found (snd (hold i h))) \<noteq> None)"
proof (cases "oget i (hm_devices h)")
  case None
  then show ?thesis using keeps_refl[OF w] by (auto simp: hold_def keeps_live_def same_device_def)
next
  case (Some d)
  obtain dd where d: "dv_id d = i" "(dv_protocol d, dv_unique_id d) \<in> H" "device_id_for (dv_protocol d) (dv_unique_id d) = i"
    "oget i (hm_found h) = None" "oget i (hm_device_descriptions h) = Some dd" "dd_unique_id dd = dv_unique_id d"
    using wf_deviceD[OF w Some] by (auto simp: device_ok_def)
  define es where "es = owned h i"
  define f where "f = fold (remember h) es (new_found (dv_protocol d) dd)"
  have es: "oget (en_id e) (hm_entities h) = Some e" "en_device_id e = Some i" "entity_ok E h (en_id e) e" if "e \<in> set es" for e
    using that mem_owned[OF w] wf_entityD[OF w] by (auto simp: es_def)
  have p: "en_protocol e = dv_protocol d" if "e \<in> set es" for e
    using es[OF that] Some by (auto simp: entity_ok_def)
  have "found_ok H E i f"
    unfolding found_ok_def
  proof (intro conjI allI impI)
    fix u kinds x
    assume "oget u (fo_entities f) = Some (kinds, x)"
    then obtain e where e: "e \<in> set es" "en_unique_id e = u" "oget (en_id e) (hm_entity_descriptions h) = Some (kinds, x)"
      using remember_fold(4)[where u = u and x = "(kinds, x)"] by (fastforce simp: f_def new_found_def)
    then show "entity_description_ok (fo_protocol f) u (Some i) x" "(fo_protocol f, u) \<in> E"
      using es[OF e(1)] p[OF e(1)] by (auto simp: f_def remember_fold new_found_def entity_ok_def)
  qed (use d in \<open>simp_all add: f_def remember_fold new_found_def\<close>)
  moreover obtain evs h1 where h1: "remove_device (dv_protocol d) (dv_unique_id d) h = (Ok evs, h1)" "keeps_live H E h h1"
    "oget i (hm_devices h1) = None" "\<forall>j. j \<noteq> i \<longrightarrow> oget j (hm_devices h1) = map_option (unlinked i) (oget j (hm_devices h))"
    "\<forall>j. oget j (hm_entities h1) =
      (if \<exists>e. oget j (hm_entities h) = Some e \<and> en_device_id e = Some i then None else oget j (hm_entities h))"
    using remove_live_device[OF w Some] by blast
  have w1: "home_wf H E h1" "hm_found h1 = hm_found h" using h1(2) by (simp_all add: keeps_live_def keeps_def)
  have known: "oget (en_unique_id e) (fo_entities f) \<noteq> None" if "e \<in> set es" for e
    using es(3)[OF that] that unfolding f_def by (intro remember_fold(6)) (auto simp: entity_ok_def)
  have fp: "fo_protocol f = dv_protocol d" by (simp add: f_def remember_fold new_found_def)
  have gone: "oget (fo_protocol f, en_unique_id e) (hm_entity_keys h1) = None" if e: "e \<in> set es" for e
  proof (rule ccontr)
    assume "oget (fo_protocol f, en_unique_id e) (hm_entity_keys h1) \<noteq> None"
    then obtain j x where x: "oget j (hm_entities h1) = Some x" "en_protocol x = fo_protocol f" "en_unique_id x = en_unique_id e"
      using wf_entity_keyD[OF w1(1)] by blast
    then have "oget j (hm_entities h) = Some x" using h1(5) by (metis option.distinct(1))
    moreover from this have "j = en_id e"
      using wf_entityD[OF w] es(3)[OF e] x(2,3) p[OF e] fp by (fastforce simp: entity_ok_def)
    ultimately show False using h1(5) es[OF e] x(1) by auto
  qed
  define h2 where "h2 = h1\<lparr>hm_found_entities := fold (\<lambda>e. oput (fo_protocol f, en_unique_id e) i) es (hm_found_entities h1),
    hm_found := oput i f (hm_found h1)\<rparr>"
  have "home_wf H E h2"
    unfolding h2_def using keep_found_wf[OF w1(1) h1(3) \<open>found_ok H E i f\<close> known gone] w1(2) d(4) by simp
  then have "keeps H E h h2"
    using h1(2) by (simp add: keeps_def keeps_live_def h2_def wf_frame)
  moreover have "hold i h = (evs, h2)"
    using Some d(5) h1(1) fp by (simp add: hold_def Let_def es_def [symmetric] f_def [symmetric] h2_def)
  moreover have "\<exists>x0. oget j (hm_devices h) = Some x0 \<and> same_device x0 x" if "oget j (hm_devices h1) = Some x" for j x
  proof -
    have "j \<noteq> i" using that h1(3) by auto
    with h1(4) that obtain x0 where "oget j (hm_devices h) = Some x0" "x = unlinked i x0" by auto
    then show ?thesis by (auto simp: same_device_def unlinked_def)
  qed
  ultimately show ?thesis
    using h1(3,4) by (simp add: h2_def oget_oput)
qed

lemma forget_device_keeps: "home_wf H E h \<Longrightarrow> keeps H E h (snd (forget_device i h))"
  using hold_keeps[of H E h i] keeps_refl[of H E h]
  by (auto simp: forget_device_def keeps_live_def split: prod.split)

section \<open>Into the home\<close>

text \<open>What was found of a device may be described again as soon as it is no longer found.\<close>

lemma described_again:
  assumes f: "found_ok H E i f" and d: "oget u (fo_entities f) = Some (kinds, d)"
    and i: "oget i (hm_found h) = None" and free: "oget (fo_protocol f, u) (hm_found_entities h) = None"
  shows "found_device (fo_protocol f) d h = None" "entity_may_be_described H E (fo_protocol f) d h"
proof -
  have ok: "entity_description_ok (fo_protocol f) u (Some i) d" "(fo_protocol f, u) \<in> E"
    using f d by (auto simp: found_ok_def)
  show "found_device (fo_protocol f) d h = None"
    using ok(1) i by (auto simp: entity_description_ok_def found_device_def split: option.split)
  then show "entity_may_be_described H E (fo_protocol f) d h"
    using ok free by (simp add: entity_may_be_described_def entity_description_ok_def)
qed

lemma if_accepted_keeps:
  "\<exists>x h'. r = Some (x, h') \<and> Q h' \<Longrightarrow> \<exists>es h'. if_accepted r = Some (es, h') \<and> Q h'"
  by (auto simp: if_accepted_def)

text \<open>\<open>admit\<close> of a device that is to be in the home now.\<close>

lemma admit_keeps:
  assumes w: "home_wf H E h" and hd: "handles H E" and held: "none_held h"
    and go: "\<And>f. oget i (hm_found h) = Some f \<Longrightarrow> \<not> is_held h (fo_protocol f) i"
  shows "\<exists>es h'. admit lib i s h = Some (es, h') \<and> keeps H E h h' \<and>
found_from h h'"
proof (cases "oget i (hm_found h)")
  case None
  then show ?thesis using keeps_refl[OF w] by (auto simp: admit_def keeps_live_def found_from_refl)
next
  case (Some f)
  let ?p = "fo_protocol f"
  have f_ok: "found_ok H E i f" using wf_foundD[OF w Some] .
  define h0 where "h0 = h\<lparr>hm_found := odel i (hm_found h),
    hm_found_entities := fold (\<lambda>u. odel (?p, u)) (okeys (fo_entities f)) (hm_found_entities h)\<rparr>"
  have h0: "keeps H E h h0" "home_wf H E h0" "none_held h0" "oget i (hm_found h0) = None" "\<not> is_held h0 ?p i"
    using drop_found_wf[OF w Some] held go[OF Some] by (simp_all add: h0_def keeps_def wf_frame is_held_def)
  have free: "oget (?p, u) (hm_found_entities h0) = None" if "oget u (fo_entities f) \<noteq> None" for u
    using that by (auto simp: h0_def oget_without_all mem_okeys image_iff)
  let ?Q = "\<lambda>h'. keeps_live H E h0 h'"
  have id: "(?p, dd_unique_id (fo_description f)) \<in> H" "device_id_for ?p (dd_unique_id (fo_description f)) = i"
    using f_ok by (simp_all add: found_ok_def)
  obtain es1 h1 where h1: "if_accepted (describe_device lib ?p (fo_description f) h0) = Some (es1, h1)" "?Q h1"
    using if_accepted_keeps[where r = "describe_device lib ?p (fo_description f) h0" and Q = ?Q]
      describe_device_keeps[OF h0(2) hd id(1) h0(3), of lib] id(2) h0(4,5) by auto
  have "\<exists>es h'. each (\<lambda>(kinds, d) h. if_accepted (describe_entity ?p kinds d s h)) (ovals (fo_entities f)) h1 = Some (es, h') \<and> ?Q h'"
  proof (rule each_keeps[where Q = ?Q, OF _ h1(2)])
    fix x h'
    assume x: "x \<in> set (ovals (fo_entities f))" and Q: "?Q h'"
    obtain kinds d where kd: "x = (kinds, d)" by (cases x)
    obtain u where u: "oget u (fo_entities f) = Some (kinds, d)" using x kd f_ok by (auto simp: mem_ovals found_ok_def)
    have h': "home_wf H E h'" "oget i (hm_found h') = None" "oget (?p, u) (hm_found_entities h') = None"
      using Q h0(4) free[of u] u by (simp_all add: keeps_live_def keeps_def)
    note again = described_again[OF f_ok u h'(2,3)]
    have "\<exists>x h''. describe_entity ?p kinds d s h' = Some (x, h'') \<and> ?Q h''"
      using describe_entity_keeps[OF h'(1) hd again(2), of kinds s] again(1) Q keeps_live_trans by blast
    from if_accepted_keeps[where Q = ?Q, OF this]
    show "\<exists>es h''. (\<lambda>(kinds, d) h. if_accepted (describe_entity ?p kinds d s h)) x h' = Some (es, h'') \<and> ?Q h''"
      by (simp add: kd)
  qed
  then obtain es2 h2 where h2: "each (\<lambda>(kinds, d) h. if_accepted (describe_entity ?p kinds d s h)) (ovals (fo_entities f)) h1 = Some (es2, h2)"
    "?Q h2" by blast
  let ?R = "\<lambda>h'. keeps H E h0 h' \<and> found_from h0 h'"
  have R: "?R h2" using h2(2) by (simp add: keeps_live_def found_from_refl)
  have "\<exists>es h'. each (\<lambda>r h. if_accepted (report_state ?p (r\<lparr>sr_replayed := True\<rparr>) s h)) (ovals (fo_reports f)) h2 = Some (es, h') \<and> ?R h'"
  proof (rule each_keeps[where Q = ?R, OF _ R])
    fix x h'
    assume "?R h'"
    then have "\<exists>y h''. report_state ?p (x\<lparr>sr_replayed := True\<rparr>) s h' = Some (y, h'') \<and> ?R h''"
      using report_state_keeps[of H E h' ?p "x\<lparr>sr_replayed := True\<rparr>" s] keeps_trans found_from_trans
      unfolding keeps_def by blast
    from if_accepted_keeps[where Q = ?R, OF this]
    show "\<exists>es h''. if_accepted (report_state ?p (x\<lparr>sr_replayed := True\<rparr>) s h') = Some (es, h'') \<and> ?R h''" .
  qed
  then obtain es3 h3 where h3: "each (\<lambda>r h. if_accepted (report_state ?p (r\<lparr>sr_replayed := True\<rparr>) s h)) (ovals (fo_reports f)) h2 = Some (es3, h3)"
    "?R h3" by blast
  have "?R (snd (set_availability ?p t Unavailable s h3))" for t
    using set_availability_keeps[of H E h3 ?p t Unavailable s] h3(2) keeps_trans found_from_trans unfolding keeps_def by blast
  then obtain es4 h4 where h4: "(if fo_available f then Some ([], h3)
       else if_accepted (Some (set_availability ?p (OfDevice (dd_unique_id (fo_description f))) Unavailable s h3))) = Some (es4, h4)" "?R h4"
    using h3(2) by (cases "fo_available f") (auto simp: if_accepted_def case_prod_beta)
  have "admit lib i s h = Some (es1 @ es2 @ es3 @ es4, h4)"
    using Some h1(1) h2(1) h3(1) h4(1) by (simp add: admit_def Let_def h0_def [symmetric])
  moreover have "keeps H E h h4" using h0(1) h4(2) keeps_trans by blast
  moreover have "found_from h h0" by (auto simp: found_from_def h0_def)
  ultimately show ?thesis using h4(2) found_from_trans by blast
qed

section \<open>What a person says\<close>

lemma home_wf_settings: "home_wf H E h \<Longrightarrow> home_wf H E (h\<lparr>hm_settings := st\<rparr>)"
  by (simp add: wf_frame)

text \<open>No device is there that wasn't.\<close>

definition came_from :: "'p home \<Rightarrow> 'p home \<Rightarrow> bool" where
  "came_from h h' \<longleftrightarrow> (\<forall>j x. oget j (hm_devices h') = Some x \<longrightarrow>
     (\<exists>d. oget j (hm_devices h) = Some d \<and> same_device d x))"

lemma came_fromD: "came_from h h' \<Longrightarrow> oget j (hm_devices h') = Some x \<Longrightarrow>
    \<exists>d. oget j (hm_devices h) = Some d \<and> same_device d x"
  by (simp add: came_from_def)

lemma came_from_trans:
  assumes "came_from h h'" "came_from h' h''"
  shows "came_from h h''"
  unfolding came_from_def
proof (intro allI impI)
  fix j x
  assume "oget j (hm_devices h'') = Some x"
  from came_fromD[OF assms(2) this] obtain y where y: "oget j (hm_devices h') = Some y" "same_device y x" by blast
  from came_fromD[OF assms(1) y(1)] y(2) show "\<exists>d. oget j (hm_devices h) = Some d \<and> same_device d x"
    by (auto simp: same_device_def)
qed

text \<open>What is to wait leaves first: after that nothing in the home is to wait.\<close>

lemma hold_all_keeps:
  assumes w: "home_wf H E h"
  shows "\<exists>es h'. each (\<lambda>i h. Some (hold i h)) (now_held h) h = Some (es, h') \<and> home_wf H E h' \<and>
    hm_settings h' = hm_settings h \<and> none_held h'"
proof -
  have all: "\<exists>es h'. each (\<lambda>i h. Some (hold i h)) is g = Some (es, h') \<and> home_wf H E h' \<and>
      hm_settings h' = hm_settings g \<and> came_from g h' \<and> (\<forall>i \<in> set is. oget i (hm_devices h') = None)"
    if "home_wf H E g" for "is" g
    using that
  proof (induction "is" arbitrary: g)
    case Nil
    then show ?case by (simp add: came_from_def same_device_def)
  next
    case (Cons i "is")
    obtain es g1 where g1: "hold i g = (es, g1)" by fastforce
    have k: "home_wf H E g1" "hm_settings g1 = hm_settings g" "oget i (hm_devices g1) = None" "came_from g g1"
      using hold_keeps[OF Cons.prems, of i] by (simp_all add: g1 keeps_def came_from_def)
    obtain es' h' where h': "each (\<lambda>i h. Some (hold i h)) is g1 = Some (es', h')" "home_wf H E h'"
      "hm_settings h' = hm_settings g1" "came_from g1 h'" "\<forall>i \<in> set is. oget i (hm_devices h') = None"
      using Cons.IH[OF k(1)] by blast
    have "came_from g h'" using came_from_trans[OF k(4) h'(4)] .
    moreover have "oget i (hm_devices h') = None"
    proof (rule ccontr)
      assume "oget i (hm_devices h') \<noteq> None"
      then show False using came_fromD[OF h'(4), of i] k(3) by auto
    qed
    ultimately show ?case using g1 h' k(2) by simp
  qed
  from all[OF w, of "now_held h"] obtain es h' where h': "each (\<lambda>i h. Some (hold i h)) (now_held h) h = Some (es, h')"
    "home_wf H E h'" "hm_settings h' = hm_settings h" "came_from h h'" "\<forall>i \<in> set (now_held h). oget i (hm_devices h') = None"
    by blast
  have "none_held h'"
    unfolding none_held_def
  proof (intro allI impI notI)
    fix i d
    assume d: "oget i (hm_devices h') = Some d" and held: "is_held h' (dv_protocol d) i"
    then obtain x where x: "oget i (hm_devices h) = Some x" "dv_protocol x = dv_protocol d"
      using came_fromD[OF h'(4) d] by (auto simp: same_device_def)
    have "is_held h (dv_protocol x) i" using held h'(3) x(2) by (simp add: is_held_def)
    then have "i \<in> set (now_held h)" using oget_Some_mem[OF x(1)] by (force simp: now_held_def)
    with h'(5) d show False by simp
  qed
  with h' show ?thesis by blast
qed

lemma admit_all_keeps:
  assumes w: "home_wf H E h" and hd: "handles H E" and held: "none_held h"
  shows "\<exists>es h'. each (\<lambda>i. admit lib i s) (now_added h) h = Some (es, h') \<and> keeps H E h h'"
proof -
  let ?Q = "\<lambda>h'. keeps H E h h' \<and> found_from h h'"
  have "?Q h" using keeps_refl[OF w] by (simp add: keeps_live_def found_from_refl)
  then have "\<exists>es h'. each (\<lambda>i. admit lib i s) (now_added h) h = Some (es, h') \<and> ?Q h'"
  proof (rule each_keeps[where Q = ?Q, rotated])
    fix i h'
    assume i: "i \<in> set (now_added h)" and Q: "?Q h'"
    have ok: "omap_ok (hm_found h)" using wf_maps[OF w] by simp
    have "\<not> is_held h' (fo_protocol f) i" if f: "oget i (hm_found h') = Some f" for f
    proof -
      obtain g where g: "oget i (hm_found h) = Some g" "fo_protocol g = fo_protocol f"
        using Q found_fromD[OF _ f] by blast
      then have "\<not> is_held h (fo_protocol g) i" using i by (auto simp: now_added_def oget_eq_Some[OF ok, symmetric])
      then show ?thesis using g(2) Q by (simp add: is_held_def keeps_def)
    qed
    then show "\<exists>es h''. admit lib i s h' = Some (es, h'') \<and> ?Q h''"
      using admit_keeps[of H E h' i lib s] Q hd held keeps_trans found_from_trans unfolding keeps_def by metis
  qed
  then show ?thesis by blast
qed

lemma resettle_device_keeps:
  assumes w: "home_wf H E h" and d: "oget i (hm_devices h) = Some d"
  shows "\<exists>es h'. resettle_device lib i h = Some (es, h') \<and> keeps H E h h' \<and> okeys (hm_devices h') = okeys (hm_devices h)"
proof -
  obtain n where n: "oget i (hm_device_names h) = Some n" using wf_deviceD[OF w d] by (auto simp: device_ok_def)
  have same: "keeps H E h h" using keeps_refl[OF w] by (simp add: keeps_live_def)
  have "keeps H E h (h\<lparr>hm_devices := oput i d' (hm_devices h)\<rparr>) \<and> okeys (oput i d' (hm_devices h)) = okeys (hm_devices h)"
    if d': "same_device d d'" for d'
  proof -
    have "none_held h \<Longrightarrow> none_held (h\<lparr>hm_devices := oput i d' (hm_devices h)\<rparr>)"
      using d d' by (intro none_held_devices) (auto simp: oget_oput same_device_def split: if_splits)
    moreover have "oput i d' (hm_devices h) = omod i (\<lambda>_. d') (hm_devices h)"
      using oput_present wf_maps[OF w] d by (metis mem_okeys option.distinct(1))
    ultimately show ?thesis using wf_put_device[OF w d d'] by (simp add: keeps_def)
  qed
  then show ?thesis
    using n d same by (simp add: resettle_device_def Let_def same_device_def)
qed

lemma resettle_entity_keeps:
  assumes w: "home_wf H E h" and e: "oget i (hm_entities h) = Some e"
  shows "\<exists>es h'. resettle_entity i h = Some (es, h') \<and> keeps H E h h' \<and>
    (\<forall>j. oget j (hm_entities h) \<noteq> None \<longrightarrow> oget j (hm_entities h') \<noteq> None)"
proof -
  obtain es h' where h': "rename_entity i (en_device_id e) h = Some (es, h')" "home_wf H E h'" "renames h h'"
    using rename_entity_renames[OF w e refl] by blast
  have "keeps H E h h'" using keeps_renames[OF h'(2,3)] by (simp add: keeps_live_def)
  with h' e renamesD[OF h'(3)] show ?thesis by (fastforce simp: resettle_entity_def)
qed

lemma apply_settings_keeps:
  assumes w: "home_wf H E h" and hd: "handles H E" and held: "none_held h"
  shows "\<exists>es h'. apply_settings lib st s h = Some (es, h') \<and> home_wf H E h' \<and> none_held h'"
proof (cases "hm_settings h = st")
  case True
  then show ?thesis using w held by (simp add: apply_settings_def)
next
  case False
  let ?h = "h\<lparr>hm_settings := st\<rparr>"
  obtain es1 h1 where h1: "each (\<lambda>i h. Some (hold i h)) (now_held ?h) ?h = Some (es1, h1)" "home_wf H E h1" "none_held h1"
    using hold_all_keeps[OF home_wf_settings[OF w]] by blast
  obtain es2 h2 where h2: "each (\<lambda>i. admit lib i s) (now_added h1) h1 = Some (es2, h2)" "keeps H E h1 h2"
    using admit_all_keeps[OF h1(2) hd h1(3)] by blast
  let ?Q = "\<lambda>h'. keeps H E h1 h' \<and> okeys (hm_devices h') = okeys (hm_devices h2)"
  have "\<exists>es h'. each (resettle_device lib) (okeys (hm_devices h2)) h2 = Some (es, h') \<and> ?Q h'"
  proof (rule each_keeps[where Q = ?Q])
    fix i h'
    assume i: "i \<in> set (okeys (hm_devices h2))" and Q: "?Q h'"
    then have "i \<in> set (okeys (hm_devices h'))" by simp
    then obtain d where "oget i (hm_devices h') = Some d" by (auto simp: mem_okeys)
    moreover have "home_wf H E h'" using Q by (simp add: keeps_def)
    ultimately show "\<exists>es h''. resettle_device lib i h' = Some (es, h'') \<and> ?Q h''"
      using resettle_device_keeps[of H E h' i d lib] Q keeps_trans by metis
  qed (simp add: h2(2))
  then obtain es3 h3 where h3: "each (resettle_device lib) (okeys (hm_devices h2)) h2 = Some (es3, h3)" "keeps H E h1 h3" by blast
  let ?R = "\<lambda>h'. keeps H E h1 h' \<and> (\<forall>j. oget j (hm_entities h3) \<noteq> None \<longrightarrow> oget j (hm_entities h') \<noteq> None)"
  have "\<exists>es h'. each resettle_entity (okeys (hm_entities h3)) h3 = Some (es, h') \<and> ?R h'"
  proof (rule each_keeps[where Q = ?R])
    fix i h'
    assume "i \<in> set (okeys (hm_entities h3))" and R: "?R h'"
    then obtain e where "oget i (hm_entities h') = Some e" by (auto simp: mem_okeys)
    moreover have "home_wf H E h'" using R by (simp add: keeps_def)
    ultimately obtain es h'' where "resettle_entity i h' = Some (es, h'')" "keeps H E h' h''"
      "\<forall>j. oget j (hm_entities h') \<noteq> None \<longrightarrow> oget j (hm_entities h'') \<noteq> None"
      using resettle_entity_keeps by metis
    then show "\<exists>es h''. resettle_entity i h' = Some (es, h'') \<and> ?R h''"
      using R keeps_trans by blast
  qed (simp add: h3(2))
  then obtain es4 h4 where h4: "each resettle_entity (okeys (hm_entities h3)) h3 = Some (es4, h4)" "keeps H E h1 h4" by blast
  have "home_wf H E h4" "none_held h4" using h4(2) h1(3) by (simp_all add: keeps_def)
  with False h1(1) h2(1) h3(1) h4(1) show ?thesis by (simp add: apply_settings_def Let_def)
qed

end
