(* ===== verification/HomeProps.thy ===== *)
theory HomeProps
  imports HomeSettle ServiceProps
begin

text \<open>
  What holds of every home that requests lead to: it is well formed, none of its operations panics,
  every state it keeps fits its entity, and an operation that is refused changes nothing.
\<close>

section \<open>Updates\<close>

lemma change_update_keeps:
  assumes w: "home_wf H E h" and ch: "\<And>u. update_validate u = Ok () \<Longrightarrow> update_validate (change u) = Ok ()"
  shows "keeps_live H E h (snd (change_update i cx s change h))"
proof -
  have same: "keeps_live H E h h" using keeps_refl[OF w] .
  show ?thesis
  proof (cases "\<exists>old u. oget i (hm_states h) = Some old \<and> es_state old = Some (Update u)")
    case False
    then show ?thesis using same by (auto simp: change_update_def split: option.split state.split)
  next
    case True
    then obtain old u where old: "oget i (hm_states h) = Some old" "es_state old = Some (Update u)" by blast
    obtain e where e: "oget i (hm_entities h) = Some e" "value_ok (en_capabilities e) i old" using wf_valueD[OF w old(1)] by blast
    have "fits (en_capabilities e) (Update (change u)) = fits (en_capabilities e) (Update u)"
      by (cases "en_capabilities e") (simp_all add: fits_def)
    then have fit: "fits (en_capabilities e) (Update (change u)) = Ok ()" "update_validate (change u) = Ok ()"
      using e(2) old(2) ch[of u] by (simp_all add: value_ok_def)
    have "value_ok (en_capabilities e) i (old\<lparr>es_state := Some (Update (change u)),
        es_last_updated := max t (es_last_updated old),
        es_last_changed := (if b then es_last_changed old else max t (es_last_updated old)), es_context := cx\<rparr>)" for t b
      using e(2) fit by (auto simp: value_ok_def)
    from keeps_states[OF wf_put_state[OF w e(1) this]] same old show ?thesis
      by (simp add: change_update_def Let_def)
  qed
qed

lemma skips_beside: "keeps_live H E h h' \<Longrightarrow> keeps_live H E h (h'\<lparr>hm_skipped := a, hm_skips_changed := b\<rparr>)"
  "home_wf H E h \<Longrightarrow> keeps_live H E h (h\<lparr>hm_skipped := a, hm_skips_changed := b\<rparr>)"
  by (simp_all add: keeps_live_def keeps_def wf_frame)

lemma skip_update_keeps: "home_wf H E h \<Longrightarrow> keeps_live H E h (snd (skip_update i cx s h))"
proof -
  assume w: "home_wf H E h"
  have same: "keeps_live H E h h" using keeps_refl[OF w] .
  have "keeps_live H E h (snd (change_update i cx s (\<lambda>u. u\<lparr>up_skipped_version := Some v, up_available := False\<rparr>)
      (h\<lparr>hm_skipped := a, hm_skips_changed := True\<rparr>)))" for v a
  proof (rule keeps_live_trans[OF skips_beside(2)[OF w]])
    show "keeps_live H E (h\<lparr>hm_skipped := a, hm_skips_changed := True\<rparr>)
        (snd (change_update i cx s (\<lambda>u. u\<lparr>up_skipped_version := Some v, up_available := False\<rparr>)
          (h\<lparr>hm_skipped := a, hm_skips_changed := True\<rparr>)))"
      using w by (intro change_update_keeps) (auto simp: wf_frame update_validate_def and_then_Inr_iff split: option.splits)
  qed
  then show ?thesis using same
    by (auto simp: skip_update_def Let_def case_prod_beta split: option.split bool.split)
qed

lemma clear_skipped_keeps: "home_wf H E h \<Longrightarrow> keeps_live H E h (snd (clear_skipped_update i cx s h))"
proof -
  assume w: "home_wf H E h"
  have ch: "keeps_live H E g (snd (change_update i cx s (\<lambda>u. u\<lparr>up_skipped_version := None,
      up_available := differs (up_installed_version u) (up_latest_version u)\<rparr>) g))" if "home_wf H E g" for g
    using that by (intro change_update_keeps) (auto simp: update_validate_def and_then_Inr_iff is_skipped_def split: option.splits)
  have "home_wf H E (h\<lparr>hm_skipped := a, hm_skips_changed := True\<rparr>)" for a using w by (simp add: wf_frame)
  from keeps_live_trans[OF skips_beside(2)[OF w] ch[OF this]] ch[OF w] keeps_refl[OF w]
  show ?thesis by (simp add: clear_skipped_update_def Let_def split: option.split)
qed

lemma begin_update_keeps: "home_wf H E h \<Longrightarrow> keeps_live H E h (snd (begin_update i s h))"
  unfolding begin_update_def
  by (intro change_update_keeps) (auto simp: update_validate_def and_then_Inr_iff is_skipped_def split: option.splits)

lemma fail_update_keeps: "home_wf H E h \<Longrightarrow> keeps_live H E h (snd (fail_update i why s h))"
  unfolding fail_update_def
  by (intro change_update_keeps) (auto simp: update_validate_def and_then_Inr_iff is_skipped_def split: option.splits)

section \<open>Requests\<close>

text \<open>What a home is asked: every operation that changes it.\<close>

datatype 'p home_request =
    DescribeDevice string device_description
  | DescribeEntity string "entity_kind list" entity_description
  | RemoveEntity string string
  | RemoveDevice string string
  | RemoveProtocol string
  | ForgetDevice string
  | ReportState string state_report
  | SetAvailability string target availability
  | MarkUnavailable string
  | ApplySettings "'p settings"
  | RecordCommand string service
  | ForgetCommand string
  | RecordCall string string
  | ForgetCall string string
  | SkipUpdate string ctx
  | ClearSkippedUpdate string ctx
  | BeginUpdate string
  | FailUpdate string string
  | StoreSkips
  | RestoreSkips "((string \<times> string) \<times> string) list"

text \<open>The home afterwards; \<open>None\<close> is a panic.\<close>

definition home_after :: "core_libs \<Rightarrow> 'p home_request \<Rightarrow> stamp \<Rightarrow> 'p home \<Rightarrow> 'p home option" where
  "home_after lib rq s h =
     (case rq of
        DescribeDevice p d \<Rightarrow> map_option snd (describe_device lib p d h)
      | DescribeEntity p kinds d \<Rightarrow> map_option snd (describe_entity p kinds d s h)
      | RemoveEntity p u \<Rightarrow> Some (snd (remove_entity p u h))
      | RemoveDevice p u \<Rightarrow> Some (snd (remove_device p u h))
      | RemoveProtocol p \<Rightarrow> Some (snd (remove_protocol p h))
      | ForgetDevice i \<Rightarrow> Some (snd (forget_device i h))
      | ReportState p r \<Rightarrow> map_option snd (report_state p r s h)
      | SetAvailability p t av \<Rightarrow> Some (snd (set_availability p t av s h))
      | MarkUnavailable p \<Rightarrow> Some (snd (mark_unavailable p s h))
      | ApplySettings st \<Rightarrow> map_option snd (apply_settings lib st s h)
      | RecordCommand i sv \<Rightarrow> Some (record_command lib i sv h)
      | ForgetCommand i \<Rightarrow> Some (forget_command i h)
      | RecordCall p c \<Rightarrow> Some (record_call p c (sm_now s) h)
      | ForgetCall p c \<Rightarrow> Some (forget_call p c h)
      | SkipUpdate i cx \<Rightarrow> Some (snd (skip_update i cx s h))
      | ClearSkippedUpdate i cx \<Rightarrow> Some (snd (clear_skipped_update i cx s h))
      | BeginUpdate i \<Rightarrow> Some (snd (begin_update i s h))
      | FailUpdate i why \<Rightarrow> Some (snd (fail_update i why s h))
      | StoreSkips \<Rightarrow> Some (snd (skips_to_store h))
      | RestoreSkips skips \<Rightarrow> Some (restore_skips skips h))"

text \<open>What the protocols may ask: devices and entities they have handles for, and no entity moved
  between a device in the home and one only found.\<close>

definition home_may :: "(string \<times> string) set \<Rightarrow> (string \<times> string) set \<Rightarrow> 'p home_request \<Rightarrow> 'p home \<Rightarrow> bool" where
  "home_may H E rq h =
     (case rq of
        DescribeDevice p d \<Rightarrow> (p, dd_unique_id d) \<in> H
      | DescribeEntity p kinds d \<Rightarrow> entity_may_be_described H E p d h
      | RemoveDevice p u \<Rightarrow> (p, u) \<in> H
      | _ \<Rightarrow> True)"

inductive home_reached :: "core_libs \<Rightarrow> (string \<times> string) set \<Rightarrow> (string \<times> string) set \<Rightarrow> 'p \<Rightarrow> 'p home \<Rightarrow> bool"
  for lib H E blank where
  home_start: "home_reached lib H E blank (home_default blank)"
| home_step: "home_reached lib H E blank h \<Longrightarrow> home_may H E rq h \<Longrightarrow> home_after lib rq s h = Some h' \<Longrightarrow>
    home_reached lib H E blank h'"

lemma home_after_keeps:
  assumes w: "home_wf H E h" and held: "none_held h" and hd: "handles H E" and may: "home_may H E rq h"
  shows "\<exists>h'. home_after lib rq s h = Some h' \<and> home_wf H E h' \<and> none_held h'"
proof -
  have live: "keeps_live H E h h' \<Longrightarrow> home_wf H E h' \<and> none_held h'" and any: "keeps H E h h' \<Longrightarrow> home_wf H E h' \<and> none_held h'" for h'
    using held by (simp_all add: keeps_live_def keeps_def)
  show ?thesis
  proof (cases rq)
    case (DescribeDevice p d)
    then show ?thesis
      using describe_device_keeps[OF w hd _ held, of p d lib] may any by (fastforce simp: home_after_def home_may_def)
  next
    case (DescribeEntity p kinds d)
    then show ?thesis
      using describe_entity_keeps[OF w hd, of p d kinds s] may any by (fastforce simp: home_after_def home_may_def)
  next
    case (ReportState p r)
    then show ?thesis using report_state_keeps[OF w, of p r s] any by (fastforce simp: home_after_def)
  next
    case (ApplySettings st)
    then show ?thesis using apply_settings_keeps[OF w hd held, of lib st s] by (fastforce simp: home_after_def)
  next
    case (MarkUnavailable p)
    then show ?thesis using set_availability_of_keeps[OF w] live by (simp add: home_after_def mark_unavailable_def)
  next
    case (RemoveDevice p u)
    then show ?thesis using remove_device_keeps[OF w hd, of p u] may any by (simp add: home_after_def home_may_def)
  qed (use w held remove_entity_keeps[OF w, THEN any] remove_protocol_keeps[OF w hd, THEN any] forget_device_keeps[OF w, THEN any]
      set_availability_keeps[OF w, THEN conjunct1, THEN any] skip_update_keeps[OF w, THEN live] clear_skipped_keeps[OF w, THEN live]
      begin_update_keeps[OF w, THEN live] fail_update_keeps[OF w, THEN live] in
      \<open>auto simp: home_after_def wf_frame record_command_def forget_command_def record_call_def forget_call_def Let_def
        skips_to_store_def restore_skips_def split: option.split\<close>)
qed

section \<open>Every home that is reached\<close>


lemma reached_sound: "handles H E \<Longrightarrow> home_reached lib H E blank h \<Longrightarrow> home_wf H E h \<and> none_held h"
proof -
  assume hd: "handles H E" and "home_reached lib H E blank h"
  from this(2) show ?thesis
  proof (induction rule: home_reached.induct)
    case home_start
    show ?case by (simp add: wf_default none_held_default)
  next
    case (home_step h rq s h')
    then show ?case using home_after_keeps[OF _ _ hd, of h rq lib s] by auto
  qed
qed

text \<open>C32. No allowed request panics in a home that allowed requests lead to: wherever the code indexes
  a map, expects an id to be one, or looks for a free id, there is what it looks for. Neither does
  resolving a service call. What is allowed leaves out, as for the invariant above, describing an
  entity again under a device on the other side of being found and being in the home; such a request
  can make a later one panic (\<open>moved_entity_panics\<close>).\<close>

theorem home_never_panics:
  assumes "handles H E" and "home_reached lib H E blank h" and "home_may H E rq h"
  shows "(\<exists>h'. home_after lib rq s h = Some h') \<and> resolve lib i c h \<noteq> None"
proof
  have w: "home_wf H E h" "none_held h" using reached_sound[OF assms(1,2)] by simp_all
  then show "\<exists>h'. home_after lib rq s h = Some h'" using home_after_keeps[OF _ _ assms(1,3)] by blast
  show "resolve lib i c h \<noteq> None"
  proof (cases "oget i (hm_entities h)")
    case (Some e)
    then have "en_id e = i" "entity_id_kind i = Some (caps_kind (en_capabilities e))"
      using wf_entityD[OF w(1) Some] by (simp_all add: entity_ok_def)
    with Some show ?thesis by (simp add: resolve_def)
  qed (simp add: resolve_def)
qed

text \<open>C33. Every state the home keeps is that of an entity it has, of the kind its id says; its value is
  valid and one the entity can have by what it is described to do now; and it was never changed
  after it was updated.\<close>

theorem stored_state_fits:
  assumes "handles H E" and "home_reached lib H E blank h" and "oget i (hm_states h) = Some es"
  shows "\<exists>e. oget i (hm_entities h) = Some e \<and> es_entity es = i \<and> es_last_changed es \<le> es_last_updated es \<and>
    entity_id_kind i = Some (caps_kind (en_capabilities e)) \<and>
    (\<forall>st. es_state es = Some st \<longrightarrow> fits (en_capabilities e) st = Ok () \<and> state_validate st = Ok ())"
proof -
  have w: "home_wf H E h" using reached_sound[OF assms(1,2)] by simp
  obtain e where e: "oget i (hm_entities h) = Some e" "value_ok (en_capabilities e) i es"
    using wf_valueD[OF w assms(3)] by blast
  then show ?thesis using wf_entityD[OF w e(1)] by (simp add: value_ok_def entity_ok_def)
qed

section \<open>What is refused\<close>

lemma redescribe_device_refused: "redescribe_device lib i dd via h = Some (Inl m, h') \<Longrightarrow> h' = h"
  by (auto simp: redescribe_device_def Let_def bind_eq_Some_conv split: if_splits prod.splits)

lemma redescribe_entity_refused: "redescribe_entity p kinds d dev s i h = Some (Inl m, h') \<Longrightarrow> h' = h"
  by (auto simp: redescribe_entity_def Let_def bind_eq_Some_conv split: if_splits prod.splits)

lemma add_entity_not_refused: "add_entity p kinds d dev s h \<noteq> Some (Inl m, h')"
  by (auto simp: add_entity_def Let_def bind_eq_Some_conv)

lemma describe_entity_refused: "describe_entity p kinds d s h = Some (Inl m, h') \<Longrightarrow> h' = h"
  unfolding describe_entity_def
  by (cases "entity_description_validate d"; cases "found_device p d h"; cases "entity_id_of h p (ed_unique_id d)";
      cases "described_device p d h"; cases "the (described_device p d h)")
    (auto simp: add_entity_not_refused split: if_splits dest: redescribe_entity_refused)

lemma take_report_not_refused: "take_report p s parent st attrs replayed i k h \<noteq> Some (Inl m, h')"
  by (auto simp: take_report_def Let_def bind_eq_Some_conv split: if_splits)

lemma report_known_refused:
  "report_known p r s i h = Some (Inl m, h') \<Longrightarrow> \<exists>sk b. h' = h\<lparr>hm_skipped := sk, hm_skips_changed := b\<rparr>"
proof -
  assume r: "report_known p r s i h = Some (Inl m, h')"
  obtain st h1 where f: "fold_state i (p, sr_unique_id r) (sr_state r) h = (st, h1)" by fastforce
  have "\<exists>sk b. h = h\<lparr>hm_skipped := sk, hm_skips_changed := b\<rparr>"
    by (rule exI[of _ "hm_skipped h"], rule exI[of _ "hm_skips_changed h"]) simp
  moreover have "h' = h \<or> h' = h1"
  proof -
    let ?ok = "case sr_state r of None \<Rightarrow> Some (Ok ())
        | Some st \<Rightarrow> Option.bind (oget i (hm_entities h)) (\<lambda>e. Some (entity_fits e st))"
    show ?thesis
      using r unfolding report_known_def f
      by (cases ?ok; cases "the ?ok") (auto simp: bind_eq_Some_conv take_report_not_refused split: if_splits)
  qed
  ultimately show ?thesis using fold_state_home[OF f] by blast
qed

text \<open>C34. A request that is refused leaves the home as it was; a refused report leaves all but the
  versions that were skipped.\<close>

theorem refused_changes_nothing:
  assumes "home_wf H E h"
  shows "(describe_device lib p dd h = Some (Inl m, h') \<longrightarrow> h' = h) \<and>
    (describe_entity p kinds d s h = Some (Inl m, h') \<longrightarrow> h' = h) \<and>
    (remove_entity p u h = (Inl m, h') \<longrightarrow> h' = h) \<and> (remove_device p u h = (Inl m, h') \<longrightarrow> h' = h) \<and>
    (forget_device i h = (Inl m, h') \<longrightarrow> h' = h) \<and> (set_availability p t av s h = (Inl m, h') \<longrightarrow> h' = h) \<and>
    (report_state p r s h = Some (Inl m, h') \<longrightarrow> (\<exists>sk b. h' = h\<lparr>hm_skipped := sk, hm_skips_changed := b\<rparr>))"
proof (intro conjI impI)
  assume "describe_device lib p dd h = Some (Inl m, h')"
  then show "h' = h"
    by (auto simp: describe_device_def add_device_def Let_def split: sum.splits option.splits if_splits prod.splits
        dest: redescribe_device_refused)
next
  assume "describe_entity p kinds d s h = Some (Inl m, h')"
  then show "h' = h" by (rule describe_entity_refused)
next
  assume "remove_entity p u h = (Inl m, h')"
  then show "h' = h" by (auto simp: remove_entity_def split: option.splits)
next
  assume r: "remove_device p u h = (Inl m, h')"
  show "h' = h"
  proof (cases "oget (device_id_for p u) (hm_found h)")
    case none: None
    show ?thesis
    proof (cases "oget (p, u) (hm_device_keys h)")
      case (Some i)
      then obtain d where "oget i (hm_devices h) = Some d" "dv_protocol d = p" "dv_unique_id d = u"
        using wf_device_keyD[OF assms Some] by blast
      with remove_live_device[OF assms, of i d] r show ?thesis by auto
    qed (use none r in \<open>simp add: remove_device_def\<close>)
  qed (use r in \<open>simp add: remove_device_def\<close>)
next
  assume "forget_device i h = (Inl m, h')"
  then show "h' = h" by (auto simp: forget_device_def split: if_splits prod.splits)
next
  assume "set_availability p t av s h = (Inl m, h')"
  then show "h' = h" by (auto simp: set_availability_def Let_def split: target.splits if_splits sum.splits prod.splits)
next
  assume "report_state p r s h = Some (Inl m, h')"
  moreover have "\<exists>sk b. h = h\<lparr>hm_skipped := sk, hm_skips_changed := b\<rparr>"
    by (rule exI[of _ "hm_skipped h"], rule exI[of _ "hm_skips_changed h"]) simp
  ultimately show "\<exists>sk b. h' = h\<lparr>hm_skipped := sk, hm_skips_changed := b\<rparr>"
    by (auto simp: report_state_def Let_def split: sum.splits option.splits dest: report_known_refused)
qed

section \<open>Service calls\<close>

lemma count_service_kind: "count_service lib i caps sv h = Inr sv' \<Longrightarrow> service_kind sv' = service_kind sv"
  by (auto simp: count_service_def split: capabilities.splits service.splits option.splits sum.splits)

lemma resolve_facts:
  assumes "resolve lib i c h = Some (Inr r)"
  shows "\<exists>e k a sv. oget i (hm_entities h) = Some e \<and> entity_id_kind (en_id e) = Some k \<and>
    resolve_action lib i k c h = Inr a \<and> from_data (cl_dates lib) k a (cm_data c) = Inr sv \<and>
    count_service lib i (en_capabilities e) sv h = Inr (rv_service r) \<and>
    supports (en_capabilities e) (rv_service r) = Ok () \<and>
    rv_protocol r = en_protocol e \<and> rv_unique_id r = en_unique_id e"
  using assms by (auto simp: resolve_def bind_eq_Some_conv split: option.splits if_splits sum.splits)

text \<open>C35. A call that resolves may be sent: it goes to the protocol that has the entity, under the
  handle that protocol gave it, is a service of the entity's kind and one the entity supports.\<close>

theorem resolved_call_may_be_sent:
  assumes "resolve lib i c h = Some (Inr r)"
  shows "still_dispatchable h i r \<and>
    (\<exists>e. oget i (hm_entities h) = Some e \<and> entity_id_kind (en_id e) = Some (service_kind (rv_service r)) \<and>
       supports (en_capabilities e) (rv_service r) = Ok ())"
proof -
  obtain e k a sv where r: "oget i (hm_entities h) = Some e" "entity_id_kind (en_id e) = Some k"
    "from_data (cl_dates lib) k a (cm_data c) = Inr sv" "count_service lib i (en_capabilities e) sv h = Inr (rv_service r)"
    "supports (en_capabilities e) (rv_service r) = Ok ()" "rv_protocol r = en_protocol e" "rv_unique_id r = en_unique_id e"
    using resolve_facts[OF assms] by blast
  have "read_service (cl_dates lib) k a (cm_data c) = Some (Some sv)"
    using r(3) by (auto simp: from_data_def and_then_Inr_iff split: if_splits option.splits)
  then have "service_kind (rv_service r) = k" using read_service_is_named count_service_kind[OF r(4)] by metis
  with r show ?thesis by (auto simp: still_dispatchable_def)
qed


text \<open>C37. A protocol's recent calls are kept, at most 1024 of them: the one just sent is known, and
  forgetting one it never got makes it unknown. What other protocols were sent is not touched.\<close>

theorem recent_calls_are_bounded:
  assumes "\<forall>q calls. oget q (hm_calls h) = Some calls \<longrightarrow> length calls \<le> 1024"
  shows "(\<forall>q calls. oget q (hm_calls (record_call p c now h)) = Some calls \<longrightarrow> length calls \<le> 1024) \<and>
    call_known (record_call p c now h) p c now \<and> \<not> call_known (forget_call p c (record_call p c now h)) p c now \<and>
    (\<forall>q. q \<noteq> p \<longrightarrow> call_known (record_call p c now h) q = call_known h q)"
proof -
  define kept where "kept = dropWhile (\<lambda>(_, called). \<not> within_call_window called now) (unwrap_or (oget p (hm_calls h)) [])"
  define calls where "calls = (if length kept = max_recent_calls then tl kept else kept)"
  have rc: "record_call p c now h = h\<lparr>hm_calls := oput p (calls @ [(c, now)]) (hm_calls h)\<rparr>"
    by (simp add: record_call_def Let_def kept_def calls_def)
  have "length (unwrap_or (oget p (hm_calls h)) []) \<le> 1024"
    using assms by (cases "oget p (hm_calls h)") auto
  then have "length kept \<le> 1024" unfolding kept_def using length_dropWhile_le order_trans by blast
  then have "length calls < 1024" by (auto simp: calls_def max_recent_calls_def)
  then have "\<forall>q calls. oget q (hm_calls (record_call p c now h)) = Some calls \<longrightarrow> length calls \<le> 1024"
    using assms by (auto simp: rc oget_oput split: if_splits)
  moreover have "call_known (record_call p c now h) p c now"
    by (simp add: rc call_known_def oget_oput is_some_and_iff within_call_window_def call_window_def)
  moreover have "\<not> call_known (forget_call p c (record_call p c now h)) p c now"
    by (auto simp: rc forget_call_def call_known_def oget_oput is_some_and_iff list_ex_iff)
  moreover have "call_known (record_call p c now h) q = call_known h q" if "q \<noteq> p" for q
    using that by (simp add: rc call_known_def oget_oput fun_eq_iff)
  ultimately show ?thesis by blast
qed

section \<open>A device that is taken out\<close>

lemma remember_exact:
  assumes "distinct (map en_unique_id es)" "e \<in> set es" "oget (en_id e) (hm_entity_descriptions h) = Some x" "oget (en_id e) (hm_states h) = Some st"
  shows "oget (en_unique_id e) (fo_entities (fold (remember h) es f)) = Some x \<and>
    oget (en_unique_id e) (fo_reports (fold (remember h) es f)) = Some \<lparr>sr_unique_id = en_unique_id e, sr_state = es_state st,
      sr_attributes = es_attributes st, sr_caused_by = None, sr_replayed = False\<rparr>"
proof -
  have other: "oget u (fo_entities (remember h a f)) = oget u (fo_entities f) \<and> oget u (fo_reports (remember h a f)) = oget u (fo_reports f)"
    if "u \<noteq> en_unique_id a" for u a f
    using that by (auto simp: remember_def Let_def oget_oput split: option.split)
  have others: "oget u (fo_entities (fold (remember h) es f)) = oget u (fo_entities f) \<and>
      oget u (fo_reports (fold (remember h) es f)) = oget u (fo_reports f)" if "u \<notin> en_unique_id ` set es" for u es f
    using that by (induction es arbitrary: f) (simp_all add: other)
  have here: "oget (en_unique_id e) (fo_entities (remember h e f)) = Some x \<and>
      oget (en_unique_id e) (fo_reports (remember h e f)) = Some \<lparr>sr_unique_id = en_unique_id e, sr_state = es_state st,
        sr_attributes = es_attributes st, sr_caused_by = None, sr_replayed = False\<rparr>" for f
    using assms(3,4) by (simp add: remember_def Let_def oget_oput)
  show ?thesis
    using assms(1,2)
  proof (induction es arbitrary: f)
    case (Cons a es)
    show ?case
    proof (cases "e = a")
      case True
      then show ?thesis using others[of "en_unique_id e" es "remember h e f"] here[of f] Cons.prems(1) by simp
    next
      case False
      then show ?thesis using Cons.IH[of "remember h a f"] Cons.prems by simp
    qed
  qed simp
qed

lemma owned_handles_distinct:
  assumes w: "home_wf H E h"
  shows "distinct (map en_unique_id (owned h i))"
proof -
  have "inj_on en_unique_id (set (owned h i))"
  proof (rule inj_onI)
    fix e f
    assume "e \<in> set (owned h i)" "f \<in> set (owned h i)" and u: "en_unique_id e = en_unique_id f"
    then have e: "oget (en_id e) (hm_entities h) = Some e" "en_device_id e = Some i"
      and f: "oget (en_id f) (hm_entities h) = Some f" "en_device_id f = Some i" using mem_owned[OF w] by auto
    have ok: "entity_ok E h (en_id e) e" "entity_ok E h (en_id f) f" using wf_entityD[OF w] e(1) f(1) by auto
    then have "en_protocol e = en_protocol f" using e(2) f(2) by (auto simp: entity_ok_def)
    with ok u have "Some (en_id e) = Some (en_id f)" unfolding entity_ok_def by metis
    with e(1) f(1) show "e = f" by (metis option.inject)
  qed
  then show ?thesis using owned_distinct[OF w, of i] by (simp add: distinct_map)
qed

text \<open>C38. In a well-formed home, a device a person removes is gone with all its entities, and is found at once:
  as its protocol last described it, with every entity as last described and in its last state.\<close>

theorem forgotten_device_is_found:
  assumes w: "home_wf H E h" and d: "oget i (hm_devices h) = Some d"
  shows "\<exists>evs h' f. forget_device i h = (Ok evs, h') \<and> oget i (hm_devices h') = None \<and>
    (\<forall>j e. oget j (hm_entities h') = Some e \<longrightarrow> en_device_id e \<noteq> Some i) \<and>
    oget i (hm_found h') = Some f \<and> fo_protocol f = dv_protocol d \<and>
    Some (fo_description f) = oget i (hm_device_descriptions h) \<and>
    (\<forall>j e. oget j (hm_entities h) = Some e \<and> en_device_id e = Some i \<longrightarrow>
       oget (en_unique_id e) (fo_entities f) = oget j (hm_entity_descriptions h) \<and>
       (\<exists>r st. oget (en_unique_id e) (fo_reports f) = Some r \<and> oget j (hm_states h) = Some st \<and>
          sr_state r = es_state st \<and> sr_attributes r = es_attributes st))"
proof -
  obtain dd where dd: "oget i (hm_device_descriptions h) = Some dd" using wf_deviceD[OF w d] by (auto simp: device_ok_def)
  define f where "f = fold (remember h) (owned h i) (new_found (dv_protocol d) dd)"
  obtain evs h1 where h1: "remove_device (dv_protocol d) (dv_unique_id d) h = (Ok evs, h1)" "oget i (hm_devices h1) = None"
    "\<forall>j. oget j (hm_entities h1) =
      (if \<exists>e. oget j (hm_entities h) = Some e \<and> en_device_id e = Some i then None else oget j (hm_entities h))"
    using remove_live_device[OF w d] by blast
  obtain h' where h': "forget_device i h = (Ok evs, h')" "hm_devices h' = hm_devices h1" "hm_entities h' = hm_entities h1"
    "oget i (hm_found h') = Some f"
    using d dd h1(1) by (simp add: forget_device_def hold_def Let_def f_def oget_oput)
  have "fo_protocol f = dv_protocol d" "fo_description f = dd" by (simp_all add: f_def remember_fold new_found_def)
  moreover have "oget (en_unique_id e) (fo_entities f) = oget j (hm_entity_descriptions h) \<and>
      (\<exists>r st. oget (en_unique_id e) (fo_reports f) = Some r \<and> oget j (hm_states h) = Some st \<and>
        sr_state r = es_state st \<and> sr_attributes r = es_attributes st)"
    if e: "oget j (hm_entities h) = Some e" "en_device_id e = Some i" for j e
  proof -
    have j: "en_id e = j" "e \<in> set (owned h i)" using wf_entityD[OF w e(1)] e mem_owned[OF w, of e i] by (auto simp: entity_ok_def)
    obtain x where x: "oget j (hm_entity_descriptions h) = Some x" using wf_entityD[OF w e(1)] by (auto simp: entity_ok_def)
    obtain st where st: "oget j (hm_states h) = Some st" using wf_stateD[OF w e(1)] by blast
    from remember_exact[OF owned_handles_distinct[OF w] j(2), where x = x and st = st, unfolded j(1), OF x st] x st
    show ?thesis by (simp add: f_def)
  qed
  moreover have "en_device_id e \<noteq> Some i" if "oget j (hm_entities h') = Some e" for j e
  proof
    assume "en_device_id e = Some i"
    moreover from this have "oget j (hm_entities h) \<noteq> Some e" using that h1(3) h'(3) by auto
    ultimately show False using that h1(3) h'(3) by (simp split: if_splits)
  qed
  ultimately show ?thesis using h' h1(2) dd by simp
qed

section \<open>Ids\<close>

text \<open>C39. A device's id is an id, whatever characters its protocol's handle for it has and however long
  it is: what \<open>DeviceId::try_from\<close> checks, it passes.\<close>

theorem device_id_is_an_id:
  assumes "check_slug ''protocol id'' p = Ok ()"
  shows "check_slug ''device id'' (device_id_for p u) = Ok ()"
  using assms device_id_is_a_slug[of p u] check_slug_ok[of "''device id''" "device_id_for p u" "()"] by simp

lemma slug_passes: "is_slug s \<Longrightarrow> check_slug what s = Ok ()"
  by (rule check_slug_ok[THEN iffD2])

lemma free_id:
  assumes "length ids < 10 ^ 9" "is_slug fallback"
  shows "\<exists>i. unique_id_for (slugify name) fallback (\<lambda>c. is_ok (check_slug what c) \<and> c \<in> set ids) = Some i \<and> is_slug i \<and> i \<notin> set ids"
proof -
  obtain i where "unique_id_for (slugify name) fallback (\<lambda>c. is_ok (check_slug what c) \<and> c \<in> set ids) = Some i"
    "is_slug i" "\<not> (is_ok (check_slug what i) \<and> i \<in> set ids)"
    using unique_id_ends[where taken = "\<lambda>c. is_ok (check_slug what c) \<and> c \<in> set ids" and f = id and ids = ids
        and base = "slugify name" and fallback = fallback] assms slugify_slug
    by auto
  then show ?thesis by (auto simp: slug_passes is_ok_def)
qed

text \<open>C40. Making an id for a new room or floor ends, whatever it is called: with an id that no other
  room or floor has.\<close>

theorem new_room_ids_are_free:
  assumes "length areas < 10 ^ 9" and "length floors < 10 ^ 9"
  shows "(\<exists>i. new_area_id name areas = Some i \<and> check_slug ''area id'' i = Ok () \<and> i \<notin> ar_id ` set areas) \<and>
    (\<exists>i. new_floor_id name' floors = Some i \<and> check_slug ''floor id'' i = Ok () \<and> i \<notin> fr_id ` set floors)"
proof -
  have slug: "is_slug ''area''" "is_slug ''floor''"
    by (simp_all add: is_slug_def slug_like_def slug_char_def is_lower_def is_digit_def byte_of_def slug_max_len_def)
  have ok: "check_slug what i = Ok () \<and> is_ok (check_slug what i)" if "is_slug i" for what i
    using that by (simp add: slug_passes is_ok_def)
  have "list_ex (\<lambda>a. ar_id a = c) areas \<longleftrightarrow> c \<in> set (map ar_id areas)" "list_ex (\<lambda>a. fr_id a = c) floors \<longleftrightarrow> c \<in> set (map fr_id floors)" for c
    by (auto simp: list_ex_iff)
  with free_id[of "map ar_id areas", OF _ slug(1), of name "''area id''"]
    free_id[of "map fr_id floors", OF _ slug(2), of name' "''floor id''"] assms ok
  show ?thesis
    by (auto simp: new_area_id_def new_floor_id_def)
qed

text \<open>A settings key reads back from its written form, and what is read as one is written as it was.\<close>

lemma settings_key_reads_back:
  assumes "check_slug ''protocol id'' p = Ok ()" and "check_unique_id u = Ok ()"
  shows "settings_key_parse (settings_key_text (p, u)) = Ok (p, u) \<and>
    (\<forall>t k. settings_key_parse t = Ok k \<longrightarrow> settings_key_text k = t)"
proof
  have "CHR ''/'' \<notin> set p"
    using assms(1) by (auto simp: is_slug_def slug_like_def slug_char_def list_all_iff is_lower_def is_digit_def byte_of_def)
  then have "split_once CHR ''/'' (p @ CHR ''/'' # u) = Some (p, u)" by (rule split_once_append)
  then show "settings_key_parse (settings_key_text (p, u)) = Ok (p, u)"
    using assms by (simp add: settings_key_parse_def settings_key_text_def del: check_slug_ok)
  show "\<forall>t k. settings_key_parse t = Ok k \<longrightarrow> settings_key_text k = t"
  proof (intro allI impI)
    fix t k
    assume k: "settings_key_parse t = Ok k"
    show "settings_key_text k = t"
    proof (cases "split_once CHR ''/'' t")
      case None
      with k show ?thesis by (simp add: settings_key_parse_def and_then_Inr_iff check_unique_id_def)
    next
      case (Some ab)
      with k have "k = ab" by (auto simp: settings_key_parse_def and_then_Inr_iff split: prod.splits)
      with Some split_once_Some[of "CHR ''/''" t "fst ab" "snd ab"] show ?thesis by (simp add: settings_key_text_def)
    qed
  qed
qed

end
