(* ===== verification/Reach.thy ===== *)
theory Reach
  imports HomeInv
begin

text \<open>
  What one person can see (\<open>crates/irori-core/src/reach.rs\<close>): the things in some rooms, worked out
  from the home, and the home as one person has it.

  Sets are ordered lists without duplicates, as \<open>BTreeSet\<close> iterates. Where walls and shapes are drawn
  is of no concern here: it is a type of the model's own, \<open>'g\<close>. \<open>Core::reach_for\<close> keeps what it worked
  out until the registry changes; that cache is left out, and \<open>reach_for\<close> works it out each time.
\<close>

section \<open>The floor plan\<close>

record 'g placed_area =
  pa_area :: string
  pa_drawn :: 'g

record 'g placed_device =
  pd_device :: "string option"
  pd_entity :: "string option"
  pd_drawn :: 'g

record 'g level =
  lv_walls :: "'g list"
  lv_areas :: "'g placed_area list"
  lv_devices :: "'g placed_device list"

type_synonym 'g floorplan = "(string, 'g level) omap"

section \<open>The things in some rooms\<close>

record rooms =
  ro_areas :: "string list"
  ro_floors :: "string list"
  ro_devices :: "string list"
  ro_entities :: "string list"

definition saved_room :: "'p home \<Rightarrow> string \<Rightarrow> string option" where
  "saved_room h i = Option.bind (oget i (se_devices (hm_settings h))) (\<lambda>s. placement_area (ds_area s))"

definition rooms_of :: "'p home \<Rightarrow> string list \<Rightarrow> rooms" where
  "rooms_of h wanted =
     (let areas = oset_of (filter (\<lambda>i. area_by_id (hm_settings h) i \<noteq> None) wanted);
          floors = oset_of (List.map_filter (\<lambda>i. Option.bind (area_by_id (hm_settings h) i) ar_floor) areas);
          devices = oset_of (map dv_id
            (filter (\<lambda>d. is_some_and (saved_room h (dv_id d)) (\<lambda>room. room \<in> set areas)) (ovals (hm_devices h))));
          entities = oset_of (map en_id
            (filter (\<lambda>e. case en_area_id e of
                 Some room \<Rightarrow> room \<in> set areas
               | None \<Rightarrow> is_some_and (en_device_id e) (\<lambda>d. d \<in> set devices)) (ovals (hm_entities h))))
      in \<lparr>ro_areas = areas, ro_floors = floors, ro_devices = devices, ro_entities = entities\<rparr>)"

datatype home_reach = Whole | InRooms rooms

definition reach_nothing :: home_reach where
  "reach_nothing = InRooms \<lparr>ro_areas = [], ro_floors = [], ro_devices = [], ro_entities = []\<rparr>"

fun is_whole :: "home_reach \<Rightarrow> bool" where
  "is_whole Whole = True"
| "is_whole (InRooms _) = False"

text \<open>\<open>Core::reach_for\<close>: a person's list of rooms, sorted and without repeats; none is the whole home.\<close>

definition reach_for :: "'p home \<Rightarrow> string list option \<Rightarrow> home_reach" where
  "reach_for h rooms = (case rooms of None \<Rightarrow> Whole | Some rs \<Rightarrow> InRooms (rooms_of h (remdups_adj (sort rs))))"

fun reach_entity_ids :: "home_reach \<Rightarrow> string list option" where
  "reach_entity_ids Whole = None"
| "reach_entity_ids (InRooms r) = Some (ro_entities r)"

fun reach_marks :: "home_reach \<Rightarrow> string list option" where
  "reach_marks Whole = None"
| "reach_marks (InRooms r) = Some (map (\<lambda>i. ''a:'' @ i) (ro_areas r) @ map (\<lambda>i. ''f:'' @ i) (ro_floors r) @
     map (\<lambda>i. ''d:'' @ i) (ro_devices r) @ map (\<lambda>i. ''e:'' @ i) (ro_entities r))"

fun sees_entity :: "home_reach \<Rightarrow> string \<Rightarrow> bool" where
  "sees_entity Whole i = True"
| "sees_entity (InRooms r) i = (i \<in> set (ro_entities r))"

fun sees_device :: "home_reach \<Rightarrow> string \<Rightarrow> bool" where
  "sees_device Whole i = True"
| "sees_device (InRooms r) i = (i \<in> set (ro_devices r))"

fun sees_area :: "home_reach \<Rightarrow> string \<Rightarrow> bool" where
  "sees_area Whole i = True"
| "sees_area (InRooms r) i = (i \<in> set (ro_areas r))"

fun sees_floor :: "home_reach \<Rightarrow> string \<Rightarrow> bool" where
  "sees_floor Whole i = True"
| "sees_floor (InRooms r) i = (i \<in> set (ro_floors r))"

section \<open>What is shown of a list\<close>

text \<open>A device is shown without the hub that is not theirs, and without the room it would like.\<close>

definition shown_device :: "home_reach \<Rightarrow> device \<Rightarrow> device" where
  "shown_device r d = d\<lparr>dv_via := (if is_some_and (dv_via d) (\<lambda>via. \<not> sees_device r via) then None else dv_via d),
     dv_suggested_area := None\<rparr>"

definition shown_devices :: "home_reach \<Rightarrow> device list \<Rightarrow> device list" where
  "shown_devices r ds = (if is_whole r then ds else map (shown_device r) (filter (\<lambda>d. sees_device r (dv_id d)) ds))"





definition shown_marker :: "home_reach \<Rightarrow> 'g placed_device \<Rightarrow> bool" where
  "shown_marker r m =
     (case (pd_device m, pd_entity m) of
        (Some d, _) \<Rightarrow> sees_device r d
      | (None, Some e) \<Rightarrow> sees_entity r e
      | (None, None) \<Rightarrow> False)"

definition shown_plan :: "home_reach \<Rightarrow> 'g floorplan \<Rightarrow> 'g floorplan" where
  "shown_plan r plan =
     (if is_whole r then plan
      else map (\<lambda>(i, l). (i, l\<lparr>lv_areas := filter (\<lambda>p. sees_area r (pa_area p)) (lv_areas l),
                             lv_devices := filter (shown_marker r) (lv_devices l)\<rparr>))
             (filter (\<lambda>(i, _). sees_floor r i) plan))"

section \<open>The home as one person has it\<close>

definition seen_devices :: "home_reach \<Rightarrow> 'p home \<Rightarrow> device list" where
  "seen_devices r h = shown_devices r (ovals (hm_devices h))"

definition seen_device :: "home_reach \<Rightarrow> 'p home \<Rightarrow> string \<Rightarrow> device option" where
  "seen_device r h i = find (\<lambda>d. dv_id d = i) (seen_devices r h)"







definition seen_plan :: "home_reach \<Rightarrow> 'g floorplan home \<Rightarrow> 'g floorplan" where
  "seen_plan r h = shown_plan r (se_floorplan (hm_settings h))"

section \<open>A person sees what is in their rooms\<close>





















text \<open>The plan they see has only their floors, the shapes of their rooms and the markers of their things.\<close>

lemma person_sees_their_plan:
  assumes "r = reach_for h (Some rooms)" and "(i, l) \<in> set (seen_plan r h)"
  shows "sees_floor r i \<and> (\<forall>p \<in> set (lv_areas l). sees_area r (pa_area p)) \<and>
    (\<forall>m \<in> set (lv_devices l). (\<exists>d. pd_device m = Some d \<and> sees_device r d) \<or>
       pd_device m = None \<and> (\<exists>e. pd_entity m = Some e \<and> sees_entity r e))"
  using assms
  by (auto simp: seen_plan_def shown_plan_def reach_for_def shown_marker_def split: option.splits)

end
