(* ===== verification/HomeExamples.thy ===== *)
theory HomeExamples
  imports HomeProps Reach
begin

text \<open>
  A home that requests lead to: Irori's own device, with a fan that is off. The properties of \<open>HomeProps\<close>
  hold of it and say something.
\<close>

section \<open>A home\<close>

text \<open>Requests one after the other, as far as they may be asked and do not panic.\<close>

fun home_run :: "core_libs \<Rightarrow> (string \<times> string) set \<Rightarrow> (string \<times> string) set \<Rightarrow> ('p home_request \<times> stamp) list \<Rightarrow> 'p home \<Rightarrow> 'p home option" where
  "home_run lib H E [] h = Some h"
| "home_run lib H E ((rq, s) # rest) h =
     (if home_may H E rq h then Option.bind (home_after lib rq s h) (home_run lib H E rest) else None)"

lemma home_run_reaches: "home_run lib H E rqs h = Some h' \<Longrightarrow> home_reached lib H E blank h \<Longrightarrow> home_reached lib H E blank h'"
proof (induction rqs arbitrary: h)
  case (Cons a rqs)
  then show ?case by (cases a) (auto simp: bind_eq_Some_conv split: if_splits intro: home_step)
qed simp

definition fan_lib :: core_libs where
  "fan_lib = \<lparr>cl_dates = no_dates, cl_lower = map lower_char\<rparr>"

definition fan_devices :: "(string \<times> string) set" where
  "fan_devices = set [(''irori'', ''hub'')]"

definition fan_entities :: "(string \<times> string) set" where
  "fan_entities = set [(''irori'', ''fan'')]"

definition hub :: device_description where
  "hub = \<lparr>dd_unique_id = ''hub'', dd_name = ''Irori'', dd_manufacturer = None, dd_model = None, dd_sw_version = None,
     dd_hw_version = None, dd_serial_number = None, dd_suggested_area = None, dd_via = None\<rparr>"

definition fan :: entity_description where
  "fan = \<lparr>ed_unique_id = ''fan'', ed_name = Some ''Fan'', ed_device = Some ''hub'', ed_object_id = None,
     ed_capabilities = C_Switch None, ed_category = None\<rparr>"

definition fan_off :: state_report where
  "fan_off = \<lparr>sr_unique_id = ''fan'', sr_state = Some (Switch \<lparr>sw_on = False\<rparr>), sr_attributes = [], sr_caused_by = None, sr_replayed = False\<rparr>"

definition fan_requests :: "(unit home_request \<times> stamp) list" where
  "fan_requests = [(DescribeDevice ''irori'' hub, \<lparr>sm_now = 1, sm_context = ''a''\<rparr>),
     (DescribeEntity ''irori'' [K_Switch] fan, \<lparr>sm_now = 2, sm_context = ''b''\<rparr>),
     (ReportState ''irori'' fan_off, \<lparr>sm_now = 3, sm_context = ''c''\<rparr>)]"

definition fan_id :: string where
  "fan_id = ''switch.irori_hub_fan''"

definition fan_home :: "unit home" where
  "fan_home = (case home_run fan_lib fan_devices fan_entities fan_requests (home_default ()) of Some h \<Rightarrow> h | None \<Rightarrow> home_default ())"

lemma fan_home_runs: "home_run fan_lib fan_devices fan_entities fan_requests (home_default ()) \<noteq> None"
  by code_simp

lemma fan_home_facts:
  "map_option es_state (oget fan_id (hm_states fan_home)) = Some (Some (Switch \<lparr>sw_on = False\<rparr>))"
  "map_option dv_name (oget ''irori_hub'' (hm_devices fan_home)) = Some ''Irori''"
  by code_simp+

lemma fan_handles: "handles fan_devices fan_entities"
proof -
  have "is_slug ''irori''"
    by (simp add: is_slug_def slug_like_def slug_char_def is_lower_def is_digit_def byte_of_def slug_max_len_def)
  then show ?thesis by (simp add: handles_def fan_devices_def fan_entities_def)
qed

lemma fan_home_reached: "home_reached fan_lib fan_devices fan_entities () fan_home"
  using fan_home_runs home_run_reaches[OF _ home_start, of fan_lib fan_devices fan_entities fan_requests]
  by (auto simp: fan_home_def)

definition toggle_command :: command where
  "toggle_command = \<lparr>cm_action = toggle_action, cm_data = []\<rparr>"

section \<open>What it shows\<close>

lemma fan_home_ok: "home_wf fan_devices fan_entities fan_home"
  using reached_sound[OF fan_handles fan_home_reached] by simp


theorem home_never_panics_witness:
  "(\<exists>h'. home_after fan_lib (RemoveDevice ''irori'' ''hub'') \<lparr>sm_now = 4, sm_context = ''d''\<rparr> fan_home = Some h')
   \<and> resolve fan_lib fan_id toggle_command fan_home \<noteq> None"
proof -
  have "home_may fan_devices fan_entities (RemoveDevice ''irori'' ''hub'') fan_home"
    by (simp add: home_may_def fan_devices_def)
  from home_never_panics[OF fan_handles fan_home_reached this] show ?thesis by blast
qed

theorem stored_state_fits_witness:
  "\<exists>e. oget fan_id (hm_entities fan_home) = Some e \<and> fits (en_capabilities e) (Switch \<lparr>sw_on = False\<rparr>) = Ok ()"
proof -
  obtain es where es: "oget fan_id (hm_states fan_home) = Some es" "es_state es = Some (Switch \<lparr>sw_on = False\<rparr>)"
    using fan_home_facts(1) by auto
  from stored_state_fits[OF fan_handles fan_home_reached es(1)] es(2) show ?thesis by auto
qed

lemma lamp_refused: "\<not> is_ok (fst (remove_entity ''irori'' ''lamp'' fan_home))"
  by code_simp

theorem refused_changes_nothing_witness: "\<exists>m. remove_entity ''irori'' ''lamp'' fan_home = (Inl m, fan_home)"
proof -
  obtain m h' where r: "remove_entity ''irori'' ''lamp'' fan_home = (Inl m, h')"
    using lamp_refused by (cases "remove_entity ''irori'' ''lamp'' fan_home") (auto simp: is_ok_def split: sum.splits)
  then show ?thesis
    using refused_changes_nothing[OF fan_home_ok, where h' = h' and p = "''irori''" and u = "''lamp''" and m = m] by simp
qed

lemma fan_toggles:
  "case resolve fan_lib fan_id toggle_command fan_home of Some (Inr r) \<Rightarrow> rv_service r = SvSwitch SwitchTurnOn | _ \<Rightarrow> False"
  "case resolve fan_lib fan_id toggle_command (record_command fan_lib fan_id (SvSwitch SwitchTurnOn) fan_home) of
     Some (Inr r) \<Rightarrow> rv_service r = SvSwitch SwitchTurnOff | _ \<Rightarrow> False"
  by code_simp+

theorem resolved_call_may_be_sent_witness:
  "\<exists>r. resolve fan_lib fan_id toggle_command fan_home = Some (Inr r) \<and> still_dispatchable fan_home fan_id r"
proof -
  obtain r where "resolve fan_lib fan_id toggle_command fan_home = Some (Inr r)"
    using fan_toggles(1) by (auto split: option.splits sum.splits)
  with resolved_call_may_be_sent[OF this] show ?thesis by blast
qed


theorem recent_calls_are_bounded_witness:
  "call_known (record_call ''zigbee'' ''c'' 5 (home_default ())) ''zigbee'' ''c'' 5"
  using recent_calls_are_bounded[of "home_default ()" "''zigbee''" "''c''" 5] by (simp add: home_default_def)

theorem forgotten_device_is_found_witness:
  "\<exists>evs h'. forget_device ''irori_hub'' fan_home = (Ok evs, h') \<and> oget ''irori_hub'' (hm_devices h') = None \<and>
     oget ''irori_hub'' (hm_found h') \<noteq> None"
proof -
  obtain d where "oget ''irori_hub'' (hm_devices fan_home) = Some d" using fan_home_facts(2) by auto
  from forgotten_device_is_found[OF fan_home_ok this] show ?thesis by blast
qed

theorem device_id_is_an_id_witness: "check_slug ''device id'' (device_id_for ''zigbee'' ''0x00124B00'') = Ok ()"
  using device_id_is_an_id[of "''zigbee''" "''0x00124B00''"]
  by (simp add: is_slug_def slug_like_def slug_char_def is_lower_def is_digit_def byte_of_def slug_max_len_def)

theorem new_room_ids_are_free_witness:
  "\<exists>i. new_area_id ''Kitchen'' [\<lparr>ar_id = ''kitchen'', ar_name = ''Kitchen'', ar_floor = None\<rparr>] = Some i \<and> i \<noteq> ''kitchen''"
  using new_room_ids_are_free[of "[\<lparr>ar_id = ''kitchen'', ar_name = ''Kitchen'', ar_floor = None\<rparr>]" "[]" "''Kitchen''" "''Attic''"]
  by auto

section \<open>A person with a room\<close>






section \<open>An entity described under a device on the other side\<close>

text \<open>A plug's nameless switch, in the home, is described again under a plug that is only found. Removing
  the first plug then leaves the switch in the home without a device, and the next change of settings
  panics: it has no name, and no device to follow.\<close>

fun unguarded :: "core_libs \<Rightarrow> ('p home_request \<times> stamp) list \<Rightarrow> 'p home \<Rightarrow> 'p home option" where
  "unguarded lib [] h = Some h"
| "unguarded lib ((rq, s) # rest) h = Option.bind (home_after lib rq s h) (unguarded lib rest)"

definition plug :: "string \<Rightarrow> device_description" where
  "plug u = hub\<lparr>dd_unique_id := u, dd_name := ''Plug''\<rparr>"

definition nameless :: "string \<Rightarrow> entity_description" where
  "nameless u = fan\<lparr>ed_name := None, ed_device := Some u\<rparr>"

definition asking :: "unit settings" where
  "asking = (settings_default ())\<lparr>se_ask := True,
     se_devices := [(''zigbee_a'', \<lparr>ds_name = None, ds_description = None, ds_area = Unsaid, ds_added = True\<rparr>)]\<rparr>"

definition moved_requests :: "(unit home_request \<times> stamp) list" where
  "moved_requests = map (\<lambda>rq. (rq, \<lparr>sm_now = 1, sm_context = ''a''\<rparr>))
     [DescribeDevice ''zigbee'' (plug ''a''), DescribeEntity ''zigbee'' [K_Switch] (nameless ''a''), ApplySettings asking,
      DescribeDevice ''zigbee'' (plug ''b''), DescribeEntity ''zigbee'' [K_Switch] (nameless ''b''),
      RemoveDevice ''zigbee'' ''a'']"

lemma moved_entity_panics:
  "(case unguarded fan_lib moved_requests (home_default ()) of
      Some h \<Rightarrow> okeys (hm_devices h) = [] \<and> map en_device_id (ovals (hm_entities h)) = [Some ''zigbee_a'']
        \<and> home_after fan_lib (ApplySettings (settings_default ())) \<lparr>sm_now = 2, sm_context = ''b''\<rparr> h = None
    | None \<Rightarrow> False)"
  by code_simp

end
