(* ===== verification/Spec2Isabelle.thy ===== *)
theory Spec2Isabelle
  imports FlowProps SimProps HomeExamples
begin

text \<open>
  A model of the core of IroriOS: the home, what its entities are and can do, and the automations
  (flows) that run in it.

  \<^bold>\<open>The program.\<close>  Protocols describe devices and entities and report what they are doing; the
  home (\<open>crates/irori-core/src/home.rs\<close>) keeps them, beside what a person has said about them.  Every
  entity has a kind, capabilities and a typed state, and services that change it
  (\<open>crates/irori-types\<close>).  A flow is a graph of nodes and wires (\<open>crates/irori-flow-types\<close>).  The
  engine (\<open>crates/irori-flows/src/engine.rs\<close>) is told what happened and when, and answers with effects:
  calls to make, records to keep.  It reads the home through snapshots of entity states, evaluates
  conditions and expressions against them and tells the time at home (\<open>crates/irori-rules\<close>).  A flow
  is checked before it is armed (\<open>validate.rs\<close> of both crates), and can be tried dry (\<open>sim.rs\<close>).  None
  of this does input or output, so each part is a function of its state and of what it is asked;
  \<open>expect\<close>s and indexing that may panic make it a partial one.

  \<^bold>\<open>Shared theories.\<close>
  \<^item> \<open>Prelude\<close>, \<open>OrdMap\<close>, \<open>Numbers\<close>, \<open>Json\<close>: results and messages, text as UTF-8 bytes, \<open>BTreeMap\<close> as
    ordered association lists, \<open>f64\<close> as rationals with the special values, JSON.
  \<^item> \<open>Durations\<close>, \<open>CronSpec\<close>: compact durations, times of day and crons read from text.

  \<^bold>\<open>Entities and services\<close> (\<open>crates/irori-types\<close>, \<open>RuleService\<close> of \<open>crates/irori-rules/src/rule.rs\<close>).
  \<^item> \<open>Ids\<close>, \<open>States\<close>, \<open>StateRules\<close>: kinds and identifiers, the state of each kind, its validation, the
    state that holds a value.
  \<^item> \<open>Capabilities\<close>: what an entity can do and which states fit it.
  \<^item> \<open>Services\<close>, \<open>ServiceData\<close>: every standard service, what it asks for, whether an entity supports it,
    toggles; a service's data read, checked and written.
  \<^item> \<open>RuleServices\<close>: the services a rule or flow may name, entities of the registry, numbers counted up
    and down.  \<open>ServiceProps\<close> has the promises: data reads back, what is supported fits.

  \<^bold>\<open>Rules\<close> (\<open>crates/irori-rules\<close>).
  \<^item> \<open>Rules\<close>, \<open>Clock\<close>, \<open>Eval\<close>: modes, triggers, conditions and waits with their checks; the next time,
    cron or sun event and windows of time; conditions and expressions with their reads.
  \<^item> \<open>RuleChecks\<close>, \<open>RuleProps\<close>: the static checks of triggers, conditions, calls and expressions against
    the home, and that what they accept evaluates as it was typed.

  \<^bold>\<open>Flows\<close> (\<open>crates/irori-flow-types\<close>, \<open>crates/irori-flows\<close>).
  \<^item> \<open>Flow\<close>, \<open>Trace\<close>: flow documents, and the records runs leave.
  \<^item> \<open>FlowChecks\<close>, \<open>FlowProps\<close>: what is wrong with a flow; \<open>reach\<close> and \<open>topological\<close> against paths along
    the wires, and variables set before they are read on every path.
  \<^item> \<open>Engine\<close>, \<open>EngineStep\<close>: the engine's state, and its operations up to one step of one token, one
    timer and one state change.  \<open>EngineFrame\<close> says what a step leaves alone.
  \<^item> \<open>EngineMeasure\<close>, \<open>EngineLoop\<close>, \<open>EngineTime\<close>: the loops \<open>drive\<close> and \<open>advance\<close> and why they end.
  \<^item> \<open>EngineApi\<close>, \<open>EngineInv\<close>: the public operations, requests as data and the engines they reach.
  \<^item> \<open>EngineSafe\<close>, \<open>EngineLimits\<close>, \<open>EngineArmed\<close>, \<open>EngineAlarms\<close>, \<open>EngineHolds\<close>: the invariants of every
    reached engine: records, modes, armed flows, and a timer for everything that waits.
  \<^item> \<open>EngineProps\<close>, \<open>EngineOps\<close>, \<open>EngineTokens\<close>, \<open>EngineJoins\<close>, \<open>EngineTriggers\<close>: what the engine promises.
  \<^item> \<open>Examples\<close>: a small home for the witnesses, and flows that show defects.
  \<^item> \<open>FlowSim\<close>, \<open>SimProps\<close>: dry runs and backtests; what they answer is what a dry engine hands over
    (\<open>watched\<close>), no call among it, and every record has the engine's invariants.

  \<^bold>\<open>The home\<close> (\<open>crates/irori-core/src/home.rs\<close>, \<open>home/updates.rs\<close>).
  \<^item> \<open>Registry\<close>: floors, areas, devices, descriptions, reports and settings (\<open>irori-types\<close>), and the ids
    that are made (\<open>slugify\<close>, \<open>device_id_for\<close>, \<open>unique_id_for\<close>); \<open>Slugs\<close> shows that they are ids.
  \<^item> \<open>Updates\<close>: what the core folds into the report of an update.
  \<^item> \<open>Home\<close>, \<open>HomeOps\<close>: the record \<open>home\<close> has a field per field of the struct, and every operation that
    changes it is a definition of the method's name; where a method is refused it answers \<open>Err\<close>, where
    the code would panic the definition is \<open>None\<close>.
  \<^item> \<open>HomeInv\<close>: \<open>home_wf\<close>, the invariant over all the maps.  \<open>HomeKeep\<close>, \<open>HomeEntities\<close>, \<open>HomeRemove\<close> and
    \<open>HomeSettle\<close>: each operation keeps it and does not panic.
  \<^item> \<open>HomeProps\<close>, \<open>HomeExamples\<close>: what holds of every home that allowed requests reach, a home they reach,
    and what a request that is not allowed leads to.
  \<^item> \<open>Reach\<close>: the home as a person held to some rooms sees it (\<open>crates/irori-core/src/reach.rs\<close>).

  \<^bold>\<open>What is given.\<close>  The calendar and its time zones (\<open>time_library\<close>, \<open>date_library\<close>), the parser and
  interpreter of the expression language (\<open>cel_library\<close>), the number ranges of the generated JSON
  schemas (\<open>schema_numbers\<close>), the source of run ids, the hash that names a version of a flow and
  \<open>str::to_lowercase\<close> (\<open>core_libs\<close>) are parameters; the engine's are bundled in \<open>env\<close>.  The documents
  are checked against any \<open>service_table\<close>; \<open>standard_services\<close> is the code's.  The drawing of the home
  is a type variable.  Statements about the home fix the handles protocols have (\<open>H\<close> for devices, \<open>E\<close>
  for entities): no two of \<open>H\<close> make the same device id, and \<open>E\<close> has fewer than a billion.  Protocols may
  ask anything in any order with them, except to move an entity between a device in the home and
  one only found, which the code does not survive (\<open>moved_entity_panics\<close>).

  \<^bold>\<open>Termination.\<close>  \<open>drive\<close> ends because each run has at most 256 steps and only a queued firing starts
  a run inside it; \<open>advance\<close> ends because a run's timers come from its steps and a clock's next moment
  is strictly later.  A simulation follows at most 100000 timers, as the code does (\<open>MAX_TICKS\<close>).  The
  search for a free id has no bound of its own in the code and is a \<open>partial_function\<close>; it ends
  because distinct numbers make distinct ids.

  \<^bold>\<open>Not modelled.\<close>  What is input or output: the tasks and channels around the home
  (\<open>crates/irori-core/src/lib.rs\<close>, \<open>host.rs\<close>; the cache of \<open>reach_for\<close> among them), the helpers and the
  mapping of discovery messages, the server, the recorder, configuration files, process
  supervision, HTTP clients and the device protocols; the user interfaces; serde's readers except
  where the services' data is read; the static checks of whole rule documents, which no engine of
  the repository runs.  The equations of the sun's position are floating-point numerics and a
  parameter.
\<close>

end
